(* ===== verification/Prelude.thy ===== *)
theory Prelude
  imports Main "HOL-Library.Word" "HOL-Library.List_Lexorder" "HOL-Library.Product_Lexorder"
begin

text \<open>
  The vocabulary every component shares: machine integers and byte strings, the C++ exceptions the
  code raises and the error monad they propagate in, big-endian readings of byte strings, and the
  generic list lemmas the component proofs lean on.

  An \<open>exn\<close> value is an exception (the classes derived from \<^verbatim>\<open>isc::Exception\<close>, and
  \<^verbatim>\<open>boost::bad_lexical_cast\<close>) or one of
  three ways a C++ run leaves the defined behaviour of the program: a null pointer is dereferenced,
  memory outside a buffer is read, an \<^verbatim>\<open>assert\<close> or a container precondition fails.
  \<open>OutOfFuel\<close> is the outcome of a loop that is still running when the model stops following it.
  The handlers that read \<^verbatim>\<open>catch (const isc::Exception&)\<close> only catch the exceptions of that
  class, those that read \<^verbatim>\<open>catch (...)\<close> every exception.
\<close>

section \<open>Shared types\<close>

named_theorems result_simps \<open>equations of the error monad\<close>
named_theorems byte_simps \<open>facts that evaluate byte strings and their integer readings\<close>
named_theorems wf_intros \<open>introduction rules for the well-formedness invariants\<close>

type_synonym u8 = "8 word"
type_synonym u16 = "16 word"
type_synonym u32 = "32 word"
type_synonym u128 = "128 word"
type_synonym bytes = "u8 list"

datatype exn =
    BadValue | OutOfRange | InvalidOperation | InvalidParameter | Unexpected | NotImplemented
  | AllocFailed | InvalidBufferPosition | InvalidOptionValue | InvalidDataType | BadDataTypeCast
  | MalformedOptionDefinition | DuplicateOptionDefinition | InvalidOptionSpace | RFCViolation
  | NoSuchLease | NoLeaseManager | IOError
  | NoDatabaseName | DbOpenError | DbOperationError | MultipleRecords | DataTruncated
  | DNSMessageFORMERR | EmptyLabel | TooLongLabel | BadLabelType | BadEscape | TooLongName
  | IncompleteName | MissingNameOrigin
  | DhcpConfigError | TypeError | JSONError | ModuleSpecError | DataNotFoundError | CCSessionError | CCSessionInitError | TypeKeywordMissing | InvalidType
  | BadLexicalCast | StdOutOfRange
  | NullPointer | OutOfBounds | AssertionFailed | OutOfFuel

type_synonym 'a result = "exn + 'a"

definition is_isc_exception :: "exn \<Rightarrow> bool" where
  "is_isc_exception e \<longleftrightarrow> e \<notin> {BadLexicalCast, StdOutOfRange, NullPointer, OutOfBounds, AssertionFailed, OutOfFuel}"

definition is_exception :: "exn \<Rightarrow> bool" where
  "is_exception e \<longleftrightarrow> e \<notin> {NullPointer, OutOfBounds, AssertionFailed, OutOfFuel}"

section \<open>The error monad\<close>

fun bindE :: "'a result \<Rightarrow> ('a \<Rightarrow> 'b result) \<Rightarrow> 'b result" where
  "bindE (Inl e) f = Inl e"
| "bindE (Inr x) f = f x"

fun mapE :: "('a \<Rightarrow> 'b result) \<Rightarrow> 'a list \<Rightarrow> 'b list result" where
  "mapE f [] = Inr []"
| "mapE f (x # xs) = bindE (f x) (\<lambda>y. bindE (mapE f xs) (\<lambda>ys. Inr (y # ys)))"

fun foldE :: "('a \<Rightarrow> 's \<Rightarrow> 's result) \<Rightarrow> 'a list \<Rightarrow> 's \<Rightarrow> 's result" where
  "foldE f [] s = Inr s"
| "foldE f (x # xs) s = bindE (f x s) (foldE f xs)"

definition guardE :: "bool \<Rightarrow> exn \<Rightarrow> unit result" where
  "guardE b e = (if b then Inr () else Inl e)"

text \<open>\<^verbatim>\<open>catch (const isc::Exception&)\<close>: only the exceptions of that class are handled.\<close>

definition catch_isc :: "'a result \<Rightarrow> (exn \<Rightarrow> 'a result) \<Rightarrow> 'a result" where
  "catch_isc r h = (case r of Inl e \<Rightarrow> if is_isc_exception e then h e else Inl e | Inr x \<Rightarrow> Inr x)"

definition catch_all :: "'a result \<Rightarrow> (exn \<Rightarrow> 'a result) \<Rightarrow> 'a result" where
  "catch_all r h = (case r of Inl e \<Rightarrow> if is_exception e then h e else Inl e | Inr x \<Rightarrow> Inr x)"

lemma bindE_Inr_iff [result_simps]:
  "bindE m f = Inr y \<longleftrightarrow> (\<exists>x. m = Inr x \<and> f x = Inr y)"
  by (cases m) auto

lemma bindE_Inl_iff [result_simps]:
  "bindE m f = Inl e \<longleftrightarrow> m = Inl e \<or> (\<exists>x. m = Inr x \<and> f x = Inl e)"
  by (cases m) auto

lemma bindE_Inr_right [simp]: "bindE m Inr = m"
  by (cases m) auto

lemma bindE_assoc: "bindE (bindE m f) g = bindE m (\<lambda>x. bindE (f x) g)"
  by (cases m) auto

lemma bindE_cong [fundef_cong]:
  "m = m' \<Longrightarrow> (\<And>x. m' = Inr x \<Longrightarrow> f x = f' x) \<Longrightarrow> bindE m f = bindE m' f'"
  by (cases m') auto

lemma guardE_simps [simp]: "guardE True e = Inr ()" "guardE False e = Inl e"
  by (simp_all add: guardE_def)

lemma guardE_Inr_iff [result_simps]: "guardE b e = Inr u \<longleftrightarrow> b"
  by (simp add: guardE_def)

lemma guardE_Inl_iff [result_simps]: "guardE b e = Inl e' \<longleftrightarrow> \<not> b \<and> e = e'"
  by (auto simp: guardE_def)

lemma mapE_length: "mapE f xs = Inr ys \<Longrightarrow> length ys = length xs"
  by (induction xs arbitrary: ys) (auto simp: result_simps)

lemma mapE_Inr_map: "(\<And>x. x \<in> set xs \<Longrightarrow> f x = Inr (g x)) \<Longrightarrow> mapE f xs = Inr (map g xs)"
  by (induction xs) auto

lemma foldE_append: "foldE f (xs @ ys) s = bindE (foldE f xs s) (foldE f ys)"
proof (induction xs arbitrary: s)
  case (Cons x xs)
  then have "foldE f (xs @ ys) = (\<lambda>s. bindE (foldE f xs s) (foldE f ys))" by auto
  then show ?case by (simp add: bindE_assoc)
qed simp

lemma foldE_invariant:
  assumes "foldE f xs s = Inr t" and "P s"
    and "\<And>x s t. x \<in> set xs \<Longrightarrow> P s \<Longrightarrow> f x s = Inr t \<Longrightarrow> P t"
  shows "P t"
  using assms by (induction xs arbitrary: s) (auto simp: result_simps)

lemma is_isc_exception_simps [simp]:
  "is_isc_exception BadValue" "is_isc_exception OutOfRange" "is_isc_exception InvalidOperation"
  "is_isc_exception InvalidParameter" "is_isc_exception Unexpected"
  "is_isc_exception NotImplemented" "is_isc_exception AllocFailed"
  "is_isc_exception InvalidBufferPosition" "is_isc_exception InvalidOptionValue"
  "is_isc_exception InvalidDataType" "is_isc_exception BadDataTypeCast"
  "is_isc_exception MalformedOptionDefinition" "is_isc_exception DuplicateOptionDefinition"
  "is_isc_exception InvalidOptionSpace" "is_isc_exception RFCViolation"
  "is_isc_exception NoSuchLease" "is_isc_exception NoLeaseManager"
  "is_isc_exception DNSMessageFORMERR" "is_isc_exception IOError"
  "is_isc_exception EmptyLabel" "is_isc_exception TooLongLabel" "is_isc_exception BadLabelType"
  "is_isc_exception BadEscape" "is_isc_exception TooLongName" "is_isc_exception IncompleteName"
  "is_isc_exception MissingNameOrigin" "is_isc_exception DhcpConfigError" "is_isc_exception TypeError"
  "is_isc_exception TypeKeywordMissing" "is_isc_exception InvalidType" "\<not> is_isc_exception BadLexicalCast"
  "\<not> is_isc_exception NullPointer" "\<not> is_isc_exception OutOfBounds"
  "\<not> is_isc_exception AssertionFailed" "\<not> is_isc_exception OutOfFuel"
  by (simp_all add: is_isc_exception_def)

lemma is_exception_isc [simp]: "is_isc_exception e \<Longrightarrow> is_exception e" "is_exception BadLexicalCast"
  "\<not> is_exception NullPointer" "\<not> is_exception OutOfBounds" "\<not> is_exception AssertionFailed" "\<not> is_exception OutOfFuel"
  by (auto simp: is_isc_exception_def is_exception_def)

lemma catch_all_simps [simp]:
  "catch_all (Inr x) h = Inr x"
  "is_exception e \<Longrightarrow> catch_all (Inl e) h = h e"
  "\<not> is_exception e \<Longrightarrow> catch_all (Inl e) h = Inl e"
  by (simp_all add: catch_all_def)

lemma catch_isc_simps [simp]:
  "catch_isc (Inr x) h = Inr x"
  "is_isc_exception e \<Longrightarrow> catch_isc (Inl e) h = h e"
  "\<not> is_isc_exception e \<Longrightarrow> catch_isc (Inl e) h = Inl e"
  by (simp_all add: catch_isc_def)

section \<open>Big-endian byte strings\<close>

text \<open>
  \<open>be_val\<close> is the number a byte string denotes in network byte order; \<open>be_bytes n v\<close> is the string
  of \<open>n\<close> bytes that denotes \<open>v\<close> modulo \<open>256 ^ n\<close>.
\<close>

fun be_val_acc :: "nat \<Rightarrow> bytes \<Rightarrow> nat" where
  "be_val_acc a [] = a"
| "be_val_acc a (b # bs) = be_val_acc (a * 256 + unat b) bs"

definition be_val :: "bytes \<Rightarrow> nat" where
  "be_val bs = be_val_acc 0 bs"

fun be_bytes :: "nat \<Rightarrow> nat \<Rightarrow> bytes" where
  "be_bytes 0 v = []"
| "be_bytes (Suc n) v = be_bytes n (v div 256) @ [word_of_nat (v mod 256)]"

lemma unat_u8_less [simp]: "unat (b :: u8) < 256"
  using unsigned_less [of b, where ?'a = nat] by simp

lemma be_val_acc_eq: "be_val_acc a bs = a * 256 ^ length bs + be_val bs"
proof (induction bs arbitrary: a)
  case Nil
  then show ?case by (simp add: be_val_def)
next
  case (Cons b bs)
  have 1: "be_val_acc a (b # bs) = (a * 256 + unat b) * 256 ^ length bs + be_val bs"
    using Cons.IH [of "a * 256 + unat b"] by simp
  have 2: "be_val (b # bs) = unat b * 256 ^ length bs + be_val bs"
    using Cons.IH [of "unat b"] by (simp add: be_val_def)
  show ?case unfolding 1 2 by (simp add: algebra_simps)
qed

lemma be_val_Nil [simp]: "be_val [] = 0"
  by (simp add: be_val_def)

lemma be_val_Cons [byte_simps]: "be_val (b # bs) = unat b * 256 ^ length bs + be_val bs"
  using be_val_acc_eq [of "unat b" bs] by (simp add: be_val_def)

lemma be_val_append: "be_val (xs @ ys) = be_val xs * 256 ^ length ys + be_val ys"
proof (induction xs)
  case (Cons x xs)
  have "unat x * (256 ^ (length xs + length ys)) = unat x * 256 ^ length xs * 256 ^ length ys"
    by (simp add: power_add)
  with Cons.IH show ?case by (simp add: be_val_Cons add_mult_distrib)
qed simp

lemma be_val_less: "be_val bs < 256 ^ length bs"
proof (induction bs)
  case Nil
  then show ?case by simp
next
  case (Cons b bs)
  have "Suc (unat b) \<le> 256" using unat_u8_less [of b] by linarith
  have "be_val (b # bs) < Suc (unat b) * 256 ^ length bs"
    using Cons.IH by (simp add: be_val_Cons)
  also have "\<dots> \<le> 256 * 256 ^ length bs"
    using \<open>Suc (unat b) \<le> 256\<close> by (rule mult_le_mono1)
  finally show ?case by simp
qed

lemma length_be_bytes [simp]: "length (be_bytes n v) = n"
  by (induction n arbitrary: v) auto

lemma be_val_be_bytes: "be_val (be_bytes n v) = v mod 256 ^ n"
proof (induction n arbitrary: v)
  case 0
  then show ?case by simp
next
  case (Suc n)
  have "unat (word_of_nat (v mod 256) :: u8) = v mod 256"
    by (simp add: unat_of_nat)
  then have "be_val (be_bytes (Suc n) v) = (v div 256 mod 256 ^ n) * 256 + v mod 256"
    using Suc.IH by (simp add: be_val_append be_val_Cons)
  also have "\<dots> = v mod 256 ^ Suc n"
    using mod_mult2_eq [of v 256 "256 ^ n"] by simp
  finally show ?case .
qed

lemma be_bytes_be_val: "be_bytes (length bs) (be_val bs) = bs"
proof (induction bs rule: rev_induct)
  case Nil
  then show ?case by simp
next
  case (snoc b bs)
  have "be_val (bs @ [b]) div 256 = be_val bs" "be_val (bs @ [b]) mod 256 = unat b"
    by (simp_all add: be_val_append be_val_Cons)
  with snoc.IH show ?case by simp
qed

lemma be_val_inject: "length xs = length ys \<Longrightarrow> be_val xs = be_val ys \<Longrightarrow> xs = ys"
  by (metis be_bytes_be_val)

text \<open>Lexicographic comparison of equally long byte strings (\<^verbatim>\<open>memcmp\<close>) is comparison of the
  numbers they denote.\<close>

lemma be_val_less_iff: "length xs = length ys \<Longrightarrow> xs < ys \<longleftrightarrow> be_val xs < be_val ys"
proof (induction xs ys rule: list_induct2)
  case Nil
  then show ?case by simp
next
  case (Cons x xs y ys)
  have bx: "be_val xs < 256 ^ length ys" and by': "be_val ys < 256 ^ length ys"
    using be_val_less [of xs] be_val_less [of ys] Cons.hyps by simp_all
  have mono: "a * 256 ^ n + p < b * 256 ^ n + q" if "a < b" "p < 256 ^ n" for a b n p q :: nat
  proof -
    have "a * 256 ^ n + p < Suc a * 256 ^ n" using that by simp
    also have "\<dots> \<le> b * 256 ^ n" using that by (intro mult_le_mono1) simp
    finally show ?thesis by simp
  qed
  consider "unat x < unat y" | "unat x = unat y" | "unat y < unat x" by linarith
  then show ?case
  proof cases
    case 1
    then show ?thesis using mono [OF 1 bx] Cons.hyps
      by (simp add: be_val_Cons word_less_nat_alt)
  next
    case 2
    then have "x = y" by (simp add: word_unat_eq_iff)
    then show ?thesis using Cons by (simp add: be_val_Cons)
  next
    case 3
    then show ?thesis using mono [OF 3 by', of "be_val xs"] Cons.hyps
      by (auto simp add: be_val_Cons word_less_nat_alt)
  qed
qed

section \<open>Generic list facts\<close>

lemma take_drop_split: "n \<le> length xs \<Longrightarrow> xs = take n xs @ drop n xs"
  by simp

lemma length_take_le [simp]: "n \<le> length xs \<Longrightarrow> length (take n xs) = n"
  by simp

end
