(* ===== verification/IO_Address.thy ===== *)
theory IO_Address
  imports Prelude
begin

unbundle bit_operations_syntax

text \<open>
  IP addresses (\<^verbatim>\<open>src/lib/asiolink/io_address.{h,cc}\<close>) and the integer codecs of
  \<^verbatim>\<open>src/lib/util/io_utilities.h\<close>.

  An address is a 32-bit or a 128-bit word. The class wraps \<^verbatim>\<open>asio::ip::address\<close>, whose
  IPv6 addresses also carry a scope id; every address the servers build comes from
  \<^verbatim>\<open>fromBytes\<close> or a literal without a zone, so its scope id is 0 and is left out. The text
  round trip inside \<^verbatim>\<open>fromBytes\<close> (\<^verbatim>\<open>inet_ntop\<close>, then \<^verbatim>\<open>from_string\<close>) is
  the identity on addresses.
\<close>

section \<open>Integer codecs\<close>

definition readUint16 :: "bytes \<Rightarrow> u16 result" where
  "readUint16 buffer =
     (case buffer of
        b0 # b1 # _ \<Rightarrow> Inr (push_bit 8 (ucast b0) OR ucast b1)
      | _ \<Rightarrow> Inl OutOfBounds)"

definition writeUint16 :: "u16 \<Rightarrow> bytes" where
  "writeUint16 value = [ucast (drop_bit 8 (value AND 0xff00)), ucast (value AND 0x00ff)]"

definition readUint32 :: "bytes \<Rightarrow> u32 result" where
  "readUint32 buffer =
     (case buffer of
        b0 # b1 # b2 # b3 # _ \<Rightarrow>
          Inr (push_bit 24 (ucast b0) OR push_bit 16 (ucast b1) OR push_bit 8 (ucast b2) OR ucast b3)
      | _ \<Rightarrow> Inl OutOfBounds)"

definition writeUint32 :: "u32 \<Rightarrow> bytes" where
  "writeUint32 value =
     [ucast (drop_bit 24 (value AND 0xff000000)), ucast (drop_bit 16 (value AND 0x00ff0000)),
      ucast (drop_bit 8 (value AND 0x0000ff00)), ucast (value AND 0x000000ff)]"

section \<open>Addresses\<close>

datatype ioaddress = IPv4 u32 | IPv6 u128

definition V4ADDRESS_LEN :: nat where "V4ADDRESS_LEN = 4"
definition V6ADDRESS_LEN :: nat where "V6ADDRESS_LEN = 16"
definition AF_INET :: int where "AF_INET = 2"
definition AF_INET6 :: int where "AF_INET6 = 10"

fun isV4 :: "ioaddress \<Rightarrow> bool" where
  "isV4 (IPv4 _) = True"
| "isV4 (IPv6 _) = False"

fun isV6 :: "ioaddress \<Rightarrow> bool" where
  "isV6 (IPv4 _) = False"
| "isV6 (IPv6 _) = True"

fun getFamily :: "ioaddress \<Rightarrow> int" where
  "getFamily (IPv4 _) = AF_INET"
| "getFamily (IPv6 _) = AF_INET6"

fun toBytes :: "ioaddress \<Rightarrow> bytes" where
  "toBytes (IPv4 a) = be_bytes V4ADDRESS_LEN (unat a)"
| "toBytes (IPv6 a) = be_bytes V6ADDRESS_LEN (unat a)"

text \<open>\<open>data\<close> is what the pointer argument points at: a shorter buffer is read past its end.\<close>

definition fromBytes :: "int \<Rightarrow> bytes \<Rightarrow> ioaddress result" where
  "fromBytes family data =
     (if family \<noteq> AF_INET \<and> family \<noteq> AF_INET6 then Inl BadValue
      else if family = AF_INET then
        (if length data < V4ADDRESS_LEN then Inl OutOfBounds
         else Inr (IPv4 (word_of_nat (be_val (take V4ADDRESS_LEN data)))))
      else if length data < V6ADDRESS_LEN then Inl OutOfBounds
      else Inr (IPv6 (word_of_nat (be_val (take V6ADDRESS_LEN data)))))"

fun to_uint32 :: "ioaddress \<Rightarrow> u32 result" where
  "to_uint32 (IPv4 a) = Inr a"
| "to_uint32 (IPv6 a) = Inl BadValue"

definition equals :: "ioaddress \<Rightarrow> ioaddress \<Rightarrow> bool" where
  "equals a b \<longleftrightarrow> a = b"

text \<open>\<^verbatim>\<open>address_v4\<close> compares the host-order integers, \<^verbatim>\<open>address_v6\<close> uses
  \<^verbatim>\<open>memcmp\<close> on the 16 bytes.\<close>

fun lessThan :: "ioaddress \<Rightarrow> ioaddress \<Rightarrow> bool" where
  "lessThan (IPv4 a) (IPv4 b) = (a < b)"
| "lessThan (IPv6 a) (IPv6 b) = (toBytes (IPv6 a) < toBytes (IPv6 b))"
| "lessThan a b = (getFamily a < getFamily b)"

definition smallerEqual :: "ioaddress \<Rightarrow> ioaddress \<Rightarrow> bool" where
  "smallerEqual a b = (if equals a b then True else lessThan a b)"

definition DEFAULT_ADDRESS :: ioaddress where "DEFAULT_ADDRESS = IPv4 0"
definition ADDRESS6_ANY :: ioaddress where "ADDRESS6_ANY = IPv6 0"

text \<open>\<^verbatim>\<open>to_v6().is_link_local()\<close>: the cast throws \<^verbatim>\<open>std::bad_cast\<close>, which is not
  an \<^verbatim>\<open>isc::Exception\<close>, on an IPv4 address; \<^verbatim>\<open>IN6_IS_ADDR_LINKLOCAL\<close> tests the
  first ten bits against \<^verbatim>\<open>fe80::/10\<close>.\<close>

fun is_link_local :: "ioaddress \<Rightarrow> bool result" where
  "is_link_local (IPv4 a) = Inl AssertionFailed"
| "is_link_local (IPv6 a) =
     (case toBytes (IPv6 a) of
        b0 # b1 # _ \<Rightarrow> Inr (b0 = 0xfe \<and> b1 AND 0xc0 = 0x80)
      | _ \<Rightarrow> Inl OutOfBounds)"

section \<open>The order on addresses\<close>

fun addr_val :: "ioaddress \<Rightarrow> nat" where
  "addr_val (IPv4 a) = unat a"
| "addr_val (IPv6 a) = unat a"

fun addr_bits :: "ioaddress \<Rightarrow> nat" where
  "addr_bits (IPv4 _) = 32"
| "addr_bits (IPv6 _) = 128"

definition same_family :: "ioaddress \<Rightarrow> ioaddress \<Rightarrow> bool" where
  "same_family a b \<longleftrightarrow> isV4 a = isV4 b"

lemmas addr_len_defs [simp] = V4ADDRESS_LEN_def V6ADDRESS_LEN_def AF_INET_def AF_INET6_def

lemma unat_u32_less: "unat (a :: u32) < 2 ^ 32"
  using unsigned_less [of a, where ?'a = nat] by simp

lemma unat_u128_less: "unat (a :: u128) < 2 ^ 128"
  using unsigned_less [of a, where ?'a = nat] by simp

lemma addr_val_less: "addr_val a < 2 ^ addr_bits a"
  by (cases a) (use unat_u32_less unat_u128_less in auto)

lemma length_toBytes: "length (toBytes a) = addr_bits a div 8"
  by (cases a) auto

lemma be_val_toBytes: "be_val (toBytes a) = addr_val a"
proof (cases a)
  case (IPv4 w)
  then show ?thesis using unat_u32_less [of w] by (simp add: be_val_be_bytes)
next
  case (IPv6 w)
  then show ?thesis using unat_u128_less [of w] by (simp add: be_val_be_bytes)
qed

lemma addr_eqI: "same_family a b \<Longrightarrow> addr_val a = addr_val b \<Longrightarrow> a = b"
  by (cases a; cases b) (auto simp: same_family_def word_unat_eq_iff)

lemma lessThan_IPv6: "lessThan (IPv6 a) (IPv6 b) \<longleftrightarrow> a < b"
  using be_val_less_iff [of "toBytes (IPv6 a)" "toBytes (IPv6 b)"]
    be_val_toBytes [of "IPv6 a"] be_val_toBytes [of "IPv6 b"]
  by (simp add: length_toBytes word_less_nat_alt)

lemma lessThan_val: "same_family a b \<Longrightarrow> lessThan a b \<longleftrightarrow> addr_val a < addr_val b"
  by (cases a; cases b)
    (auto simp: same_family_def word_less_nat_alt lessThan_IPv6 simp del: lessThan.simps(2))

lemma smallerEqual_val: "same_family a b \<Longrightarrow> smallerEqual a b \<longleftrightarrow> addr_val a \<le> addr_val b"
  using addr_eqI [of a b]
  by (auto simp: smallerEqual_def equals_def lessThan_val le_less)

lemma smallerEqual_mixed:
  "\<not> same_family a b \<Longrightarrow> smallerEqual a b \<longleftrightarrow> isV4 a"
  by (cases a; cases b) (auto simp: same_family_def smallerEqual_def equals_def)

instantiation ioaddress :: linorder
begin
definition less_ioaddress :: "ioaddress \<Rightarrow> ioaddress \<Rightarrow> bool" where
  "less_ioaddress a b = lessThan a b"
definition less_eq_ioaddress :: "ioaddress \<Rightarrow> ioaddress \<Rightarrow> bool" where
  "less_eq_ioaddress a b = smallerEqual a b"
instance
proof
  fix x y z :: ioaddress
  show "(x < y) = (x \<le> y \<and> \<not> y \<le> x)"
    by (cases x; cases y)
      (auto simp: less_ioaddress_def less_eq_ioaddress_def smallerEqual_def equals_def lessThan_IPv6
        simp del: lessThan.simps(2))
  show "x \<le> x" by (simp add: less_eq_ioaddress_def smallerEqual_def equals_def)
  show "x \<le> y \<Longrightarrow> y \<le> z \<Longrightarrow> x \<le> z"
    by (cases x; cases y; cases z)
      (auto simp: less_eq_ioaddress_def smallerEqual_def equals_def lessThan_IPv6
        simp del: lessThan.simps(2) split: if_splits)
  show "x \<le> y \<Longrightarrow> y \<le> x \<Longrightarrow> x = y"
    by (cases x; cases y)
      (auto simp: less_eq_ioaddress_def smallerEqual_def equals_def lessThan_IPv6
        simp del: lessThan.simps(2) split: if_splits)
  show "x \<le> y \<or> y \<le> x"
    by (cases x; cases y)
      (auto simp: less_eq_ioaddress_def smallerEqual_def equals_def lessThan_IPv6
        simp del: lessThan.simps(2))
qed
end

lemma lessThan_less: "lessThan a b \<longleftrightarrow> a < b"
  by (simp add: less_ioaddress_def)

lemma smallerEqual_le: "smallerEqual a b \<longleftrightarrow> a \<le> b"
  by (simp add: less_eq_ioaddress_def)

section \<open>Round trips\<close>

lemma fromBytes_toBytes: "fromBytes (getFamily a) (toBytes a @ rest) = Inr a"
proof -
  have "addr_bits a div 8 = length (toBytes a)" by (simp add: length_toBytes)
  then show ?thesis
    using be_val_toBytes [of a] by (cases a) (auto simp: fromBytes_def)
qed

lemma toBytes_fromBytes4:
  "fromBytes AF_INET data = Inr a \<Longrightarrow> toBytes a = take 4 data"
  using be_bytes_be_val [of "take 4 data"] be_val_less [of "take 4 data"]
  by (auto simp: fromBytes_def unat_of_nat min_def split: if_splits)

lemma toBytes_fromBytes6:
  "fromBytes AF_INET6 data = Inr a \<Longrightarrow> toBytes a = take 16 data"
  using be_bytes_be_val [of "take 16 data"] be_val_less [of "take 16 data"]
  by (auto simp: fromBytes_def unat_of_nat min_def split: if_splits)

lemma length_writeUint [simp]: "length (writeUint16 v) = 2" "length (writeUint32 w) = 4"
  by (simp_all add: writeUint16_def writeUint32_def)

lemma byte_masks:
  "(0x00ff :: u16) = mask 8" "(0xff00 :: u16) = push_bit 8 (mask 8)"
  "(0xff000000 :: u32) = push_bit 24 (mask 8)" "(0x00ff0000 :: u32) = push_bit 16 (mask 8)"
  "(0x0000ff00 :: u32) = push_bit 8 (mask 8)" "(0x000000ff :: u32) = mask 8"
  by (simp_all add: mask_eq_exp_minus_1 push_bit_eq_mult)

lemma readUint16_writeUint16 [byte_simps]: "readUint16 (writeUint16 v @ rest) = Inr v"
proof -
  have "push_bit 8 (ucast (ucast (drop_bit 8 (v AND 0xff00)) :: u8)) OR
      ucast (ucast (v AND 0x00ff) :: u8) = v"
    unfolding byte_masks by (rule bit_word_eqI) (auto simp: bit_simps)
  then show ?thesis by (simp add: readUint16_def writeUint16_def)
qed

lemma readUint32_writeUint32 [byte_simps]: "readUint32 (writeUint32 v @ rest) = Inr v"
proof -
  have "push_bit 24 (ucast (ucast (drop_bit 24 (v AND 0xff000000)) :: u8)) OR
      push_bit 16 (ucast (ucast (drop_bit 16 (v AND 0x00ff0000)) :: u8)) OR
      push_bit 8 (ucast (ucast (drop_bit 8 (v AND 0x0000ff00)) :: u8)) OR
      ucast (ucast (v AND 0x000000ff) :: u8) = v" (is "?w = v")
  proof (rule bit_word_eqI)
    fix n assume "n < LENGTH(32)"
    then consider "n < 8" | "8 \<le> n" "n < 16" | "16 \<le> n" "n < 24" | "24 \<le> n" "n < 32"
      by fastforce
    then show "bit ?w n = bit v n" unfolding byte_masks by cases (auto simp: bit_simps)
  qed
  then show ?thesis by (simp add: readUint32_def writeUint32_def)
qed

end
