(* ===== verification/Addr_Utilities.thy ===== *)
theory Addr_Utilities
  imports IO_Address
begin

unbundle bit_operations_syntax

text \<open>
  First and last address of a prefix, and netmasks
  (\<^verbatim>\<open>src/lib/dhcpsrv/addr_utilities.cc\<close>). IPv4 works on the host-order word with a mask
  table; IPv6 rewrites the 16 packed bytes in place, first the byte the prefix ends in and then, in a
  loop, the bytes behind it. Both are shown to compute the same thing, the two ends of the block of
  addresses that share their first \<open>len\<close> bits.
\<close>

section \<open>Model\<close>

definition bitMask4 :: "u32 list" where
  "bitMask4 =
     [0xffffffff, 0x7fffffff, 0x3fffffff, 0x1fffffff, 0x0fffffff, 0x07ffffff, 0x03ffffff, 0x01ffffff,
      0x00ffffff, 0x007fffff, 0x003fffff, 0x001fffff, 0x000fffff, 0x0007ffff, 0x0003ffff, 0x0001ffff,
      0x0000ffff, 0x00007fff, 0x00003fff, 0x00001fff, 0x00000fff, 0x000007ff, 0x000003ff, 0x000001ff,
      0x000000ff, 0x0000007f, 0x0000003f, 0x0000001f, 0x0000000f, 0x00000007, 0x00000003, 0x00000001,
      0x00000000]"

definition bitMask6 :: bytes where
  "bitMask6 = [0, 0x80, 0xc0, 0xe0, 0xf0, 0xf8, 0xfc, 0xfe, 0xff]"

text \<open>\<^verbatim>\<open>for (i = k; i < sizeof(packed); ++i) packed[i] = c\<close>\<close>

definition fill_from :: "u8 \<Rightarrow> nat \<Rightarrow> bytes \<Rightarrow> bytes" where
  "fill_from c k packed = fold (\<lambda>i p. p[i := c]) [k..<length packed] packed"

definition firstAddrInPrefix6 :: "ioaddress \<Rightarrow> u8 \<Rightarrow> ioaddress result" where
  "firstAddrInPrefix6 prefix len =
     (if unat len > 128 then Inl BadValue
      else
        let packed = toBytes prefix;
            k = unat len div 8;
            (packed, len') =
              (if unat len mod 8 \<noteq> 0
               then (packed[k := packed ! k AND bitMask6 ! (unat len mod 8)], (k + 1) * 8)
               else (packed, unat len))
        in fromBytes AF_INET6 (fill_from 0 (len' div 8) packed))"

definition firstAddrInPrefix4 :: "ioaddress \<Rightarrow> u8 \<Rightarrow> ioaddress result" where
  "firstAddrInPrefix4 prefix len =
     (if unat len > 32 then Inl BadValue
      else bindE (to_uint32 prefix) (\<lambda>addr. Inr (IPv4 (addr AND NOT (bitMask4 ! unat len)))))"

definition lastAddrInPrefix4 :: "ioaddress \<Rightarrow> u8 \<Rightarrow> ioaddress result" where
  "lastAddrInPrefix4 prefix len =
     (if unat len > 32 then Inl BadValue
      else bindE (to_uint32 prefix) (\<lambda>addr. Inr (IPv4 (addr OR bitMask4 ! unat len))))"

definition lastAddrInPrefix6 :: "ioaddress \<Rightarrow> u8 \<Rightarrow> ioaddress result" where
  "lastAddrInPrefix6 prefix len =
     (if unat len > 128 then Inl BadValue
      else
        let packed = toBytes prefix;
            k = unat len div 8;
            (packed, len') =
              (if unat len mod 8 \<noteq> 0
               then (packed[k := packed ! k OR NOT (bitMask6 ! (unat len mod 8))], (k + 1) * 8)
               else (packed, unat len))
        in fromBytes AF_INET6 (fill_from 0xff (len' div 8) packed))"

definition firstAddrInPrefix :: "ioaddress \<Rightarrow> u8 \<Rightarrow> ioaddress result" where
  "firstAddrInPrefix prefix len =
     (if isV4 prefix then firstAddrInPrefix4 prefix len else firstAddrInPrefix6 prefix len)"

definition lastAddrInPrefix :: "ioaddress \<Rightarrow> u8 \<Rightarrow> ioaddress result" where
  "lastAddrInPrefix prefix len =
     (if isV4 prefix then lastAddrInPrefix4 prefix len else lastAddrInPrefix6 prefix len)"

definition getNetmask4 :: "u8 \<Rightarrow> ioaddress result" where
  "getNetmask4 len =
     (if unat len > 32 then Inl BadValue else Inr (IPv4 (NOT (bitMask4 ! unat len))))"

section \<open>Masks on words and on byte strings\<close>

lemma unat_and_not_mask:
  fixes w :: "'a::len word"
  shows "unat (w AND NOT (mask m)) = unat w div 2 ^ m * 2 ^ m"
proof -
  have "unat (w AND NOT (mask m)) = push_bit m (drop_bit m (unat w))"
    by (rule bit_eqI) (auto simp: bit_simps dest: bit_imp_le_length)
  then show ?thesis by (simp add: push_bit_eq_mult drop_bit_eq_div)
qed

lemma unat_or_mask:
  fixes w :: "'a::len word"
  assumes "m \<le> LENGTH('a)"
  shows "unat (w OR mask m) = unat w div 2 ^ m * 2 ^ m + (2 ^ m - 1)"
proof -
  have "unat (w OR mask m) = push_bit m (drop_bit m (unat w)) OR mask m"
    using assms by (intro bit_eqI) (auto simp: bit_simps)
  also have "\<dots> = push_bit m (drop_bit m (unat w)) + mask m"
    by (rule disjunctive_add [symmetric]) (auto simp: bit_simps)
  finally show ?thesis
    by (simp add: push_bit_eq_mult drop_bit_eq_div mask_eq_exp_minus_1)
qed

lemma bitMask4_mask: "n \<le> 32 \<Longrightarrow> bitMask4 ! n = mask (32 - n)"
proof -
  have "\<forall>n \<in> set [0..<33]. bitMask4 ! n = mask (32 - n)" by code_simp
  then show "n \<le> 32 \<Longrightarrow> bitMask4 ! n = mask (32 - n)" by auto
qed

lemma bitMask6_mask: "n \<le> 8 \<Longrightarrow> bitMask6 ! n = NOT (mask (8 - n))"
proof -
  have "\<forall>n \<in> set [0..<9]. bitMask6 ! n = NOT (mask (8 - n))" by code_simp
  then show "n \<le> 8 \<Longrightarrow> bitMask6 ! n = NOT (mask (8 - n))" by auto
qed

lemma fill_loop:
  "k \<le> n \<Longrightarrow> n \<le> length xs \<Longrightarrow>
   fold (\<lambda>i p. p[i := c]) [k..<n] xs = take k xs @ replicate (n - k) c @ drop n xs"
proof (induction n)
  case (Suc n)
  show ?case
  proof (cases "k \<le> n")
    case True
    have "drop n xs = xs ! n # drop (Suc n) xs"
      using Suc.prems by (simp add: Cons_nth_drop_Suc)
    with True Suc show ?thesis
      by (simp add: list_update_append Suc_diff_le replicate_append_same [symmetric])
  next
    case False
    with Suc.prems show ?thesis by (simp add: le_Suc_eq)
  qed
qed simp

lemma fill_from_eq:
  "k \<le> length xs \<Longrightarrow> fill_from c k xs = take k xs @ replicate (length xs - k) c"
  by (simp add: fill_from_def fill_loop)

lemma be_val_replicate_0 [simp]: "be_val (replicate n 0) = 0"
  by (induction n) (auto simp: byte_simps)

lemma be_val_replicate_ff [simp]: "be_val (replicate n 0xff) = 256 ^ n - 1"
proof (induction n)
  case (Suc n)
  have "1 \<le> (256::nat) ^ n" by simp
  with Suc show ?case by (simp add: byte_simps)
qed simp

section \<open>Both families compute the ends of an address block\<close>

text \<open>\<open>block_of s v\<close> is the number of the block of size \<open>2 ^ s\<close> that \<open>v\<close> lies in.\<close>

definition host_bits :: "ioaddress \<Rightarrow> u8 \<Rightarrow> nat" where
  "host_bits a len = addr_bits a - unat len"

definition block_of :: "ioaddress \<Rightarrow> u8 \<Rightarrow> nat" where
  "block_of a len = addr_val a div 2 ^ host_bits a len"

lemma split_byte_div:
  assumes "L < 256 ^ j" "m \<le> 8"
  shows "((H * 256 + b) * 256 ^ j + L) div 2 ^ (m + 8 * j) = H * 2 ^ (8 - m) + b div (2 ^ m :: nat)"
proof -
  have p: "(2::nat) ^ (m + 8 * j) = 256 ^ j * 2 ^ m" by (simp add: power_add power_mult)
  have q: "256 = 2 ^ (8 - m) * (2 ^ m :: nat)"
    using \<open>m \<le> 8\<close> power_add [of "2::nat" "8 - m" m] by simp
  have "((H * 256 + b) * 256 ^ j + L) div 2 ^ (m + 8 * j) =
      ((H * 256 + b) * 256 ^ j + L) div 256 ^ j div 2 ^ m"
    by (simp only: p div_mult2_eq)
  also have "\<dots> = (H * 256 + b) div 2 ^ m"
    using \<open>L < 256 ^ j\<close> by simp
  also have "\<dots> = (H * 2 ^ (8 - m) * 2 ^ m + b) div 2 ^ m"
    by (simp only: q mult.assoc)
  also have "\<dots> = H * 2 ^ (8 - m) + b div 2 ^ m" by simp
  finally show ?thesis .
qed

lemma be_val_split:
  assumes "k < length xs"
  shows "be_val xs =
    (be_val (take k xs) * 256 + unat (xs ! k)) * 256 ^ (length xs - Suc k) + be_val (drop (Suc k) xs)"
proof -
  have "xs = take k xs @ [xs ! k] @ drop (Suc k) xs"
    using assms by (simp add: id_take_nth_drop [symmetric])
  then have "be_val xs = be_val (take k xs @ [xs ! k] @ drop (Suc k) xs)" by simp
  also have "\<dots> = (be_val (take k xs) * 256 + unat (xs ! k)) * 256 ^ (length xs - Suc k)
      + be_val (drop (Suc k) xs)"
    using assms by (simp add: be_val_append byte_simps add_mult_distrib flip: power_Suc)
  finally show ?thesis .
qed

lemma masked_bytes_val:
  assumes k: "k < length xs" and m: "m \<le> 8" and s: "s = m + 8 * (length xs - Suc k)"
  shows "be_val (take k xs @ [xs ! k AND NOT (mask m)] @ replicate (length xs - Suc k) 0)
           = be_val xs div 2 ^ s * 2 ^ s" (is "?first = _")
    and "be_val (take k xs @ [xs ! k OR mask m] @ replicate (length xs - Suc k) 0xff)
           = be_val xs div 2 ^ s * 2 ^ s + (2 ^ s - 1)" (is "?last = _")
proof -
  let ?H = "be_val (take k xs)" and ?b = "unat (xs ! k)" and ?j = "length xs - Suc k"
  have "be_val (drop (Suc k) xs) < 256 ^ ?j"
    using be_val_less [of "drop (Suc k) xs"] by simp
  then have q: "be_val xs div 2 ^ s = ?H * 2 ^ (8 - m) + ?b div 2 ^ m"
    unfolding s be_val_split [OF k] by (rule split_byte_div [OF _ m])
  have e: "256 = 2 ^ (8 - m) * (2 ^ m :: nat)"
    using m power_add [of "2::nat" "8 - m" m] by simp
  have p: "(2::nat) ^ s = 2 ^ m * 256 ^ ?j" by (simp add: s power_add power_mult)
  have H: "?H * 256 * 256 ^ ?j = ?H * 2 ^ (8 - m) * 2 ^ s" by (simp only: p e mult_ac)
  have "?first = ?H * 256 * 256 ^ ?j + ?b div 2 ^ m * 2 ^ m * 256 ^ ?j"
    using k by (simp add: be_val_append byte_simps unat_and_not_mask)
  also have "\<dots> = be_val xs div 2 ^ s * 2 ^ s"
    unfolding H q by (simp add: p add_mult_distrib)
  finally show "?first = be_val xs div 2 ^ s * 2 ^ s" .
  have "1 \<le> (2::nat) ^ m" "1 \<le> (256::nat) ^ ?j" by simp_all
  then have one: "(2 ^ m - 1) * 256 ^ ?j + (256 ^ ?j - 1) = 2 ^ s - (1::nat)"
    unfolding p by (simp add: diff_mult_distrib)
  have u: "unat (xs ! k OR mask m) = ?b div 2 ^ m * 2 ^ m + (2 ^ m - 1)"
    by (rule unat_or_mask) (simp add: m)
  have "?last = ?H * 256 * 256 ^ ?j + (?b div 2 ^ m * 2 ^ m + (2 ^ m - 1)) * 256 ^ ?j + (256 ^ ?j - 1)"
    by (simp only: be_val_append be_val_Cons be_val_Nil be_val_replicate_ff length_append
        u length_replicate list.size add_0_left add_0_right power_0 power_Suc power_add
        mult_1_right mult_1_left mult.assoc add.assoc)
  also have "\<dots> = be_val xs div 2 ^ s * 2 ^ s + ((2 ^ m - 1) * 256 ^ ?j + (256 ^ ?j - 1))"
    unfolding H q by (simp only: p add_mult_distrib mult.assoc add.assoc)
  finally show "?last = be_val xs div 2 ^ s * 2 ^ s + (2 ^ s - 1)" by (simp only: one)
qed

lemma prefix_cases6:
  assumes "unat len \<le> 128"
  obtains (whole) k where "unat len mod 8 = 0" "k = unat len div 8" "k \<le> 16" "128 - unat len = 8 * (16 - k)"
  | (partial) k m where "unat len mod 8 \<noteq> 0" "k = unat len div 8" "k < 16" "m = 8 - unat len mod 8" "m \<le> 8"
      "128 - unat len = m + 8 * (16 - Suc k)"
proof (cases "unat len mod 8 = 0")
  case True
  then obtain q where q: "unat len = 8 * q" by auto
  then have "128 - unat len = 8 * (16 - q)" by (simp add: right_diff_distrib')
  with True q whole assms show ?thesis by simp
next
  case False
  define q where "q = unat len div 8"
  have q: "unat len = 8 * q + unat len mod 8" by (simp add: q_def)
  moreover have "0 < unat len mod 8" "unat len mod 8 < 8" using False by auto
  ultimately have "q < 16" "128 - unat len = (8 - unat len mod 8) + 8 * (16 - Suc q)"
    using assms by linarith+
  then show ?thesis using partial [OF False refl _ refl] by (simp add: q_def)
qed

text \<open>Zeroing whole bytes is the case \<open>m = 8\<close> of the partial byte, one byte further left.\<close>

lemma whole_bytes_val:
  assumes k: "k \<le> length xs" and s: "s = 8 * (length xs - k)"
  shows "be_val (take k xs @ replicate (length xs - k) 0) = be_val xs div 2 ^ s * 2 ^ s"
    and "be_val (take k xs @ replicate (length xs - k) 0xff) = be_val xs div 2 ^ s * 2 ^ s + (2 ^ s - 1)"
proof -
  have p: "(2::nat) ^ s = 256 ^ (length xs - k)" by (simp add: s power_mult)
  have "be_val (drop k xs) < 256 ^ (length xs - k)" using be_val_less [of "drop k xs"] by simp
  moreover have "be_val xs = be_val (take k xs) * 256 ^ (length xs - k) + be_val (drop k xs)"
    using be_val_append [of "take k xs" "drop k xs"] by simp
  ultimately have "be_val xs div 2 ^ s = be_val (take k xs)" by (simp add: p)
  then show "be_val (take k xs @ replicate (length xs - k) 0) = be_val xs div 2 ^ s * 2 ^ s"
    and "be_val (take k xs @ replicate (length xs - k) 0xff) = be_val xs div 2 ^ s * 2 ^ s + (2 ^ s - 1)"
    by (simp_all add: be_val_append p)
qed

lemma fill_masked:
  assumes "k < length xs"
  shows "fill_from c (Suc k) (xs[k := b]) = take k xs @ [b] @ replicate (length xs - Suc k) c"
  using assms by (simp add: fill_from_eq take_Suc_conv_app_nth)

lemma unat_of_nat_u128: "n < 2 ^ 128 \<Longrightarrow> unat (word_of_nat n :: u128) = n"
  by (simp add: unat_of_nat)

lemma AddrInPrefix6_whole:
  fixes prefix :: ioaddress and len :: u8
  assumes "unat len \<le> 128" "unat len mod 8 = 0"
  defines "xs \<equiv> toBytes prefix" and "k \<equiv> unat len div 8"
  shows "k \<le> length xs \<Longrightarrow> firstAddrInPrefix6 prefix len =
      fromBytes AF_INET6 (take k xs @ replicate (length xs - k) 0)"
    and "k \<le> length xs \<Longrightarrow> lastAddrInPrefix6 prefix len =
      fromBytes AF_INET6 (take k xs @ replicate (length xs - k) 0xff)"
  using assms(1,2) unfolding firstAddrInPrefix6_def lastAddrInPrefix6_def xs_def k_def
  by (simp_all add: fill_from_eq)

lemma AddrInPrefix6_partial:
  fixes prefix :: ioaddress and len :: u8
  assumes "unat len \<le> 128" "unat len mod 8 \<noteq> 0"
  defines "xs \<equiv> toBytes prefix" and "k \<equiv> unat len div 8" and "m \<equiv> 8 - unat len mod 8"
  shows "k < length xs \<Longrightarrow> firstAddrInPrefix6 prefix len =
      fromBytes AF_INET6 (take k xs @ [xs ! k AND NOT (mask m)] @ replicate (length xs - Suc k) 0)"
    and "k < length xs \<Longrightarrow> lastAddrInPrefix6 prefix len =
      fromBytes AF_INET6 (take k xs @ [xs ! k OR mask m] @ replicate (length xs - Suc k) 0xff)"
proof -
  have "bitMask6 ! (unat len mod 8) = NOT (mask m)"
    unfolding m_def by (rule bitMask6_mask) (simp add: less_imp_le)
  then show "k < length xs \<Longrightarrow> firstAddrInPrefix6 prefix len =
      fromBytes AF_INET6 (take k xs @ [xs ! k AND NOT (mask m)] @ replicate (length xs - Suc k) 0)"
    and "k < length xs \<Longrightarrow> lastAddrInPrefix6 prefix len =
      fromBytes AF_INET6 (take k xs @ [xs ! k OR mask m] @ replicate (length xs - Suc k) 0xff)"
    using assms(1,2) fill_masked [of k xs]
    unfolding firstAddrInPrefix6_def lastAddrInPrefix6_def xs_def [symmetric] k_def [symmetric]
    by simp_all
qed

lemma AddrInPrefix6_bytes:
  fixes len :: u8
  assumes "unat len \<le> 128"
  defines "s \<equiv> 128 - unat len"
  shows "\<exists>p. length p = 16 \<and> be_val p = unat w div 2 ^ s * 2 ^ s \<and>
      firstAddrInPrefix6 (IPv6 w) len = fromBytes AF_INET6 p" (is ?F)
    and "\<exists>p. length p = 16 \<and> be_val p = unat w div 2 ^ s * 2 ^ s + (2 ^ s - 1) \<and>
      lastAddrInPrefix6 (IPv6 w) len = fromBytes AF_INET6 p" (is ?L)
proof -
  define xs where "xs = toBytes (IPv6 w)"
  have len: "length xs = 16" by (simp add: xs_def)
  have v: "be_val xs = unat w" using be_val_toBytes [of "IPv6 w"] by (simp add: xs_def)
  have "?F \<and> ?L" using assms(1)
  proof (cases rule: prefix_cases6)
    case (whole k)
    have k: "k \<le> length xs" "s = 8 * (length xs - k)" using whole len by (simp_all add: s_def)
    show ?thesis
      using AddrInPrefix6_whole [OF assms(1) whole(1), of "IPv6 w", folded xs_def whole(2)]
        whole_bytes_val [OF k] k(1) v len
      by (intro conjI exI [of _ "take k xs @ replicate (length xs - k) 0"]
          exI [of _ "take k xs @ replicate (length xs - k) 0xff"]) simp_all
  next
    case (partial k m)
    have k: "k < length xs" "s = m + 8 * (length xs - Suc k)" using partial len by (simp_all add: s_def)
    show ?thesis
      using AddrInPrefix6_partial [OF assms(1) partial(1), of "IPv6 w", folded xs_def partial(2,4)]
        masked_bytes_val [OF k(1) partial(5) k(2)] k(1) v len
      by (intro conjI exI [of _ "take k xs @ [xs ! k AND NOT (mask m)] @ replicate (length xs - Suc k) 0"]
          exI [of _ "take k xs @ [xs ! k OR mask m] @ replicate (length xs - Suc k) 0xff"]) simp_all
  qed
  then show ?F ?L by auto
qed

lemma fromBytes6_val:
  "length p = 16 \<Longrightarrow> \<exists>f. fromBytes AF_INET6 p = Inr (IPv6 f) \<and> unat f = be_val p"
  using be_val_less [of p] by (simp add: fromBytes_def unat_of_nat_u128)

lemma firstAddrInPrefix6_val:
  assumes "unat len \<le> 128"
  obtains f where "firstAddrInPrefix6 (IPv6 w) len = Inr (IPv6 f)"
    and "unat f = unat w div 2 ^ (128 - unat len) * 2 ^ (128 - unat len)"
  using AddrInPrefix6_bytes(1) [OF assms, of w] fromBytes6_val by metis

lemma lastAddrInPrefix6_val:
  assumes "unat len \<le> 128"
  obtains f where "lastAddrInPrefix6 (IPv6 w) len = Inr (IPv6 f)"
    and "unat f = unat w div 2 ^ (128 - unat len) * 2 ^ (128 - unat len) + (2 ^ (128 - unat len) - 1)"
  using AddrInPrefix6_bytes(2) [OF assms, of w] fromBytes6_val by metis

lemma firstAddrInPrefix_val:
  assumes "unat len \<le> addr_bits a"
  obtains f where "firstAddrInPrefix a len = Inr f" "same_family f a"
    "addr_val f = block_of a len * 2 ^ host_bits a len"
proof (cases a)
  case (IPv4 w)
  with assms that [of "IPv4 (w AND NOT (mask (32 - unat len)))"] show ?thesis
    by (simp add: firstAddrInPrefix_def firstAddrInPrefix4_def bitMask4_mask unat_and_not_mask
        block_of_def host_bits_def same_family_def)
next
  case (IPv6 w)
  with assms obtain f where "firstAddrInPrefix6 (IPv6 w) len = Inr (IPv6 f)"
    "unat f = unat w div 2 ^ (128 - unat len) * 2 ^ (128 - unat len)"
    using firstAddrInPrefix6_val [of len w] by auto
  with IPv6 that [of "IPv6 f"] show ?thesis
    by (simp add: firstAddrInPrefix_def block_of_def host_bits_def same_family_def)
qed

lemma lastAddrInPrefix_val:
  assumes "unat len \<le> addr_bits a"
  obtains l where "lastAddrInPrefix a len = Inr l" "same_family l a"
    "addr_val l = block_of a len * 2 ^ host_bits a len + (2 ^ host_bits a len - 1)"
proof (cases a)
  case (IPv4 w)
  with assms that [of "IPv4 (w OR mask (32 - unat len))"] show ?thesis
    by (simp add: lastAddrInPrefix_def lastAddrInPrefix4_def bitMask4_mask unat_or_mask
        block_of_def host_bits_def same_family_def)
next
  case (IPv6 w)
  with assms obtain f where "lastAddrInPrefix6 (IPv6 w) len = Inr (IPv6 f)"
    "unat f = unat w div 2 ^ (128 - unat len) * 2 ^ (128 - unat len) + (2 ^ (128 - unat len) - 1)"
    using lastAddrInPrefix6_val [of len w] by auto
  with IPv6 that [of "IPv6 f"] show ?thesis
    by (simp add: lastAddrInPrefix_def block_of_def host_bits_def same_family_def)
qed


section \<open>Properties\<close>

lemma block_iff:
  fixes v c s :: nat
  shows "c * 2 ^ s \<le> v \<and> v \<le> c * 2 ^ s + (2 ^ s - 1) \<longleftrightarrow> v div 2 ^ s = c"
proof
  assume "c * 2 ^ s \<le> v \<and> v \<le> c * 2 ^ s + (2 ^ s - 1)"
  moreover have "1 \<le> (2::nat) ^ s" by simp
  ultimately have "v = c * 2 ^ s + (v - c * 2 ^ s)" "v - c * 2 ^ s < 2 ^ s" by linarith+
  then show "v div 2 ^ s = c" by (metis div_mult_self3 div_less add_0_right power_not_zero zero_neq_numeral)
next
  assume "v div 2 ^ s = c"
  then have "v = c * 2 ^ s + v mod 2 ^ s" by (metis div_mult_mod_eq)
  moreover have "v mod 2 ^ s \<le> 2 ^ s - 1" using mod_less_divisor [of "2 ^ s" v]
    by (metis One_nat_def Suc_pred less_Suc_eq_le zero_less_numeral zero_less_power)
  ultimately show "c * 2 ^ s \<le> v \<and> v \<le> c * 2 ^ s + (2 ^ s - 1)" by linarith
qed

lemma prefix_bounds:
  assumes "unat len \<le> addr_bits a"
  shows "\<exists>f l. firstAddrInPrefix a len = Inr f \<and> lastAddrInPrefix a len = Inr l \<and>
    same_family f a \<and> same_family l a \<and>
    (\<forall>q. same_family q a \<longrightarrow>
       (smallerEqual f q \<and> smallerEqual q l \<longleftrightarrow> block_of q len = block_of a len))"
proof -
  obtain f where f: "firstAddrInPrefix a len = Inr f" "same_family f a"
    "addr_val f = block_of a len * 2 ^ host_bits a len"
    using firstAddrInPrefix_val [OF assms] .
  obtain l where l: "lastAddrInPrefix a len = Inr l" "same_family l a"
    "addr_val l = block_of a len * 2 ^ host_bits a len + (2 ^ host_bits a len - 1)"
    using lastAddrInPrefix_val [OF assms] .
  have "smallerEqual f q \<and> smallerEqual q l \<longleftrightarrow> block_of q len = block_of a len"
    if "same_family q a" for q
  proof -
    have "host_bits q len = host_bits a len"
      using that by (cases q; cases a) (auto simp: host_bits_def same_family_def)
    moreover have "same_family f q" "same_family q l"
      using that f l by (auto simp: same_family_def)
    ultimately show ?thesis
      using block_iff [of "block_of a len" "host_bits a len" "addr_val q"] f l
      by (simp add: smallerEqual_val block_of_def)
  qed
  with f l show ?thesis by blast
qed

text \<open>For a prefix length the family allows, the first and the last address exist, and an
  address of the same family lies between them exactly when it agrees with the prefix on the first
  \<open>len\<close> bits. The IPv4 mask table and the IPv6 byte loop satisfy the same specification.\<close>

theorem prefix_block:
  assumes "unat len \<le> addr_bits a"
  shows "\<exists>f l. firstAddrInPrefix a len = Inr f \<and> lastAddrInPrefix a len = Inr l \<and>
    same_family f a \<and> same_family l a \<and>
    (\<forall>q. same_family q a \<longrightarrow>
       (smallerEqual f q \<and> smallerEqual q l \<longleftrightarrow> block_of q len = block_of a len))"
  using assms by (rule prefix_bounds)

theorem prefix_block_witness:
  "unat (64::u8) \<le> addr_bits (IPv6 0x20010db8000000010000000000000000) \<and>
   (\<exists>f l. firstAddrInPrefix (IPv6 0x20010db8000000010000000000000000) 64 = Inr f \<and>
     lastAddrInPrefix (IPv6 0x20010db8000000010000000000000000) 64 = Inr l \<and>
     smallerEqual f (IPv6 0x20010db80000000100000000000000ff) \<and>
     smallerEqual (IPv6 0x20010db80000000100000000000000ff) l)"
proof -
  have "unat (64::u8) \<le> addr_bits (IPv6 0x20010db8000000010000000000000000)" by simp
  from this prefix_block [OF this] show ?thesis
    by (auto simp: same_family_def block_of_def host_bits_def)
qed

text \<open>A prefix length beyond the width of the family is refused with \<^verbatim>\<open>BadValue\<close> by every
  routine, before any byte is touched.\<close>

theorem prefix_too_long:
  assumes "addr_bits a < unat len"
  shows "firstAddrInPrefix a len = Inl BadValue \<and> lastAddrInPrefix a len = Inl BadValue"
  using assms by (cases a) (simp_all add: firstAddrInPrefix_def lastAddrInPrefix_def firstAddrInPrefix4_def
      firstAddrInPrefix6_def lastAddrInPrefix4_def lastAddrInPrefix6_def)

theorem prefix_too_long_witness:
  "addr_bits (IPv4 0xc0000200) < unat (33::u8) \<and> firstAddrInPrefix (IPv4 0xc0000200) 33 = Inl BadValue"
  using prefix_too_long [of "IPv4 0xc0000200" 33] by simp

lemma getNetmask4_val:
  "unat len \<le> 32 \<Longrightarrow> \<exists>m. getNetmask4 len = Inr (IPv4 m) \<and> firstAddrInPrefix4 (IPv4 w) len = Inr (IPv4 (w AND m))"
  by (simp add: getNetmask4_def firstAddrInPrefix4_def)

end
