(* ===== verification/Buffer.thy ===== *)
theory Buffer
  imports IO_Address
begin

unbundle bit_operations_syntax

text \<open>
  The wire buffers of \<^verbatim>\<open>src/lib/util/buffer.h\<close>. An \<open>InputBuffer\<close> is a byte string with
  a read position; an \<open>OutputBuffer\<close> is the prefix of \<open>size\<close> bytes of a heap block of
  \<open>allocated\<close> bytes that \<^verbatim>\<open>ensureAllocated\<close> doubles on demand. The block behind the written
  prefix is uninitialised and left out; allocation failure (\<^verbatim>\<open>std::bad_alloc\<close>) is left out too.
  \<open>size_t\<close> is a natural number: every buffer here is bounded by a 64 KiB datagram.
\<close>

section \<open>Input\<close>

record InputBuffer =
  in_data :: bytes
  position :: nat

definition mk_InputBuffer :: "bytes \<Rightarrow> InputBuffer" where
  "mk_InputBuffer d = \<lparr>in_data = d, position = 0\<rparr>"

definition setPosition :: "nat \<Rightarrow> InputBuffer \<Rightarrow> InputBuffer result" where
  "setPosition p b =
     (if p > length (in_data b) then Inl InvalidBufferPosition else Inr (b\<lparr>position := p\<rparr>))"

definition in_readUint8 :: "InputBuffer \<Rightarrow> (u8 \<times> InputBuffer) result" where
  "in_readUint8 b =
     (if position b + 1 > length (in_data b) then Inl InvalidBufferPosition
      else Inr (in_data b ! position b, b\<lparr>position := position b + 1\<rparr>))"

definition in_readUint16 :: "InputBuffer \<Rightarrow> (u16 \<times> InputBuffer) result" where
  "in_readUint16 b =
     (if position b + 2 > length (in_data b) then Inl InvalidBufferPosition
      else
        let cp = drop (position b) (in_data b);
            data = push_bit 8 (ucast (cp ! 0));
            data = data OR ucast (cp ! 1)
        in Inr (data, b\<lparr>position := position b + 2\<rparr>))"

definition in_readUint32 :: "InputBuffer \<Rightarrow> (u32 \<times> InputBuffer) result" where
  "in_readUint32 b =
     (if position b + 4 > length (in_data b) then Inl InvalidBufferPosition
      else
        let cp = drop (position b) (in_data b);
            data = push_bit 24 (ucast (cp ! 0));
            data = data OR push_bit 16 (ucast (cp ! 1));
            data = data OR push_bit 8 (ucast (cp ! 2));
            data = data OR ucast (cp ! 3)
        in Inr (data, b\<lparr>position := position b + 4\<rparr>))"

definition in_readData :: "nat \<Rightarrow> InputBuffer \<Rightarrow> (bytes \<times> InputBuffer) result" where
  "in_readData len b =
     (if position b + len > length (in_data b) then Inl InvalidBufferPosition
      else Inr (take len (drop (position b) (in_data b)), b\<lparr>position := position b + len\<rparr>))"

definition in_readVector :: "nat \<Rightarrow> InputBuffer \<Rightarrow> (bytes \<times> InputBuffer) result" where
  "in_readVector len b =
     (if position b + len > length (in_data b) then Inl InvalidBufferPosition
      else in_readData len b)"

section \<open>Output\<close>

record OutputBuffer =
  out_data :: bytes
  allocated :: nat

definition mk_OutputBuffer :: "nat \<Rightarrow> OutputBuffer" where
  "mk_OutputBuffer len = \<lparr>out_data = [], allocated = len\<rparr>"

text \<open>The doubling loop. It is only entered with a positive \<open>new_size\<close>: with 0 it would not end,
  which is why \<^verbatim>\<open>ensureAllocated\<close> starts an empty buffer at 1024.\<close>

function grow :: "nat \<Rightarrow> nat \<Rightarrow> nat" where
  "grow new_size needed_size =
     (if new_size = 0 then 0
      else if new_size < needed_size then grow (new_size * 2) needed_size else new_size)"
  by auto
termination by (relation "measure (\<lambda>(n, k). k - n)") auto

definition ensureAllocated :: "nat \<Rightarrow> OutputBuffer \<Rightarrow> OutputBuffer" where
  "ensureAllocated needed_size b =
     (if allocated b < needed_size
      then b\<lparr>allocated := grow (if allocated b = 0 then 1024 else allocated b) needed_size\<rparr>
      else b)"

definition trim :: "nat \<Rightarrow> OutputBuffer \<Rightarrow> OutputBuffer result" where
  "trim len b =
     (if len > length (out_data b) then Inl OutOfRange
      else Inr (b\<lparr>out_data := take (length (out_data b) - len) (out_data b)\<rparr>))"

definition out_clear :: "OutputBuffer \<Rightarrow> OutputBuffer" where
  "out_clear b = b\<lparr>out_data := []\<rparr>"

definition out_writeUint8 :: "u8 \<Rightarrow> OutputBuffer \<Rightarrow> OutputBuffer" where
  "out_writeUint8 data b =
     (let b = ensureAllocated (length (out_data b) + 1) b in b\<lparr>out_data := out_data b @ [data]\<rparr>)"

definition out_writeUint8At :: "u8 \<Rightarrow> nat \<Rightarrow> OutputBuffer \<Rightarrow> OutputBuffer result" where
  "out_writeUint8At data pos b =
     (if pos + 1 > length (out_data b) then Inl InvalidBufferPosition
      else Inr (b\<lparr>out_data := (out_data b)[pos := data]\<rparr>))"

definition out_writeUint16 :: "u16 \<Rightarrow> OutputBuffer \<Rightarrow> OutputBuffer" where
  "out_writeUint16 data b =
     (let b = ensureAllocated (length (out_data b) + 2) b
      in b\<lparr>out_data := out_data b @ [ucast (drop_bit 8 (data AND 0xff00)), ucast (data AND 0x00ff)]\<rparr>)"

definition out_writeUint16At :: "u16 \<Rightarrow> nat \<Rightarrow> OutputBuffer \<Rightarrow> OutputBuffer result" where
  "out_writeUint16At data pos b =
     (if pos + 2 > length (out_data b) then Inl InvalidBufferPosition
      else Inr (b\<lparr>out_data := (out_data b)[pos := ucast (drop_bit 8 (data AND 0xff00)),
                                          pos + 1 := ucast (data AND 0x00ff)]\<rparr>))"

definition out_writeUint32 :: "u32 \<Rightarrow> OutputBuffer \<Rightarrow> OutputBuffer" where
  "out_writeUint32 data b =
     (let b = ensureAllocated (length (out_data b) + 4) b
      in b\<lparr>out_data := out_data b @
            [ucast (drop_bit 24 (data AND 0xff000000)), ucast (drop_bit 16 (data AND 0x00ff0000)),
             ucast (drop_bit 8 (data AND 0x0000ff00)), ucast (data AND 0x000000ff)]\<rparr>)"

definition out_writeData :: "bytes \<Rightarrow> OutputBuffer \<Rightarrow> OutputBuffer" where
  "out_writeData data b =
     (let b = ensureAllocated (length (out_data b) + length data) b
      in b\<lparr>out_data := out_data b @ data\<rparr>)"

section \<open>Reading stays inside the buffer, writing stays inside the block\<close>

lemma grow_ge: "0 < n \<Longrightarrow> needed \<le> grow n needed \<and> n \<le> grow n needed"
proof (induction n needed rule: grow.induct)
  case (1 n needed)
  then show ?case by (cases "n < needed") (auto simp: grow.simps [of n])
qed

lemma ensureAllocated_ge [simp]: "needed \<le> allocated (ensureAllocated needed b)"
  using grow_ge [of "if allocated b = 0 then 1024 else allocated b" needed]
  by (auto simp: ensureAllocated_def not_less)

lemma ensureAllocated_data [simp]: "out_data (ensureAllocated n b) = out_data b"
  by (simp add: ensureAllocated_def)

definition wf_out :: "OutputBuffer \<Rightarrow> bool" where
  "wf_out b \<longleftrightarrow> length (out_data b) \<le> allocated b"

lemma wf_out_writes [wf_intros]:
  "wf_out (out_writeUint8 x b)" "wf_out (out_writeUint16 y b)" "wf_out (out_writeUint32 z b)"
  "wf_out (out_writeData d b)"
  using ensureAllocated_ge [of "length (out_data b) + 1" b] ensureAllocated_ge [of "length (out_data b) + 2" b]
    ensureAllocated_ge [of "length (out_data b) + 4" b] ensureAllocated_ge [of "length (out_data b) + length d" b]
  by (simp_all add: wf_out_def out_writeUint8_def out_writeUint16_def out_writeUint32_def
      out_writeData_def Let_def del: ensureAllocated_ge)

lemma out_data_writes [byte_simps]:
  "out_data (out_writeUint8 x b) = out_data b @ [x]"
  "out_data (out_writeUint16 y b) = out_data b @ writeUint16 y"
  "out_data (out_writeUint32 z b) = out_data b @ writeUint32 z"
  "out_data (out_writeData d b) = out_data b @ d"
  by (simp_all add: out_writeUint8_def out_writeUint16_def out_writeUint32_def out_writeData_def
      writeUint16_def writeUint32_def Let_def)

end
