(* ===== verification/Dns_Name.thy ===== *)
theory Dns_Name
  imports Buffer
begin

unbundle bit_operations_syntax

text \<open>
  Domain names as the option code uses them: the wire-format parser
  (\<^verbatim>\<open>Name::Name(InputBuffer&, bool)\<close>, \<^verbatim>\<open>src/lib/dns/name.cc\<close>), a state machine that
  follows compression pointers, and the printer (\<^verbatim>\<open>LabelSequence::toText\<close>,
  \<^verbatim>\<open>src/lib/dns/labelsequence.cc\<close>). A \<^verbatim>\<open>std::string\<close> is a byte string here, since the
  callers only look at its size and bytes. The unsigned counters are naturals: \<open>nused\<close> never passes
  255, and the positions are bounded by the buffer.
\<close>

section \<open>The wire-format parser\<close>

definition MAX_WIRE :: nat where "MAX_WIRE = 255"
definition MAX_LABELS :: nat where "MAX_LABELS = 128"
definition MAX_LABELLEN :: nat where "MAX_LABELLEN = 63"
definition COMPRESS_POINTER_MARK8 :: u8 where "COMPRESS_POINTER_MARK8 = 0xc0"

record Name =
  ndata :: bytes
  offsets :: "nat list"
  labelcount :: nat
  name_length :: nat

datatype fw_state = fw_start | fw_ordinary | fw_newcurrent

record wire_state =
  ws_buffer :: InputBuffer
  ws_offsets :: "nat list"
  ws_ndata :: bytes
  ws_n :: nat
  ws_done :: bool
  ws_nused :: nat
  ws_seen_pointer :: bool
  ws_state :: fw_state
  ws_cused :: nat
  ws_current :: nat
  ws_biggest_pointer :: nat
  ws_new_current :: nat

definition maptolower :: "u8 \<Rightarrow> u8" where
  "maptolower c = (if 0x41 \<le> c \<and> c \<le> 0x5a then c + 0x20 else c)"

text \<open>The body of the loop, after the byte \<open>c\<close> has been read.\<close>

definition fw_step :: "bool \<Rightarrow> u8 \<Rightarrow> wire_state \<Rightarrow> wire_state result" where
  "fw_step downcase c s =
     (case ws_state s of
        fw_start \<Rightarrow>
          if unat c \<le> MAX_LABELLEN then
            (let s = s\<lparr>ws_offsets := ws_offsets s @ [ws_nused s]\<rparr>
             in if ws_nused s + unat c + 1 > MAX_WIRE then Inl DNSMessageFORMERR
                else Inr (s\<lparr>ws_nused := ws_nused s + (unat c + 1), ws_ndata := ws_ndata s @ [c],
                            ws_done := (if c = 0 then True else ws_done s),
                            ws_n := unat c, ws_state := fw_ordinary\<rparr>))
          else if c AND COMPRESS_POINTER_MARK8 = COMPRESS_POINTER_MARK8 then
            Inr (s\<lparr>ws_new_current := unat (c AND NOT COMPRESS_POINTER_MARK8), ws_n := 1,
                   ws_state := fw_newcurrent\<rparr>)
          else Inl DNSMessageFORMERR
      | fw_ordinary \<Rightarrow>
          (let c = (if downcase then maptolower c else c);
               s = s\<lparr>ws_ndata := ws_ndata s @ [c], ws_n := ws_n s - 1\<rparr>
           in Inr (if ws_n s = 0 then s\<lparr>ws_state := fw_start\<rparr> else s))
      | fw_newcurrent \<Rightarrow>
          (let s = s\<lparr>ws_new_current := ws_new_current s * 256 + unat c, ws_n := ws_n s - 1\<rparr>
           in if ws_n s \<noteq> 0 then Inr s
              else if ws_new_current s \<ge> ws_biggest_pointer s then Inl DNSMessageFORMERR
              else bindE (setPosition (ws_new_current s) (ws_buffer s)) (\<lambda>b.
                Inr (s\<lparr>ws_biggest_pointer := ws_new_current s, ws_current := ws_new_current s,
                       ws_buffer := b, ws_seen_pointer := True, ws_state := fw_start\<rparr>))))"

definition wire_read :: "wire_state \<Rightarrow> (u8 \<times> wire_state) result" where
  "wire_read s =
     bindE (in_readUint8 (ws_buffer s)) (\<lambda>(c, b).
       Inr (c, s\<lparr>ws_buffer := b, ws_current := ws_current s + 1,
                 ws_cused := (if ws_seen_pointer s then ws_cused s else ws_cused s + 1)\<rparr>))"

text \<open>A step either moves one byte on or jumps to a pointer smaller than every pointer before it.\<close>

definition wire_progress :: "wire_state \<Rightarrow> wire_state \<Rightarrow> bool" where
  "wire_progress s t \<longleftrightarrow>
     in_data (ws_buffer t) = in_data (ws_buffer s) \<and>
     (ws_biggest_pointer t < ws_biggest_pointer s \<or>
      ws_biggest_pointer t = ws_biggest_pointer s \<and> ws_current t = ws_current s + 1)"

lemma fw_step_progress:
  "wire_read s = Inr (c, s') \<Longrightarrow> fw_step downcase c s' = Inr t \<Longrightarrow> wire_progress s t"
  by (auto simp: wire_read_def in_readUint8_def fw_step_def wire_progress_def setPosition_def Let_def
      result_simps split: fw_state.splits if_splits prod.splits)

function (sequential) wire_loop :: "bool \<Rightarrow> wire_state \<Rightarrow> wire_state result" where
  "wire_loop downcase s =
     (if ws_current s < length (in_data (ws_buffer s)) \<and> \<not> ws_done s
      then bindE (wire_read s) (\<lambda>r. bindE (fw_step downcase (fst r) (snd r)) (wire_loop downcase))
      else Inr s)"
  by pat_completeness auto
termination
proof (relation "measures [\<lambda>(d, s). ws_biggest_pointer s,
    \<lambda>(d, s). length (in_data (ws_buffer s)) - ws_current s]")
  fix downcase s r t
  assume "ws_current s < length (in_data (ws_buffer s)) \<and> \<not> ws_done s"
    and "wire_read s = Inr r" and "fw_step downcase (fst r) (snd r) = Inr t"
  then show "((downcase, t), (downcase, s)) \<in> measures [\<lambda>(d, s). ws_biggest_pointer s,
    \<lambda>(d, s). length (in_data (ws_buffer s)) - ws_current s]"
    using fw_step_progress [of s "fst r" "snd r" downcase t] by (auto simp: wire_progress_def)
qed simp

declare wire_loop.simps [simp del]

definition wire_init :: "InputBuffer \<Rightarrow> wire_state" where
  "wire_init buffer =
     \<lparr>ws_buffer = buffer, ws_offsets = [], ws_ndata = [], ws_n = 0, ws_done = False, ws_nused = 0,
      ws_seen_pointer = False, ws_state = fw_start, ws_cused = 0, ws_current = position buffer,
      ws_biggest_pointer = position buffer, ws_new_current = 0\<rparr>"

definition Name_from_wire :: "InputBuffer \<Rightarrow> bool \<Rightarrow> (Name \<times> InputBuffer) result" where
  "Name_from_wire buffer downcase =
     bindE (wire_loop downcase (wire_init buffer)) (\<lambda>s.
       if \<not> ws_done s then Inl DNSMessageFORMERR
       else bindE (setPosition (position buffer + ws_cused s) (ws_buffer s)) (\<lambda>b.
         Inr (\<lparr>ndata = ws_ndata s, offsets = ws_offsets s, labelcount = length (ws_offsets s),
               name_length = ws_nused s\<rparr>, b)))"

section \<open>The printer\<close>

definition escape_char :: "u8 \<Rightarrow> bytes" where
  "escape_char c =
     (if c \<in> {0x22, 0x28, 0x29, 0x2E, 0x3B, 0x5C, 0x40, 0x24} then [0x5c, c]
      else if c > 0x20 \<and> c < 0x7f then [c]
      else [0x5c, 0x30 + (c div 100) mod 10, 0x30 + (c div 10) mod 10, 0x30 + c mod 10])"

text \<open>\<open>np\<close> holds the bytes up to \<^verbatim>\<open>np_end\<close>; \<open>labels\<close> is unsigned in the code and counts below
  0 only on the way to the failing assertion.\<close>

function toText_loop :: "bool \<Rightarrow> bytes \<Rightarrow> int \<Rightarrow> bytes \<Rightarrow> bytes result" where
  "toText_loop omit [] labels res = (if labels = 0 then Inr res else Inl AssertionFailed)"
| "toText_loop omit (count # np) labels res =
     (if count = 0 then
        (let res = (if \<not> omit \<or> res = [] then res @ [0x2E] else res)
         in if np = [] \<and> labels - 1 = 0 then Inr res else Inl AssertionFailed)
      else if unat count \<le> MAX_LABELLEN then
        (if length np < unat count then Inl AssertionFailed
         else toText_loop omit (drop (unat count) np) (labels - 1)
                ((if res \<noteq> [] then res @ [0x2E] else res) @ concat (map escape_char (take (unat count) np))))
      else Inl BadLabelType)"
  by pat_completeness auto
termination by (relation "measure (\<lambda>(_, np, _, _). length np)") auto

definition getDataLength :: "Name \<Rightarrow> nat" where
  "getDataLength nm =
     (let last_label_len = unat (ndata nm ! last (offsets nm)) + 1
      in last (offsets nm) - hd (offsets nm) + last_label_len)"

definition isAbsolute :: "Name \<Rightarrow> bool" where
  "isAbsolute nm \<longleftrightarrow> ndata nm ! last (offsets nm) = 0"

definition LabelSequence_toText :: "bool \<Rightarrow> Name \<Rightarrow> bytes result" where
  "LabelSequence_toText omit_final_dot nm =
     toText_loop omit_final_dot (take (getDataLength nm) (drop (hd (offsets nm)) (ndata nm)))
       (int (labelcount nm)) []"

definition Name_toText :: "Name \<Rightarrow> bytes result" where
  "Name_toText nm = LabelSequence_toText False nm"

section \<open>What the parser accepts\<close>

text \<open>A list of labels, its wire encoding and the offsets of its length bytes.\<close>

definition enc_labels :: "bytes list \<Rightarrow> bytes" where
  "enc_labels ls = concat (map (\<lambda>l. word_of_nat (length l) # l) ls)"

fun label_offsets :: "nat \<Rightarrow> bytes list \<Rightarrow> nat list" where
  "label_offsets k [] = []"
| "label_offsets k (l # ls) = k # label_offsets (k + length l + 1) ls"

definition good_labels :: "bytes list \<Rightarrow> bool" where
  "good_labels ls \<longleftrightarrow> (\<forall>l \<in> set ls. 0 < length l \<and> length l \<le> MAX_LABELLEN)"

lemma enc_labels_simps [simp]:
  "enc_labels [] = []"
  "enc_labels (l # ls) = word_of_nat (length l) # l @ enc_labels ls"
  "enc_labels (ls @ ms) = enc_labels ls @ enc_labels ms"
  by (simp_all add: enc_labels_def)

lemma label_offsets_append:
  "label_offsets k (ls @ ms) = label_offsets k ls @ label_offsets (k + length (enc_labels ls)) ms"
  by (induction ls arbitrary: k) (auto simp: ac_simps)

lemma length_label_offsets [simp]: "length (label_offsets k ls) = length ls"
  by (induction ls arbitrary: k) auto

definition in_labels :: "bytes list \<Rightarrow> wire_state \<Rightarrow> bool" where
  "in_labels ls s \<longleftrightarrow> \<not> ws_done s \<and> ws_state s \<noteq> fw_ordinary \<and> ws_ndata s = enc_labels ls \<and>
     ws_nused s = length (enc_labels ls) \<and> ws_offsets s = label_offsets 0 ls"

definition in_label :: "bytes list \<Rightarrow> nat \<Rightarrow> bytes \<Rightarrow> wire_state \<Rightarrow> bool" where
  "in_label ls k p s \<longleftrightarrow> \<not> ws_done s \<and> ws_state s = fw_ordinary \<and>
     ws_ndata s = enc_labels ls @ word_of_nat k # p \<and> ws_n s = k - length p \<and> length p < k \<and>
     k \<le> MAX_LABELLEN \<and> ws_nused s = length (enc_labels ls) + k + 1 \<and>
     ws_offsets s = label_offsets 0 ls @ [length (enc_labels ls)]"

definition name_done :: "bytes list \<Rightarrow> wire_state \<Rightarrow> bool" where
  "name_done ls s \<longleftrightarrow> ws_done s \<and> ws_ndata s = enc_labels (ls @ [[]]) \<and>
     ws_nused s = length (ws_ndata s) \<and> ws_offsets s = label_offsets 0 (ls @ [[]])"

definition wire_inv :: "wire_state \<Rightarrow> bool" where
  "wire_inv s \<longleftrightarrow> ws_nused s \<le> MAX_WIRE \<and>
     (\<exists>ls. good_labels ls \<and> (in_labels ls s \<or> (\<exists>k p. in_label ls k p s) \<or> name_done ls s))"

lemmas wire_inv_defs = in_labels_def in_label_def name_done_def good_labels_def

lemma wire_inv_read: "wire_read s = Inr (c, s') \<Longrightarrow> wire_inv s' = wire_inv s \<and> ws_done s' = ws_done s"
  by (auto simp: wire_read_def result_simps wire_inv_def wire_inv_defs)

lemma wire_inv_init [simp]: "wire_inv (wire_init b)"
  by (auto simp: wire_inv_def wire_init_def wire_inv_defs intro!: exI [of _ "[]"])

lemma fw_step_start:
  assumes "in_labels ls s" "ws_state s = fw_start" "unat c \<le> MAX_LABELLEN" "fw_step downcase c s = Inr t"
  shows "ws_nused t \<le> MAX_WIRE" and "if c = 0 then name_done ls t else in_label ls (unat c) [] t"
proof -
  have t: "t = s\<lparr>ws_offsets := ws_offsets s @ [ws_nused s], ws_nused := ws_nused s + (unat c + 1),
      ws_ndata := ws_ndata s @ [c], ws_done := (if c = 0 then True else ws_done s), ws_n := unat c,
      ws_state := fw_ordinary\<rparr>" and "ws_nused s + unat c + 1 \<le> MAX_WIRE"
    using assms(2-4) by (auto simp: fw_step_def Let_def split: if_splits)
  then show "ws_nused t \<le> MAX_WIRE" by simp
  show "if c = 0 then name_done ls t else in_label ls (unat c) [] t"
  proof (cases "c = 0")
    case True
    with assms(1) t show ?thesis by (simp add: in_labels_def name_done_def label_offsets_append)
  next
    case False
    then have "0 < unat c" by (simp add: unat_gt_0)
    with False assms(1,3) t show ?thesis by (simp add: in_labels_def in_label_def)
  qed
qed

lemma fw_step_labels:
  assumes "in_labels ls s" "good_labels ls" "ws_nused s \<le> MAX_WIRE" "fw_step downcase c s = Inr t"
  shows "wire_inv t"
proof (cases "ws_state s = fw_start \<and> unat c \<le> MAX_LABELLEN")
  case True
  then have "in_label ls (unat c) [] t \<or> name_done ls t" and "ws_nused t \<le> MAX_WIRE"
    using fw_step_start [OF assms(1) _ _ assms(4)] by (auto split: if_splits)
  with assms(2) show ?thesis unfolding wire_inv_def by blast
next
  case False
  then have "in_labels ls t" and "ws_nused t \<le> MAX_WIRE"
    using assms by (auto simp: fw_step_def Let_def in_labels_def setPosition_def result_simps
        split: if_splits fw_state.splits)
  with assms(2) show ?thesis unfolding wire_inv_def by blast
qed

lemma fw_step_label:
  assumes "in_label ls k p s" "good_labels ls" "ws_nused s \<le> MAX_WIRE" "fw_step downcase c s = Inr t"
  shows "wire_inv t"
proof -
  define c' where "c' = (if downcase then maptolower c else c)"
  have t: "t = (if ws_n s - 1 = 0 then s\<lparr>ws_ndata := ws_ndata s @ [c'], ws_n := ws_n s - 1, ws_state := fw_start\<rparr>
      else s\<lparr>ws_ndata := ws_ndata s @ [c'], ws_n := ws_n s - 1\<rparr>)"
    using assms(1,4) by (auto simp: fw_step_def Let_def in_label_def c'_def)
  show ?thesis
  proof (cases "k = Suc (length p)")
    case True
    then have "in_labels (ls @ [p @ [c']]) t" "good_labels (ls @ [p @ [c']])" "ws_nused t \<le> MAX_WIRE"
      using assms(1-3) t by (auto simp: in_label_def in_labels_def good_labels_def label_offsets_append)
    then show ?thesis unfolding wire_inv_def by blast
  next
    case False
    then have "in_label ls k (p @ [c']) t" "ws_nused t \<le> MAX_WIRE"
      using assms(1,3) t by (auto simp: in_label_def)
    with assms(2) show ?thesis unfolding wire_inv_def by blast
  qed
qed

lemma wire_inv_step:
  assumes "wire_inv s" "\<not> ws_done s" "wire_read s = Inr (c, s')" "fw_step downcase c s' = Inr t"
  shows "wire_inv t"
proof -
  have "wire_inv s'" "\<not> ws_done s'" using wire_inv_read [OF assms(3)] assms(1,2) by auto
  then obtain ls where "good_labels ls" "ws_nused s' \<le> MAX_WIRE"
      "in_labels ls s' \<or> (\<exists>k p. in_label ls k p s')"
    unfolding wire_inv_def name_done_def by blast
  then show ?thesis using fw_step_labels fw_step_label assms(4) by blast
qed

lemma wire_inv_loop: "wire_inv s \<Longrightarrow> wire_loop downcase s = Inr t \<Longrightarrow> wire_inv t"
proof (induction downcase s rule: wire_loop.induct)
  case (1 downcase s)
  show ?case
  proof (cases "ws_current s < length (in_data (ws_buffer s)) \<and> \<not> ws_done s")
    case True
    with "1.prems" obtain r u where "wire_read s = Inr r" "fw_step downcase (fst r) (snd r) = Inr u"
        "wire_loop downcase u = Inr t"
      by (auto simp: wire_loop.simps [of downcase s] result_simps)
    with True "1.IH" "1.prems" wire_inv_step [of s "fst r" "snd r" downcase u] show ?thesis by auto
  next
    case False
    with "1.prems" show ?thesis by (simp add: wire_loop.simps [of downcase s])
  qed
qed

definition wf_name :: "bytes list \<Rightarrow> Name \<Rightarrow> bool" where
  "wf_name ls nm \<longleftrightarrow> good_labels ls \<and> ndata nm = enc_labels (ls @ [[]]) \<and>
     offsets nm = label_offsets 0 (ls @ [[]]) \<and> labelcount nm = length ls + 1 \<and>
     name_length nm = length (ndata nm) \<and> name_length nm \<le> MAX_WIRE"

lemma Name_from_wire_wf:
  "Name_from_wire buffer downcase = Inr (nm, b) \<Longrightarrow> \<exists>ls. wf_name ls nm"
proof -
  assume "Name_from_wire buffer downcase = Inr (nm, b)"
  then obtain s where s: "wire_loop downcase (wire_init buffer) = Inr s" "ws_done s"
      "nm = \<lparr>ndata = ws_ndata s, offsets = ws_offsets s, labelcount = length (ws_offsets s),
               name_length = ws_nused s\<rparr>"
    by (auto simp: Name_from_wire_def result_simps split: if_splits)
  have "wire_inv s" using s(1) by (rule wire_inv_loop [OF wire_inv_init])
  then show ?thesis
    using s(2,3) by (auto simp: wire_inv_def wf_name_def in_labels_def in_label_def name_done_def)
qed

section \<open>Printing what was parsed\<close>

definition label_text :: "bytes \<Rightarrow> bytes" where
  "label_text l = concat (map escape_char l)"

definition name_text :: "bytes list \<Rightarrow> bytes" where
  "name_text ls = (if ls = [] then [0x2E] else concat (map (\<lambda>l. label_text l @ [0x2E]) ls))"

lemma escape_char_nonempty [simp]: "escape_char c \<noteq> []"
  by (simp add: escape_char_def)

lemma toText_loop_labels:
  "good_labels ls \<Longrightarrow> res \<noteq> [] \<Longrightarrow>
   toText_loop False (enc_labels ls @ [0]) (int (length ls) + 1) res =
     Inr (res @ concat (map (\<lambda>l. [0x2E] @ label_text l) ls) @ [0x2E])"
proof (induction ls arbitrary: res)
  case Nil
  then show ?case by simp
next
  case (Cons l ls)
  then have u: "unat (word_of_nat (length l) :: u8) = length l"
    by (simp add: good_labels_def MAX_LABELLEN_def unat_of_nat)
  moreover have "(word_of_nat (length l) :: u8) \<noteq> 0" "length l \<le> MAX_LABELLEN"
    using u Cons.prems(1) by (auto simp: good_labels_def)
  moreover have "good_labels ls" using Cons.prems(1) by (simp add: good_labels_def)
  ultimately show ?case using Cons.IH [of "(res @ [0x2E]) @ label_text l"] Cons.prems(2)
    by (simp add: label_text_def add.commute)
qed

lemma concat_dots: "concat (map (\<lambda>l. [d] @ f l) ls) @ [d] = [d] @ concat (map (\<lambda>l. f l @ [d]) ls)"
  by (induction ls) auto

lemma toText_loop_name:
  assumes "good_labels ls"
  shows "toText_loop False (enc_labels ls @ [0]) (int (length ls) + 1) [] = Inr (name_text ls)"
proof (cases ls)
  case (Cons l ms)
  have u: "unat (word_of_nat (length l) :: u8) = length l"
    using assms Cons by (simp add: good_labels_def MAX_LABELLEN_def unat_of_nat)
  moreover have "(word_of_nat (length l) :: u8) \<noteq> 0" "length l \<le> MAX_LABELLEN" "l \<noteq> []"
    using u assms Cons by (auto simp: good_labels_def)
  moreover have "label_text l \<noteq> []" using \<open>l \<noteq> []\<close> by (cases l) (auto simp: label_text_def)
  moreover have "good_labels ms" using assms Cons by (simp add: good_labels_def)
  ultimately show ?thesis
    using Cons toText_loop_labels [of ms "label_text l"] concat_dots [of "0x2E" label_text ms]
    by (simp add: label_text_def name_text_def add.commute)
qed (simp add: name_text_def)

lemma wf_name_toText: "wf_name ls nm \<Longrightarrow> Name_toText nm = Inr (name_text ls)"
  using toText_loop_name [of ls]
  by (cases ls) (auto simp: Name_toText_def LabelSequence_toText_def getDataLength_def wf_name_def
      label_offsets_append)

section \<open>Properties\<close>

text \<open>Every name the wire parser accepts, compression pointers included, is a sequence of labels
  of 1 to 63 bytes closed by the root label, at most 255 bytes long, with the offset of every label
  recorded; printing it never trips one of the printer's assertions or finds an unknown label type,
  and yields the escaped labels, each followed by a dot.\<close>

theorem parsed_name_prints:
  assumes "Name_from_wire buffer downcase = Inr (nm, b)"
  shows "\<exists>ls. good_labels ls \<and> ndata nm = enc_labels (ls @ [[]]) \<and>
    offsets nm = label_offsets 0 (ls @ [[]]) \<and> length (ndata nm) \<le> MAX_WIRE \<and>
    Name_toText nm = Inr (name_text ls)"
proof -
  obtain ls where "wf_name ls nm" using Name_from_wire_wf [OF assms] by blast
  then show ?thesis using wf_name_toText [of ls nm] by (auto simp: wf_name_def)
qed

definition example_wire :: bytes where
  "example_wire = [3, 0x6e, 0x73, 0x31, 4, 0x74, 0x65, 0x73, 0x74, 0]"

definition example_name :: Name where
  "example_name = \<lparr>ndata = example_wire, offsets = [0, 4, 9], labelcount = 3, name_length = 10\<rparr>"

lemma example_parses:
  "Name_from_wire (mk_InputBuffer example_wire) False =
     Inr (example_name, \<lparr>in_data = example_wire, position = 10\<rparr>)"
  by code_simp

theorem parsed_name_prints_witness:
  "\<exists>ls. good_labels ls \<and> ndata example_name = enc_labels (ls @ [[]]) \<and>
    Name_toText example_name = Inr (name_text ls)"
  using parsed_name_prints [OF example_parses] by auto

end
