(* ===== verification/Dhcp_Codes.thy ===== *)
theory Dhcp_Codes
  imports Prelude
begin

text \<open>
  The protocol numbers of \<^verbatim>\<open>src/lib/dhcp/dhcp4.h\<close> and \<^verbatim>\<open>src/lib/dhcp/dhcp6.h\<close>, as
  abbreviations for the numerals, the way the preprocessor and the enumerations treat them. The last
  ones, \<open>OPTION_DHCPV4_MSG\<close>, \<open>DHCPV4_QUERY\<close> and \<open>DHCPV4_RESPONSE\<close>, are the additions of DHCPv4 over
  DHCPv6.
\<close>

section \<open>Option codes\<close>

abbreviation (input) DHO_PAD :: u16 where "DHO_PAD \<equiv> 0"
abbreviation (input) DHO_SUBNET_MASK :: u16 where "DHO_SUBNET_MASK \<equiv> 1"
abbreviation (input) DHO_TIME_OFFSET :: u16 where "DHO_TIME_OFFSET \<equiv> 2"
abbreviation (input) DHO_ROUTERS :: u16 where "DHO_ROUTERS \<equiv> 3"
abbreviation (input) DHO_TIME_SERVERS :: u16 where "DHO_TIME_SERVERS \<equiv> 4"
abbreviation (input) DHO_NAME_SERVERS :: u16 where "DHO_NAME_SERVERS \<equiv> 5"
abbreviation (input) DHO_DOMAIN_NAME_SERVERS :: u16 where "DHO_DOMAIN_NAME_SERVERS \<equiv> 6"
abbreviation (input) DHO_LOG_SERVERS :: u16 where "DHO_LOG_SERVERS \<equiv> 7"
abbreviation (input) DHO_COOKIE_SERVERS :: u16 where "DHO_COOKIE_SERVERS \<equiv> 8"
abbreviation (input) DHO_LPR_SERVERS :: u16 where "DHO_LPR_SERVERS \<equiv> 9"
abbreviation (input) DHO_IMPRESS_SERVERS :: u16 where "DHO_IMPRESS_SERVERS \<equiv> 10"
abbreviation (input) DHO_RESOURCE_LOCATION_SERVERS :: u16 where "DHO_RESOURCE_LOCATION_SERVERS \<equiv> 11"
abbreviation (input) DHO_HOST_NAME :: u16 where "DHO_HOST_NAME \<equiv> 12"
abbreviation (input) DHO_BOOT_SIZE :: u16 where "DHO_BOOT_SIZE \<equiv> 13"
abbreviation (input) DHO_MERIT_DUMP :: u16 where "DHO_MERIT_DUMP \<equiv> 14"
abbreviation (input) DHO_DOMAIN_NAME :: u16 where "DHO_DOMAIN_NAME \<equiv> 15"
abbreviation (input) DHO_SWAP_SERVER :: u16 where "DHO_SWAP_SERVER \<equiv> 16"
abbreviation (input) DHO_ROOT_PATH :: u16 where "DHO_ROOT_PATH \<equiv> 17"
abbreviation (input) DHO_EXTENSIONS_PATH :: u16 where "DHO_EXTENSIONS_PATH \<equiv> 18"
abbreviation (input) DHO_IP_FORWARDING :: u16 where "DHO_IP_FORWARDING \<equiv> 19"
abbreviation (input) DHO_NON_LOCAL_SOURCE_ROUTING :: u16 where "DHO_NON_LOCAL_SOURCE_ROUTING \<equiv> 20"
abbreviation (input) DHO_POLICY_FILTER :: u16 where "DHO_POLICY_FILTER \<equiv> 21"
abbreviation (input) DHO_MAX_DGRAM_REASSEMBLY :: u16 where "DHO_MAX_DGRAM_REASSEMBLY \<equiv> 22"
abbreviation (input) DHO_DEFAULT_IP_TTL :: u16 where "DHO_DEFAULT_IP_TTL \<equiv> 23"
abbreviation (input) DHO_PATH_MTU_AGING_TIMEOUT :: u16 where "DHO_PATH_MTU_AGING_TIMEOUT \<equiv> 24"
abbreviation (input) DHO_PATH_MTU_PLATEAU_TABLE :: u16 where "DHO_PATH_MTU_PLATEAU_TABLE \<equiv> 25"
abbreviation (input) DHO_INTERFACE_MTU :: u16 where "DHO_INTERFACE_MTU \<equiv> 26"
abbreviation (input) DHO_ALL_SUBNETS_LOCAL :: u16 where "DHO_ALL_SUBNETS_LOCAL \<equiv> 27"
abbreviation (input) DHO_BROADCAST_ADDRESS :: u16 where "DHO_BROADCAST_ADDRESS \<equiv> 28"
abbreviation (input) DHO_PERFORM_MASK_DISCOVERY :: u16 where "DHO_PERFORM_MASK_DISCOVERY \<equiv> 29"
abbreviation (input) DHO_MASK_SUPPLIER :: u16 where "DHO_MASK_SUPPLIER \<equiv> 30"
abbreviation (input) DHO_ROUTER_DISCOVERY :: u16 where "DHO_ROUTER_DISCOVERY \<equiv> 31"
abbreviation (input) DHO_ROUTER_SOLICITATION_ADDRESS :: u16 where "DHO_ROUTER_SOLICITATION_ADDRESS \<equiv> 32"
abbreviation (input) DHO_STATIC_ROUTES :: u16 where "DHO_STATIC_ROUTES \<equiv> 33"
abbreviation (input) DHO_TRAILER_ENCAPSULATION :: u16 where "DHO_TRAILER_ENCAPSULATION \<equiv> 34"
abbreviation (input) DHO_ARP_CACHE_TIMEOUT :: u16 where "DHO_ARP_CACHE_TIMEOUT \<equiv> 35"
abbreviation (input) DHO_IEEE802_3_ENCAPSULATION :: u16 where "DHO_IEEE802_3_ENCAPSULATION \<equiv> 36"
abbreviation (input) DHO_DEFAULT_TCP_TTL :: u16 where "DHO_DEFAULT_TCP_TTL \<equiv> 37"
abbreviation (input) DHO_TCP_KEEPALIVE_INTERVAL :: u16 where "DHO_TCP_KEEPALIVE_INTERVAL \<equiv> 38"
abbreviation (input) DHO_TCP_KEEPALIVE_GARBAGE :: u16 where "DHO_TCP_KEEPALIVE_GARBAGE \<equiv> 39"
abbreviation (input) DHO_NIS_DOMAIN :: u16 where "DHO_NIS_DOMAIN \<equiv> 40"
abbreviation (input) DHO_NIS_SERVERS :: u16 where "DHO_NIS_SERVERS \<equiv> 41"
abbreviation (input) DHO_NTP_SERVERS :: u16 where "DHO_NTP_SERVERS \<equiv> 42"
abbreviation (input) DHO_VENDOR_ENCAPSULATED_OPTIONS :: u16 where "DHO_VENDOR_ENCAPSULATED_OPTIONS \<equiv> 43"
abbreviation (input) DHO_NETBIOS_NAME_SERVERS :: u16 where "DHO_NETBIOS_NAME_SERVERS \<equiv> 44"
abbreviation (input) DHO_NETBIOS_DD_SERVER :: u16 where "DHO_NETBIOS_DD_SERVER \<equiv> 45"
abbreviation (input) DHO_NETBIOS_NODE_TYPE :: u16 where "DHO_NETBIOS_NODE_TYPE \<equiv> 46"
abbreviation (input) DHO_NETBIOS_SCOPE :: u16 where "DHO_NETBIOS_SCOPE \<equiv> 47"
abbreviation (input) DHO_FONT_SERVERS :: u16 where "DHO_FONT_SERVERS \<equiv> 48"
abbreviation (input) DHO_X_DISPLAY_MANAGER :: u16 where "DHO_X_DISPLAY_MANAGER \<equiv> 49"
abbreviation (input) DHO_DHCP_REQUESTED_ADDRESS :: u16 where "DHO_DHCP_REQUESTED_ADDRESS \<equiv> 50"
abbreviation (input) DHO_DHCP_LEASE_TIME :: u16 where "DHO_DHCP_LEASE_TIME \<equiv> 51"
abbreviation (input) DHO_DHCP_OPTION_OVERLOAD :: u16 where "DHO_DHCP_OPTION_OVERLOAD \<equiv> 52"
abbreviation (input) DHO_DHCP_MESSAGE_TYPE :: u16 where "DHO_DHCP_MESSAGE_TYPE \<equiv> 53"
abbreviation (input) DHO_DHCP_SERVER_IDENTIFIER :: u16 where "DHO_DHCP_SERVER_IDENTIFIER \<equiv> 54"
abbreviation (input) DHO_DHCP_PARAMETER_REQUEST_LIST :: u16 where "DHO_DHCP_PARAMETER_REQUEST_LIST \<equiv> 55"
abbreviation (input) DHO_DHCP_MESSAGE :: u16 where "DHO_DHCP_MESSAGE \<equiv> 56"
abbreviation (input) DHO_DHCP_MAX_MESSAGE_SIZE :: u16 where "DHO_DHCP_MAX_MESSAGE_SIZE \<equiv> 57"
abbreviation (input) DHO_DHCP_RENEWAL_TIME :: u16 where "DHO_DHCP_RENEWAL_TIME \<equiv> 58"
abbreviation (input) DHO_DHCP_REBINDING_TIME :: u16 where "DHO_DHCP_REBINDING_TIME \<equiv> 59"
abbreviation (input) DHO_VENDOR_CLASS_IDENTIFIER :: u16 where "DHO_VENDOR_CLASS_IDENTIFIER \<equiv> 60"
abbreviation (input) DHO_DHCP_CLIENT_IDENTIFIER :: u16 where "DHO_DHCP_CLIENT_IDENTIFIER \<equiv> 61"
abbreviation (input) DHO_NWIP_DOMAIN_NAME :: u16 where "DHO_NWIP_DOMAIN_NAME \<equiv> 62"
abbreviation (input) DHO_NWIP_SUBOPTIONS :: u16 where "DHO_NWIP_SUBOPTIONS \<equiv> 63"
abbreviation (input) DHO_USER_CLASS :: u16 where "DHO_USER_CLASS \<equiv> 77"
abbreviation (input) DHO_FQDN :: u16 where "DHO_FQDN \<equiv> 81"
abbreviation (input) DHO_DHCP_AGENT_OPTIONS :: u16 where "DHO_DHCP_AGENT_OPTIONS \<equiv> 82"
abbreviation (input) DHO_AUTHENTICATE :: u16 where "DHO_AUTHENTICATE \<equiv> 90"
abbreviation (input) DHO_CLIENT_LAST_TRANSACTION_TIME :: u16 where "DHO_CLIENT_LAST_TRANSACTION_TIME \<equiv> 91"
abbreviation (input) DHO_ASSOCIATED_IP :: u16 where "DHO_ASSOCIATED_IP \<equiv> 92"
abbreviation (input) DHO_SUBNET_SELECTION :: u16 where "DHO_SUBNET_SELECTION \<equiv> 118"
abbreviation (input) DHO_DOMAIN_SEARCH :: u16 where "DHO_DOMAIN_SEARCH \<equiv> 119"
abbreviation (input) DHO_VIVCO_SUBOPTIONS :: u16 where "DHO_VIVCO_SUBOPTIONS \<equiv> 124"
abbreviation (input) DHO_VIVSO_SUBOPTIONS :: u16 where "DHO_VIVSO_SUBOPTIONS \<equiv> 125"
abbreviation (input) DHO_END :: u16 where "DHO_END \<equiv> 255"
abbreviation (input) D6O_CLIENTID :: u16 where "D6O_CLIENTID \<equiv> 1"
abbreviation (input) D6O_SERVERID :: u16 where "D6O_SERVERID \<equiv> 2"
abbreviation (input) D6O_IA_NA :: u16 where "D6O_IA_NA \<equiv> 3"
abbreviation (input) D6O_IA_TA :: u16 where "D6O_IA_TA \<equiv> 4"
abbreviation (input) D6O_IAADDR :: u16 where "D6O_IAADDR \<equiv> 5"
abbreviation (input) D6O_ORO :: u16 where "D6O_ORO \<equiv> 6"
abbreviation (input) D6O_PREFERENCE :: u16 where "D6O_PREFERENCE \<equiv> 7"
abbreviation (input) D6O_ELAPSED_TIME :: u16 where "D6O_ELAPSED_TIME \<equiv> 8"
abbreviation (input) D6O_RELAY_MSG :: u16 where "D6O_RELAY_MSG \<equiv> 9"
abbreviation (input) D6O_AUTH :: u16 where "D6O_AUTH \<equiv> 11"
abbreviation (input) D6O_UNICAST :: u16 where "D6O_UNICAST \<equiv> 12"
abbreviation (input) D6O_STATUS_CODE :: u16 where "D6O_STATUS_CODE \<equiv> 13"
abbreviation (input) D6O_RAPID_COMMIT :: u16 where "D6O_RAPID_COMMIT \<equiv> 14"
abbreviation (input) D6O_USER_CLASS :: u16 where "D6O_USER_CLASS \<equiv> 15"
abbreviation (input) D6O_VENDOR_CLASS :: u16 where "D6O_VENDOR_CLASS \<equiv> 16"
abbreviation (input) D6O_VENDOR_OPTS :: u16 where "D6O_VENDOR_OPTS \<equiv> 17"
abbreviation (input) D6O_INTERFACE_ID :: u16 where "D6O_INTERFACE_ID \<equiv> 18"
abbreviation (input) D6O_RECONF_MSG :: u16 where "D6O_RECONF_MSG \<equiv> 19"
abbreviation (input) D6O_RECONF_ACCEPT :: u16 where "D6O_RECONF_ACCEPT \<equiv> 20"
abbreviation (input) D6O_SIP_SERVERS_DNS :: u16 where "D6O_SIP_SERVERS_DNS \<equiv> 21"
abbreviation (input) D6O_SIP_SERVERS_ADDR :: u16 where "D6O_SIP_SERVERS_ADDR \<equiv> 22"
abbreviation (input) D6O_NAME_SERVERS :: u16 where "D6O_NAME_SERVERS \<equiv> 23"
abbreviation (input) D6O_DOMAIN_SEARCH :: u16 where "D6O_DOMAIN_SEARCH \<equiv> 24"
abbreviation (input) D6O_IA_PD :: u16 where "D6O_IA_PD \<equiv> 25"
abbreviation (input) D6O_IAPREFIX :: u16 where "D6O_IAPREFIX \<equiv> 26"
abbreviation (input) D6O_NIS_SERVERS :: u16 where "D6O_NIS_SERVERS \<equiv> 27"
abbreviation (input) D6O_NISP_SERVERS :: u16 where "D6O_NISP_SERVERS \<equiv> 28"
abbreviation (input) D6O_NIS_DOMAIN_NAME :: u16 where "D6O_NIS_DOMAIN_NAME \<equiv> 29"
abbreviation (input) D6O_NISP_DOMAIN_NAME :: u16 where "D6O_NISP_DOMAIN_NAME \<equiv> 30"
abbreviation (input) D6O_SNTP_SERVERS :: u16 where "D6O_SNTP_SERVERS \<equiv> 31"
abbreviation (input) D6O_INFORMATION_REFRESH_TIME :: u16 where "D6O_INFORMATION_REFRESH_TIME \<equiv> 32"
abbreviation (input) D6O_BCMCS_SERVER_D :: u16 where "D6O_BCMCS_SERVER_D \<equiv> 33"
abbreviation (input) D6O_BCMCS_SERVER_A :: u16 where "D6O_BCMCS_SERVER_A \<equiv> 34"
abbreviation (input) D6O_GEOCONF_CIVIC :: u16 where "D6O_GEOCONF_CIVIC \<equiv> 36"
abbreviation (input) D6O_REMOTE_ID :: u16 where "D6O_REMOTE_ID \<equiv> 37"
abbreviation (input) D6O_SUBSCRIBER_ID :: u16 where "D6O_SUBSCRIBER_ID \<equiv> 38"
abbreviation (input) D6O_CLIENT_FQDN :: u16 where "D6O_CLIENT_FQDN \<equiv> 39"
abbreviation (input) D6O_PANA_AGENT :: u16 where "D6O_PANA_AGENT \<equiv> 40"
abbreviation (input) D6O_NEW_POSIX_TIMEZONE :: u16 where "D6O_NEW_POSIX_TIMEZONE \<equiv> 41"
abbreviation (input) D6O_NEW_TZDB_TIMEZONE :: u16 where "D6O_NEW_TZDB_TIMEZONE \<equiv> 42"
abbreviation (input) D6O_ERO :: u16 where "D6O_ERO \<equiv> 43"
abbreviation (input) D6O_LQ_QUERY :: u16 where "D6O_LQ_QUERY \<equiv> 44"
abbreviation (input) D6O_CLIENT_DATA :: u16 where "D6O_CLIENT_DATA \<equiv> 45"
abbreviation (input) D6O_CLT_TIME :: u16 where "D6O_CLT_TIME \<equiv> 46"
abbreviation (input) D6O_LQ_RELAY_DATA :: u16 where "D6O_LQ_RELAY_DATA \<equiv> 47"
abbreviation (input) D6O_LQ_CLIENT_LINK :: u16 where "D6O_LQ_CLIENT_LINK \<equiv> 48"
abbreviation (input) OPTION_DHCPV4_MSG :: u16 where "OPTION_DHCPV4_MSG \<equiv> 54321"

section \<open>Message types\<close>

abbreviation (input) BOOTREQUEST :: u8 where "BOOTREQUEST \<equiv> 1"
abbreviation (input) BOOTREPLY :: u8 where "BOOTREPLY \<equiv> 2"
abbreviation (input) DHCPDISCOVER :: u8 where "DHCPDISCOVER \<equiv> 1"
abbreviation (input) DHCPOFFER :: u8 where "DHCPOFFER \<equiv> 2"
abbreviation (input) DHCPREQUEST :: u8 where "DHCPREQUEST \<equiv> 3"
abbreviation (input) DHCPDECLINE :: u8 where "DHCPDECLINE \<equiv> 4"
abbreviation (input) DHCPACK :: u8 where "DHCPACK \<equiv> 5"
abbreviation (input) DHCPNAK :: u8 where "DHCPNAK \<equiv> 6"
abbreviation (input) DHCPRELEASE :: u8 where "DHCPRELEASE \<equiv> 7"
abbreviation (input) DHCPINFORM :: u8 where "DHCPINFORM \<equiv> 8"
abbreviation (input) DHCP_OPTIONS_COOKIE :: u32 where "DHCP_OPTIONS_COOKIE \<equiv> 0x63825363"
abbreviation (input) BOOTP_BROADCAST :: u16 where "BOOTP_BROADCAST \<equiv> 32768"
abbreviation (input) DHCP4_CLIENT_PORT :: u16 where "DHCP4_CLIENT_PORT \<equiv> 68"
abbreviation (input) DHCP4_SERVER_PORT :: u16 where "DHCP4_SERVER_PORT \<equiv> 67"
abbreviation (input) DHCPV6_SOLICIT :: u8 where "DHCPV6_SOLICIT \<equiv> 1"
abbreviation (input) DHCPV6_ADVERTISE :: u8 where "DHCPV6_ADVERTISE \<equiv> 2"
abbreviation (input) DHCPV6_REQUEST :: u8 where "DHCPV6_REQUEST \<equiv> 3"
abbreviation (input) DHCPV6_CONFIRM :: u8 where "DHCPV6_CONFIRM \<equiv> 4"
abbreviation (input) DHCPV6_RENEW :: u8 where "DHCPV6_RENEW \<equiv> 5"
abbreviation (input) DHCPV6_REBIND :: u8 where "DHCPV6_REBIND \<equiv> 6"
abbreviation (input) DHCPV6_REPLY :: u8 where "DHCPV6_REPLY \<equiv> 7"
abbreviation (input) DHCPV6_RELEASE :: u8 where "DHCPV6_RELEASE \<equiv> 8"
abbreviation (input) DHCPV6_DECLINE :: u8 where "DHCPV6_DECLINE \<equiv> 9"
abbreviation (input) DHCPV6_RECONFIGURE :: u8 where "DHCPV6_RECONFIGURE \<equiv> 10"
abbreviation (input) DHCPV6_INFORMATION_REQUEST :: u8 where "DHCPV6_INFORMATION_REQUEST \<equiv> 11"
abbreviation (input) DHCPV6_RELAY_FORW :: u8 where "DHCPV6_RELAY_FORW \<equiv> 12"
abbreviation (input) DHCPV6_RELAY_REPL :: u8 where "DHCPV6_RELAY_REPL \<equiv> 13"
abbreviation (input) DHCPV4_QUERY :: u8 where "DHCPV4_QUERY \<equiv> 245"
abbreviation (input) DHCPV4_RESPONSE :: u8 where "DHCPV4_RESPONSE \<equiv> 246"

section \<open>Status codes\<close>

abbreviation (input) STATUS_Success :: u16 where "STATUS_Success \<equiv> 0"
abbreviation (input) STATUS_UnspecFail :: u16 where "STATUS_UnspecFail \<equiv> 1"
abbreviation (input) STATUS_NoAddrsAvail :: u16 where "STATUS_NoAddrsAvail \<equiv> 2"
abbreviation (input) STATUS_NoBinding :: u16 where "STATUS_NoBinding \<equiv> 3"
abbreviation (input) STATUS_NotOnLink :: u16 where "STATUS_NotOnLink \<equiv> 4"

end
