(* ===== verification/Option_Def.thy ===== *)
theory Option_Def
  imports Dns_Name Dhcp_Codes
begin

unbundle bit_operations_syntax

text \<open>
  Option data types (\<^verbatim>\<open>src/lib/dhcp/option_data_types.{h,cc}\<close>), option space names
  (\<^verbatim>\<open>option_space.cc\<close>), option definitions (\<^verbatim>\<open>option_definition.cc\<close>) and the tables of
  standard definitions (\<^verbatim>\<open>std_option_defs.h\<close>, loaded by \<^verbatim>\<open>LibDHCP::initStdOptionDefs4\<close>
  and \<^verbatim>\<open>initStdOptionDefs6\<close>).

  The static containers of \<^verbatim>\<open>LibDHCP\<close> are filled on first use from constant tables, so
  \<open>getOptionDefs\<close> is a constant. Building an option from configuration strings is not modelled: it
  needs \<^verbatim>\<open>boost::lexical_cast\<close> and the address parser of asio.
\<close>

section \<open>Data types\<close>

datatype Universe = UV4 | UV6

datatype OptionDataType =
    OPT_EMPTY_TYPE | OPT_BINARY_TYPE | OPT_BOOLEAN_TYPE | OPT_INT8_TYPE | OPT_INT16_TYPE
  | OPT_INT32_TYPE | OPT_UINT8_TYPE | OPT_UINT16_TYPE | OPT_UINT32_TYPE | OPT_ANY_ADDRESS_TYPE
  | OPT_IPV4_ADDRESS_TYPE | OPT_IPV6_ADDRESS_TYPE | OPT_STRING_TYPE | OPT_FQDN_TYPE
  | OPT_RECORD_TYPE | OPT_UNKNOWN_TYPE

text \<open>The value of an enumerator, for the comparisons the code makes with \<^verbatim>\<open>>=\<close>.\<close>

fun enum_val :: "OptionDataType \<Rightarrow> nat" where
  "enum_val OPT_EMPTY_TYPE = 0" | "enum_val OPT_BINARY_TYPE = 1" | "enum_val OPT_BOOLEAN_TYPE = 2"
| "enum_val OPT_INT8_TYPE = 3" | "enum_val OPT_INT16_TYPE = 4" | "enum_val OPT_INT32_TYPE = 5"
| "enum_val OPT_UINT8_TYPE = 6" | "enum_val OPT_UINT16_TYPE = 7" | "enum_val OPT_UINT32_TYPE = 8"
| "enum_val OPT_ANY_ADDRESS_TYPE = 9" | "enum_val OPT_IPV4_ADDRESS_TYPE = 10"
| "enum_val OPT_IPV6_ADDRESS_TYPE = 11" | "enum_val OPT_STRING_TYPE = 12"
| "enum_val OPT_FQDN_TYPE = 13" | "enum_val OPT_RECORD_TYPE = 14" | "enum_val OPT_UNKNOWN_TYPE = 15"

definition data_types :: "(string \<times> OptionDataType) list" where
  "data_types =
     [(''empty'', OPT_EMPTY_TYPE), (''binary'', OPT_BINARY_TYPE), (''boolean'', OPT_BOOLEAN_TYPE),
      (''int8'', OPT_INT8_TYPE), (''int16'', OPT_INT16_TYPE), (''int32'', OPT_INT32_TYPE),
      (''uint8'', OPT_UINT8_TYPE), (''uint16'', OPT_UINT16_TYPE), (''uint32'', OPT_UINT32_TYPE),
      (''ipv4-address'', OPT_IPV4_ADDRESS_TYPE), (''ipv6-address'', OPT_IPV6_ADDRESS_TYPE),
      (''string'', OPT_STRING_TYPE), (''fqdn'', OPT_FQDN_TYPE), (''record'', OPT_RECORD_TYPE)]"

definition data_type_names :: "(OptionDataType \<times> string) list" where
  "data_type_names =
     [(OPT_EMPTY_TYPE, ''empty''), (OPT_BINARY_TYPE, ''binary''), (OPT_BOOLEAN_TYPE, ''boolean''),
      (OPT_INT8_TYPE, ''int8''), (OPT_INT16_TYPE, ''int16''), (OPT_INT32_TYPE, ''int32''),
      (OPT_UINT8_TYPE, ''uint8''), (OPT_UINT16_TYPE, ''uint16''), (OPT_UINT32_TYPE, ''uint32''),
      (OPT_IPV4_ADDRESS_TYPE, ''ipv4-address''), (OPT_IPV6_ADDRESS_TYPE, ''ipv6-address''),
      (OPT_STRING_TYPE, ''string''), (OPT_FQDN_TYPE, ''fqdn''), (OPT_RECORD_TYPE, ''record''),
      (OPT_UNKNOWN_TYPE, ''unknown'')]"

definition getDataType :: "string \<Rightarrow> OptionDataType" where
  "getDataType data_type =
     (case map_of data_types data_type of Some t \<Rightarrow> t | None \<Rightarrow> OPT_UNKNOWN_TYPE)"

definition getDataTypeName :: "OptionDataType \<Rightarrow> string" where
  "getDataTypeName data_type =
     (case map_of data_type_names data_type of
        Some n \<Rightarrow> n
      | None \<Rightarrow> the (map_of data_type_names OPT_UNKNOWN_TYPE))"

fun getDataTypeLen :: "OptionDataType \<Rightarrow> nat" where
  "getDataTypeLen OPT_BOOLEAN_TYPE = 1"
| "getDataTypeLen OPT_INT8_TYPE = 1"
| "getDataTypeLen OPT_UINT8_TYPE = 1"
| "getDataTypeLen OPT_INT16_TYPE = 2"
| "getDataTypeLen OPT_UINT16_TYPE = 2"
| "getDataTypeLen OPT_INT32_TYPE = 4"
| "getDataTypeLen OPT_UINT32_TYPE = 4"
| "getDataTypeLen OPT_IPV4_ADDRESS_TYPE = V4ADDRESS_LEN"
| "getDataTypeLen OPT_IPV6_ADDRESS_TYPE = V6ADDRESS_LEN"
| "getDataTypeLen _ = 0"

section \<open>Reading and writing a data field\<close>

definition dt_readAddress :: "bytes \<Rightarrow> int \<Rightarrow> ioaddress result" where
  "dt_readAddress buf family =
     (if family = AF_INET then
        (if length buf < V4ADDRESS_LEN then Inl BadDataTypeCast else fromBytes AF_INET buf)
      else if family = AF_INET6 then
        (if length buf < V6ADDRESS_LEN then Inl BadDataTypeCast else fromBytes AF_INET6 buf)
      else Inl BadDataTypeCast)"

definition dt_writeAddress :: "ioaddress \<Rightarrow> bytes \<Rightarrow> bytes" where
  "dt_writeAddress address buf = buf @ toBytes address"

definition readBool :: "bytes \<Rightarrow> bool result" where
  "readBool buf =
     (case buf of
        [] \<Rightarrow> Inl BadDataTypeCast
      | b # _ \<Rightarrow> if b = 1 then Inr True else if b = 0 then Inr False else Inl BadDataTypeCast)"

definition writeBool :: "bool \<Rightarrow> bytes \<Rightarrow> bytes" where
  "writeBool value buf = buf @ [if value then 1 else 0]"

text \<open>\<open>w\<close> is \<^verbatim>\<open>OptionDataTypeTraits<T>::len\<close>; the value is the unsigned reading, which the
  signed instances reinterpret.\<close>

definition readInt :: "nat \<Rightarrow> bytes \<Rightarrow> nat result" where
  "readInt w buf =
     (if length buf < w then Inl BadDataTypeCast
      else if w = 1 then Inr (unat (buf ! 0))
      else if w = 2 then bindE (readUint16 buf) (\<lambda>v. Inr (unat v))
      else if w = 4 then bindE (readUint32 buf) (\<lambda>v. Inr (unat v))
      else Inl InvalidDataType)"

definition writeInt :: "nat \<Rightarrow> nat \<Rightarrow> bytes \<Rightarrow> bytes" where
  "writeInt w value buf =
     (if w = 1 then buf @ [word_of_nat value]
      else if w = 2 then buf @ writeUint16 (word_of_nat value)
      else if w = 4 then buf @ writeUint32 (word_of_nat value)
      else buf)"

definition readFqdn :: "bytes \<Rightarrow> bytes result" where
  "readFqdn buf =
     (if buf = [] then Inl BadDataTypeCast
      else catch_isc
        (bindE (Name_from_wire (mk_InputBuffer buf) False) (\<lambda>(nm, _). Name_toText nm))
        (\<lambda>e. Inl BadDataTypeCast))"

definition readString :: "bytes \<Rightarrow> bytes" where
  "readString buf = buf"

definition writeString :: "bytes \<Rightarrow> bytes \<Rightarrow> bytes" where
  "writeString value buf = (if length value > 0 then buf @ value else buf)"

section \<open>Option space names\<close>

definition in_char_range :: "char \<Rightarrow> char \<Rightarrow> char \<Rightarrow> bool" where
  "in_char_range lo hi c \<longleftrightarrow> (of_char lo :: nat) \<le> of_char c \<and> (of_char c :: nat) \<le> of_char hi"

definition is_name_char :: "char \<Rightarrow> bool" where
  "is_name_char c \<longleftrightarrow>
     in_char_range CHR ''a'' CHR ''z'' c \<or> in_char_range CHR ''A'' CHR ''Z'' c \<or>
     in_char_range CHR ''0'' CHR ''9'' c \<or> c \<in> set ''-_''"

definition validateName :: "string \<Rightarrow> bool" where
  "validateName name \<longleftrightarrow>
     list_all is_name_char name \<and> name \<noteq> [] \<and>
     \<not> list_all (\<lambda>c. c \<in> set ''-_'') (take 1 name) \<and>
     \<not> list_all (\<lambda>c. c \<in> set ''-_'') (drop (length name - 1) name)"

section \<open>Option definitions\<close>

record OptionDefinition =
  def_name :: string
  def_code :: u16
  def_type :: OptionDataType
  array_type :: bool
  encapsulated_space :: string
  record_fields :: "OptionDataType list"

definition mk_OptionDefinition :: "string \<Rightarrow> u16 \<Rightarrow> OptionDataType \<Rightarrow> bool \<Rightarrow> OptionDefinition" where
  "mk_OptionDefinition name code type array =
     \<lparr>def_name = name, def_code = code, def_type = type, array_type = array,
      encapsulated_space = '''', record_fields = []\<rparr>"

definition mk_OptionDefinition_encap :: "string \<Rightarrow> u16 \<Rightarrow> OptionDataType \<Rightarrow> string \<Rightarrow> OptionDefinition" where
  "mk_OptionDefinition_encap name code type space =
     \<lparr>def_name = name, def_code = code, def_type = type, array_type = False,
      encapsulated_space = space, record_fields = []\<rparr>"

definition addRecordField :: "OptionDataType \<Rightarrow> OptionDefinition \<Rightarrow> OptionDefinition result" where
  "addRecordField data_type d =
     (if def_type d \<noteq> OPT_RECORD_TYPE then Inl InvalidOperation
      else if enum_val data_type \<ge> enum_val OPT_RECORD_TYPE \<or> data_type = OPT_ANY_ADDRESS_TYPE \<or>
              data_type = OPT_EMPTY_TYPE then Inl BadValue
      else Inr (d\<lparr>record_fields := record_fields d @ [data_type]\<rparr>))"

text \<open>The loop over the fields of a record: the value says whether an error text was produced. A
  string or an empty field leaves the loop, a misplaced binary field does not.\<close>

fun fields_err :: "OptionDataType list \<Rightarrow> bool" where
  "fields_err [] = False"
| "fields_err (f # fs) =
     (if f = OPT_STRING_TYPE \<and> fs \<noteq> [] then True
      else let err = (f = OPT_BINARY_TYPE \<and> fs \<noteq> [])
           in if f = OPT_EMPTY_TYPE then True else err \<or> fields_err fs)"

definition validate :: "OptionDefinition \<Rightarrow> unit result" where
  "validate d =
     (let err =
        (if \<not> list_all is_name_char (def_name d) \<or> def_name d = [] \<or>
            list_all (\<lambda>c. c \<in> set ''-_'') (take 1 (def_name d)) \<or>
            list_all (\<lambda>c. c \<in> set ''-_'') (drop (length (def_name d) - 1) (def_name d)) then True
         else if encapsulated_space d \<noteq> [] \<and> \<not> validateName (encapsulated_space d) then True
         else if enum_val (def_type d) \<ge> enum_val OPT_UNKNOWN_TYPE then True
         else if array_type d then
           def_type d = OPT_STRING_TYPE \<or> def_type d = OPT_BINARY_TYPE \<or> def_type d = OPT_EMPTY_TYPE
         else if def_type d = OPT_RECORD_TYPE then
           (if length (record_fields d) < 2 then True else fields_err (record_fields d))
         else False)
      in if err then Inl MalformedOptionDefinition else Inr ())"

definition haveIAx6Format :: "OptionDataType \<Rightarrow> OptionDefinition \<Rightarrow> bool" where
  "haveIAx6Format first_type d \<longleftrightarrow>
     def_type d = OPT_RECORD_TYPE \<and> length (record_fields d) = 3 \<and> record_fields d ! 0 = first_type \<and>
     record_fields d ! 1 = OPT_UINT32_TYPE \<and> record_fields d ! 2 = OPT_UINT32_TYPE"

definition haveIA6Format :: "OptionDefinition \<Rightarrow> bool" where
  "haveIA6Format d = haveIAx6Format OPT_UINT32_TYPE d"

definition haveIAAddr6Format :: "OptionDefinition \<Rightarrow> bool" where
  "haveIAAddr6Format d = haveIAx6Format OPT_IPV6_ADDRESS_TYPE d"

section \<open>The standard definitions\<close>

type_synonym option_def_params =
  "string \<times> u16 \<times> OptionDataType \<times> bool \<times> OptionDataType list \<times> string"

definition FQDN_RECORDS :: "OptionDataType list" where
  "FQDN_RECORDS = [OPT_UINT8_TYPE, OPT_UINT8_TYPE, OPT_STRING_TYPE]"
definition CLIENT_FQDN_RECORDS :: "OptionDataType list" where
  "CLIENT_FQDN_RECORDS = [OPT_UINT8_TYPE, OPT_FQDN_TYPE]"
definition GEOCONF_CIVIC_RECORDS :: "OptionDataType list" where
  "GEOCONF_CIVIC_RECORDS = [OPT_UINT8_TYPE, OPT_UINT16_TYPE, OPT_BINARY_TYPE]"
definition IAADDR_RECORDS :: "OptionDataType list" where
  "IAADDR_RECORDS = [OPT_IPV6_ADDRESS_TYPE, OPT_UINT32_TYPE, OPT_UINT32_TYPE]"
definition IA_NA_RECORDS :: "OptionDataType list" where
  "IA_NA_RECORDS = [OPT_UINT32_TYPE, OPT_UINT32_TYPE, OPT_UINT32_TYPE]"
definition IA_PD_RECORDS :: "OptionDataType list" where
  "IA_PD_RECORDS = [OPT_UINT32_TYPE, OPT_UINT32_TYPE, OPT_UINT32_TYPE]"
definition IA_PREFIX_RECORDS :: "OptionDataType list" where
  "IA_PREFIX_RECORDS = [OPT_UINT32_TYPE, OPT_UINT32_TYPE, OPT_UINT8_TYPE, OPT_BINARY_TYPE]"
definition LQ_QUERY_RECORDS :: "OptionDataType list" where
  "LQ_QUERY_RECORDS = [OPT_UINT8_TYPE, OPT_IPV6_ADDRESS_TYPE]"
definition LQ_RELAY_DATA_RECORDS :: "OptionDataType list" where
  "LQ_RELAY_DATA_RECORDS = [OPT_IPV6_ADDRESS_TYPE, OPT_BINARY_TYPE]"
definition REMOTE_ID_RECORDS :: "OptionDataType list" where
  "REMOTE_ID_RECORDS = [OPT_UINT32_TYPE, OPT_BINARY_TYPE]"
definition STATUS_CODE_RECORDS :: "OptionDataType list" where
  "STATUS_CODE_RECORDS = [OPT_UINT16_TYPE, OPT_STRING_TYPE]"
definition VENDOR_CLASS_RECORDS :: "OptionDataType list" where
  "VENDOR_CLASS_RECORDS = [OPT_UINT32_TYPE, OPT_BINARY_TYPE]"

definition OPTION_DEF_PARAMS4 :: "option_def_params list" where
  "OPTION_DEF_PARAMS4 =
     [(''subnet-mask'', DHO_SUBNET_MASK, OPT_IPV4_ADDRESS_TYPE, False, [], ''''),
      (''time-offset'', DHO_TIME_OFFSET, OPT_UINT32_TYPE, False, [], ''''),
      (''routers'', DHO_ROUTERS, OPT_IPV4_ADDRESS_TYPE, True, [], ''''),
      (''time-servers'', DHO_TIME_SERVERS, OPT_IPV4_ADDRESS_TYPE, True, [], ''''),
      (''name-servers'', DHO_NAME_SERVERS, OPT_IPV4_ADDRESS_TYPE, False, [], ''''),
      (''domain-name-servers'', DHO_DOMAIN_NAME_SERVERS, OPT_IPV4_ADDRESS_TYPE, True, [], ''''),
      (''log-servers'', DHO_LOG_SERVERS, OPT_IPV4_ADDRESS_TYPE, True, [], ''''),
      (''cookie-servers'', DHO_COOKIE_SERVERS, OPT_IPV4_ADDRESS_TYPE, True, [], ''''),
      (''lpr-servers'', DHO_LPR_SERVERS, OPT_IPV4_ADDRESS_TYPE, True, [], ''''),
      (''impress-servers'', DHO_IMPRESS_SERVERS, OPT_IPV4_ADDRESS_TYPE, True, [], ''''),
      (''resource-location-servers'', DHO_RESOURCE_LOCATION_SERVERS, OPT_IPV4_ADDRESS_TYPE, True, [], ''''),
      (''host-name'', DHO_HOST_NAME, OPT_STRING_TYPE, False, [], ''''),
      (''boot-size'', DHO_BOOT_SIZE, OPT_UINT16_TYPE, False, [], ''''),
      (''merit-dump'', DHO_MERIT_DUMP, OPT_STRING_TYPE, False, [], ''''),
      (''domain-name'', DHO_DOMAIN_NAME, OPT_STRING_TYPE, False, [], ''''),
      (''swap-server'', DHO_SWAP_SERVER, OPT_IPV4_ADDRESS_TYPE, False, [], ''''),
      (''root-path'', DHO_ROOT_PATH, OPT_STRING_TYPE, False, [], ''''),
      (''extensions-path'', DHO_EXTENSIONS_PATH, OPT_STRING_TYPE, False, [], ''''),
      (''ip-forwarding'', DHO_IP_FORWARDING, OPT_BOOLEAN_TYPE, False, [], ''''),
      (''non-local-source-routing'', DHO_NON_LOCAL_SOURCE_ROUTING, OPT_BOOLEAN_TYPE, False, [], ''''),
      (''policy-filter'', DHO_POLICY_FILTER, OPT_IPV4_ADDRESS_TYPE, True, [], ''''),
      (''max-dgram-reassembly'', DHO_MAX_DGRAM_REASSEMBLY, OPT_UINT16_TYPE, False, [], ''''),
      (''default-ip-ttl'', DHO_DEFAULT_IP_TTL, OPT_UINT8_TYPE, False, [], ''''),
      (''path-mtu-aging-timeout'', DHO_PATH_MTU_AGING_TIMEOUT, OPT_UINT32_TYPE, False, [], ''''),
      (''path-mtu-plateau-table'', DHO_PATH_MTU_PLATEAU_TABLE, OPT_UINT16_TYPE, True, [], ''''),
      (''interface-mtu'', DHO_INTERFACE_MTU, OPT_UINT16_TYPE, False, [], ''''),
      (''all-subnets-local'', DHO_ALL_SUBNETS_LOCAL, OPT_BOOLEAN_TYPE, False, [], ''''),
      (''broadcast-address'', DHO_BROADCAST_ADDRESS, OPT_IPV4_ADDRESS_TYPE, False, [], ''''),
      (''perform-mask-discovery'', DHO_PERFORM_MASK_DISCOVERY, OPT_BOOLEAN_TYPE, False, [], ''''),
      (''mask-supplier'', DHO_MASK_SUPPLIER, OPT_BOOLEAN_TYPE, False, [], ''''),
      (''router-discovery'', DHO_ROUTER_DISCOVERY, OPT_BOOLEAN_TYPE, False, [], ''''),
      (''router-solicitation-address'', DHO_ROUTER_SOLICITATION_ADDRESS, OPT_IPV4_ADDRESS_TYPE, False, [], ''''),
      (''static-routes'', DHO_STATIC_ROUTES, OPT_IPV4_ADDRESS_TYPE, True, [], ''''),
      (''trailer-encapsulation'', DHO_TRAILER_ENCAPSULATION, OPT_BOOLEAN_TYPE, False, [], ''''),
      (''arp-cache-timeout'', DHO_ARP_CACHE_TIMEOUT, OPT_UINT32_TYPE, False, [], ''''),
      (''ieee802-3-encapsulation'', DHO_IEEE802_3_ENCAPSULATION, OPT_BOOLEAN_TYPE, False, [], ''''),
      (''default-tcp-ttl'', DHO_DEFAULT_TCP_TTL, OPT_UINT8_TYPE, False, [], ''''),
      (''tcp-keepalive-internal'', DHO_TCP_KEEPALIVE_INTERVAL, OPT_UINT32_TYPE, False, [], ''''),
      (''tcp-keepalive-garbage'', DHO_TCP_KEEPALIVE_GARBAGE, OPT_BOOLEAN_TYPE, False, [], ''''),
      (''nis-domain'', DHO_NIS_DOMAIN, OPT_STRING_TYPE, False, [], ''''),
      (''nis-servers'', DHO_NIS_SERVERS, OPT_IPV4_ADDRESS_TYPE, True, [], ''''),
      (''ntp-servers'', DHO_NTP_SERVERS, OPT_IPV4_ADDRESS_TYPE, True, [], ''''),
      (''vendor-encapsulated-options'', DHO_VENDOR_ENCAPSULATED_OPTIONS, OPT_EMPTY_TYPE, False, [], ''vendor-encapsulated-options-space''),
      (''netbios-name-servers'', DHO_NETBIOS_NAME_SERVERS, OPT_IPV4_ADDRESS_TYPE, True, [], ''''),
      (''netbios-dd-server'', DHO_NETBIOS_DD_SERVER, OPT_IPV4_ADDRESS_TYPE, True, [], ''''),
      (''netbios-node-type'', DHO_NETBIOS_NODE_TYPE, OPT_UINT8_TYPE, False, [], ''''),
      (''netbios-scope'', DHO_NETBIOS_SCOPE, OPT_STRING_TYPE, False, [], ''''),
      (''font-servers'', DHO_FONT_SERVERS, OPT_IPV4_ADDRESS_TYPE, True, [], ''''),
      (''x-display-manager'', DHO_X_DISPLAY_MANAGER, OPT_IPV4_ADDRESS_TYPE, True, [], ''''),
      (''dhcp-requested-address'', DHO_DHCP_REQUESTED_ADDRESS, OPT_IPV4_ADDRESS_TYPE, False, [], ''''),
      (''dhcp-lease-time'', DHO_DHCP_LEASE_TIME, OPT_UINT32_TYPE, False, [], ''''),
      (''dhcp-option-overload'', DHO_DHCP_OPTION_OVERLOAD, OPT_UINT8_TYPE, False, [], ''''),
      (''dhcp-message-type'', DHO_DHCP_MESSAGE_TYPE, OPT_UINT8_TYPE, False, [], ''''),
      (''dhcp-server-identifier'', DHO_DHCP_SERVER_IDENTIFIER, OPT_IPV4_ADDRESS_TYPE, False, [], ''''),
      (''dhcp-parameter-request-list'', DHO_DHCP_PARAMETER_REQUEST_LIST, OPT_UINT8_TYPE, True, [], ''''),
      (''dhcp-message'', DHO_DHCP_MESSAGE, OPT_STRING_TYPE, False, [], ''''),
      (''dhcp-max-message-size'', DHO_DHCP_MAX_MESSAGE_SIZE, OPT_UINT16_TYPE, False, [], ''''),
      (''dhcp-renewal-time'', DHO_DHCP_RENEWAL_TIME, OPT_UINT32_TYPE, False, [], ''''),
      (''dhcp-rebinding-time'', DHO_DHCP_REBINDING_TIME, OPT_UINT32_TYPE, False, [], ''''),
      (''vendor-class-identifier'', DHO_VENDOR_CLASS_IDENTIFIER, OPT_BINARY_TYPE, False, [], ''''),
      (''dhcp-client-identifier'', DHO_DHCP_CLIENT_IDENTIFIER, OPT_BINARY_TYPE, False, [], ''''),
      (''nwip-domain-name'', DHO_NWIP_DOMAIN_NAME, OPT_STRING_TYPE, False, [], ''''),
      (''nwip-suboptions'', DHO_NWIP_SUBOPTIONS, OPT_BINARY_TYPE, False, [], ''''),
      (''user-class'', DHO_USER_CLASS, OPT_BINARY_TYPE, False, [], ''''),
      (''fqdn'', DHO_FQDN, OPT_RECORD_TYPE, False, FQDN_RECORDS, ''''),
      (''dhcp-agent-options'', DHO_DHCP_AGENT_OPTIONS, OPT_EMPTY_TYPE, False, [], ''dhcp-agent-options-space''),
      (''authenticate'', DHO_AUTHENTICATE, OPT_BINARY_TYPE, False, [], ''''),
      (''client-last-transaction-time'', DHO_CLIENT_LAST_TRANSACTION_TIME, OPT_UINT32_TYPE, False, [], ''''),
      (''associated-ip'', DHO_ASSOCIATED_IP, OPT_IPV4_ADDRESS_TYPE, True, [], ''''),
      (''subnet-selection'', DHO_SUBNET_SELECTION, OPT_IPV4_ADDRESS_TYPE, False, [], ''''),
      (''domain-search'', DHO_DOMAIN_SEARCH, OPT_BINARY_TYPE, False, [], ''''),
      (''vivco-suboptions'', DHO_VIVCO_SUBOPTIONS, OPT_BINARY_TYPE, False, [], ''''),
      (''vivso-suboptions'', DHO_VIVSO_SUBOPTIONS, OPT_BINARY_TYPE, False, [], '''')]"

definition OPTION_DEF_PARAMS6 :: "option_def_params list" where
  "OPTION_DEF_PARAMS6 =
     [(''clientid'', D6O_CLIENTID, OPT_BINARY_TYPE, False, [], ''''),
      (''serverid'', D6O_SERVERID, OPT_BINARY_TYPE, False, [], ''''),
      (''ia-na'', D6O_IA_NA, OPT_RECORD_TYPE, False, IA_NA_RECORDS, ''''),
      (''ia-ta'', D6O_IA_TA, OPT_UINT32_TYPE, False, [], ''''),
      (''iaaddr'', D6O_IAADDR, OPT_RECORD_TYPE, False, IAADDR_RECORDS, ''''),
      (''oro'', D6O_ORO, OPT_UINT16_TYPE, True, [], ''''),
      (''preference'', D6O_PREFERENCE, OPT_UINT8_TYPE, False, [], ''''),
      (''elapsed-time'', D6O_ELAPSED_TIME, OPT_UINT16_TYPE, False, [], ''''),
      (''relay-msg'', D6O_RELAY_MSG, OPT_BINARY_TYPE, False, [], ''''),
      (''auth'', D6O_AUTH, OPT_BINARY_TYPE, False, [], ''''),
      (''unicast'', D6O_UNICAST, OPT_IPV6_ADDRESS_TYPE, False, [], ''''),
      (''status-code'', D6O_STATUS_CODE, OPT_RECORD_TYPE, False, STATUS_CODE_RECORDS, ''''),
      (''rapid-commit'', D6O_RAPID_COMMIT, OPT_EMPTY_TYPE, False, [], ''''),
      (''user-class'', D6O_USER_CLASS, OPT_BINARY_TYPE, False, [], ''''),
      (''vendor-class'', D6O_VENDOR_CLASS, OPT_RECORD_TYPE, False, VENDOR_CLASS_RECORDS, ''''),
      (''vendor-opts'', D6O_VENDOR_OPTS, OPT_UINT32_TYPE, False, [], ''vendor-opts-space''),
      (''interface-id'', D6O_INTERFACE_ID, OPT_BINARY_TYPE, False, [], ''''),
      (''reconf-msg'', D6O_RECONF_MSG, OPT_UINT8_TYPE, False, [], ''''),
      (''reconf-accept'', D6O_RECONF_ACCEPT, OPT_EMPTY_TYPE, False, [], ''''),
      (''sip-server-dns'', D6O_SIP_SERVERS_DNS, OPT_FQDN_TYPE, True, [], ''''),
      (''sip-server-addr'', D6O_SIP_SERVERS_ADDR, OPT_IPV6_ADDRESS_TYPE, True, [], ''''),
      (''dns-servers'', D6O_NAME_SERVERS, OPT_IPV6_ADDRESS_TYPE, True, [], ''''),
      (''domain-search'', D6O_DOMAIN_SEARCH, OPT_FQDN_TYPE, True, [], ''''),
      (''ia-pd'', D6O_IA_PD, OPT_RECORD_TYPE, False, IA_PD_RECORDS, ''''),
      (''iaprefix'', D6O_IAPREFIX, OPT_RECORD_TYPE, False, IA_PREFIX_RECORDS, ''''),
      (''nis-servers'', D6O_NIS_SERVERS, OPT_IPV6_ADDRESS_TYPE, True, [], ''''),
      (''nisp-servers'', D6O_NISP_SERVERS, OPT_IPV6_ADDRESS_TYPE, True, [], ''''),
      (''nis-domain-name'', D6O_NIS_DOMAIN_NAME, OPT_FQDN_TYPE, True, [], ''''),
      (''nisp-domain-name'', D6O_NISP_DOMAIN_NAME, OPT_FQDN_TYPE, True, [], ''''),
      (''sntp-servers'', D6O_SNTP_SERVERS, OPT_IPV6_ADDRESS_TYPE, True, [], ''''),
      (''information-refresh-time'', D6O_INFORMATION_REFRESH_TIME, OPT_UINT32_TYPE, False, [], ''''),
      (''bcmcs-server-dns'', D6O_BCMCS_SERVER_D, OPT_FQDN_TYPE, True, [], ''''),
      (''bcmcs-server-addr'', D6O_BCMCS_SERVER_A, OPT_IPV6_ADDRESS_TYPE, True, [], ''''),
      (''geoconf-civic'', D6O_GEOCONF_CIVIC, OPT_RECORD_TYPE, False, GEOCONF_CIVIC_RECORDS, ''''),
      (''remote-id'', D6O_REMOTE_ID, OPT_RECORD_TYPE, False, REMOTE_ID_RECORDS, ''''),
      (''subscriber-id'', D6O_SUBSCRIBER_ID, OPT_BINARY_TYPE, False, [], ''''),
      (''client-fqdn'', D6O_CLIENT_FQDN, OPT_RECORD_TYPE, False, CLIENT_FQDN_RECORDS, ''''),
      (''pana-agent'', D6O_PANA_AGENT, OPT_IPV6_ADDRESS_TYPE, True, [], ''''),
      (''new-posix-timezone'', D6O_NEW_POSIX_TIMEZONE, OPT_STRING_TYPE, False, [], ''''),
      (''new-tzdb-timezone'', D6O_NEW_TZDB_TIMEZONE, OPT_STRING_TYPE, False, [], ''''),
      (''ero'', D6O_ERO, OPT_UINT16_TYPE, True, [], ''''),
      (''lq-query'', D6O_LQ_QUERY, OPT_RECORD_TYPE, False, LQ_QUERY_RECORDS, ''''),
      (''client-data'', D6O_CLIENT_DATA, OPT_EMPTY_TYPE, False, [], ''''),
      (''clt-time'', D6O_CLT_TIME, OPT_UINT32_TYPE, False, [], ''''),
      (''lq-relay-data'', D6O_LQ_RELAY_DATA, OPT_RECORD_TYPE, False, LQ_RELAY_DATA_RECORDS, ''''),
      (''lq-client-link'', D6O_LQ_CLIENT_LINK, OPT_IPV6_ADDRESS_TYPE, True, [], '''')]"


text \<open>One round of the loops in \<^verbatim>\<open>initStdOptionDefs4\<close> and \<^verbatim>\<open>initStdOptionDefs6\<close>, which are
  the same but for the table they read.\<close>

definition addStdOptionDef :: "option_def_params \<Rightarrow> OptionDefinition list \<Rightarrow> OptionDefinition list result" where
  "addStdOptionDef p defs =
     (case p of (name, code, type, array, records, encapsulates) \<Rightarrow>
        if encapsulates \<noteq> [] \<and> array then Inl BadValue
        else
          let definition0 =
            (if encapsulates = [] then mk_OptionDefinition name code type array
             else mk_OptionDefinition_encap name code type encapsulates)
          in bindE (foldE addRecordField records definition0) (\<lambda>d.
             bindE (validate d) (\<lambda>_. Inr (defs @ [d]))))"

definition initStdOptionDefs4 :: "OptionDefinition list result" where
  "initStdOptionDefs4 = foldE addStdOptionDef OPTION_DEF_PARAMS4 []"

definition initStdOptionDefs6 :: "OptionDefinition list result" where
  "initStdOptionDefs6 = foldE addStdOptionDef OPTION_DEF_PARAMS6 []"

definition getOptionDefs :: "Universe \<Rightarrow> OptionDefinition list result" where
  "getOptionDefs u = (case u of UV4 \<Rightarrow> initStdOptionDefs4 | UV6 \<Rightarrow> initStdOptionDefs6)"

text \<open>The definitions with a code, \<^verbatim>\<open>idx.equal_range(code)\<close>.\<close>

definition defs_with_code :: "OptionDefinition list \<Rightarrow> u16 \<Rightarrow> OptionDefinition list" where
  "defs_with_code defs code = filter (\<lambda>d. def_code d = code) defs"

definition getOptionDef :: "Universe \<Rightarrow> u16 \<Rightarrow> OptionDefinition option result" where
  "getOptionDef u code =
     bindE (getOptionDefs u) (\<lambda>defs.
       Inr (case defs_with_code defs code of d # _ \<Rightarrow> Some d | [] \<Rightarrow> None))"

definition isStandardOption :: "Universe \<Rightarrow> u16 \<Rightarrow> bool" where
  "isStandardOption u code =
     (case u of
        UV6 \<Rightarrow> code < 79 \<and> code \<noteq> 10 \<and> code \<noteq> 35
      | UV4 \<Rightarrow> \<not> (code = 84 \<or> code = 96 \<or> (code > 101 \<and> code < 112) \<or> code = 115 \<or> code = 126 \<or>
                code = 127 \<or> (code > 146 \<and> code < 150) \<or> (code > 177 \<and> code < 208) \<or>
                (code > 213 \<and> code < 220) \<or> (code > 221 \<and> code < 224)))"

section \<open>Properties\<close>

definition std_defs4 :: "OptionDefinition list" where
  "std_defs4 = map (\<lambda>(name, code, type, array, records, encapsulates).
     \<lparr>def_name = name, def_code = code, def_type = type, array_type = array,
      encapsulated_space = encapsulates, record_fields = records\<rparr>) OPTION_DEF_PARAMS4"

definition std_defs6 :: "OptionDefinition list" where
  "std_defs6 = map (\<lambda>(name, code, type, array, records, encapsulates).
     \<lparr>def_name = name, def_code = code, def_type = type, array_type = array,
      encapsulated_space = encapsulates, record_fields = records\<rparr>) OPTION_DEF_PARAMS6"

lemma initStdOptionDefs4_eq: "initStdOptionDefs4 = Inr std_defs4"
  by code_simp

lemma initStdOptionDefs6_eq: "initStdOptionDefs6 = Inr std_defs6"
  by code_simp

lemma std_codes_distinct: "distinct (map def_code std_defs4)" "distinct (map def_code std_defs6)"
  by code_simp+

text \<open>C40. Loading the standard option definitions succeeds for both protocols: every table row passes
  \<^verbatim>\<open>validate\<close>, no row combines an array with an encapsulated space, and a code is defined at most
  once, so the "multiple option definitions" error of the option parsers cannot be raised.\<close>

theorem std_defs_load:
  "\<exists>defs. getOptionDefs u = Inr defs \<and> distinct (map def_code defs) \<and>
     (\<forall>code. length (defs_with_code defs code) \<le> 1)"
proof -
  obtain defs where defs: "getOptionDefs u = Inr defs" "distinct (map def_code defs)"
    using std_codes_distinct
    by (cases u) (auto simp: getOptionDefs_def initStdOptionDefs4_eq initStdOptionDefs6_eq)
  have "length (filter (\<lambda>d. def_code d = code) defs) \<le> 1" for code
    using defs(2)
  proof (induction defs)
    case (Cons d ds)
    then show ?case
      by (cases "def_code d = code") (auto simp: filter_empty_conv rev_image_eqI)
  qed simp
  with defs show ?thesis by (auto simp: defs_with_code_def)
qed

lemma readBool_writeBool [byte_simps]: "readBool (writeBool v []) = Inr v"
  by (simp add: readBool_def writeBool_def)

lemma getDataType_name:
  "t \<noteq> OPT_UNKNOWN_TYPE \<Longrightarrow> t \<noteq> OPT_ANY_ADDRESS_TYPE \<Longrightarrow> getDataType (getDataTypeName t) = t"
  by (cases t) (simp_all add: getDataType_def getDataTypeName_def data_types_def data_type_names_def)

end
