(* ===== verification/Options.thy ===== *)
theory Options
  imports Option_Def
begin

unbundle bit_operations_syntax

text \<open>
  DHCP options: the class \<^verbatim>\<open>Option\<close> and its subclasses (\<^verbatim>\<open>src/lib/dhcp/option*.{h,cc}\<close>), and
  the option parsers and packers of \<^verbatim>\<open>LibDHCP\<close>.

  One datatype covers the class hierarchy: universe, type, \<open>data_\<close>, what the subclass adds (the
  payload) and \<open>options_\<close>. A multimap is a list of pairs in the order of iteration, by key and, for
  equal keys, by insertion. Lengths are kept at the 16 bits of \<^verbatim>\<open>Option::len\<close>, so an option that
  does not fit wraps as in the code. Integer option values are stored unsigned.
\<close>

section \<open>Data\<close>

datatype IntKind = TU8 | TI8 | TU16 | TI16 | TU32 | TI32

fun int_len :: "IntKind \<Rightarrow> nat" where
  "int_len TU8 = 1" | "int_len TI8 = 1" | "int_len TU16 = 2" | "int_len TI16 = 2"
| "int_len TU32 = 4" | "int_len TI32 = 4"

lemma int_len_pos [simp]: "0 < int_len k" "int_len k \<noteq> 0"
  by (cases k; simp)+

lemma drop_int_less: "\<not> n < int_len k \<Longrightarrow> n - int_len k < n"
  by (cases k) auto

datatype payload =
    PGeneric
  | PAddrLst4 "ioaddress list"
  | PAddrLst6 "ioaddress list"
  | PIA u32 u32 u32
  | PIAAddr ioaddress u32 u32
  | PInt IntKind nat
  | PIntArray IntKind "nat list"
  | PString
  | PCustom OptionDefinition "bytes list"

datatype opt = Opt (universe: Universe) (otype: u16) (odata: bytes) (opayload: payload)
    (suboptions: "(u16 \<times> opt) list")

type_synonym OptionCollection = "(u16 \<times> opt) list"

section \<open>The multimap of options\<close>

fun mm_insert :: "u16 \<Rightarrow> 'a \<Rightarrow> (u16 \<times> 'a) list \<Rightarrow> (u16 \<times> 'a) list" where
  "mm_insert k v [] = [(k, v)]"
| "mm_insert k v ((k', v') # xs) =
     (if k < k' then (k, v) # (k', v') # xs else (k', v') # mm_insert k v xs)"

fun mm_erase_first :: "u16 \<Rightarrow> (u16 \<times> 'a) list \<Rightarrow> (u16 \<times> 'a) list" where
  "mm_erase_first k [] = []"
| "mm_erase_first k ((k', v') # xs) = (if k = k' then xs else (k', v') # mm_erase_first k xs)"

definition getOption :: "u16 \<Rightarrow> opt \<Rightarrow> opt option" where
  "getOption opt_type o1 = map_of (suboptions o1) opt_type"

definition delOption :: "u16 \<Rightarrow> opt \<Rightarrow> opt \<times> bool" where
  "delOption opt_type o1 =
     (case map_of (suboptions o1) opt_type of
        Some _ \<Rightarrow> (Opt (universe o1) (otype o1) (odata o1) (opayload o1)
                     (mm_erase_first opt_type (suboptions o1)), True)
      | None \<Rightarrow> (o1, False))"

definition addOption :: "opt \<Rightarrow> opt \<Rightarrow> opt result" where
  "addOption opt o1 =
     (if universe o1 = UV4 \<and> getOption (otype opt) o1 \<noteq> None then Inl BadValue
      else Inr (Opt (universe o1) (otype o1) (odata o1) (opayload o1)
                  (mm_insert (otype opt) opt (suboptions o1))))"

section \<open>Constructors\<close>

definition mk_Option_empty :: "Universe \<Rightarrow> u16 \<Rightarrow> payload \<Rightarrow> opt result" where
  "mk_Option_empty u type p =
     (if u = UV4 \<and> (type = 0 \<or> type > 254) then Inl BadValue else Inr (Opt u type [] p []))"

definition check :: "Universe \<Rightarrow> u16 \<Rightarrow> bytes \<Rightarrow> unit result" where
  "check u type data =
     (if u = UV4 then
        (if type > 255 then Inl OutOfRange
         else if length data > 255 then Inl OutOfRange
         else Inr ())
      else Inr ())"

definition mk_Option :: "Universe \<Rightarrow> u16 \<Rightarrow> bytes \<Rightarrow> opt result" where
  "mk_Option u type data = bindE (check u type data) (\<lambda>_. Inr (Opt u type data PGeneric []))"

definition addAddress4 :: "ioaddress \<Rightarrow> ioaddress list \<Rightarrow> ioaddress list result" where
  "addAddress4 addr addrs = (if \<not> isV4 addr then Inl BadValue else Inr (addrs @ [addr]))"

definition setAddresses4 :: "ioaddress list \<Rightarrow> ioaddress list result" where
  "setAddresses4 addrs = foldE addAddress4 addrs []"

definition mk_Option4AddrLst :: "u8 \<Rightarrow> ioaddress list \<Rightarrow> opt result" where
  "mk_Option4AddrLst type addrs =
     bindE (mk_Option_empty UV4 (ucast type) PGeneric) (\<lambda>o1.
       bindE (setAddresses4 addrs) (\<lambda>as. Inr (Opt UV4 (otype o1) [] (PAddrLst4 as) [])))"

function read_addrs4 :: "bytes \<Rightarrow> ioaddress list \<Rightarrow> ioaddress list result" where
  "read_addrs4 data addrs =
     (if data = [] then Inr addrs
      else bindE (readUint32 data) (\<lambda>w.
        bindE (addAddress4 (IPv4 w) addrs) (read_addrs4 (drop V4ADDRESS_LEN data))))"
  by auto
termination by (relation "measure (\<lambda>(d, _). length d)") auto

definition Option4AddrLst_unpack :: "u8 \<Rightarrow> bytes \<Rightarrow> opt result" where
  "Option4AddrLst_unpack type data =
     bindE (mk_Option_empty UV4 (ucast type) PGeneric) (\<lambda>o1.
       if length data mod V4ADDRESS_LEN \<noteq> 0 then Inl OutOfRange
       else bindE (read_addrs4 data []) (\<lambda>as. Inr (Opt UV4 (otype o1) [] (PAddrLst4 as) [])))"

definition mk_Option6AddrLst :: "u16 \<Rightarrow> ioaddress list \<Rightarrow> opt result" where
  "mk_Option6AddrLst type addrs = mk_Option_empty UV6 type (PAddrLst6 addrs)"

function read_addrs6 :: "bytes \<Rightarrow> ioaddress list \<Rightarrow> ioaddress list result" where
  "read_addrs6 data addrs =
     (if data = [] then Inr addrs
      else bindE (fromBytes AF_INET6 data) (\<lambda>a. read_addrs6 (drop V6ADDRESS_LEN data) (addrs @ [a])))"
  by auto
termination by (relation "measure (\<lambda>(d, _). length d)") auto

definition Option6AddrLst_unpack :: "u16 \<Rightarrow> bytes \<Rightarrow> opt result" where
  "Option6AddrLst_unpack type data =
     (if length data mod V6ADDRESS_LEN \<noteq> 0 then Inl OutOfRange
      else bindE (read_addrs6 data []) (\<lambda>as. Inr (Opt UV6 type [] (PAddrLst6 as) [])))"

definition setAddress6 :: "ioaddress \<Rightarrow> ioaddress list result" where
  "setAddress6 addr = (if \<not> isV6 addr then Inl BadValue else Inr [addr])"

definition OPTION6_IA_LEN :: nat where "OPTION6_IA_LEN = 12"
definition OPTION6_IAADDR_LEN :: nat where "OPTION6_IAADDR_LEN = 24"

definition mk_Option6IA :: "u16 \<Rightarrow> u32 \<Rightarrow> opt result" where
  "mk_Option6IA type iaid = mk_Option_empty UV6 type (PIA iaid 0 0)"

definition mk_Option6IAAddr :: "u16 \<Rightarrow> ioaddress \<Rightarrow> u32 \<Rightarrow> u32 \<Rightarrow> opt result" where
  "mk_Option6IAAddr type addr pref valid = mk_Option_empty UV6 type (PIAAddr addr pref valid)"

definition mk_OptionInt :: "IntKind \<Rightarrow> Universe \<Rightarrow> u16 \<Rightarrow> nat \<Rightarrow> opt result" where
  "mk_OptionInt k u type v = mk_Option_empty u type (PInt k v)"

text \<open>Reading an integer of the width of a kind; the caller has checked the length.\<close>

definition read_int_value :: "IntKind \<Rightarrow> bytes \<Rightarrow> nat result" where
  "read_int_value k data =
     (if int_len k = 1 then (case data of b # _ \<Rightarrow> Inr (unat b) | [] \<Rightarrow> Inl OutOfBounds)
      else if int_len k = 2 then bindE (readUint16 data) (\<lambda>v. Inr (unat v))
      else bindE (readUint32 data) (\<lambda>v. Inr (unat v)))"

function read_int_values :: "IntKind \<Rightarrow> bytes \<Rightarrow> nat list \<Rightarrow> nat list result" where
  "read_int_values k data vs =
     (if data = [] then Inr vs
      else bindE (read_int_value k data) (\<lambda>v. read_int_values k (drop (int_len k) data) (vs @ [v])))"
  by auto
termination by (relation "measure (\<lambda>(_, d, _). length d)") (auto simp: int_len_pos)

definition OptionIntArray_unpack :: "IntKind \<Rightarrow> Universe \<Rightarrow> u16 \<Rightarrow> bytes \<Rightarrow> opt result" where
  "OptionIntArray_unpack k u type data =
     bindE (mk_Option_empty u type PGeneric) (\<lambda>o1.
       if length data = 0 then Inl OutOfRange
       else if length data mod int_len k \<noteq> 0 then Inl OutOfRange
       else bindE (read_int_values k data []) (\<lambda>vs. Inr (Opt u type [] (PIntArray k vs) [])))"

definition mk_OptionString :: "Universe \<Rightarrow> u16 \<Rightarrow> bytes \<Rightarrow> opt result" where
  "mk_OptionString u type value =
     bindE (mk_Option_empty u type PString) (\<lambda>o1.
       if value = [] then Inl OutOfRange else Inr (Opt u type value PString []))"

definition OptionString_unpack :: "Universe \<Rightarrow> u16 \<Rightarrow> bytes \<Rightarrow> opt result" where
  "OptionString_unpack u type data =
     bindE (mk_Option_empty u type PString) (\<lambda>o1.
       if length data = 0 then Inl OutOfRange else Inr (Opt u type data PString []))"

section \<open>Custom options\<close>

text \<open>The pointer range \<open>[data, data + n)\<close>: reading behind the end of the buffer is undefined.\<close>

definition chunk :: "nat \<Rightarrow> bytes \<Rightarrow> bytes result" where
  "chunk n data = (if n > length data then Inl OutOfBounds else Inr (take n data))"

fun record_buffers :: "OptionDataType list \<Rightarrow> bytes \<Rightarrow> bytes list result" where
  "record_buffers [] data = Inr []"
| "record_buffers (field # fs) data =
     bindE
       (if getDataTypeLen field = 0 then
          (if field = OPT_FQDN_TYPE then bindE (readFqdn data) (\<lambda>fqdn. Inr (length fqdn + 1))
           else if field = OPT_BINARY_TYPE \<or> field = OPT_STRING_TYPE then Inr (length data)
           else Inl OutOfRange)
        else if length data < getDataTypeLen field then Inl OutOfRange
        else Inr (getDataTypeLen field))
       (\<lambda>data_size. bindE (chunk data_size data) (\<lambda>b.
         bindE (record_buffers fs (drop data_size data)) (\<lambda>bs. Inr (b # bs))))"

function array_buffers :: "OptionDataType \<Rightarrow> bytes \<Rightarrow> bytes list result" where
  "array_buffers data_type data =
     (if data = [] then Inr []
      else bindE
        (if data_type = OPT_FQDN_TYPE then bindE (readFqdn data) (\<lambda>fqdn. Inr (length fqdn + 1))
         else Inr (getDataTypeLen data_type))
        (\<lambda>data_size.
          if data_size = 0 then Inl AssertionFailed
          else if length data < data_size then Inr []
          else bindE (array_buffers data_type (drop data_size data)) (\<lambda>bs. Inr (take data_size data # bs))))"
  by auto
termination by (relation "measure (\<lambda>(_, d). length d)") auto

declare read_addrs4.simps [simp del] read_addrs6.simps [simp del] read_int_values.simps [simp del]
  array_buffers.simps [simp del]

definition createBuffers :: "OptionDefinition \<Rightarrow> bytes \<Rightarrow> bytes list result" where
  "createBuffers d data =
     bindE (validate d) (\<lambda>_.
       let data_type = def_type d in
       if data_type = OPT_RECORD_TYPE then record_buffers (record_fields d) data
       else if data_type \<noteq> OPT_EMPTY_TYPE then
         (let data_size = getDataTypeLen data_type in
          if length data < data_size then Inl OutOfRange
          else if array_type d then array_buffers data_type data
          else bindE
            (if data_size = 0 then
               (if data_type = OPT_FQDN_TYPE then bindE (readFqdn data) (\<lambda>fqdn. Inr (length fqdn + 1))
                else Inr (length data))
             else Inr data_size)
            (\<lambda>data_size. if data_size > 0 then bindE (chunk data_size data) (\<lambda>b. Inr [b])
                         else Inl OutOfRange))
       else Inr [])"

definition mk_OptionCustom :: "OptionDefinition \<Rightarrow> Universe \<Rightarrow> bytes \<Rightarrow> opt result" where
  "mk_OptionCustom d u data =
     bindE (check u (def_code d) data) (\<lambda>_.
       bindE (createBuffers d data) (\<lambda>bufs. Inr (Opt u (def_code d) data (PCustom d bufs) [])))"

definition checkIndex :: "bytes list \<Rightarrow> nat \<Rightarrow> unit result" where
  "checkIndex bufs index = (if index \<ge> length bufs then Inl OutOfRange else Inr ())"

definition custom_readAddress :: "bytes list \<Rightarrow> nat \<Rightarrow> ioaddress result" where
  "custom_readAddress bufs index =
     bindE (checkIndex bufs index) (\<lambda>_.
       if length (bufs ! index) = V4ADDRESS_LEN then dt_readAddress (bufs ! index) AF_INET
       else if length (bufs ! index) = V6ADDRESS_LEN then dt_readAddress (bufs ! index) AF_INET6
       else Inl BadDataTypeCast)"

definition custom_writeAddress :: "ioaddress \<Rightarrow> nat \<Rightarrow> bytes list \<Rightarrow> bytes list result" where
  "custom_writeAddress address index bufs =
     bindE (checkIndex bufs index) (\<lambda>_.
       if (isV4 address \<and> length (bufs ! index) \<noteq> V4ADDRESS_LEN) \<or>
          (isV6 address \<and> length (bufs ! index) \<noteq> V6ADDRESS_LEN) then Inl BadDataTypeCast
       else Inr (bufs[index := dt_writeAddress address []]))"

definition custom_addArrayAddress ::
  "OptionDefinition \<Rightarrow> ioaddress \<Rightarrow> bytes list \<Rightarrow> bytes list result" where
  "custom_addArrayAddress d address bufs =
     (if \<not> array_type d then Inl InvalidOperation
      else if (isV4 address \<and> def_type d \<noteq> OPT_IPV4_ADDRESS_TYPE) \<or>
              (isV6 address \<and> def_type d \<noteq> OPT_IPV6_ADDRESS_TYPE) then Inl BadDataTypeCast
      else Inr (bufs @ [dt_writeAddress address []]))"

definition custom_readBoolean :: "bytes list \<Rightarrow> nat \<Rightarrow> bool result" where
  "custom_readBoolean bufs index = bindE (checkIndex bufs index) (\<lambda>_. readBool (bufs ! index))"

definition custom_writeBoolean :: "bool \<Rightarrow> nat \<Rightarrow> bytes list \<Rightarrow> bytes list result" where
  "custom_writeBoolean v index bufs =
     bindE (checkIndex bufs index) (\<lambda>_. Inr (bufs[index := writeBool v []]))"

definition custom_readBinary :: "bytes list \<Rightarrow> nat \<Rightarrow> bytes result" where
  "custom_readBinary bufs index = bindE (checkIndex bufs index) (\<lambda>_. Inr (bufs ! index))"

definition custom_writeBinary :: "bytes \<Rightarrow> nat \<Rightarrow> bytes list \<Rightarrow> bytes list result" where
  "custom_writeBinary b index bufs = bindE (checkIndex bufs index) (\<lambda>_. Inr (bufs[index := b]))"

definition custom_readString :: "bytes list \<Rightarrow> nat \<Rightarrow> bytes result" where
  "custom_readString bufs index = bindE (checkIndex bufs index) (\<lambda>_. Inr (readString (bufs ! index)))"

definition custom_writeString :: "bytes \<Rightarrow> nat \<Rightarrow> bytes list \<Rightarrow> bytes list result" where
  "custom_writeString text index bufs =
     bindE (checkIndex bufs index) (\<lambda>_.
       let b = [] in Inr (bufs[index := (if text \<noteq> [] then writeString text b else b)]))"

definition custom_readFqdn :: "bytes list \<Rightarrow> nat \<Rightarrow> bytes result" where
  "custom_readFqdn bufs index = bindE (checkIndex bufs index) (\<lambda>_. readFqdn (bufs ! index))"

section \<open>Lengths and packing\<close>

definition OPTION4_HDR_LEN :: nat where "OPTION4_HDR_LEN = 2"
definition OPTION6_HDR_LEN :: nat where "OPTION6_HDR_LEN = 4"

definition getHeaderLen :: "Universe \<Rightarrow> nat" where
  "getHeaderLen u = (case u of UV4 \<Rightarrow> OPTION4_HDR_LEN | UV6 \<Rightarrow> OPTION6_HDR_LEN)"

text \<open>\<open>len()\<close> is virtual: one clause per class. The sums are taken in \<^verbatim>\<open>int\<close> or
  \<^verbatim>\<open>uint16_t\<close> and returned as \<^verbatim>\<open>uint16_t\<close>, so they wrap at 16 bits. Address lists and
  strings do not count suboptions.\<close>

fun opt_len :: "opt \<Rightarrow> u16"
  and opts_len :: "OptionCollection \<Rightarrow> u16" where
  "opt_len (Opt u t data p subs) =
     (case p of
        PGeneric \<Rightarrow> word_of_nat (getHeaderLen u + length data) + opts_len subs
      | PAddrLst4 as \<Rightarrow> word_of_nat (getHeaderLen u + length as * V4ADDRESS_LEN)
      | PAddrLst6 as \<Rightarrow> word_of_nat (OPTION6_HDR_LEN + length as * V6ADDRESS_LEN)
      | PIA _ _ _ \<Rightarrow> word_of_nat (OPTION6_HDR_LEN + OPTION6_IA_LEN) + opts_len subs
      | PIAAddr _ _ _ \<Rightarrow> word_of_nat (OPTION6_HDR_LEN + OPTION6_IAADDR_LEN) + opts_len subs
      | PInt k _ \<Rightarrow> word_of_nat (getHeaderLen u + int_len k) + opts_len subs
      | PIntArray k vs \<Rightarrow> word_of_nat (getHeaderLen u + length vs * int_len k) + opts_len subs
      | PString \<Rightarrow> word_of_nat (getHeaderLen u + length data)
      | PCustom d bufs \<Rightarrow> word_of_nat (getHeaderLen u + sum_list (map length bufs)) + opts_len subs)"
| "opts_len [] = 0"
| "opts_len ((k, o1) # os) = opt_len o1 + opts_len os"

definition packHeader :: "Universe \<Rightarrow> u16 \<Rightarrow> u16 \<Rightarrow> bytes result" where
  "packHeader u type len =
     (if u = UV4 then
        (if len > 255 then Inl OutOfRange
         else Inr [ucast type, ucast (len - word_of_nat (getHeaderLen u))])
      else Inr (writeUint16 type @ writeUint16 (len - word_of_nat (getHeaderLen u))))"

definition int_bytes :: "IntKind \<Rightarrow> nat \<Rightarrow> bytes" where
  "int_bytes k v =
     (if int_len k = 1 then [word_of_nat v]
      else if int_len k = 2 then writeUint16 (word_of_nat v)
      else writeUint32 (word_of_nat v))"

definition pack_addr4 :: "ioaddress \<Rightarrow> bytes result" where
  "pack_addr4 addr = bindE (to_uint32 addr) (\<lambda>w. Inr (writeUint32 w))"

definition pack_addr6 :: "ioaddress \<Rightarrow> bytes result" where
  "pack_addr6 addr = (if \<not> isV6 addr then Inl BadValue else Inr (toBytes addr))"

text \<open>\<open>pack\<close> appends to an output buffer; the model returns the bytes appended.\<close>

fun opt_pack :: "opt \<Rightarrow> bytes result"
  and packOptions :: "OptionCollection \<Rightarrow> bytes result" where
  "opt_pack (Opt u t data p subs) =
     (let len = opt_len (Opt u t data p subs) in
      case p of
        PGeneric \<Rightarrow>
          bindE (packHeader u t len) (\<lambda>h. bindE (packOptions subs) (\<lambda>s. Inr (h @ data @ s)))
      | PAddrLst4 as \<Rightarrow>
          if length as * V4ADDRESS_LEN > 255 then Inl OutOfRange
          else bindE (mapE pack_addr4 as) (\<lambda>bs.
            Inr (ucast t # ucast (len - word_of_nat (getHeaderLen u)) # concat bs))
      | PAddrLst6 as \<Rightarrow>
          bindE (mapE pack_addr6 as) (\<lambda>bs.
            Inr (writeUint16 t @ writeUint16 (len - word_of_nat (getHeaderLen u)) @ concat bs))
      | PIA iaid t1 t2 \<Rightarrow>
          bindE (packOptions subs) (\<lambda>s.
            Inr (writeUint16 t @ writeUint16 (len - word_of_nat OPTION6_HDR_LEN) @
                 writeUint32 iaid @ writeUint32 t1 @ writeUint32 t2 @ s))
      | PIAAddr addr pref valid \<Rightarrow>
          bindE (pack_addr6 addr) (\<lambda>a. bindE (packOptions subs) (\<lambda>s.
            Inr (writeUint16 t @ writeUint16 (len - word_of_nat (getHeaderLen u)) @ a @
                 writeUint32 pref @ writeUint32 valid @ s)))
      | PInt k v \<Rightarrow>
          bindE (packHeader u t len) (\<lambda>h. bindE (packOptions subs) (\<lambda>s. Inr (h @ int_bytes k v @ s)))
      | PIntArray k vs \<Rightarrow>
          bindE (packHeader u t len) (\<lambda>h. Inr (h @ concat (map (int_bytes k) vs)))
      | PString \<Rightarrow> bindE (packHeader u t len) (\<lambda>h. Inr (h @ data))
      | PCustom d bufs \<Rightarrow>
          bindE (packHeader u t len) (\<lambda>h. bindE (packOptions subs) (\<lambda>s. Inr (h @ concat bufs @ s))))"
| "packOptions [] = Inr []"
| "packOptions ((k, o1) # os) = bindE (opt_pack o1) (\<lambda>b. bindE (packOptions os) (\<lambda>bs. Inr (b @ bs)))"

section \<open>Parsing\<close>

text \<open>\<open>seqE\<close> is \<open>bindE\<close> with a weaker congruence rule, for the binds whose first argument is itself a
  recursive call.\<close>

definition seqE :: "'a result \<Rightarrow> ('a \<Rightarrow> 'b result) \<Rightarrow> 'b result" where
  "seqE m f = bindE m f"

lemma seqE_cong [fundef_cong]: "m = m' \<Longrightarrow> (\<And>x. f x = f' x) \<Longrightarrow> seqE m f = seqE m' f'"
  by (cases m') (auto simp: seqE_def)

type_synonym unpack_result = "(nat \<times> OptionCollection \<times> (nat \<times> nat) option) result"

text \<open>
  \<open>unpackOptions6 defs relay rest offset options rm\<close>: \<open>rest\<close> is the buffer from \<open>offset\<close> on,
  \<open>options\<close> the collection so far, \<open>relay\<close> says whether the caller passed the pointers for the
  relay-msg option and \<open>rm\<close> what they hold. \<open>optionFactory\<close>, the suboption parsers of the
  subclasses and the two loops call each other; \<open>defs\<close> are the definitions of the universe.
\<close>

function (sequential) unpackOptions6 ::
    "OptionDefinition list \<Rightarrow> bool \<Rightarrow> bytes \<Rightarrow> nat \<Rightarrow> OptionCollection \<Rightarrow> (nat \<times> nat) option \<Rightarrow> unpack_result"
  and unpackOptions4 :: "OptionDefinition list \<Rightarrow> bytes \<Rightarrow> nat \<Rightarrow> OptionCollection \<Rightarrow> unpack_result"
  and optionFactory :: "OptionDefinition list \<Rightarrow> OptionDefinition \<Rightarrow> Universe \<Rightarrow> u16 \<Rightarrow> bytes \<Rightarrow> opt result"
  where
  "unpackOptions6 defs relay rest offset options rm =
     (if length rest < 4 then Inr (offset, options, rm)
      else
        bindE (readUint16 rest) (\<lambda>opt_type.
        bindE (readUint16 (drop 2 rest)) (\<lambda>opt_len.
          if offset + 4 + unat opt_len > offset + length rest then Inr (offset + 4, options, rm)
          else if opt_type = D6O_RELAY_MSG \<and> relay then
            unpackOptions6 defs relay (drop (4 + unat opt_len) rest) (offset + 4 + unat opt_len) options
              (Some (offset + 4, unat opt_len))
          else
            seqE
              (case defs_with_code defs opt_type of
                 [] \<Rightarrow> mk_Option UV6 opt_type (take (unat opt_len) (drop 4 rest))
               | [d] \<Rightarrow> optionFactory defs d UV6 opt_type (take (unat opt_len) (drop 4 rest))
               | _ \<Rightarrow> Inl Unexpected)
              (\<lambda>opt. unpackOptions6 defs relay (drop (4 + unat opt_len) rest) (offset + 4 + unat opt_len)
                        (mm_insert opt_type opt options) rm))))"
| "unpackOptions4 defs [] offset options = Inr (offset, options, None)"
| "unpackOptions4 defs (opt_type # rest) offset options =
     (if opt_type = 255 then Inr (offset + 1, options, None)
      else if opt_type = 0 then unpackOptions4 defs rest (offset + 1) options
      else if offset + 1 + 1 \<ge> offset + 1 + length rest then Inl OutOfRange
      else
        (let opt_len = unat (hd rest); body = tl rest in
         if offset + 2 + opt_len > offset + 2 + length body then Inl OutOfRange
         else
           seqE
             (case defs_with_code defs (ucast opt_type) of
                [] \<Rightarrow> mk_Option UV4 (ucast opt_type) (take opt_len body)
              | [d] \<Rightarrow> optionFactory defs d UV4 (ucast opt_type) (take opt_len body)
              | _ \<Rightarrow> Inl Unexpected)
             (\<lambda>opt. unpackOptions4 defs (drop opt_len body) (offset + 2 + opt_len)
                       (mm_insert (ucast opt_type) opt options))))"
| "optionFactory defs d u type data =
     catch_isc
       (let factoryInteger = (\<lambda>k.
              bindE (mk_Option_empty u type PGeneric) (\<lambda>_.
                if length data < int_len k then Inl OutOfRange
                else bindE (read_int_value k data) (\<lambda>v.
                  seqE (case u of
                           UV4 \<Rightarrow> unpackOptions4 defs (drop (int_len k) data) 0 []
                         | UV6 \<Rightarrow> unpackOptions6 defs False (drop (int_len k) data) 0 [] None)
                    (\<lambda>r. Inr (Opt u type [] (PInt k v) (fst (snd r)))))))
        in case def_type d of
          OPT_EMPTY_TYPE \<Rightarrow> mk_Option_empty u type PGeneric
        | OPT_BINARY_TYPE \<Rightarrow> mk_Option u type data
        | OPT_UINT8_TYPE \<Rightarrow> if array_type d then mk_Option u type data else factoryInteger TU8
        | OPT_INT8_TYPE \<Rightarrow> if array_type d then mk_Option u type data else factoryInteger TI8
        | OPT_UINT16_TYPE \<Rightarrow>
            if array_type d then OptionIntArray_unpack TU16 u type data else factoryInteger TU16
        | OPT_INT16_TYPE \<Rightarrow>
            if array_type d then OptionIntArray_unpack TU16 u type data else factoryInteger TI16
        | OPT_UINT32_TYPE \<Rightarrow>
            if array_type d then OptionIntArray_unpack TU32 u type data else factoryInteger TU32
        | OPT_INT32_TYPE \<Rightarrow>
            if array_type d then OptionIntArray_unpack TU32 u type data else factoryInteger TI32
        | OPT_IPV4_ADDRESS_TYPE \<Rightarrow>
            if array_type d then Option4AddrLst_unpack (ucast type) data else mk_OptionCustom d u data
        | OPT_IPV6_ADDRESS_TYPE \<Rightarrow>
            if array_type d then Option6AddrLst_unpack type data else mk_OptionCustom d u data
        | OPT_STRING_TYPE \<Rightarrow> OptionString_unpack u type data
        | _ \<Rightarrow>
            if u = UV6 \<and> (def_code d = D6O_IA_NA \<or> def_code d = D6O_IA_PD) \<and> haveIA6Format d then
              (if length data < OPTION6_IA_LEN then Inl OutOfRange
               else bindE (readUint32 data) (\<lambda>iaid.
                    bindE (readUint32 (drop 4 data)) (\<lambda>t1.
                    bindE (readUint32 (drop 8 data)) (\<lambda>t2.
                    seqE (unpackOptions6 defs False (drop 12 data) 0 [] None) (\<lambda>r.
                      Inr (Opt UV6 type [] (PIA iaid t1 t2) (fst (snd r))))))))
            else if u = UV6 \<and> def_code d = D6O_IAADDR \<and> haveIAAddr6Format d then
              (if length data < OPTION6_IAADDR_LEN then Inl OutOfRange
               else bindE (fromBytes AF_INET6 data) (\<lambda>a.
                    bindE (readUint32 (drop 16 data)) (\<lambda>pref.
                    bindE (readUint32 (drop 20 data)) (\<lambda>valid.
                    seqE (unpackOptions6 defs False (drop 24 data) 0 [] None) (\<lambda>r.
                      Inr (Opt UV6 type [] (PIAAddr a pref valid) (fst (snd r))))))))
            else mk_OptionCustom d u data)
       (\<lambda>_. Inl InvalidOptionValue)"
  by pat_completeness auto
termination
proof (relation "measure (\<lambda>x. case x of
      Inl (defs, relay, rest, off, os, rm) \<Rightarrow> length rest
    | Inr (Inl (defs, rest, off, os)) \<Rightarrow> length rest
    | Inr (Inr (defs, d, u, ty, data)) \<Rightarrow> length data)", goal_cases)
qed (auto simp: OPTION6_IA_LEN_def OPTION6_IAADDR_LEN_def drop_int_less)

declare unpackOptions6.simps [simp del] optionFactory.simps [simp del]

text \<open>The entry points: \<^verbatim>\<open>LibDHCP::unpackOptions6\<close> with and without the relay pointers, and
  \<^verbatim>\<open>LibDHCP::unpackOptions4\<close>. The collection is passed by reference.\<close>

definition LibDHCP_unpackOptions6 :: "bool \<Rightarrow> bytes \<Rightarrow> OptionCollection \<Rightarrow> unpack_result" where
  "LibDHCP_unpackOptions6 relay buf options =
     bindE (getOptionDefs UV6) (\<lambda>defs. unpackOptions6 defs relay buf 0 options None)"

definition LibDHCP_unpackOptions4 :: "bytes \<Rightarrow> OptionCollection \<Rightarrow> unpack_result" where
  "LibDHCP_unpackOptions4 buf options =
     bindE (getOptionDefs UV4) (\<lambda>defs. unpackOptions4 defs buf 0 options)"

section \<open>Accessors of the base class\<close>

definition getUint8 :: "opt \<Rightarrow> u8 result" where
  "getUint8 o1 = (if length (odata o1) < 1 then Inl OutOfRange else Inr (odata o1 ! 0))"

definition getUint16 :: "opt \<Rightarrow> u16 result" where
  "getUint16 o1 = (if length (odata o1) < 2 then Inl OutOfRange else readUint16 (odata o1))"

definition getUint32 :: "opt \<Rightarrow> u32 result" where
  "getUint32 o1 = (if length (odata o1) < 4 then Inl OutOfRange else readUint32 (odata o1))"

definition setUint8 :: "u8 \<Rightarrow> opt \<Rightarrow> opt" where
  "setUint8 v o1 = Opt (universe o1) (otype o1) [v] (opayload o1) (suboptions o1)"

definition setUint16 :: "u16 \<Rightarrow> opt \<Rightarrow> opt" where
  "setUint16 v o1 = Opt (universe o1) (otype o1) (writeUint16 v) (opayload o1) (suboptions o1)"

definition setUint32 :: "u32 \<Rightarrow> opt \<Rightarrow> opt" where
  "setUint32 v o1 = Opt (universe o1) (otype o1) (writeUint32 v) (opayload o1) (suboptions o1)"

definition opt_equal :: "opt \<Rightarrow> opt \<Rightarrow> bool" where
  "opt_equal o1 other \<longleftrightarrow> otype o1 = otype other \<and> odata o1 = odata other"

end
