(* ===== verification/Subnets.thy ===== *)
theory Subnets
  imports Addr_Utilities Options
begin

text \<open>
  Parameters, address pools and subnets: \<^verbatim>\<open>src/lib/dhcpsrv/triplet.h\<close>,
  \<^verbatim>\<open>pool.{h,cc}\<close>, \<^verbatim>\<open>subnet.{h,cc}\<close>,
  \<^verbatim>\<open>option_space_container.h\<close>. The static counters behind \<^verbatim>\<open>getNextID\<close> are
  explicit: a constructor takes the counter and gives it back advanced, also when it throws. A
  \<^verbatim>\<open>Subnet6\<close> is an extension of the record \<open>Subnet\<close>; the virtual \<^verbatim>\<open>validateOption\<close>
  is an argument of \<open>Subnet_addOption\<close>.
\<close>

section \<open>Triplets\<close>

record Triplet =
  tr_min :: u32
  tr_default :: u32
  tr_max :: u32

definition Triplet_fixed :: "u32 \<Rightarrow> Triplet" where
  "Triplet_fixed value = \<lparr>tr_min = value, tr_default = value, tr_max = value\<rparr>"

definition mk_Triplet :: "u32 \<Rightarrow> u32 \<Rightarrow> u32 \<Rightarrow> Triplet result" where
  "mk_Triplet mn def mx =
     (if mn > def \<or> def > mx then Inl BadValue
      else Inr \<lparr>tr_min = mn, tr_default = def, tr_max = mx\<rparr>)"

definition tr_get_hint :: "u32 \<Rightarrow> Triplet \<Rightarrow> u32" where
  "tr_get_hint hint t =
     (if hint \<le> tr_min t then tr_min t else if hint \<ge> tr_max t then tr_max t else hint)"

definition wf_triplet :: "Triplet \<Rightarrow> bool" where
  "wf_triplet t \<longleftrightarrow> tr_min t \<le> tr_default t \<and> tr_default t \<le> tr_max t"

lemma mk_Triplet_wf: "mk_Triplet a b c = Inr t \<Longrightarrow> wf_triplet t"
  by (auto simp: mk_Triplet_def wf_triplet_def split: if_splits)

lemma Triplet_fixed_wf: "wf_triplet (Triplet_fixed v)"
  by (simp add: Triplet_fixed_def wf_triplet_def)

text \<open>A hint is clamped: the value is the point of the configured range closest to it.\<close>

lemma tr_get_hint_clamp: "wf_triplet t \<Longrightarrow> tr_get_hint hint t = max (tr_min t) (min hint (tr_max t))"
  by (auto simp: tr_get_hint_def wf_triplet_def max_def min_def)

section \<open>Pools\<close>

definition getNextID :: "u32 \<Rightarrow> u32 \<times> u32" where
  "getNextID ctr = (ctr, ctr + 1)"

datatype Pool6Type = TYPE_IA | TYPE_TA | TYPE_PD

record Pool =
  pool_id :: u32
  pool_first :: ioaddress
  pool_last :: ioaddress
  pool_type :: "Pool6Type option"

definition mk_Pool :: "u32 \<Rightarrow> ioaddress \<Rightarrow> ioaddress \<Rightarrow> Pool" where
  "mk_Pool i f l = \<lparr>pool_id = i, pool_first = f, pool_last = l, pool_type = None\<rparr>"

definition Pool_inRange :: "Pool \<Rightarrow> ioaddress \<Rightarrow> bool" where
  "Pool_inRange p addr \<longleftrightarrow> smallerEqual (pool_first p) addr \<and> smallerEqual addr (pool_last p)"

definition Pool4_range :: "ioaddress \<Rightarrow> ioaddress \<Rightarrow> u32 \<Rightarrow> Pool result \<times> u32" where
  "Pool4_range f l ctr =
     (let (i, ctr') = getNextID ctr in
      (if \<not> isV4 f \<or> \<not> isV4 l then Inl BadValue
       else if lessThan l f then Inl BadValue
       else Inr (mk_Pool i f l), ctr'))"

definition Pool4_prefix :: "ioaddress \<Rightarrow> u8 \<Rightarrow> u32 \<Rightarrow> Pool result \<times> u32" where
  "Pool4_prefix prefix prefix_len ctr =
     (let (i, ctr') = getNextID ctr in
      (if \<not> isV4 prefix then Inl BadValue
       else if prefix_len = 0 \<or> prefix_len > 32 then Inl BadValue
       else bindE (lastAddrInPrefix prefix prefix_len) (\<lambda>l. Inr (mk_Pool i prefix l)), ctr'))"

definition Pool6_range :: "Pool6Type \<Rightarrow> ioaddress \<Rightarrow> ioaddress \<Rightarrow> u32 \<Rightarrow> Pool result \<times> u32" where
  "Pool6_range type f l ctr =
     (let (i, ctr') = getNextID ctr in
      (if \<not> isV6 f \<or> \<not> isV6 l then Inl BadValue
       else if lessThan l f then Inl BadValue
       else if type \<noteq> TYPE_IA \<and> type \<noteq> TYPE_TA then Inl BadValue
       else Inr (mk_Pool i f l \<lparr>pool_type := Some type\<rparr>), ctr'))"

definition Pool6_prefix :: "Pool6Type \<Rightarrow> ioaddress \<Rightarrow> u8 \<Rightarrow> u32 \<Rightarrow> Pool result \<times> u32" where
  "Pool6_prefix type prefix prefix_len ctr =
     (let (i, ctr') = getNextID ctr in
      (if \<not> isV6 prefix then Inl BadValue
       else if prefix_len = 0 \<or> prefix_len > 128 then Inl BadValue
       else bindE (lastAddrInPrefix prefix prefix_len) (\<lambda>l.
         Inr (mk_Pool i prefix l \<lparr>pool_type := Some type\<rparr>)), ctr'))"

section \<open>Subnets\<close>

record OptionDescriptor =
  od_option :: "opt option"
  od_persistent :: bool

type_synonym OptionSpaceCollection = "string \<rightharpoonup> OptionDescriptor list"

record Subnet =
  sn_id :: u32
  sn_pools :: "Pool list"
  sn_prefix :: ioaddress
  sn_prefix_len :: u8
  sn_t1 :: Triplet
  sn_t2 :: Triplet
  sn_valid :: Triplet
  sn_last_allocated :: ioaddress
  sn_iface :: string
  sn_option_spaces :: OptionSpaceCollection

record Subnet6 = Subnet +
  sn_preferred :: Triplet

definition getItems :: "string \<Rightarrow> (string \<rightharpoonup> 'a list) \<Rightarrow> 'a list" where
  "getItems option_space m = (case m option_space of None \<Rightarrow> [] | Some items \<Rightarrow> items)"

definition addItem :: "'a \<Rightarrow> string \<Rightarrow> (string \<rightharpoonup> 'a list) \<Rightarrow> (string \<rightharpoonup> 'a list)" where
  "addItem item option_space m = m(option_space \<mapsto> getItems option_space m @ [item])"

text \<open>The initialiser of \<^verbatim>\<open>last_allocated_\<close> runs, and may throw, before the body checks the length.\<close>

definition mk_Subnet ::
  "ioaddress \<Rightarrow> u8 \<Rightarrow> Triplet \<Rightarrow> Triplet \<Rightarrow> Triplet \<Rightarrow> u32 \<Rightarrow> Subnet result \<times> u32" where
  "mk_Subnet prefix len t1 t2 valid ctr =
     (let (i, ctr') = getNextID ctr in
      (bindE (lastAddrInPrefix prefix len) (\<lambda>l.
         if isV6 prefix \<and> len > 128 \<or> isV4 prefix \<and> len > 32 then Inl BadValue
         else Inr \<lparr>sn_id = i, sn_pools = [], sn_prefix = prefix, sn_prefix_len = len, sn_t1 = t1, sn_t2 = t2,
           sn_valid = valid, sn_last_allocated = l, sn_iface = [], sn_option_spaces = Map.empty\<rparr>), ctr'))"

definition mk_Subnet4 ::
  "ioaddress \<Rightarrow> u8 \<Rightarrow> Triplet \<Rightarrow> Triplet \<Rightarrow> Triplet \<Rightarrow> u32 \<Rightarrow> Subnet result \<times> u32" where
  "mk_Subnet4 prefix len t1 t2 valid ctr =
     (let (r, ctr') = mk_Subnet prefix len t1 t2 valid ctr in
      (bindE r (\<lambda>sn. if \<not> isV4 prefix then Inl BadValue else Inr sn), ctr'))"

definition mk_Subnet6 ::
  "ioaddress \<Rightarrow> u8 \<Rightarrow> Triplet \<Rightarrow> Triplet \<Rightarrow> Triplet \<Rightarrow> Triplet \<Rightarrow> u32 \<Rightarrow> Subnet6 result \<times> u32" where
  "mk_Subnet6 prefix len t1 t2 preferred valid ctr =
     (let (r, ctr') = mk_Subnet prefix len t1 t2 valid ctr in
      (bindE r (\<lambda>sn. if \<not> isV6 prefix then Inl BadValue
         else Inr (Subnet.extend sn (Subnet6.fields preferred))), ctr'))"

definition Subnet_inRange :: "'a Subnet_scheme \<Rightarrow> ioaddress \<Rightarrow> bool result" where
  "Subnet_inRange sn addr =
     bindE (firstAddrInPrefix (sn_prefix sn) (sn_prefix_len sn)) (\<lambda>f.
     bindE (lastAddrInPrefix (sn_prefix sn) (sn_prefix_len sn)) (\<lambda>l.
       Inr (smallerEqual f addr \<and> smallerEqual addr l)))"


definition Subnet_addPool :: "Pool \<Rightarrow> 'a Subnet_scheme \<Rightarrow> 'a Subnet_scheme result" where
  "Subnet_addPool pool sn =
     bindE (Subnet_inRange sn (pool_first pool)) (\<lambda>in_first.
       if \<not> in_first then Inl BadValue
       else bindE (Subnet_inRange sn (pool_last pool)) (\<lambda>in_last.
         if \<not> in_last then Inl BadValue
         else Inr (sn\<lparr>sn_pools := sn_pools sn @ [pool]\<rparr>)))"

fun getPool_loop :: "ioaddress \<Rightarrow> Pool option \<Rightarrow> Pool list \<Rightarrow> Pool option" where
  "getPool_loop hint candidate [] = candidate"
| "getPool_loop hint candidate (pool # pools) =
     (if Pool_inRange pool hint then Some pool
      else getPool_loop hint (if candidate = None then Some pool else candidate) pools)"

definition Subnet_getPool :: "ioaddress \<Rightarrow> 'a Subnet_scheme \<Rightarrow> Pool option" where
  "Subnet_getPool hint sn = getPool_loop hint None (sn_pools sn)"

definition Subnet_inPool :: "'a Subnet_scheme \<Rightarrow> ioaddress \<Rightarrow> bool result" where
  "Subnet_inPool sn addr =
     bindE (Subnet_inRange sn addr) (\<lambda>b.
       if \<not> b then Inr False else Inr (\<exists>pool\<in>set (sn_pools sn). Pool_inRange pool addr))"

definition validateOption4 :: "opt option \<Rightarrow> unit result" where
  "validateOption4 option =
     (case option of None \<Rightarrow> Inl BadValue | Some opt \<Rightarrow> guardE (universe opt = UV4) BadValue)"

definition validateOption6 :: "opt option \<Rightarrow> unit result" where
  "validateOption6 option =
     (case option of None \<Rightarrow> Inl BadValue | Some opt \<Rightarrow> guardE (universe opt = UV6) BadValue)"

definition Subnet_addOption ::
  "(opt option \<Rightarrow> unit result) \<Rightarrow> opt option \<Rightarrow> bool \<Rightarrow> string \<Rightarrow> 'a Subnet_scheme \<Rightarrow> 'a Subnet_scheme result" where
  "Subnet_addOption validateOption option persistent option_space sn =
     (if \<not> validateName option_space then Inl BadValue
      else bindE (validateOption option) (\<lambda>_.
        Inr (sn\<lparr>sn_option_spaces :=
          addItem \<lparr>od_option = option, od_persistent = persistent\<rparr> option_space (sn_option_spaces sn)\<rparr>)))"

definition Subnet_delOptions :: "'a Subnet_scheme \<Rightarrow> 'a Subnet_scheme" where
  "Subnet_delOptions sn = sn\<lparr>sn_option_spaces := Map.empty\<rparr>"

definition getOptionDescriptors :: "string \<Rightarrow> 'a Subnet_scheme \<Rightarrow> OptionDescriptor list" where
  "getOptionDescriptors option_space sn = getItems option_space (sn_option_spaces sn)"

text \<open>The hashed index of the container groups the descriptors by option code; of several with one
  code the oldest is returned.\<close>

definition has_code :: "u16 \<Rightarrow> OptionDescriptor \<Rightarrow> bool" where
  "has_code option_code d \<longleftrightarrow> (case od_option d of None \<Rightarrow> False | Some opt \<Rightarrow> otype opt = option_code)"

definition getOptionDescriptor :: "string \<Rightarrow> u16 \<Rightarrow> 'a Subnet_scheme \<Rightarrow> OptionDescriptor" where
  "getOptionDescriptor option_space option_code sn =
     (case find (has_code option_code) (getOptionDescriptors option_space sn) of
        None \<Rightarrow> \<lparr>od_option = None, od_persistent = False\<rparr>
      | Some d \<Rightarrow> d)"

definition setLastAllocated :: "ioaddress \<Rightarrow> 'a Subnet_scheme \<Rightarrow> 'a Subnet_scheme" where
  "setLastAllocated addr sn = sn\<lparr>sn_last_allocated := addr\<rparr>"

definition setIface :: "string \<Rightarrow> Subnet6 \<Rightarrow> Subnet6" where
  "setIface iface_name sn = sn\<lparr>sn_iface := iface_name\<rparr>"

section \<open>The invariant of a subnet\<close>

text \<open>
  \<open>wf_subnet u\<close> holds of every subnet the constructors and operations produce: the prefix fits its
  family, every pool is a non-empty range of that family inside the prefix, and every configured
  option belongs to the protocol.
\<close>

definition wf_pool :: "ioaddress \<Rightarrow> u8 \<Rightarrow> Pool \<Rightarrow> bool" where
  "wf_pool prefix len p \<longleftrightarrow> same_family (pool_first p) prefix \<and> same_family (pool_last p) prefix \<and>
     addr_val (pool_first p) \<le> addr_val (pool_last p) \<and>
     block_of (pool_first p) len = block_of prefix len \<and> block_of (pool_last p) len = block_of prefix len"

definition wf_subnet :: "Universe \<Rightarrow> 'a Subnet_scheme \<Rightarrow> bool" where
  "wf_subnet u sn \<longleftrightarrow>
     isV4 (sn_prefix sn) = (u = UV4) \<and> unat (sn_prefix_len sn) \<le> addr_bits (sn_prefix sn) \<and>
     list_all (wf_pool (sn_prefix sn) (sn_prefix_len sn)) (sn_pools sn) \<and>
     (\<forall>space d. d \<in> set (getItems space (sn_option_spaces sn)) \<longrightarrow>
        (\<exists>opt. od_option d = Some opt \<and> universe opt = u))"


lemma Subnet_inRange_eq:
  assumes "unat (sn_prefix_len sn) \<le> addr_bits (sn_prefix sn)"
  shows "Subnet_inRange sn addr =
    Inr (same_family addr (sn_prefix sn) \<and> block_of addr (sn_prefix_len sn) = block_of (sn_prefix sn) (sn_prefix_len sn))"
proof -
  obtain f l where fl: "firstAddrInPrefix (sn_prefix sn) (sn_prefix_len sn) = Inr f"
      "lastAddrInPrefix (sn_prefix sn) (sn_prefix_len sn) = Inr l"
      "same_family f (sn_prefix sn)" "same_family l (sn_prefix sn)"
      "\<And>q. same_family q (sn_prefix sn) \<Longrightarrow> smallerEqual f q \<and> smallerEqual q l \<longleftrightarrow>
         block_of q (sn_prefix_len sn) = block_of (sn_prefix sn) (sn_prefix_len sn)"
    using prefix_bounds [OF assms] by blast
  have "smallerEqual f addr \<and> smallerEqual addr l \<longleftrightarrow> False" if "\<not> same_family addr (sn_prefix sn)"
    using that fl(3,4) smallerEqual_mixed [of f addr] smallerEqual_mixed [of addr l]
    by (auto simp: same_family_def)
  with fl show ?thesis by (auto simp: Subnet_inRange_def)
qed

lemma block_of_between:
  assumes "same_family a c" "same_family b c" "addr_val a \<le> addr_val c" "addr_val c \<le> addr_val b"
    and "block_of a len = k" "block_of b len = k"
  shows "block_of c len = k"
proof -
  have "host_bits a len = host_bits c len" "host_bits b len = host_bits c len"
    using assms(1,2) by (cases a; cases b; cases c; auto simp: host_bits_def same_family_def)+
  with assms(3-) show ?thesis
    by (metis block_of_def div_le_mono le_antisym)
qed

lemma Pool_inRange_wf:
  assumes "wf_pool prefix len p"
  shows "Pool_inRange p addr \<longleftrightarrow>
    same_family addr prefix \<and> addr_val (pool_first p) \<le> addr_val addr \<and> addr_val addr \<le> addr_val (pool_last p)"
proof (cases "same_family addr prefix")
  case True
  then have "same_family (pool_first p) addr" "same_family addr (pool_last p)"
    using assms by (auto simp: wf_pool_def same_family_def)
  with True show ?thesis by (simp add: Pool_inRange_def smallerEqual_val)
next
  case False
  then show ?thesis
    using assms smallerEqual_mixed [of "pool_first p" addr] smallerEqual_mixed [of addr "pool_last p"]
    by (auto simp: Pool_inRange_def wf_pool_def same_family_def)
qed

lemma wf_pool_block:
  assumes "wf_pool prefix len p" "Pool_inRange p addr"
  shows "same_family addr prefix \<and> block_of addr len = block_of prefix len"
  using assms block_of_between [of "pool_first p" addr "pool_last p" len "block_of prefix len"]
  by (auto simp: Pool_inRange_wf wf_pool_def same_family_def)

text \<open>In a well-formed subnet the range check in front of the pool search is redundant.\<close>

lemma Subnet_inPool_eq:
  assumes "wf_subnet u sn"
  shows "Subnet_inPool sn addr = Inr (\<exists>pool\<in>set (sn_pools sn). Pool_inRange pool addr)"
  using assms wf_pool_block
  by (fastforce simp: Subnet_inPool_def Subnet_inRange_eq wf_subnet_def list_all_iff)

lemma getPool_loop_spec:
  "getPool_loop hint cand pools =
     (case find (\<lambda>p. Pool_inRange p hint) pools of
        Some p \<Rightarrow> Some p
      | None \<Rightarrow> if cand \<noteq> None then cand else case pools of [] \<Rightarrow> None | p # _ \<Rightarrow> Some p)"
  by (induction pools arbitrary: cand) (auto split: list.splits option.splits)

section \<open>Construction\<close>

lemma mk_Subnet_wf:
  assumes "mk_Subnet prefix len t1 t2 valid ctr = (Inr sn, ctr')"
  shows "wf_subnet (if isV4 prefix then UV4 else UV6) sn \<and> sn_prefix sn = prefix \<and> sn_prefix_len sn = len \<and>
    sn_pools sn = [] \<and> sn_id sn = ctr \<and> ctr' = ctr + 1"
  using assms
  by (cases prefix) (auto simp: mk_Subnet_def getNextID_def Let_def result_simps wf_subnet_def getItems_def
      word_less_nat_alt not_less split: if_splits)

lemma mk_Subnet4_wf: "mk_Subnet4 prefix len t1 t2 valid ctr = (Inr sn, ctr') \<Longrightarrow> wf_subnet UV4 sn"
  using mk_Subnet_wf [of prefix len t1 t2 valid ctr]
  by (auto simp: mk_Subnet4_def Let_def result_simps split: prod.splits if_splits)

lemma mk_Subnet6_wf: "mk_Subnet6 prefix len t1 t2 pref valid ctr = (Inr sn, ctr') \<Longrightarrow> wf_subnet UV6 sn"
  using mk_Subnet_wf [of prefix len t1 t2 valid ctr]
  by (cases prefix) (auto simp: mk_Subnet6_def Let_def result_simps Subnet.defs Subnet6.defs wf_subnet_def
      split: prod.splits if_splits)

text \<open>The pools that the constructors of the same family build are non-empty ranges of it.\<close>

definition built_pool :: "Universe \<Rightarrow> Pool \<Rightarrow> bool" where
  "built_pool u p \<longleftrightarrow>
     (u = UV4 \<and> ((\<exists>f l c c'. Pool4_range f l c = (Inr p, c')) \<or> (\<exists>a n c c'. Pool4_prefix a n c = (Inr p, c')))) \<or>
     (u = UV6 \<and> ((\<exists>t f l c c'. Pool6_range t f l c = (Inr p, c')) \<or> (\<exists>t a n c c'. Pool6_prefix t a n c = (Inr p, c'))))"


lemma built_pool_ordered:
  assumes "built_pool u p"
  shows "isV4 (pool_first p) = (u = UV4) \<and> isV4 (pool_last p) = (u = UV4) \<and>
    addr_val (pool_first p) \<le> addr_val (pool_last p)"
proof -
  have pre: "same_family l a \<and> addr_val a \<le> addr_val l"
    if eq: "lastAddrInPrefix a n = Inr l" and le: "unat n \<le> addr_bits a" for a l :: ioaddress and n
  proof -
    obtain l' where l': "lastAddrInPrefix a n = Inr l'" "same_family l' a"
      "addr_val l' = block_of a n * 2 ^ host_bits a n + (2 ^ host_bits a n - 1)"
      using lastAddrInPrefix_val [OF le] .
    have "addr_val a \<le> addr_val l'"
      using block_iff [of "block_of a n" "host_bits a n" "addr_val a"] l'(3) by (simp add: block_of_def)
    with l' eq show ?thesis by simp
  qed
  have rng: "addr_val f \<le> addr_val l" if "\<not> lessThan l f" "isV4 f = isV4 l" for f l
    using that lessThan_val [of l f] by (auto simp: same_family_def)
  have v: "isV6 a \<longleftrightarrow> \<not> isV4 a" for a by (cases a) auto
  consider (r4) f l c c' where "u = UV4" "Pool4_range f l c = (Inr p, c')"
    | (p4) a n c c' where "u = UV4" "Pool4_prefix a n c = (Inr p, c')"
    | (r6) t f l c c' where "u = UV6" "Pool6_range t f l c = (Inr p, c')"
    | (p6) t a n c c' where "u = UV6" "Pool6_prefix t a n c = (Inr p, c')"
    using assms by (auto simp: built_pool_def)
  then show ?thesis
  proof cases
    case r4
    then show ?thesis
      using rng by (auto simp: Pool4_range_def getNextID_def Let_def mk_Pool_def split: if_splits)
  next
    case r6
    then show ?thesis
      using rng by (auto simp: Pool6_range_def getNextID_def Let_def mk_Pool_def v split: if_splits)
  next
    case p4
    then obtain w l where "a = IPv4 w" "lastAddrInPrefix a n = Inr l" "unat n \<le> 32" "p = mk_Pool c a l"
      by (cases a) (auto simp: Pool4_prefix_def getNextID_def Let_def result_simps word_less_nat_alt not_less
          split: if_splits)
    then show ?thesis using pre [of a n l] p4 by (auto simp: mk_Pool_def same_family_def)
  next
    case p6
    then obtain w l where "a = IPv6 w" "lastAddrInPrefix a n = Inr l" "unat n \<le> 128"
        "p = mk_Pool c a l \<lparr>pool_type := Some t\<rparr>"
      by (cases a) (auto simp: Pool6_prefix_def getNextID_def Let_def result_simps word_less_nat_alt not_less
          split: if_splits)
    then show ?thesis using pre [of a n l] p6 by (auto simp: mk_Pool_def same_family_def)
  qed
qed

lemma addPool_wf:
  assumes "wf_subnet u sn" "built_pool u p" "Subnet_addPool p sn = Inr sn'"
  shows "wf_subnet u sn'"
proof -
  have len: "unat (sn_prefix_len sn) \<le> addr_bits (sn_prefix sn)"
    using assms(1) by (simp add: wf_subnet_def)
  have "wf_pool (sn_prefix sn) (sn_prefix_len sn) p" "sn' = sn\<lparr>sn_pools := sn_pools sn @ [p]\<rparr>"
    using assms(3) built_pool_ordered [OF assms(2)]
    by (auto simp: Subnet_addPool_def Subnet_inRange_eq [OF len] wf_pool_def split: if_splits)
  with assms(1) show ?thesis by (auto simp: wf_subnet_def)
qed

lemma getItems_addItem:
  "getItems s (addItem x t m) = (if s = t then getItems t m @ [x] else getItems s m)"
  by (simp add: getItems_def addItem_def)

lemma addOption_wf:
  assumes "wf_subnet u sn"
    and "Subnet_addOption (if u = UV4 then validateOption4 else validateOption6) opt per space sn = Inr sn'"
  shows "wf_subnet u sn'"
  using assms
  by (cases u) (auto simp: Subnet_addOption_def validateOption4_def validateOption6_def result_simps wf_subnet_def
      getItems_addItem split: if_splits option.splits)

text \<open>How the configuration builds a subnet: a constructor followed by any sequence of operations.\<close>

inductive built_subnet4 :: "Subnet \<Rightarrow> bool" where
  new4: "mk_Subnet4 prefix len t1 t2 valid ctr = (Inr sn, ctr') \<Longrightarrow> built_subnet4 sn"
| pool4: "built_subnet4 sn \<Longrightarrow> built_pool UV4 p \<Longrightarrow> Subnet_addPool p sn = Inr sn' \<Longrightarrow> built_subnet4 sn'"
| opt4: "built_subnet4 sn \<Longrightarrow> Subnet_addOption validateOption4 opt per space sn = Inr sn' \<Longrightarrow> built_subnet4 sn'"
| del4: "built_subnet4 sn \<Longrightarrow> built_subnet4 (Subnet_delOptions sn)"
| last4: "built_subnet4 sn \<Longrightarrow> built_subnet4 (setLastAllocated a sn)"

inductive built_subnet6 :: "Subnet6 \<Rightarrow> bool" where
  new6: "mk_Subnet6 prefix len t1 t2 pref valid ctr = (Inr sn, ctr') \<Longrightarrow> built_subnet6 sn"
| pool6: "built_subnet6 sn \<Longrightarrow> built_pool UV6 p \<Longrightarrow> Subnet_addPool p sn = Inr sn' \<Longrightarrow> built_subnet6 sn'"
| opt6: "built_subnet6 sn \<Longrightarrow> Subnet_addOption validateOption6 opt per space sn = Inr sn' \<Longrightarrow> built_subnet6 sn'"
| del6: "built_subnet6 sn \<Longrightarrow> built_subnet6 (Subnet_delOptions sn)"
| last6: "built_subnet6 sn \<Longrightarrow> built_subnet6 (setLastAllocated a sn)"
| iface6: "built_subnet6 sn \<Longrightarrow> built_subnet6 (setIface name sn)"

lemma wf_subnet_update [wf_intros]:
  "wf_subnet u sn \<Longrightarrow> wf_subnet u (Subnet_delOptions sn)"
  "wf_subnet u sn \<Longrightarrow> wf_subnet u (setLastAllocated a sn)"
  by (auto simp: wf_subnet_def Subnet_delOptions_def setLastAllocated_def getItems_def)

lemma built_subnet4_wf: "built_subnet4 sn \<Longrightarrow> wf_subnet UV4 sn"
  by (induction rule: built_subnet4.induct)
    (auto intro: mk_Subnet4_wf addPool_wf addOption_wf [where u = UV4, simplified] wf_intros)

lemma built_subnet6_wf: "built_subnet6 sn \<Longrightarrow> wf_subnet UV6 sn"
proof (induction rule: built_subnet6.induct)
  case (opt6 sn opt per space sn')
  then show ?case using addOption_wf [where u = UV6] by simp
next
  case (iface6 sn name)
  then show ?case by (simp add: wf_subnet_def setIface_def)
qed (auto intro: mk_Subnet6_wf addPool_wf wf_intros)


section \<open>What a configured subnet promises\<close>

definition subnet_promise :: "Universe \<Rightarrow> 'a Subnet_scheme \<Rightarrow> bool" where
  "subnet_promise u sn \<longleftrightarrow>
     (\<forall>a. Subnet_inPool sn a = Inr (\<exists>p\<in>set (sn_pools sn). Pool_inRange p a)) \<and>
     (\<forall>p\<in>set (sn_pools sn). \<forall>a. Pool_inRange p a \<longrightarrow>
        Subnet_inRange sn a = Inr True \<and> isV4 a = (u = UV4)) \<and>
     (\<forall>a. Subnet_getPool a sn = None \<longleftrightarrow> sn_pools sn = []) \<and>
     (\<forall>a p. Subnet_inPool sn a = Inr True \<and> Subnet_getPool a sn = Some p \<longrightarrow> Pool_inRange p a) \<and>
     (\<forall>space code opt. od_option (getOptionDescriptor space code sn) = Some opt \<longrightarrow>
        universe opt = u \<and> otype opt = code)"

lemma subnet_promiseD:
  assumes "subnet_promise u sn" "p \<in> set (sn_pools sn)" "Pool_inRange p a"
  shows "Subnet_inRange sn a = Inr True"
proof -
  have "\<forall>p\<in>set (sn_pools sn). \<forall>a. Pool_inRange p a \<longrightarrow> Subnet_inRange sn a = Inr True \<and> isV4 a = (u = UV4)"
    using assms(1) unfolding subnet_promise_def by (elim conjE)
  with assms(2,3) show ?thesis by blast
qed

lemma getOptionDescriptor_wf:
  assumes "wf_subnet u sn" "od_option (getOptionDescriptor space code sn) = Some opt"
  shows "universe opt = u \<and> otype opt = code"
proof -
  obtain d where d: "find (has_code code) (getItems space (sn_option_spaces sn)) = Some d" "od_option d = Some opt"
    using assms(2) by (auto simp: getOptionDescriptor_def getOptionDescriptors_def split: option.splits)
  then have "has_code code d" "d \<in> set (getItems space (sn_option_spaces sn))"
    by (auto simp: find_Some_iff)
  with assms(1) d(2) show ?thesis by (fastforce simp: wf_subnet_def has_code_def)
qed

lemma wf_subnet_promise:
  assumes "wf_subnet u sn"
  shows "subnet_promise u sn"
proof -
  have len: "unat (sn_prefix_len sn) \<le> addr_bits (sn_prefix sn)" and v: "isV4 (sn_prefix sn) = (u = UV4)"
    and pools: "\<And>p. p \<in> set (sn_pools sn) \<Longrightarrow> wf_pool (sn_prefix sn) (sn_prefix_len sn) p"
    using assms by (auto simp: wf_subnet_def list_all_iff)
  have rng: "Subnet_inRange sn a = Inr True \<and> isV4 a = (u = UV4)"
    if "p \<in> set (sn_pools sn)" "Pool_inRange p a" for p a
    using wf_pool_block [OF pools [OF that(1)] that(2)] v by (simp add: Subnet_inRange_eq [OF len] same_family_def)
  have "Subnet_getPool a sn = None \<longleftrightarrow> sn_pools sn = []" for a
    by (auto simp: Subnet_getPool_def getPool_loop_spec split: option.splits list.splits)
  moreover have "Pool_inRange p a" if "\<exists>p\<in>set (sn_pools sn). Pool_inRange p a" "Subnet_getPool a sn = Some p" for a p
    using that by (auto simp: Subnet_getPool_def getPool_loop_spec find_None_iff find_Some_iff split: option.splits)
  ultimately show ?thesis
    unfolding subnet_promise_def
    using Subnet_inPool_eq [OF assms] rng getOptionDescriptor_wf [OF assms] by simp
qed

text \<open>C28. Whatever pools and options are added to it, a subnet of either protocol is consistent: the
  range check and the pool search never fail; every address of a pool is an address of the subnet
  and of its family, so an address is in a pool exactly when one of the pools covers it; the pool
  chosen for a hint contains the hint whenever some pool does, and there is one unless no pool was
  added; an option looked up by code has that code and belongs to the protocol.\<close>

theorem configured_subnets:
  "(built_subnet4 sn4 \<longrightarrow> subnet_promise UV4 sn4) \<and> (built_subnet6 sn6 \<longrightarrow> subnet_promise UV6 sn6)"
  by (auto intro: wf_subnet_promise built_subnet4_wf built_subnet6_wf)

definition example_subnet4 :: Subnet where
  "example_subnet4 =
     \<lparr>sn_id = 1, sn_pools = [mk_Pool 7 (IPv4 0xc0000264) (IPv4 0xc0000266)], sn_prefix = IPv4 0xc0000200,
      sn_prefix_len = 24, sn_t1 = Triplet_fixed 1000, sn_t2 = Triplet_fixed 2000, sn_valid = Triplet_fixed 4000,
      sn_last_allocated = IPv4 0xc00002ff, sn_iface = [], sn_option_spaces = Map.empty\<rparr>"

lemma example_prefix:
  "firstAddrInPrefix (IPv4 0xc0000200) 24 = Inr (IPv4 0xc0000200)"
  "lastAddrInPrefix (IPv4 0xc0000200) 24 = Inr (IPv4 0xc00002ff)"
  by (simp_all add: firstAddrInPrefix_def firstAddrInPrefix4_def lastAddrInPrefix_def lastAddrInPrefix4_def bitMask4_def)

lemma built_example_subnet4: "built_subnet4 example_subnet4"
proof (rule built_subnet4.intros(2))
  let ?n = "example_subnet4\<lparr>sn_pools := []\<rparr>"
  show "built_subnet4 ?n"
    by (rule built_subnet4.intros(1) [where prefix = "IPv4 0xc0000200" and len = 24 and ctr = 1])
      (simp add: mk_Subnet4_def mk_Subnet_def getNextID_def example_prefix example_subnet4_def)
  show "built_pool UV4 (mk_Pool 7 (IPv4 0xc0000264) (IPv4 0xc0000266))"
    by (simp add: built_pool_def) (rule disjI1, rule exI [of _ "IPv4 0xc0000264"], rule exI [of _ "IPv4 0xc0000266"],
        rule exI [of _ 7], simp add: Pool4_range_def getNextID_def)
  show "Subnet_addPool (mk_Pool 7 (IPv4 0xc0000264) (IPv4 0xc0000266)) ?n = Inr example_subnet4"
    by (simp add: Subnet_addPool_def Subnet_inRange_def example_prefix example_subnet4_def mk_Pool_def
        smallerEqual_def equals_def)
qed

theorem configured_subnets_witness:
  "built_subnet4 example_subnet4 \<and> Subnet_inPool example_subnet4 (IPv4 0xc0000265) = Inr True \<and>
   Subnet_inRange example_subnet4 (IPv4 0xc0000265) = Inr True"
proof -
  have p: "subnet_promise UV4 example_subnet4"
    using configured_subnets [of example_subnet4] built_example_subnet4 by blast
  have m: "mk_Pool 7 (IPv4 0xc0000264) (IPv4 0xc0000266) \<in> set (sn_pools example_subnet4)"
    and r: "Pool_inRange (mk_Pool 7 (IPv4 0xc0000264) (IPv4 0xc0000266)) (IPv4 0xc0000265)"
    by (simp_all add: example_subnet4_def mk_Pool_def Pool_inRange_def smallerEqual_def equals_def)
  have 1: "Subnet_inPool example_subnet4 a = Inr (\<exists>p\<in>set (sn_pools example_subnet4). Pool_inRange p a)" for a
    using p by (simp add: subnet_promise_def)
  have "\<exists>q\<in>set (sn_pools example_subnet4). Pool_inRange q (IPv4 0xc0000265)"
    using m r by (rule bexI [rotated])
  then show ?thesis using 1 [of "IPv4 0xc0000265"] subnet_promiseD [OF p m r] built_example_subnet4 by simp
qed

end
