(* ===== verification/Cfg_Mgr.thy ===== *)
theory Cfg_Mgr
  imports Subnets
begin

text \<open>
  The configuration manager, \<^verbatim>\<open>src/lib/dhcpsrv/cfgmgr.{h,cc}\<close>, and option spaces,
  \<^verbatim>\<open>src/lib/dhcp/option_space.{h,cc}\<close>. The singleton is a record. \<^verbatim>\<open>getSubnet4\<close> and
  \<^verbatim>\<open>getSubnet6\<close> hand out shared pointers into the two collections, through which the allocation
  engine moves the allocator of a subnet: a pointer to a configured subnet is its position in the
  collection.
\<close>

section \<open>Option spaces\<close>

record OptionSpace =
  os_name :: string
  os_vendor_space :: bool

record OptionSpace6 = OptionSpace +
  os_enterprise_number :: u32

definition mk_OptionSpace :: "string \<Rightarrow> bool \<Rightarrow> OptionSpace result" where
  "mk_OptionSpace name vendor_space =
     (if \<not> validateName name then Inl InvalidOptionSpace
      else Inr \<lparr>os_name = name, os_vendor_space = vendor_space\<rparr>)"

definition mk_OptionSpace6 :: "string \<Rightarrow> OptionSpace6 result" where
  "mk_OptionSpace6 name =
     bindE (mk_OptionSpace name False) (\<lambda>s. Inr (OptionSpace.extend s (OptionSpace6.fields 0)))"

definition mk_OptionSpace6_vendor :: "string \<Rightarrow> u32 \<Rightarrow> OptionSpace6 result" where
  "mk_OptionSpace6_vendor name enterprise_number =
     bindE (mk_OptionSpace name True) (\<lambda>s.
       Inr (OptionSpace.extend s (OptionSpace6.fields enterprise_number)))"

definition clearVendorSpace :: "'a OptionSpace_scheme \<Rightarrow> 'a OptionSpace_scheme" where
  "clearVendorSpace s = s\<lparr>os_vendor_space := False\<rparr>"

definition setVendorSpace :: "'a OptionSpace_scheme \<Rightarrow> 'a OptionSpace_scheme" where
  "setVendorSpace s = s\<lparr>os_vendor_space := True\<rparr>"

definition setVendorSpace6 :: "u32 \<Rightarrow> OptionSpace6 \<Rightarrow> OptionSpace6" where
  "setVendorSpace6 enterprise_number s =
     setVendorSpace (s\<lparr>os_enterprise_number := enterprise_number\<rparr>)"

section \<open>The manager\<close>

record CfgMgr =
  cfg_subnets6 :: "Subnet6 list"
  cfg_subnets4 :: "Subnet list"
  cfg_option_def_spaces :: "string \<rightharpoonup> OptionDefinition list"
  cfg_spaces6 :: "string \<rightharpoonup> OptionSpace"
  cfg_spaces4 :: "string \<rightharpoonup> OptionSpace"

definition mk_CfgMgr :: CfgMgr where
  "mk_CfgMgr = \<lparr>cfg_subnets6 = [], cfg_subnets4 = [], cfg_option_def_spaces = Map.empty,
     cfg_spaces6 = Map.empty, cfg_spaces4 = Map.empty\<rparr>"

definition addOptionSpace4 :: "OptionSpace option \<Rightarrow> CfgMgr \<Rightarrow> CfgMgr result" where
  "addOptionSpace4 space c =
     (case space of
        None \<Rightarrow> Inl InvalidOptionSpace
      | Some s \<Rightarrow>
          if cfg_spaces4 c (os_name s) \<noteq> None then Inl InvalidOptionSpace
          else Inr (c\<lparr>cfg_spaces4 := (cfg_spaces4 c)(os_name s \<mapsto> s)\<rparr>))"

definition addOptionSpace6 :: "OptionSpace option \<Rightarrow> CfgMgr \<Rightarrow> CfgMgr result" where
  "addOptionSpace6 space c =
     (case space of
        None \<Rightarrow> Inl InvalidOptionSpace
      | Some s \<Rightarrow>
          if cfg_spaces6 c (os_name s) \<noteq> None then Inl InvalidOptionSpace
          else Inr (c\<lparr>cfg_spaces6 := (cfg_spaces6 c)(os_name s \<mapsto> s)\<rparr>))"

definition cfg_getOptionDefs :: "string \<Rightarrow> CfgMgr \<Rightarrow> OptionDefinition list" where
  "cfg_getOptionDefs option_space c = getItems option_space (cfg_option_def_spaces c)"

definition cfg_getOptionDef :: "string \<Rightarrow> u16 \<Rightarrow> CfgMgr \<Rightarrow> OptionDefinition option" where
  "cfg_getOptionDef option_space option_code c =
     (let defs = cfg_getOptionDefs option_space c in
      if defs = [] then None
      else case defs_with_code defs option_code of [] \<Rightarrow> None | d # _ \<Rightarrow> Some d)"

definition addOptionDef :: "OptionDefinition option \<Rightarrow> string \<Rightarrow> CfgMgr \<Rightarrow> CfgMgr result" where
  "addOptionDef def option_space c =
     (if option_space = [] then Inl BadValue
      else case def of
        None \<Rightarrow> Inl MalformedOptionDefinition
      | Some d \<Rightarrow>
          if cfg_getOptionDef option_space (def_code d) c \<noteq> None then Inl DuplicateOptionDefinition
          else if option_space = ''dhcp4'' \<and> isStandardOption UV4 (def_code d) \<or>
                  option_space = ''dhcp6'' \<and> isStandardOption UV6 (def_code d) then Inl BadValue
          else Inr (c\<lparr>cfg_option_def_spaces := addItem d option_space (cfg_option_def_spaces c)\<rparr>))"

definition getSubnet6_iface :: "string \<Rightarrow> CfgMgr \<Rightarrow> nat option" where
  "getSubnet6_iface iface c =
     (if iface = [] then None
      else find (\<lambda>i. sn_iface (cfg_subnets6 c ! i) = iface) [0..<length (cfg_subnets6 c)])"

text \<open>The loop over the subnets, from position \<open>i\<close> on: the first one whose range contains the hint.\<close>

fun first_inRange :: "ioaddress \<Rightarrow> nat \<Rightarrow> 'a Subnet_scheme list \<Rightarrow> nat option result" where
  "first_inRange hint i [] = Inr None"
| "first_inRange hint i (subnet # subnets) =
     bindE (Subnet_inRange subnet hint) (\<lambda>b.
       if b then Inr (Some i) else first_inRange hint (Suc i) subnets)"

definition getSubnet6 :: "ioaddress \<Rightarrow> CfgMgr \<Rightarrow> nat option result" where
  "getSubnet6 hint c =
     bindE (if length (cfg_subnets6 c) = 1 then is_link_local hint else Inr False) (\<lambda>only.
       if only then Inr (Some 0) else first_inRange hint 0 (cfg_subnets6 c))"

definition getSubnet6_interface_id :: "opt option \<Rightarrow> CfgMgr \<Rightarrow> nat option result" where
  "getSubnet6_interface_id interface_id c = Inl NotImplemented"

definition addSubnet6 :: "Subnet6 \<Rightarrow> CfgMgr \<Rightarrow> CfgMgr" where
  "addSubnet6 subnet c = c\<lparr>cfg_subnets6 := cfg_subnets6 c @ [subnet]\<rparr>"

definition getSubnet4 :: "ioaddress \<Rightarrow> CfgMgr \<Rightarrow> nat option result" where
  "getSubnet4 hint c =
     (if length (cfg_subnets4 c) = 1 then Inr (Some 0)
      else first_inRange hint 0 (cfg_subnets4 c))"

definition addSubnet4 :: "Subnet \<Rightarrow> CfgMgr \<Rightarrow> CfgMgr" where
  "addSubnet4 subnet c = c\<lparr>cfg_subnets4 := cfg_subnets4 c @ [subnet]\<rparr>"

definition deleteOptionDefs :: "CfgMgr \<Rightarrow> CfgMgr" where
  "deleteOptionDefs c = c\<lparr>cfg_option_def_spaces := Map.empty\<rparr>"

definition deleteSubnets4 :: "CfgMgr \<Rightarrow> CfgMgr" where
  "deleteSubnets4 c = c\<lparr>cfg_subnets4 := []\<rparr>"

definition deleteSubnets6 :: "CfgMgr \<Rightarrow> CfgMgr" where
  "deleteSubnets6 c = c\<lparr>cfg_subnets6 := []\<rparr>"

text \<open>What a server requires of an option; both servers declare this type.\<close>

datatype RequirementLevel = FORBIDDEN | MANDATORY | OPTIONAL

section \<open>Reachable configurations\<close>

text \<open>
  A configuration is what any sequence of operations makes of the empty one. The parsers hold pointers to
  the subnets they add, and the servers move their allocators, so a step may also replace a subnet
  by another state of it.
\<close>

inductive configured :: "CfgMgr \<Rightarrow> bool" where
  empty: "configured mk_CfgMgr"
| space4: "configured c \<Longrightarrow> addOptionSpace4 s c = Inr c' \<Longrightarrow> configured c'"
| space6: "configured c \<Longrightarrow> addOptionSpace6 s c = Inr c' \<Longrightarrow> configured c'"
| def: "configured c \<Longrightarrow> addOptionDef d space c = Inr c' \<Longrightarrow> configured c'"
| subnet4: "configured c \<Longrightarrow> built_subnet4 sn \<Longrightarrow> configured (addSubnet4 sn c)"
| subnet6: "configured c \<Longrightarrow> built_subnet6 sn' \<Longrightarrow> configured (addSubnet6 sn' c)"
| change4: "configured c \<Longrightarrow> built_subnet4 sn \<Longrightarrow> configured (c\<lparr>cfg_subnets4 := (cfg_subnets4 c)[i := sn]\<rparr>)"
| change6: "configured c \<Longrightarrow> built_subnet6 sn' \<Longrightarrow> configured (c\<lparr>cfg_subnets6 := (cfg_subnets6 c)[i := sn']\<rparr>)"
| del_defs: "configured c \<Longrightarrow> configured (deleteOptionDefs c)"
| del4: "configured c \<Longrightarrow> configured (deleteSubnets4 c)"
| del6: "configured c \<Longrightarrow> configured (deleteSubnets6 c)"

definition wf_cfg :: "CfgMgr \<Rightarrow> bool" where
  "wf_cfg c \<longleftrightarrow> list_all (wf_subnet UV4) (cfg_subnets4 c) \<and> list_all (wf_subnet UV6) (cfg_subnets6 c)"

definition wf_defs :: "(string \<rightharpoonup> OptionDefinition list) \<Rightarrow> bool" where
  "wf_defs m \<longleftrightarrow>
     (\<forall>space. distinct (map def_code (getItems space m))) \<and>
     (\<forall>d\<in>set (getItems ''dhcp4'' m). \<not> isStandardOption UV4 (def_code d)) \<and>
     (\<forall>d\<in>set (getItems ''dhcp6'' m). \<not> isStandardOption UV6 (def_code d))"

lemma is_link_local_total: "isV6 a \<Longrightarrow> \<exists>b. is_link_local a = Inr b"
proof (cases a)
  case (IPv6 w)
  then have "length (toBytes (IPv6 w)) = 16" by (simp add: length_toBytes)
  with IPv6 show ?thesis by (auto simp del: toBytes.simps split: list.splits)
qed simp

lemma option_eqI_iff: "(\<And>y. x = Some y \<longleftrightarrow> x' = Some y) \<Longrightarrow> x = x'"
  by (cases x) (auto, metis not_Some_eq)

lemma list_all_update: "list_all P xs \<Longrightarrow> P x \<Longrightarrow> list_all P (xs[i := x])"
  by (metis list_all_length length_list_update nth_list_update nth_list_update_neq)

lemma addOptionDef_Inr:
  assumes "addOptionDef def space c = Inr c'"
  obtains d where "def = Some d" "cfg_getOptionDef space (def_code d) c = None" "space \<noteq> []"
    "\<not> (space = ''dhcp4'' \<and> isStandardOption UV4 (def_code d) \<or> space = ''dhcp6'' \<and> isStandardOption UV6 (def_code d))"
    "c' = c\<lparr>cfg_option_def_spaces := addItem d space (cfg_option_def_spaces c)\<rparr>"
  using assms by (auto simp: addOptionDef_def split: if_splits option.splits)

lemma addOptionSpace_Inr:
  "addOptionSpace4 s c = Inr c' \<Longrightarrow> \<exists>m. c' = c\<lparr>cfg_spaces4 := m\<rparr>"
  "addOptionSpace6 s c = Inr c' \<Longrightarrow> \<exists>m. c' = c\<lparr>cfg_spaces6 := m\<rparr>"
  by (auto simp: addOptionSpace4_def addOptionSpace6_def split: option.splits if_splits)

lemma configured_wf: "configured c \<Longrightarrow> wf_cfg c"
proof (induction rule: configured.induct)
  case (def c d space c')
  then show ?case by (auto elim!: addOptionDef_Inr simp: wf_cfg_def)
qed (auto dest!: addOptionSpace_Inr simp: wf_cfg_def mk_CfgMgr_def addSubnet4_def addSubnet6_def deleteOptionDefs_def
    deleteSubnets4_def deleteSubnets6_def intro: list_all_update built_subnet4_wf built_subnet6_wf)

lemma cfg_getOptionDef_None:
  "cfg_getOptionDef space code c = None \<longleftrightarrow> code \<notin> def_code ` set (cfg_getOptionDefs space c)"
proof -
  have *: "defs_with_code ds code = [] \<longleftrightarrow> code \<notin> def_code ` set ds" for ds
    by (auto simp: defs_with_code_def filter_empty_conv)
  then have "code \<in> def_code ` set (cfg_getOptionDefs space c)" if "defs_with_code (cfg_getOptionDefs space c) code = d # ds" for d ds
    using that by (metis list.distinct(1))
  with * show ?thesis by (auto simp: cfg_getOptionDef_def Let_def split: list.splits)
qed

lemma wf_defs_empty: "wf_defs Map.empty"
  by (simp add: wf_defs_def getItems_def)

lemma configured_defs: "configured c \<Longrightarrow> wf_defs (cfg_option_def_spaces c)"
proof (induction rule: configured.induct)
  case (def c d space c')
  from def.hyps(2) obtain d0 where d: "d = Some d0" "cfg_getOptionDef space (def_code d0) c = None"
    "\<not> (space = ''dhcp4'' \<and> isStandardOption UV4 (def_code d0) \<or> space = ''dhcp6'' \<and> isStandardOption UV6 (def_code d0))"
    "c' = c\<lparr>cfg_option_def_spaces := addItem d0 space (cfg_option_def_spaces c)\<rparr>"
    by (rule addOptionDef_Inr)
  then show ?case
    using def.IH by (auto simp: wf_defs_def getItems_addItem cfg_getOptionDef_None cfg_getOptionDefs_def)
qed (auto dest!: addOptionSpace_Inr simp: wf_defs_empty mk_CfgMgr_def addSubnet4_def addSubnet6_def
    deleteOptionDefs_def deleteSubnets4_def deleteSubnets6_def)

section \<open>Selecting a subnet\<close>

text \<open>\<open>r\<close> is the first of the positions \<open>i .. n - 1\<close> with the property, if there is one.\<close>

definition first_where :: "(nat \<Rightarrow> bool) \<Rightarrow> nat \<Rightarrow> nat \<Rightarrow> nat option \<Rightarrow> bool" where
  "first_where P i n r \<longleftrightarrow>
     (case r of
        None \<Rightarrow> (\<forall>j\<in>{i..<n}. \<not> P j)
      | Some k \<Rightarrow> k \<in> {i..<n} \<and> P k \<and> (\<forall>j\<in>{i..<k}. \<not> P j))"

lemma first_inRange_spec:
  assumes "list_all (wf_subnet u) sns"
  shows "\<exists>r. first_inRange hint i sns = Inr r \<and>
    first_where (\<lambda>j. Subnet_inRange (sns ! (j - i)) hint = Inr True) i (i + length sns) r"
  using assms
proof (induction sns arbitrary: i)
  case (Cons sn sns)
  obtain b where b: "Subnet_inRange sn hint = Inr b"
    using Cons.prems Subnet_inRange_eq [of sn hint] by (auto simp: wf_subnet_def)
  obtain r where r: "first_inRange hint (Suc i) sns = Inr r"
    "first_where (\<lambda>j. Subnet_inRange (sns ! (j - Suc i)) hint = Inr True) (Suc i) (Suc i + length sns) r"
    using Cons.IH [of "Suc i"] Cons.prems by auto
  have nth: "(sn # sns) ! (j - i) = sns ! (j - Suc i)" if "Suc i \<le> j" for j
    using that by (simp add: nth_Cons' )
  show ?case
  proof (cases b)
    case True
    then show ?thesis using b by (auto simp: first_where_def)
  next
    case False
    have "(\<forall>j\<in>{i..<m}. Subnet_inRange ((sn # sns) ! (j - i)) hint \<noteq> Inr True) \<longleftrightarrow>
        (\<forall>j\<in>{Suc i..<m}. Subnet_inRange (sns ! (j - Suc i)) hint \<noteq> Inr True)" for m
      using nth b False by (metis Inr_inject Suc_leI atLeastLessThan_iff diff_self_eq_0 le_antisym le_imp_less_or_eq
        le_less_Suc_eq not_less_eq nth_Cons_0 Suc_le_eq less_or_eq_imp_le)
    then show ?thesis using r b False nth by (auto simp: first_where_def split: option.splits)
  qed
qed (simp add: first_where_def)

text \<open>C29. In every configuration that can be reached, the choice of a subnet never fails and is the first
  configured subnet whose prefix covers the address, none when no prefix does; but a sole IPv4 subnet is
  chosen whatever the address, and a sole IPv6 subnet for every link-local address. All subnets
  the choice ranges over are well formed.\<close>

theorem subnet_selection:
  assumes "configured c"
  shows "wf_cfg c \<and>
    (\<exists>r. getSubnet4 hint c = Inr r \<and>
      (if length (cfg_subnets4 c) = 1 then r = Some 0
       else first_where (\<lambda>i. Subnet_inRange (cfg_subnets4 c ! i) hint = Inr True) 0 (length (cfg_subnets4 c)) r)) \<and>
    (isV6 hint \<longrightarrow> (\<exists>r. getSubnet6 hint c = Inr r \<and>
      (if length (cfg_subnets6 c) = 1 \<and> is_link_local hint = Inr True then r = Some 0
       else first_where (\<lambda>i. Subnet_inRange (cfg_subnets6 c ! i) hint = Inr True) 0 (length (cfg_subnets6 c)) r)))"
proof -
  have wf: "wf_cfg c" using assms by (rule configured_wf)
  then have "\<exists>r. first_inRange hint 0 (cfg_subnets4 c) = Inr r \<and>
      first_where (\<lambda>i. Subnet_inRange (cfg_subnets4 c ! i) hint = Inr True) 0 (length (cfg_subnets4 c)) r"
    "\<exists>r. first_inRange hint 0 (cfg_subnets6 c) = Inr r \<and>
      first_where (\<lambda>i. Subnet_inRange (cfg_subnets6 c ! i) hint = Inr True) 0 (length (cfg_subnets6 c)) r"
    using first_inRange_spec [of UV4 "cfg_subnets4 c" hint 0] first_inRange_spec [of UV6 "cfg_subnets6 c" hint 0]
    by (simp_all add: wf_cfg_def)
  moreover have "\<exists>b. is_link_local hint = Inr b" if "isV6 hint" using that by (rule is_link_local_total)
  ultimately show ?thesis using wf by (fastforce simp: getSubnet4_def getSubnet6_def)
qed

definition example_cfg :: CfgMgr where
  "example_cfg = addSubnet4 example_subnet4 mk_CfgMgr"

lemma configured_example: "configured example_cfg"
  unfolding example_cfg_def by (rule configured.subnet4 [OF configured.empty built_example_subnet4])

theorem subnet_selection_witness:
  "configured example_cfg \<and> getSubnet4 (IPv4 0x0a000001) example_cfg = Inr (Some 0)"
proof -
  have one: "length (cfg_subnets4 example_cfg) = 1" by (simp add: example_cfg_def addSubnet4_def mk_CfgMgr_def)
  show ?thesis
    using subnet_selection [OF configured_example, of "IPv4 0x0a000001"] configured_example unfolding one by auto
qed

section \<open>Option definitions\<close>

lemma cfg_getOptionDef_Some:
  assumes "wf_defs (cfg_option_def_spaces c)"
  shows "cfg_getOptionDef space code c = Some d \<longleftrightarrow> d \<in> set (cfg_getOptionDefs space c) \<and> def_code d = code"
proof
  assume "cfg_getOptionDef space code c = Some d"
  then have "d \<in> set (defs_with_code (cfg_getOptionDefs space c) code)"
    by (auto simp: cfg_getOptionDef_def Let_def split: if_splits list.splits)
  then show "d \<in> set (cfg_getOptionDefs space c) \<and> def_code d = code" by (auto simp: defs_with_code_def)
next
  assume d: "d \<in> set (cfg_getOptionDefs space c) \<and> def_code d = code"
  then obtain e where e: "cfg_getOptionDef space code c = Some e"
    using cfg_getOptionDef_None [of space code c] by fastforce
  then have "e \<in> set (defs_with_code (cfg_getOptionDefs space c) code)"
    by (auto simp: cfg_getOptionDef_def Let_def split: if_splits list.splits)
  then have "e \<in> set (cfg_getOptionDefs space c)" "def_code e = code" by (auto simp: defs_with_code_def)
  moreover have "distinct (map def_code (cfg_getOptionDefs space c))"
    using assms by (simp add: wf_defs_def cfg_getOptionDefs_def)
  ultimately have "e = d" using d by (metis distinct_map inj_onD)
  with e show "cfg_getOptionDef space code c = Some d" by simp
qed

text \<open>The registry of option definitions: a definition that was accepted is the one found under its
  space and code, every other lookup is unaffected, a second definition for the same space and code is
  refused as a duplicate, and no reachable configuration redefines a standard option.\<close>

theorem option_definitions:
  assumes "configured c" "addOptionDef (Some d) space c = Inr c'"
  shows "cfg_getOptionDef space (def_code d) c' = Some d \<and>
    (\<forall>space' code. (space', code) \<noteq> (space, def_code d) \<longrightarrow>
       cfg_getOptionDef space' code c' = cfg_getOptionDef space' code c) \<and>
    (\<forall>d'. def_code d' = def_code d \<longrightarrow> addOptionDef (Some d') space c' = Inl DuplicateOptionDefinition) \<and>
    (\<forall>code. isStandardOption UV4 code \<longrightarrow> cfg_getOptionDef ''dhcp4'' code c' = None) \<and>
    (\<forall>code. isStandardOption UV6 code \<longrightarrow> cfg_getOptionDef ''dhcp6'' code c' = None)"
proof -
  have c': "configured c'" using assms by (rule configured.def)
  then have wf: "wf_defs (cfg_option_def_spaces c)" "wf_defs (cfg_option_def_spaces c')"
    using assms(1) configured_defs by blast+
  from assms(2) obtain "space \<noteq> []"
    and eq: "c' = c\<lparr>cfg_option_def_spaces := addItem d space (cfg_option_def_spaces c)\<rparr>"
    by (rule addOptionDef_Inr) simp
  have defs: "cfg_getOptionDefs s c' = cfg_getOptionDefs s c @ (if s = space then [d] else [])" for s
    by (simp add: eq cfg_getOptionDefs_def getItems_addItem)
  have new: "cfg_getOptionDef space (def_code d) c' = Some d"
    by (simp add: cfg_getOptionDef_Some [OF wf(2)] defs)
  have other: "cfg_getOptionDef s code c' = cfg_getOptionDef s code c" if "(s, code) \<noteq> (space, def_code d)" for s code
    using that by (intro option_eqI_iff) (auto simp: cfg_getOptionDef_Some [OF wf(1)] cfg_getOptionDef_Some [OF wf(2)] defs)
  have std: "cfg_getOptionDef ''dhcp4'' code c' = None" if "isStandardOption UV4 code" for code
    using that wf(2) by (auto simp: cfg_getOptionDef_None wf_defs_def cfg_getOptionDefs_def)
  have std6: "cfg_getOptionDef ''dhcp6'' code c' = None" if "isStandardOption UV6 code" for code
    using that wf(2) by (auto simp: cfg_getOptionDef_None wf_defs_def cfg_getOptionDefs_def)
  show ?thesis using new other std std6 \<open>space \<noteq> []\<close> by (auto simp: addOptionDef_def)
qed

definition example_def :: OptionDefinition where
  "example_def = mk_OptionDefinition ''container'' 106 OPT_BINARY_TYPE False"

theorem option_definitions_witness:
  "\<exists>c. addOptionDef (Some example_def) ''dhcp4'' mk_CfgMgr = Inr c \<and> cfg_getOptionDef ''dhcp4'' 106 c = Some example_def"
proof -
  have code: "def_code example_def = 106" by (simp add: example_def_def mk_OptionDefinition_def)
  have "\<exists>c. addOptionDef (Some example_def) ''dhcp4'' mk_CfgMgr = Inr c"
    by (simp add: addOptionDef_def code isStandardOption_def cfg_getOptionDef_def cfg_getOptionDefs_def getItems_def mk_CfgMgr_def)
  then obtain c where c: "addOptionDef (Some example_def) ''dhcp4'' mk_CfgMgr = Inr c" by blast
  then show ?thesis using option_definitions [OF configured.empty c] code by auto
qed

end
