(* ===== verification/Effects.thy ===== *)
theory Effects
  imports Prelude
begin

text \<open>
  Computations that change a state and may throw. What was written before an exception stays written,
  as in the code: an outcome is a result and the state at that point.
\<close>

type_synonym ('s, 'a) eff = "'s \<Rightarrow> 'a result \<times> 's"

definition retS :: "'a \<Rightarrow> ('s, 'a) eff" where
  "retS x s = (Inr x, s)"

definition throwS :: "exn \<Rightarrow> ('s, 'a) eff" where
  "throwS e s = (Inl e, s)"

definition bindS :: "('s, 'a) eff \<Rightarrow> ('a \<Rightarrow> ('s, 'b) eff) \<Rightarrow> ('s, 'b) eff" where
  "bindS m f s = (case m s of (Inl e, s') \<Rightarrow> (Inl e, s') | (Inr x, s') \<Rightarrow> f x s')"

text \<open>\<open>askS\<close> runs a computation that only reads the state, \<open>modS\<close> one that only writes it.\<close>

definition askS :: "('s \<Rightarrow> 'a result) \<Rightarrow> ('s, 'a) eff" where
  "askS f s = (f s, s)"

definition modS :: "('s \<Rightarrow> 's) \<Rightarrow> ('s, unit) eff" where
  "modS f s = (Inr (), f s)"

definition catchS :: "('s, 'a) eff \<Rightarrow> (exn \<Rightarrow> ('s, 'a) eff) \<Rightarrow> ('s, 'a) eff" where
  "catchS m h s = (case m s of (Inl e, s') \<Rightarrow> if is_isc_exception e then h e s' else (Inl e, s') | r \<Rightarrow> r)"

text \<open>Run a computation on a part of the state.\<close>

definition zoomS :: "('s \<Rightarrow> 't) \<Rightarrow> ('t \<Rightarrow> 's \<Rightarrow> 's) \<Rightarrow> ('t, 'a) eff \<Rightarrow> ('s, 'a) eff" where
  "zoomS get put m s = (case m (get s) of (r, t) \<Rightarrow> (r, put t s))"

abbreviation liftS :: "'a result \<Rightarrow> ('s, 'a) eff" where
  "liftS r \<equiv> askS (\<lambda>_. r)"

abbreviation thenS :: "('s, 'a) eff \<Rightarrow> ('s, 'b) eff \<Rightarrow> ('s, 'b) eff" where
  "thenS m n \<equiv> bindS m (\<lambda>_. n)"

named_theorems eff_simps \<open>evaluation of computations\<close>

lemma eff_apply [eff_simps]:
  "retS x s = (Inr x, s)" "throwS e s = (Inl e, s)" "askS f s = (f s, s)" "modS g s = (Inr (), g s)"
  by (simp_all add: retS_def throwS_def askS_def modS_def)

lemma bindS_apply:
  "m s = (Inr x, s') \<Longrightarrow> bindS m f s = f x s'"
  "m s = (Inl e, s') \<Longrightarrow> bindS m f s = (Inl e, s')"
  by (simp_all add: bindS_def)

lemma bindS_simps [eff_simps]:
  "bindS (retS x) f s = f x s" "bindS (throwS e) f s = (Inl e, s)" "bindS (modS g) f' s = f' () (g s)"
  by (simp_all add: bindS_def eff_apply)

lemma bindS_askS [eff_simps]:
  "bindS (askS g) f s = (case g s of Inl e \<Rightarrow> (Inl e, s) | Inr x \<Rightarrow> f x s)"
  by (simp add: bindS_def eff_apply split: sum.splits)

lemma bindS_assoc [eff_simps]: "bindS (bindS m f) g s = bindS m (\<lambda>x. bindS (f x) g) s"
  by (simp add: bindS_def split: prod.splits sum.splits)

lemma bindS_Inr:
  "bindS m f s = (Inr y, t) \<longleftrightarrow> (\<exists>x s'. m s = (Inr x, s') \<and> f x s' = (Inr y, t))"
  by (auto simp: bindS_def split: prod.splits sum.splits)

lemma bindS_cases:
  assumes "bindS m f s = (r, t)"
  obtains (throws) e where "m s = (Inl e, t)" "r = Inl e"
  | (returns) x s' where "m s = (Inr x, s')" "f x s' = (r, t)"
  using assms by (auto simp: bindS_def split: prod.splits sum.splits)

lemma bindE_InrE:
  assumes "bindE m f = Inr y"
  obtains x where "m = Inr x" "f x = Inr y"
  using assms by (cases m) auto

lemma bindS_case_prod [eff_simps]:
  "bindS (case p of (a, b) \<Rightarrow> f a b) g s = (case p of (a, b) \<Rightarrow> bindS (f a b) g s)"
  by (cases p) simp

lemma catchS_cases:
  assumes "catchS m h s = (r, t)"
  obtains (caught) e s' where "m s = (Inl e, s')" "is_isc_exception e" "h e s' = (r, t)"
  | (through) "m s = (r, t)" "\<forall>e. r = Inl e \<longrightarrow> \<not> is_isc_exception e"
  using assms by (auto simp: catchS_def split: prod.splits sum.splits if_splits)

lemma zoomS_apply: "m (get s) = (r, t) \<Longrightarrow> zoomS get put m s = (r, put t s)"
  by (simp add: zoomS_def)

text \<open>An invariant that every part of a computation keeps is kept by the whole.\<close>

definition keeps :: "('s \<Rightarrow> bool) \<Rightarrow> ('s, 'a) eff \<Rightarrow> bool" where
  "keeps P m \<longleftrightarrow> (\<forall>s r t. P s \<and> m s = (r, t) \<longrightarrow> P t)"

named_theorems keeps_intros \<open>rules for \<^const>\<open>keeps\<close>\<close>

lemma keepsI: "(\<And>s r t. P s \<Longrightarrow> m s = (r, t) \<Longrightarrow> P t) \<Longrightarrow> keeps P m"
  unfolding keeps_def by blast

lemma keepsD: "keeps P m \<Longrightarrow> P s \<Longrightarrow> m s = (r, t) \<Longrightarrow> P t"
  by (auto simp: keeps_def)

lemma keeps_pure [keeps_intros]: "keeps P (retS x)" "keeps P (throwS e)" "keeps P (askS f)"
  by (auto simp: keeps_def eff_apply)

lemma keeps_modS [keeps_intros]: "(\<And>s. P s \<Longrightarrow> P (g s)) \<Longrightarrow> keeps P (modS g)"
  by (auto simp: keeps_def eff_apply)

lemma keeps_bindS [keeps_intros]: "keeps P m \<Longrightarrow> (\<And>x. keeps P (f x)) \<Longrightarrow> keeps P (bindS m f)"
  by (rule keepsI, erule bindS_cases) (blast dest: keepsD)+

lemma keeps_catchS [keeps_intros]: "keeps P m \<Longrightarrow> (\<And>e. keeps P (h e)) \<Longrightarrow> keeps P (catchS m h)"
  by (rule keepsI, erule catchS_cases) (blast dest: keepsD)+

lemma keeps_if [keeps_intros]: "(b \<Longrightarrow> keeps P m) \<Longrightarrow> (\<not> b \<Longrightarrow> keeps P n) \<Longrightarrow> keeps P (if b then m else n)"
  by simp

lemma keeps_option [keeps_intros]:
  "(x = None \<Longrightarrow> keeps P m) \<Longrightarrow> (\<And>y. x = Some y \<Longrightarrow> keeps P (f y)) \<Longrightarrow>
     keeps P (case x of None \<Rightarrow> m | Some y \<Rightarrow> f y)"
  by (cases x) auto

lemma keeps_zoom:
  assumes "keeps Q m" "\<And>s. P s \<Longrightarrow> Q (get s)" "\<And>s d. P s \<Longrightarrow> Q d \<Longrightarrow> P (put d s)"
  shows "keeps P (zoomS get put m)"
  unfolding keeps_def zoomS_def using keepsD [OF assms(1)] assms(2,3) by (auto split: prod.splits) metis

section \<open>Loops\<close>

fun mapS :: "('a \<Rightarrow> ('s, 'b) eff) \<Rightarrow> 'a list \<Rightarrow> ('s, 'b list) eff" where
  "mapS f [] = retS []"
| "mapS f (x # xs) = bindS (f x) (\<lambda>y. bindS (mapS f xs) (\<lambda>ys. retS (y # ys)))"

fun foldS :: "('a \<Rightarrow> 'b \<Rightarrow> ('s, 'b) eff) \<Rightarrow> 'a list \<Rightarrow> 'b \<Rightarrow> ('s, 'b) eff" where
  "foldS f [] acc = retS acc"
| "foldS f (x # xs) acc = bindS (f x acc) (foldS f xs)"

lemma keeps_mapS [keeps_intros]: "(\<And>x. x \<in> set xs \<Longrightarrow> keeps P (f x)) \<Longrightarrow> keeps P (mapS f xs)"
  by (induction xs) (auto intro!: keeps_intros)

lemma keeps_foldS [keeps_intros]: "(\<And>x a. x \<in> set xs \<Longrightarrow> keeps P (f x a)) \<Longrightarrow> keeps P (foldS f xs acc)"
  by (induction xs arbitrary: acc) (auto intro!: keeps_intros)

lemma keeps_case_prod [keeps_intros]: "(\<And>a b. p = (a, b) \<Longrightarrow> keeps P (f a b)) \<Longrightarrow> keeps P (case p of (a, b) \<Rightarrow> f a b)"
  by (cases p) simp

end
