(* ===== verification/Ids.thy ===== *)
theory Ids
  imports Prelude
begin

unbundle bit_operations_syntax

text \<open>
  Client identifiers: DUIDs and client ids (\<^verbatim>\<open>src/lib/dhcp/duid.{h,cc}\<close>) and hardware addresses
  (\<^verbatim>\<open>src/lib/dhcp/hwaddr.{h,cc}\<close>).
\<close>

definition MAX_DUID_LEN :: nat where "MAX_DUID_LEN = 128"
definition MIN_CLIENT_ID_LEN :: nat where "MIN_CLIENT_ID_LEN = 2"
definition MAX_HWADDR_LEN :: nat where "MAX_HWADDR_LEN = 20"
definition HTYPE_ETHER :: u8 where "HTYPE_ETHER = 1"

datatype DUID = DUID (duid_bytes: bytes)
datatype ClientId = ClientId (clientid_bytes: bytes)

record HWAddr =
  hwaddr_bytes :: bytes
  htype :: u8

datatype DUIDType = DUID_UNKNOWN | DUID_LLT | DUID_EN | DUID_LL | DUID_UUID

definition mk_DUID :: "bytes \<Rightarrow> DUID result" where
  "mk_DUID duid =
     (if length duid > MAX_DUID_LEN then Inl OutOfRange
      else if duid = [] then Inl OutOfRange
      else Inr (DUID duid))"

definition DUID_getType :: "DUID \<Rightarrow> DUIDType" where
  "DUID_getType d =
     (if length (duid_bytes d) < 2 then DUID_UNKNOWN
      else
        let type = (push_bit 8 (ucast (duid_bytes d ! 0)) + ucast (duid_bytes d ! 1) :: u16)
        in if type = 1 then DUID_LLT else if type = 2 then DUID_EN
           else if type = 3 then DUID_LL else if type = 4 then DUID_UUID
           else DUID_UNKNOWN)"

definition mk_ClientId :: "bytes \<Rightarrow> ClientId result" where
  "mk_ClientId clientid =
     bindE (mk_DUID clientid) (\<lambda>d.
       if length clientid < MIN_CLIENT_ID_LEN then Inl OutOfRange else Inr (ClientId (duid_bytes d)))"

definition HWAddr_default :: HWAddr where
  "HWAddr_default = \<lparr>hwaddr_bytes = [], htype = HTYPE_ETHER\<rparr>"

definition mk_HWAddr :: "bytes \<Rightarrow> u8 \<Rightarrow> HWAddr result" where
  "mk_HWAddr hwaddr hw_type =
     (if length hwaddr > MAX_HWADDR_LEN then Inl InvalidParameter
      else Inr \<lparr>hwaddr_bytes = hwaddr, htype = hw_type\<rparr>)"

text \<open>\<^verbatim>\<open>toText\<close> prints lower-case hexadecimal pairs separated by colons.\<close>

definition hex_digit :: "nat \<Rightarrow> char" where
  "hex_digit n = (if n < 10 then char_of (48 + n) else char_of (87 + n))"

definition hex_byte :: "u8 \<Rightarrow> string" where
  "hex_byte b = [hex_digit (unat b div 16), hex_digit (unat b mod 16)]"

fun hex_text :: "bytes \<Rightarrow> string" where
  "hex_text [] = []"
| "hex_text [b] = hex_byte b"
| "hex_text (b # bs) = hex_byte b @ '':'' @ hex_text bs"

definition DUID_toText :: "DUID \<Rightarrow> string" where
  "DUID_toText d = hex_text (duid_bytes d)"

lemma mk_DUID_len: "mk_DUID b = Inr d \<Longrightarrow> duid_bytes d = b \<and> 0 < length b \<and> length b \<le> MAX_DUID_LEN"
  by (auto simp: mk_DUID_def split: if_splits)

lemma mk_ClientId_len:
  "mk_ClientId b = Inr c \<Longrightarrow> clientid_bytes c = b \<and> 2 \<le> length b \<and> length b \<le> MAX_DUID_LEN"
  by (auto simp: mk_ClientId_def result_simps MIN_CLIENT_ID_LEN_def dest!: mk_DUID_len split: if_splits)

lemma hex_digit_inj: "a < 16 \<Longrightarrow> b < 16 \<Longrightarrow> hex_digit a = hex_digit b \<longleftrightarrow> a = b"
  by (auto simp: hex_digit_def char_of_eq_iff of_char_of take_bit_eq_mod split: if_splits)

end
