(* ===== verification/Lease_Mgr.thy ===== *)
theory Lease_Mgr
  imports Effects Subnets Ids
begin

text \<open>
  Leases and the interface of a lease database: \<^verbatim>\<open>src/lib/dhcpsrv/lease_mgr.{h,cc}\<close>.
  \<^verbatim>\<open>time(NULL)\<close> is the argument \<open>now\<close>, constant while one request is processed.

  A \<open>LeaseMgr\<close> is the table of the virtual functions of the class, over the state \<open>'s\<close> of the
  backend. \<^verbatim>\<open>getLease*\<close> hand out shared pointers and the allocation engine assigns to the
  fields of the lease it got: whether that reaches the database depends on the backend, so each
  table also says what such an assignment does (\<open>assign4\<close>, \<open>assign6\<close>): the in-memory backend hands
  out its own objects.
\<close>

section \<open>Leases\<close>

record Lease =
  l_addr :: ioaddress
  l_t1 :: u32
  l_t2 :: u32
  l_valid_lft :: u32
  l_cltt :: int
  l_subnet_id :: u32
  l_fixed :: bool
  l_hostname :: string
  l_fqdn_fwd :: bool
  l_fqdn_rev :: bool
  l_comments :: string

record Lease4 = Lease +
  l4_ext :: u32
  l4_hwaddr :: bytes
  l4_client_id :: "ClientId option"

datatype LeaseType = LEASE_IA_NA | LEASE_IA_TA | LEASE_IA_PD

record Lease6 = Lease +
  l6_type :: LeaseType
  l6_prefixlen :: u8
  l6_iaid :: u32
  l6_duid :: "DUID option"
  l6_preferred_lft :: u32

definition mk_Lease :: "ioaddress \<Rightarrow> u32 \<Rightarrow> u32 \<Rightarrow> u32 \<Rightarrow> u32 \<Rightarrow> int \<Rightarrow> Lease" where
  "mk_Lease addr t1 t2 valid_lft subnet_id cltt =
     \<lparr>l_addr = addr, l_t1 = t1, l_t2 = t2, l_valid_lft = valid_lft, l_cltt = cltt, l_subnet_id = subnet_id,
      l_fixed = False, l_hostname = [], l_fqdn_fwd = False, l_fqdn_rev = False, l_comments = []\<rparr>"

definition mk_Lease4 ::
  "ioaddress \<Rightarrow> bytes \<Rightarrow> bytes \<Rightarrow> u32 \<Rightarrow> u32 \<Rightarrow> u32 \<Rightarrow> int \<Rightarrow> u32 \<Rightarrow> Lease4 result" where
  "mk_Lease4 addr hwaddr clientid valid_lft t1 t2 cltt subnet_id =
     bindE (if clientid \<noteq> [] then bindE (mk_ClientId clientid) (\<lambda>c. Inr (Some c)) else Inr None) (\<lambda>cid.
       Inr (Lease.extend (mk_Lease addr t1 t2 valid_lft subnet_id cltt) (Lease4.fields 0 hwaddr cid)))"

definition mk_Lease6 ::
  "LeaseType \<Rightarrow> ioaddress \<Rightarrow> DUID option \<Rightarrow> u32 \<Rightarrow> u32 \<Rightarrow> u32 \<Rightarrow> u32 \<Rightarrow> u32 \<Rightarrow> u32 \<Rightarrow> u8 \<Rightarrow> int \<Rightarrow> Lease6 result" where
  "mk_Lease6 type addr duid iaid preferred valid t1 t2 subnet_id prefixlen now =
     (if duid = None then Inl InvalidOperation
      else Inr (Lease.extend (mk_Lease addr t1 t2 valid subnet_id now)
             (Lease6.fields type prefixlen iaid duid preferred)))"

text \<open>\<^verbatim>\<open>cltt_ + valid_lft_\<close> is computed in 64 bits, where it does not overflow.\<close>

definition expired :: "int \<Rightarrow> 'a Lease_scheme \<Rightarrow> bool" where
  "expired now l \<longleftrightarrow> l_cltt l + uint (l_valid_lft l) < now"

definition Lease4_eq :: "Lease4 \<Rightarrow> Lease4 \<Rightarrow> bool" where
  "Lease4_eq a b =
     (if (l4_client_id a \<noteq> None) \<noteq> (l4_client_id b \<noteq> None) then False
      else if l4_client_id a \<noteq> None \<and> l4_client_id b \<noteq> None \<and> l4_client_id a \<noteq> l4_client_id b then False
      else l_addr a = l_addr b \<and> l4_ext a = l4_ext b \<and> l4_hwaddr a = l4_hwaddr b \<and> l_t1 a = l_t1 b \<and>
        l_t2 a = l_t2 b \<and> l_valid_lft a = l_valid_lft b \<and> l_cltt a = l_cltt b \<and>
        l_subnet_id a = l_subnet_id b \<and> l_fixed a = l_fixed b \<and> l_hostname a = l_hostname b \<and>
        l_fqdn_fwd a = l_fqdn_fwd b \<and> l_fqdn_rev a = l_fqdn_rev b \<and> l_comments a = l_comments b)"

definition Lease6_eq :: "Lease6 \<Rightarrow> Lease6 \<Rightarrow> bool result" where
  "Lease6_eq a b =
     (if l_addr a = l_addr b \<and> l6_type a = l6_type b \<and> l6_prefixlen a = l6_prefixlen b \<and> l6_iaid a = l6_iaid b then
        (case (l6_duid a, l6_duid b) of
           (Some d, Some e) \<Rightarrow>
             Inr (d = e \<and> l6_preferred_lft a = l6_preferred_lft b \<and> l_valid_lft a = l_valid_lft b \<and>
               l_t1 a = l_t1 b \<and> l_t2 a = l_t2 b \<and> l_cltt a = l_cltt b \<and> l_subnet_id a = l_subnet_id b \<and>
               l_fixed a = l_fixed b \<and> l_hostname a = l_hostname b \<and> l_fqdn_fwd a = l_fqdn_fwd b \<and>
               l_fqdn_rev a = l_fqdn_rev b \<and> l_comments a = l_comments b)
         | _ \<Rightarrow> Inl NullPointer)
      else Inr False)"

section \<open>The interface\<close>

record 's LeaseMgr =
  addLease4 :: "Lease4 \<Rightarrow> ('s, bool) eff"
  addLease6 :: "Lease6 \<Rightarrow> ('s, bool) eff"
  getLease4 :: "ioaddress \<Rightarrow> 's \<Rightarrow> Lease4 option result"
  getLease4_hwaddr :: "HWAddr \<Rightarrow> 's \<Rightarrow> Lease4 list result"
  getLease4_hwaddr_subnet :: "HWAddr \<Rightarrow> u32 \<Rightarrow> 's \<Rightarrow> Lease4 option result"
  getLease4_clientid :: "ClientId \<Rightarrow> 's \<Rightarrow> Lease4 list result"
  getLease4_clientid_subnet :: "ClientId \<Rightarrow> u32 \<Rightarrow> 's \<Rightarrow> Lease4 option result"
  getLease6 :: "ioaddress \<Rightarrow> 's \<Rightarrow> Lease6 option result"
  getLease6_duid_iaid :: "DUID \<Rightarrow> u32 \<Rightarrow> 's \<Rightarrow> Lease6 list result"
  getLease6_duid_iaid_subnet :: "DUID \<Rightarrow> u32 \<Rightarrow> u32 \<Rightarrow> 's \<Rightarrow> Lease6 option result"
  updateLease4 :: "Lease4 \<Rightarrow> ('s, unit) eff"
  updateLease6 :: "Lease6 \<Rightarrow> ('s, unit) eff"
  deleteLease :: "ioaddress \<Rightarrow> ('s, bool) eff"
  assign4 :: "Lease4 \<Rightarrow> 's \<Rightarrow> 's"
  assign6 :: "Lease6 \<Rightarrow> 's \<Rightarrow> 's"

definition getParameter :: "string \<Rightarrow> (string \<rightharpoonup> string) \<Rightarrow> string result" where
  "getParameter name parameters = (case parameters name of None \<Rightarrow> Inl BadValue | Some v \<Rightarrow> Inr v)"


section \<open>The contract of a lease database\<close>

text \<open>
  What the clients of one kind of lease (IPv4 or IPv6) rely on. \<open>leases s\<close> is the content of the
  database, at most one lease per address; \<open>holds k l\<close> says that the lease \<open>l\<close> is found under the
  client key \<open>k\<close>. The laws bind a backend only when it returns: lookups and updates may throw.

  \<^item> \<open>lookup_None\<close>: a client key that is not found is held by no lease.
  \<^item> \<open>add_True\<close>: a lease that is reported as added is in the database, provided its address is free
    and nobody holds one of its keys. Without the proviso the in-memory backend does not keep it.
  \<^item> \<open>update_lease\<close>: assigning the fields of a lease that was looked up and then updating it stores it.
  \<^item> \<open>assign_lease\<close>: the assignment alone may, or may not, be seen by the database.
\<close>

locale lease_store =
  fixes get :: "ioaddress \<Rightarrow> 's \<Rightarrow> 'a Lease_scheme option result"
    and lookup :: "'k \<Rightarrow> 's \<Rightarrow> 'a Lease_scheme option result"
    and add :: "'a Lease_scheme \<Rightarrow> ('s, bool) eff"
    and update :: "'a Lease_scheme \<Rightarrow> ('s, unit) eff"
    and assign :: "'a Lease_scheme \<Rightarrow> 's \<Rightarrow> 's"
    and holds :: "'k \<Rightarrow> 'a Lease_scheme \<Rightarrow> bool"
    and inv :: "'s \<Rightarrow> bool"
    and leases :: "'s \<Rightarrow> ioaddress \<rightharpoonup> 'a Lease_scheme"
  assumes leases_addr: "inv s \<Longrightarrow> leases s a = Some l \<Longrightarrow> l_addr l = a"
    and get_leases: "inv s \<Longrightarrow> get a s = Inr x \<Longrightarrow> x = leases s a"
    and lookup_Some: "inv s \<Longrightarrow> lookup k s = Inr (Some l) \<Longrightarrow> leases s (l_addr l) = Some l \<and> holds k l"
    and lookup_None: "inv s \<Longrightarrow> lookup k s = Inr None \<Longrightarrow> leases s a = Some l \<Longrightarrow> \<not> holds k l"
    and add_inv: "inv s \<Longrightarrow> add l s = (r, t) \<Longrightarrow> inv t"
    and add_True: "inv s \<Longrightarrow> add l s = (Inr True, t) \<Longrightarrow> leases s (l_addr l) = None \<Longrightarrow>
      (\<And>k a l'. leases s a = Some l' \<Longrightarrow> holds k l \<Longrightarrow> \<not> holds k l') \<Longrightarrow>
      leases t = (leases s)(l_addr l \<mapsto> l)"
    and add_used: "inv s \<Longrightarrow> add l s = (Inr True, t) \<Longrightarrow> leases s (l_addr l) = None"
    and add_False: "inv s \<Longrightarrow> add l s = (r, t) \<Longrightarrow> r \<noteq> Inr True \<Longrightarrow> leases t = leases s"
    and assign_inv: "inv s \<Longrightarrow> inv (assign l s)"
    and assign_lease: "inv s \<Longrightarrow> leases s (l_addr l) \<noteq> None \<Longrightarrow>
      leases (assign l s) = leases s \<or> leases (assign l s) = (leases s)(l_addr l \<mapsto> l)"
    and update_inv: "inv s \<Longrightarrow> update l s = (r', t) \<Longrightarrow> inv t"
    and update_lease: "inv s \<Longrightarrow> leases s (l_addr l) \<noteq> None \<Longrightarrow> update l (assign l s) = (Inr (), t) \<Longrightarrow>
      leases t = (leases s)(l_addr l \<mapsto> l)"
begin

text \<open>The two ways the engine touches the database keep the leases of all other addresses.\<close>

lemma write_frame:
  assumes "inv s" "leases s (l_addr l) \<noteq> None" "update l (assign l s) = (Inr (), t)" "b \<noteq> l_addr l"
  shows "leases t b = leases s b"
  using update_lease [OF assms(1,2,3)] assms(4) by simp

lemma lookup_None_holds:
  assumes "inv s" "lookup k s = Inr None"
  shows "\<forall>a l. leases s a = Some l \<longrightarrow> \<not> holds k l"
  using lookup_None [OF assms] by blast

end

section \<open>The IPv4 and IPv6 halves of a backend\<close>

datatype client4 = ByHwaddr HWAddr u32 | ByClientId ClientId u32

fun lookup4 :: "'s LeaseMgr \<Rightarrow> client4 \<Rightarrow> 's \<Rightarrow> Lease4 option result" where
  "lookup4 mgr (ByHwaddr hwaddr subnet_id) s = getLease4_hwaddr_subnet mgr hwaddr subnet_id s"
| "lookup4 mgr (ByClientId client_id subnet_id) s = getLease4_clientid_subnet mgr client_id subnet_id s"

fun holds4 :: "client4 \<Rightarrow> Lease4 \<Rightarrow> bool" where
  "holds4 (ByHwaddr h subnet_id) l \<longleftrightarrow> l4_hwaddr l = hwaddr_bytes h \<and> l_subnet_id l = subnet_id"
| "holds4 (ByClientId c subnet_id) l \<longleftrightarrow> l4_client_id l = Some c \<and> l_subnet_id l = subnet_id"

type_synonym client6 = "DUID \<times> u32 \<times> u32"

fun lookup6 :: "'s LeaseMgr \<Rightarrow> client6 \<Rightarrow> 's \<Rightarrow> Lease6 option result" where
  "lookup6 mgr (duid, iaid, subnet_id) s = getLease6_duid_iaid_subnet mgr duid iaid subnet_id s"

fun holds6 :: "client6 \<Rightarrow> Lease6 \<Rightarrow> bool" where
  "holds6 (duid, iaid, subnet_id) l \<longleftrightarrow>
     l6_duid l = Some duid \<and> l6_iaid l = iaid \<and> l_subnet_id l = subnet_id"

end
