(* ===== verification/Memfile.thy ===== *)
theory Memfile
  imports Lease_Mgr
begin

text \<open>
  The in-memory lease database, \<^verbatim>\<open>src/lib/dhcpsrv/memfile_lease_mgr.{h,cc}\<close>.

  The storages are \<^verbatim>\<open>boost::multi_index_container\<close>s of lease pointers with ordered unique
  indexes. An index is the sequence of its elements; a search or an insertion compares keys along
  a path of its tree, so it is meaningful only while the sequence is strictly increasing in the keys
  the leases have now. Fields of a stored lease are assigned through the pointers that
  \<^verbatim>\<open>getLease*\<close> return, behind the back of the indexes: a search in an index that is no longer
  sorted is \<open>AssertionFailed\<close> (a precondition of the container is violated: the code goes on and may
  find another lease or none, which the model does not follow), and a comparison with a
  lease whose key goes through a null pointer is \<open>NullPointer\<close>. Composite keys are extracted only when
  they are compared, so an empty index accepts any lease.
\<close>

section \<open>An ordered unique index\<close>

definition index_check :: "('l \<Rightarrow> 'k::linorder option) \<Rightarrow> 'l list \<Rightarrow> unit result" where
  "index_check key xs =
     (if \<exists>x\<in>set xs. key x = None then Inl NullPointer
      else if \<not> sorted_wrt (<) (map (\<lambda>x. the (key x)) xs) then Inl AssertionFailed
      else Inr ())"

definition index_find :: "('l \<Rightarrow> 'k::linorder option) \<Rightarrow> 'k \<Rightarrow> 'l list \<Rightarrow> 'l option result" where
  "index_find key k xs = bindE (index_check key xs) (\<lambda>_. Inr (find (\<lambda>x. key x = Some k) xs))"

text \<open>\<open>None\<close>: an element with the key is there already.\<close>

definition index_insert :: "('l \<Rightarrow> 'k::linorder option) \<Rightarrow> 'l \<Rightarrow> 'l list \<Rightarrow> 'l list option result" where
  "index_insert key x xs =
     (if xs = [] then Inr (Some [x])
      else case key x of
        None \<Rightarrow> Inl NullPointer
      | Some k \<Rightarrow> bindE (index_check key xs) (\<lambda>_.
          if \<exists>y\<in>set xs. key y = Some k then Inr None
          else Inr (Some (takeWhile (\<lambda>y. the (key y) < k) xs @ x # dropWhile (\<lambda>y. the (key y) < k) xs))))"

definition index_assign :: "'a Lease_scheme \<Rightarrow> 'a Lease_scheme list \<Rightarrow> 'a Lease_scheme list" where
  "index_assign l xs = map (\<lambda>x. if l_addr x = l_addr l then l else x) xs"

definition index_erase :: "ioaddress \<Rightarrow> 'a Lease_scheme list \<Rightarrow> 'a Lease_scheme list" where
  "index_erase a xs = filter (\<lambda>x. l_addr x \<noteq> a) xs"

section \<open>The storages\<close>

record Lease4Storage =
  s4_addr :: "Lease4 list"
  s4_hwaddr :: "Lease4 list"
  s4_clientid :: "Lease4 list"

record Lease6Storage =
  s6_addr :: "Lease6 list"
  s6_duid :: "Lease6 list"

record Memfile_LeaseMgr =
  storage4 :: Lease4Storage
  storage6 :: Lease6Storage

definition key_addr :: "'a Lease_scheme \<Rightarrow> ioaddress option" where
  "key_addr l = Some (l_addr l)"

definition key4_hwaddr :: "Lease4 \<Rightarrow> (bytes \<times> u32) option" where
  "key4_hwaddr l = Some (l4_hwaddr l, l_subnet_id l)"

definition key4_clientid :: "Lease4 \<Rightarrow> (bytes \<times> u32) option" where
  "key4_clientid l = map_option (\<lambda>c. (clientid_bytes c, l_subnet_id l)) (l4_client_id l)"

definition key6_duid :: "Lease6 \<Rightarrow> (bytes \<times> u32 \<times> u32) option" where
  "key6_duid l = map_option (\<lambda>d. (duid_bytes d, l6_iaid l, l_subnet_id l)) (l6_duid l)"

definition mk_Memfile :: Memfile_LeaseMgr where
  "mk_Memfile = \<lparr>storage4 = \<lparr>s4_addr = [], s4_hwaddr = [], s4_clientid = []\<rparr>,
     storage6 = \<lparr>s6_addr = [], s6_duid = []\<rparr>\<rparr>"

text \<open>\<^verbatim>\<open>insert\<close> looks for the place in every index before it links the element anywhere.\<close>

definition storage4_insert :: "Lease4 \<Rightarrow> Lease4Storage \<Rightarrow> Lease4Storage result" where
  "storage4_insert l st =
     bindE (index_insert key_addr l (s4_addr st)) (\<lambda>i0. case i0 of None \<Rightarrow> Inr st | Some xs0 \<Rightarrow>
     bindE (index_insert key4_hwaddr l (s4_hwaddr st)) (\<lambda>i1. case i1 of None \<Rightarrow> Inr st | Some xs1 \<Rightarrow>
     bindE (index_insert key4_clientid l (s4_clientid st)) (\<lambda>i2. case i2 of None \<Rightarrow> Inr st | Some xs2 \<Rightarrow>
       Inr \<lparr>s4_addr = xs0, s4_hwaddr = xs1, s4_clientid = xs2\<rparr>)))"

definition storage6_insert :: "Lease6 \<Rightarrow> Lease6Storage \<Rightarrow> Lease6Storage result" where
  "storage6_insert l st =
     bindE (index_insert key_addr l (s6_addr st)) (\<lambda>i0. case i0 of None \<Rightarrow> Inr st | Some xs0 \<Rightarrow>
     bindE (index_insert key6_duid l (s6_duid st)) (\<lambda>i1. case i1 of None \<Rightarrow> Inr st | Some xs1 \<Rightarrow>
       Inr \<lparr>s6_addr = xs0, s6_duid = xs1\<rparr>))"

section \<open>Operations\<close>

definition mem_getLease4 :: "ioaddress \<Rightarrow> Memfile_LeaseMgr \<Rightarrow> Lease4 option result" where
  "mem_getLease4 addr s = index_find key_addr addr (s4_addr (storage4 s))"

definition mem_getLease4_hwaddr :: "HWAddr \<Rightarrow> Memfile_LeaseMgr \<Rightarrow> Lease4 list result" where
  "mem_getLease4_hwaddr hwaddr s = Inl NotImplemented"

definition mem_getLease4_hwaddr_subnet :: "HWAddr \<Rightarrow> u32 \<Rightarrow> Memfile_LeaseMgr \<Rightarrow> Lease4 option result" where
  "mem_getLease4_hwaddr_subnet hwaddr subnet_id s =
     index_find key4_hwaddr (hwaddr_bytes hwaddr, subnet_id) (s4_hwaddr (storage4 s))"

definition mem_getLease4_clientid :: "ClientId \<Rightarrow> Memfile_LeaseMgr \<Rightarrow> Lease4 list result" where
  "mem_getLease4_clientid clientid s = Inl NotImplemented"

definition mem_getLease4_clientid_subnet :: "ClientId \<Rightarrow> u32 \<Rightarrow> Memfile_LeaseMgr \<Rightarrow> Lease4 option result" where
  "mem_getLease4_clientid_subnet client_id subnet_id s =
     index_find key4_clientid (clientid_bytes client_id, subnet_id) (s4_clientid (storage4 s))"

definition mem_getLease6 :: "ioaddress \<Rightarrow> Memfile_LeaseMgr \<Rightarrow> Lease6 option result" where
  "mem_getLease6 addr s = index_find key_addr addr (s6_addr (storage6 s))"

definition mem_getLease6_duid_iaid :: "DUID \<Rightarrow> u32 \<Rightarrow> Memfile_LeaseMgr \<Rightarrow> Lease6 list result" where
  "mem_getLease6_duid_iaid duid iaid s = Inr []"

definition mem_getLease6_duid_iaid_subnet ::
  "DUID \<Rightarrow> u32 \<Rightarrow> u32 \<Rightarrow> Memfile_LeaseMgr \<Rightarrow> Lease6 option result" where
  "mem_getLease6_duid_iaid_subnet duid iaid subnet_id s =
     index_find key6_duid (duid_bytes duid, iaid, subnet_id) (s6_duid (storage6 s))"

definition mem_addLease4 :: "Lease4 \<Rightarrow> (Memfile_LeaseMgr, bool) eff" where
  "mem_addLease4 lease =
     bindS (askS (mem_getLease4 (l_addr lease))) (\<lambda>existing.
       if existing \<noteq> None then retS False
       else bindS (askS (\<lambda>s. storage4_insert lease (storage4 s))) (\<lambda>st.
         thenS (modS (\<lambda>s. s\<lparr>storage4 := st\<rparr>)) (retS True)))"

definition mem_addLease6 :: "Lease6 \<Rightarrow> (Memfile_LeaseMgr, bool) eff" where
  "mem_addLease6 lease =
     bindS (askS (mem_getLease6 (l_addr lease))) (\<lambda>existing.
       if existing \<noteq> None then retS False
       else bindS (askS (\<lambda>s. storage6_insert lease (storage6 s))) (\<lambda>st.
         thenS (modS (\<lambda>s. s\<lparr>storage6 := st\<rparr>)) (retS True)))"

definition mem_updateLease4 :: "Lease4 \<Rightarrow> (Memfile_LeaseMgr, unit) eff" where
  "mem_updateLease4 lease = retS ()"

definition mem_updateLease6 :: "Lease6 \<Rightarrow> (Memfile_LeaseMgr, unit) eff" where
  "mem_updateLease6 lease = retS ()"

definition storage4_erase :: "ioaddress \<Rightarrow> Memfile_LeaseMgr \<Rightarrow> Memfile_LeaseMgr" where
  "storage4_erase a s = s\<lparr>storage4 := \<lparr>s4_addr = index_erase a (s4_addr (storage4 s)),
     s4_hwaddr = index_erase a (s4_hwaddr (storage4 s)), s4_clientid = index_erase a (s4_clientid (storage4 s))\<rparr>\<rparr>"

definition storage6_erase :: "ioaddress \<Rightarrow> Memfile_LeaseMgr \<Rightarrow> Memfile_LeaseMgr" where
  "storage6_erase a s = s\<lparr>storage6 := \<lparr>s6_addr = index_erase a (s6_addr (storage6 s)),
     s6_duid = index_erase a (s6_duid (storage6 s))\<rparr>\<rparr>"

definition mem_deleteLease :: "ioaddress \<Rightarrow> (Memfile_LeaseMgr, bool) eff" where
  "mem_deleteLease addr =
     (if isV4 addr then
        bindS (askS (mem_getLease4 addr)) (\<lambda>l.
          if l = None then retS False else thenS (modS (storage4_erase addr)) (retS True))
      else
        bindS (askS (mem_getLease6 addr)) (\<lambda>l.
          if l = None then retS False else thenS (modS (storage6_erase addr)) (retS True)))"

definition mem_assign4 :: "Lease4 \<Rightarrow> Memfile_LeaseMgr \<Rightarrow> Memfile_LeaseMgr" where
  "mem_assign4 l s = s\<lparr>storage4 := \<lparr>s4_addr = index_assign l (s4_addr (storage4 s)),
     s4_hwaddr = index_assign l (s4_hwaddr (storage4 s)), s4_clientid = index_assign l (s4_clientid (storage4 s))\<rparr>\<rparr>"

definition mem_assign6 :: "Lease6 \<Rightarrow> Memfile_LeaseMgr \<Rightarrow> Memfile_LeaseMgr" where
  "mem_assign6 l s = s\<lparr>storage6 := \<lparr>s6_addr = index_assign l (s6_addr (storage6 s)),
     s6_duid = index_assign l (s6_duid (storage6 s))\<rparr>\<rparr>"

definition memfile :: "Memfile_LeaseMgr LeaseMgr" where
  "memfile =
     \<lparr>addLease4 = mem_addLease4, addLease6 = mem_addLease6, getLease4 = mem_getLease4,
      getLease4_hwaddr = mem_getLease4_hwaddr, getLease4_hwaddr_subnet = mem_getLease4_hwaddr_subnet,
      getLease4_clientid = mem_getLease4_clientid, getLease4_clientid_subnet = mem_getLease4_clientid_subnet,
      getLease6 = mem_getLease6, getLease6_duid_iaid = mem_getLease6_duid_iaid,
      getLease6_duid_iaid_subnet = mem_getLease6_duid_iaid_subnet, updateLease4 = mem_updateLease4,
      updateLease6 = mem_updateLease6, deleteLease = mem_deleteLease, assign4 = mem_assign4,
      assign6 = mem_assign6\<rparr>"


section \<open>Facts about one index\<close>

lemma index_find_Inr:
  "index_find key k xs = Inr r \<Longrightarrow> r = find (\<lambda>x. key x = Some k) xs"
  by (auto simp: index_find_def result_simps)

lemma index_insert_set:
  assumes "index_insert key x xs = Inr (Some ys)"
  shows "set ys = insert x (set xs)"
proof (cases "xs = []")
  case True
  then show ?thesis using assms by (auto simp: index_insert_def)
next
  case False
  then obtain k where "ys = takeWhile (\<lambda>y. the (key y) < k) xs @ x # dropWhile (\<lambda>y. the (key y) < k) xs"
    using assms by (auto simp: index_insert_def result_simps split: option.splits if_splits)
  moreover have "set xs = set (takeWhile (\<lambda>y. the (key y) < k) xs) \<union> set (dropWhile (\<lambda>y. the (key y) < k) xs)"
    by (metis set_append takeWhile_dropWhile_id)
  ultimately show ?thesis by simp
qed

lemma index_insert_dup:
  "index_insert key x xs = Inr None \<Longrightarrow> \<exists>y\<in>set xs. \<exists>k. key x = Some k \<and> key y = Some k"
  by (auto simp: index_insert_def result_simps split: option.splits if_splits)

lemma sorted_wrt_split:
  fixes f :: "'l \<Rightarrow> 'k::linorder"
  assumes "sorted_wrt (<) (map f xs)" "\<forall>y\<in>set xs. f y \<noteq> k" "f x = k"
  shows "sorted_wrt (<) (map f (takeWhile (\<lambda>y. f y < k) xs @ x # dropWhile (\<lambda>y. f y < k) xs))"
  using assms by (induction xs) (auto dest: set_takeWhileD set_dropWhileD intro: order.strict_trans)

lemma index_insert_sorted:
  assumes "index_insert key x xs = Inr (Some ys)" "index_check key xs = Inr ()" "key x \<noteq> None"
  shows "index_check key ys = Inr ()"
proof (cases "xs = []")
  case True
  then show ?thesis using assms by (auto simp: index_insert_def index_check_def)
next
  case False
  then obtain k where k: "key x = Some k" "\<forall>y\<in>set xs. key y \<noteq> Some k"
      "ys = takeWhile (\<lambda>y. the (key y) < k) xs @ x # dropWhile (\<lambda>y. the (key y) < k) xs"
    using assms by (auto simp: index_insert_def result_simps split: option.splits if_splits)
  moreover have "\<forall>y\<in>set xs. key y \<noteq> None" "sorted_wrt (<) (map (\<lambda>x. the (key x)) xs)"
    using assms(2) by (auto simp: index_check_def split: if_splits)
  moreover have "\<forall>y\<in>set xs. the (key y) \<noteq> k"
    using calculation(2,4) by force
  ultimately show ?thesis
    using sorted_wrt_split [of "\<lambda>x. the (key x)" xs k x] index_insert_set [OF assms(1)]
    by (auto simp: index_check_def)
qed

text \<open>The index by address never breaks: the address of a stored lease is not assigned.\<close>

definition addr_sorted :: "'a Lease_scheme list \<Rightarrow> bool" where
  "addr_sorted xs \<longleftrightarrow> sorted_wrt (<) (map l_addr xs)"

lemma index_check_addr: "index_check key_addr xs = Inr () \<longleftrightarrow> addr_sorted xs"
  by (simp add: index_check_def key_addr_def addr_sorted_def)

lemma addr_sorted_insert:
  "addr_sorted xs \<Longrightarrow> index_insert key_addr l xs = Inr (Some ys) \<Longrightarrow> addr_sorted ys"
  using index_insert_sorted [of key_addr l xs ys] by (simp add: index_check_addr key_addr_def)

lemma map_addr_assign [simp]: "map l_addr (index_assign l xs) = map l_addr xs"
  by (simp add: index_assign_def)

lemma set_index_assign:
  "set (index_assign l xs) = (\<lambda>x. if l_addr x = l_addr l then l else x) ` set xs"
  by (simp add: index_assign_def)

lemma find_addr:
  assumes "addr_sorted xs"
  shows "find (\<lambda>l. l_addr l = a) xs = Some l \<longleftrightarrow> l \<in> set xs \<and> l_addr l = a"
proof -
  have "distinct (map l_addr xs)"
    using assms by (simp add: addr_sorted_def strict_sorted_iff)
  then show ?thesis by (induction xs) (auto simp: image_iff)
qed

lemma find_addr_None: "find (\<lambda>l. l_addr l = a) xs = None \<longleftrightarrow> (\<forall>l\<in>set xs. l_addr l \<noteq> a)"
  by (auto simp: find_None_iff)

lemma option_eqI: "(\<And>m. x = Some m \<longleftrightarrow> y = Some m) \<Longrightarrow> x = y"
  by (cases x; cases y) auto

lemma find_insert:
  assumes "addr_sorted xs" "index_insert key_addr l xs = Inr (Some ys)"
  shows "(\<lambda>a. find (\<lambda>l. l_addr l = a) ys) = (\<lambda>a. find (\<lambda>l. l_addr l = a) xs)(l_addr l \<mapsto> l)"
proof
  fix a
  have ys: "set ys = insert l (set xs)" "addr_sorted ys"
    using index_insert_set [OF assms(2)] addr_sorted_insert [OF assms] by auto
  show "find (\<lambda>l. l_addr l = a) ys = ((\<lambda>a. find (\<lambda>l. l_addr l = a) xs)(l_addr l \<mapsto> l)) a"
  proof (cases "a = l_addr l")
    case True
    then show ?thesis using ys find_addr [OF ys(2), of a l] by simp
  next
    case False
    then have "find (\<lambda>l. l_addr l = a) ys = Some m \<longleftrightarrow> find (\<lambda>l. l_addr l = a) xs = Some m" for m
      using ys find_addr [OF ys(2), of a m] find_addr [OF assms(1), of a m] by auto
    then have "find (\<lambda>l. l_addr l = a) ys = find (\<lambda>l. l_addr l = a) xs"
      by (rule option_eqI)
    with False show ?thesis by simp
  qed
qed

lemma find_assign:
  assumes "find (\<lambda>x. l_addr x = l_addr l) xs \<noteq> None"
  shows "(\<lambda>a. find (\<lambda>x. l_addr x = a) (index_assign l xs)) = (\<lambda>a. find (\<lambda>x. l_addr x = a) xs)(l_addr l \<mapsto> l)"
proof
  fix a
  have "find (\<lambda>x. l_addr x = a) (index_assign l xs) =
      (if a = l_addr l then (if find (\<lambda>x. l_addr x = a) xs = None then None else Some l) else find (\<lambda>x. l_addr x = a) xs)"
    by (induction xs) (auto simp: index_assign_def)
  then show "find (\<lambda>x. l_addr x = a) (index_assign l xs) = ((\<lambda>a. find (\<lambda>x. l_addr x = a) xs)(l_addr l \<mapsto> l)) a"
    using assms by auto
qed

lemma find_erase:
  "find (\<lambda>x. l_addr x = b) (index_erase a xs) = (if b = a then None else find (\<lambda>x. l_addr x = b) xs)"
  by (induction xs) (auto simp: index_erase_def)

lemma addr_sorted_erase: "addr_sorted xs \<Longrightarrow> addr_sorted (index_erase a xs)"
  unfolding addr_sorted_def by (induction xs) (auto simp: index_erase_def)

section \<open>The invariant\<close>

definition leases4 :: "Memfile_LeaseMgr \<Rightarrow> ioaddress \<rightharpoonup> Lease4" where
  "leases4 s a = find (\<lambda>l. l_addr l = a) (s4_addr (storage4 s))"

definition leases6 :: "Memfile_LeaseMgr \<Rightarrow> ioaddress \<rightharpoonup> Lease6" where
  "leases6 s a = find (\<lambda>l. l_addr l = a) (s6_addr (storage6 s))"

definition inv4 :: "Memfile_LeaseMgr \<Rightarrow> bool" where
  "inv4 s \<longleftrightarrow> addr_sorted (s4_addr (storage4 s)) \<and> set (s4_hwaddr (storage4 s)) = set (s4_addr (storage4 s)) \<and>
     set (s4_clientid (storage4 s)) = set (s4_addr (storage4 s))"

definition inv6 :: "Memfile_LeaseMgr \<Rightarrow> bool" where
  "inv6 s \<longleftrightarrow> addr_sorted (s6_addr (storage6 s)) \<and> set (s6_duid (storage6 s)) = set (s6_addr (storage6 s))"

lemma leases4_Some: "inv4 s \<Longrightarrow> leases4 s a = Some l \<longleftrightarrow> l \<in> set (s4_addr (storage4 s)) \<and> l_addr l = a"
  by (simp add: inv4_def leases4_def find_addr)

lemma leases6_Some: "inv6 s \<Longrightarrow> leases6 s a = Some l \<longleftrightarrow> l \<in> set (s6_addr (storage6 s)) \<and> l_addr l = a"
  by (simp add: inv6_def leases6_def find_addr)

lemma mem_getLease4_eq: "inv4 s \<Longrightarrow> mem_getLease4 a s = Inr (leases4 s a)"
  by (simp add: mem_getLease4_def index_find_def inv4_def index_check_addr [symmetric] leases4_def key_addr_def)

lemma mem_getLease6_eq: "inv6 s \<Longrightarrow> mem_getLease6 a s = Inr (leases6 s a)"
  by (simp add: mem_getLease6_def index_find_def inv6_def index_check_addr [symmetric] leases6_def key_addr_def)


lemma storage4_insert_cases:
  assumes "storage4_insert l st = Inr st'"
  obtains (dup) "st' = st" "index_insert key_addr l (s4_addr st) = Inr None \<or>
      index_insert key4_hwaddr l (s4_hwaddr st) = Inr None \<or> index_insert key4_clientid l (s4_clientid st) = Inr None"
  | (ins) "index_insert key_addr l (s4_addr st) = Inr (Some (s4_addr st'))"
      "index_insert key4_hwaddr l (s4_hwaddr st) = Inr (Some (s4_hwaddr st'))"
      "index_insert key4_clientid l (s4_clientid st) = Inr (Some (s4_clientid st'))"
  using assms unfolding storage4_insert_def by (elim bindE_InrE) (auto elim!: bindE_InrE split: option.split_asm)

lemma storage6_insert_cases:
  assumes "storage6_insert l st = Inr st'"
  obtains (dup) "st' = st" "index_insert key_addr l (s6_addr st) = Inr None \<or> index_insert key6_duid l (s6_duid st) = Inr None"
  | (ins) "index_insert key_addr l (s6_addr st) = Inr (Some (s6_addr st'))"
      "index_insert key6_duid l (s6_duid st) = Inr (Some (s6_duid st'))"
  using assms unfolding storage6_insert_def by (elim bindE_InrE) (auto elim!: bindE_InrE split: option.split_asm)

lemma mem_addLease4_cases:
  assumes "inv4 s" "mem_addLease4 l s = (r, t)"
  obtains (fails) "t = s" "r \<noteq> Inr True"
  | (adds) st where "r = Inr True" "leases4 s (l_addr l) = None" "storage4_insert l (storage4 s) = Inr st"
      "t = s\<lparr>storage4 := st\<rparr>"
  using assms by (auto simp: mem_addLease4_def eff_simps mem_getLease4_eq split: if_splits sum.splits)

lemma mem_addLease6_cases:
  assumes "inv6 s" "mem_addLease6 l s = (r, t)"
  obtains (fails) "t = s" "r \<noteq> Inr True"
  | (adds) st where "r = Inr True" "leases6 s (l_addr l) = None" "storage6_insert l (storage6 s) = Inr st"
      "t = s\<lparr>storage6 := st\<rparr>"
  using assms by (auto simp: mem_addLease6_def eff_simps mem_getLease6_eq split: if_splits sum.splits)


lemma mem_add4_dup:
  assumes "inv4 s" "leases4 s (l_addr l) = None"
    and "index_insert key_addr l (s4_addr (storage4 s)) = Inr None \<or>
      index_insert key4_hwaddr l (s4_hwaddr (storage4 s)) = Inr None \<or>
      index_insert key4_clientid l (s4_clientid (storage4 s)) = Inr None"
  shows "\<exists>a l' k. leases4 s a = Some l' \<and> holds4 k l \<and> holds4 k l'"
proof -
  have "\<not> index_insert key_addr l (s4_addr (storage4 s)) = Inr None"
    using index_insert_dup [of key_addr l] assms(1,2) by (fastforce simp: leases4_def find_addr_None key_addr_def)
  then have dup: "index_insert key4_hwaddr l (s4_hwaddr (storage4 s)) = Inr None \<or>
      index_insert key4_clientid l (s4_clientid (storage4 s)) = Inr None"
    using assms(3) by simp
  have sets: "set (s4_hwaddr (storage4 s)) = set (s4_addr (storage4 s))"
    "set (s4_clientid (storage4 s)) = set (s4_addr (storage4 s))"
    using assms(1) by (simp_all add: inv4_def)
  from dup consider y k where "y \<in> set (s4_addr (storage4 s))" "key4_hwaddr l = Some k" "key4_hwaddr y = Some k"
    | y k where "y \<in> set (s4_addr (storage4 s))" "key4_clientid l = Some k" "key4_clientid y = Some k"
    by (auto dest!: index_insert_dup simp: sets)
  then show ?thesis
  proof cases
    case (1 y k)
    then have "holds4 (ByHwaddr \<lparr>hwaddr_bytes = l4_hwaddr l, htype = 0\<rparr> (l_subnet_id l)) y"
      "holds4 (ByHwaddr \<lparr>hwaddr_bytes = l4_hwaddr l, htype = 0\<rparr> (l_subnet_id l)) l"
      by (auto simp: key4_hwaddr_def)
    with 1(1) assms(1) show ?thesis using leases4_Some by blast
  next
    case (2 y k)
    then obtain c where "l4_client_id l = Some c" "holds4 (ByClientId c (l_subnet_id l)) y"
      by (auto simp: key4_clientid_def ClientId.expand)
    then have "holds4 (ByClientId c (l_subnet_id l)) l" "holds4 (ByClientId c (l_subnet_id l)) y" by simp_all
    with 2(1) assms(1) show ?thesis using leases4_Some by blast
  qed
qed

lemma mem_add6_dup:
  assumes "inv6 s" "leases6 s (l_addr l) = None"
    and "index_insert key_addr l (s6_addr (storage6 s)) = Inr None \<or>
      index_insert key6_duid l (s6_duid (storage6 s)) = Inr None"
  shows "\<exists>a l' k. leases6 s a = Some l' \<and> holds6 k l \<and> holds6 k l'"
proof -
  have "\<not> index_insert key_addr l (s6_addr (storage6 s)) = Inr None"
    using index_insert_dup [of key_addr l] assms(1,2) by (fastforce simp: leases6_def find_addr_None key_addr_def)
  then obtain y k where y: "y \<in> set (s6_addr (storage6 s))" "key6_duid l = Some k" "key6_duid y = Some k"
    using assms(1,3) index_insert_dup [of key6_duid l] by (fastforce simp: inv6_def)
  then obtain d where "l6_duid l = Some d" "holds6 (d, l6_iaid l, l_subnet_id l) y"
    by (auto simp: key6_duid_def DUID.expand)
  then have "holds6 (d, l6_iaid l, l_subnet_id l) l" "holds6 (d, l6_iaid l, l_subnet_id l) y" by simp_all
  with y(1) assms(1) show ?thesis using leases6_Some by blast
qed

lemma mem_add4_inv:
  assumes "inv4 s" "mem_addLease4 l s = (r, t)"
  shows "inv4 t"
  using assms
proof (cases rule: mem_addLease4_cases)
  case (adds st)
  from adds(3) show ?thesis
  proof (cases rule: storage4_insert_cases)
    case dup
    with adds assms(1) show ?thesis by simp
  next
    case ins
    with adds assms(1) show ?thesis
      using addr_sorted_insert [OF _ ins(1)] index_insert_set [OF ins(1)] index_insert_set [OF ins(2)]
        index_insert_set [OF ins(3)] by (simp add: inv4_def)
  qed
qed (use assms in simp)

lemma mem_add6_inv:
  assumes "inv6 s" "mem_addLease6 l s = (r, t)"
  shows "inv6 t"
  using assms
proof (cases rule: mem_addLease6_cases)
  case (adds st)
  from adds(3) show ?thesis
  proof (cases rule: storage6_insert_cases)
    case dup
    with adds assms(1) show ?thesis by simp
  next
    case ins
    with adds assms(1) show ?thesis
      using addr_sorted_insert [OF _ ins(1)] index_insert_set [OF ins(1)] index_insert_set [OF ins(2)]
      by (simp add: inv6_def)
  qed
qed (use assms in simp)


section \<open>The in-memory backend keeps the contract\<close>

lemmas memfile_ops = memfile_def mem_updateLease4_def mem_updateLease6_def

lemma memfile_sel [simp]:
  "addLease4 memfile = mem_addLease4" "addLease6 memfile = mem_addLease6" "getLease4 memfile = mem_getLease4"
  "getLease4_hwaddr_subnet memfile = mem_getLease4_hwaddr_subnet"
  "getLease4_clientid_subnet memfile = mem_getLease4_clientid_subnet"
  "getLease6 memfile = mem_getLease6" "getLease6_duid_iaid_subnet memfile = mem_getLease6_duid_iaid_subnet"
  "updateLease4 memfile l4 = retS ()" "updateLease6 memfile l6 = retS ()"
  "deleteLease memfile = mem_deleteLease" "assign4 memfile = mem_assign4" "assign6 memfile = mem_assign6"
  by (simp_all add: memfile_ops)

lemma lookup4_mem_Some:
  assumes "inv4 s" "lookup4 memfile k s = Inr (Some l)"
  shows "leases4 s (l_addr l) = Some l \<and> holds4 k l"
proof (cases k)
  case (ByHwaddr h i)
  then have "find (\<lambda>x. key4_hwaddr x = Some (hwaddr_bytes h, i)) (s4_hwaddr (storage4 s)) = Some l"
    using assms(2) by (auto simp: mem_getLease4_hwaddr_subnet_def dest: index_find_Inr)
  with assms(1) ByHwaddr show ?thesis
    by (auto simp: find_Some_iff leases4_Some key4_hwaddr_def inv4_def)
next
  case (ByClientId c i)
  then have "find (\<lambda>x. key4_clientid x = Some (clientid_bytes c, i)) (s4_clientid (storage4 s)) = Some l"
    using assms(2) by (auto simp: mem_getLease4_clientid_subnet_def dest: index_find_Inr)
  with assms(1) ByClientId show ?thesis
    by (auto simp: find_Some_iff leases4_Some key4_clientid_def inv4_def ClientId.expand)
qed

lemma lookup4_mem_None:
  assumes "inv4 s" "lookup4 memfile k s = Inr None" "leases4 s a = Some l"
  shows "\<not> holds4 k l"
proof (cases k)
  case (ByHwaddr h i)
  then have "find (\<lambda>x. key4_hwaddr x = Some (hwaddr_bytes h, i)) (s4_hwaddr (storage4 s)) = None"
    using assms(2) by (auto simp: mem_getLease4_hwaddr_subnet_def dest: index_find_Inr)
  with assms(1,3) ByHwaddr show ?thesis
    by (auto simp: find_None_iff leases4_Some key4_hwaddr_def inv4_def)
next
  case (ByClientId c i)
  then have "find (\<lambda>x. key4_clientid x = Some (clientid_bytes c, i)) (s4_clientid (storage4 s)) = None"
    using assms(2) by (auto simp: mem_getLease4_clientid_subnet_def dest: index_find_Inr)
  with assms(1,3) ByClientId show ?thesis
    by (auto simp: find_None_iff leases4_Some key4_clientid_def inv4_def)
qed

lemma lookup6_mem_Some:
  assumes "inv6 s" "lookup6 memfile k s = Inr (Some l)"
  shows "leases6 s (l_addr l) = Some l \<and> holds6 k l"
proof (cases k)
  case (fields d i n)
  then have "find (\<lambda>x. key6_duid x = Some (duid_bytes d, i, n)) (s6_duid (storage6 s)) = Some l"
    using assms(2) by (auto simp: mem_getLease6_duid_iaid_subnet_def dest: index_find_Inr)
  with assms(1) fields show ?thesis
    by (auto simp: find_Some_iff leases6_Some key6_duid_def inv6_def DUID.expand)
qed

lemma lookup6_mem_None:
  assumes "inv6 s" "lookup6 memfile k s = Inr None" "leases6 s a = Some l"
  shows "\<not> holds6 k l"
proof (cases k)
  case (fields d i n)
  then have "find (\<lambda>x. key6_duid x = Some (duid_bytes d, i, n)) (s6_duid (storage6 s)) = None"
    using assms(2) by (auto simp: mem_getLease6_duid_iaid_subnet_def dest: index_find_Inr)
  with assms(1,3) fields show ?thesis
    by (auto simp: find_None_iff leases6_Some key6_duid_def inv6_def)
qed

lemma mem_assign_inv: "inv4 s \<Longrightarrow> inv4 (mem_assign4 l4 s)" "inv6 s \<Longrightarrow> inv6 (mem_assign6 l6 s)"
  by (simp_all add: inv4_def inv6_def mem_assign4_def mem_assign6_def addr_sorted_def set_index_assign)

lemma mem_assign_leases:
  "leases4 s (l_addr l4) \<noteq> None \<Longrightarrow> leases4 (mem_assign4 l4 s) = (leases4 s)(l_addr l4 \<mapsto> l4)"
  "leases6 s (l_addr l6) \<noteq> None \<Longrightarrow> leases6 (mem_assign6 l6 s) = (leases6 s)(l_addr l6 \<mapsto> l6)"
  using find_assign [of l4 "s4_addr (storage4 s)"] find_assign [of l6 "s6_addr (storage6 s)"]
  by (simp_all add: leases4_def leases6_def mem_assign4_def mem_assign6_def fun_eq_iff)

lemma mem_add4_True:
  assumes "inv4 s" "mem_addLease4 l s = (Inr True, t)"
    and "\<And>k a l'. leases4 s a = Some l' \<Longrightarrow> holds4 k l \<Longrightarrow> \<not> holds4 k l'"
  shows "leases4 t = (leases4 s)(l_addr l \<mapsto> l)"
  using assms(1,2)
proof (cases rule: mem_addLease4_cases)
  case (adds st)
  from adds(3) show ?thesis
  proof (cases rule: storage4_insert_cases)
    case dup
    then show ?thesis using mem_add4_dup [OF assms(1) adds(2)] assms(3) by blast
  next
    case ins
    then show ?thesis
      using find_insert [OF _ ins(1)] assms(1) adds(4) by (simp add: leases4_def inv4_def fun_eq_iff)
  qed
qed simp

lemma mem_add6_True:
  assumes "inv6 s" "mem_addLease6 l s = (Inr True, t)"
    and "\<And>k a l'. leases6 s a = Some l' \<Longrightarrow> holds6 k l \<Longrightarrow> \<not> holds6 k l'"
  shows "leases6 t = (leases6 s)(l_addr l \<mapsto> l)"
  using assms(1,2)
proof (cases rule: mem_addLease6_cases)
  case (adds st)
  from adds(3) show ?thesis
  proof (cases rule: storage6_insert_cases)
    case dup
    then show ?thesis using mem_add6_dup [OF assms(1) adds(2)] assms(3) by blast
  next
    case ins
    then show ?thesis
      using find_insert [OF _ ins(1)] assms(1) adds(4) by (simp add: leases6_def inv6_def fun_eq_iff)
  qed
qed simp

interpretation mem4: lease_store "getLease4 memfile" "lookup4 memfile" "addLease4 memfile"
  "updateLease4 memfile" "assign4 memfile" holds4 inv4 leases4
proof unfold_locales
  fix s t :: Memfile_LeaseMgr and a and l :: Lease4 and r k x and r' :: "unit result"
  show "inv4 s \<Longrightarrow> leases4 s a = Some l \<Longrightarrow> l_addr l = a" by (simp add: leases4_Some)
  show "inv4 s \<Longrightarrow> getLease4 memfile a s = Inr x \<Longrightarrow> x = leases4 s a" by (simp add: mem_getLease4_eq)
  show "inv4 s \<Longrightarrow> addLease4 memfile l s = (r, t) \<Longrightarrow> inv4 t" by (simp add: mem_add4_inv)
  show "inv4 s \<Longrightarrow> addLease4 memfile l s = (Inr True, t) \<Longrightarrow> leases4 s (l_addr l) = None"
    by (simp, erule mem_addLease4_cases) auto
  show "inv4 s \<Longrightarrow> addLease4 memfile l s = (r, t) \<Longrightarrow> r \<noteq> Inr True \<Longrightarrow> leases4 t = leases4 s"
    by (simp, erule mem_addLease4_cases) auto
  show "inv4 s \<Longrightarrow> updateLease4 memfile l s = (r', t) \<Longrightarrow> inv4 t" by (simp add: eff_apply)
  show "inv4 s \<Longrightarrow> leases4 s (l_addr l) \<noteq> None \<Longrightarrow> updateLease4 memfile l (assign4 memfile l s) = (Inr (), t) \<Longrightarrow>
    leases4 t = (leases4 s)(l_addr l \<mapsto> l)"
    using mem_assign_leases by (auto simp: eff_apply)
qed (simp_all add: lookup4_mem_Some lookup4_mem_None mem_add4_True mem_assign_inv mem_assign_leases eff_apply)

interpretation mem6: lease_store "getLease6 memfile" "lookup6 memfile" "addLease6 memfile"
  "updateLease6 memfile" "assign6 memfile" holds6 inv6 leases6
proof unfold_locales
  fix s t :: Memfile_LeaseMgr and a and l :: Lease6 and r k x and r' :: "unit result"
  show "inv6 s \<Longrightarrow> leases6 s a = Some l \<Longrightarrow> l_addr l = a" by (simp add: leases6_Some)
  show "inv6 s \<Longrightarrow> getLease6 memfile a s = Inr x \<Longrightarrow> x = leases6 s a" by (simp add: mem_getLease6_eq)
  show "inv6 s \<Longrightarrow> addLease6 memfile l s = (r, t) \<Longrightarrow> inv6 t" by (simp add: mem_add6_inv)
  show "inv6 s \<Longrightarrow> addLease6 memfile l s = (Inr True, t) \<Longrightarrow> leases6 s (l_addr l) = None"
    by (simp, erule mem_addLease6_cases) auto
  show "inv6 s \<Longrightarrow> addLease6 memfile l s = (r, t) \<Longrightarrow> r \<noteq> Inr True \<Longrightarrow> leases6 t = leases6 s"
    by (simp, erule mem_addLease6_cases) auto
  show "inv6 s \<Longrightarrow> updateLease6 memfile l s = (r', t) \<Longrightarrow> inv6 t" by (simp add: eff_apply)
  show "inv6 s \<Longrightarrow> leases6 s (l_addr l) \<noteq> None \<Longrightarrow> updateLease6 memfile l (assign6 memfile l s) = (Inr (), t) \<Longrightarrow>
    leases6 t = (leases6 s)(l_addr l \<mapsto> l)"
    using mem_assign_leases by (auto simp: eff_apply)
qed (simp_all add: lookup6_mem_Some lookup6_mem_None mem_add6_True mem_assign_inv mem_assign_leases eff_apply)


section \<open>Storing and finding leases\<close>

text \<open>While no key was assigned behind the back of the container, all indexes are sorted.\<close>

definition indexed4 :: "Memfile_LeaseMgr \<Rightarrow> bool" where
  "indexed4 s \<longleftrightarrow> inv4 s \<and> index_check key4_hwaddr (s4_hwaddr (storage4 s)) = Inr () \<and>
     index_check key4_clientid (s4_clientid (storage4 s)) = Inr ()"

definition indexed6 :: "Memfile_LeaseMgr \<Rightarrow> bool" where
  "indexed6 s \<longleftrightarrow> inv6 s \<and> index_check key6_duid (s6_duid (storage6 s)) = Inr ()"

lemma index_insert_ok:
  assumes "index_check key xs = Inr ()" "key x = Some k" "\<forall>y\<in>set xs. key y \<noteq> Some k"
  shows "\<exists>ys. index_insert key x xs = Inr (Some ys) \<and> index_check key ys = Inr ()"
proof -
  have "\<exists>ys. index_insert key x xs = Inr (Some ys)"
    using assms by (auto simp: index_insert_def)
  then obtain ys where ys: "index_insert key x xs = Inr (Some ys)" ..
  then show ?thesis using index_insert_sorted [OF ys assms(1)] assms(2) by simp
qed

lemma index_find_ok:
  assumes "index_check key xs = Inr ()" "x \<in> set xs" "key x = Some k"
  shows "index_find key k xs = Inr (Some x)"
proof -
  have "sorted_wrt (<) (map (\<lambda>x. the (key x)) xs)"
    using assms(1) by (auto simp: index_check_def split: if_splits)
  then have "distinct (map (\<lambda>x. the (key x)) xs)" by (simp add: strict_sorted_iff)
  then have "find (\<lambda>x. key x = Some k) xs = Some x"
    using assms(2,3)
  proof (induction xs)
    case (Cons a xs)
    have "x = a" if "key a = Some k"
    proof (rule ccontr)
      assume "x \<noteq> a"
      then have "x \<in> set xs" using Cons.prems by simp
      then have "the (key x) \<in> (\<lambda>x. the (key x)) ` set xs" by (rule imageI)
      with Cons.prems that show False by simp
    qed
    with Cons show ?case by auto
  qed simp
  with assms(1) show ?thesis by (simp add: index_find_def)
qed

lemma mem_addLease4_ok:
  assumes "indexed4 s" "l4_client_id l = Some c" "leases4 s (l_addr l) = None"
    and keys: "\<And>k a l'. leases4 s a = Some l' \<Longrightarrow> holds4 k l \<Longrightarrow> \<not> holds4 k l'"
  obtains t where "mem_addLease4 l s = (Inr True, t)" "indexed4 t" "leases4 t = (leases4 s)(l_addr l \<mapsto> l)"
    "l \<in> set (s4_hwaddr (storage4 t))" "l \<in> set (s4_clientid (storage4 t))"
proof -
  have inv: "inv4 s" using assms(1) by (simp add: indexed4_def)
  have stored: "leases4 s (l_addr y) = Some y" if "y \<in> set (s4_addr (storage4 s))" for y
    using that inv by (simp add: leases4_Some)
  have "\<forall>y\<in>set (s4_addr (storage4 s)). key_addr y \<noteq> Some (l_addr l)"
    using assms(3) by (auto simp: key_addr_def leases4_def find_addr_None)
  then obtain xs0 where 0: "index_insert key_addr l (s4_addr (storage4 s)) = Inr (Some xs0)"
    using index_insert_ok [of key_addr "s4_addr (storage4 s)" l "l_addr l"] inv
    by (auto simp: index_check_addr inv4_def key_addr_def)
  have "\<forall>y\<in>set (s4_hwaddr (storage4 s)). key4_hwaddr y \<noteq> Some (l4_hwaddr l, l_subnet_id l)"
    using inv stored keys [of _ _ "ByHwaddr \<lparr>hwaddr_bytes = l4_hwaddr l, htype = 0\<rparr> (l_subnet_id l)"]
    by (fastforce simp: inv4_def key4_hwaddr_def)
  then obtain xs1 where 1: "index_insert key4_hwaddr l (s4_hwaddr (storage4 s)) = Inr (Some xs1)"
      "index_check key4_hwaddr xs1 = Inr ()"
    using index_insert_ok [of key4_hwaddr "s4_hwaddr (storage4 s)" l] assms(1)
    by (auto simp: indexed4_def key4_hwaddr_def)
  have "\<forall>y\<in>set (s4_clientid (storage4 s)). key4_clientid y \<noteq> Some (clientid_bytes c, l_subnet_id l)"
    using inv stored keys [of _ _ "ByClientId c (l_subnet_id l)"] assms(2)
    by (fastforce simp: inv4_def key4_clientid_def ClientId.expand)
  then obtain xs2 where 2: "index_insert key4_clientid l (s4_clientid (storage4 s)) = Inr (Some xs2)"
      "index_check key4_clientid xs2 = Inr ()"
    using index_insert_ok [of key4_clientid "s4_clientid (storage4 s)" l] assms(1,2)
    by (auto simp: indexed4_def key4_clientid_def)
  define t where "t = s\<lparr>storage4 := \<lparr>s4_addr = xs0, s4_hwaddr = xs1, s4_clientid = xs2\<rparr>\<rparr>"
  have add: "mem_addLease4 l s = (Inr True, t)"
    using 0 1 2 inv assms(3) by (simp add: mem_addLease4_def eff_simps mem_getLease4_eq storage4_insert_def t_def)
  moreover have "indexed4 t"
    using mem_add4_inv [OF inv add] 1 2 by (simp add: indexed4_def t_def)
  ultimately show thesis
    using that mem_add4_True [OF inv add keys] index_insert_set [OF 1(1)] index_insert_set [OF 2(1)]
    by (simp add: t_def)
qed


lemma mem_delete4:
  assumes "inv4 s" "isV4 a" "leases4 s a \<noteq> None"
  shows "mem_deleteLease a s = (Inr True, storage4_erase a s) \<and> leases4 (storage4_erase a s) = (leases4 s)(a := None)"
  using assms
  by (auto simp: mem_deleteLease_def eff_simps mem_getLease4_eq storage4_erase_def leases4_def find_erase fun_eq_iff)

text \<open>A lease added to the in-memory database under a free address and by a client that holds no
  lease in the subnet is found afterwards by address, by hardware address and subnet and by client
  id and subnet, the leases of all other addresses stay, and deleting it restores the database.\<close>

theorem memfile_add_find_delete:
  assumes "indexed4 s" "l4_client_id l = Some c" "isV4 (l_addr l)" "leases4 s (l_addr l) = None"
    and "\<And>k a l'. leases4 s a = Some l' \<Longrightarrow> holds4 k l \<Longrightarrow> \<not> holds4 k l'"
  shows "\<exists>t. mem_addLease4 l s = (Inr True, t) \<and> indexed4 t \<and>
    mem_getLease4 (l_addr l) t = Inr (Some l) \<and>
    (\<forall>h. hwaddr_bytes h = l4_hwaddr l \<longrightarrow> mem_getLease4_hwaddr_subnet h (l_subnet_id l) t = Inr (Some l)) \<and>
    mem_getLease4_clientid_subnet c (l_subnet_id l) t = Inr (Some l) \<and>
    (\<forall>a. a \<noteq> l_addr l \<longrightarrow> mem_getLease4 a t = mem_getLease4 a s) \<and>
    (\<exists>t'. mem_deleteLease (l_addr l) t = (Inr True, t') \<and> leases4 t' = leases4 s)"
proof -
  obtain t where t: "mem_addLease4 l s = (Inr True, t)" "indexed4 t" "leases4 t = (leases4 s)(l_addr l \<mapsto> l)"
    "l \<in> set (s4_hwaddr (storage4 t))" "l \<in> set (s4_clientid (storage4 t))"
    by (rule mem_addLease4_ok [OF assms(1,2,4)]) (use assms(5) in blast)+
  have inv: "inv4 s" "inv4 t" using assms(1) t(2) by (simp_all add: indexed4_def)
  have "mem_getLease4_hwaddr_subnet h (l_subnet_id l) t = Inr (Some l)" if "hwaddr_bytes h = l4_hwaddr l" for h
    unfolding mem_getLease4_hwaddr_subnet_def
    by (rule index_find_ok) (use t(2,4) that in \<open>auto simp: indexed4_def key4_hwaddr_def\<close>)
  moreover have "mem_getLease4_clientid_subnet c (l_subnet_id l) t = Inr (Some l)"
    unfolding mem_getLease4_clientid_subnet_def
    by (rule index_find_ok) (use t(2,5) assms(2) in \<open>auto simp: indexed4_def key4_clientid_def\<close>)
  moreover have "\<exists>t'. mem_deleteLease (l_addr l) t = (Inr True, t') \<and> leases4 t' = leases4 s"
    using mem_delete4 [OF inv(2) assms(3)] t(3) assms(4) by auto
  moreover have "mem_getLease4 b t = Inr (if b = l_addr l then Some l else leases4 s b)" for b
    using t(3) mem_getLease4_eq [OF inv(2)] by simp
  ultimately show ?thesis
    using t(1,2) mem_getLease4_eq [OF inv(1)] by auto
qed

definition example_lease4 :: Lease4 where
  "example_lease4 = Lease.extend (mk_Lease (IPv4 0xc0000264) 1000 2000 4000 1 500)
     (Lease4.fields 0 [0, 1, 2, 3, 4, 5] (Some (ClientId [1, 2, 3])))"

lemma example_lease4_sel [simp]:
  "l_addr example_lease4 = IPv4 0xc0000264" "l4_client_id example_lease4 = Some (ClientId [1, 2, 3])"
  "l_subnet_id example_lease4 = 1" "l4_hwaddr example_lease4 = [0, 1, 2, 3, 4, 5]"
  by (simp_all add: example_lease4_def mk_Lease_def Lease.defs Lease4.defs)

lemma mk_Memfile_empty [simp]: "leases4 mk_Memfile a = None" "leases6 mk_Memfile a = None"
  by (simp_all add: leases4_def leases6_def mk_Memfile_def)

lemma indexed_mk_Memfile: "indexed4 mk_Memfile" "indexed6 mk_Memfile"
  by (simp_all add: indexed4_def indexed6_def inv4_def inv6_def mk_Memfile_def index_check_def addr_sorted_def)

theorem memfile_add_find_delete_witness:
  "\<exists>t. mem_addLease4 example_lease4 mk_Memfile = (Inr True, t) \<and>
     mem_getLease4 (IPv4 0xc0000264) t = Inr (Some example_lease4)"
  using memfile_add_find_delete [of mk_Memfile example_lease4 "ClientId [1, 2, 3]"] indexed_mk_Memfile(1)
  by auto

text \<open>The in-memory database reports a lease as added although it does not keep it: when another
  address is leased to the same hardware address in the same subnet, \<^verbatim>\<open>addLease\<close> returns true
  and the database is what it was.\<close>

theorem memfile_add_lost:
  assumes "indexed4 s" "leases4 s a = Some l'" "leases4 s (l_addr l) = None"
    and "l4_hwaddr l' = l4_hwaddr l" "l_subnet_id l' = l_subnet_id l"
  shows "mem_addLease4 l s = (Inr True, s)"
proof -
  have inv: "inv4 s" using assms(1) by (simp add: indexed4_def)
  have l': "l' \<in> set (s4_addr (storage4 s))" "l' \<in> set (s4_hwaddr (storage4 s))"
    using assms(2) inv by (auto simp: leases4_Some inv4_def)
  have "\<forall>y\<in>set (s4_addr (storage4 s)). key_addr y \<noteq> Some (l_addr l)"
    using assms(3) by (auto simp: key_addr_def leases4_def find_addr_None)
  then obtain xs0 where "index_insert key_addr l (s4_addr (storage4 s)) = Inr (Some xs0)"
    using index_insert_ok [of key_addr "s4_addr (storage4 s)" l "l_addr l"] inv
    by (auto simp: index_check_addr inv4_def key_addr_def)
  moreover have "index_insert key4_hwaddr l (s4_hwaddr (storage4 s)) = Inr None"
    using assms l'(2) by (auto simp: index_insert_def indexed4_def key4_hwaddr_def)
  ultimately show ?thesis
    using inv assms(3) by (simp add: mem_addLease4_def eff_simps mem_getLease4_eq storage4_insert_def)
qed

theorem memfile_add_lost_witness:
  "\<exists>t. mem_addLease4 example_lease4 mk_Memfile = (Inr True, t) \<and>
     mem_addLease4 (example_lease4\<lparr>l_addr := IPv4 0xc0000265\<rparr>) t = (Inr True, t)"
proof -
  obtain t where t: "mem_addLease4 example_lease4 mk_Memfile = (Inr True, t)" "indexed4 t"
    "leases4 t = (leases4 mk_Memfile)(l_addr example_lease4 \<mapsto> example_lease4)"
    using mem_addLease4_ok [of mk_Memfile example_lease4 "ClientId [1, 2, 3]"] indexed_mk_Memfile(1) by auto
  then show ?thesis
    using memfile_add_lost [of t "IPv4 0xc0000264" example_lease4 "example_lease4\<lparr>l_addr := IPv4 0xc0000265\<rparr>"]
    by auto
qed

end
