(* ===== verification/Alloc_Engine.thy ===== *)
theory Alloc_Engine
  imports Memfile
begin

text \<open>
  The allocation engine, \<^verbatim>\<open>src/lib/dhcpsrv/alloc_engine.{h,cc}\<close>. A request works on a pair:
  the state of the lease database and the selected subnet, whose last allocated address the
  iterative allocator moves. The arguments \<^verbatim>\<open>duid\<close> and \<^verbatim>\<open>hint\<close> of
  \<^verbatim>\<open>pickAddress\<close> are ignored by the only allocator that is implemented and left out.

  The loop over candidates runs \<^verbatim>\<open>attempts_\<close> times; the servers construct their engines with
  100. With 0 attempts it runs until an address is found: \<open>ae_fuel\<close> bounds how far the model follows
  it, and \<open>OutOfFuel\<close> says that the loop was still running.
\<close>

section \<open>The iterative allocator\<close>

text \<open>The bytes from the least significant one on.\<close>

fun inc_bytes :: "bytes \<Rightarrow> bytes" where
  "inc_bytes [] = []"
| "inc_bytes (b # bs) = (if b + 1 \<noteq> 0 then (b + 1) # bs else (b + 1) # inc_bytes bs)"

definition increaseAddress :: "ioaddress \<Rightarrow> ioaddress result" where
  "increaseAddress addr = fromBytes (getFamily addr) (rev (inc_bytes (rev (toBytes addr))))"

definition pickAddress :: "('a Subnet_scheme, ioaddress) eff" where
  "pickAddress sn =
     (let last = sn_last_allocated sn; pools = sn_pools sn in
      case pools of
        [] \<Rightarrow> (Inl AllocFailed, sn)
      | pool0 # _ \<Rightarrow>
          (case dropWhile (\<lambda>p. \<not> Pool_inRange p last) pools of
             [] \<Rightarrow> (Inr (pool_first pool0), setLastAllocated (pool_first pool0) sn)
           | it # following \<Rightarrow>
               (case increaseAddress last of
                  Inl e \<Rightarrow> (Inl e, sn)
                | Inr nxt \<Rightarrow>
                    if Pool_inRange it nxt then (Inr nxt, setLastAllocated nxt sn)
                    else (case following of
                        [] \<Rightarrow> (Inr (pool_first pool0), setLastAllocated (pool_first pool0) sn)
                      | it' # _ \<Rightarrow> (Inr (pool_first it'), setLastAllocated (pool_first it') sn)))))"

section \<open>The engine\<close>

datatype AllocType = ALLOC_ITERATIVE | ALLOC_HASHED | ALLOC_RANDOM

record AllocEngine =
  ae_attempts :: u32
  ae_fuel :: nat

definition mk_AllocEngine :: "AllocType \<Rightarrow> u32 \<Rightarrow> nat \<Rightarrow> AllocEngine result" where
  "mk_AllocEngine engine_type attempts fuel =
     (case engine_type of
        ALLOC_ITERATIVE \<Rightarrow> Inr \<lparr>ae_attempts = attempts, ae_fuel = fuel\<rparr>
      | _ \<Rightarrow> Inl NotImplemented)"

text \<open>Run a part of a request on the database or on the subnet.\<close>

abbreviation dbS :: "('s, 'x) eff \<Rightarrow> ('s \<times> 'n, 'x) eff" where
  "dbS \<equiv> zoomS fst (\<lambda>d st. (d, snd st))"

abbreviation subnetS :: "('n, 'x) eff \<Rightarrow> ('s \<times> 'n, 'x) eff" where
  "subnetS \<equiv> zoomS snd (\<lambda>n st. (fst st, n))"

text \<open>The loop: pick a candidate, try it, up to \<open>n\<close> times.\<close>

fun search :: "(ioaddress \<Rightarrow> ('s \<times> 'a Subnet_scheme, 'l option) eff) \<Rightarrow> nat \<Rightarrow>
    ('s \<times> 'a Subnet_scheme, 'l option) eff" where
  "search attempt 0 = retS None"
| "search attempt (Suc i) =
     bindS (subnetS pickAddress) (\<lambda>candidate.
     bindS (attempt candidate) (\<lambda>lease.
       case lease of Some l \<Rightarrow> retS (Some l) | None \<Rightarrow> search attempt i))"

definition alloc_loop :: "AllocEngine \<Rightarrow> (ioaddress \<Rightarrow> ('s \<times> 'a Subnet_scheme, 'l option) eff) \<Rightarrow>
    ('s \<times> 'a Subnet_scheme, 'l option) eff" where
  "alloc_loop e attempt =
     (if ae_attempts e = 0 then
        bindS (search attempt (ae_fuel e)) (\<lambda>r. case r of None \<Rightarrow> throwS OutOfFuel | Some l \<Rightarrow> retS (Some l))
      else search attempt (unat (ae_attempts e)))"

section \<open>IPv4 leases\<close>

definition renewed4 :: "'a Subnet_scheme \<Rightarrow> ClientId option \<Rightarrow> HWAddr \<Rightarrow> int \<Rightarrow> Lease4 \<Rightarrow> Lease4" where
  "renewed4 sn clientid h now l =
     l\<lparr>l_subnet_id := sn_id sn, l4_hwaddr := hwaddr_bytes h, l4_client_id := clientid, l_cltt := now,
       l_t1 := tr_default (sn_t1 sn), l_t2 := tr_default (sn_t2 sn), l_valid_lft := tr_default (sn_valid sn)\<rparr>"

definition reused4 :: "'a Subnet_scheme \<Rightarrow> ClientId option \<Rightarrow> HWAddr \<Rightarrow> int \<Rightarrow> Lease4 \<Rightarrow> Lease4" where
  "reused4 sn clientid h now l =
     l\<lparr>l4_client_id := clientid, l4_hwaddr := hwaddr_bytes h, l_valid_lft := tr_default (sn_valid sn),
       l_t1 := tr_default (sn_t1 sn), l_t2 := tr_default (sn_t2 sn), l_cltt := now, l_subnet_id := sn_id sn,
       l_fixed := False, l_hostname := [], l_fqdn_fwd := False, l_fqdn_rev := False\<rparr>"

text \<open>Assign to a lease obtained from the database and, unless the allocation is a fake one, update it.\<close>

definition write4 :: "'s LeaseMgr \<Rightarrow> bool \<Rightarrow> Lease4 \<Rightarrow> ('s \<times> 'n, Lease4) eff" where
  "write4 mgr fake l =
     thenS (dbS (modS (assign4 mgr l)))
       (thenS (if fake then retS () else dbS (updateLease4 mgr l)) (retS l))"

definition renewLease4 ::
  "'s LeaseMgr \<Rightarrow> int \<Rightarrow> ClientId option \<Rightarrow> HWAddr \<Rightarrow> Lease4 \<Rightarrow> bool \<Rightarrow> ('s \<times> 'a Subnet_scheme, Lease4) eff" where
  "renewLease4 mgr now clientid h lease fake =
     bindS (askS (\<lambda>st. Inr (renewed4 (snd st) clientid h now lease))) (write4 mgr fake)"

definition reuseExpiredLease4 ::
  "'s LeaseMgr \<Rightarrow> int \<Rightarrow> Lease4 \<Rightarrow> ClientId option \<Rightarrow> HWAddr \<Rightarrow> bool \<Rightarrow> ('s \<times> 'a Subnet_scheme, Lease4) eff" where
  "reuseExpiredLease4 mgr now lease clientid h fake =
     (if \<not> expired now lease then throwS BadValue
      else bindS (askS (\<lambda>st. Inr (reused4 (snd st) clientid h now lease))) (write4 mgr fake))"

definition createLease4 ::
  "'s LeaseMgr \<Rightarrow> int \<Rightarrow> ClientId option \<Rightarrow> HWAddr option \<Rightarrow> ioaddress \<Rightarrow> bool \<Rightarrow>
    ('s \<times> 'a Subnet_scheme, Lease4 option) eff" where
  "createLease4 mgr now clientid hwaddr addr fake =
     (case hwaddr of
        None \<Rightarrow> throwS BadValue
      | Some h \<Rightarrow>
          bindS (askS (\<lambda>st. let sn = snd st in
            mk_Lease4 addr (hwaddr_bytes h) (case clientid of None \<Rightarrow> [] | Some c \<Rightarrow> clientid_bytes c)
              (tr_default (sn_valid sn)) (tr_default (sn_t1 sn)) (tr_default (sn_t2 sn)) now (sn_id sn))) (\<lambda>lease.
          if \<not> fake then
            bindS (dbS (addLease4 mgr lease)) (\<lambda>status. if status then retS (Some lease) else retS None)
          else
            bindS (dbS (askS (getLease4 mgr addr))) (\<lambda>existing.
              if existing = None then retS (Some lease) else retS None)))"

text \<open>What the engine does with the hint and, in the same words, with every candidate.\<close>

definition try_address4 ::
  "'s LeaseMgr \<Rightarrow> int \<Rightarrow> ClientId option \<Rightarrow> HWAddr \<Rightarrow> bool \<Rightarrow> ioaddress \<Rightarrow>
    ('s \<times> 'a Subnet_scheme, Lease4 option) eff" where
  "try_address4 mgr now clientid h fake addr =
     bindS (dbS (askS (getLease4 mgr addr))) (\<lambda>existing.
       case existing of
         None \<Rightarrow> createLease4 mgr now clientid (Some h) addr fake
       | Some l \<Rightarrow>
           if expired now l then bindS (reuseExpiredLease4 mgr now l clientid h fake) (\<lambda>l'. retS (Some l'))
           else retS None)"

text \<open>The body of the \<^verbatim>\<open>attempt\<close> block, once the subnet pointer has been checked.\<close>

definition allocate4_body ::
  "AllocEngine \<Rightarrow> 's LeaseMgr \<Rightarrow> int \<Rightarrow> ClientId option \<Rightarrow> HWAddr option \<Rightarrow> ioaddress \<Rightarrow> bool \<Rightarrow>
    ('s \<times> 'a Subnet_scheme, Lease4 option) eff" where
  "allocate4_body e mgr now clientid hwaddr hint fake =
     (case hwaddr of
        None \<Rightarrow> throwS InvalidOperation
      | Some h \<Rightarrow>
          bindS (askS (\<lambda>st. getLease4_hwaddr_subnet mgr h (sn_id (snd st)) (fst st))) (\<lambda>existing.
          case existing of
            Some l \<Rightarrow> bindS (renewLease4 mgr now clientid h l fake) (\<lambda>l'. retS (Some l'))
          | None \<Rightarrow>
              bindS (case clientid of
                  None \<Rightarrow> retS None
                | Some c \<Rightarrow> askS (\<lambda>st. getLease4_clientid_subnet mgr c (sn_id (snd st)) (fst st))) (\<lambda>existing.
              case existing of
                Some l \<Rightarrow> bindS (renewLease4 mgr now clientid h l fake) (\<lambda>l'. retS (Some l'))
              | None \<Rightarrow>
                  bindS (askS (\<lambda>st. Subnet_inPool (snd st) hint)) (\<lambda>usable.
                  bindS (if usable then try_address4 mgr now clientid h fake hint else retS None) (\<lambda>lease.
                  case lease of
                    Some l \<Rightarrow> retS (Some l)
                  | None \<Rightarrow> alloc_loop e (try_address4 mgr now clientid h fake))))))"

definition allocateAddress4 ::
  "AllocEngine \<Rightarrow> 's LeaseMgr \<Rightarrow> int \<Rightarrow> ClientId option \<Rightarrow> HWAddr option \<Rightarrow> ioaddress \<Rightarrow> bool \<Rightarrow>
    ('s \<times> 'a Subnet_scheme option, Lease4 option) eff" where
  "allocateAddress4 e mgr now clientid hwaddr hint fake st =
     (case snd st of
        None \<Rightarrow> catchS (throwS InvalidOperation) (\<lambda>_. retS None) st
      | Some sn \<Rightarrow>
          (case catchS (allocate4_body e mgr now clientid hwaddr hint fake) (\<lambda>_. retS None) (fst st, sn) of
             (r, (s', sn')) \<Rightarrow> (r, (s', Some sn'))))"

section \<open>IPv6 leases\<close>

definition reused6 :: "Subnet6 \<Rightarrow> DUID option \<Rightarrow> u32 \<Rightarrow> int \<Rightarrow> Lease6 \<Rightarrow> Lease6" where
  "reused6 sn duid iaid now l =
     l\<lparr>l6_iaid := iaid, l6_duid := duid, l6_preferred_lft := tr_default (sn_preferred sn),
       l_valid_lft := tr_default (sn_valid sn), l_t1 := tr_default (sn_t1 sn), l_t2 := tr_default (sn_t2 sn),
       l_cltt := now, l_subnet_id := sn_id sn, l_fixed := False, l_hostname := [], l_fqdn_fwd := False,
       l_fqdn_rev := False\<rparr>"

definition reuseExpiredLease6 ::
  "'s LeaseMgr \<Rightarrow> int \<Rightarrow> Lease6 \<Rightarrow> DUID option \<Rightarrow> u32 \<Rightarrow> bool \<Rightarrow> ('s \<times> Subnet6, Lease6) eff" where
  "reuseExpiredLease6 mgr now lease duid iaid fake =
     (if \<not> expired now lease then throwS BadValue
      else bindS (askS (\<lambda>st. Inr (reused6 (snd st) duid iaid now lease))) (\<lambda>l.
        thenS (dbS (modS (assign6 mgr l)))
          (thenS (if fake then retS () else dbS (updateLease6 mgr l)) (retS l))))"

definition createLease6 ::
  "'s LeaseMgr \<Rightarrow> int \<Rightarrow> DUID option \<Rightarrow> u32 \<Rightarrow> ioaddress \<Rightarrow> bool \<Rightarrow> ('s \<times> Subnet6, Lease6 option) eff" where
  "createLease6 mgr now duid iaid addr fake =
     bindS (askS (\<lambda>st. let sn = snd st in
       mk_Lease6 LEASE_IA_NA addr duid iaid (tr_default (sn_preferred sn)) (tr_default (sn_valid sn))
         (tr_default (sn_t1 sn)) (tr_default (sn_t2 sn)) (sn_id sn) 0 now)) (\<lambda>lease.
     if \<not> fake then
       bindS (dbS (addLease6 mgr lease)) (\<lambda>status. if status then retS (Some lease) else retS None)
     else
       bindS (dbS (askS (getLease6 mgr addr))) (\<lambda>existing.
         if existing = None then retS (Some lease) else retS None))"

definition try_address6 ::
  "'s LeaseMgr \<Rightarrow> int \<Rightarrow> DUID option \<Rightarrow> u32 \<Rightarrow> bool \<Rightarrow> ioaddress \<Rightarrow> ('s \<times> Subnet6, Lease6 option) eff" where
  "try_address6 mgr now duid iaid fake addr =
     bindS (dbS (askS (getLease6 mgr addr))) (\<lambda>existing.
       case existing of
         None \<Rightarrow> createLease6 mgr now duid iaid addr fake
       | Some l \<Rightarrow>
           if expired now l then bindS (reuseExpiredLease6 mgr now l duid iaid fake) (\<lambda>l'. retS (Some l'))
           else retS None)"

definition allocate6_body ::
  "AllocEngine \<Rightarrow> 's LeaseMgr \<Rightarrow> int \<Rightarrow> DUID option \<Rightarrow> u32 \<Rightarrow> ioaddress \<Rightarrow> bool \<Rightarrow>
    ('s \<times> Subnet6, Lease6 option) eff" where
  "allocate6_body e mgr now duid iaid hint fake =
     (case duid of
        None \<Rightarrow> throwS InvalidOperation
      | Some d \<Rightarrow>
          bindS (askS (\<lambda>st. getLease6_duid_iaid_subnet mgr d iaid (sn_id (snd st)) (fst st))) (\<lambda>existing.
          case existing of
            Some l \<Rightarrow> retS (Some l)
          | None \<Rightarrow>
              bindS (askS (\<lambda>st. Subnet_inPool (snd st) hint)) (\<lambda>usable.
              bindS (if usable then try_address6 mgr now duid iaid fake hint else retS None) (\<lambda>lease.
              case lease of
                Some l \<Rightarrow> retS (Some l)
              | None \<Rightarrow> alloc_loop e (try_address6 mgr now duid iaid fake)))))"

definition allocateAddress6 ::
  "AllocEngine \<Rightarrow> 's LeaseMgr \<Rightarrow> int \<Rightarrow> DUID option \<Rightarrow> u32 \<Rightarrow> ioaddress \<Rightarrow> bool \<Rightarrow>
    ('s \<times> Subnet6 option, Lease6 option) eff" where
  "allocateAddress6 e mgr now duid iaid hint fake st =
     (case snd st of
        None \<Rightarrow> catchS (throwS InvalidOperation) (\<lambda>_. retS None) st
      | Some sn \<Rightarrow>
          (case catchS (allocate6_body e mgr now duid iaid hint fake) (\<lambda>_. retS None) (fst st, sn) of
             (r, (s', sn')) \<Rightarrow> (r, (s', Some sn'))))"

end
