(* ===== verification/Allocator.thy ===== *)
theory Allocator
  imports Alloc_Engine
begin

text \<open>
  What the iterative allocator enumerates. The reference order is the list \<open>all_addrs\<close> of the
  addresses of the pools, pool after pool; the allocator, which only remembers the last address it
  gave, walks through this list and starts over at its end.
\<close>

section \<open>The successor of an address\<close>

lemma length_inc_bytes [simp]: "length (inc_bytes bs) = length bs"
  by (induction bs) auto

lemma be_val_inc: "be_val (rev (inc_bytes (rev bs))) = (be_val bs + 1) mod 256 ^ length bs"
proof (induction bs rule: rev_induct)
  case Nil
  then show ?case by simp
next
  case (snoc b bs)
  show ?case
  proof (cases "b + 1 = 0")
    case False
    then have u: "unat (b + 1) = unat b + 1" using unatSuc [of b] by (simp add: add.commute)
    then have "unat b + 1 < 256" using unat_u8_less [of "b + 1"] by simp
    then have "be_val (bs @ [b]) + 1 < 256 ^ length (bs @ [b])"
      using be_val_less [of bs] by (simp add: be_val_append be_val_Cons)
    with False u show ?thesis by (simp add: be_val_append be_val_Cons)
  next
    case True
    then have "b = - 1" by (simp add: eq_neg_iff_add_eq_0)
    then have "unat b = 255" by (simp add: unsigned_minus_1_eq_mask mask_eq_exp_minus_1)
    then have "be_val (bs @ [b]) + 1 = (be_val bs + 1) * 256" by (simp add: be_val_append be_val_Cons)
    moreover have "be_val (rev (inc_bytes (rev (bs @ [b])))) = ((be_val bs + 1) mod 256 ^ length bs) * 256"
      using True snoc.IH by (simp add: be_val_append be_val_Cons)
    ultimately show ?thesis by (metis length_append_singleton mult_mod_left power_Suc2)
  qed
qed

definition addr_like :: "ioaddress \<Rightarrow> nat \<Rightarrow> ioaddress" where
  "addr_like a n = (case a of IPv4 _ \<Rightarrow> IPv4 (word_of_nat n) | IPv6 _ \<Rightarrow> IPv6 (word_of_nat n))"

lemma addr_like_family [simp]: "same_family (addr_like a n) a" "addr_bits (addr_like a n) = addr_bits a"
  by (cases a; simp add: addr_like_def same_family_def)+

lemma addr_val_like: "n < 2 ^ addr_bits a \<Longrightarrow> addr_val (addr_like a n) = n"
  by (cases a) (simp_all add: addr_like_def unat_of_nat take_bit_nat_eq_self)

lemma addr_like_val: "same_family b a \<Longrightarrow> addr_like a (addr_val b) = b"
  by (cases a; cases b) (simp_all add: addr_like_def same_family_def)

lemma addr_like_eq: "same_family a b \<Longrightarrow> addr_like a n = addr_like b n"
  by (cases a; cases b) (simp_all add: addr_like_def same_family_def)

lemma fromBytes_like:
  "length bs = addr_bits a div 8 \<Longrightarrow> fromBytes (getFamily a) bs = Inr (addr_like a (be_val bs))"
  by (cases a) (simp_all add: fromBytes_def addr_like_def)

lemma increaseAddress_eq: "increaseAddress a = Inr (addr_like a ((addr_val a + 1) mod 2 ^ addr_bits a))"
proof -
  have "(256 :: nat) ^ (addr_bits a div 8) = 2 ^ addr_bits a" by (cases a) simp_all
  then show ?thesis
    using be_val_inc [of "toBytes a"] fromBytes_like [of "rev (inc_bytes (rev (toBytes a)))" a]
    by (simp add: increaseAddress_def length_toBytes be_val_toBytes)
qed

section \<open>The addresses of the pools\<close>

definition pool_addrs :: "Pool \<Rightarrow> ioaddress list" where
  "pool_addrs p = map (addr_like (pool_first p)) [addr_val (pool_first p)..<Suc (addr_val (pool_last p))]"

definition all_addrs :: "'a Subnet_scheme \<Rightarrow> ioaddress list" where
  "all_addrs sn = concat (map pool_addrs (sn_pools sn))"

lemma length_pool_addrs:
  "length (pool_addrs p) = Suc (addr_val (pool_last p)) - addr_val (pool_first p)"
  by (simp add: pool_addrs_def del: upt_Suc)

lemma nth_pool_addrs:
  "j < length (pool_addrs p) \<Longrightarrow> pool_addrs p ! j = addr_like (pool_first p) (addr_val (pool_first p) + j)"
  by (simp add: pool_addrs_def del: upt_Suc)

lemma wf_pool_val:
  assumes "wf_pool prefix len p"
  shows "addr_val (pool_first p) \<le> addr_val (pool_last p)" "addr_val (pool_last p) < 2 ^ addr_bits (pool_first p)"
    "same_family (pool_last p) (pool_first p)"
proof -
  show f: "same_family (pool_last p) (pool_first p)"
    using assms by (auto simp: wf_pool_def same_family_def)
  then have "addr_bits (pool_last p) = addr_bits (pool_first p)"
    by (cases "pool_last p"; cases "pool_first p") (auto simp: same_family_def)
  then show "addr_val (pool_last p) < 2 ^ addr_bits (pool_first p)"
    using addr_val_less [of "pool_last p"] by simp
qed (use assms in \<open>simp add: wf_pool_def\<close>)

lemma pool_addrs_nonempty: "wf_pool prefix len p \<Longrightarrow> pool_addrs p \<noteq> []"
  using wf_pool_val(1) [of prefix len p] length_pool_addrs [of p] by (auto simp flip: length_greater_0_conv)

lemma hd_pool_addrs: "wf_pool prefix len p \<Longrightarrow> pool_addrs p ! 0 = pool_first p"
  using wf_pool_val(1) [of prefix len p]
  by (simp add: nth_pool_addrs length_pool_addrs addr_like_val same_family_def)

lemma Pool_inRange_set:
  assumes "wf_pool prefix len p"
  shows "Pool_inRange p a \<longleftrightarrow> a \<in> set (pool_addrs p)"
proof
  assume "Pool_inRange p a"
  then have a: "same_family a (pool_first p)" "addr_val (pool_first p) \<le> addr_val a" "addr_val a \<le> addr_val (pool_last p)"
    using assms by (auto simp: Pool_inRange_wf wf_pool_def same_family_def)
  then have "a = addr_like (pool_first p) (addr_val a)" by (simp add: addr_like_val)
  moreover have "addr_val a \<in> set [addr_val (pool_first p)..<Suc (addr_val (pool_last p))]"
    using a by (simp del: upt_Suc)
  ultimately show "a \<in> set (pool_addrs p)" unfolding pool_addrs_def by (metis image_eqI set_map)
next
  assume "a \<in> set (pool_addrs p)"
  then obtain n where n: "a = addr_like (pool_first p) n" "addr_val (pool_first p) \<le> n" "n \<le> addr_val (pool_last p)"
    by (auto simp: pool_addrs_def)
  moreover from n have "addr_val a = n"
    using wf_pool_val(2) [OF assms] by (simp add: addr_val_like)
  moreover have "same_family a prefix"
    using n(1) assms addr_like_family(1) [of "pool_first p" n] by (auto simp: wf_pool_def same_family_def)
  ultimately show "Pool_inRange p a" using assms by (simp add: Pool_inRange_wf)
qed


section \<open>One step of the allocator\<close>

text \<open>The pools do not overlap: what the allocator needs, and \<^verbatim>\<open>addPool\<close> does not check.\<close>

definition disjoint_pools :: "'a Subnet_scheme \<Rightarrow> bool" where
  "disjoint_pools sn \<longleftrightarrow> distinct (all_addrs sn)"

lemma all_addrs_split:
  "sn_pools sn = pre @ p # post \<Longrightarrow>
     all_addrs sn = concat (map pool_addrs pre) @ pool_addrs p @ concat (map pool_addrs post)"
  by (simp add: all_addrs_def)

lemma hd_all_addrs:
  assumes "wf_subnet u sn" "sn_pools sn \<noteq> []"
  shows "all_addrs sn ! 0 = pool_first (hd (sn_pools sn))"
proof -
  obtain p ps where ps: "sn_pools sn = p # ps" using assms(2) by (cases "sn_pools sn") auto
  then have "wf_pool (sn_prefix sn) (sn_prefix_len sn) p" using assms(1) by (simp add: wf_subnet_def)
  then show ?thesis using ps hd_pool_addrs pool_addrs_nonempty by (fastforce simp: all_addrs_def nth_append)
qed

lemma pickAddress_outside:
  assumes "wf_subnet u sn" "sn_pools sn \<noteq> []" "sn_last_allocated sn \<notin> set (all_addrs sn)"
  shows "pickAddress sn = (Inr (all_addrs sn ! 0), setLastAllocated (all_addrs sn ! 0) sn)"
proof -
  obtain p ps where ps: "sn_pools sn = p # ps" using assms(2) by (cases "sn_pools sn") auto
  have wf: "q \<in> set (sn_pools sn) \<Longrightarrow> wf_pool (sn_prefix sn) (sn_prefix_len sn) q" for q
    using assms(1) by (simp add: wf_subnet_def list_all_iff)
  have "\<not> Pool_inRange q (sn_last_allocated sn)" if "q \<in> set (sn_pools sn)" for q
    using assms(3) that Pool_inRange_set [OF wf [OF that]] by (auto simp: all_addrs_def)
  then have "dropWhile (\<lambda>q. \<not> Pool_inRange q (sn_last_allocated sn)) (sn_pools sn) = []"
    by (simp add: dropWhile_eq_Nil_conv)
  moreover have "all_addrs sn ! 0 = pool_first p"
    using hd_all_addrs [OF assms(1,2)] ps by simp
  ultimately show ?thesis using ps by (simp add: pickAddress_def Let_def)
qed

lemma dropWhile_split:
  assumes "xs = pre @ x # post" "\<not> P x" "\<forall>y\<in>set pre. P y"
  shows "dropWhile P xs = x # post"
  using assms by (simp add: dropWhile_append)

lemma pickAddress_in_pool:
  assumes sn: "sn_pools sn = pre @ it # post" "sn_last_allocated sn = a"
    and it: "Pool_inRange it a" and pre: "\<forall>p\<in>set pre. \<not> Pool_inRange p a"
    and nxt: "nxt = addr_like a ((addr_val a + 1) mod 2 ^ addr_bits a)"
  shows "pickAddress sn =
    (let r = (if Pool_inRange it nxt then nxt
              else if post = [] then pool_first (hd (sn_pools sn)) else pool_first (hd post))
     in (Inr r, setLastAllocated r sn))"
proof -
  have "dropWhile (\<lambda>p. \<not> Pool_inRange p a) (sn_pools sn) = it # post"
    by (rule dropWhile_split [OF sn(1)]) (use it pre in auto)
  moreover have "sn_pools sn = hd (sn_pools sn) # tl (sn_pools sn)" using sn(1) by simp
  ultimately show ?thesis
    using sn(2) nxt
    by (cases "sn_pools sn"; cases post) (auto simp: pickAddress_def Let_def increaseAddress_eq)
qed


lemma whole_pool_alone:
  assumes wf: "\<forall>p\<in>set (pre @ it # post). wf_pool prefix len p"
    and dist: "distinct (concat (map pool_addrs (pre @ it # post)))"
    and whole: "addr_val (pool_first it) = 0" "addr_val (pool_last it) + 1 = 2 ^ addr_bits (pool_first it)"
  shows "pre = [] \<and> post = []"
proof -
  have in_it: "b \<in> set (pool_addrs it)" if "same_family b prefix" for b
  proof -
    have "same_family b (pool_first it)" using wf that by (auto simp: wf_pool_def same_family_def)
    then have "addr_bits b = addr_bits (pool_first it)"
      by (cases b; cases "pool_first it") (auto simp: same_family_def)
    then have "addr_val b \<le> addr_val (pool_last it)" using addr_val_less [of b] whole(2) by simp
    then show ?thesis
      using that wf whole(1) Pool_inRange_set [of prefix len it b] by (simp add: Pool_inRange_wf [of prefix len])
  qed
  have "q \<notin> set pre \<union> set post" for q
  proof -
    have False if q: "q \<in> set pre \<union> set post"
    proof -
      have wfq: "wf_pool prefix len q" using wf q by auto
      then have "pool_first q \<in> set (pool_addrs q)" "pool_first q \<in> set (pool_addrs it)"
        using hd_pool_addrs [OF wfq] pool_addrs_nonempty [OF wfq] in_it [of "pool_first q"] nth_mem [of 0 "pool_addrs q"]
        by (auto simp: wf_pool_def)
      with q dist show False by auto
    qed
    then show ?thesis by blast
  qed
  then have "\<forall>q. q \<notin> set pre \<union> set post" by (intro allI)
  then show ?thesis by (cases pre; cases post) auto
qed

lemma succ_in_pool:
  assumes wf: "wf_pool prefix len it" and j: "j < length (pool_addrs it)" "a = pool_addrs it ! j"
    and nxt: "nxt = addr_like a ((addr_val a + 1) mod 2 ^ addr_bits a)"
  shows "Suc j < length (pool_addrs it) \<Longrightarrow> nxt = pool_addrs it ! Suc j"
    and "Suc j = length (pool_addrs it) \<Longrightarrow> Pool_inRange it nxt \<Longrightarrow>
      addr_val (pool_first it) = 0 \<and> addr_val (pool_last it) + 1 = 2 ^ addr_bits (pool_first it) \<and> nxt = pool_first it"
proof -
  let ?f = "addr_val (pool_first it)"
  have len: "length (pool_addrs it) = Suc (addr_val (pool_last it)) - ?f" by (rule length_pool_addrs)
  have a: "a = addr_like (pool_first it) (?f + j)" using j by (simp add: nth_pool_addrs)
  have bits: "addr_bits a = addr_bits (pool_first it)" and fam: "same_family a (pool_first it)" using a by simp_all
  have lt: "?f + j \<le> addr_val (pool_last it)" using j(1) len by linarith
  then have "?f + j < 2 ^ addr_bits (pool_first it)" using wf_pool_val(2) [OF wf] by linarith
  then have val: "addr_val a = ?f + j" using a by (simp add: addr_val_like)
  have nxt': "nxt = addr_like (pool_first it) ((?f + j + 1) mod 2 ^ addr_bits (pool_first it))"
    using nxt val bits addr_like_eq [OF fam] by simp
  show "nxt = pool_addrs it ! Suc j" if "Suc j < length (pool_addrs it)"
  proof -
    have "?f + j + 1 < 2 ^ addr_bits (pool_first it)"
      using that len wf_pool_val(2) [OF wf] by linarith
    then show ?thesis using nxt' that by (simp add: nth_pool_addrs)
  qed
  show "?f = 0 \<and> addr_val (pool_last it) + 1 = 2 ^ addr_bits (pool_first it) \<and> nxt = pool_first it"
    if "Suc j = length (pool_addrs it)" "Pool_inRange it nxt"
  proof -
    have last: "?f + j = addr_val (pool_last it)" using that(1) len lt by linarith
    have in_r: "?f \<le> addr_val nxt" "addr_val nxt \<le> addr_val (pool_last it)"
      using that(2) Pool_inRange_wf [OF wf] by auto
    have "\<not> ?f + j + 1 < 2 ^ addr_bits (pool_first it)"
      using in_r nxt' last by (auto simp: addr_val_like)
    then have full: "?f + j + 1 = 2 ^ addr_bits (pool_first it)"
      using wf_pool_val(2) [OF wf] last by linarith
    then have "nxt = addr_like (pool_first it) 0" using nxt' by simp
    moreover from this in_r have f0: "?f = 0" by (simp add: addr_val_like)
    ultimately show ?thesis
      using full last addr_like_val [of "pool_first it" "pool_first it"] by (simp add: same_family_def)
  qed
qed


text \<open>Where an address of a pool stands in the list of all addresses.\<close>

lemma last_position:
  assumes "wf_subnet u sn" "i < length (all_addrs sn)" "disjoint_pools sn"
  obtains pre it post j where "sn_pools sn = pre @ it # post" "j < length (pool_addrs it)"
    "all_addrs sn ! i = pool_addrs it ! j" "i = length (concat (map pool_addrs pre)) + j"
    "\<forall>p\<in>set pre. \<not> Pool_inRange p (all_addrs sn ! i)" "Pool_inRange it (all_addrs sn ! i)"
proof -
  let ?a = "all_addrs sn ! i"
  have wf: "q \<in> set (sn_pools sn) \<Longrightarrow> wf_pool (sn_prefix sn) (sn_prefix_len sn) q" for q
    using assms(1) by (simp add: wf_subnet_def list_all_iff)
  have "?a \<in> set (all_addrs sn)" using assms(2) by simp
  then have "\<exists>q\<in>set (sn_pools sn). Pool_inRange q ?a"
    using Pool_inRange_set wf by (fastforce simp: all_addrs_def)
  then obtain pre it post where sp: "sn_pools sn = pre @ it # post" "Pool_inRange it ?a"
      "\<forall>p\<in>set pre. \<not> Pool_inRange p ?a"
    by (rule split_list_first_propE)
  then have "?a \<in> set (pool_addrs it)" using Pool_inRange_set [OF wf [of it]] by simp
  then obtain j where j: "j < length (pool_addrs it)" "?a = pool_addrs it ! j" by (metis in_set_conv_nth)
  let ?k = "length (concat (map pool_addrs pre)) + j"
  have "all_addrs sn ! ?k = ?a" "?k < length (all_addrs sn)"
    using j all_addrs_split [OF sp(1)] by (simp_all add: nth_append)
  then have "i = ?k" using assms(2,3) by (simp add: disjoint_pools_def nth_eq_iff_index_eq)
  with sp j that show thesis by blast
qed

lemma pickAddress_next:
  assumes wf: "wf_subnet u sn" and dist: "disjoint_pools sn"
    and i: "i < length (all_addrs sn)" "sn_last_allocated sn = all_addrs sn ! i"
    and r: "r = all_addrs sn ! (Suc i mod length (all_addrs sn))"
  shows "pickAddress sn = (Inr r, setLastAllocated r sn)"
proof -
  obtain pre it post j where sp: "sn_pools sn = pre @ it # post" "j < length (pool_addrs it)"
    "all_addrs sn ! i = pool_addrs it ! j" "i = length (concat (map pool_addrs pre)) + j"
    "\<forall>p\<in>set pre. \<not> Pool_inRange p (all_addrs sn ! i)" "Pool_inRange it (all_addrs sn ! i)"
    using last_position [OF wf i(1) dist] .
  let ?a = "all_addrs sn ! i"
  have wfp: "q \<in> set (sn_pools sn) \<Longrightarrow> wf_pool (sn_prefix sn) (sn_prefix_len sn) q" for q
    using wf by (simp add: wf_subnet_def list_all_iff)
  have wfit: "wf_pool (sn_prefix sn) (sn_prefix_len sn) it" using wfp sp(1) by simp
  define nxt where "nxt = addr_like ?a ((addr_val ?a + 1) mod 2 ^ addr_bits ?a)"
  note succ = succ_in_pool [OF wfit sp(2,3) nxt_def]
  have "(if Pool_inRange it nxt then nxt
         else if post = [] then pool_first (hd (sn_pools sn)) else pool_first (hd post)) = r"
  proof (cases "Suc j < length (pool_addrs it)")
    case True
    then have "nxt = all_addrs sn ! Suc i" "Suc i < length (all_addrs sn)" "nxt \<in> set (pool_addrs it)"
      using succ(1) [OF True] sp(4) all_addrs_split [OF sp(1)] by (auto simp: nth_append)
    then show ?thesis using r Pool_inRange_set [OF wfit] by simp
  next
    case False
    then have end_it: "Suc j = length (pool_addrs it)" using sp(2) by simp
    have hd0: "all_addrs sn ! 0 = pool_first (hd (sn_pools sn))"
      using hd_all_addrs [OF wf] sp(1) by simp
    show ?thesis
    proof (cases "Pool_inRange it nxt")
      case True
      then have "pre = [] \<and> post = []"
        using whole_pool_alone [of pre it post "sn_prefix sn" "sn_prefix_len sn"] succ(2) [OF end_it True] wfp sp(1) dist
        by (simp add: disjoint_pools_def all_addrs_def)
      with True succ(2) [OF end_it True] hd0 r sp(1,4) end_it show ?thesis by (simp add: all_addrs_def)
    next
      case False
      show ?thesis
      proof (cases post)
        case Nil
        then have "Suc i = length (all_addrs sn)" using sp(4) end_it all_addrs_split [OF sp(1)] by simp
        with False Nil hd0 r show ?thesis by simp
      next
        case (Cons q qs)
        have "all_addrs sn ! Suc i = pool_first q" "Suc i < length (all_addrs sn)"
          using sp(4) end_it all_addrs_split [OF sp(1)] Cons hd_pool_addrs [OF wfp [of q]]
            pool_addrs_nonempty [OF wfp [of q]] sp(1)
          by (auto simp: nth_append)
        with False Cons r show ?thesis by simp
      qed
    qed
  qed
  then show ?thesis
    using pickAddress_in_pool [OF sp(1) i(2) sp(6) sp(5) nxt_def] by (simp add: Let_def)
qed


section \<open>Successive candidates\<close>

fun picks :: "nat \<Rightarrow> 'a Subnet_scheme \<Rightarrow> ioaddress result list" where
  "picks 0 sn = []"
| "picks (Suc n) sn = (case pickAddress sn of (r, sn') \<Rightarrow> r # picks n sn')"

definition first_index :: "'a Subnet_scheme \<Rightarrow> nat" where
  "first_index sn =
     (if sn_last_allocated sn \<in> set (all_addrs sn)
      then Suc (length (takeWhile (\<lambda>a. a \<noteq> sn_last_allocated sn) (all_addrs sn))) mod length (all_addrs sn)
      else 0)"

lemma all_addrs_nonempty:
  "wf_subnet u sn \<Longrightarrow> sn_pools sn \<noteq> [] \<Longrightarrow> 0 < length (all_addrs sn)"
  using pool_addrs_nonempty by (cases "sn_pools sn") (auto simp: all_addrs_def wf_subnet_def)

lemma all_addrs_update [simp]:
  "all_addrs (setLastAllocated a sn) = all_addrs sn" "disjoint_pools (setLastAllocated a sn) = disjoint_pools sn"
  "sn_pools (setLastAllocated a sn) = sn_pools sn" "sn_last_allocated (setLastAllocated a sn) = a"
  "sn_id (setLastAllocated a sn) = sn_id sn"
  by (simp_all add: setLastAllocated_def all_addrs_def disjoint_pools_def)

lemma first_index_less: "0 < length (all_addrs sn) \<Longrightarrow> first_index sn < length (all_addrs sn)"
  by (simp add: first_index_def)

lemma pickAddress_first:
  assumes "wf_subnet u sn" "disjoint_pools sn" "sn_pools sn \<noteq> []"
  shows "pickAddress sn = (Inr (all_addrs sn ! first_index sn), setLastAllocated (all_addrs sn ! first_index sn) sn)"
proof (cases "sn_last_allocated sn \<in> set (all_addrs sn)")
  case True
  let ?i = "length (takeWhile (\<lambda>a. a \<noteq> sn_last_allocated sn) (all_addrs sn))"
  have i: "?i < length (all_addrs sn)"
    using True by (metis (mono_tags, lifting) length_takeWhile_le nat_less_le takeWhile_eq_all_conv takeWhile_eq_take take_all_iff order_refl)
  then have "sn_last_allocated sn = all_addrs sn ! ?i"
    using nth_length_takeWhile [of "\<lambda>a. a \<noteq> sn_last_allocated sn" "all_addrs sn"] by simp
  then show ?thesis
    using pickAddress_next [OF assms(1,2) i] True by (simp add: first_index_def)
next
  case False
  then show ?thesis using pickAddress_outside [OF assms(1,3)] by (simp add: first_index_def)
qed

lemma first_index_set:
  assumes "disjoint_pools sn" "i < length (all_addrs sn)"
  shows "first_index (setLastAllocated (all_addrs sn ! i) sn) = Suc i mod length (all_addrs sn)"
proof -
  have "takeWhile (\<lambda>a. a \<noteq> all_addrs sn ! i) (all_addrs sn) = take i (all_addrs sn)"
    by (rule takeWhile_eq_take_P_nth) (use assms in \<open>auto simp: disjoint_pools_def nth_eq_iff_index_eq\<close>)
  with assms(2) show ?thesis by (simp add: first_index_def)
qed

lemma picks_cycle:
  assumes "wf_subnet u sn" "disjoint_pools sn" "sn_pools sn \<noteq> []"
  shows "picks n sn = map (\<lambda>k. Inr (all_addrs sn ! ((first_index sn + k) mod length (all_addrs sn)))) [0..<n]"
  using assms
proof (induction n arbitrary: sn)
  case (Suc n)
  let ?i = "first_index sn" and ?L = "length (all_addrs sn)"
  let ?sn = "setLastAllocated (all_addrs sn ! ?i) sn"
  have i: "?i < ?L" using first_index_less all_addrs_nonempty Suc.prems(1,3) by blast
  have "picks n ?sn = map (\<lambda>k. Inr (all_addrs sn ! ((Suc ?i mod ?L + k) mod ?L))) [0..<n]"
    using Suc.IH [of ?sn] Suc.prems first_index_set [OF Suc.prems(2) i] by (simp add: wf_intros)
  also have "\<dots> = map (\<lambda>k. Inr (all_addrs sn ! ((?i + Suc k) mod ?L))) [0..<n]"
    by (simp add: mod_add_left_eq)
  finally show ?case
    using pickAddress_first [OF Suc.prems] i by (simp add: upt_conv_Cons map_Suc_upt [symmetric] del: upt_Suc)
qed simp

text \<open>C31. The iterative allocator implements the cyclic enumeration of the addresses of the pools: from
  any last allocated address on, the successive candidates are the consecutive elements of the list
  of all pool addresses, starting over at its end. So every window of as many candidates as there
  are addresses contains each of them exactly once. Carries between the bytes of an address and the
  jumps from pool to pool are all covered; the pools must not overlap.\<close>

theorem allocator_cycles:
  assumes "wf_subnet u sn" "disjoint_pools sn" "sn_pools sn \<noteq> []"
  shows "picks n sn = map (\<lambda>k. Inr (all_addrs sn ! ((first_index sn + k) mod length (all_addrs sn)))) [0..<n] \<and>
    (n = length (all_addrs sn) \<longrightarrow> distinct (picks n sn) \<and> set (picks n sn) = Inr ` set (all_addrs sn))"
proof (intro conjI impI)
  let ?L = "length (all_addrs sn)" and ?i = "first_index sn"
  show 1: "picks n sn = map (\<lambda>k. Inr (all_addrs sn ! ((?i + k) mod ?L))) [0..<n]"
    using assms by (rule picks_cycle)
  have i: "?i < ?L" using first_index_less all_addrs_nonempty assms(1,3) by blast
  assume n: "n = ?L"
  have rot: "picks n sn = map Inr (rotate ?i (all_addrs sn))"
    unfolding 1 by (rule nth_equalityI) (use n in \<open>auto simp: nth_rotate add.commute\<close>)
  show "distinct (picks n sn)" using assms(2) by (simp add: rot distinct_map disjoint_pools_def inj_on_def)
  show "set (picks n sn) = Inr ` set (all_addrs sn)" by (simp add: rot)
qed


lemma example_all_addrs: "all_addrs example_subnet4 = [IPv4 0xc0000264, IPv4 0xc0000265, IPv4 0xc0000266]"
  by (simp add: all_addrs_def example_subnet4_def pool_addrs_def mk_Pool_def addr_like_def upt_rec)

lemma example_disjoint: "disjoint_pools example_subnet4"
  by (simp add: disjoint_pools_def example_all_addrs)

lemma example_wf: "wf_subnet UV4 example_subnet4"
  by (rule built_subnet4_wf) (rule built_example_subnet4)

theorem allocator_cycles_witness:
  "picks 4 example_subnet4 =
     [Inr (IPv4 0xc0000264), Inr (IPv4 0xc0000265), Inr (IPv4 0xc0000266), Inr (IPv4 0xc0000264)]"
proof -
  have "first_index example_subnet4 = 0"
    by (simp add: first_index_def example_all_addrs) (simp add: example_subnet4_def)
  moreover have "sn_pools example_subnet4 \<noteq> []" by (simp add: example_subnet4_def)
  ultimately show ?thesis
    using allocator_cycles [OF example_wf example_disjoint, of 4] by (simp add: example_all_addrs upt_rec)
qed

end
