(* ===== verification/Alloc_Safety.thy ===== *)
theory Alloc_Safety
  imports Allocator
begin

text \<open>
  Which leases the allocation engine grants and what it does to the database. The results are proved
  once for any backend that keeps the contract \<open>lease_store\<close> (the locales \<open>lease_db4\<close> and
  \<open>lease_db6\<close>) and hold for the in-memory one by interpretation.
\<close>

section \<open>Specification\<close>

text \<open>\<open>stored fake L L' l\<close>: how a granted lease changes the content of the database. A fake allocation
  (DISCOVER, SOLICIT) should not change it, but a lease that was looked up is assigned to, and a
  backend that hands out its own objects then has the change.\<close>

definition stored :: "bool \<Rightarrow> (ioaddress \<rightharpoonup> 'a Lease_scheme) \<Rightarrow> (ioaddress \<rightharpoonup> 'a Lease_scheme) \<Rightarrow> 'a Lease_scheme \<Rightarrow> bool" where
  "stored fake L L' l \<longleftrightarrow> L' = L(l_addr l \<mapsto> l) \<or> fake \<and> L' = L"

text \<open>An address may be given away when nobody holds it or its lease has expired.\<close>

definition available :: "int \<Rightarrow> (ioaddress \<rightharpoonup> 'a Lease_scheme) \<Rightarrow> ioaddress \<Rightarrow> bool" where
  "available now L a \<longleftrightarrow> (case L a of None \<Rightarrow> True | Some old \<Rightarrow> expired now old)"

definition lifetimes :: "'b Subnet_scheme \<Rightarrow> int \<Rightarrow> 'a Lease_scheme \<Rightarrow> bool" where
  "lifetimes sn now l \<longleftrightarrow> l_subnet_id l = sn_id sn \<and> l_cltt l = now \<and> l_t1 l = tr_default (sn_t1 sn) \<and>
     l_t2 l = tr_default (sn_t2 sn) \<and> l_valid_lft l = tr_default (sn_valid sn)"

definition bound4 :: "ClientId option \<Rightarrow> HWAddr \<Rightarrow> Lease4 \<Rightarrow> bool" where
  "bound4 clientid h l \<longleftrightarrow> l4_client_id l = clientid \<and> l4_hwaddr l = hwaddr_bytes h"

definition bound6 :: "DUID \<Rightarrow> u32 \<Rightarrow> Lease6 \<Rightarrow> bool" where
  "bound6 duid iaid l \<longleftrightarrow> l6_duid l = Some duid \<and> l6_iaid l = iaid"

fun keys4 :: "ClientId option \<Rightarrow> HWAddr \<Rightarrow> u32 \<Rightarrow> client4 set" where
  "keys4 None h i = {ByHwaddr h i}"
| "keys4 (Some c) h i = {ByHwaddr h i, ByClientId c i}"

definition wf_client :: "ClientId option \<Rightarrow> bool" where
  "wf_client clientid \<longleftrightarrow> (\<forall>c. clientid = Some c \<longrightarrow> clientid_bytes c \<noteq> [])"

text \<open>The address of a granted lease: the client has it already, or it is available and in a pool.\<close>

definition grant4 :: "int \<Rightarrow> 'b Subnet_scheme \<Rightarrow> ClientId option \<Rightarrow> HWAddr \<Rightarrow> (ioaddress \<rightharpoonup> Lease4) \<Rightarrow> Lease4 \<Rightarrow> bool" where
  "grant4 now sn clientid h L l \<longleftrightarrow> lifetimes sn now l \<and> bound4 clientid h l \<and>
     ((\<exists>old k. L (l_addr l) = Some old \<and> k \<in> keys4 clientid h (sn_id sn) \<and> holds4 k old) \<or>
      available now L (l_addr l) \<and> Subnet_inPool sn (l_addr l) = Inr True)"

definition grant6 :: "int \<Rightarrow> Subnet6 \<Rightarrow> DUID \<Rightarrow> u32 \<Rightarrow> (ioaddress \<rightharpoonup> Lease6) \<Rightarrow> Lease6 \<Rightarrow> bool" where
  "grant6 now sn duid iaid L l \<longleftrightarrow> bound6 duid iaid l \<and> l_subnet_id l = sn_id sn \<and>
     (L (l_addr l) = Some l \<or>
      lifetimes sn now l \<and> l6_preferred_lft l = tr_default (sn_preferred sn) \<and>
      available now L (l_addr l) \<and> Subnet_inPool sn (l_addr l) = Inr True)"

section \<open>Candidates are pool addresses\<close>

lemma pickAddress_sound:
  assumes "wf_subnet u sn" "pickAddress sn = (Inr a, sn')"
  shows "sn' = setLastAllocated a sn \<and> Subnet_inPool sn a = Inr True"
proof -
  have wf: "q \<in> set (sn_pools sn) \<Longrightarrow> wf_pool (sn_prefix sn) (sn_prefix_len sn) q" for q
    using assms(1) by (simp add: wf_subnet_def list_all_iff)
  have first: "Pool_inRange q (pool_first q)" if "q \<in> set (sn_pools sn)" for q
    using wf [OF that] Pool_inRange_wf [OF wf [OF that]] by (simp add: wf_pool_def)
  obtain p ps where ps: "sn_pools sn = p # ps"
    using assms(2) by (cases "sn_pools sn") (auto simp: pickAddress_def)
  have ex: "(\<exists>q\<in>set (sn_pools sn). Pool_inRange q a) \<and> sn' = setLastAllocated a sn"
  proof (cases "dropWhile (\<lambda>p. \<not> Pool_inRange p (sn_last_allocated sn)) (sn_pools sn)")
    case Nil
    with assms(2) ps first show ?thesis by (auto simp: pickAddress_def Let_def)
  next
    case (Cons it post)
    then have "set (it # post) \<subseteq> set (sn_pools sn)" by (metis set_dropWhileD subsetI)
    with assms(2) ps first Cons show ?thesis
      by (cases post) (auto simp: pickAddress_def Let_def increaseAddress_eq split: if_splits)
  qed
  then show ?thesis using Subnet_inPool_eq [OF assms(1)] by simp
qed

lemma pickAddress_state:
  "pickAddress sn = (r, sn') \<Longrightarrow> sn' = sn \<or> (\<exists>a. sn' = setLastAllocated a sn)"
  by (auto simp: pickAddress_def Let_def split: list.splits sum.splits if_splits)

lemma setLastAllocated_same [simp]:
  "Subnet_inPool (setLastAllocated b sn) a = Subnet_inPool sn a"
  "lifetimes (setLastAllocated b sn) now l = lifetimes sn now l"
  "renewed4 (setLastAllocated b sn) = renewed4 sn" "reused4 (setLastAllocated b sn) = reused4 sn"
  "setLastAllocated b (setLastAllocated c sn) = setLastAllocated b sn"
  by (simp_all add: setLastAllocated_def Subnet_inPool_def Subnet_inRange_def lifetimes_def fun_eq_iff
      renewed4_def reused4_def cong: if_cong)

section \<open>The search, for any backend\<close>

text \<open>\<open>tries\<close> says what an attempt at one address does: it grants it, or leaves the content alone.\<close>

definition tries ::
  "('s \<Rightarrow> bool) \<Rightarrow> ('s \<Rightarrow> ioaddress \<rightharpoonup> 'a Lease_scheme) \<Rightarrow> (ioaddress \<rightharpoonup> 'a Lease_scheme) \<Rightarrow> 'b Subnet_scheme \<Rightarrow>
    (ioaddress \<Rightarrow> (ioaddress \<rightharpoonup> 'a Lease_scheme) \<Rightarrow> 'a Lease_scheme \<Rightarrow> bool) \<Rightarrow>
    (ioaddress \<Rightarrow> ('s \<times> 'b Subnet_scheme, 'a Lease_scheme option) eff) \<Rightarrow> bool" where
  "tries ok leases L sn0 Q attempt \<longleftrightarrow>
     (\<forall>a s b x t sn'. ok s \<and> leases s = L \<and> attempt a (s, setLastAllocated b sn0) = (Inr x, (t, sn')) \<longrightarrow>
        sn' = setLastAllocated b sn0 \<and> ok t \<and>
        (case x of None \<Rightarrow> leases t = L | Some l \<Rightarrow> l_addr l = a \<and> Q a (leases t) l))"

lemma search_tries:
  assumes wf: "wf_subnet u sn0" and att: "tries ok leases L sn0 Q attempt"
    and s: "ok s" "leases s = L" and run: "search attempt n (s, setLastAllocated b sn0) = (Inr x, (t, sn'))"
  shows "(\<exists>c. sn' = setLastAllocated c sn0) \<and> ok t \<and>
    (case x of None \<Rightarrow> leases t = L
     | Some l \<Rightarrow> Subnet_inPool sn0 (l_addr l) = Inr True \<and> Q (l_addr l) (leases t) l)"
  using s run
proof (induction n arbitrary: s b)
  case 0
  then show ?case by (auto simp: eff_simps)
next
  case (Suc n)
  obtain a n1 where pick: "pickAddress (setLastAllocated b sn0) = (Inr a, n1)"
    using Suc.prems(3) by (auto simp: bindS_Inr zoomS_def split: prod.splits)
  then have n1: "n1 = setLastAllocated a sn0" and pool: "Subnet_inPool sn0 a = Inr True"
    using pickAddress_sound [of u "setLastAllocated b sn0" a n1] wf by (simp_all add: wf_intros)
  obtain y s1 n2 where ty: "attempt a (s, setLastAllocated a sn0) = (Inr y, (s1, n2))"
    and rest: "(case y of Some l \<Rightarrow> retS (Some l) | None \<Rightarrow> search attempt n) (s1, n2) = (Inr x, (t, sn'))"
    using Suc.prems(3) pick n1 by (auto simp: bindS_Inr zoomS_def split: prod.splits)
  have step: "n2 = setLastAllocated a sn0 \<and> ok s1 \<and>
      (case y of None \<Rightarrow> leases s1 = L | Some l \<Rightarrow> l_addr l = a \<and> Q a (leases s1) l)"
    using att Suc.prems(1,2) ty unfolding tries_def by blast
  show ?case
  proof (cases y)
    case None
    with step rest Suc.IH [of s1 a] show ?thesis by simp
  next
    case (Some l)
    with step rest pool show ?thesis by (auto simp: eff_apply)
  qed
qed

lemma alloc_loop_tries:
  assumes "wf_subnet u sn0" "tries ok leases L sn0 Q attempt" "ok s" "leases s = L"
    and "alloc_loop e attempt (s, setLastAllocated b sn0) = (Inr x, (t, sn'))"
  shows "(\<exists>c. sn' = setLastAllocated c sn0) \<and> ok t \<and>
    (case x of None \<Rightarrow> leases t = L
     | Some l \<Rightarrow> Subnet_inPool sn0 (l_addr l) = Inr True \<and> Q (l_addr l) (leases t) l)"
proof (cases "ae_attempts e = 0")
  case True
  then obtain y s1 where "search attempt (ae_fuel e) (s, setLastAllocated b sn0) = (Inr y, s1)"
      "(case y of None \<Rightarrow> throwS OutOfFuel | Some l \<Rightarrow> retS (Some l)) s1 = (Inr x, (t, sn'))"
    using assms(5) by (auto simp: alloc_loop_def bindS_Inr)
  then have "search attempt (ae_fuel e) (s, setLastAllocated b sn0) = (Inr x, (t, sn'))"
    by (cases y) (auto simp: eff_apply)
  then show ?thesis by (rule search_tries [OF assms(1-4)])
next
  case False
  then show ?thesis using search_tries [OF assms(1-4)] assms(5) by (simp add: alloc_loop_def)
qed


lemma dbS_status:
  assumes "bindS (dbS m) (\<lambda>status. if status then retS (Some l) else retS None) (s, sn) = (Inr x, (t, sn'))"
  obtains st where "m s = (Inr st, t)" "sn' = sn" "x = (if st then Some l else None)"
proof -
  from assms obtain st s1 where 1: "dbS m (s, sn) = (Inr st, s1)"
    and 2: "(if st then retS (Some l) else retS None) s1 = (Inr x, (t, sn'))"
    unfolding bindS_Inr by blast
  from 1 have "m s = (Inr st, fst s1)" "snd s1 = sn" by (auto simp: zoomS_def split: prod.splits)
  with 2 that show thesis by (cases st) (auto simp: eff_apply)
qed

section \<open>IPv4\<close>

locale lease_db4 =
  lease_store "getLease4 mgr" "lookup4 mgr" "addLease4 mgr" "updateLease4 mgr" "assign4 mgr" holds4 inv leases
  for mgr :: "'s LeaseMgr" and inv and leases
begin

lemma write4_spec:
  assumes "inv s" "leases s (l_addr l) \<noteq> None" "write4 mgr fake l (s, sn) = (Inr l', (t, sn'))"
  shows "l' = l \<and> sn' = sn \<and> inv t \<and> stored fake (leases s) (leases t) l"
proof (cases fake)
  case True
  with assms(3) have "l' = l" "sn' = sn" "t = assign4 mgr l s"
    by (auto simp: write4_def bindS_Inr zoomS_def eff_apply)
  with assms(1,2) True show ?thesis
    using assign_inv assign_lease [of s l] by (auto simp: stored_def)
next
  case False
  with assms(3) have "l' = l" "sn' = sn" "updateLease4 mgr l (assign4 mgr l s) = (Inr (), t)"
    by (auto simp: write4_def bindS_Inr zoomS_def eff_apply split: prod.splits)
  with assms(1,2) show ?thesis
    using update_inv [OF assign_inv [OF assms(1)]] update_lease [OF assms(1,2)] by (auto simp: stored_def)
qed

lemma create4_spec:
  assumes inv: "inv s" "leases s a = None" and wfc: "wf_client clientid"
    and none: "\<And>k b l. k \<in> keys4 clientid h (sn_id sn) \<Longrightarrow> leases s b = Some l \<Longrightarrow> \<not> holds4 k l"
    and run: "createLease4 mgr now clientid (Some h) a fake (s, sn) = (Inr x, (t, sn'))"
  shows "sn' = sn \<and> inv t \<and>
    (case x of None \<Rightarrow> leases t = leases s
     | Some l \<Rightarrow> l_addr l = a \<and> lifetimes sn now l \<and> bound4 clientid h l \<and> stored fake (leases s) (leases t) l)"
proof -
  obtain l where l: "mk_Lease4 a (hwaddr_bytes h) (case clientid of None \<Rightarrow> [] | Some c \<Rightarrow> clientid_bytes c)
        (tr_default (sn_valid sn)) (tr_default (sn_t1 sn)) (tr_default (sn_t2 sn)) now (sn_id sn) = Inr l"
    and rest: "(if \<not> fake then bindS (dbS (addLease4 mgr l)) (\<lambda>status. if status then retS (Some l) else retS None)
        else bindS (dbS (askS (getLease4 mgr a))) (\<lambda>existing. if existing = None then retS (Some l) else retS None)) (s, sn)
        = (Inr x, (t, sn'))"
    using run by (auto simp: createLease4_def bindS_Inr eff_apply Let_def)
  have new: "l_addr l = a" "lifetimes sn now l" "bound4 clientid h l"
    using l wfc by (auto simp: mk_Lease4_def result_simps mk_Lease_def Lease.defs Lease4.defs lifetimes_def bound4_def
        mk_ClientId_def mk_DUID_def wf_client_def split: option.splits if_splits)
  have keys: "\<not> holds4 k l'" if held: "leases s b = Some l'" "holds4 k l" for k b l'
  proof (cases k)
    case (ByHwaddr h' i)
    then have "holds4 (ByHwaddr h (sn_id sn)) l' \<longleftrightarrow> holds4 k l'"
      using held(2) new by (auto simp: bound4_def lifetimes_def)
    then show ?thesis using none [OF _ held(1), of "ByHwaddr h (sn_id sn)"] by (cases clientid) auto
  next
    case (ByClientId c i)
    then have "clientid = Some c" "i = sn_id sn" using held(2) new by (auto simp: bound4_def lifetimes_def)
    then show ?thesis using none [OF _ held(1), of "ByClientId c (sn_id sn)"] ByClientId by simp
  qed
  show ?thesis
  proof (cases fake)
    case True
    with rest new inv(1) show ?thesis by (auto simp: bindS_Inr zoomS_def eff_apply stored_def split: if_splits)
  next
    case False
    then have b: "bindS (dbS (addLease4 mgr l)) (\<lambda>status. if status then retS (Some l) else retS None) (s, sn) = (Inr x, (t, sn'))"
      using rest by simp
    obtain st where st: "addLease4 mgr l s = (Inr st, t)" "sn' = sn" "x = (if st then Some l else None)"
      using b by (rule dbS_status)
    show ?thesis
    proof (cases st)
      case True
      then have "leases t = (leases s)(l_addr l \<mapsto> l)"
        using add_True [OF inv(1), of l t] st(1) inv(2) new(1) keys by simp
      with True st new show ?thesis using add_inv [OF inv(1) st(1)] by (simp add: stored_def)
    next
      case False
      with st show ?thesis using add_inv [OF inv(1) st(1)] add_False [OF inv(1) st(1)] by simp
    qed
  qed
qed

lemma try4_tries:
  assumes wfc: "wf_client clientid"
    and none: "\<And>k b l. k \<in> keys4 clientid h (sn_id sn) \<Longrightarrow> L b = Some l \<Longrightarrow> \<not> holds4 k l"
  shows "tries inv leases L sn
    (\<lambda>a L' l. lifetimes sn now l \<and> bound4 clientid h l \<and> available now L a \<and> stored fake L L' l)
    (try_address4 mgr now clientid h fake)"
  unfolding tries_def
proof (intro allI impI, elim conjE)
  fix a s b x t sn'
  let ?sn = "setLastAllocated b sn"
  assume s: "inv s" "leases s = L" and run: "try_address4 mgr now clientid h fake a (s, ?sn) = (Inr x, (t, sn'))"
  obtain y where y: "getLease4 mgr a s = Inr y"
    and rest: "(case y of None \<Rightarrow> createLease4 mgr now clientid (Some h) a fake
        | Some l \<Rightarrow> if expired now l then bindS (reuseExpiredLease4 mgr now l clientid h fake) (\<lambda>l'. retS (Some l'))
           else retS None) (s, ?sn) = (Inr x, (t, sn'))"
    using run by (auto simp: try_address4_def bindS_Inr zoomS_def eff_apply)
  have La: "y = L a" using get_leases [OF s(1) y] s(2) by simp
  show "sn' = ?sn \<and> inv t \<and> (case x of None \<Rightarrow> leases t = L
    | Some l \<Rightarrow> l_addr l = a \<and> lifetimes sn now l \<and> bound4 clientid h l \<and> available now L a \<and> stored fake L (leases t) l)"
  proof (cases y)
    case None
    then show ?thesis
      using create4_spec [OF s(1), of a clientid h ?sn now fake x t sn'] rest La s(2) wfc none
      by (auto simp: available_def split: option.splits)
  next
    case (Some l)
    have addr: "l_addr l = a" using leases_addr [OF s(1)] Some La s(2) by simp
    show ?thesis
    proof (cases "expired now l")
      case True
      then obtain l' s1 n1 where w: "write4 mgr fake (reused4 sn clientid h now l) (s, ?sn) = (Inr l', (s1, n1))"
          "x = Some l'" "t = s1" "sn' = n1"
        using rest Some by (auto simp: reuseExpiredLease4_def bindS_Inr eff_apply)
      have "leases s (l_addr (reused4 sn clientid h now l)) \<noteq> None"
        using La [symmetric] Some addr s(2) by (simp add: reused4_def)
      from write4_spec [OF s(1) this w(1)] w True Some La addr s(2) show ?thesis
        by (auto simp: available_def lifetimes_def bound4_def reused4_def)
    next
      case False
      with rest Some s show ?thesis by (auto simp: eff_apply)
    qed
  qed
qed

lemma renew4_grant:
  assumes s: "inv s" and k: "k \<in> keys4 clientid h (sn_id sn)" "lookup4 mgr k s = Inr (Some l)"
    and run: "bindS (renewLease4 mgr now clientid h l fake) (\<lambda>l'. retS (Some l')) (s, sn) = (Inr x, (t, sn'))"
  shows "sn' = sn \<and> inv t \<and> (\<exists>l'. x = Some l' \<and> grant4 now sn clientid h (leases s) l' \<and> stored fake (leases s) (leases t) l')"
proof -
  let ?r = "renewed4 sn clientid h now l"
  have l: "leases s (l_addr l) = Some l" "holds4 k l" using lookup_Some [OF s k(2)] by auto
  obtain l' where w: "write4 mgr fake ?r (s, sn) = (Inr l', (t, sn'))" "x = Some l'"
    using run by (auto simp: renewLease4_def bindS_Inr eff_apply)
  have "leases s (l_addr ?r) \<noteq> None" using l(1) by (simp add: renewed4_def)
  from write4_spec [OF s this w(1)] have "l' = ?r" "sn' = sn" "inv t" "stored fake (leases s) (leases t) l'" by auto
  moreover have "grant4 now sn clientid h (leases s) ?r"
    using l k(1) by (auto simp: grant4_def lifetimes_def bound4_def renewed4_def)
  ultimately show ?thesis using w(2) by simp
qed

text \<open>What remains once neither key of the client is held: the hint, then the search.\<close>

lemma search4_grant:
  assumes s: "inv s" and wf: "wf_subnet u sn" "wf_client clientid"
    and none: "\<And>k b l. k \<in> keys4 clientid h (sn_id sn) \<Longrightarrow> leases s b = Some l \<Longrightarrow> \<not> holds4 k l"
    and run: "bindS (askS (\<lambda>st. Subnet_inPool (snd st) hint)) (\<lambda>usable.
        bindS (if usable then try_address4 mgr now clientid h fake hint else retS None) (\<lambda>lease.
        case lease of Some l \<Rightarrow> retS (Some l) | None \<Rightarrow> alloc_loop e (try_address4 mgr now clientid h fake)))
        (s, sn) = (Inr x, (t, sn'))"
  shows "(\<exists>c. sn' = setLastAllocated c sn) \<and> inv t \<and>
    (case x of None \<Rightarrow> leases t = leases s
     | Some l \<Rightarrow> grant4 now sn clientid h (leases s) l \<and> stored fake (leases s) (leases t) l)"
proof -
  let ?attempt = "try_address4 mgr now clientid h fake"
  let ?Q = "\<lambda>a L' l. lifetimes sn now l \<and> bound4 clientid h l \<and> available now (leases s) a \<and> stored fake (leases s) L' l"
  have tr: "tries inv leases (leases s) sn ?Q ?attempt" by (rule try4_tries [OF wf(2)]) (rule none)
  have self: "setLastAllocated (sn_last_allocated sn) sn = sn" by (simp add: setLastAllocated_def)
  obtain usable y s1 n1 where in_pool: "Subnet_inPool sn hint = Inr usable"
    and y: "(if usable then ?attempt hint else retS None) (s, sn) = (Inr y, (s1, n1))"
    and rest: "(case y of Some l \<Rightarrow> retS (Some l) | None \<Rightarrow> alloc_loop e ?attempt) (s1, n1) = (Inr x, (t, sn'))"
    using run by (auto simp: bindS_Inr eff_apply)
  have h: "n1 = sn \<and> inv s1 \<and> (case y of None \<Rightarrow> leases s1 = leases s
      | Some l \<Rightarrow> usable \<and> l_addr l = hint \<and> ?Q hint (leases s1) l)"
  proof (cases usable)
    case True
    then have "?attempt hint (s, setLastAllocated (sn_last_allocated sn) sn) = (Inr y, (s1, n1))" using y self by simp
    then have "n1 = setLastAllocated (sn_last_allocated sn) sn \<and> inv s1 \<and>
        (case y of None \<Rightarrow> leases s1 = leases s | Some l \<Rightarrow> l_addr l = hint \<and> ?Q hint (leases s1) l)"
      using tr [unfolded tries_def] s by blast
    with True self show ?thesis by (auto split: option.splits)
  next
    case False
    with y s show ?thesis by (auto simp: eff_apply)
  qed
  show ?thesis
  proof (cases y)
    case (Some l)
    with rest h in_pool show ?thesis
      using self by (auto simp: eff_apply grant4_def intro: exI [of _ "sn_last_allocated sn"])
  next
    case None
    then have "alloc_loop e ?attempt (s1, setLastAllocated (sn_last_allocated sn) sn) = (Inr x, (t, sn'))"
      using rest h self by simp
    from alloc_loop_tries [OF wf(1) tr _ _ this] h None show ?thesis
      by (auto simp: grant4_def split: option.splits)
  qed
qed

lemma allocate4_grant:
  assumes s: "inv s" and wf: "wf_subnet u sn" "wf_client clientid"
    and run: "allocate4_body e mgr now clientid (Some h) hint fake (s, sn) = (Inr x, (t, sn'))"
  shows "(\<exists>c. sn' = setLastAllocated c sn) \<and> inv t \<and>
    (case x of None \<Rightarrow> leases t = leases s
     | Some l \<Rightarrow> grant4 now sn clientid h (leases s) l \<and> stored fake (leases s) (leases t) l)"
proof -
  have self: "sn = setLastAllocated (sn_last_allocated sn) sn" by (simp add: setLastAllocated_def)
  have hw: "ByHwaddr h (sn_id sn) \<in> keys4 clientid h (sn_id sn)" by (cases clientid) auto
  obtain y where y: "lookup4 mgr (ByHwaddr h (sn_id sn)) s = Inr y"
    using run by (auto simp: allocate4_body_def bindS_Inr eff_apply)
  show ?thesis
  proof (cases y)
    case (Some l)
    with run y have "bindS (renewLease4 mgr now clientid h l fake) (\<lambda>l'. retS (Some l')) (s, sn) = (Inr x, (t, sn'))"
      by (simp add: allocate4_body_def eff_simps)
    from renew4_grant [OF s hw _ this] y Some self show ?thesis by auto
  next
    case None
    note hw_none = this
    then obtain z where z: "(case clientid of None \<Rightarrow> Inr None | Some c \<Rightarrow> lookup4 mgr (ByClientId c (sn_id sn)) s) = Inr z"
      using run y by (auto simp: allocate4_body_def eff_simps bindS_Inr split: option.splits)
    show ?thesis
    proof (cases z)
      case (Some l)
      then obtain c where c: "clientid = Some c" "lookup4 mgr (ByClientId c (sn_id sn)) s = Inr (Some l)"
        using z by (cases clientid) auto
      with run y hw_none have
        "bindS (renewLease4 mgr now clientid h l fake) (\<lambda>l'. retS (Some l')) (s, sn) = (Inr x, (t, sn'))"
        by (simp add: allocate4_body_def eff_simps)
      from renew4_grant [OF s _ c(2) this] c(1) self show ?thesis by auto
    next
      case None
      have "\<not> holds4 k l" if "k \<in> keys4 clientid h (sn_id sn)" "leases s b = Some l" for k b l
        using that lookup_None_holds [OF s, of k] y hw_none z None by (cases clientid) auto
      moreover have "bindS (askS (\<lambda>st. Subnet_inPool (snd st) hint)) (\<lambda>usable.
          bindS (if usable then try_address4 mgr now clientid h fake hint else retS None) (\<lambda>lease.
          case lease of Some l \<Rightarrow> retS (Some l) | None \<Rightarrow> alloc_loop e (try_address4 mgr now clientid h fake)))
          (s, sn) = (Inr x, (t, sn'))"
        using run y hw_none z None by (cases clientid; hypsubst_thin) (simp_all add: allocate4_body_def eff_simps)
      ultimately show ?thesis using search4_grant [OF s wf] by blast
    qed
  qed
qed

end


interpretation mem_db4: lease_db4 memfile inv4 leases4 ..

lemma allocateAddress4_cases:
  assumes "allocateAddress4 e mgr now clientid hwaddr hint fake (s, Some sn) = (Inr x, (t, m))"
  obtains (caught) "x = None" | (returns) sn' where "m = Some sn'"
    "allocate4_body e mgr now clientid hwaddr hint fake (s, sn) = (Inr x, (t, sn'))"
  using assms
  by (auto simp: allocateAddress4_def catchS_def eff_apply split: prod.splits sum.splits if_splits)

text \<open>C4. The allocation engine never takes an address away from a client. Whatever the hint, the state of
  the pools and the number of attempts, a lease granted by \<^verbatim>\<open>allocateAddress4\<close> is bound to
  the hardware address and client id of the request and carries the lifetimes of the subnet, and its
  address was already held by this client in this subnet, or it lies in a pool of the subnet and
  was free or had an expired lease. The lease is in the database afterwards, and the leases of all
  other addresses are unchanged.\<close>

theorem allocate4_safe:
  assumes "inv4 s" "wf_subnet u sn" "wf_client clientid"
    and "allocateAddress4 e memfile now clientid (Some h) hint fake (s, Some sn) = (Inr (Some l), (t, m))"
  shows "grant4 now sn clientid h (leases4 s) l \<and> stored fake (leases4 s) (leases4 t) l \<and> inv4 t \<and>
    (\<exists>c. m = Some (setLastAllocated c sn))"
  using assms(4)
proof (cases rule: allocateAddress4_cases)
  case (returns sn')
  with mem_db4.allocate4_grant [OF assms(1,2,3) returns(2)] show ?thesis by auto
qed simp


definition example_engine :: AllocEngine where
  "example_engine = \<lparr>ae_attempts = 100, ae_fuel = 0\<rparr>"

definition example_hwaddr :: HWAddr where
  "example_hwaddr = \<lparr>hwaddr_bytes = [0, 1, 2, 3, 4, 5], htype = 1\<rparr>"

lemma example_inPool: "Subnet_inPool example_subnet4 (IPv4 0xc0000264) = Inr True"
  by (simp add: Subnet_inPool_eq [OF example_wf])
    (simp add: example_subnet4_def mk_Pool_def Pool_inRange_def smallerEqual_def equals_def)

lemmas memfile_eval = mem_getLease4_hwaddr_subnet_def mem_getLease4_clientid_subnet_def mem_getLease4_def
  mem_addLease4_def storage4_insert_def index_insert_def index_find_def index_check_def mk_Memfile_def

lemma example_subnet4_sel [simp]:
  "sn_id example_subnet4 = 1" "tr_default (sn_valid example_subnet4) = 4000" "tr_default (sn_t1 example_subnet4) = 1000"
  "tr_default (sn_t2 example_subnet4) = 2000"
  by (simp_all add: example_subnet4_def Triplet_fixed_def)

lemma example_allocate4:
  "\<exists>t. allocateAddress4 example_engine memfile 500 (Some (ClientId [1, 2, 3])) (Some example_hwaddr) (IPv4 0xc0000264)
     False (mk_Memfile, Some example_subnet4) = (Inr (Some example_lease4), (t, Some example_subnet4))"
  by (simp add: allocateAddress4_def allocate4_body_def catchS_def eff_simps example_inPool try_address4_def
      createLease4_def zoomS_def bindS_def mk_Lease4_def mk_ClientId_def mk_DUID_def MAX_DUID_LEN_def
      MIN_CLIENT_ID_LEN_def memfile_eval example_hwaddr_def example_lease4_def)

theorem allocate4_safe_witness:
  "\<exists>l t m. allocateAddress4 example_engine memfile 500 (Some (ClientId [1, 2, 3])) (Some example_hwaddr)
       (IPv4 0xc0000264) False (mk_Memfile, Some example_subnet4) = (Inr (Some l), (t, m)) \<and>
     leases4 t (IPv4 0xc0000264) = Some l"
proof -
  obtain t where t: "allocateAddress4 example_engine memfile 500 (Some (ClientId [1, 2, 3])) (Some example_hwaddr)
      (IPv4 0xc0000264) False (mk_Memfile, Some example_subnet4) = (Inr (Some example_lease4), (t, Some example_subnet4))"
    using example_allocate4 ..
  have "stored False (leases4 mk_Memfile) (leases4 t) example_lease4"
    using allocate4_safe [OF _ example_wf _ t] indexed_mk_Memfile(1) by (simp add: indexed4_def wf_client_def)
  with t show ?thesis by (simp add: stored_def)
qed

end
