(* ===== verification/Alloc_Live.thy ===== *)
theory Alloc_Live
  imports Alloc_Safety
begin

text \<open>
  The engine finds an address whenever there is one and it is allowed enough attempts.
\<close>

section \<open>The search finds what is available\<close>

lemma search_live:
  assumes wf: "wf_subnet u sn" "disjoint_pools sn" "sn_pools sn \<noteq> []"
    and good: "\<And>a b. avail a \<Longrightarrow> \<exists>l t n. attempt a (s, setLastAllocated b sn) = (Inr (Some l), (t, n))"
    and bad: "\<And>a b. \<not> avail a \<Longrightarrow> attempt a (s, setLastAllocated b sn) = (Inr None, (s, setLastAllocated b sn))"
    and d: "d < n" "avail (all_addrs sn ! ((first_index sn + d) mod length (all_addrs sn)))"
  shows "\<exists>l t n'. search attempt n (s, sn) = (Inr (Some l), (t, n'))"
  using wf good bad d
proof (induction n arbitrary: sn d)
  case (Suc n)
  let ?L = "length (all_addrs sn)" and ?i = "first_index sn"
  let ?a = "all_addrs sn ! ?i"
  have i: "?i < ?L" using first_index_less all_addrs_nonempty Suc.prems(1,3) by blast
  have pick: "subnetS pickAddress (s, sn) = (Inr ?a, (s, setLastAllocated ?a sn))"
    using pickAddress_first [OF Suc.prems(1-3)] by (simp add: zoomS_def)
  show ?case
  proof (cases "avail ?a")
    case True
    then obtain l t m where "attempt ?a (s, setLastAllocated ?a sn) = (Inr (Some l), (t, m))"
      using Suc.prems(4) by blast
    with pick show ?thesis by (auto simp: bindS_def eff_apply)
  next
    case False
    then obtain d' where d': "d = Suc d'"
      using Suc.prems(7) i by (cases d) auto
    have "(Suc ?i mod ?L + d') mod ?L = (?i + d) mod ?L" by (simp add: d' mod_add_left_eq)
    then have "\<exists>l t n'. search attempt n (s, setLastAllocated ?a sn) = (Inr (Some l), (t, n'))"
      using Suc.IH [of "setLastAllocated ?a sn" d'] Suc.prems d' first_index_set [OF Suc.prems(2) i]
      by (simp add: wf_intros)
    with pick Suc.prems(5) [OF False, of ?a] show ?thesis by (simp add: bindS_def eff_apply)
  qed
qed simp

lemma cyclic_offset:
  assumes "a \<in> set xs" "i < length xs"
  shows "\<exists>d<length xs. xs ! ((i + d) mod length xs) = a"
proof -
  obtain k where k: "k < length xs" "xs ! k = a" using assms(1) by (metis in_set_conv_nth)
  show ?thesis
  proof (cases "i \<le> k")
    case True
    with k show ?thesis by (intro exI [of _ "k - i"]) auto
  next
    case False
    with k assms(2) show ?thesis by (intro exI [of _ "length xs - i + k"]) (auto simp: mod_if)
  qed
qed

section \<open>One address in the in-memory database\<close>

definition valid_clientid :: "ClientId \<Rightarrow> bool" where
  "valid_clientid c \<longleftrightarrow> mk_ClientId (clientid_bytes c) = Inr c"

lemma valid_clientid_nonempty: "valid_clientid c \<Longrightarrow> clientid_bytes c \<noteq> []"
  by (auto simp: valid_clientid_def mk_ClientId_def mk_DUID_def)

definition no_holder4 :: "(ioaddress \<rightharpoonup> Lease4) \<Rightarrow> ClientId \<Rightarrow> HWAddr \<Rightarrow> u32 \<Rightarrow> bool" where
  "no_holder4 L c h i \<longleftrightarrow>
     (\<forall>b l. L b = Some l \<longrightarrow> \<not> holds4 (ByHwaddr h i) l \<and> \<not> holds4 (ByClientId c i) l)"

lemma write4_memfile: "write4 memfile fake l (s, sn) = (Inr l, (mem_assign4 l s, sn))"
  by (simp add: write4_def zoomS_def bindS_def eff_apply)

lemma create4_live:
  assumes "indexed4 s" "leases4 s a = None" "valid_clientid c"
    and none: "no_holder4 (leases4 s) c h (sn_id sn)"
  shows "\<exists>l t n. createLease4 memfile now (Some c) (Some h) a fake (s, sn) = (Inr (Some l), (t, n))"
proof -
  define l where "l = Lease.extend (mk_Lease a (tr_default (sn_t1 sn)) (tr_default (sn_t2 sn)) (tr_default (sn_valid sn))
    (sn_id sn) now) (Lease4.fields 0 (hwaddr_bytes h) (Some c))"
  have mk: "mk_Lease4 a (hwaddr_bytes h) (clientid_bytes c) (tr_default (sn_valid sn)) (tr_default (sn_t1 sn))
      (tr_default (sn_t2 sn)) now (sn_id sn) = Inr l"
    using assms(3) valid_clientid_nonempty [OF assms(3)] by (simp add: mk_Lease4_def valid_clientid_def l_def)
  have l: "l_addr l = a" "l4_client_id l = Some c" "l4_hwaddr l = hwaddr_bytes h" "l_subnet_id l = sn_id sn"
    by (simp_all add: l_def mk_Lease_def Lease.defs Lease4.defs)
  have keys: "\<not> holds4 k l'" if "leases4 s b = Some l'" "holds4 k l" for k b l'
    using that none l unfolding no_holder4_def by (cases k) auto
  obtain t where "mem_addLease4 l s = (Inr True, t)"
    by (rule mem_addLease4_ok [OF assms(1) l(2)]) (use assms(2) l(1) keys in auto)
  moreover have "mem_getLease4 a s = Inr None"
    using assms(1,2) by (simp add: mem_getLease4_eq indexed4_def)
  ultimately show ?thesis
    using mk by (cases fake) (auto simp: createLease4_def eff_simps Let_def zoomS_def bindS_def)
qed

lemma try4_live:
  assumes "indexed4 s" "valid_clientid c"
    and none: "no_holder4 (leases4 s) c h (sn_id sn)"
  shows "available now (leases4 s) a \<Longrightarrow>
      \<exists>l t n. try_address4 memfile now (Some c) h fake a (s, sn) = (Inr (Some l), (t, n))"
    and "\<not> available now (leases4 s) a \<Longrightarrow>
      try_address4 memfile now (Some c) h fake a (s, sn) = (Inr None, (s, sn))"
proof -
  have get: "dbS (askS (getLease4 memfile a)) (s, sn) = (Inr (leases4 s a), (s, sn))"
    using assms(1) by (simp add: zoomS_def eff_apply mem_getLease4_eq indexed4_def)
  show "\<exists>l t n. try_address4 memfile now (Some c) h fake a (s, sn) = (Inr (Some l), (t, n))"
    if "available now (leases4 s) a"
  proof (cases "leases4 s a")
    case None
    with get create4_live [OF assms(1) None assms(2) none] show ?thesis
      by (auto simp: try_address4_def bindS_def)
  next
    case (Some l)
    with that get show ?thesis
      by (simp add: try_address4_def bindS_def available_def reuseExpiredLease4_def eff_apply write4_memfile)
  qed
  show "try_address4 memfile now (Some c) h fake a (s, sn) = (Inr None, (s, sn))"
    if "\<not> available now (leases4 s) a"
    using that get by (auto simp: try_address4_def bindS_def available_def eff_apply split: option.splits)
qed

lemma lookup4_mem_total:
  assumes "indexed4 s"
  shows "\<exists>y. lookup4 memfile k s = Inr y"
  using assms
  by (cases k) (auto simp: mem_getLease4_hwaddr_subnet_def mem_getLease4_clientid_subnet_def index_find_def indexed4_def)

section \<open>Allocation succeeds\<close>

lemma allocate4_body_live:
  assumes ix: "indexed4 s" and c: "valid_clientid c" and wf: "wf_subnet u sn" "disjoint_pools sn"
    and enough: "length (all_addrs sn) \<le> unat (ae_attempts e)"
    and a: "a \<in> set (all_addrs sn)" "available now (leases4 s) a"
  shows "\<exists>l t n. allocate4_body e memfile now (Some c) (Some h) hint fake (s, sn) = (Inr (Some l), (t, n))"
proof -
  obtain y z where y: "mem_getLease4_hwaddr_subnet h (sn_id sn) s = Inr y"
    and z: "mem_getLease4_clientid_subnet c (sn_id sn) s = Inr z"
    using lookup4_mem_total [OF ix, of "ByHwaddr h (sn_id sn)"] lookup4_mem_total [OF ix, of "ByClientId c (sn_id sn)"]
    by auto
  have renew: "\<exists>l' t n. bindS (renewLease4 memfile now (Some c) h l fake) (\<lambda>l'. retS (Some l')) (s, sn) = (Inr (Some l'), (t, n))" for l
    by (simp add: renewLease4_def eff_simps bindS_def write4_memfile)
  show ?thesis
  proof (cases y)
    case (Some l)
    with y renew [of l] show ?thesis by (simp add: allocate4_body_def eff_simps)
  next
    case hw: None
    show ?thesis
    proof (cases z)
      case (Some l)
      with y z hw renew [of l] show ?thesis by (simp add: allocate4_body_def eff_simps)
    next
      case None
      have inv: "inv4 s" using ix by (simp add: indexed4_def)
      have none: "no_holder4 (leases4 s) c h (sn_id sn)"
        using lookup4_mem_None [OF inv, of "ByHwaddr h (sn_id sn)"] lookup4_mem_None [OF inv, of "ByClientId c (sn_id sn)"]
          y z hw None by (simp add: no_holder4_def)
      let ?attempt = "try_address4 memfile now (Some c) h fake"
      note live = try4_live [OF ix c, of h]
      have pools: "sn_pools sn \<noteq> []" using a(1) by (auto simp: all_addrs_def)
      obtain d where d: "d < length (all_addrs sn)" "all_addrs sn ! ((first_index sn + d) mod length (all_addrs sn)) = a"
        using cyclic_offset [OF a(1) first_index_less] a(1) by (metis length_pos_if_in_set)
      have good: "\<exists>l t n. ?attempt b (s, setLastAllocated b' sn) = (Inr (Some l), (t, n))"
        if "available now (leases4 s) b" for b b'
        using live(1) [of "setLastAllocated b' sn"] none that by simp
      have bad: "?attempt b (s, setLastAllocated b' sn) = (Inr None, (s, setLastAllocated b' sn))"
        if "\<not> available now (leases4 s) b" for b b'
        using live(2) [of "setLastAllocated b' sn"] none that by simp
      have "\<exists>l t n. search ?attempt (unat (ae_attempts e)) (s, sn) = (Inr (Some l), (t, n))"
        by (rule search_live [OF wf pools, where avail = "available now (leases4 s)" and d = d])
          (use good bad d a(2) enough in simp_all)
      moreover have "ae_attempts e \<noteq> 0" using enough d(1) by auto
      ultimately have loop: "\<exists>l t n. alloc_loop e ?attempt (s, sn) = (Inr (Some l), (t, n))"
        by (simp add: alloc_loop_def)
      obtain usable where us: "Subnet_inPool sn hint = Inr usable" using Subnet_inPool_eq [OF wf(1)] by blast
      show ?thesis
      proof (cases "usable \<and> available now (leases4 s) hint")
        case True
        then obtain l t n where "?attempt hint (s, sn) = (Inr (Some l), (t, n))" using live(1) [of sn now hint fake] none by blast
        with True y z hw None us show ?thesis by (simp add: allocate4_body_def eff_simps bindS_def)
      next
        case False
        then have "(if usable then ?attempt hint else retS None) (s, sn) = (Inr None, (s, sn))"
          using live(2) [of sn now hint fake] none by (auto simp: eff_apply)
        with loop y z hw None us show ?thesis by (simp add: allocate4_body_def eff_simps bindS_def [of "if _ then _ else _"])
      qed
    qed
  qed
qed


text \<open>C13. Allocation succeeds whenever it can: if the engine may attempt at least as many candidates as the
  pools have addresses, the pools do not overlap, and some address of the pools is free or has an
  expired lease, then every client with a valid client id is granted a lease, whatever its hint and
  wherever the allocator stopped the last time.\<close>

theorem allocate4_live:
  assumes "indexed4 s" "valid_clientid c" "wf_subnet u sn" "disjoint_pools sn"
    and "length (all_addrs sn) \<le> unat (ae_attempts e)"
    and "a \<in> set (all_addrs sn)" "available now (leases4 s) a"
  shows "\<exists>l t m. allocateAddress4 e memfile now (Some c) (Some h) hint fake (s, Some sn) = (Inr (Some l), (t, m))"
proof -
  obtain l t n where "allocate4_body e memfile now (Some c) (Some h) hint fake (s, sn) = (Inr (Some l), (t, n))"
    using allocate4_body_live [OF assms] by blast
  then show ?thesis by (simp add: allocateAddress4_def catchS_def)
qed

theorem allocate4_live_witness:
  "\<exists>l t m. allocateAddress4 example_engine memfile 500 (Some (ClientId [9, 9])) (Some example_hwaddr) (IPv4 0)
     False (mk_Memfile, Some example_subnet4) = (Inr (Some l), (t, m))"
proof -
  have "valid_clientid (ClientId [9, 9])"
    by (simp add: valid_clientid_def mk_ClientId_def mk_DUID_def MAX_DUID_LEN_def MIN_CLIENT_ID_LEN_def)
  then show ?thesis
    using allocate4_live [OF indexed_mk_Memfile(1) _ example_wf example_disjoint, of "ClientId [9, 9]" example_engine
        "IPv4 0xc0000265" 500]
    by (simp add: example_all_addrs example_engine_def available_def)
qed

section \<open>Allocation gives up\<close>






section \<open>Returning clients\<close>

text \<open>A returning client gets its address back: if its hardware address holds a lease in the subnet, the
  engine renews that very lease, whatever the hint and even if it has expired. The lease in the
  database is rewritten also by a fake allocation, so a DISCOVER restarts the lifetime of a lease and
  may replace its client id.\<close>

theorem returning_client4:
  assumes "indexed4 s" "leases4 s a = Some l" "l4_hwaddr l = hwaddr_bytes h" "l_subnet_id l = sn_id sn"
  shows "\<exists>t. allocateAddress4 e memfile now clientid (Some h) hint fake (s, Some sn) =
      (Inr (Some (renewed4 sn clientid h now l)), (t, Some sn)) \<and>
    l_addr (renewed4 sn clientid h now l) = a \<and>
    leases4 t = (leases4 s)(a \<mapsto> renewed4 sn clientid h now l)"
proof -
  have inv: "inv4 s" using assms(1) by (simp add: indexed4_def)
  have l: "l \<in> set (s4_hwaddr (storage4 s))" "l_addr l = a"
    using assms(2) inv by (auto simp: leases4_Some inv4_def)
  have "mem_getLease4_hwaddr_subnet h (sn_id sn) s = Inr (Some l)"
    unfolding mem_getLease4_hwaddr_subnet_def
    by (rule index_find_ok) (use assms l in \<open>auto simp: indexed4_def key4_hwaddr_def\<close>)
  then have "allocateAddress4 e memfile now clientid (Some h) hint fake (s, Some sn) =
      (Inr (Some (renewed4 sn clientid h now l)), (mem_assign4 (renewed4 sn clientid h now l) s, Some sn))"
    by (simp add: allocateAddress4_def catchS_def allocate4_body_def renewLease4_def eff_simps bindS_def write4_memfile)
  moreover have "l_addr (renewed4 sn clientid h now l) = a" using l(2) by (simp add: renewed4_def)
  moreover from this have "leases4 (mem_assign4 (renewed4 sn clientid h now l) s) = (leases4 s)(a \<mapsto> renewed4 sn clientid h now l)"
    using mem_assign_leases(1) [of s "renewed4 sn clientid h now l"] assms(2) by simp
  ultimately show ?thesis by blast
qed

theorem returning_client4_witness:
  "\<exists>t t'. mem_addLease4 example_lease4 mk_Memfile = (Inr True, t) \<and>
     allocateAddress4 example_engine memfile 900 None (Some example_hwaddr) (IPv4 0) True (t, Some example_subnet4) =
       (Inr (Some (renewed4 example_subnet4 None example_hwaddr 900 example_lease4)), (t', Some example_subnet4))"
proof -
  obtain t where t: "mem_addLease4 example_lease4 mk_Memfile = (Inr True, t)" "indexed4 t"
    "leases4 t = (leases4 mk_Memfile)(l_addr example_lease4 \<mapsto> example_lease4)"
    using mem_addLease4_ok [of mk_Memfile example_lease4 "ClientId [1, 2, 3]"] indexed_mk_Memfile(1) by auto
  then show ?thesis
    using returning_client4 [OF t(2), of "IPv4 0xc0000264" example_lease4 example_hwaddr example_subnet4
        example_engine 900 None "IPv4 0" True]
    by (auto simp: example_hwaddr_def)
qed

end
