(* ===== verification/Options_Roundtrip.thy ===== *)
theory Options_Roundtrip
  imports Options
begin

unbundle bit_operations_syntax

text \<open>
  What the option code is for: an option that is packed and parsed again is the option it was. The
  well-formedness predicates say which options the parser can produce for a type, relative to the
  option definitions: the subclass is the one the definition selects, the fields are in range and
  the content fits the length field. The suboptions of IA_NA, IA_PD, IAADDR and integer options are
  covered by a mutual induction.
\<close>

section \<open>Lengths without truncation\<close>

fun opt_nlen :: "opt \<Rightarrow> nat"
  and opts_nlen :: "OptionCollection \<Rightarrow> nat" where
  "opt_nlen (Opt u t data p subs) =
     (case p of
        PGeneric \<Rightarrow> getHeaderLen u + length data + opts_nlen subs
      | PAddrLst4 as \<Rightarrow> getHeaderLen u + length as * V4ADDRESS_LEN
      | PAddrLst6 as \<Rightarrow> OPTION6_HDR_LEN + length as * V6ADDRESS_LEN
      | PIA _ _ _ \<Rightarrow> OPTION6_HDR_LEN + OPTION6_IA_LEN + opts_nlen subs
      | PIAAddr _ _ _ \<Rightarrow> OPTION6_HDR_LEN + OPTION6_IAADDR_LEN + opts_nlen subs
      | PInt k _ \<Rightarrow> getHeaderLen u + int_len k + opts_nlen subs
      | PIntArray k vs \<Rightarrow> getHeaderLen u + length vs * int_len k + opts_nlen subs
      | PString \<Rightarrow> getHeaderLen u + length data
      | PCustom d bufs \<Rightarrow> getHeaderLen u + sum_list (map length bufs) + opts_nlen subs)"
| "opts_nlen [] = 0"
| "opts_nlen ((k, o1) # os) = opt_nlen o1 + opts_nlen os"

lemma opt_len_nlen:
  "opt_len o1 = word_of_nat (opt_nlen o1)"
  "opts_len os = word_of_nat (opts_nlen os)"
  by (induction o1 and os rule: opt_len_opts_len.induct) (auto split: payload.splits)

section \<open>Well-formed DHCPv6 options\<close>

fun int_type :: "IntKind \<Rightarrow> OptionDataType" where
  "int_type TU8 = OPT_UINT8_TYPE" | "int_type TI8 = OPT_INT8_TYPE"
| "int_type TU16 = OPT_UINT16_TYPE" | "int_type TI16 = OPT_INT16_TYPE"
| "int_type TU32 = OPT_UINT32_TYPE" | "int_type TI32 = OPT_INT32_TYPE"

definition the_def :: "OptionDefinition list \<Rightarrow> u16 \<Rightarrow> (OptionDefinition \<Rightarrow> bool) \<Rightarrow> bool" where
  "the_def defs t P \<longleftrightarrow> (case defs_with_code defs t of [d] \<Rightarrow> P d | _ \<Rightarrow> False)"

definition generic_def :: "OptionDefinition list \<Rightarrow> u16 \<Rightarrow> bytes \<Rightarrow> bool" where
  "generic_def defs t data \<longleftrightarrow>
     defs_with_code defs t = [] \<or>
     the_def defs t (\<lambda>d. def_type d = OPT_BINARY_TYPE \<or>
       array_type d \<and> (def_type d = OPT_UINT8_TYPE \<or> def_type d = OPT_INT8_TYPE) \<or>
       def_type d = OPT_EMPTY_TYPE \<and> data = [])"

definition custom_def :: "Universe \<Rightarrow> OptionDefinition \<Rightarrow> bool" where
  "custom_def u d \<longleftrightarrow>
     (def_type d \<in> {OPT_BOOLEAN_TYPE, OPT_ANY_ADDRESS_TYPE, OPT_FQDN_TYPE, OPT_RECORD_TYPE, OPT_UNKNOWN_TYPE} \<or>
      \<not> array_type d \<and> def_type d \<in> {OPT_IPV4_ADDRESS_TYPE, OPT_IPV6_ADDRESS_TYPE}) \<and>
     \<not> (u = UV6 \<and> (def_code d = D6O_IA_NA \<or> def_code d = D6O_IA_PD) \<and> haveIA6Format d) \<and>
     \<not> (u = UV6 \<and> def_code d = D6O_IAADDR \<and> haveIAAddr6Format d)"

definition mm_wf :: "OptionCollection \<Rightarrow> bool" where
  "mm_wf os \<longleftrightarrow> sorted (map fst os) \<and> (\<forall>(k, o1) \<in> set os. k = otype o1)"

fun wf_opt6 :: "OptionDefinition list \<Rightarrow> opt \<Rightarrow> bool"
  and wf_opts6 :: "OptionDefinition list \<Rightarrow> OptionCollection \<Rightarrow> bool" where
  "wf_opt6 defs (Opt u t data p subs) \<longleftrightarrow>
     u = UV6 \<and> opt_nlen (Opt u t data p subs) < 4 + 2 ^ 16 \<and>
     (case p of
        PGeneric \<Rightarrow> subs = [] \<and> generic_def defs t data
      | PAddrLst4 as \<Rightarrow> False
      | PAddrLst6 as \<Rightarrow> data = [] \<and> subs = [] \<and> list_all isV6 as \<and>
          the_def defs t (\<lambda>d. def_type d = OPT_IPV6_ADDRESS_TYPE \<and> array_type d)
      | PIA _ _ _ \<Rightarrow> data = [] \<and> mm_wf subs \<and> wf_opts6 defs subs \<and> (t = D6O_IA_NA \<or> t = D6O_IA_PD) \<and>
          the_def defs t haveIA6Format
      | PIAAddr a _ _ \<Rightarrow> data = [] \<and> isV6 a \<and> mm_wf subs \<and> wf_opts6 defs subs \<and> t = D6O_IAADDR \<and>
          the_def defs t haveIAAddr6Format
      | PInt k v \<Rightarrow> data = [] \<and> v < 256 ^ int_len k \<and> mm_wf subs \<and> wf_opts6 defs subs \<and>
          the_def defs t (\<lambda>d. def_type d = int_type k \<and> \<not> array_type d)
      | PIntArray k vs \<Rightarrow> data = [] \<and> subs = [] \<and> vs \<noteq> [] \<and> list_all (\<lambda>v. v < 256 ^ int_len k) vs \<and>
          (k = TU16 \<or> k = TU32) \<and> the_def defs t (\<lambda>d. def_type d = int_type k \<and> array_type d)
      | PString \<Rightarrow> data \<noteq> [] \<and> subs = [] \<and> the_def defs t (\<lambda>d. def_type d = OPT_STRING_TYPE)
      | PCustom c bufs \<Rightarrow> subs = [] \<and> createBuffers c data = Inr bufs \<and> concat bufs = data \<and>
          custom_def UV6 c \<and> the_def defs t (\<lambda>d. d = c))"
| "wf_opts6 defs [] = True"
| "wf_opts6 defs ((k, o1) # os) \<longleftrightarrow> wf_opt6 defs o1 \<and> wf_opts6 defs os"

section \<open>Multimap facts\<close>

lemma mm_insert_end: "\<forall>(k', v') \<in> set xs. k' \<le> k \<Longrightarrow> mm_insert k v xs = xs @ [(k, v)]"
  by (induction xs) (auto simp: not_less)

definition mm_insert_all :: "OptionCollection \<Rightarrow> OptionCollection \<Rightarrow> OptionCollection" where
  "mm_insert_all os acc = fold (\<lambda>(k, o1). mm_insert k o1) os acc"

lemma mm_insert_all_simps [simp]:
  "mm_insert_all [] acc = acc"
  "mm_insert_all ((k, o1) # os) acc = mm_insert_all os (mm_insert k o1 acc)"
  by (simp_all add: mm_insert_all_def)

lemma mm_insert_all_sorted: "sorted (map fst (acc @ os)) \<Longrightarrow> mm_insert_all os acc = acc @ os"
proof (induction os arbitrary: acc)
  case (Cons x os)
  obtain k o1 where x: "x = (k, o1)" by (cases x)
  have "mm_insert k o1 acc = acc @ [(k, o1)]"
    using Cons.prems x by (intro mm_insert_end) (auto simp: sorted_append)
  with Cons.IH [of "acc @ [(k, o1)]"] Cons.prems x show ?case by simp
qed simp

lemma mm_wf_insert_all [simp]: "mm_wf os \<Longrightarrow> mm_insert_all os [] = os"
  by (simp add: mm_wf_def mm_insert_all_sorted)

lemma set_mm_insert [simp]: "set (mm_insert k v xs) = insert (k, v) (set xs)"
  by (induction k v xs rule: mm_insert.induct) auto

lemma sorted_mm_insert: "sorted (map fst xs) \<Longrightarrow> sorted (map fst (mm_insert k v xs))"
  by (induction k v xs rule: mm_insert.induct) (auto simp: not_less intro: less_imp_le less_le_trans)

lemma map_of_mm_insert:
  "map_of (mm_insert k v xs) k' = (if k' = k \<and> map_of xs k = None then Some v else map_of xs k')"
  if "sorted (map fst xs)"
  using that
proof (induction k v xs rule: mm_insert.induct)
  case (2 k v a b xs)
  have "map_of xs k = None" if "k < a"
    using 2(2) that by (force simp: map_of_eq_None_iff)
  with 2 show ?case by (cases "k < a") auto
qed simp

section \<open>Codec facts\<close>

lemma readUint_take_drop [byte_simps]:
  "readUint16 (writeUint16 v) = Inr v" "readUint32 (writeUint32 w) = Inr w"
  using readUint16_writeUint16 [of v "[]"] readUint32_writeUint32 [of w "[]"] by simp_all

lemma drop_writes [byte_simps]:
  "drop 2 (writeUint16 v @ xs) = xs" "drop 4 (writeUint32 w @ xs) = xs"
  by (simp_all add: drop_append)

lemma length_int_bytes [simp]: "length (int_bytes k v) = int_len k"
  by (cases k) (simp_all add: int_bytes_def)

lemma read_int_bytes: "v < 256 ^ int_len k \<Longrightarrow> read_int_value k (int_bytes k v @ xs) = Inr v"
  by (cases k) (simp_all add: read_int_value_def int_bytes_def byte_simps unat_of_nat)

lemma read_int_values_bytes:
  "list_all (\<lambda>v. v < 256 ^ int_len k) vs \<Longrightarrow>
   read_int_values k (concat (map (int_bytes k) vs)) acc = Inr (acc @ vs)"
proof (induction vs arbitrary: acc)
  case Nil
  then show ?case by (simp add: read_int_values.simps)
next
  case (Cons v vs)
  have "int_bytes k v \<noteq> []" by (metis int_len_pos(2) length_int_bytes list.size(3))
  moreover have "drop (int_len k) (int_bytes k v @ xs) = xs" for xs by simp
  ultimately show ?case using Cons
    by (subst read_int_values.simps) (simp add: read_int_bytes)
qed

lemma pack_addrs6:
  "list_all isV6 as \<Longrightarrow> mapE pack_addr6 as = Inr (map toBytes as)"
  by (rule mapE_Inr_map) (auto simp: pack_addr6_def list_all_iff)

lemma length_toBytes6: "isV6 a \<Longrightarrow> length (toBytes a) = 16"
  by (cases a) auto

lemma read_addrs6_bytes:
  "list_all isV6 as \<Longrightarrow> read_addrs6 (concat (map toBytes as)) acc = Inr (acc @ as)"
proof (induction as arbitrary: acc)
  case Nil
  then show ?case by (simp add: read_addrs6.simps)
next
  case (Cons a as)
  then have a: "isV6 a" "getFamily a = AF_INET6" "length (toBytes a) = 16"
    using length_toBytes6 by (cases a; simp)+
  then have "toBytes a \<noteq> []" by auto
  moreover have "fromBytes AF_INET6 (toBytes a @ xs) = Inr a" for xs
    using fromBytes_toBytes [of a xs] a(2) by simp
  ultimately show ?case using Cons a
    by (subst read_addrs6.simps) (simp del: toBytes.simps)
qed

lemma sum_length_toBytes6: "list_all isV6 as \<Longrightarrow> length (concat (map toBytes as)) = length as * 16"
  by (induction as) (auto simp: length_toBytes6)

section \<open>Parsing what was packed\<close>

definition parse6 :: "OptionDefinition list \<Rightarrow> u16 \<Rightarrow> bytes \<Rightarrow> opt result" where
  "parse6 defs t data =
     (case defs_with_code defs t of
        [] \<Rightarrow> mk_Option UV6 t data
      | [d] \<Rightarrow> optionFactory defs d UV6 t data
      | _ \<Rightarrow> Inl Unexpected)"

text \<open>The bytes an option contributes: a header that carries the type and the length of the content,
  and content from which the parser rebuilds the option.\<close>

definition packs6 :: "OptionDefinition list \<Rightarrow> opt \<Rightarrow> bytes \<Rightarrow> bool" where
  "packs6 defs o1 c \<longleftrightarrow>
     opt_pack o1 = Inr (writeUint16 (otype o1) @ writeUint16 (word_of_nat (length c)) @ c) \<and>
     length c + 4 = opt_nlen o1 \<and> parse6 defs (otype o1) c = Inr o1"

definition packs_all6 :: "OptionDefinition list \<Rightarrow> OptionCollection \<Rightarrow> bytes \<Rightarrow> bool" where
  "packs_all6 defs os bs \<longleftrightarrow>
     packOptions os = Inr bs \<and> length bs = opts_nlen os \<and>
     (\<forall>off acc rm rest. unpackOptions6 defs False (bs @ rest) off acc rm =
        unpackOptions6 defs False rest (off + length bs) (mm_insert_all os acc) rm)"

lemmas hdr_len_defs = getHeaderLen_def OPTION6_HDR_LEN_def OPTION4_HDR_LEN_def OPTION6_IA_LEN_def
  OPTION6_IAADDR_LEN_def

lemma len_minus_header: "opt_nlen o1 = n + 4 \<Longrightarrow> opt_len o1 - 4 = word_of_nat n"
  by (simp add: opt_len_nlen)

lemma unpackOptions6_Nil [simp]: "unpackOptions6 defs relay [] off acc rm = Inr (off, acc, rm)"
  by (simp add: unpackOptions6.simps)

lemma packs_all6_sub:
  "packs_all6 defs os bs \<Longrightarrow> mm_wf os \<Longrightarrow> unpackOptions6 defs False bs 0 [] None = Inr (length bs, os, None)"
proof -
  assume p: "packs_all6 defs os bs" and m: "mm_wf os"
  from p have "unpackOptions6 defs False (bs @ []) 0 [] None =
      unpackOptions6 defs False [] (0 + length bs) (mm_insert_all os []) None"
    unfolding packs_all6_def by blast
  with m show ?thesis by simp
qed

lemma length_header [simp]: "length (writeUint16 a @ writeUint16 b @ xs) = 4 + length xs"
  by simp

lemma unpackOptions6_parse6:
  "unpackOptions6 defs relay rest offset options rm =
     (if length rest < 4 then Inr (offset, options, rm)
      else
        bindE (readUint16 rest) (\<lambda>opt_type.
        bindE (readUint16 (drop 2 rest)) (\<lambda>opt_len.
          if offset + 4 + unat opt_len > offset + length rest then Inr (offset + 4, options, rm)
          else if opt_type = D6O_RELAY_MSG \<and> relay then
            unpackOptions6 defs relay (drop (4 + unat opt_len) rest) (offset + 4 + unat opt_len) options
              (Some (offset + 4, unat opt_len))
          else
            seqE (parse6 defs opt_type (take (unat opt_len) (drop 4 rest)))
              (\<lambda>opt. unpackOptions6 defs relay (drop (4 + unat opt_len) rest) (offset + 4 + unat opt_len)
                        (mm_insert opt_type opt options) rm))))"
  unfolding parse6_def by (rule unpackOptions6.simps)

lemma unpackOptions6_step:
  assumes "packs6 defs o1 c" "length c < 2 ^ 16"
  shows "unpackOptions6 defs False (writeUint16 (otype o1) @ writeUint16 (word_of_nat (length c)) @ c @ rest) off acc rm
    = unpackOptions6 defs False rest (off + 4 + length c) (mm_insert (otype o1) o1 acc) rm"
proof -
  have l: "unat (word_of_nat (length c) :: u16) = length c" using assms(2) by (simp add: unat_of_nat)
  have d4: "drop 4 (writeUint16 a @ writeUint16 b @ xs) = xs" for a b xs by (simp add: drop_append)
  have d: "drop (4 + length c) (writeUint16 a @ writeUint16 b @ c @ xs) = xs" for a b xs by (simp add: drop_append)
  show ?thesis
    using assms(1) unfolding packs6_def
    by (subst unpackOptions6_parse6) (simp add: byte_simps l d d4 seqE_def)
qed

lemma packs_all6_Nil: "packs_all6 defs [] []"
  by (simp add: packs_all6_def)

lemma packs_all6_Cons:
  assumes "packs6 defs o1 c" "length c < 2 ^ 16" "packs_all6 defs os bs"
  shows "packs_all6 defs ((otype o1, o1) # os)
    (writeUint16 (otype o1) @ writeUint16 (word_of_nat (length c)) @ c @ bs)"
proof -
  let ?b = "writeUint16 (otype o1) @ writeUint16 (word_of_nat (length c)) @ c @ bs"
  have l: "length ?b = 4 + (length c + length bs)" by simp
  have "unpackOptions6 defs False (?b @ rest) off acc rm =
      unpackOptions6 defs False rest (off + 4 + length c + length bs) (mm_insert_all ((otype o1, o1) # os) acc) rm"
    for off acc rm rest
    using unpackOptions6_step [OF assms(1,2), of "bs @ rest" off acc rm] assms(3)
    unfolding packs_all6_def mm_insert_all_simps append.assoc by metis
  then have "unpackOptions6 defs False (?b @ rest) off acc rm =
      unpackOptions6 defs False rest (off + length ?b) (mm_insert_all ((otype o1, o1) # os) acc) rm"
    for off acc rm rest
    unfolding l by (simp only: add.assoc)
  moreover have "packOptions ((otype o1, o1) # os) = Inr ?b \<and> length ?b = opts_nlen ((otype o1, o1) # os)"
    using assms(1,3) by (simp add: packs_all6_def packs6_def)
  ultimately show ?thesis unfolding packs_all6_def by blast
qed

text \<open>One lemma per class.\<close>

lemma the_def_iff: "the_def defs t P \<longleftrightarrow> (\<exists>d. defs_with_code defs t = [d] \<and> P d)"
  by (auto simp: the_def_def split: list.splits)

lemma def_code_of: "defs_with_code defs t = [d] \<Longrightarrow> def_code d = t"
  by (metis (mono_tags, lifting) defs_with_code_def filter_eq_ConsD)

lemma packs6_generic:
  assumes "wf_opt6 defs (Opt UV6 t data PGeneric [])"
  shows "packs6 defs (Opt UV6 t data PGeneric []) data"
  using assms len_minus_header [of "Opt UV6 t data PGeneric []" "length data"]
  by (auto simp: packs6_def packHeader_def hdr_len_defs generic_def_def the_def_iff parse6_def
      mk_Option_def check_def optionFactory.simps mk_Option_empty_def)

lemma packs6_addrs:
  assumes "wf_opt6 defs (Opt UV6 t [] (PAddrLst6 as) [])"
  shows "packs6 defs (Opt UV6 t [] (PAddrLst6 as) []) (concat (map toBytes as))"
proof -
  have v6: "list_all isV6 as" using assms by simp
  note sum_length_toBytes6 [OF v6] pack_addrs6 [OF v6] read_addrs6_bytes [OF v6, of "[]"]
  with assms len_minus_header [of "Opt UV6 t [] (PAddrLst6 as) []" "length as * 16"]
  show ?thesis
    by (auto simp: packs6_def hdr_len_defs the_def_iff parse6_def optionFactory.simps
        Option6AddrLst_unpack_def)
qed

lemma packs6_ints:
  assumes "wf_opt6 defs (Opt UV6 t [] (PIntArray k vs) [])"
  shows "packs6 defs (Opt UV6 t [] (PIntArray k vs) []) (concat (map (int_bytes k) vs))"
proof -
  have l: "length (concat (map (int_bytes k) vs)) = length vs * int_len k" by (induction vs) auto
  have v: "list_all (\<lambda>v. v < 256 ^ int_len k) vs" "vs \<noteq> []" "k = TU16 \<or> k = TU32" using assms by simp_all
  note read_int_values_bytes [OF v(1), of "[]"]
  with v l assms len_minus_header [of "Opt UV6 t [] (PIntArray k vs) []" "length vs * int_len k"]
  show ?thesis
    by (auto simp: packs6_def packHeader_def hdr_len_defs the_def_iff parse6_def optionFactory.simps
        OptionIntArray_unpack_def mk_Option_empty_def)
qed

lemma packs6_string:
  assumes "wf_opt6 defs (Opt UV6 t data PString [])"
  shows "packs6 defs (Opt UV6 t data PString []) data"
  using assms len_minus_header [of "Opt UV6 t data PString []" "length data"]
  by (auto simp: packs6_def packHeader_def hdr_len_defs the_def_iff parse6_def optionFactory.simps
      OptionString_unpack_def mk_Option_empty_def)

lemma optionFactory_custom:
  assumes "custom_def u d" "mk_OptionCustom d u data = Inr o1"
  shows "optionFactory defs d u t data = Inr o1"
proof -
  have c: "\<not> (u = UV6 \<and> (def_code d = D6O_IA_NA \<or> def_code d = D6O_IA_PD) \<and> haveIA6Format d)"
    "\<not> (u = UV6 \<and> def_code d = D6O_IAADDR \<and> haveIAAddr6Format d)"
    using assms(1) by (simp_all only: custom_def_def simp_thms)
  have "def_type d \<in> {OPT_BOOLEAN_TYPE, OPT_ANY_ADDRESS_TYPE, OPT_FQDN_TYPE, OPT_RECORD_TYPE, OPT_UNKNOWN_TYPE} \<or>
      \<not> array_type d \<and> def_type d \<in> {OPT_IPV4_ADDRESS_TYPE, OPT_IPV6_ADDRESS_TYPE}"
    using assms(1) by (simp only: custom_def_def simp_thms)
  then show ?thesis
    unfolding optionFactory.simps [of defs d] Let_def
    by (cases "def_type d") (simp_all add: c assms(2) del: de_Morgan_conj)
qed

lemma packs6_custom:
  assumes "wf_opt6 defs (Opt UV6 t data (PCustom c bufs) [])"
  shows "packs6 defs (Opt UV6 t data (PCustom c bufs) []) data"
proof -
  from assms have c: "createBuffers c data = Inr bufs" "concat bufs = data" "custom_def UV6 c"
      "defs_with_code defs t = [c]"
    by (auto simp: the_def_iff)
  have "mk_OptionCustom c UV6 data = Inr (Opt UV6 t data (PCustom c bufs) [])"
    using c def_code_of [OF c(4)] by (simp add: mk_OptionCustom_def check_def)
  note optionFactory_custom [OF c(3) this, of defs t]
  moreover have "sum_list (map length bufs) = length data" using c(2) by (metis length_concat)
  ultimately show ?thesis
    using c len_minus_header [of "Opt UV6 t data (PCustom c bufs) []" "length data"]
    by (simp add: packs6_def packHeader_def hdr_len_defs parse6_def)
qed

lemma packs6_ia:
  assumes "wf_opt6 defs (Opt UV6 t [] (PIA iaid t1 t2) subs)" "packs_all6 defs subs bs"
  shows "packs6 defs (Opt UV6 t [] (PIA iaid t1 t2) subs)
    (writeUint32 iaid @ writeUint32 t1 @ writeUint32 t2 @ bs)"
proof -
  let ?o = "Opt UV6 t [] (PIA iaid t1 t2) subs"
  let ?c = "writeUint32 iaid @ writeUint32 t1 @ writeUint32 t2 @ bs"
  from assms(1) obtain d where d: "defs_with_code defs t = [d]" "haveIA6Format d" "mm_wf subs"
      "t = D6O_IA_NA \<or> t = D6O_IA_PD"
    by (auto simp: the_def_iff)
  have r: "readUint32 ?c = Inr iaid" "readUint32 (drop 4 ?c) = Inr t1" "readUint32 (drop 8 ?c) = Inr t2"
      "drop 12 ?c = bs"
    by (simp_all add: byte_simps drop_append)
  have "def_type d = OPT_RECORD_TYPE" using d(2) by (simp add: haveIA6Format_def haveIAx6Format_def)
  moreover have "def_code d = D6O_IA_NA \<or> def_code d = D6O_IA_PD" using def_code_of [OF d(1)] d(4) by simp
  moreover have l: "length ?c = 12 + length bs" by simp
  ultimately have "optionFactory defs d UV6 t ?c = Inr ?o"
    using d(2) packs_all6_sub [OF assms(2) d(3)]
    by (subst optionFactory.simps) (simp add: r seqE_def hdr_len_defs byte_simps)
  moreover have "opt_nlen ?o = length ?c + 4"
    using assms(2) l by (simp add: packs_all6_def hdr_len_defs)
  ultimately show ?thesis
    using assms(2) len_minus_header [of ?o "length ?c"] d(1)
    by (simp add: packs6_def packs_all6_def parse6_def hdr_len_defs)
qed

lemma packs6_iaaddr:
  assumes "wf_opt6 defs (Opt UV6 t [] (PIAAddr a pref valid) subs)" "packs_all6 defs subs bs"
  shows "packs6 defs (Opt UV6 t [] (PIAAddr a pref valid) subs)
    (toBytes a @ writeUint32 pref @ writeUint32 valid @ bs)"
proof -
  let ?o = "Opt UV6 t [] (PIAAddr a pref valid) subs"
  let ?c = "toBytes a @ writeUint32 pref @ writeUint32 valid @ bs"
  from assms(1) obtain d where d: "defs_with_code defs t = [d]" "haveIAAddr6Format d" "mm_wf subs"
      "t = D6O_IAADDR" "isV6 a"
    by (auto simp: the_def_iff)
  have a: "length (toBytes a) = 16" "getFamily a = AF_INET6" using d(5) by (cases a; simp)+
  have f: "fromBytes 10 (toBytes a @ xs) = Inr a" for xs using fromBytes_toBytes [of a xs] a by simp
  have r: "readUint32 (drop 16 ?c) = Inr pref"
      "readUint32 (drop 20 ?c) = Inr valid" "drop 24 ?c = bs"
    using a by (simp_all add: byte_simps drop_append del: toBytes.simps)
  have "def_type d = OPT_RECORD_TYPE" "\<not> haveIA6Format d"
    using d(2) by (simp_all add: haveIAAddr6Format_def haveIA6Format_def haveIAx6Format_def)
  moreover have "def_code d = D6O_IAADDR" using def_code_of [OF d(1)] d(4) by simp
  moreover have l: "length ?c = 24 + length bs" using a(1) by simp
  ultimately have "optionFactory defs d UV6 t ?c = Inr ?o"
    using d(2) packs_all6_sub [OF assms(2) d(3)]
    by (subst optionFactory.simps) (simp add: r f seqE_def hdr_len_defs byte_simps del: toBytes.simps)
  moreover have "opt_nlen ?o = length ?c + 4"
    using assms(2) l by (simp add: packs_all6_def hdr_len_defs)
  ultimately show ?thesis
    using assms(2) len_minus_header [of ?o "length ?c"] d(1,5)
    by (simp add: packs6_def packs_all6_def parse6_def hdr_len_defs pack_addr6_def)
qed

lemma packs6_int:
  assumes "wf_opt6 defs (Opt UV6 t [] (PInt k v) subs)" "packs_all6 defs subs bs"
  shows "packs6 defs (Opt UV6 t [] (PInt k v) subs) (int_bytes k v @ bs)"
proof -
  let ?o = "Opt UV6 t [] (PInt k v) subs"
  from assms(1) obtain d where d: "defs_with_code defs t = [d]" "def_type d = int_type k" "\<not> array_type d"
      "mm_wf subs" "v < 256 ^ int_len k"
    by (auto simp: the_def_iff)
  have "optionFactory defs d UV6 t (int_bytes k v @ bs) = Inr ?o"
    using d(2,3) packs_all6_sub [OF assms(2) d(4)] read_int_bytes [OF d(5), of bs]
    by (subst optionFactory.simps) (cases k; simp add: seqE_def mk_Option_empty_def)
  moreover have "opt_nlen ?o = length (int_bytes k v @ bs) + 4"
    using assms(2) by (simp add: packs_all6_def hdr_len_defs)
  ultimately show ?thesis
    using assms(2) len_minus_header [of ?o "length (int_bytes k v @ bs)"] d(1)
    by (simp add: packs6_def packs_all6_def parse6_def hdr_len_defs packHeader_def)
qed

lemma wf_opt6_packs:
  "wf_opt6 defs o1 \<Longrightarrow> \<exists>c. packs6 defs o1 c"
  "(\<forall>(k, o1) \<in> set os. k = otype o1) \<Longrightarrow> wf_opts6 defs os \<Longrightarrow> \<exists>bs. packs_all6 defs os bs"
proof (induction defs o1 and defs os rule: wf_opt6_wf_opts6.induct)
  case (1 defs u t data p subs)
  have u: "u = UV6" using "1.prems" by simp
  show ?case
  proof (cases p)
    case PGeneric
    with 1 u packs6_generic [of defs t data] show ?thesis by auto
  next
    case (PAddrLst4 as)
    with 1 show ?thesis by simp
  next
    case (PAddrLst6 as)
    with 1 u packs6_addrs [of defs t as] show ?thesis by auto
  next
    case (PIA iaid t1 t2)
    with 1 obtain bs where "packs_all6 defs subs bs" by (auto simp: mm_wf_def)
    with PIA 1 u packs6_ia [of defs t iaid t1 t2 subs bs] show ?thesis by auto
  next
    case (PIAAddr a pref valid)
    with 1 obtain bs where "packs_all6 defs subs bs" by (auto simp: mm_wf_def)
    with PIAAddr 1 u packs6_iaaddr [of defs t a pref valid subs bs] show ?thesis by auto
  next
    case (PInt k v)
    with 1 obtain bs where "packs_all6 defs subs bs" by (auto simp: mm_wf_def)
    with PInt 1 u packs6_int [of defs t k v subs bs] show ?thesis by auto
  next
    case (PIntArray k vs)
    with 1 u packs6_ints [of defs t k vs] show ?thesis by auto
  next
    case PString
    with 1 u packs6_string [of defs t data] show ?thesis by auto
  next
    case (PCustom c bufs)
    with 1 u packs6_custom [of defs t data c bufs] show ?thesis by auto
  qed
next
  case (2 defs)
  then show ?case using packs_all6_Nil by blast
next
  case (3 defs k o1 os)
  then obtain c bs where c: "packs6 defs o1 c" "packs_all6 defs os bs" by auto
  moreover have "opt_nlen o1 < 4 + 2 ^ 16" using 3 by (cases o1) auto
  ultimately have "length c < 2 ^ 16" by (simp add: packs6_def)
  moreover have "k = otype o1" using 3 by simp
  ultimately show ?case using packs_all6_Cons [of defs o1 c os bs] c by blast
qed

lemma options6_pack_unpack:
  assumes "getOptionDefs UV6 = Inr defs" "mm_wf os" "wf_opts6 defs os"
  shows "\<exists>bs. packOptions os = Inr bs \<and> length bs = opts_nlen os \<and>
    LibDHCP_unpackOptions6 False bs [] = Inr (length bs, os, None)"
proof -
  obtain bs where bs: "packs_all6 defs os bs"
    using wf_opt6_packs(2) [OF _ assms(3)] assms(2) by (auto simp: mm_wf_def)
  then show ?thesis
    using assms packs_all6_sub [OF bs assms(2)]
    by (auto simp: packs_all6_def LibDHCP_unpackOptions6_def)
qed

section \<open>Properties\<close>

text \<open>C23. Packing a well-formed collection of DHCPv6 options (nested suboptions included) and parsing
  the bytes with the standard definitions gives the same collection back, consumes every byte, and the
  number of bytes is the sum of the options' lengths.\<close>

theorem options6_roundtrip:
  assumes "getOptionDefs UV6 = Inr defs" "mm_wf os" "wf_opts6 defs os"
  shows "\<exists>bs. packOptions os = Inr bs \<and> length bs = opts_nlen os \<and>
    LibDHCP_unpackOptions6 False bs [] = Inr (length bs, os, None)"
  using assms by (rule options6_pack_unpack)

definition status_code_def :: OptionDefinition where
  "status_code_def = \<lparr>def_name = ''status-code'', def_code = 13, def_type = OPT_RECORD_TYPE, array_type = False,
     encapsulated_space = [], record_fields = [OPT_UINT16_TYPE, OPT_STRING_TYPE]\<rparr>"

definition example_ia :: opt where
  "example_ia =
     Opt UV6 D6O_IA_NA [] (PIA 1 1000 2000)
       [(D6O_IAADDR, Opt UV6 D6O_IAADDR [] (PIAAddr (IPv6 0x20010db8000000010000000000000001) 3000 4000) []),
        (D6O_STATUS_CODE, Opt UV6 D6O_STATUS_CODE [0, 0]
          (PCustom status_code_def [[0, 0], []]) [])]"

definition example_options :: OptionCollection where
  "example_options = [(D6O_CLIENTID, Opt UV6 D6O_CLIENTID [0, 1, 2, 3] PGeneric []), (D6O_IA_NA, example_ia)]"

lemma getOptionDefs6: "getOptionDefs UV6 = Inr std_defs6"
  by (simp add: getOptionDefs_def initStdOptionDefs6_eq)

lemma std_defs6_lookups:
  "the_def std_defs6 D6O_CLIENTID (\<lambda>d. def_type d = OPT_BINARY_TYPE)"
  "the_def std_defs6 D6O_IA_NA haveIA6Format" "the_def std_defs6 D6O_IAADDR haveIAAddr6Format"
  by code_simp+

lemma status_code_lookup:
  "defs_with_code std_defs6 D6O_STATUS_CODE = [status_code_def]"
  "custom_def UV6 status_code_def" "createBuffers status_code_def [0, 0] = Inr [[0, 0], []]"
  by code_simp+

lemma example_options_wf: "mm_wf example_options" "wf_opts6 std_defs6 example_options"
proof -
  show "mm_wf example_options" by (simp add: mm_wf_def example_options_def example_ia_def)
  have "generic_def std_defs6 D6O_CLIENTID [0, 1, 2, 3]"
    using std_defs6_lookups(1) by (auto simp: generic_def_def the_def_iff)
  then show "wf_opts6 std_defs6 example_options"
    using std_defs6_lookups status_code_lookup
    by (simp add: example_options_def example_ia_def hdr_len_defs mm_wf_def the_def_iff)
qed

theorem options6_roundtrip_witness:
  "\<exists>bs. packOptions example_options = Inr bs \<and> length bs = opts_nlen example_options \<and>
    LibDHCP_unpackOptions6 False bs [] = Inr (length bs, example_options, None)"
  by (rule options6_roundtrip [OF getOptionDefs6 example_options_wf])

section \<open>Bounds and order\<close>

lemma unpack6_cases:
  assumes "unpackOptions6 defs relay rest off acc rm = Inr (n, os, rm')"
  obtains "n = off" "os = acc"
  | "n = off + 4" "os = acc" "4 \<le> length rest"
  | t l acc' rm'' where "4 + unat l \<le> length rest" "4 \<le> length rest"
      "readUint16 rest = Inr t" "readUint16 (drop 2 rest) = Inr l"
      "unpackOptions6 defs relay (drop (4 + unat l) rest) (off + 4 + unat l) acc' rm'' = Inr (n, os, rm')"
      "acc' = acc \<and> t = D6O_RELAY_MSG \<and> relay \<and> rm'' = Some (off + 4, unat l) \<or>
        (\<exists>x. parse6 defs t (take (unat l) (drop 4 rest)) = Inr x \<and> acc' = mm_insert t x acc \<and> rm'' = rm \<and>
          \<not> (t = D6O_RELAY_MSG \<and> relay))"
  using assms
  by (subst (asm) unpackOptions6_parse6) (auto simp: seqE_def result_simps not_less split: if_splits)

lemma unpack6_bounds:
  "unpackOptions6 defs relay rest off acc rm = Inr (n, os, rm') \<Longrightarrow> sorted (map fst acc) \<Longrightarrow>
     sorted (map fst os) \<and> off \<le> n \<and> n \<le> off + length rest"
proof (induction "length rest" arbitrary: rest off acc rm rule: less_induct)
  case less
  from less.prems(1) show ?case
  proof (cases rule: unpack6_cases)
    case (3 t l acc' rm'')
    then have "sorted (map fst acc')" using less.prems(2) sorted_mm_insert by auto
    moreover have "length (drop (4 + unat l) rest) < length rest" using 3(2) by simp
    ultimately show ?thesis using less.hyps [OF _ 3(5)] 3(1) by fastforce
  qed (use less.prems in auto)
qed

lemma unpack4_cases:
  assumes "unpackOptions4 defs rest off acc = Inr (n, os, rm')"
  obtains "n = off" "os = acc"
  | "n = off + 1" "os = acc" "rest \<noteq> []"
  | t rest' where "rest = t # rest'" "unpackOptions4 defs rest' (off + 1) acc = Inr (n, os, rm')"
  | t l body x where "rest = t # l # body" "unat l \<le> length body"
      "unpackOptions4 defs (drop (unat l) body) (off + 2 + unat l) (mm_insert (ucast t) x acc) = Inr (n, os, rm')"
proof (cases rest)
  case Nil
  with assms that show thesis by simp
next
  case (Cons t rest')
  show thesis
  proof (cases rest')
    case Nil
    with assms Cons that show thesis by (auto split: if_splits)
  next
    case (Cons l body)
    with assms \<open>rest = t # rest'\<close> that show thesis
      by (auto simp: Let_def seqE_def result_simps not_less split: if_splits)
  qed
qed

lemma unpack4_bounds:
  "unpackOptions4 defs rest off acc = Inr (n, os, rm') \<Longrightarrow> sorted (map fst acc) \<Longrightarrow>
     sorted (map fst os) \<and> off \<le> n \<and> n \<le> off + length rest"
proof (induction "length rest" arbitrary: rest off acc rule: less_induct)
  case less
  from less.prems(1) show ?case
  proof (cases rule: unpack4_cases)
    case (2)
    with less.prems show ?thesis by (cases rest) auto
  next
    case (3 t rest')
    then have "length rest' < length rest" by simp
    from less.hyps [OF this 3(2) less.prems(2)] show ?thesis using 3(1) by auto
  next
    case (4 t l body x)
    have "length (drop (unat l) body) < length rest" using 4(1) by simp
    from less.hyps [OF this 4(3) sorted_mm_insert [OF less.prems(2)]] show ?thesis
      using 4(1,2) by auto
  qed (use less.prems in auto)
qed

text \<open>C33. Whatever the input, a parser that returns has consumed no more than the buffer, and the
  collection it builds is ordered by option code, as a \<^verbatim>\<open>std::multimap\<close> is.\<close>

theorem unpackOptions_bounds:
  assumes "LibDHCP_unpackOptions6 relay buf [] = Inr (n, os, rm) \<or>
    LibDHCP_unpackOptions4 buf [] = Inr (n, os, rm)"
  shows "n \<le> length buf \<and> sorted (map fst os)"
  using assms unpack6_bounds [of _ relay buf 0 "[]" None n os rm] unpack4_bounds [of _ buf 0 "[]" n os rm]
  by (auto simp: LibDHCP_unpackOptions6_def LibDHCP_unpackOptions4_def result_simps)

lemma example_elapsed:
  "LibDHCP_unpackOptions6 False [0, 8, 0, 2, 0, 5] [] = Inr (6, [(8, Opt UV6 8 [] (PInt TU16 5) [])], None)"
  unfolding LibDHCP_unpackOptions6_def getOptionDefs6 by code_simp

theorem unpackOptions_bounds_witness:
  "6 \<le> length [0, 8, 0, 2, 0, 5 :: u8] \<and> sorted (map fst [(8 :: u16, Opt UV6 8 [] (PInt TU16 5) [])])"
  using unpackOptions_bounds [of False "[0, 8, 0, 2, 0, 5]"] example_elapsed by blast

end
