(* ===== verification/Options_Roundtrip4.thy ===== *)
theory Options_Roundtrip4
  imports Options_Roundtrip
begin

unbundle bit_operations_syntax

text \<open>
  The same round trip for DHCPv4 options, whose header is one byte of type and one of length, and
  whose list is closed by the END option. The content of an option is limited to 253 bytes:
  \<^verbatim>\<open>packHeader\<close> compares the length with its header to 255.
\<close>

section \<open>Well-formed DHCPv4 options\<close>

definition wf_opt4 :: "OptionDefinition list \<Rightarrow> opt \<Rightarrow> bool" where
  "wf_opt4 defs o1 \<longleftrightarrow>
     universe o1 = UV4 \<and> suboptions o1 = [] \<and> opt_nlen o1 \<le> 255 \<and> otype o1 \<noteq> 0 \<and> otype o1 < 255 \<and>
     (case opayload o1 of
        PGeneric \<Rightarrow> generic_def defs (otype o1) (odata o1)
      | PAddrLst4 as \<Rightarrow> odata o1 = [] \<and> list_all isV4 as \<and>
          the_def defs (otype o1) (\<lambda>d. def_type d = OPT_IPV4_ADDRESS_TYPE \<and> array_type d)
      | PInt k v \<Rightarrow> odata o1 = [] \<and> v < 256 ^ int_len k \<and>
          the_def defs (otype o1) (\<lambda>d. def_type d = int_type k \<and> \<not> array_type d)
      | PIntArray k vs \<Rightarrow> odata o1 = [] \<and> vs \<noteq> [] \<and> list_all (\<lambda>v. v < 256 ^ int_len k) vs \<and>
          (k = TU16 \<or> k = TU32) \<and> the_def defs (otype o1) (\<lambda>d. def_type d = int_type k \<and> array_type d)
      | PString \<Rightarrow> odata o1 \<noteq> [] \<and> the_def defs (otype o1) (\<lambda>d. def_type d = OPT_STRING_TYPE)
      | PCustom c bufs \<Rightarrow> createBuffers c (odata o1) = Inr bufs \<and> concat bufs = odata o1 \<and>
          custom_def UV4 c \<and> the_def defs (otype o1) (\<lambda>d. d = c)
      | _ \<Rightarrow> False)"

definition wf_opts4 :: "OptionDefinition list \<Rightarrow> OptionCollection \<Rightarrow> bool" where
  "wf_opts4 defs os \<longleftrightarrow> mm_wf os \<and> (\<forall>(k, o1) \<in> set os. wf_opt4 defs o1)"

section \<open>Parsing what was packed\<close>

definition parse4 :: "OptionDefinition list \<Rightarrow> u16 \<Rightarrow> bytes \<Rightarrow> opt result" where
  "parse4 defs t data =
     (case defs_with_code defs t of
        [] \<Rightarrow> mk_Option UV4 t data
      | [d] \<Rightarrow> optionFactory defs d UV4 t data
      | _ \<Rightarrow> Inl Unexpected)"

definition packs4 :: "OptionDefinition list \<Rightarrow> opt \<Rightarrow> bytes \<Rightarrow> bool" where
  "packs4 defs o1 c \<longleftrightarrow>
     opt_pack o1 = Inr (ucast (otype o1) # word_of_nat (length c) # c) \<and>
     length c + 2 = opt_nlen o1 \<and> parse4 defs (otype o1) c = Inr o1"

lemma ucast_nat: "unat (ucast (w :: 'a::len word) :: 'b::len word) = unat w mod 2 ^ LENGTH('b)"
  by (simp add: unsigned_ucast_eq unsigned_take_bit_eq take_bit_eq_mod)

lemma ucast_type [simp]: "t < 256 \<Longrightarrow> ucast (ucast (t :: u16) :: u8) = t"
  by (simp add: word_unat_eq_iff ucast_nat word_less_nat_alt)

lemma header4:
  assumes "opt_nlen o1 = n + 2" "opt_nlen o1 \<le> 255"
  shows "\<not> opt_len o1 > 255" "opt_len o1 - 2 = word_of_nat n" "ucast (opt_len o1 - 2) = (word_of_nat n :: u8)"
proof -
  have l: "opt_len o1 = word_of_nat (n + 2)" using assms by (simp add: opt_len_nlen)
  have "unat (word_of_nat (n + 2) :: u16) = n + 2" using assms by (subst unat_of_nat) simp
  then show "\<not> opt_len o1 > 255" unfolding l word_less_nat_alt using assms by simp
  show *: "opt_len o1 - 2 = word_of_nat n" by (simp add: l)
  show "ucast (opt_len o1 - 2) = (word_of_nat n :: u8)"
    unfolding * using assms by (simp add: word_unat_eq_iff ucast_nat unat_of_nat)
qed

lemma packHeader4:
  assumes "opt_nlen o1 = n + 2" "opt_nlen o1 \<le> 255"
  shows "packHeader UV4 t (opt_len o1) = Inr [ucast t, word_of_nat n]"
  using header4 [OF assms] by (simp add: packHeader_def hdr_len_defs)

lemma unpackOptions4_parse4:
  "opt_type \<noteq> 255 \<Longrightarrow> opt_type \<noteq> 0 \<Longrightarrow> body \<noteq> [] \<Longrightarrow> unat l \<le> length body \<Longrightarrow>
   unpackOptions4 defs (opt_type # l # body) off acc =
     bindE (parse4 defs (ucast opt_type) (take (unat l) body)) (\<lambda>opt.
       unpackOptions4 defs (drop (unat l) body) (off + 2 + unat l) (mm_insert (ucast opt_type) opt acc))"
  by (simp add: parse4_def seqE_def Let_def)

lemma unpackOptions4_step:
  assumes "packs4 defs o1 c" "length c < 256" "otype o1 \<noteq> 0" "otype o1 < 255" "rest \<noteq> []"
  shows "unpackOptions4 defs (ucast (otype o1) # word_of_nat (length c) # c @ rest) off acc =
    unpackOptions4 defs rest (off + 2 + length c) (mm_insert (otype o1) o1 acc)"
proof -
  have l: "unat (word_of_nat (length c) :: u8) = length c" using assms(2) by (simp add: unat_of_nat)
  have t: "ucast (ucast (otype o1) :: u8) = otype o1" using assms(4) by (intro ucast_type) (simp add: word_less_nat_alt)
  then have "ucast (otype o1) \<noteq> (0 :: u8)" "ucast (otype o1) \<noteq> (255 :: u8)"
    using assms(3,4) by auto
  then show ?thesis
    using assms(1,5) by (subst unpackOptions4_parse4) (simp_all add: l t packs4_def)
qed

text \<open>One lemma per class.\<close>

lemma packs4_generic:
  assumes "wf_opt4 defs (Opt UV4 t data PGeneric [])"
  shows "packs4 defs (Opt UV4 t data PGeneric []) data"
proof -
  have "\<not> t > 255" "length data \<le> 253" "\<not> t > 254" "t \<noteq> 0"
    using assms by (auto simp: wf_opt4_def hdr_len_defs word_less_nat_alt word_le_nat_alt)
  then show ?thesis
    using assms packHeader4 [of "Opt UV4 t data PGeneric []" "length data" t]
    by (auto simp: wf_opt4_def packs4_def hdr_len_defs generic_def_def the_def_iff parse4_def
        mk_Option_def check_def optionFactory.simps mk_Option_empty_def simp del: opt_len.simps)
qed

lemma pack_addrs4: "list_all isV4 as \<Longrightarrow> \<exists>ws. as = map IPv4 ws \<and> mapE pack_addr4 as = Inr (map writeUint32 ws)"
proof (induction as)
  case (Cons a as)
  then obtain w ws where "a = IPv4 w" "as = map IPv4 ws" "mapE pack_addr4 as = Inr (map writeUint32 ws)"
    by (cases a) auto
  moreover have "pack_addr4 (IPv4 w) = Inr (writeUint32 w)" by (simp add: pack_addr4_def)
  ultimately show ?case by (intro exI [of _ "w # ws"]) simp
qed simp

lemma read_addrs4_bytes: "read_addrs4 (concat (map writeUint32 ws)) acc = Inr (acc @ map IPv4 ws)"
proof (induction ws arbitrary: acc)
  case Nil
  then show ?case by (simp add: read_addrs4.simps)
next
  case (Cons w ws)
  have "writeUint32 w \<noteq> []" by (simp add: writeUint32_def)
  with Cons show ?case
    by (subst read_addrs4.simps) (simp add: byte_simps addAddress4_def)
qed

lemma packs4_addrs:
  assumes "wf_opt4 defs (Opt UV4 t [] (PAddrLst4 as) [])"
  shows "\<exists>c. packs4 defs (Opt UV4 t [] (PAddrLst4 as) []) c"
proof -
  let ?o = "Opt UV4 t [] (PAddrLst4 as) []"
  obtain ws where ws: "as = map IPv4 ws" "mapE pack_addr4 as = Inr (map writeUint32 ws)"
    using assms pack_addrs4 [of as] by (auto simp: wf_opt4_def)
  let ?c = "concat (map writeUint32 ws)"
  have l: "length ?c = length ws * 4" by (induction ws) auto
  have t: "t \<noteq> 0" "\<not> t > 254" "t < 256" using assms by (auto simp: wf_opt4_def word_less_nat_alt)
  have "opt_nlen ?o = length ?c + 2" "opt_nlen ?o \<le> 255" using assms ws(1) l by (simp_all add: wf_opt4_def hdr_len_defs)
  note header4 [OF this] this
  moreover have "parse4 defs t ?c = Inr ?o"
    using assms t read_addrs4_bytes [of ws "[]"] l ws(1)
    by (auto simp: wf_opt4_def the_def_iff parse4_def optionFactory.simps Option4AddrLst_unpack_def
        mk_Option_empty_def)
  ultimately show ?thesis
    using ws l by (intro exI [of _ ?c]) (simp add: packs4_def hdr_len_defs del: opt_len.simps)
qed

lemma packs4_int:
  assumes "wf_opt4 defs (Opt UV4 t [] (PInt k v) [])"
  shows "packs4 defs (Opt UV4 t [] (PInt k v) []) (int_bytes k v)"
proof -
  let ?o = "Opt UV4 t [] (PInt k v) []"
  from assms obtain d where d: "defs_with_code defs t = [d]" "def_type d = int_type k" "\<not> array_type d"
      "v < 256 ^ int_len k" "t \<noteq> 0" "\<not> t > 254"
    by (auto simp: wf_opt4_def the_def_iff word_less_nat_alt)
  have "optionFactory defs d UV4 t (int_bytes k v) = Inr ?o"
    using d read_int_bytes [OF d(4), of "[]"]
    by (subst optionFactory.simps) (cases k; simp add: seqE_def mk_Option_empty_def)
  moreover have "packHeader UV4 t (opt_len ?o) = Inr [ucast t, word_of_nat (int_len k)]"
    using assms by (intro packHeader4) (simp_all add: wf_opt4_def hdr_len_defs)
  ultimately show ?thesis
    using d(1) by (simp add: packs4_def parse4_def hdr_len_defs del: opt_len.simps)
qed

lemma packs4_ints:
  assumes "wf_opt4 defs (Opt UV4 t [] (PIntArray k vs) [])"
  shows "packs4 defs (Opt UV4 t [] (PIntArray k vs) []) (concat (map (int_bytes k) vs))"
proof -
  let ?o = "Opt UV4 t [] (PIntArray k vs) []"
  have l: "length (concat (map (int_bytes k) vs)) = length vs * int_len k" by (induction vs) auto
  have v: "list_all (\<lambda>v. v < 256 ^ int_len k) vs" "vs \<noteq> []" "k = TU16 \<or> k = TU32" "t \<noteq> 0" "\<not> t > 254"
    using assms by (auto simp: wf_opt4_def word_less_nat_alt)
  have "packHeader UV4 t (opt_len ?o) = Inr [ucast t, word_of_nat (length vs * int_len k)]"
    using assms by (intro packHeader4) (simp_all add: wf_opt4_def hdr_len_defs)
  with v l assms read_int_values_bytes [OF v(1), of "[]"] show ?thesis
    by (auto simp: wf_opt4_def packs4_def hdr_len_defs the_def_iff parse4_def optionFactory.simps
        OptionIntArray_unpack_def mk_Option_empty_def simp del: opt_len.simps)
qed

lemma packs4_string:
  assumes "wf_opt4 defs (Opt UV4 t data PString [])"
  shows "packs4 defs (Opt UV4 t data PString []) data"
proof -
  have "t \<noteq> 0" "\<not> t > 254" using assms by (auto simp: wf_opt4_def word_less_nat_alt)
  then show ?thesis
    using assms packHeader4 [of "Opt UV4 t data PString []" "length data" t]
    by (auto simp: wf_opt4_def packs4_def hdr_len_defs the_def_iff parse4_def optionFactory.simps
        OptionString_unpack_def mk_Option_empty_def simp del: opt_len.simps)
qed

lemma packs4_custom:
  assumes "wf_opt4 defs (Opt UV4 t data (PCustom c bufs) [])"
  shows "packs4 defs (Opt UV4 t data (PCustom c bufs) []) data"
proof -
  let ?o = "Opt UV4 t data (PCustom c bufs) []"
  from assms have c: "createBuffers c data = Inr bufs" "concat bufs = data" "custom_def UV4 c"
      "defs_with_code defs t = [c]" "\<not> t > 255"
    by (auto simp: wf_opt4_def the_def_iff word_less_nat_alt)
  have s: "sum_list (map length bufs) = length data" using c(2) by (metis length_concat)
  then have "length data \<le> 253" using assms by (simp add: wf_opt4_def hdr_len_defs)
  then have "mk_OptionCustom c UV4 data = Inr ?o"
    using c def_code_of [OF c(4)] by (simp add: mk_OptionCustom_def check_def)
  note optionFactory_custom [OF c(3) this, of defs t]
  moreover have "packHeader UV4 t (opt_len ?o) = Inr [ucast t, word_of_nat (length data)]"
    using assms s by (intro packHeader4) (simp_all add: wf_opt4_def hdr_len_defs)
  ultimately show ?thesis
    using c s by (simp add: packs4_def hdr_len_defs parse4_def del: opt_len.simps)
qed

lemma wf_opt4_packs:
  assumes "wf_opt4 defs o1"
  shows "\<exists>c. packs4 defs o1 c"
proof (cases o1)
  case (Opt u t data p subs)
  with assms have u: "u = UV4" "subs = []" by (auto simp: wf_opt4_def)
  then have wf: "wf_opt4 defs (Opt UV4 t data p [])" using assms Opt by simp
  have "\<exists>c. packs4 defs (Opt UV4 t data p []) c"
  proof (cases p)
    case PGeneric
    with wf packs4_generic show ?thesis by blast
  next
    case (PAddrLst4 as)
    moreover have "data = []" using wf PAddrLst4 by (simp add: wf_opt4_def)
    ultimately show ?thesis using wf packs4_addrs by blast
  next
    case (PInt k v)
    moreover have "data = []" using wf PInt by (simp add: wf_opt4_def)
    ultimately show ?thesis using wf packs4_int by blast
  next
    case (PIntArray k vs)
    moreover have "data = []" using wf PIntArray by (simp add: wf_opt4_def)
    ultimately show ?thesis using wf packs4_ints by blast
  next
    case PString
    with wf packs4_string show ?thesis by blast
  next
    case (PCustom c bufs)
    with wf packs4_custom show ?thesis by blast
  qed (use wf in \<open>simp_all add: wf_opt4_def\<close>)
  with u Opt show ?thesis by simp
qed

lemma unpackOptions4_all:
  assumes "\<forall>(k, o1) \<in> set os. k = otype o1 \<and> wf_opt4 defs o1"
  shows "\<exists>bs. packOptions os = Inr bs \<and> length bs = opts_nlen os \<and>
    (\<forall>off acc rest. rest \<noteq> [] \<longrightarrow> unpackOptions4 defs (bs @ rest) off acc =
       unpackOptions4 defs rest (off + length bs) (mm_insert_all os acc))"
  using assms
proof (induction os)
  case Nil
  then show ?case by simp
next
  case (Cons x os)
  obtain k o1 where x: "x = (k, o1)" by (cases x)
  have o1: "k = otype o1" "wf_opt4 defs o1" using Cons.prems x by auto
  obtain c where c: "packs4 defs o1 c" using wf_opt4_packs [OF o1(2)] by blast
  have lc: "length c < 256" "otype o1 \<noteq> 0" "otype o1 < 255"
    using c o1(2) by (auto simp: packs4_def wf_opt4_def)
  obtain bs where bs: "packOptions os = Inr bs" "length bs = opts_nlen os"
      "\<And>off acc rest. rest \<noteq> [] \<Longrightarrow> unpackOptions4 defs (bs @ rest) off acc =
         unpackOptions4 defs rest (off + length bs) (mm_insert_all os acc)"
    using Cons by auto
  let ?b = "ucast (otype o1) # word_of_nat (length c) # c @ bs"
  have "unpackOptions4 defs (?b @ rest) off acc =
      unpackOptions4 defs rest (off + length ?b) (mm_insert_all (x # os) acc)" if "rest \<noteq> []" for off acc rest
    using unpackOptions4_step [OF c lc, of "bs @ rest" off acc] bs(3) [OF that] that x o1
    by (simp add: ac_simps)
  moreover have "packOptions (x # os) = Inr ?b" "length ?b = opts_nlen (x # os)"
    using c bs(1,2) x by (auto simp: packs4_def)
  ultimately show ?case by blast
qed

lemma options4_pack_unpack:
  assumes "getOptionDefs UV4 = Inr defs" "wf_opts4 defs os"
  shows "\<exists>bs. packOptions os = Inr bs \<and> length bs = opts_nlen os \<and>
    (\<forall>pad. LibDHCP_unpackOptions4 (bs @ 255 # pad) [] = Inr (length bs + 1, os, None))"
proof -
  have "\<forall>(k, o1) \<in> set os. k = otype o1 \<and> wf_opt4 defs o1" and m: "mm_wf os"
    using assms(2) by (auto simp: wf_opts4_def mm_wf_def)
  then obtain bs where bs: "packOptions os = Inr bs" "length bs = opts_nlen os"
      "\<And>off acc rest. rest \<noteq> [] \<Longrightarrow> unpackOptions4 defs (bs @ rest) off acc =
         unpackOptions4 defs rest (off + length bs) (mm_insert_all os acc)"
    using unpackOptions4_all by blast
  with m assms(1) show ?thesis by (auto simp: LibDHCP_unpackOptions4_def)
qed

section \<open>Properties\<close>

text \<open>C24. Packing a well-formed collection of DHCPv4 options and parsing the bytes, closed by the END
  option, gives the same collection back; what follows END is not read.\<close>

theorem options4_roundtrip:
  assumes "getOptionDefs UV4 = Inr defs" "wf_opts4 defs os"
  shows "\<exists>bs. packOptions os = Inr bs \<and> length bs = opts_nlen os \<and>
    (\<forall>pad. LibDHCP_unpackOptions4 (bs @ 255 # pad) [] = Inr (length bs + 1, os, None))"
  using assms by (rule options4_pack_unpack)

definition example_options4 :: OptionCollection where
  "example_options4 =
     [(DHO_ROUTERS, Opt UV4 DHO_ROUTERS [] (PAddrLst4 [IPv4 0xc0000201]) []),
      (DHO_DHCP_MESSAGE_TYPE, Opt UV4 DHO_DHCP_MESSAGE_TYPE [] (PInt TU8 5) []),
      (DHO_DHCP_CLIENT_IDENTIFIER, Opt UV4 DHO_DHCP_CLIENT_IDENTIFIER [1, 2, 3] PGeneric [])]"

lemma getOptionDefs4: "getOptionDefs UV4 = Inr std_defs4"
  by (simp add: getOptionDefs_def initStdOptionDefs4_eq)

lemma std_defs4_lookups:
  "the_def std_defs4 DHO_ROUTERS (\<lambda>d. def_type d = OPT_IPV4_ADDRESS_TYPE \<and> array_type d)"
  "the_def std_defs4 DHO_DHCP_MESSAGE_TYPE (\<lambda>d. def_type d = int_type TU8 \<and> \<not> array_type d)"
  "generic_def std_defs4 DHO_DHCP_CLIENT_IDENTIFIER [1, 2, 3]"
  by code_simp+

lemma example_options4_wf: "wf_opts4 std_defs4 example_options4"
  using std_defs4_lookups
  by (simp add: wf_opts4_def wf_opt4_def mm_wf_def example_options4_def hdr_len_defs)

theorem options4_roundtrip_witness:
  "\<exists>bs. packOptions example_options4 = Inr bs \<and> length bs = opts_nlen example_options4 \<and>
    (\<forall>pad. LibDHCP_unpackOptions4 (bs @ 255 # pad) [] = Inr (length bs + 1, example_options4, None))"
  by (rule options4_roundtrip [OF getOptionDefs4 example_options4_wf])

text \<open>A DHCPv4 option of zero length is only accepted when another byte follows it: at the very
  end of the buffer it is reported as truncated, although its header is complete.\<close>

theorem zero_length_option_at_end:
  assumes "t \<noteq> 0" "t \<noteq> 255"
  shows "LibDHCP_unpackOptions4 [t, 0] [] = Inl OutOfRange"
  using assms by (simp add: LibDHCP_unpackOptions4_def getOptionDefs4)

theorem zero_length_option_at_end_witness: "LibDHCP_unpackOptions4 [80, 0] [] = Inl OutOfRange"
  by (rule zero_length_option_at_end) simp_all

end
