(* ===== verification/Pkt4.thy ===== *)
theory Pkt4
  imports Options_Roundtrip4 Ids
begin

unbundle bit_operations_syntax

text \<open>
  DHCPv4 messages (\<^verbatim>\<open>src/lib/dhcp/pkt4.{h,cc}\<close>). \<open>p4_data\<close> is the received datagram,
  \<open>p4_bufferOut\<close> what has been written to the output buffer. Options are held by value: the shared
  pointers of the code are not shared between messages that are both in use. The fields a received
  packet leaves uninitialised until \<open>unpack\<close> are 0 here. Timestamps and \<^verbatim>\<open>toText\<close> are left out.
\<close>

section \<open>Data\<close>

definition MAX_CHADDR_LEN :: nat where "MAX_CHADDR_LEN = 16"
definition MAX_SNAME_LEN :: nat where "MAX_SNAME_LEN = 64"
definition MAX_FILE_LEN :: nat where "MAX_FILE_LEN = 128"
definition DHCPV4_PKT_HDR_LEN :: nat where "DHCPV4_PKT_HDR_LEN = 236"
definition DHCPLEASEACTIVE :: u8 where "DHCPLEASEACTIVE = 13"

record pkt4 =
  p4_local_addr :: ioaddress
  p4_remote_addr :: ioaddress
  p4_iface :: string
  p4_ifindex :: int
  p4_local_port :: u16
  p4_remote_port :: u16
  p4_op :: u8
  p4_hwaddr :: "HWAddr option"
  p4_hops :: u8
  p4_transid :: u32
  p4_secs :: u16
  p4_flags :: u16
  p4_ciaddr :: ioaddress
  p4_yiaddr :: ioaddress
  p4_siaddr :: ioaddress
  p4_giaddr :: ioaddress
  p4_sname :: bytes
  p4_file :: bytes
  p4_bufferOut :: bytes
  p4_data :: bytes
  p4_options :: OptionCollection
  p4_is4o6 :: bool

definition DHCPTypeToBootpType :: "u8 \<Rightarrow> u8 result" where
  "DHCPTypeToBootpType dhcpType =
     (if dhcpType \<in> {1, 3, 4, 7, 8, 10} then Inr BOOTREQUEST
      else if dhcpType \<in> {5, 6, 2, 11, 12, 13} then Inr BOOTREPLY
      else Inl OutOfRange)"

section \<open>Options of a message\<close>

definition Pkt4_getOption :: "u8 \<Rightarrow> pkt4 \<Rightarrow> opt option" where
  "Pkt4_getOption type p = map_of (p4_options p) (ucast type)"

definition Pkt4_addOption :: "opt \<Rightarrow> pkt4 \<Rightarrow> pkt4 result" where
  "Pkt4_addOption opt p =
     (if Pkt4_getOption (ucast (otype opt)) p \<noteq> None then Inl BadValue
      else Inr (p\<lparr>p4_options := mm_insert (otype opt) opt (p4_options p)\<rparr>))"

definition Pkt4_delOption :: "u8 \<Rightarrow> pkt4 \<Rightarrow> pkt4 \<times> bool" where
  "Pkt4_delOption type p =
     (case map_of (p4_options p) (ucast type) of
        Some _ \<Rightarrow> (p\<lparr>p4_options := mm_erase_first (ucast type) (p4_options p)\<rparr>, True)
      | None \<Rightarrow> (p, False))"

definition Pkt4_getType :: "pkt4 \<Rightarrow> u8 result" where
  "Pkt4_getType p =
     (case Pkt4_getOption 53 p of
        None \<Rightarrow> Inl Unexpected
      | Some generic \<Rightarrow>
          (case opayload generic of
             PInt TU8 v \<Rightarrow> Inr (word_of_nat v)
           | _ \<Rightarrow> getUint8 generic))"

text \<open>The option found is updated in place, through the pointer: the first one with the code.\<close>

fun mm_update_first :: "u16 \<Rightarrow> ('a \<Rightarrow> 'a) \<Rightarrow> (u16 \<times> 'a) list \<Rightarrow> (u16 \<times> 'a) list" where
  "mm_update_first k f [] = []"
| "mm_update_first k f ((k', v) # xs) = (if k = k' then (k', f v) # xs else (k', v) # mm_update_first k f xs)"

definition Pkt4_setType :: "u8 \<Rightarrow> pkt4 \<Rightarrow> pkt4 result" where
  "Pkt4_setType dhcp_type p =
     (case Pkt4_getOption 53 p of
        Some _ \<Rightarrow> Inr (p\<lparr>p4_options := mm_update_first 53 (setUint8 dhcp_type) (p4_options p)\<rparr>)
      | None \<Rightarrow> bindE (mk_Option UV4 DHO_DHCP_MESSAGE_TYPE [dhcp_type]) (\<lambda>opt. Pkt4_addOption opt p))"

section \<open>Constructors and setters\<close>

definition Pkt4_blank :: pkt4 where
  "Pkt4_blank =
     \<lparr>p4_local_addr = DEFAULT_ADDRESS, p4_remote_addr = DEFAULT_ADDRESS, p4_iface = [], p4_ifindex = 0,
      p4_local_port = DHCP4_SERVER_PORT, p4_remote_port = DHCP4_CLIENT_PORT, p4_op = BOOTREQUEST,
      p4_hwaddr = Some HWAddr_default, p4_hops = 0, p4_transid = 0, p4_secs = 0, p4_flags = 0,
      p4_ciaddr = DEFAULT_ADDRESS, p4_yiaddr = DEFAULT_ADDRESS, p4_siaddr = DEFAULT_ADDRESS,
      p4_giaddr = DEFAULT_ADDRESS, p4_sname = replicate MAX_SNAME_LEN 0, p4_file = replicate MAX_FILE_LEN 0,
      p4_bufferOut = [], p4_data = [], p4_options = [], p4_is4o6 = False\<rparr>"

definition mk_Pkt4 :: "u8 \<Rightarrow> u32 \<Rightarrow> pkt4 result" where
  "mk_Pkt4 msg_type transid =
     bindE (DHCPTypeToBootpType msg_type) (\<lambda>op.
       Pkt4_setType msg_type (Pkt4_blank\<lparr>p4_op := op, p4_transid := transid\<rparr>))"

text \<open>The received datagram; the pointer is never null where the servers call it.\<close>

definition mk_Pkt4_rx :: "bytes \<Rightarrow> pkt4 result" where
  "mk_Pkt4_rx data =
     (if length data < DHCPV4_PKT_HDR_LEN then Inl OutOfRange
      else Inr (Pkt4_blank\<lparr>p4_data := data\<rparr>))"

definition setHWAddr :: "u8 \<Rightarrow> u8 \<Rightarrow> bytes \<Rightarrow> pkt4 \<Rightarrow> pkt4 result" where
  "setHWAddr hType hlen mac_addr p =
     (if unat hlen > MAX_CHADDR_LEN then Inl OutOfRange
      else if mac_addr = [] \<and> hlen > 0 then Inl OutOfRange
      else bindE (mk_HWAddr mac_addr hType) (\<lambda>h. Inr (p\<lparr>p4_hwaddr := Some h\<rparr>)))"

definition setHWAddr_ptr :: "HWAddr option \<Rightarrow> pkt4 \<Rightarrow> pkt4 result" where
  "setHWAddr_ptr addr p = (if addr = None then Inl BadValue else Inr (p\<lparr>p4_hwaddr := addr\<rparr>))"

definition setSname :: "bytes option \<Rightarrow> nat \<Rightarrow> pkt4 \<Rightarrow> pkt4 result" where
  "setSname sname snameLen p =
     (if snameLen > MAX_SNAME_LEN then Inl OutOfRange
      else case sname of
        None \<Rightarrow> Inl InvalidParameter
      | Some s \<Rightarrow> if length s < snameLen then Inl OutOfBounds
                  else Inr (p\<lparr>p4_sname := take snameLen s @ replicate (MAX_SNAME_LEN - snameLen) 0\<rparr>))"

definition setFile :: "bytes option \<Rightarrow> nat \<Rightarrow> pkt4 \<Rightarrow> pkt4 result" where
  "setFile file fileLen p =
     (if fileLen > MAX_FILE_LEN then Inl OutOfRange
      else case file of
        None \<Rightarrow> Inl InvalidParameter
      | Some s \<Rightarrow> if length s < fileLen then Inl OutOfBounds
                  else Inr (p\<lparr>p4_file := take fileLen s @ replicate (MAX_FILE_LEN - fileLen) 0\<rparr>))"

definition getHtype :: "pkt4 \<Rightarrow> u8 result" where
  "getHtype p = (case p4_hwaddr p of None \<Rightarrow> Inl InvalidOperation | Some h \<Rightarrow> Inr (htype h))"

definition getHlen :: "pkt4 \<Rightarrow> u8 result" where
  "getHlen p =
     (case p4_hwaddr p of
        None \<Rightarrow> Inl InvalidOperation
      | Some h \<Rightarrow>
          let len = (word_of_nat (length (hwaddr_bytes h)) :: u8)
          in Inr (if unat len \<le> MAX_CHADDR_LEN then len else word_of_nat MAX_CHADDR_LEN))"

definition Pkt4_len :: "pkt4 \<Rightarrow> nat" where
  "Pkt4_len p = DHCPV4_PKT_HDR_LEN + sum_list (map (\<lambda>(_, o1). unat (opt_len o1)) (p4_options p))"

section \<open>Packing and parsing\<close>

definition chaddr_field :: "bytes \<Rightarrow> bytes" where
  "chaddr_field hw =
     (let hw_len = length hw in
      if hw_len \<le> MAX_CHADDR_LEN then hw @ replicate (MAX_CHADDR_LEN - hw_len) 0
      else replicate MAX_CHADDR_LEN 0)"

definition Pkt4_pack :: "pkt4 \<Rightarrow> pkt4 result" where
  "Pkt4_pack p =
     (case p4_hwaddr p of
        None \<Rightarrow> Inl InvalidOperation
      | Some h \<Rightarrow>
          let hw_len = length (hwaddr_bytes h) in
          bindE (to_uint32 (p4_ciaddr p)) (\<lambda>ci.
          bindE (to_uint32 (p4_yiaddr p)) (\<lambda>yi.
          bindE (to_uint32 (p4_siaddr p)) (\<lambda>si.
          bindE (to_uint32 (p4_giaddr p)) (\<lambda>gi.
          bindE (packOptions (p4_options p)) (\<lambda>opts.
            Inr (p\<lparr>p4_bufferOut := p4_bufferOut p @
              [p4_op p, htype h, word_of_nat (if hw_len < MAX_CHADDR_LEN then hw_len else MAX_CHADDR_LEN),
               p4_hops p] @
              writeUint32 (p4_transid p) @ writeUint16 (p4_secs p) @ writeUint16 (p4_flags p) @
              writeUint32 ci @ writeUint32 yi @ writeUint32 si @ writeUint32 gi @
              chaddr_field (hwaddr_bytes h) @ take MAX_SNAME_LEN (p4_sname p) @ take MAX_FILE_LEN (p4_file p) @
              writeUint32 DHCP_OPTIONS_COOKIE @ opts @ [255]\<rparr>)))))))"

definition Pkt4_check :: "pkt4 \<Rightarrow> unit result" where
  "Pkt4_check p =
     bindE (Pkt4_getType p) (\<lambda>msg_type. if msg_type > DHCPLEASEACTIVE then Inl BadValue else Inr ())"

text \<open>\<^verbatim>\<open>hw_addr.resize(hlen)\<close>\<close>

definition resize :: "nat \<Rightarrow> bytes \<Rightarrow> bytes" where
  "resize n bs = take n bs @ replicate (n - length bs) 0"

definition Pkt4_unpack :: "pkt4 \<Rightarrow> pkt4 result" where
  "Pkt4_unpack p =
     (let b = mk_InputBuffer (p4_data p) in
      if length (in_data b) < DHCPV4_PKT_HDR_LEN then Inl OutOfRange
      else
        bindE (in_readUint8 b) (\<lambda>(op, b).
        bindE (in_readUint8 b) (\<lambda>(hw_type, b).
        bindE (in_readUint8 b) (\<lambda>(hlen, b).
        bindE (in_readUint8 b) (\<lambda>(hops, b).
        bindE (in_readUint32 b) (\<lambda>(transid, b).
        bindE (in_readUint16 b) (\<lambda>(secs, b).
        bindE (in_readUint16 b) (\<lambda>(flags, b).
        bindE (in_readUint32 b) (\<lambda>(ci, b).
        bindE (in_readUint32 b) (\<lambda>(yi, b).
        bindE (in_readUint32 b) (\<lambda>(si, b).
        bindE (in_readUint32 b) (\<lambda>(gi, b).
        bindE (in_readVector MAX_CHADDR_LEN b) (\<lambda>(hw_addr, b).
        bindE (in_readData MAX_SNAME_LEN b) (\<lambda>(sname, b).
        bindE (in_readData MAX_FILE_LEN b) (\<lambda>(file, b).
        bindE (mk_HWAddr (resize (unat hlen) hw_addr) hw_type) (\<lambda>h.
          if length (in_data b) = position b then Inl InvalidOperation
          else if length (in_data b) - position b < 4 then Inl Unexpected
          else
            bindE (in_readUint32 b) (\<lambda>(magic, b).
              if magic \<noteq> DHCP_OPTIONS_COOKIE then Inl Unexpected
              else
                bindE (in_readVector (length (in_data b) - position b) b) (\<lambda>(optsBuffer, b).
                bindE (LibDHCP_unpackOptions4 optsBuffer (p4_options p)) (\<lambda>r.
                  let p' = p\<lparr>p4_op := op, p4_hwaddr := Some h, p4_hops := hops, p4_transid := transid,
                             p4_secs := secs, p4_flags := flags, p4_ciaddr := IPv4 ci, p4_yiaddr := IPv4 yi,
                             p4_siaddr := IPv4 si, p4_giaddr := IPv4 gi, p4_sname := sname,
                             p4_file := file, p4_options := fst (snd r)\<rparr>
                  in bindE (Pkt4_check p') (\<lambda>_. Inr p'))))))))))))))))))))"

section \<open>Reading back a written header\<close>

text \<open>\<open>reading pre post\<close> is a buffer whose position stands between the two.\<close>

definition reading :: "bytes \<Rightarrow> bytes \<Rightarrow> InputBuffer" where
  "reading pre post = \<lparr>in_data = pre @ post, position = length pre\<rparr>"

lemma mk_InputBuffer_reading: "mk_InputBuffer d = reading [] d"
  by (simp add: mk_InputBuffer_def reading_def)

lemma reading_simps [simp]:
  "length (in_data (reading pre post)) = length pre + length post"
  "position (reading pre post) = length pre"
  by (simp_all add: reading_def)

lemma in_read_reading [byte_simps]:
  "in_readUint8 (reading pre (b # post)) = Inr (b, reading (pre @ [b]) post)"
  "in_readUint16 (reading pre (writeUint16 v @ post)) = Inr (v, reading (pre @ writeUint16 v) post)"
  "in_readUint32 (reading pre (writeUint32 w @ post)) = Inr (w, reading (pre @ writeUint32 w) post)"
  "n = length xs \<Longrightarrow> in_readData n (reading pre (xs @ post)) = Inr (xs, reading (pre @ xs) post)"
  "n = length xs \<Longrightarrow> in_readVector n (reading pre (xs @ post)) = Inr (xs, reading (pre @ xs) post)"
proof -
  show "in_readUint8 (reading pre (b # post)) = Inr (b, reading (pre @ [b]) post)"
    by (simp add: in_readUint8_def reading_def)
  show "in_readUint16 (reading pre (writeUint16 v @ post)) = Inr (v, reading (pre @ writeUint16 v) post)"
    using readUint16_writeUint16 [of v post]
    by (simp add: in_readUint16_def reading_def Let_def readUint16_def writeUint16_def)
  show "in_readUint32 (reading pre (writeUint32 w @ post)) = Inr (w, reading (pre @ writeUint32 w) post)"
    using readUint32_writeUint32 [of w post]
    by (simp add: in_readUint32_def reading_def Let_def readUint32_def writeUint32_def or.assoc numeral_2_eq_2 numeral_3_eq_3)
  show "n = length xs \<Longrightarrow> in_readData n (reading pre (xs @ post)) = Inr (xs, reading (pre @ xs) post)"
    and "n = length xs \<Longrightarrow> in_readVector n (reading pre (xs @ post)) = Inr (xs, reading (pre @ xs) post)"
    by (simp_all add: in_readVector_def in_readData_def reading_def)
qed

lemma length_chaddr [simp]: "length (chaddr_field hw) = 16"
  by (simp add: chaddr_field_def MAX_CHADDR_LEN_def Let_def)

lemma resize_chaddr: "length hw \<le> 16 \<Longrightarrow> resize (length hw) (chaddr_field hw) = hw"
  by (simp add: resize_def chaddr_field_def MAX_CHADDR_LEN_def Let_def)

definition wf_pkt4 :: "OptionDefinition list \<Rightarrow> pkt4 \<Rightarrow> bool" where
  "wf_pkt4 defs p \<longleftrightarrow>
     (case p4_hwaddr p of None \<Rightarrow> False | Some h \<Rightarrow> length (hwaddr_bytes h) \<le> MAX_CHADDR_LEN) \<and>
     isV4 (p4_ciaddr p) \<and> isV4 (p4_yiaddr p) \<and> isV4 (p4_siaddr p) \<and> isV4 (p4_giaddr p) \<and>
     length (p4_sname p) = MAX_SNAME_LEN \<and> length (p4_file p) = MAX_FILE_LEN \<and>
     p4_bufferOut p = [] \<and> wf_opts4 defs (p4_options p) \<and> Pkt4_check p = Inr ()"

lemmas pkt4_lens = MAX_CHADDR_LEN_def MAX_SNAME_LEN_def MAX_FILE_LEN_def DHCPV4_PKT_HDR_LEN_def

lemma Pkt4_check_options: "p4_options p = p4_options q \<Longrightarrow> Pkt4_check p = Pkt4_check q"
  by (simp add: Pkt4_check_def Pkt4_getType_def Pkt4_getOption_def)

text \<open>What \<open>unpack\<close> makes of a datagram laid out as \<open>pack\<close> lays it out.\<close>

lemma Pkt4_unpack_layout:
  assumes "p4_data q = [op, ht, word_of_nat (length hw), hops] @ writeUint32 xid @ writeUint16 secs @
      writeUint16 flags @ writeUint32 ci @ writeUint32 yi @ writeUint32 si @ writeUint32 gi @
      chaddr_field hw @ sname @ file @ writeUint32 DHCP_OPTIONS_COOKIE @ opts"
    and "length hw \<le> 16" "length sname = 64" "length file = 128" "p4_options q = []"
    and "LibDHCP_unpackOptions4 opts [] = Inr (n, os, rm)"
    and "Pkt4_check (q\<lparr>p4_options := os\<rparr>) = Inr ()"
  shows "Pkt4_unpack q = Inr (q\<lparr>p4_op := op, p4_hwaddr := Some \<lparr>hwaddr_bytes = hw, htype = ht\<rparr>,
      p4_hops := hops, p4_transid := xid, p4_secs := secs, p4_flags := flags, p4_ciaddr := IPv4 ci,
      p4_yiaddr := IPv4 yi, p4_siaddr := IPv4 si, p4_giaddr := IPv4 gi, p4_sname := sname,
      p4_file := file, p4_options := os\<rparr>)"
proof -
  have u: "unat (word_of_nat (length hw) :: u8) = length hw" using assms(2) by (simp add: unat_of_nat)
  have h: "mk_HWAddr (resize (length hw) (chaddr_field hw)) ht = Inr \<lparr>hwaddr_bytes = hw, htype = ht\<rparr>"
    using assms(2) by (simp add: mk_HWAddr_def MAX_HWADDR_LEN_def resize_chaddr)
  have v: "in_readVector (length opts) (reading pre opts) = Inr (opts, reading (pre @ opts) [])" for pre
    using in_read_reading(5) [of "length opts" opts pre "[]"] by simp
  note Pkt4_check_options [of "q\<lparr>p4_op := op, p4_hwaddr := Some \<lparr>hwaddr_bytes = hw, htype = ht\<rparr>,
      p4_hops := hops, p4_transid := xid, p4_secs := secs, p4_flags := flags, p4_ciaddr := IPv4 ci,
      p4_yiaddr := IPv4 yi, p4_siaddr := IPv4 si, p4_giaddr := IPv4 gi, p4_sname := sname,
      p4_file := file, p4_options := os\<rparr>" "q\<lparr>p4_options := os\<rparr>"]
  with assms(2-) show ?thesis
    unfolding Pkt4_unpack_def assms(1) mk_InputBuffer_reading
    by (simp add: pkt4_lens in_read_reading u h v Let_def)
qed

section \<open>Properties\<close>

text \<open>C18. A well-formed DHCPv4 message that is packed and whose bytes are received and parsed again
  gives back every header field, the hardware address and the options.\<close>

theorem Pkt4_roundtrip:
  assumes "getOptionDefs UV4 = Inr defs" "wf_pkt4 defs p"
  shows "\<exists>p'. Pkt4_pack p = Inr p' \<and>
    (\<exists>q. bindE (mk_Pkt4_rx (p4_bufferOut p')) Pkt4_unpack = Inr q \<and>
       p4_op q = p4_op p \<and> p4_hwaddr q = p4_hwaddr p \<and> p4_hops q = p4_hops p \<and>
       p4_transid q = p4_transid p \<and> p4_secs q = p4_secs p \<and> p4_flags q = p4_flags p \<and>
       p4_ciaddr q = p4_ciaddr p \<and> p4_yiaddr q = p4_yiaddr p \<and> p4_siaddr q = p4_siaddr p \<and>
       p4_giaddr q = p4_giaddr p \<and> p4_sname q = p4_sname p \<and> p4_file q = p4_file p \<and>
       p4_options q = p4_options p)"
proof -
  obtain h where h: "p4_hwaddr p = Some h" "length (hwaddr_bytes h) \<le> 16"
    using assms(2) by (auto simp: wf_pkt4_def MAX_CHADDR_LEN_def split: option.splits)
  obtain ci yi si gi where a: "p4_ciaddr p = IPv4 ci" "p4_yiaddr p = IPv4 yi" "p4_siaddr p = IPv4 si"
      "p4_giaddr p = IPv4 gi"
    using assms(2) by (auto simp: wf_pkt4_def elim!: isV4.elims)
  obtain bs where bs: "packOptions (p4_options p) = Inr bs"
      "LibDHCP_unpackOptions4 (bs @ [255]) [] = Inr (length bs + 1, p4_options p, None)"
    using options4_pack_unpack [OF assms(1)] assms(2) by (auto simp: wf_pkt4_def)
  have l: "length (p4_sname p) = 64" "length (p4_file p) = 128" "p4_bufferOut p = []" "Pkt4_check p = Inr ()"
    using assms(2) by (auto simp: wf_pkt4_def pkt4_lens)
  define d where "d = [p4_op p, htype h, word_of_nat (length (hwaddr_bytes h)), p4_hops p] @
      writeUint32 (p4_transid p) @ writeUint16 (p4_secs p) @ writeUint16 (p4_flags p) @
      writeUint32 ci @ writeUint32 yi @ writeUint32 si @ writeUint32 gi @
      chaddr_field (hwaddr_bytes h) @ p4_sname p @ p4_file p @
      writeUint32 DHCP_OPTIONS_COOKIE @ bs @ [255]"
  have "(if length (hwaddr_bytes h) < 16 then length (hwaddr_bytes h) else 16) = length (hwaddr_bytes h)"
    using h(2) by simp
  then have pack: "Pkt4_pack p = Inr (p\<lparr>p4_bufferOut := d\<rparr>)"
    using h a bs(1) l by (simp add: Pkt4_pack_def Let_def pkt4_lens d_def)
  have c: "Pkt4_check (Pkt4_blank\<lparr>p4_data := d, p4_options := p4_options p\<rparr>) = Inr ()"
    using l(4) Pkt4_check_options [of "Pkt4_blank\<lparr>p4_data := d, p4_options := p4_options p\<rparr>" p] by simp
  note u = Pkt4_unpack_layout [of "Pkt4_blank\<lparr>p4_data := d\<rparr>" "p4_op p" "htype h" "hwaddr_bytes h"
      "p4_hops p" "p4_transid p" "p4_secs p" "p4_flags p" ci yi si gi "p4_sname p" "p4_file p" "bs @ [255]",
      OF _ h(2) l(1,2) _ bs(2)]
  have "236 \<le> length d" using l by (simp add: d_def)
  then have "mk_Pkt4_rx d = Inr (Pkt4_blank\<lparr>p4_data := d\<rparr>)" by (simp add: mk_Pkt4_rx_def pkt4_lens)
  moreover have "p4_options (Pkt4_blank\<lparr>p4_data := d\<rparr>) = []" by (simp add: Pkt4_blank_def)
  ultimately show ?thesis
    using pack h a u c by (simp add: d_def)
qed

definition example_pkt4 :: pkt4 where
  "example_pkt4 = Pkt4_blank\<lparr>p4_op := BOOTREPLY, p4_transid := 0x1234, p4_yiaddr := IPv4 0xc0000264,
     p4_hwaddr := Some \<lparr>hwaddr_bytes = [1, 2, 3, 4, 5, 6], htype = 1\<rparr>, p4_options := example_options4\<rparr>"

lemma example_pkt4_wf: "wf_pkt4 std_defs4 example_pkt4"
  using example_options4_wf
  by (simp add: wf_pkt4_def example_pkt4_def Pkt4_blank_def pkt4_lens DEFAULT_ADDRESS_def Pkt4_check_def
      Pkt4_getType_def Pkt4_getOption_def example_options4_def DHCPLEASEACTIVE_def)

theorem Pkt4_roundtrip_witness:
  "\<exists>p' q. Pkt4_pack example_pkt4 = Inr p' \<and> bindE (mk_Pkt4_rx (p4_bufferOut p')) Pkt4_unpack = Inr q \<and>
     p4_yiaddr q = IPv4 0xc0000264 \<and> p4_options q = example_options4"
  using Pkt4_roundtrip [OF getOptionDefs4 example_pkt4_wf] by (auto simp: example_pkt4_def)

end
