(* ===== verification/Pkt6.thy ===== *)
theory Pkt6
  imports Options_Roundtrip Ids
begin

unbundle bit_operations_syntax

text \<open>
  DHCPv6 messages (\<^verbatim>\<open>src/lib/dhcp/pkt6.{h,cc}\<close>): direct messages and messages wrapped by relays,
  each wrapping adding a 34-byte header, options of its own and a relay-msg option with the message
  inside. The 16-bit lengths wrap as in the code. \<open>transid\<close> of a received packet starts as
  \<^verbatim>\<open>rand() % 0xffffff\<close>, a parameter here. The three reads of \<^verbatim>\<open>*begin++\<close> that build the
  transaction id stand in one expression, in an order C++ leaves open; the model takes the written order.
\<close>

section \<open>Data\<close>

definition DHCPV6_PKT_HDR_LEN :: nat where "DHCPV6_PKT_HDR_LEN = 4"
definition DHCPV6_RELAY_HDR_LEN :: nat where "DHCPV6_RELAY_HDR_LEN = 34"

datatype DHCPv6Proto = UDP | TCP

record RelayInfo =
  ri_msg_type :: u8
  ri_hop_count :: u8
  ri_linkaddr :: ioaddress
  ri_peeraddr :: ioaddress
  ri_relay_msg_len :: u16
  ri_options :: OptionCollection

record pkt6 =
  p6_proto :: DHCPv6Proto
  p6_msg_type :: u8
  p6_transid :: u32
  p6_iface :: string
  p6_ifindex :: int
  p6_local_addr :: ioaddress
  p6_remote_addr :: ioaddress
  p6_local_port :: u16
  p6_remote_port :: u16
  p6_bufferOut :: bytes
  p6_data :: bytes
  p6_options :: OptionCollection
  p6_relay_info :: "RelayInfo list"
  p6_data4o6 :: bytes

definition mk_Pkt6 :: "u8 \<Rightarrow> u32 \<Rightarrow> pkt6" where
  "mk_Pkt6 msg_type transid =
     \<lparr>p6_proto = UDP, p6_msg_type = msg_type, p6_transid = transid, p6_iface = [], p6_ifindex = -1,
      p6_local_addr = ADDRESS6_ANY, p6_remote_addr = ADDRESS6_ANY, p6_local_port = 0, p6_remote_port = 0,
      p6_bufferOut = [], p6_data = [], p6_options = [], p6_relay_info = [], p6_data4o6 = []\<rparr>"

definition mk_Pkt6_rx :: "u32 \<Rightarrow> bytes \<Rightarrow> pkt6" where
  "mk_Pkt6_rx rnd buf = (mk_Pkt6 0 (rnd mod 0xffffff))\<lparr>p6_data := buf\<rparr>"

definition RelayInfo_default :: RelayInfo where
  "RelayInfo_default = \<lparr>ri_msg_type = 0, ri_hop_count = 0, ri_linkaddr = ADDRESS6_ANY,
     ri_peeraddr = ADDRESS6_ANY, ri_relay_msg_len = 0, ri_options = []\<rparr>"

section \<open>Options of a message\<close>

definition Pkt6_getOption :: "u16 \<Rightarrow> pkt6 \<Rightarrow> opt option" where
  "Pkt6_getOption opt_type p = map_of (p6_options p) opt_type"

definition Pkt6_getOptions :: "u16 \<Rightarrow> pkt6 \<Rightarrow> OptionCollection" where
  "Pkt6_getOptions opt_type p = filter (\<lambda>(k, _). k = opt_type) (p6_options p)"

definition Pkt6_addOption :: "opt \<Rightarrow> pkt6 \<Rightarrow> pkt6" where
  "Pkt6_addOption opt p = p\<lparr>p6_options := mm_insert (otype opt) opt (p6_options p)\<rparr>"

definition Pkt6_delOption :: "u16 \<Rightarrow> pkt6 \<Rightarrow> pkt6 \<times> bool" where
  "Pkt6_delOption type p =
     (case map_of (p6_options p) type of
        Some _ \<Rightarrow> (p\<lparr>p6_options := mm_erase_first type (p6_options p)\<rparr>, True)
      | None \<Rightarrow> (p, False))"

definition getRelayOption :: "u16 \<Rightarrow> u8 \<Rightarrow> pkt6 \<Rightarrow> opt option result" where
  "getRelayOption opt_type relay_level p =
     (if unat relay_level \<ge> length (p6_relay_info p) then Inl OutOfRange
      else Inr (map_option snd
        (find (\<lambda>(_, o1). otype o1 = opt_type) (ri_options (p6_relay_info p ! unat relay_level)))))"

section \<open>Lengths\<close>

definition getRelayOverhead :: "RelayInfo \<Rightarrow> u16" where
  "getRelayOverhead relay =
     word_of_nat (DHCPV6_RELAY_HDR_LEN + OPTION6_HDR_LEN) + opts_len (ri_options relay)"

definition directLen :: "pkt6 \<Rightarrow> u16" where
  "directLen p = word_of_nat DHCPV6_PKT_HDR_LEN + opts_len (p6_options p)"

text \<open>From the innermost relay outwards: the updated relay list and the total.\<close>

fun relay_sizes :: "u16 \<Rightarrow> RelayInfo list \<Rightarrow> RelayInfo list \<times> u16" where
  "relay_sizes len [] = ([], len)"
| "relay_sizes len (r # rs) =
     (let (rs', l) = relay_sizes len rs
      in (r\<lparr>ri_relay_msg_len := l\<rparr> # rs', l + getRelayOverhead r))"

definition calculateRelaySizes :: "pkt6 \<Rightarrow> pkt6 \<times> u16" where
  "calculateRelaySizes p =
     (let (rs, len) = relay_sizes (directLen p) (p6_relay_info p) in (p\<lparr>p6_relay_info := rs\<rparr>, len))"

definition Pkt6_len :: "pkt6 \<Rightarrow> pkt6 \<times> u16" where
  "Pkt6_len p =
     (if p6_relay_info p = [] then (p, directLen p)
      else
        let p' = fst (calculateRelaySizes p);
            r = hd (p6_relay_info p')
        in (p', ri_relay_msg_len r + getRelayOverhead r))"

section \<open>Packing\<close>

definition pack_relay :: "RelayInfo \<Rightarrow> bytes result" where
  "pack_relay r =
     bindE (packOptions (ri_options r)) (\<lambda>os.
       Inr ([ri_msg_type r, ri_hop_count r] @ toBytes (ri_linkaddr r) @ toBytes (ri_peeraddr r) @ os @
            writeUint16 D6O_RELAY_MSG @ writeUint16 (ri_relay_msg_len r)))"

definition pack_msg :: "pkt6 \<Rightarrow> bytes result" where
  "pack_msg p =
     bindE (packOptions (p6_options p)) (\<lambda>os.
       Inr ([p6_msg_type p, ucast (drop_bit 16 (p6_transid p) AND 0xff), ucast (drop_bit 8 (p6_transid p) AND 0xff),
             ucast (p6_transid p AND 0xff)] @ os))"

text \<open>An exception of the packers is caught and turned into \<^verbatim>\<open>false\<close>. What had been written by then
  stays in the buffer of the code; every caller drops such a packet, and the model leaves the buffer as
  it was.\<close>

definition packUDP :: "pkt6 \<Rightarrow> (pkt6 \<times> bool) result" where
  "packUDP p =
     (let p1 = (if p6_relay_info p \<noteq> [] then fst (calculateRelaySizes p) else p) in
      catch_isc
        (bindE (mapE pack_relay (p6_relay_info p1)) (\<lambda>rs.
         bindE (pack_msg p1) (\<lambda>m.
           Inr (p1\<lparr>p6_bufferOut := p6_bufferOut p1 @ concat rs @ m\<rparr>, True))))
        (\<lambda>_. Inr (p1, False)))"

definition Pkt6_pack :: "pkt6 \<Rightarrow> (pkt6 \<times> bool) result" where
  "Pkt6_pack p = (case p6_proto p of UDP \<Rightarrow> packUDP p | TCP \<Rightarrow> Inl Unexpected)"

section \<open>Parsing\<close>

definition unpackMsg :: "bytes \<Rightarrow> pkt6 \<Rightarrow> (pkt6 \<times> bool) result" where
  "unpackMsg buf p =
     (if length buf < 4 then Inr (p, False)
      else
        let transid = push_bit 16 (ucast (buf ! 1)) + push_bit 8 (ucast (buf ! 2)) + ucast (buf ! 3);
            p = p\<lparr>p6_msg_type := buf ! 0, p6_transid := transid AND 0xffffff\<rparr>
        in catch_isc
             (bindE (LibDHCP_unpackOptions6 False (drop 4 buf) (p6_options p)) (\<lambda>r.
                Inr (p\<lparr>p6_options := fst (snd r)\<rparr>, True)))
             (\<lambda>_. Inr (p, False)))"

definition addRelayInfo :: "RelayInfo \<Rightarrow> pkt6 \<Rightarrow> pkt6 result" where
  "addRelayInfo relay p =
     (if length (p6_relay_info p) > 32 then Inl BadValue
      else Inr (p\<lparr>p6_relay_info := p6_relay_info p @ [relay]\<rparr>))"

text \<open>One round of the relay loop on the bytes \<open>data_[offset .. offset + bufsize)\<close>: the packet with the
  relay recorded and the inner message, or nothing when the relay-msg option is reported as truncated,
  which happens after the relay is recorded.\<close>

definition unpack_relay :: "bytes \<Rightarrow> pkt6 \<Rightarrow> (pkt6 \<times> bytes option) result" where
  "unpack_relay buf p =
     bindE (fromBytes AF_INET6 (drop 2 buf)) (\<lambda>linkaddr.
     bindE (fromBytes AF_INET6 (drop 18 buf)) (\<lambda>peeraddr.
     bindE (LibDHCP_unpackOptions6 True (drop DHCPV6_RELAY_HDR_LEN buf) []) (\<lambda>r.
       let relay_msg_offset = (case snd (snd r) of None \<Rightarrow> 0 | Some x \<Rightarrow> fst x);
           relay_msg_len = (case snd (snd r) of None \<Rightarrow> 0 | Some x \<Rightarrow> snd x);
           relay = \<lparr>ri_msg_type = buf ! 0, ri_hop_count = buf ! 1, ri_linkaddr = linkaddr,
                    ri_peeraddr = peeraddr, ri_relay_msg_len = 0, ri_options = fst (snd r)\<rparr>
       in if relay_msg_offset = 0 \<or> relay_msg_len = 0 then Inl BadValue
          else bindE (addRelayInfo relay p) (\<lambda>p.
            if relay_msg_len \<ge> length buf - DHCPV6_RELAY_HDR_LEN then Inr (p, None)
            else Inr (p, Some (take relay_msg_len (drop (DHCPV6_RELAY_HDR_LEN + relay_msg_offset) buf)))))))"

lemma unpack_relay_shrinks: "unpack_relay buf p = Inr (p', Some inner) \<Longrightarrow> length inner < length buf"
  by (auto simp: unpack_relay_def result_simps Let_def split: if_splits)

text \<open>The exceptions of a round are caught, but for those of the address constructor, which cannot be
  raised on 34 bytes. The final comparison of \<open>offset\<close> with the size has no effect on the result.\<close>

function unpackRelayMsg :: "bytes \<Rightarrow> pkt6 \<Rightarrow> (pkt6 \<times> bool) result" where
  "unpackRelayMsg buf p =
     (if length buf \<ge> DHCPV6_RELAY_HDR_LEN then
        (case unpack_relay buf p of
           Inl e \<Rightarrow> if is_isc_exception e then Inr (p, False) else Inl e
         | Inr (p', None) \<Rightarrow> Inr (p', False)
         | Inr (p', Some inner) \<Rightarrow>
             if hd inner \<noteq> DHCPV6_RELAY_FORW \<and> hd inner \<noteq> DHCPV6_RELAY_REPL
             then unpackMsg inner p'
             else unpackRelayMsg inner p')
      else Inr (p, True))"
  by auto
termination by (relation "measure (\<lambda>(buf, _). length buf)") (auto dest: unpack_relay_shrinks)

declare unpackRelayMsg.simps [simp del]

definition unpackUDP :: "pkt6 \<Rightarrow> (pkt6 \<times> bool) result" where
  "unpackUDP p =
     (if length (p6_data p) < 4 then Inr (p, False)
      else
        let p = p\<lparr>p6_msg_type := p6_data p ! 0\<rparr>
        in if p6_msg_type p = DHCPV6_RELAY_FORW \<or> p6_msg_type p = DHCPV6_RELAY_REPL
           then unpackRelayMsg (p6_data p) p
           else unpackMsg (p6_data p) p)"

definition Pkt6_unpack :: "pkt6 \<Rightarrow> (pkt6 \<times> bool) result" where
  "Pkt6_unpack p = (case p6_proto p of UDP \<Rightarrow> unpackUDP p | TCP \<Rightarrow> Inl Unexpected)"

definition Pkt6_getName :: "u8 \<Rightarrow> string" where
  "Pkt6_getName type =
     (if type = DHCPV6_CONFIRM then ''CONFIRM''
      else if type = DHCPV6_DECLINE then ''DECLINE''
      else if type = DHCPV6_INFORMATION_REQUEST then ''INFORMATION_REQUEST''
      else if type = DHCPV6_REBIND then ''REBIND''
      else if type = DHCPV6_RELEASE then ''RELEASE''
      else if type = DHCPV6_RENEW then ''RENEW''
      else if type = DHCPV6_REQUEST then ''REQUEST''
      else if type = DHCPV6_SOLICIT then ''SOLICIT''
      else ''UNKNOWN'')"

section \<open>Options next to a relay-msg option\<close>

lemma unpackOptions6_step_relay:
  assumes "packs6 defs o1 c" "length c < 2 ^ 16" "otype o1 \<noteq> D6O_RELAY_MSG"
  shows "unpackOptions6 defs relay (writeUint16 (otype o1) @ writeUint16 (word_of_nat (length c)) @ c @ rest) off acc rm
    = unpackOptions6 defs relay rest (off + 4 + length c) (mm_insert (otype o1) o1 acc) rm"
proof -
  have l: "unat (word_of_nat (length c) :: u16) = length c" using assms(2) by (simp add: unat_of_nat)
  have d4: "drop 4 (writeUint16 a @ writeUint16 b @ xs) = xs" for a b xs by (simp add: drop_append)
  have d: "drop (4 + length c) (writeUint16 a @ writeUint16 b @ c @ xs) = xs" for a b xs by (simp add: drop_append)
  show ?thesis
    using assms(1,3) unfolding packs6_def
    by (subst unpackOptions6_parse6) (simp add: byte_simps l d d4 seqE_def)
qed

lemma unpackOptions6_all:
  assumes "\<forall>(k, o1) \<in> set os. k = otype o1 \<and> k \<noteq> D6O_RELAY_MSG" "wf_opts6 defs os"
  shows "\<exists>bs. packOptions os = Inr bs \<and> length bs = opts_nlen os \<and>
    (\<forall>relay off acc rm rest. unpackOptions6 defs relay (bs @ rest) off acc rm =
       unpackOptions6 defs relay rest (off + length bs) (mm_insert_all os acc) rm)"
  using assms
proof (induction os)
  case Nil
  then show ?case by simp
next
  case (Cons x os)
  obtain k o1 where x: "x = (k, o1)" by (cases x)
  have o1: "k = otype o1" "k \<noteq> D6O_RELAY_MSG" "wf_opt6 defs o1" using Cons.prems x by auto
  obtain c where c: "packs6 defs o1 c" using wf_opt6_packs(1) [OF o1(3)] by blast
  have "opt_nlen o1 < 4 + 2 ^ 16" using o1(3) by (cases o1) auto
  then have lc: "length c < 2 ^ 16" using c by (simp add: packs6_def)
  obtain bs where bs: "packOptions os = Inr bs" "length bs = opts_nlen os"
      "\<And>relay off acc rm rest. unpackOptions6 defs relay (bs @ rest) off acc rm =
         unpackOptions6 defs relay rest (off + length bs) (mm_insert_all os acc) rm"
    using Cons x by auto
  let ?b = "writeUint16 (otype o1) @ writeUint16 (word_of_nat (length c)) @ c @ bs"
  have l: "length ?b = 4 + (length c + length bs)" by simp
  have "unpackOptions6 defs relay (?b @ rest) off acc rm =
      unpackOptions6 defs relay rest (off + length ?b) (mm_insert_all (x # os) acc) rm" for relay off acc rm rest
    using unpackOptions6_step_relay [OF c lc, of relay "bs @ rest" off acc rm] bs(3) o1 x
    unfolding l by (simp add: add.assoc)
  moreover have "packOptions (x # os) = Inr ?b" "length ?b = opts_nlen (x # os)"
    using c bs(1,2) x by (auto simp: packs6_def)
  ultimately show ?case by blast
qed

section \<open>Reading back a relayed message\<close>

definition is_relay_type :: "u8 \<Rightarrow> bool" where
  "is_relay_type t \<longleftrightarrow> t = DHCPV6_RELAY_FORW \<or> t = DHCPV6_RELAY_REPL"

definition wf_relay :: "OptionDefinition list \<Rightarrow> RelayInfo \<Rightarrow> bool" where
  "wf_relay defs r \<longleftrightarrow> is_relay_type (ri_msg_type r) \<and> isV6 (ri_linkaddr r) \<and> isV6 (ri_peeraddr r) \<and>
     mm_wf (ri_options r) \<and> wf_opts6 defs (ri_options r) \<and> D6O_RELAY_MSG \<notin> fst ` set (ri_options r)"

definition relay_nlen :: "RelayInfo \<Rightarrow> nat" where
  "relay_nlen r = 38 + opts_nlen (ri_options r)"

definition msg_nlen :: "pkt6 \<Rightarrow> nat" where
  "msg_nlen p = 4 + opts_nlen (p6_options p)"

definition wf_pkt6 :: "OptionDefinition list \<Rightarrow> pkt6 \<Rightarrow> bool" where
  "wf_pkt6 defs p \<longleftrightarrow>
     p6_proto p = UDP \<and> p6_bufferOut p = [] \<and> p6_transid p < 2 ^ 24 \<and> \<not> is_relay_type (p6_msg_type p) \<and>
     mm_wf (p6_options p) \<and> wf_opts6 defs (p6_options p) \<and>
     length (p6_relay_info p) \<le> 33 \<and> list_all (wf_relay defs) (p6_relay_info p) \<and>
     msg_nlen p + sum_list (map relay_nlen (p6_relay_info p)) < 2 ^ 16"

abbreviation (input) no_len :: "RelayInfo \<Rightarrow> RelayInfo" where
  "no_len r \<equiv> r\<lparr>ri_relay_msg_len := 0\<rparr>"

lemma transid_bytes:
  assumes "(x :: u32) < 2 ^ 24"
  shows "(push_bit 16 (ucast (ucast (drop_bit 16 x AND 0xff) :: u8)) +
    push_bit 8 (ucast (ucast (drop_bit 8 x AND 0xff) :: u8)) + ucast (ucast (x AND 0xff) :: u8)) AND 0xffffff = x"
proof -
  let ?a = "push_bit 16 (ucast (ucast (drop_bit 16 x AND 0xff) :: u8)) :: u32"
  let ?b = "push_bit 8 (ucast (ucast (drop_bit 8 x AND 0xff) :: u8)) :: u32"
  let ?c = "ucast (ucast (x AND 0xff) :: u8) :: u32"
  have m: "(0xff :: u32) = mask 8" "(0xffffff :: u32) = mask 24" by (simp_all add: mask_eq_exp_minus_1)
  have hi: "\<not> bit x n" if "24 \<le> n" for n
  proof -
    have "unat (take_bit 24 x) = unat x"
      using assms by (simp add: unsigned_take_bit_eq take_bit_nat_eq_self word_less_nat_alt)
    then have "x = take_bit 24 x" by (simp add: word_unat_eq_iff)
    then show ?thesis using that by (metis bit_take_bit_iff not_le)
  qed
  have "?a + ?b = ?a OR ?b" by (rule disjunctive_add) (auto simp: m bit_simps)
  moreover have "(?a OR ?b) + ?c = (?a OR ?b) OR ?c" by (rule disjunctive_add) (auto simp: m bit_simps)
  moreover have "((?a OR ?b) OR ?c) AND 0xffffff = x" (is "?w = x")
  proof (rule bit_word_eqI)
    fix n assume "n < LENGTH(32)"
    then consider "n < 8" | "8 \<le> n" "n < 16" | "16 \<le> n" "n < 24" | "24 \<le> n" by fastforce
    then show "bit ?w n = bit x n" unfolding m by cases (auto simp: bit_simps hi)
  qed
  ultimately show ?thesis by simp
qed

lemma unpackMsg_pack:
  assumes "getOptionDefs UV6 = Inr defs" "mm_wf (p6_options p)" "wf_opts6 defs (p6_options p)"
    "p6_transid p < 2 ^ 24"
  shows "\<exists>m. pack_msg p = Inr m \<and> length m = msg_nlen p \<and> hd m = p6_msg_type p \<and>
    (\<forall>q. p6_options q = [] \<longrightarrow> unpackMsg m q = Inr (q\<lparr>p6_msg_type := p6_msg_type p,
      p6_transid := p6_transid p, p6_options := p6_options p\<rparr>, True))"
proof -
  obtain bs where bs: "packOptions (p6_options p) = Inr bs" "length bs = opts_nlen (p6_options p)"
      "LibDHCP_unpackOptions6 False bs [] = Inr (length bs, p6_options p, None)"
    using options6_pack_unpack [OF assms(1-3)] by blast
  then show ?thesis
    using transid_bytes [OF assms(4)]
    by (simp add: pack_msg_def unpackMsg_def msg_nlen_def Let_def numeral_2_eq_2 numeral_3_eq_3 cong: if_cong)
qed

lemma drop_relay_header:
  assumes "length l = 16" "length q = 16"
  shows "drop 2 ([a, b] @ l @ q @ xs) = l @ q @ xs" "drop 18 ([a, b] @ l @ q @ xs) = q @ xs"
    "drop 34 ([a, b] @ l @ q @ xs) = xs"
  using assms by (simp_all add: drop_append)

lemma relay_msg_found:
  assumes "0 < length inner" "length inner < 2 ^ 16"
  shows "unpackOptions6 defs True (writeUint16 D6O_RELAY_MSG @ writeUint16 (word_of_nat (length inner)) @ inner) off acc rm
    = Inr (off + 4 + length inner, acc, Some (off + 4, length inner))"
proof -
  have "unat (word_of_nat (length inner) :: u16) = length inner" using assms(2) by (simp add: unat_of_nat)
  moreover have "drop (4 + length inner) (writeUint16 a @ writeUint16 b @ inner) = []" for a b
    by (simp add: drop_append)
  ultimately show ?thesis by (subst unpackOptions6_parse6) (simp add: byte_simps)
qed

lemma unpack_relay_pack:
  assumes "getOptionDefs UV6 = Inr defs" "wf_relay defs r"
    and "0 < length inner" "length inner < 2 ^ 16" "ri_relay_msg_len r = word_of_nat (length inner)"
  shows "\<exists>b. pack_relay r = Inr b \<and> length b = relay_nlen r \<and> hd (b @ inner) = ri_msg_type r \<and>
    (\<forall>p. length (p6_relay_info p) < 33 \<longrightarrow>
      unpack_relay (b @ inner) p = Inr (p\<lparr>p6_relay_info := p6_relay_info p @ [no_len r]\<rparr>, Some inner))"
proof -
  have v6: "isV6 (ri_linkaddr r)" "isV6 (ri_peeraddr r)" and m: "mm_wf (ri_options r)"
    using assms(2) by (auto simp: wf_relay_def)
  have lens: "length (toBytes (ri_linkaddr r)) = 16" "length (toBytes (ri_peeraddr r)) = 16"
    using v6 length_toBytes6 by auto
  have fam: "getFamily (ri_linkaddr r) = AF_INET6" "getFamily (ri_peeraddr r) = AF_INET6"
    using v6 by (cases "ri_linkaddr r"; simp) (use v6 in \<open>cases "ri_peeraddr r"; simp\<close>)
  have "\<forall>(k, o1) \<in> set (ri_options r). k = otype o1 \<and> k \<noteq> D6O_RELAY_MSG"
    using assms(2) by (force simp: wf_relay_def mm_wf_def)
  then obtain bs where bs: "packOptions (ri_options r) = Inr bs" "length bs = opts_nlen (ri_options r)"
      "\<And>relay off acc rm rest. unpackOptions6 defs relay (bs @ rest) off acc rm =
         unpackOptions6 defs relay rest (off + length bs) (mm_insert_all (ri_options r) acc) rm"
    using unpackOptions6_all [of "ri_options r" defs] assms(2) by (auto simp: wf_relay_def)
  define tail where "tail = bs @ writeUint16 D6O_RELAY_MSG @ writeUint16 (word_of_nat (length inner))"
  define b where "b = [ri_msg_type r, ri_hop_count r] @ toBytes (ri_linkaddr r) @ toBytes (ri_peeraddr r) @ tail"
  have os: "LibDHCP_unpackOptions6 True (tail @ inner) [] =
      Inr (length bs + 4 + length inner, ri_options r, Some (length bs + 4, length inner))"
    using bs(3) relay_msg_found [OF assms(3,4), of defs] m assms(1)
    by (simp add: LibDHCP_unpackOptions6_def tail_def)
  have l: "length (b @ inner) = 34 + (length bs + 4 + length inner)" "length b = 34 + (length bs + 4)"
    using lens by (simp_all add: b_def tail_def)
  define buf where "buf = b @ inner"
  have buf: "buf = [ri_msg_type r, ri_hop_count r] @ toBytes (ri_linkaddr r) @ toBytes (ri_peeraddr r) @ (tail @ inner)"
    by (simp add: b_def buf_def)
  note d = drop_relay_header [OF lens, of "ri_msg_type r" "ri_hop_count r" "tail @ inner", folded buf]
  have addrs: "fromBytes 10 (drop 2 buf) = Inr (ri_linkaddr r)" "fromBytes 10 (drop 18 buf) = Inr (ri_peeraddr r)"
    using fromBytes_toBytes [of "ri_linkaddr r" "toBytes (ri_peeraddr r) @ tail @ inner"]
      fromBytes_toBytes [of "ri_peeraddr r" "tail @ inner"] fam unfolding d by simp_all
  have types: "buf ! 0 = ri_msg_type r" "buf ! Suc 0 = ri_hop_count r" by (simp_all add: buf)
  have lb: "length buf - 34 = length bs + 4 + length inner" using l by (simp add: buf_def)
  have inner: "take (length inner) (drop (34 + (length bs + 4)) buf) = inner"
    using l(2) by (simp add: buf_def)
  have "unpack_relay buf p = Inr (p\<lparr>p6_relay_info := p6_relay_info p @ [no_len r]\<rparr>, Some inner)"
    if "length (p6_relay_info p) < 33" for p
    using assms(3) inner that
    by (simp add: unpack_relay_def DHCPV6_RELAY_HDR_LEN_def Let_def addRelayInfo_def addrs d(3) os types lb)
  moreover have "pack_relay r = Inr b" using bs(1) assms(5) by (simp add: pack_relay_def b_def tail_def)
  moreover have "hd buf = ri_msg_type r" by (simp add: buf)
  ultimately show ?thesis using l(2) bs(2) unfolding buf_def relay_nlen_def by auto
qed

lemma unpackRelayMsg_step:
  assumes "unpack_relay buf p = Inr (p', Some inner)" "34 \<le> length buf"
  shows "unpackRelayMsg buf p =
    (if is_relay_type (hd inner) then unpackRelayMsg inner p' else unpackMsg inner p')"
  using assms by (subst unpackRelayMsg.simps) (auto simp: is_relay_type_def DHCPV6_RELAY_HDR_LEN_def)

lemma relays_pack_unpack:
  assumes "getOptionDefs UV6 = Inr defs" "list_all (wf_relay defs) rs" "0 < length m"
    "length m + sum_list (map relay_nlen rs) < 2 ^ 16" "\<not> is_relay_type (hd m)"
  shows "\<exists>rs' bs. relay_sizes (word_of_nat (length m)) rs = (rs', word_of_nat (length m + sum_list (map relay_nlen rs))) \<and>
    mapE pack_relay rs' = Inr bs \<and> length (concat bs) = sum_list (map relay_nlen rs) \<and>
    (is_relay_type (hd (concat bs @ m)) \<longleftrightarrow> rs \<noteq> []) \<and>
    (\<forall>p. rs \<noteq> [] \<longrightarrow> length (p6_relay_info p) + length rs \<le> 33 \<longrightarrow>
       unpackRelayMsg (concat bs @ m) p = unpackMsg m (p\<lparr>p6_relay_info := p6_relay_info p @ map no_len rs\<rparr>))"
  using assms(2,4)
proof (induction rs)
  case Nil
  then show ?case using assms(5) by simp
next
  case (Cons r rs)
  then obtain rs' bs where IH:
    "relay_sizes (word_of_nat (length m)) rs = (rs', word_of_nat (length m + sum_list (map relay_nlen rs)))"
    "mapE pack_relay rs' = Inr bs" "length (concat bs) = sum_list (map relay_nlen rs)"
    "is_relay_type (hd (concat bs @ m)) \<longleftrightarrow> rs \<noteq> []"
    "\<And>p. rs \<noteq> [] \<Longrightarrow> length (p6_relay_info p) + length rs \<le> 33 \<Longrightarrow>
       unpackRelayMsg (concat bs @ m) p = unpackMsg m (p\<lparr>p6_relay_info := p6_relay_info p @ map no_len rs\<rparr>)"
    by auto
  define inner where "inner = concat bs @ m"
  define r' where "r' = r\<lparr>ri_relay_msg_len := word_of_nat (length inner)\<rparr>"
  have inner: "length inner = length m + sum_list (map relay_nlen rs)" using IH(3) by (simp add: inner_def)
  have r': "wf_relay defs r'" "relay_nlen r' = relay_nlen r" "no_len r' = no_len r" "ri_msg_type r' = ri_msg_type r"
    using Cons.prems(1) by (simp_all add: r'_def wf_relay_def relay_nlen_def)
  have bounds: "0 < length inner" "length inner < 2 ^ 16" using assms(3) inner Cons.prems(2) by simp_all
  obtain b where b: "pack_relay r' = Inr b" "length b = relay_nlen r" "hd (b @ inner) = ri_msg_type r"
      "\<And>p. length (p6_relay_info p) < 33 \<Longrightarrow>
        unpack_relay (b @ inner) p = Inr (p\<lparr>p6_relay_info := p6_relay_info p @ [no_len r]\<rparr>, Some inner)"
    using unpack_relay_pack [OF assms(1) r'(1) bounds] r' by (auto simp: r'_def)
  have "relay_sizes (word_of_nat (length m)) (r # rs) =
      (r' # rs', word_of_nat (length m + sum_list (map relay_nlen (r # rs))))"
    using IH(1) inner by (simp add: r'_def getRelayOverhead_def opt_len_nlen relay_nlen_def
        DHCPV6_RELAY_HDR_LEN_def OPTION6_HDR_LEN_def)
  moreover have "mapE pack_relay (r' # rs') = Inr (b # bs)" using b(1) IH(2) by simp
  moreover have "length (concat (b # bs)) = sum_list (map relay_nlen (r # rs))" using b(2) IH(3) by simp
  moreover have "is_relay_type (hd (concat (b # bs) @ m))"
    using b(3) Cons.prems(1) by (simp add: inner_def wf_relay_def)
  moreover have "unpackRelayMsg (concat (b # bs) @ m) p =
      unpackMsg m (p\<lparr>p6_relay_info := p6_relay_info p @ map no_len (r # rs)\<rparr>)"
    if p: "length (p6_relay_info p) + length (r # rs) \<le> 33" for p
  proof -
    have "34 \<le> length (b @ inner)" using b(2) by (simp add: relay_nlen_def)
    then have "unpackRelayMsg (b @ inner) p =
        (if rs \<noteq> [] then unpackRelayMsg inner (p\<lparr>p6_relay_info := p6_relay_info p @ [no_len r]\<rparr>)
         else unpackMsg inner (p\<lparr>p6_relay_info := p6_relay_info p @ [no_len r]\<rparr>))"
      using unpackRelayMsg_step [OF b(4)] p IH(4) by (simp add: inner_def)
    moreover have "inner = m" if "rs = []" using IH(3) that by (simp add: inner_def)
    moreover have e: "concat (b # bs) @ m = b @ inner" by (simp add: inner_def)
    ultimately show ?thesis
      unfolding e using IH(5) [of "p\<lparr>p6_relay_info := p6_relay_info p @ [no_len r]\<rparr>", folded inner_def] p
      by (cases "rs = []") simp_all
  qed
  ultimately show ?case by blast
qed

section \<open>Properties\<close>

text \<open>C17. A well-formed DHCPv6 message, wrapped by any number of relays up to the 33 that
  \<^verbatim>\<open>addRelayInfo\<close> admits, packs without error; receiving and parsing the bytes gives back the message
  type, the transaction id, the options and, outermost first, every relay with its addresses, hop count
  and options. In particular the relay-msg lengths computed backwards by \<^verbatim>\<open>calculateRelaySizes\<close>
  are the ones the parser needs.\<close>

theorem Pkt6_roundtrip:
  assumes "getOptionDefs UV6 = Inr defs" "wf_pkt6 defs p"
  shows "\<exists>p' q. Pkt6_pack p = Inr (p', True) \<and>
    Pkt6_unpack (mk_Pkt6_rx rnd (p6_bufferOut p')) = Inr (q, True) \<and>
    p6_msg_type q = p6_msg_type p \<and> p6_transid q = p6_transid p \<and> p6_options q = p6_options p \<and>
    p6_relay_info q = map (\<lambda>r. r\<lparr>ri_relay_msg_len := 0\<rparr>) (p6_relay_info p)"
proof -
  note wf = assms(2) [unfolded wf_pkt6_def]
  obtain m where m: "pack_msg p = Inr m" "length m = msg_nlen p" "hd m = p6_msg_type p"
      "\<And>q. p6_options q = [] \<Longrightarrow> unpackMsg m q = Inr (q\<lparr>p6_msg_type := p6_msg_type p,
         p6_transid := p6_transid p, p6_options := p6_options p\<rparr>, True)"
    using unpackMsg_pack [OF assms(1), of p] wf by blast
  let ?rs = "p6_relay_info p"
  have dl: "directLen p = word_of_nat (length m)"
    by (simp add: directLen_def opt_len_nlen m(2) msg_nlen_def DHCPV6_PKT_HDR_LEN_def)
  have m0: "0 < length m" "4 \<le> length m" using m(2) by (simp_all add: msg_nlen_def)
  obtain rs' bs where r: "relay_sizes (directLen p) ?rs = (rs', word_of_nat (length m + sum_list (map relay_nlen ?rs)))"
      "mapE pack_relay rs' = Inr bs" "is_relay_type (hd (concat bs @ m)) \<longleftrightarrow> ?rs \<noteq> []"
      "length (concat bs) = sum_list (map relay_nlen ?rs)"
      "\<And>q. ?rs \<noteq> [] \<Longrightarrow> length (p6_relay_info q) + length ?rs \<le> 33 \<Longrightarrow>
         unpackRelayMsg (concat bs @ m) q = unpackMsg m (q\<lparr>p6_relay_info := p6_relay_info q @ map no_len ?rs\<rparr>)"
    using relays_pack_unpack [OF assms(1), of ?rs m] wf m(2,3) m0 dl by auto
  define d where "d = concat bs @ m"
  have empty: "bs = [] \<and> rs' = []" if "?rs = []" using r(1,2) that by simp
  have pack: "Pkt6_pack p = Inr (p\<lparr>p6_relay_info := rs', p6_bufferOut := d\<rparr>, True)"
  proof (cases "?rs = []")
    case True
    with wf m(1) empty show ?thesis by (simp add: Pkt6_pack_def packUDP_def d_def)
  next
    case False
    moreover have "pack_msg (p\<lparr>p6_relay_info := rs'\<rparr>) = pack_msg p" by (simp add: pack_msg_def)
    ultimately show ?thesis
      using wf m(1) r(1,2) by (simp add: Pkt6_pack_def packUDP_def d_def calculateRelaySizes_def)
  qed
  let ?q = "(mk_Pkt6_rx rnd d)\<lparr>p6_msg_type := hd d\<rparr>"
  have q: "p6_data ?q = d" "p6_options ?q = []" "p6_relay_info ?q = []"
    by (simp_all add: mk_Pkt6_rx_def mk_Pkt6_def)
  have "d ! 0 = hd d" "\<not> length d < 4" using m0 by (simp_all add: d_def hd_conv_nth)
  then have "Pkt6_unpack (mk_Pkt6_rx rnd d) =
      (if ?rs \<noteq> [] then unpackRelayMsg d ?q else unpackMsg d ?q)"
    using r(3) by (simp add: Pkt6_unpack_def unpackUDP_def mk_Pkt6_rx_def mk_Pkt6_def d_def is_relay_type_def)
  also have "\<dots> = unpackMsg m (?q\<lparr>p6_relay_info := map no_len ?rs\<rparr>)"
    using r(5) [of ?q] q wf empty by (cases "?rs = []") (auto simp: d_def mk_Pkt6_rx_def mk_Pkt6_def)
  also have "\<dots> = Inr (?q\<lparr>p6_relay_info := map no_len ?rs, p6_msg_type := p6_msg_type p,
         p6_transid := p6_transid p, p6_options := p6_options p\<rparr>, True)"
    using m(4) [of "?q\<lparr>p6_relay_info := map no_len ?rs\<rparr>"] q by simp
  finally show ?thesis using pack by simp
qed

definition example_pkt6 :: pkt6 where
  "example_pkt6 = (mk_Pkt6 DHCPV6_SOLICIT 0x123456)\<lparr>p6_options := example_options,
     p6_relay_info := [RelayInfo_default\<lparr>ri_msg_type := DHCPV6_RELAY_FORW\<rparr>,
       RelayInfo_default\<lparr>ri_msg_type := DHCPV6_RELAY_FORW, ri_hop_count := 1\<rparr>]\<rparr>"

lemma example_pkt6_wf: "wf_pkt6 std_defs6 example_pkt6"
  using example_options_wf
  by (simp add: wf_pkt6_def example_pkt6_def mk_Pkt6_def RelayInfo_default_def wf_relay_def is_relay_type_def
      ADDRESS6_ANY_def mm_wf_def msg_nlen_def relay_nlen_def)
    (simp add: example_options_def example_ia_def hdr_len_defs)

theorem Pkt6_roundtrip_witness:
  "\<exists>p' q. Pkt6_pack example_pkt6 = Inr (p', True) \<and>
    Pkt6_unpack (mk_Pkt6_rx 7 (p6_bufferOut p')) = Inr (q, True) \<and>
    p6_transid q = 0x123456 \<and> length (p6_relay_info q) = 2"
  using Pkt6_roundtrip [OF getOptionDefs6 example_pkt6_wf, of 7] by (auto simp: example_pkt6_def mk_Pkt6_def)

lemma unpackMsg_relays: "unpackMsg buf p = Inr (q, ok) \<Longrightarrow> p6_relay_info q = p6_relay_info p"
  by (auto simp: unpackMsg_def Let_def catch_isc_def result_simps split: if_splits sum.splits)

lemma unpack_relay_count:
  "unpack_relay buf p = Inr (q, i) \<Longrightarrow> length (p6_relay_info q) \<le> 33"
  by (auto simp: unpack_relay_def addRelayInfo_def Let_def result_simps split: if_splits)

lemma unpackRelayMsg_count:
  "unpackRelayMsg buf p = Inr (q, ok) \<Longrightarrow> length (p6_relay_info p) \<le> 33 \<Longrightarrow> length (p6_relay_info q) \<le> 33"
proof (induction buf p rule: unpackRelayMsg.induct)
  case (1 buf p)
  show ?case
  proof (cases "length buf \<ge> DHCPV6_RELAY_HDR_LEN \<and> (\<exists>p' inner. unpack_relay buf p = Inr (p', Some inner))")
    case True
    then obtain p' inner where u: "unpack_relay buf p = Inr (p', Some inner)" by blast
    have "length (p6_relay_info p') \<le> 33" by (rule unpack_relay_count [OF u])
    with "1.IH" [OF _ u] "1.prems" True u show ?thesis
      by (subst (asm) unpackRelayMsg.simps) (auto split: if_splits dest: unpackMsg_relays)
  next
    case False
    with "1.prems" show ?thesis
      by (subst (asm) unpackRelayMsg.simps)
        (auto split: if_splits sum.splits option.splits dest: unpack_relay_count)
  qed
qed

text \<open>The parser admits at most 33 relays: a received message never carries more, whatever was
  sent.\<close>

theorem at_most_33_relays:
  assumes "Pkt6_unpack (mk_Pkt6_rx rnd buf) = Inr (q, ok)"
  shows "length (p6_relay_info q) \<le> 33"
  using assms unpackRelayMsg_count [of buf "(mk_Pkt6_rx rnd buf)\<lparr>p6_msg_type := buf ! 0\<rparr>" q ok]
    unpackMsg_relays [of buf "(mk_Pkt6_rx rnd buf)\<lparr>p6_msg_type := buf ! 0\<rparr>" q ok]
  by (auto simp: Pkt6_unpack_def unpackUDP_def mk_Pkt6_rx_def mk_Pkt6_def Let_def split: if_splits)

theorem at_most_33_relays_witness:
  "\<exists>q. Pkt6_unpack (mk_Pkt6_rx 0 [1, 0, 0, 1]) = Inr (q, True) \<and> length (p6_relay_info q) \<le> 33"
proof -
  have "Pkt6_unpack (mk_Pkt6_rx 0 [1, 0, 0, 1]) =
      Inr ((mk_Pkt6_rx 0 [1, 0, 0, 1])\<lparr>p6_msg_type := 1, p6_transid := 1\<rparr>, True)"
    by (simp add: Pkt6_unpack_def unpackUDP_def mk_Pkt6_rx_def mk_Pkt6_def unpackMsg_def
        LibDHCP_unpackOptions6_def getOptionDefs6)
  with at_most_33_relays [OF this] show ?thesis by blast
qed

end
