(* ===== verification/Iface_Mgr.thy ===== *)
theory Iface_Mgr
  imports Effects Pkt4 Pkt6
begin

unbundle bit_operations_syntax

text \<open>
  Interfaces and their sockets, \<^verbatim>\<open>src/lib/dhcp/iface_mgr.{h,cc}\<close>. The system calls that make a
  socket (in \<^verbatim>\<open>PktFilterInet\<close> and in \<^verbatim>\<open>openSocket6\<close>) and join a multicast group are
  parameters: \<open>sys_socket\<close> gives the descriptor or the exception, and sees the sockets opened so
  far, so that two calls may have different outcomes. Closing a descriptor has no effect on the state
  beyond its removal. The exceptions \<^verbatim>\<open>SocketConfigError\<close>, \<^verbatim>\<open>SocketReadError\<close> and
  \<^verbatim>\<open>SocketWriteError\<close> are \<open>IOError\<close>.
\<close>

section \<open>Interfaces\<close>

definition MAX_MAC_LEN :: nat where "MAX_MAC_LEN = 20"

record SocketInfo =
  si_sockfd :: u16
  si_addr :: ioaddress
  si_port :: u16
  si_family :: int

definition mk_SocketInfo :: "int \<Rightarrow> ioaddress \<Rightarrow> u16 \<Rightarrow> SocketInfo" where
  "mk_SocketInfo sockfd addr port =
     \<lparr>si_sockfd = word_of_int sockfd, si_addr = addr, si_port = port, si_family = getFamily addr\<rparr>"

text \<open>\<open>if_mac\<close> is the first \<^verbatim>\<open>mac_len_\<close> bytes of \<^verbatim>\<open>mac_\<close>.\<close>

record Iface =
  if_sockets :: "SocketInfo list"
  if_name :: string
  if_ifindex :: int
  if_addrs :: "ioaddress list"
  if_mac :: bytes
  if_hardware_type :: u16
  if_loopback :: bool
  if_up :: bool
  if_running :: bool
  if_multicast :: bool
  if_broadcast :: bool

definition mk_Iface :: "string \<Rightarrow> int \<Rightarrow> Iface" where
  "mk_Iface name ifindex =
     \<lparr>if_sockets = [], if_name = name, if_ifindex = ifindex, if_addrs = [], if_mac = [], if_hardware_type = 0,
      if_loopback = False, if_up = False, if_running = False, if_multicast = False, if_broadcast = False\<rparr>"

definition Iface_closeSockets :: "Iface \<Rightarrow> Iface" where
  "Iface_closeSockets i = i\<lparr>if_sockets := []\<rparr>"

definition getPlainMac :: "Iface \<Rightarrow> string" where
  "getPlainMac i = hex_text (if_mac i)"

definition setMac :: "bytes \<Rightarrow> nat \<Rightarrow> Iface \<Rightarrow> Iface result" where
  "setMac mac len i =
     (if len > MAX_MAC_LEN then Inl OutOfRange
      else if length mac < len then Inl OutOfBounds
      else Inr (i\<lparr>if_mac := take len mac\<rparr>))"

definition addAddress :: "ioaddress \<Rightarrow> Iface \<Rightarrow> Iface" where
  "addAddress addr i = i\<lparr>if_addrs := if_addrs i @ [addr]\<rparr>"

definition delAddress :: "ioaddress \<Rightarrow> Iface \<Rightarrow> Iface \<times> bool" where
  "delAddress addr i =
     (if addr \<in> set (if_addrs i) then (i\<lparr>if_addrs := remove1 addr (if_addrs i)\<rparr>, True) else (i, False))"

definition addSocket :: "SocketInfo \<Rightarrow> Iface \<Rightarrow> Iface" where
  "addSocket sock i = i\<lparr>if_sockets := if_sockets i @ [sock]\<rparr>"

fun erase_socket :: "u16 \<Rightarrow> SocketInfo list \<Rightarrow> SocketInfo list option" where
  "erase_socket sockfd [] = None"
| "erase_socket sockfd (s # ss) =
     (if si_sockfd s = sockfd then Some ss else map_option ((#) s) (erase_socket sockfd ss))"

definition delSocket :: "u16 \<Rightarrow> Iface \<Rightarrow> Iface \<times> bool" where
  "delSocket sockfd i =
     (case erase_socket sockfd (if_sockets i) of
        Some ss \<Rightarrow> (i\<lparr>if_sockets := ss\<rparr>, True)
      | None \<Rightarrow> (i, False))"

section \<open>The manager\<close>

record IfaceMgr =
  im_ifaces :: "Iface list"
  im_fd_6to4 :: int
  im_fd_4to6 :: int

definition addInterface :: "Iface \<Rightarrow> IfaceMgr \<Rightarrow> IfaceMgr" where
  "addInterface iface m = m\<lparr>im_ifaces := im_ifaces m @ [iface]\<rparr>"

definition IfaceMgr_closeSockets :: "IfaceMgr \<Rightarrow> IfaceMgr" where
  "IfaceMgr_closeSockets m = m\<lparr>im_ifaces := map Iface_closeSockets (im_ifaces m)\<rparr>"

text \<open>\<^verbatim>\<open>Iface::getIndex\<close> returns the index cut to 16 bits.\<close>

definition getIndex :: "Iface \<Rightarrow> u16" where
  "getIndex i = word_of_int (if_ifindex i)"

definition getIface_index :: "int \<Rightarrow> IfaceMgr \<Rightarrow> Iface option" where
  "getIface_index ifindex m = find (\<lambda>i. uint (getIndex i) = ifindex) (im_ifaces m)"

definition getIface :: "string \<Rightarrow> IfaceMgr \<Rightarrow> Iface option" where
  "getIface ifname m = find (\<lambda>i. if_name i = ifname) (im_ifaces m)"

text \<open>Change the interface a pointer returned by \<^const>\<open>getIface\<close> points at.\<close>

fun change_first :: "('a \<Rightarrow> bool) \<Rightarrow> ('a \<Rightarrow> 'a) \<Rightarrow> 'a list \<Rightarrow> 'a list" where
  "change_first P f [] = []"
| "change_first P f (x # xs) = (if P x then f x # xs else x # change_first P f xs)"

type_synonym sys_socket = "IfaceMgr \<Rightarrow> string \<Rightarrow> ioaddress \<Rightarrow> u16 \<Rightarrow> bool \<Rightarrow> bool \<Rightarrow> int result"

definition openSocket :: "sys_socket \<Rightarrow> string \<Rightarrow> ioaddress \<Rightarrow> u16 \<Rightarrow> bool \<Rightarrow> bool \<Rightarrow> (IfaceMgr, int) eff" where
  "openSocket sys ifname addr port receive_bcast send_bcast =
     bindS (askS (\<lambda>m. case getIface ifname m of None \<Rightarrow> Inl BadValue | Some _ \<Rightarrow> Inr ())) (\<lambda>_.
     bindS (askS (\<lambda>m. sys m ifname addr port receive_bcast send_bcast)) (\<lambda>sock.
     thenS (modS (\<lambda>m. m\<lparr>im_ifaces :=
         change_first (\<lambda>i. if_name i = ifname) (addSocket (mk_SocketInfo sock addr port)) (im_ifaces m)\<rparr>))
       (retS sock)))"

text \<open>The interfaces a server listens on.\<close>

definition listens :: "Iface \<Rightarrow> bool" where
  "listens i \<longleftrightarrow> \<not> (if_loopback i \<or> \<not> if_up i \<or> \<not> if_running i)"

fun forS :: "('a \<Rightarrow> ('s, nat) eff) \<Rightarrow> 'a list \<Rightarrow> ('s, nat) eff" where
  "forS f [] = retS 0"
| "forS f (x # xs) = bindS (f x) (\<lambda>n. bindS (forS f xs) (\<lambda>k. retS (n + k)))"

text \<open>The loops run over copies of the address lists, and opening a socket leaves the names, flags and
  addresses of the interfaces alone, so that they can run over the state at the beginning. On Linux
  \<^verbatim>\<open>SO_BINDTODEVICE\<close> is defined. \<open>unix_fd\<close> is the descriptor \<^verbatim>\<open>socket(AF_UNIX, ...)\<close> gives
  for the channel to the other server. The count of the sockets opened is the result.\<close>

definition openSockets4 :: "sys_socket \<Rightarrow> int \<Rightarrow> u16 \<Rightarrow> bool \<Rightarrow> (IfaceMgr, bool) eff" where
  "openSockets4 sys unix_fd port use_bcast =
     thenS (modS (\<lambda>m. m\<lparr>im_fd_6to4 := unix_fd\<rparr>)) (bindS (askS (\<lambda>m. Inr (im_ifaces m))) (\<lambda>ifaces.
     bindS (forS (\<lambda>iface.
         if \<not> listens iface then retS 0
         else forS (\<lambda>addr.
           if \<not> isV4 addr then retS 0
           else bindS (let bcast = if_broadcast iface \<and> use_bcast
                       in openSocket sys (if_name iface) addr port bcast bcast) (\<lambda>sock.
             if sock < 0 then throwS IOError else retS 1)) (if_addrs iface)) ifaces) (\<lambda>count.
       retS (count > 0))))"

definition is_multicast :: "ioaddress \<Rightarrow> bool result" where
  "is_multicast a = (case a of IPv4 _ \<Rightarrow> Inl AssertionFailed | IPv6 _ \<Rightarrow> Inr (hd (toBytes a) = 0xff))"

text \<open>\<^verbatim>\<open>ALL_DHCP_RELAY_AGENTS_AND_SERVERS\<close>, \<^verbatim>\<open>ff02::1:2\<close>\<close>

definition ALL_DHCP_RELAY_AGENTS_AND_SERVERS :: ioaddress where
  "ALL_DHCP_RELAY_AGENTS_AND_SERVERS = IPv6 0xff020000000000000000000000010002"

definition openSockets6 :: "sys_socket \<Rightarrow> int \<Rightarrow> (int \<Rightarrow> string \<Rightarrow> bool) \<Rightarrow> u16 \<Rightarrow> (IfaceMgr, bool) eff" where
  "openSockets6 sys unix_fd joinMulticast port =
     thenS (modS (\<lambda>m. m\<lparr>im_fd_4to6 := unix_fd\<rparr>)) (bindS (askS (\<lambda>m. Inr (im_ifaces m))) (\<lambda>ifaces.
     bindS (forS (\<lambda>iface.
         if \<not> listens iface then retS 0
         else forS (\<lambda>addr.
           if \<not> isV6 addr then retS 0
           else bindS (liftS (is_link_local addr)) (\<lambda>ll.
             if \<not> ll then retS 0
             else bindS (openSocket sys (if_name iface) addr port False False) (\<lambda>sock.
               if sock < 0 then throwS IOError
               else if \<not> joinMulticast sock (if_name iface) then throwS IOError
               else bindS (openSocket sys (if_name iface) ALL_DHCP_RELAY_AGENTS_AND_SERVERS port False False) (\<lambda>sock2.
                 if sock2 < 0 then throwS IOError else retS 1)))) (if_addrs iface)) ifaces) (\<lambda>count.
       retS (count > 0))))"

definition openSocketFromAddress :: "sys_socket \<Rightarrow> ioaddress \<Rightarrow> u16 \<Rightarrow> (IfaceMgr, int) eff" where
  "openSocketFromAddress sys addr port =
     bindS (askS (\<lambda>m. Inr (find (\<lambda>i. addr \<in> set (if_addrs i)) (im_ifaces m)))) (\<lambda>iface.
       case iface of
         Some i \<Rightarrow> openSocket sys (if_name i) addr port False False
       | None \<Rightarrow> throwS BadValue)"

section \<open>Choosing a socket\<close>

fun first_unicast :: "SocketInfo list \<Rightarrow> u16 option result" where
  "first_unicast [] = Inr None"
| "first_unicast (s # ss) =
     (if si_family s = AF_INET6 then
        bindE (is_multicast (si_addr s)) (\<lambda>mc. if \<not> mc then Inr (Some (si_sockfd s)) else first_unicast ss)
      else first_unicast ss)"

definition getSocket6 :: "pkt6 \<Rightarrow> IfaceMgr \<Rightarrow> u16 result" where
  "getSocket6 pkt m =
     (case getIface (p6_iface pkt) m of
        None \<Rightarrow> Inl BadValue
      | Some iface \<Rightarrow> bindE (first_unicast (if_sockets iface)) (\<lambda>s.
          case s of None \<Rightarrow> Inl Unexpected | Some fd \<Rightarrow> Inr fd))"

definition getSocket4 :: "pkt4 \<Rightarrow> IfaceMgr \<Rightarrow> u16 result" where
  "getSocket4 pkt m =
     (case getIface (p4_iface pkt) m of
        None \<Rightarrow> Inl BadValue
      | Some iface \<Rightarrow>
          (case find (\<lambda>s. si_family s = AF_INET) (if_sockets iface) of
             None \<Rightarrow> Inl Unexpected
           | Some s \<Rightarrow> Inr (si_sockfd s)))"

end
