(* ===== verification/Dhcp4_Srv.thy ===== *)
theory Dhcp4_Srv
  imports Cfg_Mgr Alloc_Live Iface_Mgr
begin

text \<open>
  The DHCPv4 server, \<^verbatim>\<open>src/bin/dhcp4/dhcp4_srv.cc\<close>. The state is the configuration, the lease
  database and the server identifier; the environment of a request holds the allocation engine, the
  lease manager, the time and whether the interface manager can answer clients without an address.
  The handlers update the answer through a reference: here they take it and return it. An exception
  drops the answer but not what was written to the database by then. Options are shared between
  messages and the configuration as pointers; no handler writes to an option it did not create, so that
  passing them by value is the same. Log messages are left out.
\<close>

record 's Dhcpv4Srv =
  s4_cfg :: CfgMgr
  s4_leases :: 's
  s4_serverid :: "opt option"

record 's Env4 =
  e4_engine :: AllocEngine
  e4_mgr :: "'s LeaseMgr"
  e4_now :: int
  e4_direct :: bool

section \<open>Helpers of the handlers\<close>

definition generateServerID4 :: "Iface list \<Rightarrow> opt result" where
  "generateServerID4 ifaces =
     (case concat (map (\<lambda>i. if if_loopback i \<or> \<not> if_up i then []
                            else filter (\<lambda>a. getFamily a = AF_INET) (if_addrs i)) ifaces) of
        [] \<Rightarrow> Inl BadValue
      | addr # _ \<Rightarrow> mk_Option4AddrLst (ucast DHO_DHCP_SERVER_IDENTIFIER) [addr])"

definition selectSubnet4 :: "pkt4 \<Rightarrow> CfgMgr \<Rightarrow> nat option result" where
  "selectSubnet4 question c =
     (let relay = p4_giaddr question in
      if relay = IPv4 0 then getSubnet4 relay c
      else getSubnet4 (p4_remote_addr question) c)"

definition copyDefaultFields :: "pkt4 \<Rightarrow> pkt4 \<Rightarrow> pkt4 result" where
  "copyDefaultFields question answer =
     (let a = answer\<lparr>p4_iface := p4_iface question, p4_ifindex := p4_ifindex question,
                     p4_ciaddr := p4_ciaddr question, p4_siaddr := IPv4 0, p4_hops := p4_hops question\<rparr>
      in bindE (setHWAddr_ptr (p4_hwaddr question) a) (\<lambda>a.
        let a = a\<lparr>p4_giaddr := p4_giaddr question,
                  p4_remote_addr := (if p4_giaddr question \<noteq> IPv4 0 then p4_giaddr question
                                     else p4_remote_addr question)\<rparr>
        in case Pkt4_getOption (ucast DHO_DHCP_CLIENT_IDENTIFIER) question of
             Some client_id \<Rightarrow> Pkt4_addOption client_id a
           | None \<Rightarrow> Inr a))"

definition appendDefaultOptions4 :: "opt option \<Rightarrow> u8 \<Rightarrow> pkt4 \<Rightarrow> pkt4 result" where
  "appendDefaultOptions4 serverid msg_type msg =
     bindE (Pkt4_setType msg_type msg) (\<lambda>msg.
       case serverid of None \<Rightarrow> Inl NullPointer | Some srvid \<Rightarrow> Pkt4_addOption srvid msg)"

text \<open>Add the option configured for a code, if there is one.\<close>

definition add_configured4 :: "Subnet \<Rightarrow> u16 \<Rightarrow> pkt4 \<Rightarrow> pkt4 result" where
  "add_configured4 subnet code msg =
     (case od_option (getOptionDescriptor ''dhcp4'' code subnet) of
        Some option \<Rightarrow> Pkt4_addOption option msg
      | None \<Rightarrow> Inr msg)"

definition appendRequestedOptions4 :: "CfgMgr \<Rightarrow> pkt4 \<Rightarrow> pkt4 \<Rightarrow> pkt4 result" where
  "appendRequestedOptions4 c question msg =
     bindE (selectSubnet4 question c) (\<lambda>subnet.
       case subnet of
         None \<Rightarrow> Inr msg
       | Some i \<Rightarrow>
           (case map_option opayload (Pkt4_getOption (ucast DHO_DHCP_PARAMETER_REQUEST_LIST) question) of
              Some (PIntArray TU8 requested_opts) \<Rightarrow>
                foldE (\<lambda>code. add_configured4 (cfg_subnets4 c ! i) (word_of_nat code)) requested_opts msg
            | _ \<Rightarrow> Inr msg))"

definition required_options :: "u16 list" where
  "required_options = [DHO_SUBNET_MASK, DHO_ROUTERS, DHO_DOMAIN_NAME_SERVERS, DHO_DOMAIN_NAME]"

definition appendBasicOptions4 :: "CfgMgr \<Rightarrow> pkt4 \<Rightarrow> pkt4 \<Rightarrow> pkt4 result" where
  "appendBasicOptions4 c question msg =
     bindE (selectSubnet4 question c) (\<lambda>subnet.
       case subnet of
         None \<Rightarrow> Inr msg
       | Some i \<Rightarrow>
           foldE (\<lambda>code msg.
             if Pkt4_getOption (ucast code) msg = None then add_configured4 (cfg_subnets4 c ! i) code msg
             else Inr msg) required_options msg)"

definition getNetmaskOption :: "Subnet \<Rightarrow> opt result" where
  "getNetmaskOption subnet =
     bindE (getNetmask4 (sn_prefix_len subnet)) (\<lambda>a. bindE (to_uint32 a) (\<lambda>netmask.
       mk_OptionInt TU32 UV4 DHO_SUBNET_MASK (unat netmask)))"

definition sanityCheck4 :: "pkt4 \<Rightarrow> RequirementLevel \<Rightarrow> unit result" where
  "sanityCheck4 pkt serverid =
     (let server_id = Pkt4_getOption (ucast DHO_DHCP_SERVER_IDENTIFIER) pkt in
      case serverid of
        FORBIDDEN \<Rightarrow> if server_id \<noteq> None then Inl RFCViolation else Inr ()
      | MANDATORY \<Rightarrow> if server_id = None then Inl RFCViolation else Inr ()
      | OPTIONAL \<Rightarrow> Inr ())"

definition serverReceivedPacketName :: "u8 \<Rightarrow> string" where
  "serverReceivedPacketName type =
     (if type = DHCPDISCOVER then ''DISCOVER''
      else if type = DHCPREQUEST then ''REQUEST''
      else if type = DHCPRELEASE then ''RELEASE''
      else if type = DHCPDECLINE then ''DECLINE''
      else if type = DHCPINFORM then ''INFORM''
      else ''UNKNOWN'')"

section \<open>Assigning a lease\<close>

definition client_id4 :: "pkt4 \<Rightarrow> ClientId option result" where
  "client_id4 question =
     (case Pkt4_getOption (ucast DHO_DHCP_CLIENT_IDENTIFIER) question of
        Some opt \<Rightarrow> bindE (mk_ClientId (odata opt)) (\<lambda>c. Inr (Some c))
      | None \<Rightarrow> Inr None)"

text \<open>Run the allocation engine on the database and on the subnet a pointer points at.\<close>

definition at_subnet4 :: "nat \<Rightarrow> ('s \<times> Subnet option, 'a) eff \<Rightarrow> ('s Dhcpv4Srv, 'a) eff" where
  "at_subnet4 i =
     zoomS (\<lambda>s. (s4_leases s, Some (cfg_subnets4 (s4_cfg s) ! i)))
       (\<lambda>(d, sn) s. s\<lparr>s4_leases := d,
          s4_cfg := (s4_cfg s)\<lparr>cfg_subnets4 :=
            (case sn of None \<Rightarrow> cfg_subnets4 (s4_cfg s) | Some n \<Rightarrow> (cfg_subnets4 (s4_cfg s))[i := n])\<rparr>\<rparr>)"

definition refuse4 :: "pkt4 \<Rightarrow> pkt4 result" where
  "refuse4 answer = bindE (Pkt4_setType DHCPNAK answer) (\<lambda>a. Inr (a\<lparr>p4_yiaddr := IPv4 0\<rparr>))"

definition grant_answer4 :: "bool \<Rightarrow> Subnet \<Rightarrow> Lease4 \<Rightarrow> pkt4 \<Rightarrow> pkt4 result" where
  "grant_answer4 direct subnet lease answer =
     (let a = answer\<lparr>p4_yiaddr := l_addr lease\<rparr>;
          a = (if p4_remote_addr a = IPv4 0 then
                 a\<lparr>p4_remote_addr := (if direct then l_addr lease else IPv4 0xffffffff)\<rparr>
               else a)
      in bindE (mk_Option_empty UV4 DHO_DHCP_LEASE_TIME PGeneric) (\<lambda>opt.
         bindE (Pkt4_addOption (setUint32 (l_valid_lft lease) opt) a) (\<lambda>a.
         bindE (add_configured4 subnet DHO_ROUTERS a) (\<lambda>a.
         bindE (getNetmaskOption subnet) (\<lambda>netmask. Pkt4_addOption netmask a)))))"

definition assignLease :: "'s Env4 \<Rightarrow> pkt4 \<Rightarrow> pkt4 \<Rightarrow> ('s Dhcpv4Srv, pkt4) eff" where
  "assignLease e question answer =
     bindS (askS (\<lambda>s. selectSubnet4 question (s4_cfg s))) (\<lambda>subnet.
       case subnet of
         None \<Rightarrow> liftS (refuse4 answer)
       | Some i \<Rightarrow>
           bindS (liftS (client_id4 question)) (\<lambda>client_id.
           bindS (liftS (Pkt4_getType question)) (\<lambda>type.
           bindS (at_subnet4 i (allocateAddress4 (e4_engine e) (e4_mgr e) (e4_now e) client_id
                    (p4_hwaddr question) (p4_yiaddr question) (type = DHCPDISCOVER))) (\<lambda>lease.
             case lease of
               Some l \<Rightarrow> askS (\<lambda>s. grant_answer4 (e4_direct e) (cfg_subnets4 (s4_cfg s) ! i) l answer)
             | None \<Rightarrow> liftS (refuse4 answer)))))"

section \<open>The handlers\<close>

definition processDiscover :: "'s Env4 \<Rightarrow> pkt4 \<Rightarrow> ('s Dhcpv4Srv, pkt4) eff" where
  "processDiscover e discover =
     bindS (liftS (mk_Pkt4 DHCPOFFER (p4_transid discover))) (\<lambda>offer.
     bindS (liftS (copyDefaultFields discover offer)) (\<lambda>offer.
     bindS (askS (\<lambda>s. appendDefaultOptions4 (s4_serverid s) DHCPOFFER offer)) (\<lambda>offer.
     bindS (askS (\<lambda>s. appendRequestedOptions4 (s4_cfg s) discover offer)) (\<lambda>offer.
     bindS (assignLease e discover offer) (\<lambda>offer.
       askS (\<lambda>s. appendBasicOptions4 (s4_cfg s) discover offer))))))"

definition processRequest :: "'s Env4 \<Rightarrow> pkt4 \<Rightarrow> ('s Dhcpv4Srv, pkt4) eff" where
  "processRequest e request =
     bindS (liftS (mk_Pkt4 DHCPACK (p4_transid request))) (\<lambda>ack.
     bindS (liftS (copyDefaultFields request ack)) (\<lambda>ack.
     bindS (askS (\<lambda>s. appendDefaultOptions4 (s4_serverid s) DHCPACK ack)) (\<lambda>ack.
     bindS (askS (\<lambda>s. appendRequestedOptions4 (s4_cfg s) request ack)) (\<lambda>ack.
     bindS (assignLease e request ack) (\<lambda>ack.
       askS (\<lambda>s. appendBasicOptions4 (s4_cfg s) request ack))))))"

text \<open>Work on the lease database only.\<close>

abbreviation leasesS4 :: "('s, 'a) eff \<Rightarrow> ('s Dhcpv4Srv, 'a) eff" where
  "leasesS4 \<equiv> zoomS s4_leases (\<lambda>d s. s\<lparr>s4_leases := d\<rparr>)"

definition processRelease :: "'s Env4 \<Rightarrow> pkt4 \<Rightarrow> ('s Dhcpv4Srv, unit) eff" where
  "processRelease e release =
     bindS (liftS (client_id4 release)) (\<lambda>client_id.
     leasesS4 (catchS
       (bindS (askS (getLease4 (e4_mgr e) (p4_yiaddr release))) (\<lambda>lease.
          case lease of
            None \<Rightarrow> retS ()
          | Some l \<Rightarrow>
              (case p4_hwaddr release of
                 None \<Rightarrow> throwS NullPointer
               | Some h \<Rightarrow>
                   if l4_hwaddr l \<noteq> hwaddr_bytes h then retS ()
                   else if l4_client_id l \<noteq> None \<and> client_id \<noteq> None \<and> l4_client_id l \<noteq> client_id then retS ()
                   else bindS (deleteLease (e4_mgr e) (l_addr l)) (\<lambda>_. retS ()))))
       (\<lambda>_. retS ())))"

definition processDecline :: "pkt4 \<Rightarrow> ('s Dhcpv4Srv, unit) eff" where
  "processDecline decline = retS ()"

definition processInform :: "pkt4 \<Rightarrow> ('s Dhcpv4Srv, pkt4) eff" where
  "processInform inform = retS inform"

section \<open>The server loop\<close>

text \<open>The switch and its handler for \<^verbatim>\<open>isc::Exception\<close>. The result of \<^verbatim>\<open>processInform\<close> is not
  assigned to the response.\<close>

definition dispatch4 :: "'s Env4 \<Rightarrow> pkt4 \<Rightarrow> ('s Dhcpv4Srv, pkt4 option) eff" where
  "dispatch4 e query =
     catchS
       (bindS (liftS (Pkt4_getType query)) (\<lambda>type.
          if type = DHCPDISCOVER then bindS (processDiscover e query) (\<lambda>rsp. retS (Some rsp))
          else if type = DHCPREQUEST then bindS (processRequest e query) (\<lambda>rsp. retS (Some rsp))
          else if type = DHCPRELEASE then thenS (processRelease e query) (retS None)
          else if type = DHCPDECLINE then thenS (processDecline query) (retS None)
          else if type = DHCPINFORM then thenS (processInform query) (retS None)
          else retS None))
       (\<lambda>_. retS None)"

definition address_response4 :: "pkt4 \<Rightarrow> pkt4 \<Rightarrow> pkt4" where
  "address_response4 query rsp =
     (let r = (if p4_remote_addr rsp = IPv4 0 then rsp\<lparr>p4_remote_addr := p4_remote_addr query\<rparr> else rsp);
          r = r\<lparr>p4_remote_port := (if p4_hops r = 0 then DHCP4_CLIENT_PORT else DHCP4_SERVER_PORT)\<rparr>
      in r\<lparr>p4_is4o6 := p4_is4o6 query, p4_local_addr := p4_local_addr query, p4_local_port := DHCP4_SERVER_PORT,
           p4_iface := p4_iface query, p4_ifindex := p4_ifindex query\<rparr>)"

text \<open>One round of \<^verbatim>\<open>run\<close> on a received packet, up to the call of \<^verbatim>\<open>IfaceMgr::send\<close>: the packed
  response, if there is one. Packing is not inside a \<^verbatim>\<open>try\<close> block: its exceptions leave
  \<^verbatim>\<open>run\<close>.\<close>

definition run4 :: "'s Env4 \<Rightarrow> pkt4 \<Rightarrow> ('s Dhcpv4Srv, pkt4 option) eff" where
  "run4 e received =
     (case Pkt4_unpack received of
        Inl x \<Rightarrow> if is_exception x then retS None else throwS x
      | Inr query \<Rightarrow>
          bindS (dispatch4 e query) (\<lambda>rsp.
            case rsp of
              None \<Rightarrow> retS None
            | Some r \<Rightarrow> liftS (bindE (Pkt4_pack (address_response4 query r)) (\<lambda>p. Inr (Some p)))))"

end
