(* ===== verification/Alloc_Safety6.thy ===== *)
theory Alloc_Safety6
  imports Alloc_Safety
begin

text \<open>
  The IPv6 side of the safety of the allocation engine. A client that holds a lease gets it back
  unchanged, even an expired one.
\<close>

lemma setLastAllocated_same6 [simp]: "reused6 (setLastAllocated b sn) = reused6 sn"
  "sn_preferred (setLastAllocated b sn) = sn_preferred sn"
  by (simp_all add: setLastAllocated_def reused6_def fun_eq_iff)

locale lease_db6 =
  lease_store "getLease6 mgr" "lookup6 mgr" "addLease6 mgr" "updateLease6 mgr" "assign6 mgr" holds6 inv leases
  for mgr :: "'s LeaseMgr" and inv and leases
begin

lemma reuse6_spec:
  assumes "inv s" "leases s (l_addr l) \<noteq> None"
    and "reuseExpiredLease6 mgr now l duid iaid fake (s, sn) = (Inr l', (t, sn'))"
  shows "l' = reused6 sn duid iaid now l \<and> sn' = sn \<and> inv t \<and> stored fake (leases s) (leases t) l'"
proof (cases fake)
  let ?r = "reused6 sn duid iaid now l"
  have a: "leases s (l_addr ?r) \<noteq> None" using assms(2) by (simp add: reused6_def)
  {
    case True
    with assms(3) have "l' = ?r" "sn' = sn" "t = assign6 mgr ?r s"
      by (auto simp: reuseExpiredLease6_def bindS_Inr zoomS_def eff_apply split: if_splits)
    with True show ?thesis using assign_inv [OF assms(1)] assign_lease [OF assms(1) a] by (auto simp: stored_def)
  next
    case False
    with assms(3) have "l' = ?r" "sn' = sn" "updateLease6 mgr ?r (assign6 mgr ?r s) = (Inr (), t)"
      by (auto simp: reuseExpiredLease6_def bindS_Inr zoomS_def eff_apply split: prod.splits if_splits)
    then show ?thesis
      using update_inv [OF assign_inv [OF assms(1)]] update_lease [OF assms(1) a] by (auto simp: stored_def)
  }
qed

lemma create6_spec:
  assumes inv: "inv s" "leases s a = None"
    and none: "\<And>b l. leases s b = Some l \<Longrightarrow> \<not> holds6 (d, iaid, sn_id sn) l"
    and run: "createLease6 mgr now (Some d) iaid a fake (s, sn) = (Inr x, (t, sn'))"
  shows "sn' = sn \<and> inv t \<and>
    (case x of None \<Rightarrow> leases t = leases s
     | Some l \<Rightarrow> l_addr l = a \<and> lifetimes sn now l \<and> l6_preferred_lft l = tr_default (sn_preferred sn) \<and>
         bound6 d iaid l \<and> stored fake (leases s) (leases t) l)"
proof -
  obtain l where l: "mk_Lease6 LEASE_IA_NA a (Some d) iaid (tr_default (sn_preferred sn)) (tr_default (sn_valid sn))
        (tr_default (sn_t1 sn)) (tr_default (sn_t2 sn)) (sn_id sn) 0 now = Inr l"
    and rest: "(if \<not> fake then bindS (dbS (addLease6 mgr l)) (\<lambda>status. if status then retS (Some l) else retS None)
        else bindS (dbS (askS (getLease6 mgr a))) (\<lambda>existing. if existing = None then retS (Some l) else retS None)) (s, sn)
        = (Inr x, (t, sn'))"
    using run by (auto simp: createLease6_def bindS_Inr eff_apply Let_def)
  have new: "l_addr l = a" "lifetimes sn now l" "l6_preferred_lft l = tr_default (sn_preferred sn)" "bound6 d iaid l"
    using l by (auto simp: mk_Lease6_def mk_Lease_def Lease.defs Lease6.defs lifetimes_def bound6_def)
  have keys: "\<not> holds6 k l'" if "leases s b = Some l'" "holds6 k l" for k b l'
    using that new none [OF that(1)] by (cases k) (auto simp: bound6_def lifetimes_def)
  show ?thesis
  proof (cases fake)
    case True
    with rest new inv(1) show ?thesis by (auto simp: bindS_Inr zoomS_def eff_apply stored_def split: if_splits)
  next
    case False
    then have b: "bindS (dbS (addLease6 mgr l)) (\<lambda>status. if status then retS (Some l) else retS None) (s, sn) = (Inr x, (t, sn'))"
      using rest by simp
    obtain st where st: "addLease6 mgr l s = (Inr st, t)" "sn' = sn" "x = (if st then Some l else None)"
      using b by (rule dbS_status)
    show ?thesis
    proof (cases st)
      case True
      then have "leases t = (leases s)(l_addr l \<mapsto> l)"
        using add_True [OF inv(1), of l t] st(1) inv(2) new(1) keys by simp
      with True st new show ?thesis using add_inv [OF inv(1) st(1)] by (simp add: stored_def)
    next
      case False
      with st show ?thesis using add_inv [OF inv(1) st(1)] add_False [OF inv(1) st(1)] by simp
    qed
  qed
qed

lemma try6_tries:
  assumes none: "\<And>b l. L b = Some l \<Longrightarrow> \<not> holds6 (d, iaid, sn_id sn) l"
  shows "tries inv leases L sn
    (\<lambda>a L' l. lifetimes sn now l \<and> l6_preferred_lft l = tr_default (sn_preferred sn) \<and> bound6 d iaid l \<and>
       available now L a \<and> stored fake L L' l)
    (try_address6 mgr now (Some d) iaid fake)"
  unfolding tries_def
proof (intro allI impI, elim conjE)
  fix a s b x t sn'
  let ?sn = "setLastAllocated b sn"
  assume s: "inv s" "leases s = L" and run: "try_address6 mgr now (Some d) iaid fake a (s, ?sn) = (Inr x, (t, sn'))"
  obtain y where y: "getLease6 mgr a s = Inr y"
    and rest: "(case y of None \<Rightarrow> createLease6 mgr now (Some d) iaid a fake
        | Some l \<Rightarrow> if expired now l then bindS (reuseExpiredLease6 mgr now l (Some d) iaid fake) (\<lambda>l'. retS (Some l'))
           else retS None) (s, ?sn) = (Inr x, (t, sn'))"
    using run by (auto simp: try_address6_def bindS_Inr zoomS_def eff_apply)
  have La: "L a = y" using get_leases [OF s(1) y] s(2) by simp
  show "sn' = ?sn \<and> inv t \<and> (case x of None \<Rightarrow> leases t = L
    | Some l \<Rightarrow> l_addr l = a \<and> lifetimes sn now l \<and> l6_preferred_lft l = tr_default (sn_preferred sn) \<and>
        bound6 d iaid l \<and> available now L a \<and> stored fake L (leases t) l)"
  proof (cases y)
    case None
    then show ?thesis
      using create6_spec [OF s(1), of a d iaid ?sn now fake x t sn'] rest La s(2) none
      by (auto simp: available_def split: option.splits)
  next
    case (Some l)
    have addr: "l_addr l = a" using leases_addr [OF s(1)] Some La s(2) by simp
    show ?thesis
    proof (cases "expired now l")
      case True
      then obtain l' where w: "reuseExpiredLease6 mgr now l (Some d) iaid fake (s, ?sn) = (Inr l', (t, sn'))" "x = Some l'"
        using rest Some by (auto simp: bindS_Inr eff_apply)
      have "leases s (l_addr l) \<noteq> None" using La Some addr s(2) by simp
      from reuse6_spec [OF s(1) this w(1)] w True Some La addr s(2) show ?thesis
        by (auto simp: available_def lifetimes_def bound6_def reused6_def)
    next
      case False
      with rest Some s show ?thesis by (auto simp: eff_apply)
    qed
  qed
qed

lemma allocate6_grant:
  assumes s: "inv s" and wf: "wf_subnet u sn"
    and run: "allocate6_body e mgr now (Some d) iaid hint fake (s, sn) = (Inr x, (t, sn'))"
  shows "(\<exists>c. sn' = setLastAllocated c sn) \<and> inv t \<and>
    (case x of None \<Rightarrow> leases t = leases s
     | Some l \<Rightarrow> grant6 now sn d iaid (leases s) l \<and> stored fake (leases s) (leases t) l)"
proof -
  let ?attempt = "try_address6 mgr now (Some d) iaid fake"
  have self: "setLastAllocated (sn_last_allocated sn) sn = sn" by (simp add: setLastAllocated_def)
  obtain y where y: "lookup6 mgr (d, iaid, sn_id sn) s = Inr y"
    using run by (auto simp: allocate6_body_def bindS_Inr eff_apply)
  show ?thesis
  proof (cases y)
    case (Some l)
    then have l: "leases s (l_addr l) = Some l" "holds6 (d, iaid, sn_id sn) l" using lookup_Some [OF s] y by auto
    from run y Some have "x = Some l" "t = s" "sn' = sn" by (auto simp: allocate6_body_def eff_simps)
    with l s self show ?thesis
      by (auto simp: grant6_def bound6_def stored_def intro: exI [of _ "sn_last_allocated sn"])
  next
    case None
    have none: "\<not> holds6 (d, iaid, sn_id sn) l" if "leases s b = Some l" for b l
      using lookup_None [OF s _ that, of "(d, iaid, sn_id sn)"] y None by simp
    have tr: "tries inv leases (leases s) sn
        (\<lambda>a L' l. lifetimes sn now l \<and> l6_preferred_lft l = tr_default (sn_preferred sn) \<and> bound6 d iaid l \<and>
           available now (leases s) a \<and> stored fake (leases s) L' l) ?attempt"
      by (rule try6_tries) (rule none)
    obtain usable z s1 n1 where in_pool: "Subnet_inPool sn hint = Inr usable"
      and z: "(if usable then ?attempt hint else retS None) (s, sn) = (Inr z, (s1, n1))"
      and rest: "(case z of Some l \<Rightarrow> retS (Some l) | None \<Rightarrow> alloc_loop e ?attempt) (s1, n1) = (Inr x, (t, sn'))"
      using run y None by (auto simp: allocate6_body_def bindS_Inr eff_apply)
    have h: "n1 = sn \<and> inv s1 \<and> (case z of None \<Rightarrow> leases s1 = leases s
      | Some l \<Rightarrow> usable \<and> l_addr l = hint \<and> lifetimes sn now l \<and> l6_preferred_lft l = tr_default (sn_preferred sn) \<and>
          bound6 d iaid l \<and> available now (leases s) hint \<and> stored fake (leases s) (leases s1) l)"
    proof (cases usable)
      case True
      then have "?attempt hint (s, setLastAllocated (sn_last_allocated sn) sn) = (Inr z, (s1, n1))" using z self by simp
      with tr [unfolded tries_def] s have "n1 = setLastAllocated (sn_last_allocated sn) sn \<and> inv s1 \<and>
          (case z of None \<Rightarrow> leases s1 = leases s
           | Some l \<Rightarrow> l_addr l = hint \<and> lifetimes sn now l \<and> l6_preferred_lft l = tr_default (sn_preferred sn) \<and>
               bound6 d iaid l \<and> available now (leases s) hint \<and> stored fake (leases s) (leases s1) l)" by blast
      with True self show ?thesis by (auto split: option.splits)
    next
      case False
      with z s show ?thesis by (auto simp: eff_apply)
    qed
    show ?thesis
    proof (cases z)
      case (Some l)
      with rest h in_pool show ?thesis
        using self by (auto simp: eff_apply grant6_def lifetimes_def intro: exI [of _ "sn_last_allocated sn"])
    next
      case None
      then have "alloc_loop e ?attempt (s1, setLastAllocated (sn_last_allocated sn) sn) = (Inr x, (t, sn'))"
        using rest h self by simp
      from alloc_loop_tries [OF wf tr _ _ this] h None show ?thesis
        by (auto simp: grant6_def lifetimes_def split: option.splits)
    qed
  qed
qed

end

interpretation mem_db6: lease_db6 memfile inv6 leases6 ..

lemma allocateAddress6_cases:
  assumes "allocateAddress6 e mgr now duid iaid hint fake (s, Some sn) = (Inr x, (t, m))"
  obtains (caught) "x = None" | (returns) sn' where "m = Some sn'"
    "allocate6_body e mgr now duid iaid hint fake (s, sn) = (Inr x, (t, sn'))"
  using assms
  by (auto simp: allocateAddress6_def catchS_def eff_apply split: prod.splits sum.splits if_splits)

text \<open>C5. A lease granted by \<^verbatim>\<open>allocateAddress6\<close> belongs to the DUID and IAID of the request in
  the selected subnet: it is the lease this client already holds, or its address lies in a pool of
  the subnet and was free or had an expired lease. It is in the database afterwards and the leases of
  all other addresses are unchanged.\<close>

theorem allocate6_safe:
  assumes "inv6 s" "wf_subnet u sn"
    and "allocateAddress6 e memfile now (Some d) iaid hint fake (s, Some sn) = (Inr (Some l), (t, m))"
  shows "grant6 now sn d iaid (leases6 s) l \<and> stored fake (leases6 s) (leases6 t) l \<and> inv6 t \<and>
    (\<exists>c. m = Some (setLastAllocated c sn))"
  using assms(3)
proof (cases rule: allocateAddress6_cases)
  case (returns sn')
  with mem_db6.allocate6_grant [OF assms(1,2) returns(2)] show ?thesis by auto
qed simp


definition example_subnet6 :: Subnet6 where
  "example_subnet6 =
     \<lparr>sn_id = 1, sn_pools = [mk_Pool 3 (IPv6 0x20010db8000100000000000000000010) (IPv6 0x20010db8000100000000000000000012)],
      sn_prefix = IPv6 0x20010db8000100000000000000000000, sn_prefix_len = 64, sn_t1 = Triplet_fixed 1000,
      sn_t2 = Triplet_fixed 2000, sn_valid = Triplet_fixed 4000,
      sn_last_allocated = IPv6 0x20010db800010000ffffffffffffffff, sn_iface = ''eth0'', sn_option_spaces = Map.empty,
      sn_preferred = Triplet_fixed 3000\<rparr>"

lemma example_wf6: "wf_subnet UV6 example_subnet6"
  by (simp add: wf_subnet_def example_subnet6_def wf_pool_def mk_Pool_def same_family_def block_of_def host_bits_def
      getItems_def)

lemma example_inPool6: "Subnet_inPool example_subnet6 (IPv6 0x20010db8000100000000000000000010) = Inr True"
proof -
  have "wf_pool (sn_prefix example_subnet6) (sn_prefix_len example_subnet6)
      (mk_Pool 3 (IPv6 0x20010db8000100000000000000000010) (IPv6 0x20010db8000100000000000000000012))"
    using example_wf6 by (simp add: wf_subnet_def) (simp add: example_subnet6_def)
  from Pool_inRange_wf [OF this] show ?thesis
    by (simp add: Subnet_inPool_eq [OF example_wf6]) (simp add: example_subnet6_def mk_Pool_def same_family_def)
qed

lemma example_subnet6_sel [simp]:
  "sn_id example_subnet6 = 1" "tr_default (sn_valid example_subnet6) = 4000" "tr_default (sn_t1 example_subnet6) = 1000"
  "tr_default (sn_t2 example_subnet6) = 2000" "tr_default (sn_preferred example_subnet6) = 3000"
  by (simp_all add: example_subnet6_def Triplet_fixed_def)

lemma example_allocate6:
  "\<exists>l t. allocateAddress6 example_engine memfile 500 (Some (DUID [0, 1, 2])) 7 (IPv6 0x20010db8000100000000000000000010)
     False (mk_Memfile, Some example_subnet6) = (Inr (Some l), (t, Some example_subnet6)) \<and>
     l_addr l = IPv6 0x20010db8000100000000000000000010"
  by (simp add: allocateAddress6_def allocate6_body_def catchS_def eff_simps example_inPool6 try_address6_def
      createLease6_def zoomS_def bindS_def mk_Lease6_def mem_getLease6_duid_iaid_subnet_def mem_getLease6_def
      mem_addLease6_def storage6_insert_def index_insert_def index_find_def index_check_def mk_Memfile_def
      mk_Lease_def Lease.defs Lease6.defs)

theorem allocate6_safe_witness:
  "\<exists>l t m. allocateAddress6 example_engine memfile 500 (Some (DUID [0, 1, 2])) 7
       (IPv6 0x20010db8000100000000000000000010) False (mk_Memfile, Some example_subnet6) = (Inr (Some l), (t, m)) \<and>
     leases6 t (l_addr l) = Some l"
proof -
  obtain l t where t: "allocateAddress6 example_engine memfile 500 (Some (DUID [0, 1, 2])) 7
      (IPv6 0x20010db8000100000000000000000010) False (mk_Memfile, Some example_subnet6) =
      (Inr (Some l), (t, Some example_subnet6))"
    using example_allocate6 by blast
  have "stored False (leases6 mk_Memfile) (leases6 t) l"
    using allocate6_safe [OF _ example_wf6 t] indexed_mk_Memfile(2) by (simp add: indexed6_def)
  with t show ?thesis by (auto simp: stored_def)
qed

end
