(* ===== verification/Alloc_State.thy ===== *)
theory Alloc_State
  imports Alloc_Live Alloc_Safety6
begin

text \<open>
  The allocation engine on the in-memory database, for every outcome. The lemmas of
  \<open>Alloc_Safety\<close> speak of runs that return; the servers catch the exceptions of the others.
\<close>

section \<open>Failed allocations leave no trace\<close>

text \<open>\<open>untouched m\<close>: whatever the outcome, the database stays consistent and at most the allocator of the
  subnet moves; unless a lease is granted, the content of the database does not change.\<close>

definition untouched ::
  "('s \<Rightarrow> bool) \<Rightarrow> ('s \<Rightarrow> ioaddress \<rightharpoonup> 'l) \<Rightarrow> ('s \<times> 'a Subnet_scheme, 'l option) eff \<Rightarrow> bool" where
  "untouched ok leases m \<longleftrightarrow>
     (\<forall>s sn r t sn'. ok s \<and> m (s, sn) = (r, (t, sn')) \<longrightarrow>
        ok t \<and> (\<exists>c. sn' = setLastAllocated c sn) \<and> ((\<forall>l. r \<noteq> Inr (Some l)) \<longrightarrow> leases t = leases s))"

named_theorems untouched_intros \<open>rules for \<^const>\<open>untouched\<close>\<close>

lemma setLastAllocated_self: "setLastAllocated (sn_last_allocated sn) sn = sn"
  by (simp add: setLastAllocated_def)

lemma untouched_self: "\<exists>c. sn = setLastAllocated c sn"
  using setLastAllocated_self [of sn] by metis

lemma untouched_pure [untouched_intros]:
  "untouched ok leases (retS x)" "untouched ok leases (throwS e)"
  by (auto simp: untouched_def eff_apply intro: untouched_self)

lemma untouched_ask [untouched_intros]: "(\<And>x. untouched ok leases (f x)) \<Longrightarrow> untouched ok leases (bindS (askS g) f)"
  unfolding untouched_def by (auto simp: eff_simps split: sum.splits intro: untouched_self)

lemma untouched_db_ask [untouched_intros]: "(\<And>x. untouched ok leases (f x)) \<Longrightarrow> untouched ok leases (bindS (dbS (askS g)) f)"
  unfolding untouched_def by (auto simp: bindS_def zoomS_def eff_apply split: sum.splits intro: untouched_self)

lemma untouched_if [untouched_intros]: "untouched ok leases m \<Longrightarrow> untouched ok leases n \<Longrightarrow> untouched ok leases (if b then m else n)"
  by simp

lemma untouched_option [untouched_intros]:
  "untouched ok leases m \<Longrightarrow> (\<And>y. untouched ok leases (f y)) \<Longrightarrow> untouched ok leases (case x of None \<Rightarrow> m | Some y \<Rightarrow> f y)"
  by (cases x) auto

lemma untouched_written [untouched_intros]:
  assumes "\<And>s sn. ok s \<Longrightarrow> \<exists>t. ok t \<and> m (s, sn) = (Inr l, (t, sn))"
  shows "untouched ok leases (bindS m (\<lambda>l'. retS (Some l')))"
  unfolding untouched_def
proof (intro allI impI, elim conjE)
  fix s sn r t sn'
  assume s: "ok s" and run: "bindS m (\<lambda>l'. retS (Some l')) (s, sn) = (r, (t, sn'))"
  obtain u where "ok u" "m (s, sn) = (Inr l, (u, sn))" using assms [OF s] by blast
  with run show "ok t \<and> (\<exists>c. sn' = setLastAllocated c sn) \<and> ((\<forall>l. r \<noteq> Inr (Some l)) \<longrightarrow> leases t = leases s)"
    by (auto simp: bindS_def eff_apply intro: untouched_self)
qed

lemma untouched_added:
  assumes "\<And>s q u. ok s \<Longrightarrow> add s = (q, u) \<Longrightarrow> ok u \<and> (q \<noteq> Inr True \<longrightarrow> leases u = leases s)"
  shows "untouched ok leases (bindS (dbS add) (\<lambda>status. if status then retS (Some l) else retS None))"
proof -
  have "ok t \<and> (\<exists>c. sn' = setLastAllocated c sn) \<and> ((\<forall>l. r \<noteq> Inr (Some l)) \<longrightarrow> leases t = leases s)"
    if s: "ok s" and run: "bindS (dbS add) (\<lambda>status. if status then retS (Some l) else retS None) (s, sn) = (r, (t, sn'))"
    for s t r and sn sn' :: "'c Subnet_scheme"
  proof -
    obtain q u where q: "add s = (q, u)" by (cases "add s") auto
    then have "ok u" "q \<noteq> Inr True \<Longrightarrow> leases u = leases s" using assms [OF s] by auto
    with run q show ?thesis
      by (auto simp: bindS_def zoomS_def eff_apply split: sum.splits if_splits intro: untouched_self)
  qed
  then show ?thesis unfolding untouched_def by blast
qed

lemma untouched_seq [untouched_intros]:
  assumes "untouched ok leases m" "untouched ok leases k"
  shows "untouched ok leases (bindS m (\<lambda>x. case x of None \<Rightarrow> k | Some l \<Rightarrow> retS (Some l)))"
  unfolding untouched_def
proof (intro allI impI, elim conjE)
  fix s sn r t sn'
  assume s: "ok s" and run: "bindS m (\<lambda>x. case x of None \<Rightarrow> k | Some l \<Rightarrow> retS (Some l)) (s, sn) = (r, (t, sn'))"
  obtain q u n where q: "m (s, sn) = (q, (u, n))" by (cases "m (s, sn)") auto
  then have u: "ok u" "\<exists>c. n = setLastAllocated c sn" "(\<forall>l. q \<noteq> Inr (Some l)) \<longrightarrow> leases u = leases s"
    using assms(1) s unfolding untouched_def by blast+
  show "ok t \<and> (\<exists>c. sn' = setLastAllocated c sn) \<and> ((\<forall>l. r \<noteq> Inr (Some l)) \<longrightarrow> leases t = leases s)"
  proof (cases "q = Inr None")
    case True
    then have "k (u, n) = (r, (t, sn'))" using run q by (simp add: bindS_def)
    then have "ok t \<and> (\<exists>c. sn' = setLastAllocated c n) \<and> ((\<forall>l. r \<noteq> Inr (Some l)) \<longrightarrow> leases t = leases u)"
      using assms(2) u(1) unfolding untouched_def by blast
    with u True show ?thesis by auto
  next
    case False
    with run q u show ?thesis by (auto simp: bindS_def eff_apply split: sum.splits option.splits)
  qed
qed

lemma untouched_pick [untouched_intros]:
  assumes "\<And>a. untouched ok leases (f a)"
  shows "untouched ok leases (bindS (subnetS pickAddress) f)"
  unfolding untouched_def
proof (intro allI impI, elim conjE)
  fix s sn r t sn'
  assume s: "ok s" and run: "bindS (subnetS pickAddress) f (s, sn) = (r, (t, sn'))"
  obtain q n where q: "pickAddress sn = (q, n)" by (cases "pickAddress sn") auto
  then obtain c where c: "n = setLastAllocated c sn" using pickAddress_state untouched_self by metis
  show "ok t \<and> (\<exists>c. sn' = setLastAllocated c sn) \<and> ((\<forall>l. r \<noteq> Inr (Some l)) \<longrightarrow> leases t = leases s)"
  proof (cases q)
    case (Inl e)
    with run q s c show ?thesis by (auto simp: bindS_def zoomS_def)
  next
    case (Inr a)
    then have "f a (s, n) = (r, (t, sn'))" using run q by (simp add: bindS_def zoomS_def)
    then have "ok t \<and> (\<exists>c. sn' = setLastAllocated c n) \<and> ((\<forall>l. r \<noteq> Inr (Some l)) \<longrightarrow> leases t = leases s)"
      using assms s unfolding untouched_def by blast
    with c show ?thesis by auto
  qed
qed

lemma untouched_search [untouched_intros]: "(\<And>a. untouched ok leases (attempt a)) \<Longrightarrow> untouched ok leases (search attempt n)"
  by (induction n) (auto intro!: untouched_intros)

lemma untouched_loop [untouched_intros]:
  assumes "\<And>a. untouched ok leases (attempt a)"
  shows "untouched ok leases (alloc_loop e attempt)"
  unfolding alloc_loop_def by (intro untouched_intros assms)

section \<open>IPv4\<close>

abbreviation untouched4 :: "(Memfile_LeaseMgr \<times> 'a Subnet_scheme, Lease4 option) eff \<Rightarrow> bool" where
  "untouched4 \<equiv> untouched inv4 leases4"

lemma untouched_write4 [untouched_intros]: "untouched4 (bindS (write4 memfile fake l) (\<lambda>l'. retS (Some l')))"
  by (rule untouched_written) (auto simp: write4_memfile mem_assign_inv)

lemma untouched_add4 [untouched_intros]:
  "untouched4 (bindS (dbS (mem_addLease4 l)) (\<lambda>status. if status then retS (Some l) else retS None))"
  by (rule untouched_added) (use mem4.add_inv mem4.add_False in auto)

lemma untouched_create4 [untouched_intros]: "untouched4 (createLease4 memfile now clientid hwaddr addr fake)"
  unfolding createLease4_def by (intro untouched_intros) (auto intro!: untouched_intros)

lemma untouched_renew [untouched_intros]:
  "untouched4 (bindS (renewLease4 memfile now clientid h l fake) (\<lambda>l'. retS (Some l')))"
proof -
  have "bindS (renewLease4 memfile now clientid h l fake) (\<lambda>l'. retS (Some l')) =
      (bindS (askS (\<lambda>st. Inr (renewed4 (snd st) clientid h now l))) (\<lambda>r. bindS (write4 memfile fake r) (\<lambda>l'. retS (Some l')))
        :: (Memfile_LeaseMgr \<times> 'a Subnet_scheme, Lease4 option) eff)"
    by (rule ext) (simp add: renewLease4_def bindS_assoc)
  then show ?thesis by (simp add: untouched_intros)
qed

lemma untouched_reuse [untouched_intros]:
  "untouched4 (bindS (reuseExpiredLease4 memfile now l clientid h fake) (\<lambda>l'. retS (Some l')))"
proof -
  have "bindS (reuseExpiredLease4 memfile now l clientid h fake) (\<lambda>l'. retS (Some l')) =
      (if \<not> expired now l then throwS BadValue
       else bindS (askS (\<lambda>st. Inr (reused4 (snd st) clientid h now l))) (\<lambda>r. bindS (write4 memfile fake r) (\<lambda>l'. retS (Some l')))
        :: (Memfile_LeaseMgr \<times> 'a Subnet_scheme, Lease4 option) eff)"
    by (rule ext) (simp add: reuseExpiredLease4_def bindS_assoc eff_simps)
  then show ?thesis by (simp add: untouched_intros)
qed

lemma untouched_try4 [untouched_intros]: "untouched4 (try_address4 memfile now clientid h fake addr)"
  unfolding try_address4_def by (intro untouched_intros)

lemma untouched_body4: "untouched4 (allocate4_body e memfile now clientid hwaddr hint fake)"
proof -
  have pull: "bindS (case clientid of None \<Rightarrow> retS None | Some c \<Rightarrow> askS (g c)) f =
      (case clientid of None \<Rightarrow> f None | Some c \<Rightarrow> bindS (askS (g c)) f)" for g and f :: "_ \<Rightarrow> ('x, 'y) eff"
    by (rule ext) (simp add: eff_simps split: option.splits)
  have pull_if: "bindS (if b then m else retS None) f = (if b then bindS m f else f None)" for b m and f :: "_ \<Rightarrow> ('x, 'y) eff"
    by (rule ext) (simp add: eff_simps)
  show ?thesis
    unfolding allocate4_body_def pull pull_if by (intro untouched_intros)
qed

lemma allocateAddress4_state:
  assumes "inv4 s" "allocateAddress4 e memfile now clientid hwaddr hint fake (s, Some sn) = (r, (t, m))"
  shows "inv4 t \<and> (\<exists>c. m = Some (setLastAllocated c sn)) \<and> ((\<forall>l. r \<noteq> Inr (Some l)) \<longrightarrow> leases4 t = leases4 s)"
proof -
  obtain q u n where q: "allocate4_body e memfile now clientid hwaddr hint fake (s, sn) = (q, (u, n))"
    by (cases "allocate4_body e memfile now clientid hwaddr hint fake (s, sn)") auto
  have "inv4 u" "\<exists>c. n = setLastAllocated c sn" "(\<forall>l. q \<noteq> Inr (Some l)) \<longrightarrow> leases4 u = leases4 s"
    using untouched_body4 assms(1) q unfolding untouched_def by blast+
  with assms(2) q show ?thesis
    by (auto simp: allocateAddress4_def catchS_def eff_apply split: sum.splits if_splits)
qed

section \<open>IPv6\<close>

abbreviation untouched6 :: "(Memfile_LeaseMgr \<times> 'a Subnet_scheme, Lease6 option) eff \<Rightarrow> bool" where
  "untouched6 \<equiv> untouched inv6 leases6"

lemma untouched_add6 [untouched_intros]:
  "untouched6 (bindS (dbS (mem_addLease6 l)) (\<lambda>status. if status then retS (Some l) else retS None))"
  by (rule untouched_added) (use mem6.add_inv mem6.add_False in auto)

lemma untouched_create6 [untouched_intros]: "untouched6 (createLease6 memfile now duid iaid addr fake)"
  unfolding createLease6_def by (intro untouched_intros) (auto intro!: untouched_intros)

lemma write6_memfile:
  "thenS (dbS (modS (mem_assign6 l))) (thenS (if fake then retS () else dbS (mem_updateLease6 l)) (retS l)) (s, sn) =
     (Inr l, (mem_assign6 l s, sn))"
  by (simp add: zoomS_def bindS_def eff_apply mem_updateLease6_def)

lemma untouched_reuse6 [untouched_intros]:
  "untouched6 (bindS (reuseExpiredLease6 memfile now l duid iaid fake) (\<lambda>l'. retS (Some l')))"
proof -
  have "bindS (reuseExpiredLease6 memfile now l duid iaid fake) (\<lambda>l'. retS (Some l')) =
      (if \<not> expired now l then throwS BadValue
       else bindS (askS (\<lambda>st. Inr (reused6 (snd st) duid iaid now l))) (\<lambda>r. bindS
         (thenS (dbS (modS (mem_assign6 r))) (thenS (if fake then retS () else dbS (mem_updateLease6 r)) (retS r)))
         (\<lambda>l'. retS (Some l'))))"
    by (rule ext) (simp add: reuseExpiredLease6_def bindS_assoc eff_simps mem_updateLease6_def)
  moreover have "untouched6 (bindS
      (thenS (dbS (modS (mem_assign6 r))) (thenS (if fake then retS () else dbS (mem_updateLease6 r)) (retS r)))
      (\<lambda>l'. retS (Some l')))" for r
    by (rule untouched_written) (intro exI conjI, rule mem_assign_inv(2), assumption, rule write6_memfile)
  ultimately show ?thesis by (simp only:) (intro untouched_if untouched_ask untouched_pure)
qed

lemma untouched_try6 [untouched_intros]: "untouched6 (try_address6 memfile now duid iaid fake addr)"
  unfolding try_address6_def by (intro untouched_intros)

lemma untouched_body6: "untouched6 (allocate6_body e memfile now duid iaid hint fake)"
proof -
  have pull_if: "bindS (if b then m else retS None) f = (if b then bindS m f else f None)" for b m and f :: "_ \<Rightarrow> ('x, 'y) eff"
    by (rule ext) (simp add: eff_simps)
  show ?thesis
    unfolding allocate6_body_def pull_if by (intro untouched_intros)
qed

lemma allocateAddress6_state:
  assumes "inv6 s" "allocateAddress6 e memfile now duid iaid hint fake (s, Some sn) = (r, (t, m))"
  shows "inv6 t \<and> (\<exists>c. m = Some (setLastAllocated c sn)) \<and> ((\<forall>l. r \<noteq> Inr (Some l)) \<longrightarrow> leases6 t = leases6 s)"
proof -
  obtain q u n where q: "allocate6_body e memfile now duid iaid hint fake (s, sn) = (q, (u, n))"
    by (cases "allocate6_body e memfile now duid iaid hint fake (s, sn)") auto
  have "inv6 u" "\<exists>c. n = setLastAllocated c sn" "(\<forall>l. q \<noteq> Inr (Some l)) \<longrightarrow> leases6 u = leases6 s"
    using untouched_body6 assms(1) q unfolding untouched_def by blast+
  with assms(2) q show ?thesis
    by (auto simp: allocateAddress6_def catchS_def eff_apply split: sum.splits if_splits)
qed

end
