(* ===== verification/Dhcp4_Safety.thy ===== *)
theory Dhcp4_Safety
  imports Dhcp4_Srv Alloc_State
begin

text \<open>
  What the DHCPv4 server does with the lease database, on the in-memory backend: which leases its answers
  promise, which leases a client can release, and the invariant of the server over any packet.
\<close>

section \<open>Building an answer\<close>

text \<open>\<open>extends p p'\<close>: \<open>p'\<close> is \<open>p\<close> with options added, none of them changed or hidden.\<close>

definition extends :: "pkt4 \<Rightarrow> pkt4 \<Rightarrow> bool" where
  "extends p p' \<longleftrightarrow>
     (\<exists>opts. p' = p\<lparr>p4_options := opts\<rparr>) \<and>
     (\<forall>t x. Pkt4_getOption t p = Some x \<longrightarrow> Pkt4_getOption t p' = Some x)"

lemma extends_refl [simp]: "extends p p"
  by (auto simp: extends_def intro: exI [of _ "p4_options p"])

lemma extends_trans: "extends p q \<Longrightarrow> extends q r \<Longrightarrow> extends p r"
  by (auto simp: extends_def)

lemma extends_fields:
  assumes "extends p p'"
  shows "p4_transid p' = p4_transid p" "p4_hwaddr p' = p4_hwaddr p" "p4_giaddr p' = p4_giaddr p"
    "p4_yiaddr p' = p4_yiaddr p" "p4_ciaddr p' = p4_ciaddr p" "p4_op p' = p4_op p" "p4_bufferOut p' = p4_bufferOut p"
  using assms by (auto simp: extends_def)

lemma map_of_mm_insert_other: "j \<noteq> k \<Longrightarrow> map_of (mm_insert k v xs) j = map_of xs j"
  by (induction k v xs rule: mm_insert.induct) auto

lemma ucast_back [simp]: "(ucast (ucast (t :: u8) :: u16) :: u8) = t"
  by (rule bit_word_eqI) (auto simp: bit_simps)

lemma Pkt4_addOption_extends:
  assumes "Pkt4_addOption opt p = Inr p'"
  shows "extends p p'"
proof -
  have p': "Pkt4_getOption (ucast (otype opt)) p = None" "p' = p\<lparr>p4_options := mm_insert (otype opt) opt (p4_options p)\<rparr>"
    using assms by (auto simp: Pkt4_addOption_def split: if_splits)
  have "Pkt4_getOption t p' = Some x" if "Pkt4_getOption t p = Some x" for t x
  proof -
    have "otype opt \<noteq> ucast t"
    proof
      assume "otype opt = ucast t"
      then have "(ucast (otype opt) :: u8) = t" by simp
      with p'(1) that show False by simp
    qed
    with that show ?thesis by (simp add: p'(2) Pkt4_getOption_def map_of_mm_insert_other)
  qed
  with p'(2) show ?thesis by (auto simp: extends_def)
qed

lemma addOption_found:
  assumes "Pkt4_addOption opt p = Inr p'" "otype opt = ucast (t :: u8)"
  shows "Pkt4_getOption t p' = Some opt"
proof -
  have p': "Pkt4_getOption t p = None" "p' = p\<lparr>p4_options := mm_insert (otype opt) opt (p4_options p)\<rparr>"
    using assms by (auto simp: Pkt4_addOption_def split: if_splits)
  have "map_of xs k = None \<Longrightarrow> map_of (mm_insert k v xs) k = Some v" for xs :: OptionCollection and k v
    by (induction k v xs rule: mm_insert.induct) (auto split: if_splits)
  then show ?thesis using p' assms(2) by (simp add: Pkt4_getOption_def)
qed

lemma add_configured4_extends: "add_configured4 sn code p = Inr p' \<Longrightarrow> extends p p'"
  by (auto simp: add_configured4_def dest: Pkt4_addOption_extends split: option.splits)

lemma foldE_extends:
  assumes "foldE f xs p = Inr p'" "\<And>x p p'. f x p = Inr p' \<Longrightarrow> extends p p'"
  shows "extends p p'"
  by (rule foldE_invariant [OF assms(1)]) (auto dest: assms(2) intro: extends_trans)

lemma appendRequestedOptions4_cases:
  assumes "appendRequestedOptions4 c q p = Inr p'"
  obtains "p' = p" | i codes where "foldE (\<lambda>code. add_configured4 (cfg_subnets4 c ! i) (word_of_nat code)) codes p = Inr p'"
proof -
  obtain sub where sub: "selectSubnet4 q c = Inr sub"
    using assms by (auto simp: appendRequestedOptions4_def result_simps)
  show thesis
  proof (cases sub)
    case None
    with assms sub show thesis by (intro that(1)) (simp add: appendRequestedOptions4_def)
  next
    case (Some i)
    show thesis
    proof (cases "map_option opayload (Pkt4_getOption (ucast DHO_DHCP_PARAMETER_REQUEST_LIST) q)")
      case None
      with assms sub Some show thesis by (intro that(1)) (simp add: appendRequestedOptions4_def)
    next
      case (Some pl)
      with assms sub \<open>sub = Some i\<close> show thesis
        by (cases pl) (auto simp: appendRequestedOptions4_def split: IntKind.splits intro: that)
    qed
  qed
qed

lemma append_extends:
  "appendRequestedOptions4 c q p = Inr p' \<Longrightarrow> extends p p'"
  "appendBasicOptions4 c q p = Inr p' \<Longrightarrow> extends p p'"
proof -
  show "extends p p'" if "appendRequestedOptions4 c q p = Inr p'"
    using that by (cases rule: appendRequestedOptions4_cases) (auto elim!: foldE_extends dest: add_configured4_extends)
  show "extends p p'" if run: "appendBasicOptions4 c q p = Inr p'"
  proof -
    obtain sub where "selectSubnet4 q c = Inr sub"
      using run unfolding appendBasicOptions4_def by (rule bindE_InrE)
    with run show ?thesis
      by (cases sub) (auto simp: appendBasicOptions4_def elim!: foldE_extends dest: add_configured4_extends split: if_splits)
  qed
qed

text \<open>\<open>typed t p\<close>: the message type option of \<open>p\<close> is one the server made and says \<open>t\<close>.\<close>

definition typed :: "u8 \<Rightarrow> pkt4 \<Rightarrow> bool" where
  "typed ty p \<longleftrightarrow> (\<exists>o1. Pkt4_getOption 53 p = Some o1 \<and> opayload o1 = PGeneric \<and> odata o1 = [ty])"

lemma typed_getType: "typed ty p \<Longrightarrow> Pkt4_getType p = Inr ty"
  by (auto simp: typed_def Pkt4_getType_def getUint8_def)

lemma extends_typed: "extends p p' \<Longrightarrow> typed ty p \<Longrightarrow> typed ty p'"
  by (auto simp: extends_def typed_def)

lemma typed_update: "typed ty (p\<lparr>p4_options := p4_options p'\<rparr>) \<longleftrightarrow> typed ty p'"
  by (simp add: typed_def Pkt4_getOption_def)

lemma map_of_update_first: "map_of (mm_update_first k f xs) k = map_option f (map_of xs k)"
  by (induction xs) auto

lemma Pkt4_setType_typed:
  assumes "typed ty p" "Pkt4_setType ty' p = Inr p'"
  shows "typed ty' p' \<and> (\<exists>opts. p' = p\<lparr>p4_options := opts\<rparr>)"
  using assms by (auto simp: Pkt4_setType_def typed_def Pkt4_getOption_def map_of_update_first setUint8_def)

lemma mk_Pkt4_typed:
  assumes "mk_Pkt4 ty xid = Inr p"
  shows "typed ty p \<and> p4_transid p = xid \<and> p4_bufferOut p = []"
  using assms
  by (auto simp: mk_Pkt4_def result_simps Pkt4_setType_def Pkt4_blank_def Pkt4_getOption_def mk_Option_def check_def
      Pkt4_addOption_def typed_def)

lemma typed_fields:
  "typed ty (p\<lparr>p4_yiaddr := a\<rparr>) = typed ty p" "typed ty (p\<lparr>p4_remote_addr := b\<rparr>) = typed ty p"
  by (simp_all add: typed_def Pkt4_getOption_def)

text \<open>What the handlers copy from the question; nothing is packed yet.\<close>

definition answers :: "pkt4 \<Rightarrow> pkt4 \<Rightarrow> bool" where
  "answers q p \<longleftrightarrow> p4_transid p = p4_transid q \<and> p4_hwaddr p = p4_hwaddr q \<and> p4_giaddr p = p4_giaddr q \<and>
     p4_bufferOut p = []"

lemma copyDefaultFields_answers:
  assumes "copyDefaultFields q p = Inr p'" "typed ty p" "p4_transid p = p4_transid q" "p4_bufferOut p = []"
  shows "typed ty p' \<and> answers q p'"
proof -
  obtain a where a: "typed ty a" "answers q a" "a = p' \<or> extends a p'"
  proof -
    let ?a = "p\<lparr>p4_iface := p4_iface q, p4_ifindex := p4_ifindex q, p4_ciaddr := p4_ciaddr q, p4_siaddr := IPv4 0,
      p4_hops := p4_hops q, p4_hwaddr := p4_hwaddr q, p4_giaddr := p4_giaddr q,
      p4_remote_addr := (if p4_giaddr q \<noteq> IPv4 0 then p4_giaddr q else p4_remote_addr q)\<rparr>"
    have "typed ty ?a" "answers q ?a"
      using assms(2-4) by (simp_all add: typed_def Pkt4_getOption_def answers_def)
    moreover have "?a = p' \<or> extends ?a p'"
      using assms(1)
      by (auto simp: copyDefaultFields_def setHWAddr_ptr_def result_simps Let_def dest: Pkt4_addOption_extends
          split: if_splits option.splits)
    ultimately show thesis by (rule that)
  qed
  then show ?thesis using extends_typed extends_fields [of a p'] by (auto simp: answers_def)
qed

lemma appendDefaultOptions4_answers:
  assumes "appendDefaultOptions4 srvid ty p = Inr p'" "typed ty' p" "answers q p"
  shows "typed ty p' \<and> answers q p'"
proof -
  obtain m o1 where m: "Pkt4_setType ty p = Inr m" "Pkt4_addOption o1 m = Inr p'"
    using assms(1) by (auto simp: appendDefaultOptions4_def result_simps split: option.splits)
  have "typed ty m" "answers q m" using Pkt4_setType_typed [OF assms(2) m(1)] assms(3) by (auto simp: answers_def)
  moreover have "extends m p'" using m(2) by (rule Pkt4_addOption_extends)
  ultimately show ?thesis using extends_typed extends_fields [of m p'] by (auto simp: answers_def)
qed

lemma refuse4_answers:
  assumes "refuse4 p = Inr p'" "typed ty p" "answers q p"
  shows "typed DHCPNAK p' \<and> answers q p' \<and> p4_yiaddr p' = IPv4 0"
proof -
  obtain m where m: "Pkt4_setType DHCPNAK p = Inr m" "p' = m\<lparr>p4_yiaddr := IPv4 0\<rparr>"
    using assms(1) by (auto simp: refuse4_def result_simps)
  then show ?thesis using Pkt4_setType_typed [OF assms(2) m(1)] assms(3) by (auto simp: answers_def typed_fields)
qed

text \<open>The lease time and the netmask of a granted answer.\<close>

definition promises4 :: "Subnet \<Rightarrow> Lease4 \<Rightarrow> pkt4 \<Rightarrow> bool" where
  "promises4 sn l p \<longleftrightarrow> p4_yiaddr p = l_addr l \<and>
     (\<exists>o1. Pkt4_getOption 51 p = Some o1 \<and> getUint32 o1 = Inr (l_valid_lft l)) \<and>
     (\<exists>o1. Pkt4_getOption 1 p = Some o1 \<and> getNetmaskOption sn = Inr o1)"

lemma extends_promises4: "extends p p' \<Longrightarrow> promises4 sn l p \<Longrightarrow> promises4 sn l p'"
  by (auto simp: promises4_def extends_def)

lemma grant_answer4_answers:
  assumes "grant_answer4 direct sn l p = Inr p'" "typed ty p" "answers q p"
  shows "typed ty p' \<and> answers q p' \<and> promises4 sn l p'"
proof -
  define a where "a = (let a = p\<lparr>p4_yiaddr := l_addr l\<rparr> in
    if p4_remote_addr a = IPv4 0 then a\<lparr>p4_remote_addr := (if direct then l_addr l else IPv4 0xffffffff)\<rparr> else a)"
  have a: "p4_options a = p4_options p" "answers q a" "p4_yiaddr a = l_addr l"
    using assms(3) by (simp_all add: a_def answers_def Let_def)
  obtain o1 b c o2 where o1: "mk_Option_empty UV4 51 PGeneric = Inr o1"
    and b: "Pkt4_addOption (setUint32 (l_valid_lft l) o1) a = Inr b"
    and c: "add_configured4 sn 3 b = Inr c"
    and d: "getNetmaskOption sn = Inr o2" "Pkt4_addOption o2 c = Inr p'"
    using assms(1) unfolding grant_answer4_def Let_def result_simps a_def by blast
  have lease: "otype (setUint32 (l_valid_lft l) o1) = ucast (51 :: u8)"
      "getUint32 (setUint32 (l_valid_lft l) o1) = Inr (l_valid_lft l)"
    using o1 readUint32_writeUint32 [of "l_valid_lft l" "[]"]
    by (auto simp: mk_Option_empty_def setUint32_def getUint32_def split: if_splits)
  have ext: "extends a p'"
    using Pkt4_addOption_extends [OF b] add_configured4_extends [OF c] Pkt4_addOption_extends [OF d(2)] extends_trans by blast
  have "extends b p'" using add_configured4_extends [OF c] Pkt4_addOption_extends [OF d(2)] extends_trans by blast
  then have "Pkt4_getOption 51 p' = Some (setUint32 (l_valid_lft l) o1)"
    using addOption_found [OF b lease(1)] by (simp add: extends_def)
  moreover have "Pkt4_getOption 1 p' = Some o2"
    by (rule addOption_found [OF d(2)])
      (use d(1) in \<open>auto simp: getNetmaskOption_def result_simps mk_OptionInt_def mk_Option_empty_def split: if_splits\<close>)
  moreover have "typed ty a" using assms(2) a(1) by (simp add: typed_def Pkt4_getOption_def)
  ultimately show ?thesis
    using extends_typed [OF ext] extends_fields [OF ext] a lease(2) d(1) by (auto simp: answers_def promises4_def)
qed

section \<open>The invariant of the server\<close>

definition srv4_ok :: "Memfile_LeaseMgr Dhcpv4Srv \<Rightarrow> bool" where
  "srv4_ok s \<longleftrightarrow> inv4 (s4_leases s) \<and> wf_cfg (s4_cfg s)"

lemma selectSubnet4_bound:
  assumes "wf_cfg c" "selectSubnet4 q c = Inr (Some i)"
  shows "i < length (cfg_subnets4 c)"
proof -
  obtain hint where "getSubnet4 hint c = Inr (Some i)"
    using assms(2) by (auto simp: selectSubnet4_def Let_def split: if_splits)
  with first_inRange_spec [of UV4 "cfg_subnets4 c" hint 0] assms(1) show ?thesis
    by (auto simp: getSubnet4_def wf_cfg_def first_where_def split: if_splits)
qed

lemma at_subnet4_run:
  assumes "srv4_ok s" "i < length (cfg_subnets4 (s4_cfg s))"
    and "at_subnet4 i (allocateAddress4 e memfile now clientid hwaddr hint fake) s = (r, t)"
  obtains d c where "allocateAddress4 e memfile now clientid hwaddr hint fake
      (s4_leases s, Some (cfg_subnets4 (s4_cfg s) ! i)) = (r, (d, Some (setLastAllocated c (cfg_subnets4 (s4_cfg s) ! i))))"
    "s4_leases t = d" "s4_serverid t = s4_serverid s"
    "s4_cfg t = (s4_cfg s)\<lparr>cfg_subnets4 := (cfg_subnets4 (s4_cfg s))[i := setLastAllocated c (cfg_subnets4 (s4_cfg s) ! i)]\<rparr>"
    "srv4_ok t" "(\<forall>l. r \<noteq> Inr (Some l)) \<longrightarrow> leases4 d = leases4 (s4_leases s)"
proof -
  let ?sn = "cfg_subnets4 (s4_cfg s) ! i"
  obtain r' d n where run: "allocateAddress4 e memfile now clientid hwaddr hint fake (s4_leases s, Some ?sn) = (r', (d, n))"
    by (cases "allocateAddress4 e memfile now clientid hwaddr hint fake (s4_leases s, Some ?sn)") auto
  have inv: "inv4 (s4_leases s)" and wf: "wf_cfg (s4_cfg s)" using assms(1) by (auto simp: srv4_ok_def)
  obtain c where d: "inv4 d" "n = Some (setLastAllocated c ?sn)" "(\<forall>l. r' \<noteq> Inr (Some l)) \<longrightarrow> leases4 d = leases4 (s4_leases s)"
    using allocateAddress4_state [OF inv run] by blast
  have "wf_subnet UV4 (setLastAllocated c ?sn)"
    using wf assms(2) by (auto simp: wf_cfg_def list_all_length intro: wf_intros)
  then have "list_all (wf_subnet UV4) ((cfg_subnets4 (s4_cfg s))[i := setLastAllocated c ?sn])"
    using wf by (auto simp: wf_cfg_def intro: list_all_update)
  with assms(3) run d wf show thesis
    by (intro that [of d c]) (auto simp: at_subnet4_def zoomS_def srv4_ok_def wf_cfg_def)
qed

lemma keeps_assignLease:
  assumes "e4_mgr e = memfile"
  shows "keeps srv4_ok (assignLease e q p)"
proof (rule keepsI)
  fix s r t
  assume s: "srv4_ok s" and run: "assignLease e q p s = (r, t)"
  show "srv4_ok t"
  proof (cases "selectSubnet4 q (s4_cfg s)")
    case (Inl x)
    with run s show ?thesis by (auto simp: assignLease_def eff_simps)
  next
    case (Inr sub)
    show ?thesis
    proof (cases sub)
      case None
      with run s Inr show ?thesis by (auto simp: assignLease_def eff_simps)
    next
      case (Some i)
      have i: "i < length (cfg_subnets4 (s4_cfg s))"
        using s Inr Some selectSubnet4_bound by (auto simp: srv4_ok_def)
      have at: "srv4_ok u" if "at_subnet4 i (allocateAddress4 en memfile now cid hw hint fake) s = (x, u)"
        for en now cid hw hint fake x u
        using at_subnet4_run [OF s i that] by blast
      show ?thesis
      proof (cases "client_id4 q")
        case (Inl x)
        with run s Inr Some show ?thesis by (auto simp: assignLease_def eff_simps)
      next
        case cid: (Inr cid)
        show ?thesis
        proof (cases "Pkt4_getType q")
          case (Inl x)
          with run s Inr Some cid show ?thesis by (auto simp: assignLease_def eff_simps)
        next
          case ty: (Inr ty)
          have "bindS (at_subnet4 i (allocateAddress4 (e4_engine e) memfile (e4_now e) cid (p4_hwaddr q) (p4_yiaddr q)
              (ty = DHCPDISCOVER))) (\<lambda>lease. case lease of
                Some l \<Rightarrow> askS (\<lambda>s. grant_answer4 (e4_direct e) (cfg_subnets4 (s4_cfg s) ! i) l p)
              | None \<Rightarrow> liftS (refuse4 p)) s = (r, t)"
            using run Inr Some cid ty assms by (simp add: assignLease_def eff_simps)
          then show ?thesis by (rule bindS_cases) (auto dest: at simp: eff_apply split: option.splits)
        qed
      qed
    qed
  qed
qed

lemma keeps_memfile_inv4:
  "keeps inv4 (mem_deleteLease a)"
proof (rule keepsI)
  fix s r t
  assume "inv4 s" "mem_deleteLease a s = (r, t)"
  moreover have "set (index_erase a xs) = {x \<in> set xs. l_addr x \<noteq> a}" for xs :: "Lease4 list"
    by (auto simp: index_erase_def)
  ultimately show "inv4 t"
    by (auto simp: mem_deleteLease_def bindS_askS eff_apply bindS_simps inv4_def storage4_erase_def storage6_erase_def
        addr_sorted_erase split: if_splits sum.splits)
qed

lemma keeps_processRelease: "e4_mgr e = memfile \<Longrightarrow> keeps srv4_ok (processRelease e q)"
  unfolding processRelease_def
  by (intro keeps_intros keeps_zoom [where Q = inv4] keeps_memfile_inv4 | simp add: srv4_ok_def keeps_memfile_inv4)+

lemma keeps_dispatch4:
  assumes "e4_mgr e = memfile"
  shows "keeps srv4_ok (dispatch4 e q)"
  unfolding dispatch4_def processDiscover_def processRequest_def processDecline_def processInform_def
  by (intro keeps_intros keeps_assignLease keeps_processRelease assms)

lemma keeps_run4:
  assumes "e4_mgr e = memfile"
  shows "keeps srv4_ok (run4 e datagram)"
  unfolding run4_def by (cases "Pkt4_unpack datagram") (auto intro!: keeps_intros keeps_dispatch4 assms)

text \<open>C11. No packet, however malformed, can damage the server: whatever one round of the server loop does with
  a received datagram (an answer, no answer, an exception that leaves the loop), the lease database
  still has at most one lease per address with its indexes over the same leases, and every
  configured subnet is well formed.\<close>

theorem server4_invariant:
  assumes "srv4_ok s" "e4_mgr e = memfile" "run4 e datagram s = (r, t)"
  shows "srv4_ok t"
  using keepsD [OF keeps_run4 [OF assms(2)] assms(1,3)] .

definition example_srv4 :: "Memfile_LeaseMgr Dhcpv4Srv" where
  "example_srv4 = \<lparr>s4_cfg = example_cfg, s4_leases = mk_Memfile,
     s4_serverid = Some (Opt UV4 54 [] (PAddrLst4 [IPv4 0xc0000201]) [])\<rparr>"

definition example_env4 :: "Memfile_LeaseMgr Env4" where
  "example_env4 = \<lparr>e4_engine = example_engine, e4_mgr = memfile, e4_now = 500, e4_direct = True\<rparr>"

lemma example_srv4_ok: "srv4_ok example_srv4"
  using configured_wf [OF configured_example] indexed_mk_Memfile(1)
  by (simp add: srv4_ok_def example_srv4_def indexed4_def)

theorem server4_invariant_witness: "srv4_ok (snd (run4 example_env4 (Pkt4_blank\<lparr>p4_data := [1, 2, 3]\<rparr>) example_srv4))"
  by (rule server4_invariant [OF example_srv4_ok, where e = example_env4, OF _ prod.collapse [symmetric]])
    (simp add: example_env4_def)

section \<open>Answers to DISCOVER and REQUEST\<close>

definition granted4 :: "'s Env4 \<Rightarrow> pkt4 \<Rightarrow> CfgMgr \<Rightarrow> bool \<Rightarrow> (ioaddress \<rightharpoonup> Lease4) \<Rightarrow> (ioaddress \<rightharpoonup> Lease4) \<Rightarrow> pkt4 \<Rightarrow> bool" where
  "granted4 e q c fake L L' rsp \<longleftrightarrow>
     (\<exists>i l cid h. selectSubnet4 q c = Inr (Some i) \<and> client_id4 q = Inr cid \<and> p4_hwaddr q = Some h \<and>
        grant4 (e4_now e) (cfg_subnets4 c ! i) cid h L l \<and> stored fake L L' l \<and> promises4 (cfg_subnets4 c ! i) l rsp)"

lemma client_id4_wf: "client_id4 q = Inr cid \<Longrightarrow> wf_client cid"
  by (auto simp: client_id4_def wf_client_def result_simps dest!: mk_ClientId_len split: option.splits)

lemma promises4_moved: "promises4 (setLastAllocated c sn) l p = promises4 sn l p"
  by (simp add: promises4_def getNetmaskOption_def setLastAllocated_def)

lemma assignLease_spec:
  assumes s: "srv4_ok s" and e: "e4_mgr e = memfile" and p: "typed ty p" "answers q p" and h: "p4_hwaddr q = Some h"
    and qt: "Pkt4_getType q = Inr qty" and run: "assignLease e q p s = (Inr p', t)"
  shows "answers q p' \<and>
    (typed DHCPNAK p' \<and> p4_yiaddr p' = IPv4 0 \<and> leases4 (s4_leases t) = leases4 (s4_leases s) \<or>
     typed ty p' \<and> granted4 e q (s4_cfg s) (qty = DHCPDISCOVER) (leases4 (s4_leases s)) (leases4 (s4_leases t)) p')"
proof -
  obtain sub where sub: "selectSubnet4 q (s4_cfg s) = Inr sub"
    using run unfolding assignLease_def bindS_Inr by (auto simp: eff_apply)
  show ?thesis
  proof (cases sub)
    case None
    then have "refuse4 p = Inr p'" "t = s" using run sub by (auto simp: assignLease_def eff_simps)
    then show ?thesis using refuse4_answers [OF _ p] by simp
  next
    case (Some i)
    let ?sn = "cfg_subnets4 (s4_cfg s) ! i"
    have i: "i < length (cfg_subnets4 (s4_cfg s))"
      using s sub Some selectSubnet4_bound by (auto simp: srv4_ok_def)
    have sn: "wf_subnet UV4 ?sn" and inv: "inv4 (s4_leases s)"
      using s i by (auto simp: srv4_ok_def wf_cfg_def list_all_length)
    obtain cid where cid: "client_id4 q = Inr cid"
      using run sub Some by (cases "client_id4 q") (auto simp: assignLease_def eff_simps)
    obtain lease u where at: "at_subnet4 i (allocateAddress4 (e4_engine e) memfile (e4_now e) cid (Some h) (p4_yiaddr q)
        (qty = DHCPDISCOVER)) s = (Inr lease, u)"
      and rest: "(case lease of Some l \<Rightarrow> askS (\<lambda>s. grant_answer4 (e4_direct e) (cfg_subnets4 (s4_cfg s) ! i) l p)
        | None \<Rightarrow> liftS (refuse4 p)) u = (Inr p', t)"
      using run sub Some cid qt h e by (auto simp: assignLease_def eff_simps bindS_Inr)
    obtain d c where
      al: "allocateAddress4 (e4_engine e) memfile (e4_now e) cid (Some h) (p4_yiaddr q) (qty = DHCPDISCOVER)
        (s4_leases s, Some ?sn) = (Inr lease, (d, Some (setLastAllocated c ?sn)))"
      and u: "s4_leases u = d" "s4_serverid u = s4_serverid s"
        "s4_cfg u = (s4_cfg s)\<lparr>cfg_subnets4 := (cfg_subnets4 (s4_cfg s))[i := setLastAllocated c ?sn]\<rparr>"
        "srv4_ok u" "(\<forall>l. (Inr lease :: Lease4 option result) \<noteq> Inr (Some l)) \<longrightarrow> leases4 d = leases4 (s4_leases s)"
      by (rule at_subnet4_run [OF s i at])
    have moved: "cfg_subnets4 (s4_cfg u) ! i = setLastAllocated c ?sn" using u(3) i by simp
    show ?thesis
    proof (cases lease)
      case None
      then show ?thesis using rest u refuse4_answers [OF _ p, of p'] by (auto simp: eff_apply)
    next
      case (Some l)
      have "grant4 (e4_now e) ?sn cid h (leases4 (s4_leases s)) l \<and>
          stored (qty = DHCPDISCOVER) (leases4 (s4_leases s)) (leases4 d) l"
        using al Some
      proof (cases rule: allocateAddress4_cases)
        case (returns n)
        then show ?thesis
          using mem_db4.allocate4_grant [OF inv sn client_id4_wf [OF cid] returns(2)] Some by auto
      qed simp
      moreover have "grant_answer4 (e4_direct e) (setLastAllocated c ?sn) l p = Inr p'" "t = u"
        using rest Some moved by (auto simp: eff_apply)
      ultimately show ?thesis
        using grant_answer4_answers [OF _ p] sub \<open>sub = Some i\<close> cid h u
        unfolding granted4_def by (fastforce simp: promises4_moved)
    qed
  qed
qed

lemma granted4_extends: "granted4 e q c fake L L' p \<Longrightarrow> extends p p' \<Longrightarrow> granted4 e q c fake L L' p'"
  unfolding granted4_def using extends_promises4 by blast

text \<open>Both handlers run the same steps, for a type of answer.\<close>

definition handler4 :: "u8 \<Rightarrow> 's Env4 \<Rightarrow> pkt4 \<Rightarrow> ('s Dhcpv4Srv, pkt4) eff" where
  "handler4 ty e q =
     bindS (liftS (mk_Pkt4 ty (p4_transid q))) (\<lambda>a.
     bindS (liftS (copyDefaultFields q a)) (\<lambda>a.
     bindS (askS (\<lambda>s. appendDefaultOptions4 (s4_serverid s) ty a)) (\<lambda>a.
     bindS (askS (\<lambda>s. appendRequestedOptions4 (s4_cfg s) q a)) (\<lambda>a.
     bindS (assignLease e q a) (\<lambda>a.
       askS (\<lambda>s. appendBasicOptions4 (s4_cfg s) q a))))))"

lemma handlers_eq: "processDiscover = handler4 DHCPOFFER" "processRequest = handler4 DHCPACK"
  by (simp_all add: fun_eq_iff processDiscover_def processRequest_def handler4_def)

lemma handler4_spec:
  assumes s: "srv4_ok s" and e: "e4_mgr e = memfile" and h: "p4_hwaddr q = Some h"
    and qt: "Pkt4_getType q = Inr qty" and run: "handler4 ty e q s = (Inr rsp, t)"
  shows "answers q rsp \<and>
    (Pkt4_getType rsp = Inr DHCPNAK \<and> p4_yiaddr rsp = IPv4 0 \<and> leases4 (s4_leases t) = leases4 (s4_leases s) \<or>
     Pkt4_getType rsp = Inr ty \<and>
       granted4 e q (s4_cfg s) (qty = DHCPDISCOVER) (leases4 (s4_leases s)) (leases4 (s4_leases t)) rsp)"
proof -
  obtain p0 p1 p2 p3 p4 where
    st: "mk_Pkt4 ty (p4_transid q) = Inr p0" "copyDefaultFields q p0 = Inr p1"
      "appendDefaultOptions4 (s4_serverid s) ty p1 = Inr p2" "appendRequestedOptions4 (s4_cfg s) q p2 = Inr p3"
      "assignLease e q p3 s = (Inr p4, t)" "appendBasicOptions4 (s4_cfg t) q p4 = Inr rsp"
    using run by (auto simp: handler4_def bindS_Inr eff_apply)
  have "typed ty p2 \<and> answers q p2"
    using mk_Pkt4_typed [OF st(1)] copyDefaultFields_answers [OF st(2)] appendDefaultOptions4_answers [OF st(3)] by blast
  moreover have e3: "extends p2 p3" using st(4) by (rule append_extends)
  ultimately have "typed ty p3" "answers q p3"
    using extends_typed extends_fields [OF e3] by (auto simp: answers_def)
  from assignLease_spec [OF s e this h qt st(5)] have a: "answers q p4"
    "typed DHCPNAK p4 \<and> p4_yiaddr p4 = IPv4 0 \<and> leases4 (s4_leases t) = leases4 (s4_leases s) \<or>
     typed ty p4 \<and> granted4 e q (s4_cfg s) (qty = DHCPDISCOVER) (leases4 (s4_leases s)) (leases4 (s4_leases t)) p4"
    by auto
  have ext: "extends p4 rsp" using st(6) by (rule append_extends)
  have "answers q rsp" using a(1) extends_fields [OF ext] by (simp add: answers_def)
  moreover have "Pkt4_getType rsp = Inr ty'" if "typed ty' p4" for ty'
    using extends_typed [OF ext that] by (rule typed_getType)
  ultimately show ?thesis
    using a(2) granted4_extends [OF _ ext] extends_fields(4) [OF ext] by metis
qed

lemma no_answer: "thenS m (retS None) s \<noteq> (Inr (Some rsp), t)"
  by (auto simp: bindS_Inr eff_apply)

lemma dispatch4_handler:
  assumes "dispatch4 e q s = (Inr (Some rsp), t)"
  obtains qty where "qty \<in> {DHCPDISCOVER, DHCPREQUEST}" "Pkt4_getType q = Inr qty"
    "handler4 (if qty = DHCPDISCOVER then DHCPOFFER else DHCPACK) e q s = (Inr rsp, t)"
proof -
  obtain qty where ty: "Pkt4_getType q = Inr qty"
    using assms by (cases "Pkt4_getType q") (auto simp: dispatch4_def catchS_def eff_simps split: if_splits)
  have "(if qty = DHCPDISCOVER then bindS (processDiscover e q) (\<lambda>rsp. retS (Some rsp))
      else if qty = DHCPREQUEST then bindS (processRequest e q) (\<lambda>rsp. retS (Some rsp)) else throwS BadValue) s = (Inr (Some rsp), t)"
    using assms ty
    by (auto simp: no_answer dispatch4_def catchS_def bindS_askS eff_apply processDecline_def processInform_def split: if_splits prod.splits sum.splits)
  then show thesis
    using ty that [of qty] by (auto simp: bindS_Inr eff_apply handlers_eq split: if_splits)
qed

text \<open>C2. What the DHCPv4 server promises is backed by its database. It answers only DISCOVER and REQUEST,
  with the transaction id, hardware address and relay address of the question. The answer is either a
  NAK without an address, and then no lease was changed, or an OFFER respectively ACK for a lease that the
  allocation engine may grant this client on the selected subnet (its own, or free or expired and in a
  pool), carrying the lease time and the netmask of that lease and subnet; the lease behind an ACK is in the
  database when the answer is sent, and all other leases are unchanged.\<close>

theorem answers4_backed:
  assumes "srv4_ok s" "e4_mgr e = memfile" "p4_hwaddr q = Some h" "dispatch4 e q s = (Inr (Some rsp), t)"
  shows "\<exists>qty\<in>{DHCPDISCOVER, DHCPREQUEST}. Pkt4_getType q = Inr qty \<and> answers q rsp \<and>
    (Pkt4_getType rsp = Inr DHCPNAK \<and> p4_yiaddr rsp = IPv4 0 \<and> leases4 (s4_leases t) = leases4 (s4_leases s) \<or>
     Pkt4_getType rsp = Inr (if qty = DHCPDISCOVER then DHCPOFFER else DHCPACK) \<and>
       granted4 e q (s4_cfg s) (qty = DHCPDISCOVER) (leases4 (s4_leases s)) (leases4 (s4_leases t)) rsp)"
proof -
  obtain qty where q: "qty \<in> {DHCPDISCOVER, DHCPREQUEST}" "Pkt4_getType q = Inr qty"
    "handler4 (if qty = DHCPDISCOVER then DHCPOFFER else DHCPACK) e q s = (Inr rsp, t)"
    using assms(4) by (rule dispatch4_handler)
  show ?thesis using q handler4_spec [OF assms(1-3) q(2,3)] by blast
qed

definition example_request :: pkt4 where
  "example_request = Pkt4_blank\<lparr>p4_transid := 0x1234, p4_hwaddr := Some example_hwaddr, p4_yiaddr := IPv4 0xc0000264,
     p4_options := [(53, Opt UV4 53 [] (PInt TU8 3) []), (61, Opt UV4 61 [1, 2, 3] PGeneric [])]\<rparr>"

lemma example_request_sel [simp]:
  "p4_giaddr example_request = IPv4 0" "p4_hwaddr example_request = Some example_hwaddr" "p4_transid example_request = 0x1234"
  "Pkt4_getType example_request = Inr 3" "Pkt4_getOption 55 example_request = None" "p4_remote_addr example_request = IPv4 0"
  "p4_yiaddr example_request = IPv4 0xc0000264" "Pkt4_getOption 61 example_request = Some (Opt UV4 61 [1, 2, 3] PGeneric [])"
  "p4_iface example_request = []" "p4_ifindex example_request = 0" "p4_ciaddr example_request = IPv4 0"
  "p4_hops example_request = 0"
  "p4_options example_request = [(53, Opt UV4 53 [] (PInt TU8 3) []), (61, Opt UV4 61 [1, 2, 3] PGeneric [])]"
  by (simp_all add: example_request_def Pkt4_blank_def Pkt4_getType_def Pkt4_getOption_def DEFAULT_ADDRESS_def)

lemma example_cfg_sel [simp]: "cfg_subnets4 example_cfg = [example_subnet4]"
  by (simp add: example_cfg_def addSubnet4_def mk_CfgMgr_def)

lemma example_select: "selectSubnet4 example_request example_cfg = Inr (Some 0)"
  by (simp add: selectSubnet4_def getSubnet4_def)

lemma example_no_options: "od_option (getOptionDescriptor space code example_subnet4) = None"
  by (simp add: getOptionDescriptor_def getOptionDescriptors_def getItems_def example_subnet4_def)

lemma example_netmask: "getNetmaskOption example_subnet4 = Inr (Opt UV4 1 [] (PInt TU32 0xffffff00) [])"
  by (simp add: getNetmaskOption_def getNetmask4_def example_subnet4_def bitMask4_def mk_OptionInt_def mk_Option_empty_def)

lemma example_assign:
  "\<exists>t. at_subnet4 0 (allocateAddress4 example_engine memfile 500 (Some (ClientId [1, 2, 3])) (Some example_hwaddr)
      (IPv4 0xc0000264) False) example_srv4 = (Inr (Some example_lease4), t) \<and> s4_cfg t = example_cfg"
proof -
  obtain d where "allocateAddress4 example_engine memfile 500 (Some (ClientId [1, 2, 3])) (Some example_hwaddr)
      (IPv4 0xc0000264) False (mk_Memfile, Some example_subnet4) = (Inr (Some example_lease4), (d, Some example_subnet4))"
    using example_allocate4 ..
  then show ?thesis
    by (simp add: at_subnet4_def zoomS_def example_srv4_def example_cfg_def addSubnet4_def mk_CfgMgr_def)
qed

lemma example_dispatch: "\<exists>rsp t. dispatch4 example_env4 example_request example_srv4 = (Inr (Some rsp), t)"
proof -
  obtain t where t: "at_subnet4 0 (allocateAddress4 example_engine memfile 500 (Some (ClientId [1, 2, 3])) (Some example_hwaddr)
      (IPv4 0xc0000264) False) example_srv4 = (Inr (Some example_lease4), t)" "s4_cfg t = example_cfg"
    using example_assign by blast
  have al: "bindS (at_subnet4 0 (allocateAddress4 example_engine memfile 500 (Some (ClientId [1, 2, 3])) (Some example_hwaddr)
      (IPv4 0xc0000264) False)) f example_srv4 = f (Some example_lease4) t" for f :: "_ \<Rightarrow> (_, pkt4) eff"
    by (rule bindS_apply(1)) (rule t(1))
  have srv: "s4_cfg example_srv4 = example_cfg"
    "s4_serverid example_srv4 = Some (Opt UV4 54 [] (PAddrLst4 [IPv4 0xc0000201]) [])"
    by (simp_all add: example_srv4_def)
  have env: "e4_engine example_env4 = example_engine" "e4_mgr example_env4 = memfile" "e4_now example_env4 = 500"
    "e4_direct example_env4 = True" by (simp_all add: example_env4_def)
  have assign: "\<exists>p. assignLease example_env4 example_request p3 example_srv4 = (Inr p, t)"
    if "map_of (p4_options p3) 51 = None" "map_of (p4_options p3) 1 = None" for p3
    using that
    by (simp add: assignLease_def eff_simps srv env example_select client_id4_def mk_ClientId_def mk_DUID_def
        MAX_DUID_LEN_def MIN_CLIENT_ID_LEN_def al t(2) grant_answer4_def Let_def mk_Option_empty_def map_of_mm_insert_other
        Pkt4_addOption_def setUint32_def add_configured4_def example_no_options example_netmask Pkt4_getOption_def)
  have basic: "appendBasicOptions4 (s4_cfg t) example_request p = Inr p" for p
    by (simp add: appendBasicOptions4_def t(2) example_select required_options_def add_configured4_def example_no_options)
  have "\<exists>p3. (handler4 DHCPACK example_env4 example_request example_srv4 =
        bindS (assignLease example_env4 example_request p3) (\<lambda>a. askS (\<lambda>s. appendBasicOptions4 (s4_cfg s) example_request a))
          example_srv4) \<and> map_of (p4_options p3) 51 = None \<and> map_of (p4_options p3) 1 = None"
    by (simp add: handler4_def eff_simps mk_Pkt4_def DHCPTypeToBootpType_def Pkt4_setType_def Pkt4_getOption_def Pkt4_blank_def
        mk_Option_def check_def Pkt4_addOption_def copyDefaultFields_def setHWAddr_ptr_def Let_def appendDefaultOptions4_def
        srv appendRequestedOptions4_def example_select)
      (rule exI, rule conjI, rule refl, simp)
  then obtain p3 where p3: "handler4 DHCPACK example_env4 example_request example_srv4 =
        bindS (assignLease example_env4 example_request p3) (\<lambda>a. askS (\<lambda>s. appendBasicOptions4 (s4_cfg s) example_request a))
          example_srv4" "map_of (p4_options p3) 51 = None" "map_of (p4_options p3) 1 = None" by blast
  obtain p4 where "assignLease example_env4 example_request p3 example_srv4 = (Inr p4, t)"
    using assign [OF p3(2,3)] by blast
  then have "handler4 DHCPACK example_env4 example_request example_srv4 = (Inr p4, t)"
    using basic by (simp add: p3(1) bindS_def eff_apply)
  then show ?thesis by (simp add: dispatch4_def catchS_def eff_simps handlers_eq bindS_def)
qed

theorem answers4_backed_witness:
  "\<exists>rsp t. dispatch4 example_env4 example_request example_srv4 = (Inr (Some rsp), t) \<and> p4_transid rsp = 0x1234 \<and>
     Pkt4_getType rsp \<in> {Inr DHCPNAK, Inr DHCPACK}"
proof -
  obtain rsp t where r: "dispatch4 example_env4 example_request example_srv4 = (Inr (Some rsp), t)"
    using example_dispatch by blast
  have "e4_mgr example_env4 = memfile" by (simp add: example_env4_def)
  from answers4_backed [OF example_srv4_ok this _ r] have
    "p4_transid rsp = 0x1234 \<and> (Pkt4_getType rsp = Inr DHCPNAK \<or> Pkt4_getType rsp = Inr DHCPACK)"
    by (auto simp: answers_def)
  with r show ?thesis by blast
qed

section \<open>RELEASE\<close>

text \<open>A client may release a lease whose hardware address is its own and whose client id, if both sides
  have one, is the one it sent.\<close>

definition may_release4 :: "pkt4 \<Rightarrow> Lease4 \<Rightarrow> bool" where
  "may_release4 q l \<longleftrightarrow> (\<exists>h cid. p4_hwaddr q = Some h \<and> client_id4 q = Inr cid \<and> l4_hwaddr l = hwaddr_bytes h \<and>
     (l4_client_id l = None \<or> cid = None \<or> l4_client_id l = cid))"

text \<open>C22. A RELEASE never gets an answer and deletes exactly the lease it names (in \<^verbatim>\<open>yiaddr\<close>), if it may:
  when the lease exists, has the hardware address of the sender and no other client id. All other leases
  stay as they are, and so does the configuration.\<close>

theorem release4_owner:
  assumes "inv4 (s4_leases s)" "e4_mgr e = memfile" "p4_hwaddr q = Some h" "client_id4 q = Inr cid"
    and "Pkt4_getType q = Inr DHCPRELEASE" "isV4 (p4_yiaddr q)"
  shows "\<exists>t. dispatch4 e q s = (Inr None, t) \<and> s4_cfg t = s4_cfg s \<and>
    leases4 (s4_leases t) =
      (if \<exists>l. leases4 (s4_leases s) (p4_yiaddr q) = Some l \<and> may_release4 q l
       then (leases4 (s4_leases s))(p4_yiaddr q := None) else leases4 (s4_leases s))"
proof -
  let ?a = "p4_yiaddr q" and ?L = "leases4 (s4_leases s)"
  have get: "mem_getLease4 ?a (s4_leases s) = Inr (?L ?a)" using assms(1) by (rule mem_getLease4_eq)
  have may: "may_release4 q l \<longleftrightarrow> l4_hwaddr l = hwaddr_bytes h \<and> (l4_client_id l = None \<or> cid = None \<or> l4_client_id l = cid)" for l
    using assms(3,4) by (auto simp: may_release4_def)
  have run: "dispatch4 e q s = catchS (thenS (processRelease e q) (retS None)) (\<lambda>_. retS None) s"
    using assms(5) by (simp add: dispatch4_def catchS_def eff_simps)
  show ?thesis
  proof (cases "\<exists>l. ?L ?a = Some l \<and> may_release4 q l")
    case False
    then have "processRelease e q s = (Inr (), s)"
      using assms(2-4) get may
      by (auto simp: processRelease_def eff_simps zoomS_def catchS_def split: option.splits)
    with False show ?thesis by (auto simp: run catchS_def bindS_def eff_apply)
  next
    case True
    then obtain l where l: "?L ?a = Some l" "may_release4 q l" by blast
    have addr: "l_addr l = ?a" using l(1) assms(1) by (simp add: leases4_Some)
    have "mem_deleteLease ?a (s4_leases s) = (Inr True, storage4_erase ?a (s4_leases s))"
      and erased: "leases4 (storage4_erase ?a (s4_leases s)) = ?L(?a := None)"
      using mem_delete4 [OF assms(1,6)] l(1) by auto
    then have "processRelease e q s = (Inr (), s\<lparr>s4_leases := storage4_erase ?a (s4_leases s)\<rparr>)"
      using assms(2-4) get l may addr by (auto simp: processRelease_def eff_simps zoomS_def catchS_def bindS_def)
    with True erased show ?thesis by (simp add: run catchS_def bindS_def eff_apply)
  qed
qed

theorem release4_owner_witness:
  "\<exists>d t. mem_addLease4 example_lease4 mk_Memfile = (Inr True, d) \<and>
     dispatch4 example_env4 (example_request\<lparr>p4_options := [(53, Opt UV4 53 [] (PInt TU8 7) [])]\<rparr>)
       (example_srv4\<lparr>s4_leases := d\<rparr>) = (Inr None, t) \<and> leases4 (s4_leases t) (IPv4 0xc0000264) = None"
proof -
  let ?q = "example_request\<lparr>p4_options := [(53, Opt UV4 53 [] (PInt TU8 7) [])]\<rparr>"
  obtain d where d: "mem_addLease4 example_lease4 mk_Memfile = (Inr True, d)" "indexed4 d"
    "leases4 d = (leases4 mk_Memfile)(l_addr example_lease4 \<mapsto> example_lease4)"
    using mem_addLease4_ok [of mk_Memfile example_lease4 "ClientId [1, 2, 3]"] indexed_mk_Memfile(1) by auto
  have q: "Pkt4_getType ?q = Inr DHCPRELEASE" "client_id4 ?q = Inr None" "isV4 (p4_yiaddr ?q)"
    by (simp_all add: Pkt4_getType_def Pkt4_getOption_def client_id4_def)
  have may: "may_release4 ?q example_lease4" using q(2) by (simp add: may_release4_def example_hwaddr_def)
  have "inv4 (s4_leases (example_srv4\<lparr>s4_leases := d\<rparr>))" "e4_mgr example_env4 = memfile" "p4_hwaddr ?q = Some example_hwaddr"
    using d(2) by (simp_all add: indexed4_def example_env4_def)
  from release4_owner [OF this q(2,1,3)] d may show ?thesis by auto
qed

section \<open>Clients on a directly connected network\<close>

text \<open>C39. A client without a relay is served only by a server with a single subnet: as soon as there are several
  and none of them contains 0.0.0.0, every answer to a message that did not pass a relay is a NAK without an
  address. The subnet is looked up by the relay address, which is 0.0.0.0 here; the two branches
  of \<^verbatim>\<open>selectSubnet\<close> are interchanged.\<close>

theorem direct_clients_refused:
  assumes "configured (s4_cfg s)" "length (cfg_subnets4 (s4_cfg s)) \<noteq> 1"
    and "\<forall>sn\<in>set (cfg_subnets4 (s4_cfg s)). Subnet_inRange sn (IPv4 0) = Inr False"
    and "inv4 (s4_leases s)" "e4_mgr e = memfile" "p4_hwaddr q = Some h" "p4_giaddr q = IPv4 0"
    and "dispatch4 e q s = (Inr (Some rsp), t)"
  shows "Pkt4_getType rsp = Inr DHCPNAK \<and> p4_yiaddr rsp = IPv4 0"
proof -
  have wf: "wf_cfg (s4_cfg s)" using assms(1) by (rule configured_wf)
  have ok: "srv4_ok s" using assms(4) wf by (simp add: srv4_ok_def)
  have "first_inRange a i sns = Inr None" if "\<forall>sn\<in>set sns. Subnet_inRange sn a = Inr False" for a i and sns :: "Subnet list"
    using that by (induction sns arbitrary: i) auto
  then have none: "selectSubnet4 q (s4_cfg s) = Inr None"
    using assms(2,3,7) by (simp add: selectSubnet4_def getSubnet4_def)
  obtain qty where q: "qty \<in> {DHCPDISCOVER, DHCPREQUEST}" "Pkt4_getType q = Inr qty"
    "handler4 (if qty = DHCPDISCOVER then DHCPOFFER else DHCPACK) e q s = (Inr rsp, t)"
    using assms(8) by (rule dispatch4_handler)
  show ?thesis using handler4_spec [OF ok assms(5,6) q(2,3)] none by (auto simp: granted4_def)
qed

definition example_srv4_two :: "Memfile_LeaseMgr Dhcpv4Srv" where
  "example_srv4_two = example_srv4\<lparr>s4_cfg := addSubnet4 example_subnet4 example_cfg\<rparr>"

lemma example_two:
  "s4_cfg example_srv4_two = addSubnet4 example_subnet4 example_cfg" "s4_leases example_srv4_two = mk_Memfile"
  "s4_serverid example_srv4_two = Some (Opt UV4 54 [] (PAddrLst4 [IPv4 0xc0000201]) [])"
  "Subnet_inRange example_subnet4 (IPv4 0) = Inr False"
  "cfg_subnets4 (addSubnet4 example_subnet4 example_cfg) = [example_subnet4, example_subnet4]"
  by (simp_all add: example_srv4_two_def example_srv4_def Subnet_inRange_def example_subnet4_def example_prefix
      smallerEqual_def equals_def addSubnet4_def)

lemma example_refused: "\<exists>rsp. dispatch4 example_env4 example_request example_srv4_two = (Inr (Some rsp), example_srv4_two)"
proof -
  have none: "selectSubnet4 example_request (addSubnet4 example_subnet4 example_cfg) = Inr None"
    by (simp add: selectSubnet4_def getSubnet4_def example_two)
  have "\<exists>rsp. handler4 DHCPACK example_env4 example_request example_srv4_two = (Inr rsp, example_srv4_two)"
    by (simp add: handler4_def eff_simps mk_Pkt4_def DHCPTypeToBootpType_def Pkt4_setType_def Pkt4_getOption_def Pkt4_blank_def
        mk_Option_def check_def Pkt4_addOption_def copyDefaultFields_def setHWAddr_ptr_def Let_def appendDefaultOptions4_def
        example_two appendRequestedOptions4_def none assignLease_def refuse4_def appendBasicOptions4_def)
  then obtain rsp where "handler4 DHCPACK example_env4 example_request example_srv4_two = (Inr rsp, example_srv4_two)" ..
  then show ?thesis by (simp add: dispatch4_def catchS_def eff_simps handlers_eq bindS_def)
qed

theorem direct_clients_refused_witness:
  "\<exists>rsp t. dispatch4 example_env4 example_request example_srv4_two = (Inr (Some rsp), t) \<and> Pkt4_getType rsp = Inr DHCPNAK"
proof -
  obtain rsp where r: "dispatch4 example_env4 example_request example_srv4_two = (Inr (Some rsp), example_srv4_two)"
    using example_refused ..
  have "configured (s4_cfg example_srv4_two)"
    unfolding example_two by (rule configured.subnet4 [OF configured_example built_example_subnet4])
  moreover have "inv4 (s4_leases example_srv4_two)" using indexed_mk_Memfile(1) by (simp add: example_two indexed4_def)
  moreover have "e4_mgr example_env4 = memfile" by (simp add: example_env4_def)
  ultimately show ?thesis
    using direct_clients_refused [of example_srv4_two, OF _ _ _ _ _ _ _ r] r by (simp add: example_two)
qed

section \<open>Requested options\<close>

text \<open>A code defined as an array of 8-bit integers is parsed to a generic option.\<close>

lemma uint8_array_generic:
  assumes "def_type d = OPT_UINT8_TYPE" "array_type d" "optionFactory defs d u type data = Inr x"
  shows "opayload x = PGeneric"
  using assms
  by (auto simp: optionFactory.simps catch_isc_def mk_Option_def result_simps split: sum.splits if_splits)

lemma unpack4_generic:
  assumes d: "defs_with_code defs k = [d]" "def_type d = OPT_UINT8_TYPE" "array_type d"
  shows "unpackOptions4 defs rest off acc = Inr (n, os, rm) \<Longrightarrow> \<forall>x. (k, x) \<in> set acc \<longrightarrow> opayload x = PGeneric \<Longrightarrow>
    \<forall>x. (k, x) \<in> set os \<longrightarrow> opayload x = PGeneric"
proof (induction "length rest" arbitrary: rest off acc rule: less_induct)
  case less
  show ?case
  proof (cases rest)
    case Nil
    with less.prems show ?thesis by simp
  next
    case (Cons t rest')
    consider "os = acc" | "unpackOptions4 defs rest' (off + 1) acc = Inr (n, os, rm)"
      | l body x where "rest' = l # body"
        "(case defs_with_code defs (ucast t) of [] \<Rightarrow> mk_Option UV4 (ucast t) (take (unat l) body)
          | [d] \<Rightarrow> optionFactory defs d UV4 (ucast t) (take (unat l) body) | _ \<Rightarrow> Inl Unexpected) = Inr x"
        "unpackOptions4 defs (drop (unat l) body) (off + 2 + unat l) (mm_insert (ucast t) x acc) = Inr (n, os, rm)"
      using less.prems(1) Cons by (cases rest') (auto simp: Let_def seqE_def result_simps split: if_splits)
    then show ?thesis
    proof cases
      case 1
      with less.prems show ?thesis by simp
    next
      case 2
      with less.hyps [of rest'] less.prems Cons show ?thesis by simp
    next
      case (3 l body x)
      have "opayload y = PGeneric" if "(k, y) \<in> set (mm_insert (ucast t) x acc)" for y
      proof (cases "y = x \<and> ucast t = k")
        case True
        with 3(2) d show ?thesis by (auto dest: uint8_array_generic)
      next
        case False
        with that less.prems(2) show ?thesis by (auto simp: set_mm_insert)
      qed
      moreover have "length (drop (unat l) body) < length rest" using Cons 3(1) by simp
      ultimately show ?thesis using less.hyps 3(3) by blast
    qed
  qed
qed

lemma prl_definition:
  "\<exists>d. defs_with_code std_defs4 55 = [d] \<and> def_type d = OPT_UINT8_TYPE \<and> array_type d"
proof -
  have "map (\<lambda>d. (def_type d, array_type d)) (defs_with_code std_defs4 55) = [(OPT_UINT8_TYPE, True)]" by code_simp
  then show ?thesis by (cases "defs_with_code std_defs4 55") auto
qed

lemma unpacked_options:
  assumes "Pkt4_unpack p = Inr q"
  obtains buf r where "LibDHCP_unpackOptions4 buf (p4_options p) = Inr r" "p4_options q = fst (snd r)"
  using assms by (auto simp: Pkt4_unpack_def Let_def result_simps split: if_splits prod.splits)

text \<open>The options a client asks for in its parameter request list are never looked at: the list is
  defined as an array of 8-bit integers, which the parser turns into a generic option, while
  \<^verbatim>\<open>appendRequestedOptions\<close> looks for an option of the class for such arrays. Whatever datagram was
  received and whatever is configured, no requested option is added to the answer.\<close>

theorem requested_options_ignored:
  assumes "Pkt4_unpack p = Inr q" "p4_options p = []" "appendRequestedOptions4 c q msg = Inr msg'"
  shows "msg' = msg"
proof -
  obtain buf n os rm where r: "LibDHCP_unpackOptions4 buf [] = Inr (n, os, rm)" "p4_options q = os"
    using unpacked_options [OF assms(1)] assms(2) by (metis prod.collapse)
  obtain d where d: "defs_with_code std_defs4 55 = [d]" "def_type d = OPT_UINT8_TYPE" "array_type d"
    using prl_definition by blast
  have gen: "\<forall>x. (55, x) \<in> set os \<longrightarrow> opayload x = PGeneric"
    using unpack4_generic [OF d, of buf 0 "[]" n os rm] r(1) by (simp add: LibDHCP_unpackOptions4_def getOptionDefs4)
  have "map_option opayload (Pkt4_getOption (ucast DHO_DHCP_PARAMETER_REQUEST_LIST) q) \<in> {None, Some PGeneric}"
    using gen r(2) by (cases "map_of os 55") (auto simp: Pkt4_getOption_def dest: map_of_SomeD)
  with assms(3) show ?thesis
    by (auto simp: appendRequestedOptions4_def result_simps split: option.splits)
qed

definition example_datagram :: pkt4 where
  "example_datagram = Pkt4_blank\<lparr>p4_data := [1, 1] @ replicate 234 0 @ [0x63, 0x82, 0x53, 0x63, 53, 1, 1, 55, 2, 3, 6, 255]\<rparr>"

lemma example_datagram_parses:
  "\<exists>q. Pkt4_unpack example_datagram = Inr q \<and> Pkt4_getOption 55 q = Some (Opt UV4 55 [3, 6] PGeneric [])"
proof -
  have "(case Pkt4_unpack example_datagram of Inl _ \<Rightarrow> None | Inr q \<Rightarrow> Pkt4_getOption 55 q) = Some (Opt UV4 55 [3, 6] PGeneric [])"
    unfolding Pkt4_unpack_def LibDHCP_unpackOptions4_def getOptionDefs4 by code_simp
  then show ?thesis by (auto split: sum.splits)
qed

theorem requested_options_ignored_witness:
  "\<exists>q. Pkt4_unpack example_datagram = Inr q \<and> Pkt4_getOption 55 q = Some (Opt UV4 55 [3, 6] PGeneric []) \<and>
     (\<forall>msg'. appendRequestedOptions4 example_cfg q Pkt4_blank = Inr msg' \<longrightarrow> msg' = Pkt4_blank)"
proof -
  obtain q where q: "Pkt4_unpack example_datagram = Inr q" "Pkt4_getOption 55 q = Some (Opt UV4 55 [3, 6] PGeneric [])"
    using example_datagram_parses by blast
  have "p4_options example_datagram = []" by (simp add: example_datagram_def Pkt4_blank_def)
  with q requested_options_ignored [OF q(1)] show ?thesis by blast
qed

end
