(* ===== verification/Option_Custom.thy ===== *)
theory Option_Custom
  imports Options
begin

text \<open>
  Custom options that are built from a definition and filled field by field
  (\<^verbatim>\<open>src/lib/dhcp/option_custom.{h,cc}\<close>): the constructor without data and the typed access to
  fields. A custom option is an \<^const>\<open>Opt\<close> with payload \<^const>\<open>PCustom\<close>; the operations that
  replace a field act on its buffers. Integer fields are read and written unsigned.
\<close>

text \<open>\<^verbatim>\<open>OptionDataTypeTraits<T>::type\<close>\<close>

fun kind_type :: "IntKind \<Rightarrow> OptionDataType" where
  "kind_type TU8 = OPT_UINT8_TYPE" | "kind_type TI8 = OPT_INT8_TYPE"
| "kind_type TU16 = OPT_UINT16_TYPE" | "kind_type TI16 = OPT_INT16_TYPE"
| "kind_type TU32 = OPT_UINT32_TYPE" | "kind_type TI32 = OPT_INT32_TYPE"

text \<open>The default of a field; \<^verbatim>\<open>writeFqdn(".", buf)\<close> writes the root name, a zero byte.\<close>

definition default_buffer :: "OptionDataType \<Rightarrow> bytes" where
  "default_buffer field =
     (let data_size = getDataTypeLen field in
      if data_size = 0 \<and> field = OPT_FQDN_TYPE then [0] else replicate data_size 0)"

definition createBuffers_default :: "OptionDefinition \<Rightarrow> bytes list result" where
  "createBuffers_default d =
     bindE (validate d) (\<lambda>_.
       let data_type = def_type d in
       Inr (if data_type = OPT_RECORD_TYPE then map default_buffer (record_fields d)
            else if \<not> array_type d \<and> data_type \<noteq> OPT_EMPTY_TYPE then [default_buffer data_type]
            else []))"

definition mk_OptionCustom_empty :: "OptionDefinition \<Rightarrow> Universe \<Rightarrow> opt result" where
  "mk_OptionCustom_empty d u =
     bindE (check u (def_code d) []) (\<lambda>_.
       bindE (createBuffers_default d) (\<lambda>bufs. Inr (Opt u (def_code d) [] (PCustom d bufs) [])))"

definition checkDataType :: "OptionDefinition \<Rightarrow> IntKind \<Rightarrow> nat \<Rightarrow> unit result" where
  "checkDataType d k index =
     bindE (if def_type d = OPT_RECORD_TYPE then
              (if index < length (record_fields d) then Inr (record_fields d ! index) else Inl AssertionFailed)
            else Inr (def_type d))
       (\<lambda>data_type. if kind_type k \<noteq> data_type then Inl InvalidDataType else Inr ())"

definition custom_readInteger :: "OptionDefinition \<Rightarrow> IntKind \<Rightarrow> nat \<Rightarrow> bytes list \<Rightarrow> nat result" where
  "custom_readInteger d k index bufs =
     bindE (checkIndex bufs index) (\<lambda>_.
     bindE (checkDataType d k index) (\<lambda>_.
       if length (bufs ! index) \<noteq> int_len k then Inl AssertionFailed
       else readInt (int_len k) (bufs ! index)))"

definition custom_writeInteger :: "OptionDefinition \<Rightarrow> IntKind \<Rightarrow> nat \<Rightarrow> nat \<Rightarrow> bytes list \<Rightarrow> bytes list result" where
  "custom_writeInteger d k value index bufs =
     bindE (checkIndex bufs index) (\<lambda>_.
     bindE (checkDataType d k index) (\<lambda>_.
       Inr (bufs[index := writeInt (int_len k) value []])))"

definition custom_addArrayBoolean :: "OptionDefinition \<Rightarrow> bool \<Rightarrow> bytes list \<Rightarrow> bytes list result" where
  "custom_addArrayBoolean d value bufs =
     (if \<not> array_type d then Inl InvalidOperation else Inr (bufs @ [writeBool value []]))"

text \<open>Apply an operation on the buffers to a custom option.\<close>

definition on_buffers :: "(OptionDefinition \<Rightarrow> bytes list \<Rightarrow> bytes list result) \<Rightarrow> opt \<Rightarrow> opt result" where
  "on_buffers f o1 =
     (case opayload o1 of
        PCustom d bufs \<Rightarrow>
          bindE (f d bufs) (\<lambda>bufs'. Inr (Opt (universe o1) (otype o1) (odata o1) (PCustom d bufs') (suboptions o1)))
      | _ \<Rightarrow> Inl AssertionFailed)"

section \<open>A field that was written is read back\<close>

lemma length_writeInt: "length (writeInt (int_len k) v []) = int_len k"
  by (cases k) (auto simp: writeInt_def writeUint16_def writeUint32_def)

lemma readInt_writeInt: "readInt (int_len k) (writeInt (int_len k) v []) = Inr (v mod 2 ^ (8 * int_len k))"
  by (cases k) (auto simp: readInt_def writeInt_def readUint16_writeUint16 [where rest = "[]", simplified]
      readUint32_writeUint32 [where rest = "[]", simplified] unat_of_nat length_writeUint)

lemma read_written_integer:
  assumes "custom_writeInteger d k v i bufs = Inr bufs'"
  shows "custom_readInteger d k i bufs' = Inr (v mod 2 ^ (8 * int_len k)) \<and>
    length bufs' = length bufs \<and> (\<forall>j. j \<noteq> i \<longrightarrow> bufs' ! j = bufs ! j)"
  using assms
  by (auto simp: custom_writeInteger_def custom_readInteger_def result_simps checkIndex_def length_writeInt
      readInt_writeInt split: if_splits)

end
