(* ===== verification/Dhcp6_Srv.thy ===== *)
theory Dhcp6_Srv
  imports Cfg_Mgr Alloc_Safety6 Iface_Mgr Option_Custom
begin

text \<open>
  The DHCPv6 server, \<^verbatim>\<open>src/bin/dhcp6/dhcp6_srv.cc\<close>, with the DHCPv4-over-DHCPv6 handlers. Beside the
  configuration, the lease database and the server identifier, the state holds \<^verbatim>\<open>map4o6\<close>, the
  queries that were passed on to the DHCPv4 server, and what was written to the channel to it. The
  environment says whether the channel can be connected to. As in the model of the DHCPv4 server, the
  answer is taken and returned and log messages are left out.

  \<^verbatim>\<open>map4o6\<close> is keyed by the four bytes at offset 4 of the DHCPv4 message, read in host order through a
  cast; only equality of keys matters, and they are read in network order here, where they are the
  transaction id.
\<close>

record 's Dhcpv6Srv =
  s6_cfg :: CfgMgr
  s6_leases :: 's
  s6_serverid :: "opt option"
  s6_map4o6 :: "u32 \<rightharpoonup> pkt6"
  s6_to_dhcp4 :: "bytes list"

record 's Env6 =
  e6_engine :: AllocEngine
  e6_mgr :: "'s LeaseMgr"
  e6_now :: int
  e6_connects :: bool

section \<open>The server identifier\<close>

definition MIN_MAC_LEN :: nat where "MIN_MAC_LEN = 6"
definition DUID_TIME_EPOCH :: int where "DUID_TIME_EPOCH = 946684800"
definition DHCP6_CLIENT_PORT :: u16 where "DHCP6_CLIENT_PORT = 546"
definition DHCP6_SERVER_PORT :: u16 where "DHCP6_SERVER_PORT = 547"

definition isRangeZero :: "bytes \<Rightarrow> bool" where
  "isRangeZero bs \<longleftrightarrow> list_all (\<lambda>b. b = 0) bs"

definition suitable_iface :: "Iface \<Rightarrow> bool" where
  "suitable_iface i \<longleftrightarrow> \<not> length (if_mac i) < MIN_MAC_LEN \<and> \<not> if_loopback i \<and> if_up i \<and> \<not> isRangeZero (if_mac i)"

text \<open>\<open>random\<close> are the six bytes \<^verbatim>\<open>fillRandom\<close> produces.\<close>

definition generateServerID6 :: "Iface list \<Rightarrow> int \<Rightarrow> bytes \<Rightarrow> opt result" where
  "generateServerID6 ifaces now random =
     (case find suitable_iface ifaces of
        Some iface \<Rightarrow>
          mk_Option UV6 D6O_SERVERID (writeUint16 1 @ writeUint16 1 @
            writeUint32 (word_of_int (now - DUID_TIME_EPOCH)) @ if_mac iface)
      | None \<Rightarrow> mk_Option UV6 D6O_SERVERID (writeUint16 2 @ writeUint32 2495 @ take 6 random))"

definition duidToString :: "opt \<Rightarrow> string" where
  "duidToString opt = hex_text (odata opt)"

section \<open>Helpers of the handlers\<close>

definition selectSubnet6 :: "pkt6 \<Rightarrow> CfgMgr \<Rightarrow> nat option result" where
  "selectSubnet6 question c =
     (case getSubnet6_iface (p6_iface question) c of
        Some i \<Rightarrow> Inr (Some i)
      | None \<Rightarrow> getSubnet6 (p6_remote_addr question) c)"

definition copyDefaultOptions :: "pkt6 \<Rightarrow> pkt6 \<Rightarrow> pkt6" where
  "copyDefaultOptions question answer =
     (case Pkt6_getOption D6O_CLIENTID question of
        Some clientid \<Rightarrow> Pkt6_addOption clientid answer
      | None \<Rightarrow> answer)"

definition appendDefaultOptions6 :: "opt option \<Rightarrow> pkt6 \<Rightarrow> pkt6 result" where
  "appendDefaultOptions6 serverid answer =
     (case serverid of None \<Rightarrow> Inl NullPointer | Some srvid \<Rightarrow> Inr (Pkt6_addOption srvid answer))"

definition add_configured6 :: "Subnet6 \<Rightarrow> u16 \<Rightarrow> pkt6 \<Rightarrow> pkt6" where
  "add_configured6 subnet code answer =
     (case od_option (getOptionDescriptor ''dhcp6'' code subnet) of
        Some option \<Rightarrow> Pkt6_addOption option answer
      | None \<Rightarrow> answer)"

definition appendRequestedOptions6 :: "CfgMgr \<Rightarrow> pkt6 \<Rightarrow> pkt6 \<Rightarrow> pkt6 result" where
  "appendRequestedOptions6 c question answer =
     bindE (selectSubnet6 question c) (\<lambda>subnet.
       case subnet of
         None \<Rightarrow> Inr answer
       | Some i \<Rightarrow>
           (case map_option opayload (Pkt6_getOption D6O_ORO question) of
              Some (PIntArray TU16 requested_opts) \<Rightarrow>
                Inr (fold (\<lambda>code. add_configured6 (cfg_subnets6 c ! i) (word_of_nat code)) requested_opts answer)
            | _ \<Rightarrow> Inr answer))"

definition ascii :: "string \<Rightarrow> bytes" where
  "ascii s = map of_char s"

definition createStatusCode :: "u16 \<Rightarrow> string \<Rightarrow> opt result" where
  "createStatusCode code text =
     bindE (getOptionDef UV6 D6O_STATUS_CODE) (\<lambda>status_code_def.
       case status_code_def of
         None \<Rightarrow> Inl AssertionFailed
       | Some d \<Rightarrow>
           bindE (mk_OptionCustom_empty d UV6) (\<lambda>option_status.
           bindE (on_buffers (\<lambda>d. custom_writeInteger d TU16 (unat code) 0) option_status) (\<lambda>option_status.
             on_buffers (\<lambda>_. custom_writeString (ascii text) 1) option_status)))"

definition sanityCheck6 :: "pkt6 \<Rightarrow> RequirementLevel \<Rightarrow> RequirementLevel \<Rightarrow> unit result" where
  "sanityCheck6 pkt clientid serverid =
     (let client_ids = Pkt6_getOptions D6O_CLIENTID pkt; server_ids = Pkt6_getOptions D6O_SERVERID pkt in
      bindE (case clientid of
               MANDATORY \<Rightarrow> guardE (length client_ids = 1) RFCViolation
             | OPTIONAL \<Rightarrow> guardE (length client_ids \<le> 1) RFCViolation
             | FORBIDDEN \<Rightarrow> Inr ()) (\<lambda>_.
        case serverid of
          FORBIDDEN \<Rightarrow> guardE (server_ids = []) RFCViolation
        | MANDATORY \<Rightarrow> guardE (length server_ids = 1) RFCViolation
        | OPTIONAL \<Rightarrow> guardE (length server_ids \<le> 1) RFCViolation))"

section \<open>Identity associations\<close>

text \<open>\<^verbatim>\<open>dynamic_pointer_cast<Option6IA>\<close> gives a null pointer for an option of another class.\<close>

definition getIAID :: "opt \<Rightarrow> u32 result" where
  "getIAID ia = (case opayload ia of PIA iaid _ _ \<Rightarrow> Inr iaid | _ \<Rightarrow> Inl NullPointer)"

definition ia_address :: "opt \<Rightarrow> ioaddress option" where
  "ia_address ia =
     (case getOption D6O_IAADDR ia of
        Some o1 \<Rightarrow> (case opayload o1 of PIAAddr addr _ _ \<Rightarrow> Some addr | _ \<Rightarrow> None)
      | None \<Rightarrow> None)"

definition set_timers :: "u32 \<Rightarrow> u32 \<Rightarrow> opt \<Rightarrow> opt" where
  "set_timers t1 t2 ia =
     (case opayload ia of
        PIA iaid _ _ \<Rightarrow> Opt (universe ia) (otype ia) (odata ia) (PIA iaid t1 t2) (suboptions ia)
      | _ \<Rightarrow> ia)"

text \<open>The three shapes of an answer: a status, or the address of a lease.\<close>

definition ia_status :: "u32 \<Rightarrow> u16 \<Rightarrow> string \<Rightarrow> opt result" where
  "ia_status iaid code text =
     bindE (mk_Option6IA D6O_IA_NA iaid) (\<lambda>ia_rsp.
     bindE (createStatusCode code text) (\<lambda>status. addOption status ia_rsp))"

definition ia_lease :: "u32 \<Rightarrow> Subnet6 \<Rightarrow> Lease6 \<Rightarrow> opt result" where
  "ia_lease iaid subnet lease =
     bindE (mk_Option6IA D6O_IA_NA iaid) (\<lambda>ia_rsp.
     bindE (mk_Option6IAAddr D6O_IAADDR (l_addr lease) (l6_preferred_lft lease) (l_valid_lft lease)) (\<lambda>addr.
       addOption addr (set_timers (tr_default (sn_t1 subnet)) (tr_default (sn_t2 subnet)) ia_rsp)))"

definition at_subnet6 :: "nat \<Rightarrow> ('s \<times> Subnet6 option, 'a) eff \<Rightarrow> ('s Dhcpv6Srv, 'a) eff" where
  "at_subnet6 i =
     zoomS (\<lambda>s. (s6_leases s, Some (cfg_subnets6 (s6_cfg s) ! i)))
       (\<lambda>(d, sn) s. s\<lparr>s6_leases := d,
          s6_cfg := (s6_cfg s)\<lparr>cfg_subnets6 :=
            (case sn of None \<Rightarrow> cfg_subnets6 (s6_cfg s) | Some n \<Rightarrow> (cfg_subnets6 (s6_cfg s))[i := n])\<rparr>\<rparr>)"

abbreviation leasesS6 :: "('s, 'a) eff \<Rightarrow> ('s Dhcpv6Srv, 'a) eff" where
  "leasesS6 \<equiv> zoomS s6_leases (\<lambda>d s. s\<lparr>s6_leases := d\<rparr>)"

definition assignIA_NA :: "'s Env6 \<Rightarrow> nat option \<Rightarrow> DUID \<Rightarrow> pkt6 \<Rightarrow> opt \<Rightarrow> ('s Dhcpv6Srv, opt) eff" where
  "assignIA_NA e subnet duid question ia =
     bindS (liftS (getIAID ia)) (\<lambda>iaid.
       case subnet of
         None \<Rightarrow> liftS (ia_status iaid STATUS_NoAddrsAvail ''Sorry, no subnet available.'')
       | Some i \<Rightarrow>
           (let hint = (case ia_address ia of Some addr \<Rightarrow> addr | None \<Rightarrow> IPv6 0);
                fake_allocation = (p6_msg_type question = DHCPV6_SOLICIT)
            in bindS (at_subnet6 i (allocateAddress6 (e6_engine e) (e6_mgr e) (e6_now e) (Some duid) iaid hint
                        fake_allocation)) (\<lambda>lease.
                 case lease of
                   Some l \<Rightarrow> askS (\<lambda>s. ia_lease iaid (cfg_subnets6 (s6_cfg s) ! i) l)
                 | None \<Rightarrow> liftS (ia_status iaid STATUS_NoAddrsAvail ''Sorry, no address could be allocated.''))))"

definition renewed6 :: "Subnet6 \<Rightarrow> int \<Rightarrow> Lease6 \<Rightarrow> Lease6" where
  "renewed6 subnet now l =
     l\<lparr>l6_preferred_lft := tr_default (sn_preferred subnet), l_valid_lft := tr_default (sn_valid subnet),
       l_t1 := tr_default (sn_t1 subnet), l_t2 := tr_default (sn_t2 subnet), l_cltt := now\<rparr>"

definition renewIA_NA :: "'s Env6 \<Rightarrow> nat option \<Rightarrow> DUID \<Rightarrow> opt \<Rightarrow> ('s Dhcpv6Srv, opt) eff" where
  "renewIA_NA e subnet duid ia =
     bindS (liftS (getIAID ia)) (\<lambda>iaid.
       case subnet of
         None \<Rightarrow> liftS (ia_status iaid STATUS_NoBinding ''Sorry, no known leases for this duid/iaid.'')
       | Some i \<Rightarrow>
           bindS (askS (\<lambda>s. Inr (cfg_subnets6 (s6_cfg s) ! i))) (\<lambda>sn.
           bindS (leasesS6 (askS (getLease6_duid_iaid_subnet (e6_mgr e) duid iaid (sn_id sn)))) (\<lambda>lease.
             case lease of
               None \<Rightarrow> liftS (ia_status iaid STATUS_NoBinding ''Sorry, no known leases for this duid/iaid.'')
             | Some l0 \<Rightarrow>
                 (let l = renewed6 sn (e6_now e) l0
                  in thenS (leasesS6 (modS (assign6 (e6_mgr e) l)))
                    (thenS (leasesS6 (updateLease6 (e6_mgr e) l))
                      (liftS (ia_lease iaid sn l)))))))"

text \<open>The new value of \<^verbatim>\<open>general_status\<close> comes with the answer.\<close>

definition releaseIA_NA :: "'s Env6 \<Rightarrow> DUID \<Rightarrow> u16 \<Rightarrow> opt \<Rightarrow> ('s Dhcpv6Srv, opt \<times> u16) eff" where
  "releaseIA_NA e duid general_status ia =
     bindS (liftS (getIAID ia)) (\<lambda>iaid.
     let reply = (\<lambda>code text new_status. liftS (bindE (ia_status iaid code text) (\<lambda>o1. Inr (o1, new_status))))
     in case ia_address ia of
          None \<Rightarrow> reply STATUS_NoBinding ''You did not include address in your RELEASE'' STATUS_NoBinding
        | Some addr \<Rightarrow>
            bindS (leasesS6 (askS (getLease6 (e6_mgr e) addr))) (\<lambda>lease.
              case lease of
                None \<Rightarrow> reply STATUS_NoBinding ''Sorry, no known leases for this duid/iaid, can't release.'' STATUS_NoBinding
              | Some l \<Rightarrow>
                  if l6_duid l = None then
                    reply STATUS_UnspecFail ''Database consistency check failed when trying to RELEASE'' STATUS_UnspecFail
                  else if l6_duid l \<noteq> Some duid then
                    reply STATUS_NoBinding ''This address does not belong to you, you can't release it'' STATUS_NoBinding
                  else if iaid \<noteq> l6_iaid l then
                    reply STATUS_NoBinding ''This is your address, but you used wrong IAID'' STATUS_NoBinding
                  else
                    bindS (leasesS6 (deleteLease (e6_mgr e) (l_addr l))) (\<lambda>deleted.
                      if \<not> deleted then
                        reply STATUS_UnspecFail ''Server failed to release a lease'' STATUS_UnspecFail
                      else
                        reply STATUS_Success ''Lease released. Thank you, please come again.'' general_status)))"

section \<open>All the IAs of a message\<close>

definition ias :: "pkt6 \<Rightarrow> opt list" where
  "ias p = filter (\<lambda>o1. otype o1 = D6O_IA_NA) (map snd (p6_options p))"

definition assignLeases :: "'s Env6 \<Rightarrow> pkt6 \<Rightarrow> pkt6 \<Rightarrow> ('s Dhcpv6Srv, pkt6) eff" where
  "assignLeases e question answer =
     bindS (askS (\<lambda>s. selectSubnet6 question (s6_cfg s))) (\<lambda>subnet.
       case Pkt6_getOption D6O_CLIENTID question of
         None \<Rightarrow> throwS RFCViolation
       | Some opt_duid \<Rightarrow>
           bindS (liftS (mk_DUID (odata opt_duid))) (\<lambda>duid.
             foldS (\<lambda>ia answer. bindS (assignIA_NA e subnet duid question ia) (\<lambda>answer_opt.
               retS (Pkt6_addOption answer_opt answer))) (ias question) answer))"

definition renewLeases :: "'s Env6 \<Rightarrow> pkt6 \<Rightarrow> pkt6 \<Rightarrow> ('s Dhcpv6Srv, pkt6) eff" where
  "renewLeases e renew reply =
     bindS (askS (\<lambda>s. selectSubnet6 renew (s6_cfg s))) (\<lambda>subnet.
       case Pkt6_getOption D6O_CLIENTID renew of
         None \<Rightarrow> liftS (bindE (createStatusCode STATUS_UnspecFail ''You did not include mandatory client-id'') (\<lambda>st.
           Inr (Pkt6_addOption st reply)))
       | Some opt_duid \<Rightarrow>
           bindS (liftS (mk_DUID (odata opt_duid))) (\<lambda>duid.
             foldS (\<lambda>ia reply. bindS (renewIA_NA e subnet duid ia) (\<lambda>answer_opt.
               retS (Pkt6_addOption answer_opt reply))) (ias renew) reply))"

definition releaseLeases :: "'s Env6 \<Rightarrow> pkt6 \<Rightarrow> pkt6 \<Rightarrow> ('s Dhcpv6Srv, pkt6) eff" where
  "releaseLeases e release reply =
     (case Pkt6_getOption D6O_CLIENTID release of
        None \<Rightarrow> liftS (bindE (createStatusCode STATUS_UnspecFail ''You did not include mandatory client-id'') (\<lambda>st.
          Inr (Pkt6_addOption st reply)))
      | Some opt_duid \<Rightarrow>
          bindS (liftS (mk_DUID (odata opt_duid))) (\<lambda>duid.
          bindS (foldS (\<lambda>ia (reply, general_status).
              bindS (releaseIA_NA e duid general_status ia) (\<lambda>(answer_opt, general_status).
                retS (Pkt6_addOption answer_opt reply, general_status))) (ias release) (reply, STATUS_Success))
            (\<lambda>(reply, general_status).
              liftS (bindE (createStatusCode general_status ''Summary status for all processed IA_NAs'') (\<lambda>st.
                Inr (Pkt6_addOption st reply))))))"

section \<open>The handlers\<close>



definition processSolicit6 :: "'s Env6 \<Rightarrow> pkt6 \<Rightarrow> ('s Dhcpv6Srv, pkt6) eff" where
  "processSolicit6 e solicit =
     thenS (liftS (sanityCheck6 solicit MANDATORY FORBIDDEN))
     (bindS (askS (\<lambda>s. appendDefaultOptions6 (s6_serverid s)
         (copyDefaultOptions solicit (mk_Pkt6 DHCPV6_ADVERTISE (p6_transid solicit))))) (\<lambda>advertise.
      bindS (askS (\<lambda>s. appendRequestedOptions6 (s6_cfg s) solicit advertise)) (\<lambda>advertise.
        assignLeases e solicit advertise)))"

definition processRequest6 :: "'s Env6 \<Rightarrow> pkt6 \<Rightarrow> ('s Dhcpv6Srv, pkt6) eff" where
  "processRequest6 e request =
     thenS (liftS (sanityCheck6 request MANDATORY MANDATORY))
     (bindS (askS (\<lambda>s. appendDefaultOptions6 (s6_serverid s)
         (copyDefaultOptions request (mk_Pkt6 DHCPV6_REPLY (p6_transid request))))) (\<lambda>reply.
      bindS (askS (\<lambda>s. appendRequestedOptions6 (s6_cfg s) request reply)) (\<lambda>reply.
        assignLeases e request reply)))"

definition processRenew6 :: "'s Env6 \<Rightarrow> pkt6 \<Rightarrow> ('s Dhcpv6Srv, pkt6) eff" where
  "processRenew6 e renew =
     thenS (liftS (sanityCheck6 renew MANDATORY MANDATORY))
     (bindS (askS (\<lambda>s. appendDefaultOptions6 (s6_serverid s)
         (copyDefaultOptions renew (mk_Pkt6 DHCPV6_REPLY (p6_transid renew))))) (\<lambda>reply.
      bindS (askS (\<lambda>s. appendRequestedOptions6 (s6_cfg s) renew reply)) (\<lambda>reply.
        renewLeases e renew reply)))"

definition processRelease6 :: "'s Env6 \<Rightarrow> pkt6 \<Rightarrow> ('s Dhcpv6Srv, pkt6) eff" where
  "processRelease6 e release =
     thenS (liftS (sanityCheck6 release MANDATORY MANDATORY))
     (bindS (askS (\<lambda>s. appendDefaultOptions6 (s6_serverid s)
         (copyDefaultOptions release (mk_Pkt6 DHCPV6_REPLY (p6_transid release))))) (\<lambda>reply.
        releaseLeases e release reply))"

definition processRebind :: "pkt6 \<Rightarrow> pkt6" where
  "processRebind rebind = mk_Pkt6 DHCPV6_REPLY (p6_transid rebind)"

definition processConfirm :: "pkt6 \<Rightarrow> pkt6" where
  "processConfirm confirm = mk_Pkt6 DHCPV6_REPLY (p6_transid confirm)"

definition processDecline6 :: "pkt6 \<Rightarrow> pkt6" where
  "processDecline6 decline = mk_Pkt6 DHCPV6_REPLY (p6_transid decline)"

definition processInfRequest :: "pkt6 \<Rightarrow> pkt6" where
  "processInfRequest infRequest = mk_Pkt6 DHCPV6_REPLY (p6_transid infRequest)"

section \<open>DHCPv4 over DHCPv6\<close>

text \<open>The transaction id of a DHCPv4 message, read through a pointer without a look at the length. For a message of
  fewer than eight bytes the code reads memory behind the end of the vector, which C++ leaves undefined (a build usually
  goes on with the bytes it finds there as the key). The model ends the run there, with an error the loop does
  not catch, instead of choosing a value: what happens after such a read is outside the model.\<close>

definition peek_xid :: "bytes \<Rightarrow> u32 result" where
  "peek_xid data = readUint32 (drop 4 data)"

definition processDHCPv4Query :: "'s Env6 \<Rightarrow> pkt6 \<Rightarrow> ('s Dhcpv6Srv, pkt6 option) eff" where
  "processDHCPv4Query e request =
     (case Pkt6_getOption OPTION_DHCPV4_MSG request of
        None \<Rightarrow> throwS NullPointer
      | Some opt \<Rightarrow>
          if \<not> e6_connects e then retS None
          else
            thenS (modS (\<lambda>s. s\<lparr>s6_to_dhcp4 := s6_to_dhcp4 s @ [odata opt]\<rparr>))
            (bindS (liftS (peek_xid (odata opt))) (\<lambda>identifier.
             thenS (modS (\<lambda>s. s\<lparr>s6_map4o6 := (s6_map4o6 s)(identifier \<mapsto> request)\<rparr>))
             (retS None))))"

text \<open>The parameter is a reference to the pointer \<^verbatim>\<open>query\<close> of the loop, which afterwards points at
  the query that is answered: the second component of the result.\<close>

definition processDHCPv4Response :: "pkt6 \<Rightarrow> ('s Dhcpv6Srv, pkt6 option \<times> pkt6) eff" where
  "processDHCPv4Response request =
     bindS (liftS (peek_xid (p6_data4o6 request))) (\<lambda>identifier.
     bindS (askS (\<lambda>s. Inr (s6_map4o6 s identifier))) (\<lambda>found.
       case found of
         None \<Rightarrow> retS (None, request)
       | Some original \<Rightarrow>
           thenS (modS (\<lambda>s. s\<lparr>s6_map4o6 := (s6_map4o6 s)(identifier := None)\<rparr>))
           (bindS (askS (\<lambda>s. appendDefaultOptions6 (s6_serverid s) (copyDefaultOptions original request))) (\<lambda>reply.
            bindS (askS (\<lambda>s. appendRequestedOptions6 (s6_cfg s) original reply)) (\<lambda>reply.
            bindS (liftS (mk_Option UV6 OPTION_DHCPV4_MSG (p6_data4o6 reply))) (\<lambda>option.
              retS (Some (Pkt6_addOption option reply), original)))))))"

section \<open>The server loop\<close>

definition dispatch6 :: "'s Env6 \<Rightarrow> pkt6 \<Rightarrow> ('s Dhcpv6Srv, pkt6 option \<times> pkt6) eff" where
  "dispatch6 e query =
     (let type = p6_msg_type query; answer = (\<lambda>m. bindS m (\<lambda>rsp. retS (Some rsp, query))) in
      catchS
        (if type = DHCPV6_SOLICIT then answer (processSolicit6 e query)
         else if type = DHCPV6_REQUEST then answer (processRequest6 e query)
         else if type = DHCPV6_RENEW then answer (processRenew6 e query)
         else if type = DHCPV6_REBIND then answer (retS (processRebind query))
         else if type = DHCPV6_CONFIRM then answer (retS (processConfirm query))
         else if type = DHCPV6_RELEASE then answer (processRelease6 e query)
         else if type = DHCPV6_DECLINE then answer (retS (processDecline6 query))
         else if type = DHCPV6_INFORMATION_REQUEST then answer (retS (processInfRequest query))
         else if type = DHCPV4_QUERY then bindS (processDHCPv4Query e query) (\<lambda>rsp. retS (rsp, query))
         else if type = DHCPV4_RESPONSE then processDHCPv4Response query
         else retS (None, query))
        (\<lambda>_. retS (None, query)))"

definition address_response6 :: "pkt6 \<Rightarrow> pkt6 \<Rightarrow> pkt6" where
  "address_response6 query rsp =
     rsp\<lparr>p6_remote_addr := p6_remote_addr query, p6_local_addr := p6_local_addr query,
         p6_remote_port := DHCP6_CLIENT_PORT, p6_local_port := DHCP6_SERVER_PORT,
         p6_ifindex := p6_ifindex query, p6_iface := p6_iface query\<rparr>"

text \<open>One round of \<^verbatim>\<open>run\<close> on a received packet, up to the call of \<^verbatim>\<open>IfaceMgr::send\<close>. A packet that
  was made by \<^verbatim>\<open>receive4to6\<close> has its type already and is not parsed.\<close>

definition run6 :: "'s Env6 \<Rightarrow> pkt6 \<Rightarrow> ('s Dhcpv6Srv, pkt6 option) eff" where
  "run6 e received =
     bindS (liftS (if p6_msg_type received \<noteq> DHCPV4_RESPONSE then Pkt6_unpack received else Inr (received, True)))
       (\<lambda>(query, parsed).
          if \<not> parsed then retS None
          else bindS (dispatch6 e query) (\<lambda>(rsp, query).
            case rsp of
              None \<Rightarrow> retS None
            | Some r \<Rightarrow>
                bindS (liftS (Pkt6_pack (address_response6 query r))) (\<lambda>(packed, ok).
                  if ok then retS (Some packed) else retS None)))"

end
