(* ===== verification/Dhcp6_Safety.thy ===== *)
theory Dhcp6_Safety
  imports Dhcp6_Srv Alloc_State
begin

text \<open>
  What the DHCPv6 server does with the lease database, on the in-memory backend: the invariant over any
  packet, the leases its answers promise, and what RENEW and RELEASE change.
\<close>

section \<open>The shape of the answers\<close>

text \<open>An IA_NA that carries a status code, and one that carries the address of a lease.\<close>

definition status_option :: "OptionDefinition \<Rightarrow> u16 \<Rightarrow> string \<Rightarrow> opt" where
  "status_option d code text = Opt UV6 13 [] (PCustom d [writeUint16 code, ascii text]) []"

definition status_IA :: "u32 \<Rightarrow> u16 \<Rightarrow> opt \<Rightarrow> bool" where
  "status_IA iaid code x \<longleftrightarrow>
     (\<exists>d text. getOptionDef UV6 13 = Inr (Some d) \<and> x = Opt UV6 3 [] (PIA iaid 0 0) [(13, status_option d code text)])"

definition lease_IA :: "u32 \<Rightarrow> Subnet6 \<Rightarrow> Lease6 \<Rightarrow> opt" where
  "lease_IA iaid sn l = Opt UV6 3 [] (PIA iaid (tr_default (sn_t1 sn)) (tr_default (sn_t2 sn)))
     [(5, Opt UV6 5 [] (PIAAddr (l_addr l) (l6_preferred_lft l) (l_valid_lft l)) [])]"

lemma status_code_definition:
  "\<exists>d. getOptionDef UV6 13 = Inr (Some d) \<and> validate d = Inr () \<and> def_code d = 13 \<and> def_type d = OPT_RECORD_TYPE \<and>
     record_fields d = [OPT_UINT16_TYPE, OPT_STRING_TYPE]"
proof -
  have "(case getOptionDef UV6 13 of Inr (Some d) \<Rightarrow> validate d = Inr () \<and> def_code d = 13 \<and> def_type d = OPT_RECORD_TYPE \<and>
     record_fields d = [OPT_UINT16_TYPE, OPT_STRING_TYPE] | _ \<Rightarrow> False)"
    by code_simp
  then show ?thesis by (auto split: sum.splits option.splits)
qed

lemma createStatusCode_eq:
  "\<exists>d. getOptionDef UV6 13 = Inr (Some d) \<and> createStatusCode code text = Inr (status_option d code text)"
proof -
  obtain d where d: "getOptionDef UV6 13 = Inr (Some d)" "validate d = Inr ()" "def_code d = 13"
    "def_type d = OPT_RECORD_TYPE" "record_fields d = [OPT_UINT16_TYPE, OPT_STRING_TYPE]"
    using status_code_definition by blast
  then have "createStatusCode code text = Inr (status_option d code text)"
    by (simp add: createStatusCode_def mk_OptionCustom_empty_def check_def createBuffers_default_def on_buffers_def
        custom_writeInteger_def checkIndex_def checkDataType_def custom_writeString_def default_buffer_def
        status_option_def writeInt_def writeString_def Let_def)
  with d(1) show ?thesis by blast
qed

lemma ia_status_eq: "\<exists>x. ia_status iaid code text = Inr x \<and> status_IA iaid code x"
  using createStatusCode_eq [of code "text"]
  by (auto simp: ia_status_def mk_Option6IA_def mk_Option_empty_def addOption_def status_IA_def status_option_def)

lemma ia_status_Inr: "ia_status iaid code text = Inr x \<Longrightarrow> status_IA iaid code x"
  using ia_status_eq [of iaid code "text"] by auto

lemma ia_lease_eq: "ia_lease iaid sn l = Inr (lease_IA iaid sn l)"
  by (simp add: ia_lease_def mk_Option6IA_def mk_Option6IAAddr_def mk_Option_empty_def addOption_def set_timers_def
      lease_IA_def)

section \<open>The invariant of the server\<close>

definition srv6_ok :: "Memfile_LeaseMgr Dhcpv6Srv \<Rightarrow> bool" where
  "srv6_ok s \<longleftrightarrow> inv6 (s6_leases s) \<and> wf_cfg (s6_cfg s)"

abbreviation db6 :: "Memfile_LeaseMgr Dhcpv6Srv \<Rightarrow> ioaddress \<rightharpoonup> Lease6" where
  "db6 s \<equiv> leases6 (s6_leases s)"

lemma selectSubnet6_bound:
  assumes "wf_cfg c" "selectSubnet6 q c = Inr (Some i)"
  shows "i < length (cfg_subnets6 c)"
proof (cases "getSubnet6_iface (p6_iface q) c")
  case (Some j)
  with assms(2) show ?thesis
    by (auto simp: selectSubnet6_def getSubnet6_iface_def find_Some_iff split: if_splits)
next
  case None
  then have "getSubnet6 (p6_remote_addr q) c = Inr (Some i)" using assms(2) by (simp add: selectSubnet6_def)
  with first_inRange_spec [of UV6 "cfg_subnets6 c" "p6_remote_addr q" 0] assms(1) show ?thesis
    by (auto simp: getSubnet6_def wf_cfg_def first_where_def result_simps split: if_splits)
qed

lemma at_subnet6_run:
  assumes "srv6_ok s" "i < length (cfg_subnets6 (s6_cfg s))"
    and "at_subnet6 i (allocateAddress6 e memfile now duid iaid hint fake) s = (r, t)"
  obtains d c where "allocateAddress6 e memfile now duid iaid hint fake
      (s6_leases s, Some (cfg_subnets6 (s6_cfg s) ! i)) = (r, (d, Some (setLastAllocated c (cfg_subnets6 (s6_cfg s) ! i))))"
    "s6_leases t = d" "s6_serverid t = s6_serverid s"
    "s6_cfg t = (s6_cfg s)\<lparr>cfg_subnets6 := (cfg_subnets6 (s6_cfg s))[i := setLastAllocated c (cfg_subnets6 (s6_cfg s) ! i)]\<rparr>"
    "srv6_ok t" "(\<forall>l. r \<noteq> Inr (Some l)) \<longrightarrow> leases6 d = db6 s"
proof -
  let ?sn = "cfg_subnets6 (s6_cfg s) ! i"
  obtain r' d n where run: "allocateAddress6 e memfile now duid iaid hint fake (s6_leases s, Some ?sn) = (r', (d, n))"
    by (cases "allocateAddress6 e memfile now duid iaid hint fake (s6_leases s, Some ?sn)") auto
  have inv: "inv6 (s6_leases s)" and wf: "wf_cfg (s6_cfg s)" using assms(1) by (auto simp: srv6_ok_def)
  obtain c where d: "inv6 d" "n = Some (setLastAllocated c ?sn)" "(\<forall>l. r' \<noteq> Inr (Some l)) \<longrightarrow> leases6 d = db6 s"
    using allocateAddress6_state [OF inv run] by blast
  have "wf_subnet UV6 (setLastAllocated c ?sn)"
    using wf assms(2) by (auto simp: wf_cfg_def list_all_length intro: wf_intros)
  then have "list_all (wf_subnet UV6) ((cfg_subnets6 (s6_cfg s))[i := setLastAllocated c ?sn])"
    using wf by (auto simp: wf_cfg_def intro: list_all_update)
  with assms(3) run d wf show thesis
    by (intro that [of d c]) (auto simp: at_subnet6_def zoomS_def srv6_ok_def wf_cfg_def)
qed

text \<open>The subnets of a server differ over time only in the position of their allocators, so an index
  stays valid.\<close>

definition srv6_subnets :: "nat \<Rightarrow> Memfile_LeaseMgr Dhcpv6Srv \<Rightarrow> bool" where
  "srv6_subnets n s \<longleftrightarrow> srv6_ok s \<and> length (cfg_subnets6 (s6_cfg s)) = n"

lemma keeps_at_subnet6:
  assumes "i < n"
  shows "keeps (srv6_subnets n) (at_subnet6 i (allocateAddress6 e memfile now duid iaid hint fake))"
proof (rule keepsI)
  fix s r t
  assume s: "srv6_subnets n s" and run: "at_subnet6 i (allocateAddress6 e memfile now duid iaid hint fake) s = (r, t)"
  then have ok: "srv6_ok s" "i < length (cfg_subnets6 (s6_cfg s))" using assms by (simp_all add: srv6_subnets_def)
  show "srv6_subnets n t"
    by (rule at_subnet6_run [OF ok run]) (use s in \<open>simp add: srv6_subnets_def\<close>)
qed

lemma keeps_assignIA_NA:
  assumes "e6_mgr e = memfile" "\<And>i. subnet = Some i \<Longrightarrow> i < n"
  shows "keeps (srv6_subnets n) (assignIA_NA e subnet duid q ia)"
  unfolding assignIA_NA_def Let_def assms(1) by (intro keeps_intros keeps_at_subnet6 assms(2))

lemma keeps_leasesS6:
  assumes "keeps inv6 m"
  shows "keeps (srv6_subnets n) (leasesS6 m)"
  by (rule keeps_zoom [OF assms]) (auto simp: srv6_subnets_def srv6_ok_def)

lemma keeps_memfile_inv6:
  "keeps inv6 (mem_deleteLease a)" "keeps inv6 (modS (mem_assign6 l))" "keeps inv6 (mem_updateLease6 l)"
proof -
  have "set (index_erase a xs) = {x \<in> set xs. l_addr x \<noteq> a}" for xs :: "Lease6 list"
    by (auto simp: index_erase_def)
  then show "keeps inv6 (mem_deleteLease a)"
    by (intro keepsI) (auto simp: mem_deleteLease_def bindS_askS eff_apply bindS_simps inv6_def storage4_erase_def
        storage6_erase_def addr_sorted_erase split: if_splits sum.splits)
qed (auto simp: mem_updateLease6_def mem_assign_inv intro!: keeps_intros)

lemma keeps_renewIA_NA:
  assumes "e6_mgr e = memfile"
  shows "keeps (srv6_subnets n) (renewIA_NA e subnet duid ia)"
  unfolding renewIA_NA_def Let_def assms memfile_sel
  by (intro keeps_intros keeps_leasesS6 keeps_memfile_inv6)

lemma keeps_releaseIA_NA:
  assumes "e6_mgr e = memfile"
  shows "keeps (srv6_subnets n) (releaseIA_NA e duid gs ia)"
  unfolding releaseIA_NA_def Let_def assms memfile_sel
  by (intro keeps_intros keeps_leasesS6 keeps_memfile_inv6)

lemma keeps_assignLeases:
  assumes "e6_mgr e = memfile"
  shows "keeps (srv6_subnets n) (assignLeases e q p)"
proof (rule keepsI)
  fix s r t
  assume s: "srv6_subnets n s" and run: "assignLeases e q p s = (r, t)"
  show "srv6_subnets n t"
  proof (cases "selectSubnet6 q (s6_cfg s)")
    case (Inl x)
    with run s show ?thesis by (auto simp: assignLeases_def eff_simps)
  next
    case (Inr subnet)
    then have "i < n" if "subnet = Some i" for i
      using s that selectSubnet6_bound by (auto simp: srv6_subnets_def srv6_ok_def)
    then have "keeps (srv6_subnets n) (case Pkt6_getOption D6O_CLIENTID q of None \<Rightarrow> throwS RFCViolation
       | Some opt_duid \<Rightarrow> bindS (liftS (mk_DUID (odata opt_duid))) (\<lambda>duid.
             foldS (\<lambda>ia answer. bindS (assignIA_NA e subnet duid q ia) (\<lambda>answer_opt.
               retS (Pkt6_addOption answer_opt answer))) (ias q) p))"
      by (intro keeps_intros keeps_foldS keeps_assignIA_NA assms)
    moreover from run Inr have "(case Pkt6_getOption D6O_CLIENTID q of None \<Rightarrow> throwS RFCViolation
       | Some opt_duid \<Rightarrow> bindS (liftS (mk_DUID (odata opt_duid))) (\<lambda>duid.
             foldS (\<lambda>ia answer. bindS (assignIA_NA e subnet duid q ia) (\<lambda>answer_opt.
               retS (Pkt6_addOption answer_opt answer))) (ias q) p)) s = (r, t)"
      by (simp add: assignLeases_def eff_simps)
    ultimately show ?thesis using s by (blast dest: keepsD)
  qed
qed

lemma keeps_dispatch6:
  assumes "e6_mgr e = memfile"
  shows "keeps (srv6_subnets n) (dispatch6 e q)"
  unfolding dispatch6_def Let_def processSolicit6_def processRequest6_def processRenew6_def processRelease6_def
    renewLeases_def releaseLeases_def processDHCPv4Query_def processDHCPv4Response_def
  by (intro keeps_intros keeps_foldS keeps_assignLeases keeps_renewIA_NA keeps_releaseIA_NA assms | simp add: srv6_subnets_def srv6_ok_def)+

lemma keeps_run6:
  assumes "e6_mgr e = memfile"
  shows "keeps (srv6_subnets n) (run6 e received)"
  unfolding run6_def by (intro keeps_intros keeps_dispatch6 assms)

text \<open>C12. No packet can damage the DHCPv6 server: whatever one round of the server loop does with a received packet
  (DHCPv6 or DHCPv4-over-DHCPv6, well formed or not, answered or ended by an exception), the lease
  database keeps at most one lease per address with its two indexes over the same leases, every
  configured subnet stays well formed, and no subnet appears or disappears.\<close>

theorem server6_invariant:
  assumes "srv6_ok s" "e6_mgr e = memfile" "run6 e received s = (r, t)"
  shows "srv6_ok t \<and> length (cfg_subnets6 (s6_cfg t)) = length (cfg_subnets6 (s6_cfg s))"
  using keepsD [OF keeps_run6 [OF assms(2)] _ assms(3), of "length (cfg_subnets6 (s6_cfg s))"] assms(1)
  by (simp add: srv6_subnets_def)

section \<open>One identity association\<close>

lemma getIAID_PIA: "opayload ia = PIA iaid t1 t2 \<Longrightarrow> getIAID ia = Inr iaid"
  by (simp add: getIAID_def)

lemma assignIA_NA_grant:
  assumes "srv6_ok s" "e6_mgr e = memfile" "i < length (cfg_subnets6 (s6_cfg s))" "getIAID ia = Inr iaid"
    and "assignIA_NA e (Some i) duid q ia s = (Inr x, t)"
  shows "status_IA iaid STATUS_NoAddrsAvail x \<and> db6 t = db6 s \<or>
    (\<exists>l. x = lease_IA iaid (cfg_subnets6 (s6_cfg s) ! i) l \<and>
       grant6 (e6_now e) (cfg_subnets6 (s6_cfg s) ! i) duid iaid (db6 s) l \<and>
       stored (p6_msg_type q = DHCPV6_SOLICIT) (db6 s) (db6 t) l)"
proof -
  let ?sn = "cfg_subnets6 (s6_cfg s) ! i" and ?fake = "p6_msg_type q = DHCPV6_SOLICIT"
  define hint where "hint = (case ia_address ia of Some addr \<Rightarrow> addr | None \<Rightarrow> IPv6 0)"
  obtain y u where y: "at_subnet6 i (allocateAddress6 (e6_engine e) memfile (e6_now e) (Some duid) iaid hint ?fake) s = (Inr y, u)"
    and rest: "(case y of Some l \<Rightarrow> askS (\<lambda>s. ia_lease iaid (cfg_subnets6 (s6_cfg s) ! i) l)
      | None \<Rightarrow> liftS (ia_status iaid STATUS_NoAddrsAvail ''Sorry, no address could be allocated.'')) u = (Inr x, t)"
    using assms(2,4,5) by (auto simp: assignIA_NA_def bindS_askS bindS_Inr Let_def hint_def)
  obtain d c where d: "allocateAddress6 (e6_engine e) memfile (e6_now e) (Some duid) iaid hint ?fake (s6_leases s, Some ?sn) =
      (Inr y, (d, Some (setLastAllocated c ?sn)))" "s6_leases u = d"
    "s6_cfg u = (s6_cfg s)\<lparr>cfg_subnets6 := (cfg_subnets6 (s6_cfg s))[i := setLastAllocated c ?sn]\<rparr>"
    "(\<forall>l. Inr y \<noteq> Inr (Some l)) \<longrightarrow> leases6 d = db6 s"
    by (rule at_subnet6_run [OF assms(1,3) y]) blast
  have t: "t = u" using rest by (auto simp: eff_apply split: option.splits)
  show ?thesis
  proof (cases y)
    case None
    with rest d t show ?thesis by (auto simp: eff_apply dest: ia_status_Inr)
  next
    case (Some l)
    have inv_wf: "inv6 (s6_leases s)" "wf_subnet UV6 ?sn"
      using assms(1,3) by (auto simp: srv6_ok_def wf_cfg_def list_all_length)
    have g: "grant6 (e6_now e) ?sn duid iaid (db6 s) l \<and> stored ?fake (db6 s) (leases6 d) l"
      using d(1) [unfolded Some]
    proof (cases rule: allocateAddress6_cases)
      case (returns sn')
      from mem_db6.allocate6_grant [OF inv_wf returns(2)] show ?thesis by simp
    qed simp
    have "x = lease_IA iaid ?sn l"
      using rest Some d(3) assms(3) by (simp add: eff_apply ia_lease_eq lease_IA_def setLastAllocated_def)
    with g t d(2) show ?thesis by blast
  qed
qed

text \<open>The answer to one IA_NA of a SOLICIT or REQUEST carries the IAID of the question and is one of two: the status
  NoAddrsAvail, and then no lease has changed; or exactly one address with the timers of the selected
  subnet, backed by a lease of this DUID and IAID in that subnet, either the one the client
  held before or a new one on a pool address that was free or whose lease had expired. The database changes
  in no other address, and for a REQUEST the lease is in it.\<close>

theorem assign_ia_granted:
  assumes "srv6_ok s" "e6_mgr e = memfile" "i < length (cfg_subnets6 (s6_cfg s))" "opayload ia = PIA iaid t1 t2"
    and "assignIA_NA e (Some i) duid q ia s = (Inr x, t)"
  shows "status_IA iaid STATUS_NoAddrsAvail x \<and> db6 t = db6 s \<or>
    (\<exists>l. x = lease_IA iaid (cfg_subnets6 (s6_cfg s) ! i) l \<and>
       grant6 (e6_now e) (cfg_subnets6 (s6_cfg s) ! i) duid iaid (db6 s) l \<and>
       stored (p6_msg_type q = DHCPV6_SOLICIT) (db6 s) (db6 t) l)"
  using assignIA_NA_grant [OF assms(1-3) getIAID_PIA [OF assms(4)] assms(5)] .

text \<open>C21. RENEW of one IA_NA, on every branch. With a lease of this DUID and IAID in the selected subnet, that lease
  and no other changes: its preferred and valid lifetime, T1 and T2 become those of the subnet and it counts from now;
  the answer carries the address, these lifetimes and these timers. Without such a lease, and when no subnet is selected, the
  status is NoBinding and nothing changes; a lookup that fails ends the handler with its exception and changes nothing.\<close>

theorem renew_ia_exact:
  assumes "inv6 (s6_leases s)" "e6_mgr e = memfile" "opayload ia = PIA iaid t1 t2"
  shows "case subnet of
      None \<Rightarrow> \<exists>x. renewIA_NA e subnet duid ia s = (Inr x, s) \<and> status_IA iaid STATUS_NoBinding x
    | Some i \<Rightarrow>
      (let sn = cfg_subnets6 (s6_cfg s) ! i
       in case mem_getLease6_duid_iaid_subnet duid iaid (sn_id sn) (s6_leases s) of
            Inl err \<Rightarrow> renewIA_NA e subnet duid ia s = (Inl err, s)
          | Inr None \<Rightarrow> (\<exists>x. renewIA_NA e subnet duid ia s = (Inr x, s) \<and> status_IA iaid STATUS_NoBinding x) \<and>
              (\<forall>l. l \<in> ran (db6 s) \<longrightarrow> \<not> holds6 (duid, iaid, sn_id sn) l)
          | Inr (Some l) \<Rightarrow> holds6 (duid, iaid, sn_id sn) l \<and> db6 s (l_addr l) = Some l \<and>
              (\<exists>x t l'. renewIA_NA e subnet duid ia s = (Inr x, t) \<and> s6_cfg t = s6_cfg s \<and>
                 l' = l\<lparr>l6_preferred_lft := tr_default (sn_preferred sn), l_valid_lft := tr_default (sn_valid sn),
                   l_t1 := tr_default (sn_t1 sn), l_t2 := tr_default (sn_t2 sn), l_cltt := e6_now e\<rparr> \<and>
                 db6 t = (db6 s)(l_addr l \<mapsto> l') \<and>
                 x = Opt UV6 3 [] (PIA iaid (tr_default (sn_t1 sn)) (tr_default (sn_t2 sn)))
                   [(5, Opt UV6 5 [] (PIAAddr (l_addr l) (tr_default (sn_preferred sn)) (tr_default (sn_valid sn))) [])]))"
proof (cases subnet)
  case None
  then show ?thesis
    using ia_status_eq [of iaid STATUS_NoBinding "''Sorry, no known leases for this duid/iaid.''"] getIAID_PIA [OF assms(3)]
    by (auto simp: renewIA_NA_def eff_simps)
next
  case (Some i)
  let ?sn = "cfg_subnets6 (s6_cfg s) ! i"
  let ?k = "(duid, iaid, sn_id ?sn)"
  note iaid = getIAID_PIA [OF assms(3)]
  show ?thesis
  proof (cases "mem_getLease6_duid_iaid_subnet duid iaid (sn_id ?sn) (s6_leases s)")
    case (Inl err)
    with Some assms(2) iaid show ?thesis by (simp add: renewIA_NA_def eff_simps zoomS_def bindS_def)
  next
    case (Inr found)
    show ?thesis
    proof (cases found)
      case None
      obtain x where "ia_status iaid STATUS_NoBinding ''Sorry, no known leases for this duid/iaid.'' = Inr x" "status_IA iaid STATUS_NoBinding x"
        using ia_status_eq by blast
      moreover have "\<not> holds6 ?k l" if "l \<in> ran (db6 s)" for l
        using that mem6.lookup_None [OF assms(1), of ?k] Inr None by (auto simp: ran_def)
      ultimately show ?thesis
        using None Some Inr assms(2) iaid by (simp add: renewIA_NA_def eff_simps zoomS_def bindS_def)
    next
      case l: (Some l)
      have held: "db6 s (l_addr l) = Some l" "holds6 ?k l"
        using mem6.lookup_Some [OF assms(1), of ?k] Inr l by auto
      let ?l = "renewed6 ?sn (e6_now e) l"
      have "leases6 (mem_assign6 ?l (s6_leases s)) = (db6 s)(l_addr l \<mapsto> ?l)"
        using mem_assign_leases(2) [of "s6_leases s" ?l] held(1) by (simp add: renewed6_def)
      with l Some Inr assms(2) iaid held show ?thesis
        by (simp add: renewIA_NA_def eff_simps zoomS_def bindS_def mem_updateLease6_def ia_lease_eq Let_def renewed6_def
            lease_IA_def)
    qed
  qed
qed

lemma mem_delete6:
  assumes "inv6 s" "isV6 a" "leases6 s a \<noteq> None"
  shows "mem_deleteLease a s = (Inr True, storage6_erase a s) \<and> leases6 (storage6_erase a s) = (leases6 s)(a := None)"
  using assms
  by (cases a) (auto simp: mem_deleteLease_def eff_simps mem_getLease6_eq storage6_erase_def leases6_def find_erase fun_eq_iff)

text \<open>C20. RELEASE of one IA_NA, on every branch. The address is freed exactly when its lease belongs to the DUID of the
  client and to this IAID; then the status is Success and the summary status stays. Otherwise, an IA_NA without an
  address included, no lease changes and both statuses say NoBinding (UnspecFail for a lease without a DUID).\<close>

theorem release_ia_exact:
  assumes "inv6 (s6_leases s)" "e6_mgr e = memfile" "opayload ia = PIA iaid t1 t2" "\<And>a. ia_address ia = Some a \<Longrightarrow> isV6 a"
  shows "\<exists>x code gs' t. releaseIA_NA e duid gs ia s = (Inr (x, gs'), t) \<and> status_IA iaid code x \<and> s6_cfg t = s6_cfg s \<and>
    (case ia_address ia of
       None \<Rightarrow> t = s \<and> code = STATUS_NoBinding \<and> gs' = code
     | Some a \<Rightarrow>
      (case db6 s a of
         None \<Rightarrow> t = s \<and> code = STATUS_NoBinding \<and> gs' = code
       | Some l \<Rightarrow>
         if bound6 duid iaid l then db6 t = (db6 s)(a := None) \<and> code = STATUS_Success \<and> gs' = gs
         else t = s \<and> code = (if l6_duid l = None then STATUS_UnspecFail else STATUS_NoBinding) \<and> gs' = code))"
proof -
  have iaid: "getIAID ia = Inr iaid" using assms(3) by (rule getIAID_PIA)
  obtain reply where reply: "\<And>code text. ia_status iaid code text = Inr (reply code text)"
    "\<And>code text. status_IA iaid code (reply code text)"
    using ia_status_eq by metis
  note defs = releaseIA_NA_def eff_simps zoomS_def bindS_def Let_def bound6_def
  show ?thesis
  proof (cases "ia_address ia")
    case None
    with iaid reply show ?thesis by (simp add: defs)
  next
    case a: (Some a)
    have get: "mem_getLease6 a (s6_leases s) = Inr (db6 s a)" using assms(1) by (rule mem_getLease6_eq)
    show ?thesis
    proof (cases "db6 s a")
      case None
      with a assms(2) iaid get reply show ?thesis by (simp add: defs)
    next
      case (Some l)
      have addr: "l_addr l = a" using Some assms(1) by (simp add: leases6_Some)
      have "mem_deleteLease a (s6_leases s) = (Inr True, storage6_erase a (s6_leases s))"
        and "leases6 (storage6_erase a (s6_leases s)) = (db6 s)(a := None)"
        using mem_delete6 [OF assms(1) assms(4) [OF a]] Some by auto
      with a Some assms(2) iaid get reply addr show ?thesis
        by (cases "bound6 duid iaid l") (auto simp: defs)
    qed
  qed
qed

section \<open>A whole message\<close>

text \<open>\<open>x\<close> answers the IA_NA \<open>ia\<close> of the client \<open>duid\<close> with the selected subnet \<open>sub\<close>: with the
  status NoAddrsAvail, or with the address and the timers of a lease that may be granted in that subnet by the
  leases \<open>L\<close> from before the message. The leases \<open>L'\<close> after the message hold this lease, but for a fake
  allocation and for a lease the client held from before and that has expired.\<close>

definition answered6 :: "int \<Rightarrow> bool \<Rightarrow> DUID \<Rightarrow> Subnet6 option \<Rightarrow> (ioaddress \<rightharpoonup> Lease6) \<Rightarrow> (ioaddress \<rightharpoonup> Lease6) \<Rightarrow> opt \<Rightarrow> opt \<Rightarrow> bool" where
  "answered6 now fake duid sub L L' ia x \<longleftrightarrow>
     (\<exists>iaid. getIAID ia = Inr iaid \<and>
       (status_IA iaid STATUS_NoAddrsAvail x \<or>
        (\<exists>sn l. sub = Some sn \<and> x = lease_IA iaid sn l \<and> grant6 now sn duid iaid L l \<and>
           (fake \<or> L' (l_addr l) = Some l \<or> expired now l \<and> L (l_addr l) = Some l))))"

text \<open>No lease is lost but an expired one.\<close>

definition persists :: "int \<Rightarrow> (ioaddress \<rightharpoonup> Lease6) \<Rightarrow> (ioaddress \<rightharpoonup> Lease6) \<Rightarrow> bool" where
  "persists now L L' \<longleftrightarrow> (\<forall>a l. L a = Some l \<longrightarrow> L' a = Some l \<or> expired now l)"

text \<open>No lease appears but one this client may be granted.\<close>

definition only_granted :: "int \<Rightarrow> Subnet6 option \<Rightarrow> DUID \<Rightarrow> (ioaddress \<rightharpoonup> Lease6) \<Rightarrow> (ioaddress \<rightharpoonup> Lease6) \<Rightarrow> bool" where
  "only_granted now sub duid L L' \<longleftrightarrow> (\<forall>a l. L' a = Some l \<longrightarrow>
     L a = Some l \<or> l_addr l = a \<and> (\<exists>sn iaid. sub = Some sn \<and> grant6 now sn duid iaid L l))"

lemma persists_refl [simp]: "persists now L L"
  by (simp add: persists_def)

lemma persists_trans: "persists now L L' \<Longrightarrow> persists now L' L'' \<Longrightarrow> persists now L L''"
  unfolding persists_def by metis

lemma only_granted_refl [simp]: "only_granted now sub duid L L"
  by (simp add: only_granted_def)

lemma only_grantedD:
  "only_granted now sub duid L M \<Longrightarrow> M a = Some l \<Longrightarrow>
     L a = Some l \<or> l_addr l = a \<and> (\<exists>sn iaid. sub = Some sn \<and> grant6 now sn duid iaid L l)"
  by (simp add: only_granted_def)

lemma only_granted_stored:
  assumes "only_granted now (Some sn) duid L M" "grant6 now sn duid iaid L l" "stored fake M M' l"
  shows "only_granted now (Some sn) duid L M'"
  unfolding only_granted_def
proof (intro allI impI)
  fix a x
  assume x: "M' a = Some x"
  show "L a = Some x \<or> l_addr x = a \<and> (\<exists>sn' iaid. Some sn = Some sn' \<and> grant6 now sn' duid iaid L x)"
  proof (cases "M a = Some x")
    case True
    with assms(1) show ?thesis by (rule only_grantedD)
  next
    case False
    with x assms(3) have "a = l_addr l" "x = l" by (auto simp: stored_def split: if_splits)
    with assms(2) show ?thesis by blast
  qed
qed

lemma grant6_persists: "grant6 now sn duid iaid L l \<Longrightarrow> stored fake L L' l \<Longrightarrow> persists now L L'"
  by (auto simp: grant6_def stored_def persists_def available_def)

lemma fresh_not_expired: "lifetimes sn now l \<Longrightarrow> \<not> expired now l"
  by (simp add: lifetimes_def expired_def not_less)

lemma grant6_expired: "grant6 now sn duid iaid L l \<Longrightarrow> expired now l \<Longrightarrow> L (l_addr l) = Some l"
  by (auto simp: grant6_def dest: fresh_not_expired)

text \<open>What may be granted in the course of a message might have been granted at its start.\<close>

lemma available_before:
  assumes "persists now L M" "only_granted now sub duid L M" "available now M a"
  shows "available now L a"
proof (cases "M a")
  case None
  with assms(1) show ?thesis by (fastforce simp: persists_def available_def split: option.splits)
next
  case (Some old)
  consider "L a = Some old" | sn iaid where "l_addr old = a" "grant6 now sn duid iaid L old"
    using only_grantedD [OF assms(2) Some] by blast
  moreover have "expired now old" using assms(3) Some by (simp add: available_def)
  ultimately have "L a = Some old" by cases (auto dest: grant6_expired)
  with \<open>expired now old\<close> show ?thesis by (simp add: available_def)
qed

lemma grant6_before:
  assumes "persists now L M" "only_granted now (Some sn) duid L M" "grant6 now sn duid iaid M l"
  shows "grant6 now sn duid iaid L l"
proof (cases "M (l_addr l) = Some l")
  case True
  consider "L (l_addr l) = Some l" | iaid' where "grant6 now sn duid iaid' L l"
    using only_grantedD [OF assms(2) True] by blast
  with assms(3) show ?thesis by cases (auto simp: grant6_def bound6_def)
next
  case False
  with assms(3) available_before [OF assms(1,2)] show ?thesis by (auto simp: grant6_def)
qed

lemma Subnet_inPool_last [simp]: "Subnet_inPool (setLastAllocated c sn) a = Subnet_inPool sn a"
  by (simp add: Subnet_inPool_def Subnet_inRange_def setLastAllocated_def cong: if_cong)

lemma grant6_last [simp]: "grant6 now (setLastAllocated c sn) = grant6 now sn"
  unfolding fun_eq_iff grant6_def Subnet_inPool_last by (simp add: lifetimes_def setLastAllocated_def)

lemma lease_IA_last [simp]: "lease_IA iaid (setLastAllocated c sn) l = lease_IA iaid sn l"
  by (simp add: lease_IA_def setLastAllocated_def)

definition subnet_of :: "Memfile_LeaseMgr Dhcpv6Srv \<Rightarrow> nat option \<Rightarrow> Subnet6 option" where
  "subnet_of s = map_option (\<lambda>i. cfg_subnets6 (s6_cfg s) ! i)"

lemma assignIA_NA_subnets:
  assumes "srv6_ok s" "e6_mgr e = memfile" "\<And>i. subnet = Some i \<Longrightarrow> i < length (cfg_subnets6 (s6_cfg s))"
    and "assignIA_NA e subnet duid q ia s = (Inr x, t)"
  shows "\<exists>c. subnet_of t subnet = map_option (setLastAllocated c) (subnet_of s subnet)"
proof (cases subnet)
  case (Some i)
  define hint where "hint = (case ia_address ia of Some addr \<Rightarrow> addr | None \<Rightarrow> IPv6 0)"
  obtain iaid y u where y: "at_subnet6 i (allocateAddress6 (e6_engine e) memfile (e6_now e) (Some duid) iaid hint
      (p6_msg_type q = DHCPV6_SOLICIT)) s = (Inr y, u)"
    and "(case y of Some l \<Rightarrow> askS (\<lambda>s. ia_lease iaid (cfg_subnets6 (s6_cfg s) ! i) l)
      | None \<Rightarrow> liftS (ia_status iaid STATUS_NoAddrsAvail ''Sorry, no address could be allocated.'')) u = (Inr x, t)"
    using assms(2,4) Some by (auto simp: assignIA_NA_def bindS_askS bindS_Inr Let_def hint_def split: sum.splits)
  then have "t = u" by (auto simp: eff_apply split: option.splits)
  with y show ?thesis
    using assms(3) [OF Some] Some
    by (auto simp: subnet_of_def elim!: at_subnet6_run [OF assms(1) assms(3) [OF Some]])
qed (simp add: subnet_of_def)

lemma assignIA_NA_answered:
  assumes "srv6_ok s" "e6_mgr e = memfile" "\<And>i. subnet = Some i \<Longrightarrow> i < length (cfg_subnets6 (s6_cfg s))"
    and "assignIA_NA e subnet duid q ia s = (Inr x, t)"
    and "persists (e6_now e) L (db6 s)" "only_granted (e6_now e) (subnet_of s subnet) duid L (db6 s)"
  shows "answered6 (e6_now e) (p6_msg_type q = DHCPV6_SOLICIT) duid (subnet_of s subnet) L (db6 t) ia x \<and>
    persists (e6_now e) (db6 s) (db6 t) \<and> only_granted (e6_now e) (subnet_of s subnet) duid L (db6 t)"
proof -
  obtain iaid where iaid: "getIAID ia = Inr iaid"
    using assms(4) by (auto simp: assignIA_NA_def bindS_askS split: sum.splits)
  show ?thesis
  proof (cases subnet)
    case None
    with assms(4,6) iaid show ?thesis by (auto simp: assignIA_NA_def eff_simps answered6_def dest: ia_status_Inr)
  next
    case (Some i)
    let ?sn = "cfg_subnets6 (s6_cfg s) ! i"
    have sub: "subnet_of s subnet = Some ?sn" using Some by (simp add: subnet_of_def)
    consider "status_IA iaid STATUS_NoAddrsAvail x" "db6 t = db6 s"
      | l where "x = lease_IA iaid ?sn l" "grant6 (e6_now e) ?sn duid iaid (db6 s) l"
        "stored (p6_msg_type q = DHCPV6_SOLICIT) (db6 s) (db6 t) l"
      using assignIA_NA_grant [OF assms(1,2) assms(3) [OF Some] iaid assms(4) [unfolded Some]] by blast
    then show ?thesis
    proof cases
      case 1
      with iaid assms(6) show ?thesis by (simp add: answered6_def)
    next
      case (2 l)
      have g: "grant6 (e6_now e) ?sn duid iaid L l"
        using grant6_before [OF assms(5) assms(6) [unfolded sub] 2(2)] .
      have "p6_msg_type q = DHCPV6_SOLICIT \<or> db6 t (l_addr l) = Some l" using 2(3) by (auto simp: stored_def)
      with iaid 2(1) g sub have "answered6 (e6_now e) (p6_msg_type q = DHCPV6_SOLICIT) duid (subnet_of s subnet) L (db6 t) ia x"
        unfolding answered6_def by blast
      moreover have "only_granted (e6_now e) (subnet_of s subnet) duid L (db6 t)"
        using only_granted_stored [OF assms(6) [unfolded sub] g 2(3)] sub by simp
      ultimately show ?thesis using grant6_persists [OF 2(2,3)] by blast
    qed
  qed
qed

lemma answered6_persists:
  assumes "answered6 now fake duid sub L M ia x" "persists now M L'"
  shows "answered6 now fake duid sub L L' ia x"
proof -
  obtain iaid where iaid: "getIAID ia = Inr iaid"
    and "status_IA iaid STATUS_NoAddrsAvail x \<or> (\<exists>sn l. sub = Some sn \<and> x = lease_IA iaid sn l \<and> grant6 now sn duid iaid L l \<and>
      (fake \<or> M (l_addr l) = Some l \<or> expired now l \<and> L (l_addr l) = Some l))"
    using assms(1) by (auto simp: answered6_def)
  moreover have "L' (l_addr l) = Some l \<or> expired now l \<and> L (l_addr l) = Some l"
    if "grant6 now sn duid iaid L l" "M (l_addr l) = Some l" for sn l
    using that assms(2) grant6_expired unfolding persists_def by blast
  ultimately have "status_IA iaid STATUS_NoAddrsAvail x \<or> (\<exists>sn l. sub = Some sn \<and> x = lease_IA iaid sn l \<and> grant6 now sn duid iaid L l \<and>
      (fake \<or> L' (l_addr l) = Some l \<or> expired now l \<and> L (l_addr l) = Some l))"
    by blast
  with iaid show ?thesis by (simp add: answered6_def)
qed

lemma answered6_last [simp]:
  "answered6 now fake duid (map_option (setLastAllocated c) sub) = answered6 now fake duid sub"
  "only_granted now (map_option (setLastAllocated c) sub) = only_granted now sub"
  by (cases sub; simp add: fun_eq_iff answered6_def only_granted_def)+

lemma assign_all_answered:
  assumes "srv6_subnets n s" "e6_mgr e = memfile" "\<And>i. subnet = Some i \<Longrightarrow> i < n"
    and "foldS (\<lambda>ia answer. bindS (assignIA_NA e subnet duid q ia) (\<lambda>answer_opt.
      retS (Pkt6_addOption answer_opt answer))) xs p s = (Inr p', t)"
    and "persists (e6_now e) L (db6 s)" "only_granted (e6_now e) (subnet_of s subnet) duid L (db6 s)"
  shows "\<exists>ys. p' = fold Pkt6_addOption ys p \<and>
    list_all2 (answered6 (e6_now e) (p6_msg_type q = DHCPV6_SOLICIT) duid (subnet_of s subnet) L (db6 t)) xs ys \<and>
    persists (e6_now e) (db6 s) (db6 t) \<and> only_granted (e6_now e) (subnet_of s subnet) duid L (db6 t)"
  using assms(1,4,5,6)
proof (induction xs arbitrary: p s)
  case Nil
  then show ?case by (auto simp: eff_apply)
next
  case (Cons ia xs)
  let ?f = "\<lambda>ia answer. bindS (assignIA_NA e subnet duid q ia) (\<lambda>answer_opt. retS (Pkt6_addOption answer_opt answer))"
  obtain x u where x: "assignIA_NA e subnet duid q ia s = (Inr x, u)"
    and rest: "foldS ?f xs (Pkt6_addOption x p) u = (Inr p', t)"
    using Cons.prems(2) by (auto simp: bindS_Inr bindS_assoc bindS_simps)
  have ok: "srv6_ok s" "\<And>i. subnet = Some i \<Longrightarrow> i < length (cfg_subnets6 (s6_cfg s))"
    using Cons.prems(1) assms(3) by (auto simp: srv6_subnets_def)
  have u: "srv6_subnets n u" using keepsD [OF keeps_assignIA_NA [OF assms(2,3)] Cons.prems(1) x] .
  obtain c where c: "subnet_of u subnet = map_option (setLastAllocated c) (subnet_of s subnet)"
    using assignIA_NA_subnets [OF ok(1) assms(2) ok(2) x] by blast
  note first = assignIA_NA_answered [OF ok(1) assms(2) ok(2) x Cons.prems(3,4)]
  then have "persists (e6_now e) L (db6 u)" "only_granted (e6_now e) (subnet_of u subnet) duid L (db6 u)"
    using Cons.prems(3) c by (auto intro: persists_trans)
  from Cons.IH [OF u rest this] obtain ys where ys: "p' = fold Pkt6_addOption ys (Pkt6_addOption x p)"
    "list_all2 (answered6 (e6_now e) (p6_msg_type q = DHCPV6_SOLICIT) duid (subnet_of s subnet) L (db6 t)) xs ys"
    "persists (e6_now e) (db6 u) (db6 t)" "only_granted (e6_now e) (subnet_of s subnet) duid L (db6 t)"
    using c by auto
  from first ys show ?case
    by (intro exI [of _ "x # ys"]) (auto intro: answered6_persists persists_trans)
qed

lemma appendRequestedOptions6_cases:
  assumes "appendRequestedOptions6 c q p = Inr p'"
  obtains "p' = p" | i codes where "p' = fold (\<lambda>code. add_configured6 (cfg_subnets6 c ! i) (word_of_nat code)) codes p"
proof -
  obtain sub where sub: "selectSubnet6 q c = Inr sub"
    using assms by (auto simp: appendRequestedOptions6_def result_simps)
  show thesis
  proof (cases "sub = None \<or> map_option opayload (Pkt6_getOption D6O_ORO q) = None")
    case True
    with assms sub show thesis
      by (intro that(1)) (auto simp: appendRequestedOptions6_def split: option.splits)
  next
    case False
    then obtain i pl where "sub = Some i" "map_option opayload (Pkt6_getOption D6O_ORO q) = Some pl" by auto
    with assms sub show thesis
      by (cases pl) (auto simp: appendRequestedOptions6_def split: IntKind.splits intro: that)
  qed
qed

lemma append_header6:
  "p6_transid (copyDefaultOptions q p) = p6_transid p" "p6_msg_type (copyDefaultOptions q p) = p6_msg_type p"
  "appendDefaultOptions6 srvid p = Inr p' \<Longrightarrow> p6_transid p' = p6_transid p \<and> p6_msg_type p' = p6_msg_type p"
  "appendRequestedOptions6 c q p = Inr p' \<Longrightarrow> p6_transid p' = p6_transid p \<and> p6_msg_type p' = p6_msg_type p"
proof -
  show "p6_transid (copyDefaultOptions q p) = p6_transid p" "p6_msg_type (copyDefaultOptions q p) = p6_msg_type p"
    by (auto simp: copyDefaultOptions_def Pkt6_addOption_def split: option.splits)
  show "p6_transid p' = p6_transid p \<and> p6_msg_type p' = p6_msg_type p" if "appendDefaultOptions6 srvid p = Inr p'"
    using that by (auto simp: appendDefaultOptions6_def Pkt6_addOption_def split: option.splits)
  show "p6_transid p' = p6_transid p \<and> p6_msg_type p' = p6_msg_type p" if run: "appendRequestedOptions6 c q p = Inr p'"
  proof -
    have "p6_transid (fold (\<lambda>code. add_configured6 sn (word_of_nat code)) codes p) = p6_transid p \<and>
        p6_msg_type (fold (\<lambda>code. add_configured6 sn (word_of_nat code)) codes p) = p6_msg_type p" for sn codes
      by (induction codes arbitrary: p) (auto simp: add_configured6_def Pkt6_addOption_def split: option.splits)
    with run show ?thesis by (cases rule: appendRequestedOptions6_cases) simp_all
  qed
qed

text \<open>The common shape of the handlers of SOLICIT and REQUEST.\<close>

definition assigning6 :: "u8 \<Rightarrow> RequirementLevel \<Rightarrow> 's Env6 \<Rightarrow> pkt6 \<Rightarrow> ('s Dhcpv6Srv, pkt6) eff" where
  "assigning6 ty server_id e q =
     thenS (liftS (sanityCheck6 q MANDATORY server_id))
     (bindS (askS (\<lambda>s. appendDefaultOptions6 (s6_serverid s) (copyDefaultOptions q (mk_Pkt6 ty (p6_transid q))))) (\<lambda>p.
      bindS (askS (\<lambda>s. appendRequestedOptions6 (s6_cfg s) q p)) (assignLeases e q)))"

lemma assigning6_eq:
  "processSolicit6 e q = assigning6 DHCPV6_ADVERTISE FORBIDDEN e q"
  "processRequest6 e q = assigning6 DHCPV6_REPLY MANDATORY e q"
  by (simp_all add: processSolicit6_def processRequest6_def assigning6_def)

lemma assigning6_answers:
  assumes "srv6_ok s" "e6_mgr e = memfile" "assigning6 ty lvl e q s = (Inr rsp, t)"
  shows "\<exists>o1 duid subnet base xs. Pkt6_getOption D6O_CLIENTID q = Some o1 \<and> mk_DUID (odata o1) = Inr duid \<and>
    selectSubnet6 q (s6_cfg s) = Inr subnet \<and>
    rsp = fold Pkt6_addOption xs base \<and> p6_transid base = p6_transid q \<and> p6_msg_type base = ty \<and>
    list_all2 (answered6 (e6_now e) (p6_msg_type q = DHCPV6_SOLICIT) duid (subnet_of s subnet) (db6 s) (db6 t)) (ias q) xs \<and>
    persists (e6_now e) (db6 s) (db6 t) \<and> only_granted (e6_now e) (subnet_of s subnet) duid (db6 s) (db6 t)"
proof -
  obtain p base where p: "appendDefaultOptions6 (s6_serverid s) (copyDefaultOptions q (mk_Pkt6 ty (p6_transid q))) = Inr p"
    "appendRequestedOptions6 (s6_cfg s) q p = Inr base" "assignLeases e q base s = (Inr rsp, t)"
    using assms(3) by (auto simp: assigning6_def bindS_askS split: sum.splits)
  have base: "p6_transid base = p6_transid q" "p6_msg_type base = ty"
    using append_header6(3) [OF p(1)] append_header6(4) [OF p(2)] by (simp_all add: append_header6(1,2) mk_Pkt6_def)
  obtain subnet o1 duid where sel: "selectSubnet6 q (s6_cfg s) = Inr subnet" "Pkt6_getOption D6O_CLIENTID q = Some o1"
      "mk_DUID (odata o1) = Inr duid"
    and fold: "foldS (\<lambda>ia answer. bindS (assignIA_NA e subnet duid q ia) (\<lambda>answer_opt.
      retS (Pkt6_addOption answer_opt answer))) (ias q) base s = (Inr rsp, t)"
    using p(3) by (auto simp: assignLeases_def bindS_askS throwS_def split: sum.splits option.splits)
  have ok: "srv6_subnets (length (cfg_subnets6 (s6_cfg s))) s" using assms(1) by (simp add: srv6_subnets_def)
  have bound: "i < length (cfg_subnets6 (s6_cfg s))" if "subnet = Some i" for i
    using that sel(1) assms(1) selectSubnet6_bound by (auto simp: srv6_ok_def)
  from assign_all_answered [OF ok assms(2) bound fold persists_refl only_granted_refl] sel base show ?thesis by blast
qed

lemma dispatch6_handler:
  "p6_msg_type q = DHCPV6_SOLICIT \<Longrightarrow> dispatch6 e q = catchS (bindS (processSolicit6 e q) (\<lambda>rsp. retS (Some rsp, q))) (\<lambda>_. retS (None, q))"
  "p6_msg_type q = DHCPV6_REQUEST \<Longrightarrow> dispatch6 e q = catchS (bindS (processRequest6 e q) (\<lambda>rsp. retS (Some rsp, q))) (\<lambda>_. retS (None, q))"
  "p6_msg_type q = DHCPV6_RENEW \<Longrightarrow> dispatch6 e q = catchS (bindS (processRenew6 e q) (\<lambda>rsp. retS (Some rsp, q))) (\<lambda>_. retS (None, q))"
  "p6_msg_type q = DHCPV6_RELEASE \<Longrightarrow> dispatch6 e q = catchS (bindS (processRelease6 e q) (\<lambda>rsp. retS (Some rsp, q))) (\<lambda>_. retS (None, q))"
  by (simp_all add: dispatch6_def Let_def)

lemma caught_answer:
  "catchS (bindS m (\<lambda>rsp. retS (Some rsp, q))) (\<lambda>_. retS (None, q)) s = (Inr (Some rsp, q'), t) \<longleftrightarrow>
     q' = q \<and> m s = (Inr rsp, t)"
  by (auto simp: catchS_def bindS_def eff_apply split: prod.splits sum.splits if_splits)

text \<open>C3. Every answer to a SOLICIT or REQUEST has the transaction id of the question and answers its IA_NA options one by
  one, in order, each with NoAddrsAvail or with one address. The address comes with the timers of the subnet selected
  for the packet and is that of a lease for the DUID of the client and the IAID in this subnet: the lease the client
  held before the message, unchanged, or a new one with the lifetimes of the subnet, on a pool address that nobody held
  before the message or whose lease had expired. For a REQUEST the database holds every lease promised when the
  reply is sent, except one the client held before and that had expired (it is handed back to its owner without
  being renewed, and a later IA_NA may take its address). No unexpired lease of anybody is lost or changed, and the
  only new leases are ones that may be granted to this client.\<close>

theorem answers6_backed:
  assumes "srv6_ok s" "e6_mgr e = memfile" "p6_msg_type q \<in> {DHCPV6_SOLICIT, DHCPV6_REQUEST}"
    and "dispatch6 e q s = (Inr (Some rsp, q'), t)"
  shows "\<exists>o1 duid subnet base xs. Pkt6_getOption D6O_CLIENTID q = Some o1 \<and> mk_DUID (odata o1) = Inr duid \<and> q' = q \<and>
    selectSubnet6 q (s6_cfg s) = Inr subnet \<and>
    rsp = fold Pkt6_addOption xs base \<and> p6_transid base = p6_transid q \<and>
    p6_msg_type base = (if p6_msg_type q = DHCPV6_SOLICIT then DHCPV6_ADVERTISE else DHCPV6_REPLY) \<and>
    list_all2 (answered6 (e6_now e) (p6_msg_type q = DHCPV6_SOLICIT) duid (subnet_of s subnet) (db6 s) (db6 t)) (ias q) xs \<and>
    persists (e6_now e) (db6 s) (db6 t) \<and> only_granted (e6_now e) (subnet_of s subnet) duid (db6 s) (db6 t)"
proof -
  have "q' = q" and run: "assigning6 (if p6_msg_type q = DHCPV6_SOLICIT then DHCPV6_ADVERTISE else DHCPV6_REPLY)
      (if p6_msg_type q = DHCPV6_SOLICIT then FORBIDDEN else MANDATORY) e q s = (Inr rsp, t)"
    using assms(3,4) by (auto simp: dispatch6_handler caught_answer assigning6_eq)
  from assigning6_answers [OF assms(1,2) run] \<open>q' = q\<close> show ?thesis by blast
qed

text \<open>C34. A SOLICIT, REQUEST, RENEW or RELEASE without exactly one client id, a SOLICIT with a server id and one of the
  others without exactly one server id gets no answer and changes nothing.\<close>

theorem rfc_violations_ignored:
  assumes "p6_msg_type q \<in> {DHCPV6_SOLICIT, DHCPV6_REQUEST, DHCPV6_RENEW, DHCPV6_RELEASE}"
    and "length (Pkt6_getOptions D6O_CLIENTID q) \<noteq> 1 \<or>
      length (Pkt6_getOptions D6O_SERVERID q) \<noteq> (if p6_msg_type q = DHCPV6_SOLICIT then 0 else 1)"
  shows "dispatch6 e q s = (Inr (None, q), s)"
proof -
  have "sanityCheck6 q MANDATORY (if p6_msg_type q = DHCPV6_SOLICIT then FORBIDDEN else MANDATORY) = Inl RFCViolation"
    using assms(2) by (auto simp: sanityCheck6_def guardE_def Let_def split: if_splits)
  with assms(1) show ?thesis
    by (auto simp: dispatch6_handler processSolicit6_def processRequest6_def processRenew6_def processRelease6_def
        catchS_def eff_simps)
qed

section \<open>A concrete server\<close>

definition example_cfg6 :: CfgMgr where
  "example_cfg6 = addSubnet6 example_subnet6 mk_CfgMgr"

definition example_lease6 :: Lease6 where
  "example_lease6 = Lease.extend (mk_Lease (IPv6 0x20010db8000100000000000000000011) 1000 2000 4000 1 100)
     (Lease6.fields LEASE_IA_NA 0 9 (Some (DUID [0, 1, 2])) 3000)"

definition example_db6 :: Memfile_LeaseMgr where
  "example_db6 = mk_Memfile\<lparr>storage6 := \<lparr>s6_addr = [example_lease6], s6_duid = [example_lease6]\<rparr>\<rparr>"

definition example_srv6 :: "Memfile_LeaseMgr Dhcpv6Srv" where
  "example_srv6 = \<lparr>s6_cfg = example_cfg6, s6_leases = mk_Memfile, s6_serverid = Some (Opt UV6 2 [0, 2, 9] PGeneric []),
     s6_map4o6 = Map.empty, s6_to_dhcp4 = []\<rparr>"

definition example_env6 :: "Memfile_LeaseMgr Env6" where
  "example_env6 = \<lparr>e6_engine = example_engine, e6_mgr = memfile, e6_now = 500, e6_connects = True\<rparr>"

definition example_ia :: "u32 \<Rightarrow> ioaddress \<Rightarrow> opt" where
  "example_ia iaid a = Opt UV6 3 [] (PIA iaid 0 0) [(5, Opt UV6 5 [] (PIAAddr a 0 0) [])]"

definition example_message6 :: "u8 \<Rightarrow> pkt6" where
  "example_message6 ty = (mk_Pkt6 ty 0x1234)\<lparr>p6_iface := ''eth0'', p6_options :=
     [(1, Opt UV6 1 [0, 1, 2] PGeneric []), (2, Opt UV6 2 [0, 2, 9] PGeneric []),
      (3, example_ia 7 (IPv6 0x20010db8000100000000000000000010))]\<rparr>"

lemma example_srv6_sel [simp]:
  "s6_cfg example_srv6 = example_cfg6" "s6_leases example_srv6 = mk_Memfile"
  "s6_serverid example_srv6 = Some (Opt UV6 2 [0, 2, 9] PGeneric [])"
  "cfg_subnets6 example_cfg6 = [example_subnet6]" "cfg_subnets4 example_cfg6 = []"
  "e6_engine example_env6 = example_engine" "e6_mgr example_env6 = memfile" "e6_now example_env6 = 500"
  "getIAID (example_ia iaid a) = Inr iaid" "opayload (example_ia iaid a) = PIA iaid 0 0" "ia_address (example_ia iaid a) = Some a"
  "otype (example_ia iaid a) = 3" "p6_msg_type (example_message6 ty) = ty" "p6_transid (example_message6 ty) = 0x1234"
  by (simp_all add: example_srv6_def example_cfg6_def addSubnet6_def mk_CfgMgr_def example_env6_def example_ia_def
      getIAID_def ia_address_def getOption_def example_message6_def mk_Pkt6_def)

lemma example_srv6_ok: "srv6_ok example_srv6"
  using indexed_mk_Memfile(2) by (simp add: srv6_ok_def wf_cfg_def example_wf6 indexed6_def)

theorem server6_invariant_witness:
  "\<exists>r t. run6 example_env6 (mk_Pkt6_rx 5 [1, 0, 18, 52]) example_srv6 = (r, t) \<and> srv6_ok t"
proof -
  obtain r t where run: "run6 example_env6 (mk_Pkt6_rx 5 [1, 0, 18, 52]) example_srv6 = (r, t)"
    by (cases "run6 example_env6 (mk_Pkt6_rx 5 [1, 0, 18, 52]) example_srv6")
  with server6_invariant [OF example_srv6_ok _ run] show ?thesis by simp
qed

lemma example_assign6:
  assumes "p6_msg_type q \<noteq> DHCPV6_SOLICIT"
  shows "\<exists>l t. assignIA_NA example_env6 (Some 0) (DUID [0, 1, 2]) q (example_ia 7 (IPv6 0x20010db8000100000000000000000010))
     example_srv6 = (Inr (lease_IA 7 example_subnet6 l), t) \<and> l_addr l = IPv6 0x20010db8000100000000000000000010"
proof -
  obtain l d where "allocateAddress6 example_engine memfile 500 (Some (DUID [0, 1, 2])) 7 (IPv6 0x20010db8000100000000000000000010)
     False (mk_Memfile, Some example_subnet6) = (Inr (Some l), (d, Some example_subnet6))"
    "l_addr l = IPv6 0x20010db8000100000000000000000010"
    using example_allocate6 by blast
  with assms show ?thesis
    by (auto simp: assignIA_NA_def eff_simps at_subnet6_def zoomS_def bindS_def ia_lease_eq intro!: exI [of _ l])
qed

theorem assign_ia_granted_witness:
  "\<exists>x t l. assignIA_NA example_env6 (Some 0) (DUID [0, 1, 2]) (example_message6 DHCPV6_REQUEST)
     (example_ia 7 (IPv6 0x20010db8000100000000000000000010)) example_srv6 = (Inr x, t) \<and>
     x = lease_IA 7 example_subnet6 l \<and> db6 t (l_addr l) = Some l"
proof -
  obtain l0 t where run: "assignIA_NA example_env6 (Some 0) (DUID [0, 1, 2]) (example_message6 DHCPV6_REQUEST)
     (example_ia 7 (IPv6 0x20010db8000100000000000000000010)) example_srv6 = (Inr (lease_IA 7 example_subnet6 l0), t)"
    using example_assign6 [of "example_message6 DHCPV6_REQUEST"] by auto
  have "\<not> status_IA 7 STATUS_NoAddrsAvail (lease_IA 7 example_subnet6 l0)" by (auto simp: status_IA_def lease_IA_def)
  with assign_ia_granted [OF example_srv6_ok _ _ _ run] run show ?thesis by (auto simp: stored_def)
qed

lemma example_request6:
  "selectSubnet6 (example_message6 DHCPV6_REQUEST) example_cfg6 = Inr (Some 0)"
  "sanityCheck6 (example_message6 DHCPV6_REQUEST) MANDATORY MANDATORY = Inr ()"
  "Pkt6_getOption 1 (example_message6 DHCPV6_REQUEST) = Some (Opt UV6 1 [0, 1, 2] PGeneric [])"
  "Pkt6_getOption 6 (example_message6 DHCPV6_REQUEST) = None"
  "ias (example_message6 DHCPV6_REQUEST) = [example_ia 7 (IPv6 0x20010db8000100000000000000000010)]"
  by (simp_all add: selectSubnet6_def getSubnet6_iface_def example_message6_def example_subnet6_def sanityCheck6_def
      Pkt6_getOptions_def Pkt6_getOption_def guardE_def ias_def)

lemma example_dispatch6:
  "\<exists>rsp t. dispatch6 example_env6 (example_message6 DHCPV6_REQUEST) example_srv6 =
     (Inr (Some rsp, example_message6 DHCPV6_REQUEST), t)"
proof -
  let ?q = "example_message6 DHCPV6_REQUEST"
  obtain l t where run: "assignIA_NA example_env6 (Some 0) (DUID [0, 1, 2]) ?q
     (example_ia 7 (IPv6 0x20010db8000100000000000000000010)) example_srv6 = (Inr (lease_IA 7 example_subnet6 l), t)"
    using example_assign6 [of ?q] by auto
  have "\<exists>rsp. processRequest6 example_env6 ?q example_srv6 = (Inr rsp, t)"
    by (simp add: processRequest6_def assignLeases_def eff_simps example_request6 appendDefaultOptions6_def appendRequestedOptions6_def
        mk_DUID_def MAX_DUID_LEN_def bindS_def run)
  then show ?thesis by (auto simp: dispatch6_handler caught_answer)
qed

theorem answers6_backed_witness:
  "\<exists>rsp t base xs. dispatch6 example_env6 (example_message6 DHCPV6_REQUEST) example_srv6 =
     (Inr (Some rsp, example_message6 DHCPV6_REQUEST), t) \<and> rsp = fold Pkt6_addOption xs base \<and>
     p6_transid base = 0x1234 \<and> p6_msg_type base = DHCPV6_REPLY \<and>
     list_all2 (answered6 500 False (DUID [0, 1, 2]) (Some example_subnet6) Map.empty (db6 t))
       [example_ia 7 (IPv6 0x20010db8000100000000000000000010)] xs"
proof -
  obtain rsp t where run: "dispatch6 example_env6 (example_message6 DHCPV6_REQUEST) example_srv6 =
     (Inr (Some rsp, example_message6 DHCPV6_REQUEST), t)" using example_dispatch6 by blast
  have "db6 example_srv6 = Map.empty" by (simp add: leases6_def mk_Memfile_def fun_eq_iff)
  with answers6_backed [OF example_srv6_ok _ _ run] run example_request6 show ?thesis
    by (auto simp: subnet_of_def mk_DUID_def MAX_DUID_LEN_def)
qed

lemma example_lease6_sel [simp]:
  "l_addr example_lease6 = IPv6 0x20010db8000100000000000000000011" "l6_duid example_lease6 = Some (DUID [0, 1, 2])"
  "l6_iaid example_lease6 = 9" "l_subnet_id example_lease6 = 1"
  by (simp_all add: example_lease6_def mk_Lease_def Lease.defs Lease6.defs)

lemma example_db6:
  "inv6 example_db6" "leases6 example_db6 (IPv6 0x20010db8000100000000000000000011) = Some example_lease6"
  "mem_getLease6_duid_iaid_subnet (DUID [0, 1, 2]) 9 1 example_db6 = Inr (Some example_lease6)"
  by (simp_all add: inv6_def addr_sorted_def example_db6_def leases6_def mem_getLease6_duid_iaid_subnet_def
      index_find_def index_check_def key6_duid_def)

theorem renew_ia_exact_witness:
  "\<exists>x t l'. renewIA_NA example_env6 (Some 0) (DUID [0, 1, 2]) (example_ia 9 (IPv6 0)) (example_srv6\<lparr>s6_leases := example_db6\<rparr>) =
     (Inr x, t) \<and> db6 t (IPv6 0x20010db8000100000000000000000011) = Some l' \<and> l_cltt l' = 500"
proof -
  let ?s = "example_srv6\<lparr>s6_leases := example_db6\<rparr>"
  from renew_ia_exact [of ?s example_env6 "example_ia 9 (IPv6 0)" 9 0 0 "Some 0" "DUID [0, 1, 2]"] example_db6
  show ?thesis by (auto simp: Let_def)
qed

theorem release_ia_exact_witness:
  "(\<exists>x t. releaseIA_NA example_env6 (DUID [0, 1, 2]) STATUS_Success (example_ia 9 (IPv6 0x20010db8000100000000000000000011))
     (example_srv6\<lparr>s6_leases := example_db6\<rparr>) = (Inr (x, STATUS_Success), t) \<and>
     db6 t (IPv6 0x20010db8000100000000000000000011) = None)"
proof -
  have "bound6 (DUID [0, 1, 2]) 9 example_lease6" by (simp add: bound6_def)
  with release_ia_exact [of "example_srv6\<lparr>s6_leases := example_db6\<rparr>" example_env6
      "example_ia 9 (IPv6 0x20010db8000100000000000000000011)" 9 0 0 "DUID [0, 1, 2]" STATUS_Success] example_db6
  show ?thesis by auto
qed

theorem rfc_violations_ignored_witness:
  "dispatch6 example_env6 (example_message6 DHCPV6_SOLICIT) example_srv6 =
     (Inr (None, example_message6 DHCPV6_SOLICIT), example_srv6)"
  by (rule rfc_violations_ignored) (simp_all add: Pkt6_getOptions_def example_message6_def mk_Pkt6_def)

end
