(* ===== verification/Dhcp4o6.thy ===== *)
theory Dhcp4o6
  imports Dhcp4_Safety Dhcp6_Safety
begin

text \<open>
  DHCPv4 over DHCPv6: the two servers and the two local stream sockets between them
  (\<^verbatim>\<open>src/lib/dhcp/iface_mgr.cc\<close>, \<^verbatim>\<open>send4to6\<close>, \<^verbatim>\<open>receive6to4\<close>, \<^verbatim>\<open>receive4to6\<close>). The DHCPv6 server
  passes the DHCPv4 message of a DHCPV4_QUERY on, remembers the query under the transaction id of that
  message, and wraps the answer of the DHCPv4 server for the client that sent the query.

  Each message goes over a connection of its own and is written and read with one call, so a
  channel is a queue of messages; a read returns at most \<open>RCVBUFSIZE\<close> bytes.
\<close>

section \<open>The channels\<close>

definition RCVBUFSIZE :: nat where "RCVBUFSIZE = 1500"

definition receive6to4 :: "bytes \<Rightarrow> pkt4 result" where
  "receive6to4 msg = bindE (mk_Pkt4_rx (take RCVBUFSIZE msg)) (\<lambda>pkt. Inr (pkt\<lparr>p4_is4o6 := True\<rparr>))"

definition receive4to6 :: "bytes \<Rightarrow> pkt6" where
  "receive4to6 msg = (mk_Pkt6 DHCPV4_RESPONSE 0)\<lparr>p6_data4o6 := take RCVBUFSIZE msg\<rparr>"

text \<open>\<open>connects\<close>: a socket could be made and connected. The result is the number of bytes written, as a
  truth value.\<close>

definition send4to6 :: "bool \<Rightarrow> pkt4 \<Rightarrow> (bytes list, bool) eff" where
  "send4to6 connects pkt =
     (if \<not> connects then retS False
      else thenS (modS (\<lambda>chan. chan @ [p4_bufferOut pkt])) (retS (p4_bufferOut pkt \<noteq> [])))"

text \<open>\<^verbatim>\<open>IfaceMgr::send\<close> for DHCPv4; \<open>filter_send\<close> is the packet filter.\<close>

definition IfaceMgr_send4 :: "IfaceMgr \<Rightarrow> (u16 \<Rightarrow> pkt4 \<Rightarrow> bool result) \<Rightarrow> bool \<Rightarrow> pkt4 \<Rightarrow> (bytes list, bool) eff" where
  "IfaceMgr_send4 m filter_send connects pkt =
     (if p4_is4o6 pkt then send4to6 connects pkt
      else if getIface (p4_iface pkt) m = None then throwS BadValue
      else liftS (bindE (getSocket4 pkt m) (\<lambda>sock. filter_send sock pkt)))"

section \<open>Transaction ids\<close>

lemma peek_take: "peek_xid (take RCVBUFSIZE d) = peek_xid d"
proof -
  have "readUint32 (take 1496 xs) = readUint32 xs" for xs
    by (auto simp: readUint32_def take_Cons' split: list.splits)
  moreover have "drop 4 (take RCVBUFSIZE d) = take 1496 (drop 4 d)" by (simp add: RCVBUFSIZE_def drop_take)
  ultimately show ?thesis by (simp add: peek_xid_def)
qed

lemma Pkt4_unpack_xid:
  assumes "Pkt4_unpack p = Inr q"
  shows "peek_xid (p4_data p) = Inr (p4_transid q) \<and> p4_hwaddr q \<noteq> None \<and> p4_is4o6 q = p4_is4o6 p"
proof -
  obtain b0 b1 b2 b3 b4 b5 b6 b7 rest where d: "p4_data p = b0 # b1 # b2 # b3 # b4 # b5 # b6 # b7 # rest"
  proof -
    have "8 \<le> length (p4_data p)"
      using assms by (auto simp: Pkt4_unpack_def Let_def mk_InputBuffer_def DHCPV4_PKT_HDR_LEN_def split: if_splits)
    then show thesis using that by (auto simp: Suc_le_length_iff numeral_eq_Suc)
  qed
  have x: "in_readUint32 (reading [b0, b1, b2, b3] (b4 # b5 # b6 # b7 # rest)) = Inr (w, r) \<Longrightarrow> peek_xid (p4_data p) = Inr w" for w r
    by (auto simp: in_readUint32_def reading_def peek_xid_def readUint32_def d Let_def or.assoc)
  show ?thesis
    using assms
    by (auto simp: Pkt4_unpack_def Let_def mk_InputBuffer_reading d in_read_reading result_simps dest!: x split: if_splits prod.splits)
qed

lemma Pkt4_pack_xid:
  assumes "Pkt4_pack p = Inr p'" "p4_bufferOut p = []"
  shows "peek_xid (p4_bufferOut p') = Inr (p4_transid p) \<and> p4_is4o6 p' = p4_is4o6 p"
  using assms
  by (auto simp: Pkt4_pack_def Let_def result_simps peek_xid_def readUint32_writeUint32 split: option.splits)

lemma run4_xid:
  assumes "srv4_ok s" "e4_mgr e = memfile" "run4 e p s = (Inr (Some r), t)"
  shows "peek_xid (p4_bufferOut r) = peek_xid (p4_data p) \<and> p4_is4o6 r = p4_is4o6 p"
proof -
  obtain q where q: "Pkt4_unpack p = Inr q"
    using assms(3) by (auto simp: run4_def eff_apply split: sum.splits if_splits)
  obtain a u where a: "dispatch4 e q s = (Inr (Some a), u)" "Pkt4_pack (address_response4 q a) = Inr r"
    using assms(3) q by (auto simp: run4_def bindS_Inr eff_apply result_simps split: option.splits)
  obtain h where h: "p4_hwaddr q = Some h" using Pkt4_unpack_xid [OF q] by auto
  obtain qty where qty: "Pkt4_getType q = Inr qty"
    "handler4 (if qty = DHCPDISCOVER then DHCPOFFER else DHCPACK) e q s = (Inr a, u)"
    using a(1) by (rule dispatch4_handler)
  have "answers q a" using handler4_spec [OF assms(1,2) h qty] by blast
  then have "p4_transid (address_response4 q a) = p4_transid q" "p4_bufferOut (address_response4 q a) = []"
    by (simp_all add: answers_def address_response4_def Let_def)
  with Pkt4_pack_xid [OF a(2)] Pkt4_unpack_xid [OF q] show ?thesis by (simp add: address_response4_def Let_def)
qed

section \<open>The response side of the DHCPv6 server\<close>

lemma dispatch6_4o6:
  "p6_msg_type q = DHCPV4_QUERY \<Longrightarrow> dispatch6 e q = catchS (bindS (processDHCPv4Query e q) (\<lambda>rsp. retS (rsp, q))) (\<lambda>_. retS (None, q))"
  "p6_msg_type q = DHCPV4_RESPONSE \<Longrightarrow> dispatch6 e q = catchS (processDHCPv4Response q) (\<lambda>_. retS (None, q))"
  by (simp_all add: dispatch6_def Let_def)

text \<open>\<open>r\<close> is the DHCPv4 response for the query \<open>q\<close>: it carries \<open>d\<close>, and goes where \<open>q\<close> came from.\<close>

definition response_to :: "pkt6 \<Rightarrow> bytes \<Rightarrow> pkt6 \<Rightarrow> bool" where
  "response_to q d r \<longleftrightarrow>
     p6_msg_type r = DHCPV4_RESPONSE \<and> p6_data4o6 r = d \<and>
     (OPTION_DHCPV4_MSG, Opt UV6 OPTION_DHCPV4_MSG d PGeneric []) \<in> set (p6_options r) \<and>
     p6_remote_addr r = p6_remote_addr q \<and> p6_local_addr r = p6_local_addr q \<and> p6_remote_port r = DHCP6_CLIENT_PORT \<and>
     p6_iface r = p6_iface q \<and> p6_ifindex r = p6_ifindex q \<and>
     (\<forall>o1. Pkt6_getOption D6O_CLIENTID q = Some o1 \<longrightarrow> o1 \<in> snd ` set (p6_options r))"

definition options_grow :: "pkt6 \<Rightarrow> pkt6 \<Rightarrow> bool" where
  "options_grow p p' \<longleftrightarrow> (\<exists>opts. p' = p\<lparr>p6_options := opts\<rparr>) \<and> set (p6_options p) \<subseteq> set (p6_options p')"

lemma options_grow_refl [simp]: "options_grow p p"
  by (auto simp: options_grow_def intro: exI [of _ "p6_options p"])

lemma options_grow_trans: "options_grow p q \<Longrightarrow> options_grow q r \<Longrightarrow> options_grow p r"
  by (auto simp: options_grow_def)

lemma options_grow_add: "options_grow p (Pkt6_addOption o1 p)"
  by (auto simp: options_grow_def Pkt6_addOption_def set_mm_insert)

lemma append_grow6:
  "options_grow p (copyDefaultOptions q p)"
  "appendDefaultOptions6 srvid p = Inr p' \<Longrightarrow> options_grow p p'"
  "appendRequestedOptions6 c q p = Inr p' \<Longrightarrow> options_grow p p'"
proof -
  show "options_grow p (copyDefaultOptions q p)"
    by (auto simp: copyDefaultOptions_def options_grow_add split: option.splits)
  show "options_grow p p'" if "appendDefaultOptions6 srvid p = Inr p'"
    using that by (auto simp: appendDefaultOptions6_def options_grow_add split: option.splits)
  show "options_grow p p'" if run: "appendRequestedOptions6 c q p = Inr p'"
  proof -
    have "options_grow p (fold (\<lambda>code. add_configured6 sn (word_of_nat code)) codes p)" for sn codes
      by (induction codes arbitrary: p)
        (auto simp: add_configured6_def split: option.splits intro: options_grow_trans options_grow_add)
    with run show ?thesis by (cases rule: appendRequestedOptions6_cases) simp_all
  qed
qed

lemma Pkt6_pack_keeps:
  assumes "Pkt6_pack p = Inr (p', ok)"
  shows "\<exists>rs buf. p' = p\<lparr>p6_relay_info := rs, p6_bufferOut := buf\<rparr>"
proof -
  define p1 where "p1 = (if p6_relay_info p \<noteq> [] then fst (calculateRelaySizes p) else p)"
  obtain rs where rs: "p1 = p\<lparr>p6_relay_info := rs\<rparr>"
  proof (cases "p6_relay_info p = []")
    case True
    then show thesis by (intro that [of "[]"]) (simp add: p1_def)
  next
    case False
    then show thesis by (intro that [of "fst (relay_sizes (directLen p) (p6_relay_info p))"])
      (simp add: p1_def calculateRelaySizes_def split: prod.splits)
  qed
  have "p' = p1 \<or> (\<exists>buf. p' = p1\<lparr>p6_bufferOut := buf\<rparr>)"
    using assms unfolding Pkt6_pack_def packUDP_def p1_def [symmetric]
    by (auto simp: catch_isc_def Let_def result_simps split: DHCPv6Proto.splits sum.splits if_splits)
  with rs have "p' = p\<lparr>p6_relay_info := rs, p6_bufferOut := p6_bufferOut p'\<rparr>" by auto
  then show ?thesis by blast
qed

text \<open>What became of a response \<open>d\<close> of the DHCPv4 server with transaction id \<open>k\<close>.\<close>

definition relayed :: "u32 \<Rightarrow> bytes \<Rightarrow> 's Dhcpv6Srv \<Rightarrow> 's Dhcpv6Srv \<Rightarrow> pkt6 option \<Rightarrow> bool" where
  "relayed k d s t out \<longleftrightarrow>
     (case s6_map4o6 s k of
        None \<Rightarrow> t = s \<and> out = None
      | Some q \<Rightarrow> t = s\<lparr>s6_map4o6 := (s6_map4o6 s)(k := None)\<rparr> \<and> (\<forall>r. out = Some r \<longrightarrow> response_to q d r))"

lemma response6_step:
  assumes "run6 e (receive4to6 d) s = (Inr out, t)"
  shows "\<exists>k. peek_xid d = Inr k \<and> relayed k (take RCVBUFSIZE d) s t out"
proof -
  let ?p = "receive4to6 d" and ?d = "take RCVBUFSIZE d"
  have p: "p6_msg_type ?p = DHCPV4_RESPONSE" "p6_data4o6 ?p = ?d" by (simp_all add: receive4to6_def mk_Pkt6_def)
  obtain rsp q u where disp: "dispatch6 e ?p s = (Inr (rsp, q), u)"
    and rest: "(case rsp of None \<Rightarrow> retS None | Some r \<Rightarrow> bindS (liftS (Pkt6_pack (address_response6 q r))) (\<lambda>(packed, ok).
        if ok then retS (Some packed) else retS None)) u = (Inr out, t)"
    using assms p(1) by (auto simp: run6_def bindS_Inr eff_apply split: if_splits)
  have tu: "t = u" using rest by (auto simp: eff_simps split: option.splits sum.splits if_splits prod.splits)
  have k: "\<exists>k. peek_xid ?d = Inr k"
    using disp by (cases "peek_xid ?d")
      (auto simp: dispatch6_4o6(2) [OF p(1)] processDHCPv4Response_def catchS_def p(2) eff_simps peek_xid_def readUint32_def
        split: list.splits)
  then obtain k where k: "peek_xid ?d = Inr k" ..
  show ?thesis
  proof (cases "s6_map4o6 s k")
    case None
    then have "rsp = None" "u = s"
      using disp k by (auto simp: dispatch6_4o6(2) [OF p(1)] processDHCPv4Response_def catchS_def p(2) eff_simps)
    with None k rest tu show ?thesis by (auto simp: peek_take relayed_def eff_apply)
  next
    case (Some q0)
    let ?s = "s\<lparr>s6_map4o6 := (s6_map4o6 s)(k := None)\<rparr>"
    let ?m = "bindS (askS (\<lambda>s. appendDefaultOptions6 (s6_serverid s) (copyDefaultOptions q0 ?p))) (\<lambda>reply.
            bindS (askS (\<lambda>s. appendRequestedOptions6 (s6_cfg s) q0 reply)) (\<lambda>reply.
            bindS (liftS (mk_Option UV6 OPTION_DHCPV4_MSG (p6_data4o6 reply))) (\<lambda>option.
              retS (Some (Pkt6_addOption option reply), q0))))"
    have m: "catchS ?m (\<lambda>_. retS (None, ?p)) ?s = (Inr (rsp, q), u)"
      using disp k Some by (simp add: dispatch6_4o6(2) [OF p(1)] processDHCPv4Response_def catchS_def p(2) eff_simps)
    have u: "u = ?s"
      using m by (auto simp: catchS_def eff_simps split: sum.splits if_splits)
    have "response_to q0 ?d r" if out: "out = Some r" for r
    proof -
      obtain r0 where r0: "rsp = Some r0" "Pkt6_pack (address_response6 q r0) = Inr (r, True)"
        using rest out by (auto simp: eff_simps split: option.splits sum.splits if_splits prod.splits)
      obtain a b o1 where a: "appendDefaultOptions6 (s6_serverid s) (copyDefaultOptions q0 ?p) = Inr a"
        "appendRequestedOptions6 (s6_cfg s) q0 a = Inr b" "mk_Option UV6 OPTION_DHCPV4_MSG (p6_data4o6 b) = Inr o1"
        "r0 = Pkt6_addOption o1 b" "q = q0"
        using m unfolding r0(1) by (rule catchS_cases) (auto simp: eff_apply bindS_Inr)
      have g: "options_grow (copyDefaultOptions q0 ?p) b" "options_grow ?p b"
        using append_grow6(2) [OF a(1)] append_grow6(3) [OF a(2)] append_grow6(1) [of ?p q0] options_grow_trans by blast+
      have o1: "o1 = Opt UV6 OPTION_DHCPV4_MSG ?d PGeneric []"
        using a(3) g(2) p(2) by (auto simp: mk_Option_def check_def options_grow_def)
      have cid: "o2 \<in> snd ` set (p6_options b)" if "Pkt6_getOption D6O_CLIENTID q0 = Some o2" for o2
        using that g(1) by (force simp: copyDefaultOptions_def options_grow_def Pkt6_addOption_def set_mm_insert)
      from Pkt6_pack_keeps [OF r0(2)] obtain rs buf where
        "r = (address_response6 q r0)\<lparr>p6_relay_info := rs, p6_bufferOut := buf\<rparr>" by blast
      with g(2) p a(4,5) o1 cid show ?thesis
        by (auto simp: response_to_def address_response6_def options_grow_def Pkt6_addOption_def set_mm_insert)
    qed
    with Some k u tu show ?thesis by (auto simp: peek_take relayed_def)
  qed
qed

section \<open>The network side of the DHCPv6 server\<close>

text \<open>A packet as \<^verbatim>\<open>receive6\<close> makes it for a datagram from the network.\<close>

definition received6 :: "pkt6 \<Rightarrow> bool" where
  "received6 p \<longleftrightarrow> p6_msg_type p = 0 \<and> p6_options p = [] \<and> p6_data4o6 p = []"

text \<open>The DHCPV4_QUERY in a datagram, parsed.\<close>

definition query_in :: "pkt6 \<Rightarrow> pkt6 option" where
  "query_in p = (case Pkt6_unpack p of Inr (q, True) \<Rightarrow> if p6_msg_type q = DHCPV4_QUERY then Some q else None | _ \<Rightarrow> None)"

lemma unpackMsg_keeps: "unpackMsg buf p = Inr (q, ok) \<Longrightarrow> p6_data4o6 q = p6_data4o6 p \<and> p6_remote_addr q = p6_remote_addr p"
  by (auto simp: unpackMsg_def Let_def catch_isc_def result_simps split: if_splits sum.splits)

lemma unpack_relay_keeps:
  "unpack_relay buf p = Inr (q, inner) \<Longrightarrow> p6_data4o6 q = p6_data4o6 p \<and> p6_remote_addr q = p6_remote_addr p"
  by (auto simp: unpack_relay_def addRelayInfo_def result_simps Let_def split: if_splits)

lemma unpackRelayMsg_keeps:
  "unpackRelayMsg buf p = Inr (q, ok) \<Longrightarrow> p6_data4o6 q = p6_data4o6 p \<and> p6_remote_addr q = p6_remote_addr p"
proof (induction buf p rule: unpackRelayMsg.induct)
  case (1 buf p)
  show ?case
  proof (cases "length buf \<ge> DHCPV6_RELAY_HDR_LEN")
    case True
    show ?thesis
    proof (cases "unpack_relay buf p")
      case (Inl x)
      with "1.prems" True show ?thesis by (subst (asm) unpackRelayMsg.simps) (auto split: if_splits)
    next
      case (Inr r)
      obtain p' inner where r: "r = (p', inner)" by (cases r)
      with "1.prems" True Inr "1.IH" [OF True Inr] unpack_relay_keeps [of buf p p' inner] show ?thesis
        by (subst (asm) unpackRelayMsg.simps) (auto split: if_splits option.splits dest: unpackMsg_keeps)
    qed
  next
    case False
    with "1.prems" show ?thesis by (subst (asm) unpackRelayMsg.simps) auto
  qed
qed

lemma Pkt6_unpack_keeps: "Pkt6_unpack p = Inr (q, ok) \<Longrightarrow> p6_data4o6 q = p6_data4o6 p \<and> p6_remote_addr q = p6_remote_addr p"
  by (auto simp: Pkt6_unpack_def unpackUDP_def Let_def split: DHCPv6Proto.splits if_splits
      dest: unpackMsg_keeps unpackRelayMsg_keeps)

text \<open>The other handlers do not touch the map and the channel, and answer with ADVERTISE or REPLY.\<close>

definition returns :: "('a \<Rightarrow> bool) \<Rightarrow> ('s, 'a) eff \<Rightarrow> bool" where
  "returns P m \<longleftrightarrow> (\<forall>s x t. m s = (Inr x, t) \<longrightarrow> P x)"

named_theorems returns_intros \<open>rules for \<^const>\<open>returns\<close>\<close>

lemma returnsD: "returns P m \<Longrightarrow> m s = (Inr x, t) \<Longrightarrow> P x"
  by (auto simp: returns_def)

lemma returns_pure [returns_intros]: "P x \<Longrightarrow> returns P (retS x)" "returns P (throwS e)"
  "(\<And>s x. f s = Inr x \<Longrightarrow> P x) \<Longrightarrow> returns P (askS f)"
  by (auto simp: returns_def eff_apply)

lemma returns_bind: "returns Q m \<Longrightarrow> (\<And>x. Q x \<Longrightarrow> returns P (f x)) \<Longrightarrow> returns P (bindS m f)"
  unfolding returns_def bindS_Inr by blast

lemma returns_then [returns_intros]: "(\<And>x. returns P (f x)) \<Longrightarrow> returns P (bindS m f)"
  by (rule returns_bind [where Q = "\<lambda>_. True"]) (auto simp: returns_def)

lemma returns_option [returns_intros]:
  "(x = None \<Longrightarrow> returns P m) \<Longrightarrow> (\<And>y. x = Some y \<Longrightarrow> returns P (f y)) \<Longrightarrow>
     returns P (case x of None \<Rightarrow> m | Some y \<Rightarrow> f y)"
  by (cases x) auto

lemma returns_prod [returns_intros]: "(\<And>a b. x = (a, b) \<Longrightarrow> returns P (f a b)) \<Longrightarrow> returns P (case x of (a, b) \<Rightarrow> f a b)"
  by (cases x) auto

lemma returns_foldS:
  assumes "P a" "\<And>x a. P a \<Longrightarrow> returns P (f x a)"
  shows "returns P (foldS f xs a)"
  using assms(1) by (induction xs arbitrary: a) (auto intro: returns_pure(1) returns_bind [OF assms(2)])

lemma addOption_type [simp]: "p6_msg_type (Pkt6_addOption o1 p) = p6_msg_type p"
  by (simp add: Pkt6_addOption_def)

lemma returns_leases:
  assumes "p6_msg_type p = ty"
  shows "returns (\<lambda>r. p6_msg_type r = ty) (assignLeases e q p)" "returns (\<lambda>r. p6_msg_type r = ty) (renewLeases e q p)"
    "returns (\<lambda>r. p6_msg_type r = ty) (releaseLeases e q p)"
proof -
  show "returns (\<lambda>r. p6_msg_type r = ty) (assignLeases e q p)"
    unfolding assignLeases_def by (intro returns_intros returns_foldS) (auto simp: assms)
  show "returns (\<lambda>r. p6_msg_type r = ty) (renewLeases e q p)"
    unfolding renewLeases_def by (intro returns_intros returns_foldS) (auto simp: assms result_simps)
  have loop: "returns (\<lambda>rg. p6_msg_type (fst rg) = ty) (foldS (\<lambda>ia (reply, general_status).
      bindS (releaseIA_NA e duid general_status ia) (\<lambda>(answer_opt, general_status).
        retS (Pkt6_addOption answer_opt reply, general_status))) (ias q) (p, STATUS_Success))" for duid
    by (intro returns_intros returns_foldS) (auto simp: assms intro!: returns_intros)
  show "returns (\<lambda>r. p6_msg_type r = ty) (releaseLeases e q p)"
    unfolding releaseLeases_def
  proof (intro returns_option, goal_cases)
    case 1
    then show ?case by (intro returns_intros) (auto simp: assms result_simps)
  next
    case 2
    show ?case
      by (rule returns_then, rule returns_bind [OF loop], intro returns_intros) (auto simp: result_simps)
  qed
qed

lemma returns_handlers:
  "returns (\<lambda>r. p6_msg_type r = DHCPV6_ADVERTISE) (processSolicit6 e q)"
  "returns (\<lambda>r. p6_msg_type r = DHCPV6_REPLY) (processRequest6 e q)"
  "returns (\<lambda>r. p6_msg_type r = DHCPV6_REPLY) (processRenew6 e q)"
  "returns (\<lambda>r. p6_msg_type r = DHCPV6_REPLY) (processRelease6 e q)"
proof -
  have start: "returns (\<lambda>p. p6_msg_type p = ty) (askS (\<lambda>s :: 'a Dhcpv6Srv. appendDefaultOptions6 (s6_serverid s)
      (copyDefaultOptions q (mk_Pkt6 ty xid))))" for ty xid
    by (intro returns_intros) (auto dest!: append_header6(3) simp: append_header6(2) mk_Pkt6_def)
  have req: "returns (\<lambda>p. p6_msg_type p = ty) (askS (\<lambda>s :: 'a Dhcpv6Srv. appendRequestedOptions6 (s6_cfg s) q p))"
    if "p6_msg_type p = ty" for ty p
    by (intro returns_intros) (use that in \<open>auto dest!: append_header6(4)\<close>)
  show "returns (\<lambda>r. p6_msg_type r = DHCPV6_ADVERTISE) (processSolicit6 e q)"
    "returns (\<lambda>r. p6_msg_type r = DHCPV6_REPLY) (processRequest6 e q)"
    "returns (\<lambda>r. p6_msg_type r = DHCPV6_REPLY) (processRenew6 e q)"
    unfolding processSolicit6_def processRequest6_def processRenew6_def
    by (rule returns_then, rule returns_bind [OF start], rule returns_bind [OF req], assumption, rule returns_leases, assumption)+
  show "returns (\<lambda>r. p6_msg_type r = DHCPV6_REPLY) (processRelease6 e q)"
    unfolding processRelease6_def
    by (rule returns_then, rule returns_bind [OF start], rule returns_leases, assumption)
qed

definition apart :: "(u32 \<rightharpoonup> pkt6) \<Rightarrow> bytes list \<Rightarrow> 's Dhcpv6Srv \<Rightarrow> bool" where
  "apart m c s \<longleftrightarrow> s6_map4o6 s = m \<and> s6_to_dhcp4 s = c"

lemma keeps_apart:
  "keeps (apart m c) (at_subnet6 i w)" "keeps (apart m c) (leasesS6 v)"
  unfolding at_subnet6_def by (auto simp: keeps_def apart_def zoomS_def split: prod.splits)

lemma handlers_apart:
  "keeps (apart m c) (processSolicit6 e q)" "keeps (apart m c) (processRequest6 e q)"
  "keeps (apart m c) (processRenew6 e q)" "keeps (apart m c) (processRelease6 e q)"
  unfolding processSolicit6_def processRequest6_def processRenew6_def processRelease6_def assignLeases_def renewLeases_def
    releaseLeases_def assignIA_NA_def renewIA_NA_def releaseIA_NA_def Let_def
  by (intro keeps_intros keeps_foldS keeps_apart)+

text \<open>What becomes of a datagram from the network.\<close>

definition taken :: "'s Env6 \<Rightarrow> pkt6 option \<Rightarrow> 's Dhcpv6Srv \<Rightarrow> 's Dhcpv6Srv \<Rightarrow> pkt6 option \<Rightarrow> bool" where
  "taken e query s t out \<longleftrightarrow>
     (case query of
        None \<Rightarrow> s6_map4o6 t = s6_map4o6 s \<and> s6_to_dhcp4 t = s6_to_dhcp4 s \<and> (\<forall>r. out = Some r \<longrightarrow> p6_msg_type r \<noteq> DHCPV4_RESPONSE)
      | Some q \<Rightarrow> out = None \<and>
          (\<exists>o1 k. Pkt6_getOption OPTION_DHCPV4_MSG q = Some o1 \<and>
             (if e6_connects e then peek_xid (odata o1) = Inr k \<and>
                t = s\<lparr>s6_to_dhcp4 := s6_to_dhcp4 s @ [odata o1], s6_map4o6 := (s6_map4o6 s)(k \<mapsto> q)\<rparr>
              else t = s)))"

lemma peek_xid_isc: "peek_xid d = Inl x \<Longrightarrow> x = OutOfBounds"
  by (auto simp: peek_xid_def readUint32_def split: list.splits)

lemma query_step:
  assumes "p6_msg_type q = DHCPV4_QUERY" "dispatch6 e q s = (Inr (rsp, q'), t)"
  shows "rsp = None \<and> taken e (Some q) s t None"
proof (cases "Pkt6_getOption OPTION_DHCPV4_MSG q")
  case None
  with assms show ?thesis by (simp add: dispatch6_4o6 processDHCPv4Query_def catchS_def eff_simps)
next
  case (Some o1)
  show ?thesis
  proof (cases "peek_xid (odata o1)")
    case (Inl x)
    with Some assms peek_xid_isc [OF Inl] show ?thesis
      by (auto simp: dispatch6_4o6 processDHCPv4Query_def catchS_def eff_simps taken_def split: if_splits)
  next
    case (Inr k)
    with Some assms show ?thesis
      by (auto simp: dispatch6_4o6 processDHCPv4Query_def catchS_def eff_simps taken_def split: if_splits)
  qed
qed

lemma answer_step:
  assumes "catchS (bindS m (\<lambda>rsp. retS (Some rsp, q))) (\<lambda>_. retS (None, q)) s = (Inr (rsp, q'), t)"
    and "keeps (apart (s6_map4o6 s) (s6_to_dhcp4 s)) m" "returns (\<lambda>r. p6_msg_type r = ty) m" "ty \<noteq> DHCPV4_RESPONSE"
  shows "s6_map4o6 t = s6_map4o6 s \<and> s6_to_dhcp4 t = s6_to_dhcp4 s \<and> (\<forall>r. rsp = Some r \<longrightarrow> p6_msg_type r \<noteq> DHCPV4_RESPONSE)"
proof -
  have "keeps (apart (s6_map4o6 s) (s6_to_dhcp4 s)) (catchS (bindS m (\<lambda>rsp. retS (Some rsp, q))) (\<lambda>_. retS (None, q)))"
    by (intro keeps_intros assms(2))
  from keepsD [OF this _ assms(1)] have "apart (s6_map4o6 s) (s6_to_dhcp4 s) t" by (simp add: apart_def)
  moreover have "p6_msg_type r = ty" if "rsp = Some r" for r
    using assms(1) that returnsD [OF assms(3)] by (auto simp: caught_answer)
  ultimately show ?thesis using assms(4) by (simp add: apart_def)
qed

lemma other_step:
  assumes "p6_msg_type q \<noteq> DHCPV4_QUERY" "p6_data4o6 q = []" "dispatch6 e q s = (Inr (rsp, q'), t)"
  shows "s6_map4o6 t = s6_map4o6 s \<and> s6_to_dhcp4 t = s6_to_dhcp4 s \<and> (\<forall>r. rsp = Some r \<longrightarrow> p6_msg_type r \<noteq> DHCPV4_RESPONSE)"
proof -
  let ?done = "\<lambda>r. catchS (bindS (retS r) (\<lambda>rsp. retS (Some rsp, q))) (\<lambda>_. retS (None, q)) s = (Inr (rsp, q'), t)"
  have reply: ?thesis if "?done r" "p6_msg_type r = DHCPV6_REPLY" for r
    by (rule answer_step [OF that(1)]) (auto intro!: keeps_intros returns_intros simp: that(2))
  have resp: "p6_msg_type q \<noteq> DHCPV4_RESPONSE"
    using assms(2,3)
    by (auto simp: dispatch6_4o6 processDHCPv4Response_def catchS_def eff_simps peek_xid_def readUint32_def)
  consider "p6_msg_type q = DHCPV6_SOLICIT" | "p6_msg_type q = DHCPV6_REQUEST" | "p6_msg_type q = DHCPV6_RENEW"
    | "p6_msg_type q = DHCPV6_RELEASE"
    | r where "?done r" "p6_msg_type r = DHCPV6_REPLY"
    | "catchS (retS (None, q)) (\<lambda>_. retS (None, q)) s = (Inr (rsp, q'), t)"
    using assms(1,3) resp
    by (auto simp: dispatch6_def Let_def processRebind_def processConfirm_def processDecline6_def processInfRequest_def
        mk_Pkt6_def split: if_splits)
  then show ?thesis
  proof cases
    case 1
    from assms(3) [unfolded dispatch6_handler(1) [OF 1]] show ?thesis
      by (rule answer_step [OF _ handlers_apart(1) returns_handlers(1)]) simp
  next
    case 2
    from assms(3) [unfolded dispatch6_handler(2) [OF 2]] show ?thesis
      by (rule answer_step [OF _ handlers_apart(2) returns_handlers(2)]) simp
  next
    case 3
    from assms(3) [unfolded dispatch6_handler(3) [OF 3]] show ?thesis
      by (rule answer_step [OF _ handlers_apart(3) returns_handlers(3)]) simp
  next
    case 4
    from assms(3) [unfolded dispatch6_handler(4) [OF 4]] show ?thesis
      by (rule answer_step [OF _ handlers_apart(4) returns_handlers(4)]) simp
  next
    case (5 r)
    then show ?thesis by (rule reply)
  next
    case 6
    then show ?thesis by (auto simp: catchS_def eff_apply)
  qed
qed

lemma network6_step:
  assumes "received6 p" "run6 e p s = (Inr out, t)"
  shows "taken e (query_in p) s t out"
proof -
  obtain q parsed where q: "Pkt6_unpack p = Inr (q, parsed)"
    using assms by (auto simp: run6_def received6_def bindS_askS split: sum.splits)
  show ?thesis
  proof (cases parsed)
    case False
    with assms q show ?thesis by (auto simp: run6_def received6_def eff_simps taken_def query_in_def)
  next
    case True
    then obtain rsp q' u where d: "dispatch6 e q s = (Inr (rsp, q'), u)"
      and rest: "(case rsp of None \<Rightarrow> retS None | Some r \<Rightarrow> bindS (liftS (Pkt6_pack (address_response6 q' r))) (\<lambda>(packed, ok).
        if ok then retS (Some packed) else retS None)) u = (Inr out, t)"
      using assms q by (auto simp: run6_def received6_def bindS_askS bindS_Inr)
    have tu: "t = u" using rest by (auto simp: eff_simps split: option.splits sum.splits if_splits prod.splits)
    have out: "\<exists>r0. rsp = Some r0 \<and> p6_msg_type r0 = p6_msg_type r" if "out = Some r" for r
      using rest that
      by (auto simp: eff_simps address_response6_def split: option.splits sum.splits if_splits prod.splits dest!: Pkt6_pack_keeps)
    have data: "p6_data4o6 q = []" using Pkt6_unpack_keeps [OF q] assms(1) by (simp add: received6_def)
    show ?thesis
    proof (cases "p6_msg_type q = DHCPV4_QUERY")
      case query: True
      with query_step [OF query d] rest tu q True show ?thesis
        by (auto simp: query_in_def eff_apply)
    next
      case False
      with other_step [OF False data d] tu q True out show ?thesis by (auto simp: query_in_def taken_def)
    qed
  qed
qed

section \<open>The two servers together\<close>

text \<open>
  \<open>sys_asked\<close> and \<open>sys_sent\<close> record the DHCPv4 queries the DHCPv6 server has received and the packets it has sent;
  no step reads them. The channel to the DHCPv4 server is \<^const>\<open>s6_to_dhcp4\<close>. A server whose loop is
  left by an exception takes no step any more.
\<close>

record System =
  sys_srv4 :: "Memfile_LeaseMgr Dhcpv4Srv"
  sys_srv6 :: "Memfile_LeaseMgr Dhcpv6Srv"
  sys_chan46 :: "bytes list"
  sys_asked :: "pkt6 list"
  sys_sent :: "pkt6 list"

abbreviation opt_list :: "'a option \<Rightarrow> 'a list" where
  "opt_list x \<equiv> (case x of None \<Rightarrow> [] | Some y \<Rightarrow> [y])"

inductive step4o6 :: "System \<Rightarrow> System \<Rightarrow> bool" where
  network6: "received6 p \<Longrightarrow> e6_mgr e = memfile \<Longrightarrow> run6 e p (sys_srv6 s) = (Inr out, t) \<Longrightarrow>
    step4o6 s (s\<lparr>sys_srv6 := t, sys_asked := sys_asked s @ opt_list (query_in p), sys_sent := sys_sent s @ opt_list out\<rparr>)"
| network4: "\<not> p4_is4o6 p \<Longrightarrow> e4_mgr e' = memfile \<Longrightarrow> run4 e' p (sys_srv4 s) = (Inr out', t') \<Longrightarrow>
    step4o6 s (s\<lparr>sys_srv4 := t'\<rparr>)"
| serve: "s6_to_dhcp4 (sys_srv6 s) = d # ds \<Longrightarrow> receive6to4 d = Inr p \<Longrightarrow> e4_mgr e' = memfile \<Longrightarrow>
    run4 e' p (sys_srv4 s) = (Inr out', t') \<Longrightarrow>
    (case out' of None \<Rightarrow> chan = sys_chan46 s
     | Some r \<Rightarrow> \<exists>m filter_send connects sent. IfaceMgr_send4 m filter_send connects r (sys_chan46 s) = (sent, chan)) \<Longrightarrow>
    step4o6 s (s\<lparr>sys_srv4 := t', sys_srv6 := (sys_srv6 s)\<lparr>s6_to_dhcp4 := ds\<rparr>, sys_chan46 := chan\<rparr>)"
| too_short: "s6_to_dhcp4 (sys_srv6 s) = d # ds \<Longrightarrow> receive6to4 d = Inl x \<Longrightarrow>
    step4o6 s (s\<lparr>sys_srv6 := (sys_srv6 s)\<lparr>s6_to_dhcp4 := ds\<rparr>\<rparr>)"
| deliver: "sys_chan46 s = d # ds \<Longrightarrow> e6_mgr e = memfile \<Longrightarrow> run6 e (receive4to6 d) (sys_srv6 s) = (Inr out, t) \<Longrightarrow>
    step4o6 s (s\<lparr>sys_srv6 := t, sys_chan46 := ds, sys_sent := sys_sent s @ opt_list out\<rparr>)"

inductive reachable4o6 :: "System \<Rightarrow> bool" where
  start: "srv4_ok (sys_srv4 s) \<Longrightarrow> srv6_ok (sys_srv6 s) \<Longrightarrow> s6_map4o6 (sys_srv6 s) = Map.empty \<Longrightarrow>
    s6_to_dhcp4 (sys_srv6 s) = [] \<Longrightarrow> sys_chan46 s = [] \<Longrightarrow> sys_asked s = [] \<Longrightarrow> sys_sent s = [] \<Longrightarrow> reachable4o6 s"
| step: "reachable4o6 s \<Longrightarrow> step4o6 s s' \<Longrightarrow> reachable4o6 s'"

text \<open>The transaction id of the DHCPv4 message in a query.\<close>

definition query_xid :: "pkt6 \<Rightarrow> u32 option" where
  "query_xid q =
     (case Pkt6_getOption OPTION_DHCPV4_MSG q of
        None \<Rightarrow> None
      | Some o1 \<Rightarrow> (case peek_xid (odata o1) of Inr k \<Rightarrow> Some k | Inl _ \<Rightarrow> None))"

text \<open>How many queries and DHCPv4 responses of a list, and how many messages of a channel, have the transaction id \<open>k\<close>.\<close>

definition n_asked :: "u32 \<Rightarrow> pkt6 list \<Rightarrow> nat" where
  "n_asked k qs = length (filter (\<lambda>q. query_xid q = Some k) qs)"

definition n_xid :: "u32 \<Rightarrow> bytes list \<Rightarrow> nat" where
  "n_xid k ds = length (filter (\<lambda>d. peek_xid d = Inr k) ds)"

definition n_answered :: "u32 \<Rightarrow> pkt6 list \<Rightarrow> nat" where
  "n_answered k rs = length (filter (\<lambda>r. p6_msg_type r = DHCPV4_RESPONSE \<and> peek_xid (p6_data4o6 r) = Inr k) rs)"

lemma count_simps [simp]:
  "n_xid k [] = 0" "n_xid k (d # ds) = (if peek_xid d = Inr k then 1 else 0) + n_xid k ds" "n_xid k (ds @ ds') = n_xid k ds + n_xid k ds'"
  "n_asked k [] = 0" "n_asked k [q] = (if query_xid q = Some k then 1 else 0)" "n_asked k (qs @ qs') = n_asked k qs + n_asked k qs'"
  "n_answered k [] = 0" "n_answered k (rs @ rs') = n_answered k rs + n_answered k rs'"
  by (simp_all add: n_xid_def n_asked_def n_answered_def)

lemma n_answered_other: "\<forall>r. out = Some r \<longrightarrow> p6_msg_type r \<noteq> DHCPV4_RESPONSE \<Longrightarrow> n_answered k (opt_list out) = 0"
  by (auto simp: n_answered_def split: option.splits)

lemma n_answered_response:
  assumes "\<forall>r. out = Some r \<longrightarrow> peek_xid (p6_data4o6 r) = Inr j"
  shows "n_answered k (opt_list out) \<le> (if k = j then 1 else 0)"
  using assms by (auto simp: n_answered_def split: option.splits)

text \<open>The invariant, first part: the servers are in order, the waiting queries are among those asked, and each
  response went to one of them.\<close>

definition asked_by :: "System \<Rightarrow> pkt6 \<Rightarrow> bool" where
  "asked_by s r \<longleftrightarrow> (\<exists>q\<in>set (sys_asked s). \<exists>k. query_xid q = Some k \<and> peek_xid (p6_data4o6 r) = Inr k \<and> response_to q (p6_data4o6 r) r)"

definition linked :: "System \<Rightarrow> bool" where
  "linked s \<longleftrightarrow> srv4_ok (sys_srv4 s) \<and> srv6_ok (sys_srv6 s) \<and>
     (\<forall>k q. s6_map4o6 (sys_srv6 s) k = Some q \<longrightarrow> q \<in> set (sys_asked s) \<and> query_xid q = Some k) \<and>
     (\<forall>r\<in>set (sys_sent s). p6_msg_type r = DHCPV4_RESPONSE \<longrightarrow> asked_by s r)"

text \<open>Second part: for each transaction id the messages in the channels and the responses are together no more than the
  queries, and neither are the responses and the query that waits.\<close>

definition balanced :: "u32 \<Rightarrow> System \<Rightarrow> bool" where
  "balanced k s \<longleftrightarrow>
     n_xid k (s6_to_dhcp4 (sys_srv6 s)) + n_xid k (sys_chan46 s) + n_answered k (sys_sent s) \<le> n_asked k (sys_asked s) \<and>
     n_answered k (sys_sent s) + (if s6_map4o6 (sys_srv6 s) k = None then 0 else 1) \<le> n_asked k (sys_asked s)"

definition inv4o6 :: "System \<Rightarrow> bool" where
  "inv4o6 s \<longleftrightarrow> linked s \<and> (\<forall>k. balanced k s)"

lemma asked_by_more:
  assumes "asked_by s r" "set (sys_asked s) \<subseteq> set (sys_asked s')"
  shows "asked_by s' r"
  using assms unfolding asked_by_def by blast

lemma send4_channel:
  assumes "IfaceMgr_send4 m fs connects r chan = (sent, chan')"
  shows "chan' = chan \<or> chan' = chan @ [p4_bufferOut r]"
  using assms by (auto simp: IfaceMgr_send4_def send4to6_def eff_simps split: if_splits)

lemma serve_xid:
  assumes "srv4_ok s" "e4_mgr e = memfile" "receive6to4 d = Inr p" "run4 e p s = (Inr (Some r), t)"
  shows "peek_xid (p4_bufferOut r) = peek_xid d"
proof -
  have "p4_data p = take RCVBUFSIZE d"
    using assms(3) by (auto simp: receive6to4_def mk_Pkt4_rx_def result_simps split: if_splits)
  with run4_xid [OF assms(1,2,4)] show ?thesis by (simp add: peek_take)
qed

lemma run_ok:
  "srv4_ok s \<Longrightarrow> e4_mgr e = memfile \<Longrightarrow> run4 e p s = (r, t) \<Longrightarrow> srv4_ok t"
  "srv6_ok s' \<Longrightarrow> e6_mgr e' = memfile \<Longrightarrow> run6 e' p' s' = (r', t') \<Longrightarrow> srv6_ok t'"
proof -
  show "srv4_ok t" if "srv4_ok s" "e4_mgr e = memfile" "run4 e p s = (r, t)"
    using keepsD [OF keeps_run4 [OF that(2)] that(1,3)] .
  show "srv6_ok t'" if "srv6_ok s'" "e6_mgr e' = memfile" "run6 e' p' s' = (r', t')"
    using keepsD [OF keeps_run6 [OF that(2)] _ that(3), of "length (cfg_subnets6 (s6_cfg s'))"] that(1)
    by (simp add: srv6_subnets_def)
qed

lemma inv_network6:
  assumes "inv4o6 s" "received6 p" "e6_mgr e = memfile" "run6 e p (sys_srv6 s) = (Inr out, t)"
  shows "inv4o6 (s\<lparr>sys_srv6 := t, sys_asked := sys_asked s @ opt_list (query_in p), sys_sent := sys_sent s @ opt_list out\<rparr>)"
    (is "inv4o6 ?s")
proof -
  have ok: "linked s" "srv6_ok t" "\<And>k. balanced k s"
    using run_ok(2) [OF _ assms(3,4)] assms(1) by (auto simp: inv4o6_def linked_def)
  have more: "asked_by ?s r" if "asked_by s r" for r using that by (rule asked_by_more) auto
  have "taken e (query_in p) (sys_srv6 s) t out" by (rule network6_step [OF assms(2,4)])
  then consider (other) "query_in p = None" "s6_map4o6 t = s6_map4o6 (sys_srv6 s)" "s6_to_dhcp4 t = s6_to_dhcp4 (sys_srv6 s)"
      "\<forall>r. out = Some r \<longrightarrow> p6_msg_type r \<noteq> DHCPV4_RESPONSE"
    | (lost) q where "query_in p = Some q" "out = None" "t = sys_srv6 s"
    | (passed) q o1 k where "query_in p = Some q" "out = None" "Pkt6_getOption OPTION_DHCPV4_MSG q = Some o1"
      "peek_xid (odata o1) = Inr k"
      "s6_to_dhcp4 t = s6_to_dhcp4 (sys_srv6 s) @ [odata o1]" "s6_map4o6 t = (s6_map4o6 (sys_srv6 s))(k \<mapsto> q)"
    by (auto simp: taken_def split: option.splits if_splits)
  then show ?thesis
  proof cases
    case other
    have "linked ?s" using ok(1,2) other more by (auto simp: linked_def split: option.splits)
    moreover have "balanced k ?s" for k using ok(3) [of k] other n_answered_other [of out k] by (simp add: balanced_def)
    ultimately show ?thesis by (simp add: inv4o6_def)
  next
    case lost
    have "linked ?s" using ok(1,2) lost more by (auto simp: linked_def)
    moreover have "balanced k ?s" for k using ok(3) [of k] lost by (simp add: balanced_def split: if_splits)
    ultimately show ?thesis by (simp add: inv4o6_def)
  next
    case (passed q o1 k)
    then have q: "query_xid q = Some k" by (simp add: query_xid_def)
    have "linked ?s" using ok(1,2) passed q more by (auto simp: linked_def)
    moreover have "balanced j ?s" for j using ok(3) [of j] passed q by (auto simp: balanced_def split: if_splits)
    ultimately show ?thesis by (simp add: inv4o6_def)
  qed
qed

lemma inv_serve:
  assumes "inv4o6 s" "s6_to_dhcp4 (sys_srv6 s) = d # ds" "receive6to4 d = Inr p" "e4_mgr e = memfile"
    and run: "run4 e p (sys_srv4 s) = (Inr out, t)"
    and sent: "case out of None \<Rightarrow> chan = sys_chan46 s
     | Some r \<Rightarrow> \<exists>m fs connects sent. IfaceMgr_send4 m fs connects r (sys_chan46 s) = (sent, chan)"
  shows "inv4o6 (s\<lparr>sys_srv4 := t, sys_srv6 := (sys_srv6 s)\<lparr>s6_to_dhcp4 := ds\<rparr>, sys_chan46 := chan\<rparr>)"
    (is "inv4o6 ?s")
proof -
  have s: "srv4_ok (sys_srv4 s)" "linked s" "\<And>k. balanced k s" using assms(1) by (auto simp: inv4o6_def linked_def)
  have "srv4_ok t" by (rule run_ok(1) [OF s(1) assms(4) run])
  with s(2) have "linked ?s" by (auto simp: linked_def srv6_ok_def asked_by_def)
  moreover have "balanced k ?s" for k
  proof -
    have "n_xid k chan \<le> n_xid k (sys_chan46 s) + (if peek_xid d = Inr k then 1 else 0)"
    proof (cases out)
      case None
      with sent show ?thesis by simp
    next
      case (Some r)
      then have "peek_xid (p4_bufferOut r) = peek_xid d" using serve_xid [OF s(1) assms(4,3)] run by simp
      moreover obtain m fs connects x where "IfaceMgr_send4 m fs connects r (sys_chan46 s) = (x, chan)"
        using sent Some by auto
      ultimately show ?thesis using send4_channel by fastforce
    qed
    with s(3) [of k] assms(2) show ?thesis by (auto simp: balanced_def)
  qed
  ultimately show ?thesis by (simp add: inv4o6_def)
qed

lemma inv_deliver:
  assumes "inv4o6 s" "sys_chan46 s = d # ds" "e6_mgr e = memfile"
    and run: "run6 e (receive4to6 d) (sys_srv6 s) = (Inr out, t)"
  shows "inv4o6 (s\<lparr>sys_srv6 := t, sys_chan46 := ds, sys_sent := sys_sent s @ opt_list out\<rparr>)" (is "inv4o6 ?s")
proof -
  have ok: "linked s" "srv6_ok t" "\<And>k. balanced k s"
    using run_ok(2) [OF _ assms(3) run] assms(1) by (auto simp: inv4o6_def linked_def)
  have same: "asked_by ?s r = asked_by s r" for r by (simp add: asked_by_def)
  obtain k where k: "peek_xid d = Inr k" "relayed k (take RCVBUFSIZE d) (sys_srv6 s) t out"
    using response6_step [OF run] by blast
  show ?thesis
  proof (cases "s6_map4o6 (sys_srv6 s) k")
    case None
    with k have t: "t = sys_srv6 s" "out = None" by (auto simp: relayed_def)
    have "linked ?s" using ok(1) t same by (auto simp: linked_def)
    moreover have "balanced j ?s" for j using ok(3) [of j] t assms(2) by (auto simp: balanced_def)
    ultimately show ?thesis by (simp add: inv4o6_def)
  next
    case (Some q)
    then have t: "t = (sys_srv6 s)\<lparr>s6_map4o6 := (s6_map4o6 (sys_srv6 s))(k := None)\<rparr>"
      and r: "\<forall>r. out = Some r \<longrightarrow> response_to q (take RCVBUFSIZE d) r"
      using k(2) by (auto simp: relayed_def)
    have q: "q \<in> set (sys_asked s)" "query_xid q = Some k" using ok(1) Some by (auto simp: linked_def)
    have "asked_by s x" if "out = Some x" for x
    proof -
      have x: "response_to q (take RCVBUFSIZE d) x" using r that by blast
      then have d: "p6_data4o6 x = take RCVBUFSIZE d" by (simp add: response_to_def)
      show ?thesis unfolding asked_by_def d peek_take using q k(1) x by blast
    qed
    then have "linked ?s" using ok(1,2) t same by (auto simp: linked_def split: if_splits option.splits)
    moreover have "balanced j ?s" for j
    proof -
      have "\<forall>r. out = Some r \<longrightarrow> peek_xid (p6_data4o6 r) = Inr k" using r k(1) by (auto simp: response_to_def peek_take)
      from n_answered_response [OF this, of j] ok(3) [of j] t k(1) Some assms(2) show ?thesis
        by (auto simp: balanced_def split: if_splits)
    qed
    ultimately show ?thesis by (simp add: inv4o6_def)
  qed
qed

lemma inv4o6_reachable: "reachable4o6 s \<Longrightarrow> inv4o6 s"
proof (induction rule: reachable4o6.induct)
  case (start s)
  then show ?case by (simp add: inv4o6_def linked_def balanced_def)
next
  case (step s s')
  from step.hyps(2) show ?case
  proof (cases rule: step4o6.cases)
    case (network4 p e' out' t')
    with step.IH run_ok(1) show ?thesis by (auto simp: inv4o6_def linked_def balanced_def asked_by_def)
  next
    case (too_short d ds x)
    with step.IH have "linked s'" by (auto simp: inv4o6_def linked_def srv6_ok_def asked_by_def)
    moreover have "balanced k s'" for k
    proof -
      have "balanced k s" using step.IH by (simp add: inv4o6_def)
      with too_short show ?thesis by (auto simp: balanced_def split: if_splits)
    qed
    ultimately show ?thesis by (simp add: inv4o6_def)
  qed (use step.IH inv_network6 inv_serve inv_deliver in blast)+
qed

section \<open>Properties\<close>

text \<open>C1. In every state the two servers and their channels can reach, each DHCPv4 response the DHCPv6 server has
  sent was addressed to a client that had sent a DHCPv4 query with the same transaction id, and
  carries its client id; and for each transaction id there were no more responses than queries, the one still
  waiting included, and no more messages under way and answered than queries. The leases and the
  configuration of both servers stay consistent.\<close>

theorem responses_matched:
  assumes "reachable4o6 s"
  shows "(\<forall>r. r \<in> set (sys_sent s) \<and> p6_msg_type r = DHCPV4_RESPONSE \<longrightarrow>
      (\<exists>q\<in>set (sys_asked s). \<exists>k. query_xid q = Some k \<and> peek_xid (p6_data4o6 r) = Inr k \<and> response_to q (p6_data4o6 r) r)) \<and>
    (\<forall>k. n_answered k (sys_sent s) + (if s6_map4o6 (sys_srv6 s) k = None then 0 else 1) \<le> n_asked k (sys_asked s)) \<and>
    (\<forall>k. n_xid k (s6_to_dhcp4 (sys_srv6 s)) + n_xid k (sys_chan46 s) + n_answered k (sys_sent s) \<le> n_asked k (sys_asked s)) \<and>
    srv4_ok (sys_srv4 s) \<and> srv6_ok (sys_srv6 s)"
  using inv4o6_reachable [OF assms] by (auto simp: inv4o6_def linked_def balanced_def asked_by_def)

lemma selectSubnet6_total:
  assumes "wf_cfg c" "isV6 (p6_remote_addr q)"
  shows "\<exists>r. selectSubnet6 q c = Inr r"
proof -
  obtain b where "is_link_local (p6_remote_addr q) = Inr b" using is_link_local_total [OF assms(2)] by blast
  moreover obtain r where "first_inRange (p6_remote_addr q) 0 (cfg_subnets6 c) = Inr r"
    using first_inRange_spec [of UV6 "cfg_subnets6 c" "p6_remote_addr q" 0] assms(1) by (auto simp: wf_cfg_def)
  ultimately show ?thesis by (auto simp: selectSubnet6_def getSubnet6_def split: option.splits)
qed

lemma appendRequestedOptions6_total:
  assumes "wf_cfg c" "isV6 (p6_remote_addr q)"
  shows "\<exists>p'. appendRequestedOptions6 c q p = Inr p'"
proof -
  obtain sub where "selectSubnet6 q c = Inr sub" using selectSubnet6_total [OF assms] by blast
  then show ?thesis
    by (cases sub; cases "map_option opayload (Pkt6_getOption D6O_ORO q)")
      (auto simp: appendRequestedOptions6_def split: payload.splits IntKind.splits)
qed

lemma response_dispatched:
  assumes "wf_cfg (s6_cfg s)" "s6_serverid s = Some srvid" "peek_xid d = Inr k"
  shows "case s6_map4o6 s k of
      None \<Rightarrow> dispatch6 e (receive4to6 d) s = (Inr (None, receive4to6 d), s) \<and> run6 e (receive4to6 d) s = (Inr None, s)
    | Some q \<Rightarrow> isV6 (p6_remote_addr q) \<longrightarrow>
        (\<exists>r. dispatch6 e (receive4to6 d) s = (Inr (Some r, q), s\<lparr>s6_map4o6 := (s6_map4o6 s)(k := None)\<rparr>) \<and>
           response_to q (take RCVBUFSIZE d) (address_response6 q r))"
proof -
  let ?p = "receive4to6 d" and ?d = "take RCVBUFSIZE d"
  have p: "p6_msg_type ?p = DHCPV4_RESPONSE" "p6_data4o6 ?p = ?d" by (simp_all add: receive4to6_def mk_Pkt6_def)
  have k: "peek_xid ?d = Inr k" using assms(3) by (simp add: peek_take)
  show ?thesis
  proof (cases "s6_map4o6 s k")
    case None
    with p k show ?thesis
      by (simp add: run6_def dispatch6_4o6 processDHCPv4Response_def catchS_def eff_simps bindS_def)
  next
    case (Some q)
    have "\<exists>r. dispatch6 e ?p s = (Inr (Some r, q), s\<lparr>s6_map4o6 := (s6_map4o6 s)(k := None)\<rparr>) \<and>
        response_to q ?d (address_response6 q r)" if v6: "isV6 (p6_remote_addr q)"
    proof -
      define a where "a = Pkt6_addOption srvid (copyDefaultOptions q ?p)"
      obtain b where b: "appendRequestedOptions6 (s6_cfg s) q a = Inr b"
        using appendRequestedOptions6_total [OF assms(1) v6] by blast
      have a: "appendDefaultOptions6 (s6_serverid s) (copyDefaultOptions q ?p) = Inr a"
        by (simp add: a_def appendDefaultOptions6_def assms(2))
      have g: "options_grow (copyDefaultOptions q ?p) b" "options_grow ?p b"
        using append_grow6(2) [OF a] append_grow6(3) [OF b] append_grow6(1) [of ?p q] options_grow_trans by blast+
      have o1: "mk_Option UV6 OPTION_DHCPV4_MSG (p6_data4o6 b) = Inr (Opt UV6 OPTION_DHCPV4_MSG ?d PGeneric [])"
        using g(2) p(2) by (auto simp: mk_Option_def check_def options_grow_def)
      let ?r = "Pkt6_addOption (Opt UV6 OPTION_DHCPV4_MSG ?d PGeneric []) b"
      have "dispatch6 e ?p s = (Inr (Some ?r, q), s\<lparr>s6_map4o6 := (s6_map4o6 s)(k := None)\<rparr>)"
        using p k Some a b o1 by (simp add: dispatch6_4o6 processDHCPv4Response_def catchS_def eff_simps)
      moreover have "o2 \<in> snd ` set (p6_options b)" if "Pkt6_getOption D6O_CLIENTID q = Some o2" for o2
        using that g(1) by (force simp: copyDefaultOptions_def options_grow_def Pkt6_addOption_def set_mm_insert)
      then have "response_to q ?d (address_response6 q ?r)"
        using g(2) p by (auto simp: response_to_def address_response6_def options_grow_def Pkt6_addOption_def set_mm_insert)
      ultimately show ?thesis by blast
    qed
    with Some show ?thesis by simp
  qed
qed

text \<open>C7. A response of the DHCPv4 server with the transaction id of a waiting query becomes a response to that query: it
  carries the bytes of the DHCPv4 server, up to the size of the read buffer, and the client id and goes to the
  address the query came from; the query waits no longer. A response nobody waits for is dropped and
  changes nothing.\<close>

theorem response_relayed:
  assumes "wf_cfg (s6_cfg s)" "s6_serverid s = Some srvid" "peek_xid d = Inr k"
  shows "case s6_map4o6 s k of
      None \<Rightarrow> run6 e (receive4to6 d) s = (Inr None, s)
    | Some q \<Rightarrow> isV6 (p6_remote_addr q) \<longrightarrow>
        (\<exists>r. dispatch6 e (receive4to6 d) s = (Inr (Some r, q), s\<lparr>s6_map4o6 := (s6_map4o6 s)(k := None)\<rparr>) \<and>
           response_to q (take RCVBUFSIZE d) (address_response6 q r))"
  using response_dispatched [OF assms, of e] by (auto split: option.splits)

lemma query_passed_on:
  assumes "p6_msg_type q = DHCPV4_QUERY" "query_xid q = Some k" "e6_connects e"
  shows "\<exists>o1. Pkt6_getOption OPTION_DHCPV4_MSG q = Some o1 \<and>
    dispatch6 e q s = (Inr (None, q), s\<lparr>s6_to_dhcp4 := s6_to_dhcp4 s @ [odata o1], s6_map4o6 := (s6_map4o6 s)(k \<mapsto> q)\<rparr>)"
  using assms
  by (auto simp: query_xid_def dispatch6_4o6 processDHCPv4Query_def catchS_def eff_simps split: option.splits sum.splits)

text \<open>C35. Transaction ids of different clients may collide: when a second client sends a DHCPv4 query with the transaction
  id of one that is under way, both DHCPv4 messages are passed on, but only the second query is remembered. The
  answer of the DHCPv4 server to the first client becomes a response to the second one, carries its client id and is
  addressed to it; it is sent whenever it can be packed. The answer to the second client is dropped.\<close>

theorem xid_collision:
  assumes "p6_msg_type q1 = DHCPV4_QUERY" "p6_msg_type q2 = DHCPV4_QUERY" "query_xid q1 = Some k" "query_xid q2 = Some k"
    and "e6_connects e" "peek_xid d1 = Inr k" "peek_xid d2 = Inr k"
    and "wf_cfg (s6_cfg s)" "s6_serverid s = Some srvid" "isV6 (p6_remote_addr q2)"
  shows "\<exists>s1 s2 t r. dispatch6 e q1 s = (Inr (None, q1), s1) \<and> dispatch6 e q2 s1 = (Inr (None, q2), s2) \<and>
    (\<exists>o1 o2. Pkt6_getOption OPTION_DHCPV4_MSG q1 = Some o1 \<and> Pkt6_getOption OPTION_DHCPV4_MSG q2 = Some o2 \<and>
       s6_to_dhcp4 s2 = s6_to_dhcp4 s @ [odata o1, odata o2]) \<and>
    dispatch6 e (receive4to6 d1) s2 = (Inr (Some r, q2), t) \<and> response_to q2 (take RCVBUFSIZE d1) (address_response6 q2 r) \<and>
    (\<forall>packed. Pkt6_pack (address_response6 q2 r) = Inr (packed, True) \<longrightarrow>
       run6 e (receive4to6 d1) s2 = (Inr (Some packed), t) \<and> response_to q2 (take RCVBUFSIZE d1) packed) \<and>
    run6 e (receive4to6 d2) t = (Inr None, t)"
proof -
  obtain o1 where a: "Pkt6_getOption OPTION_DHCPV4_MSG q1 = Some o1"
      "dispatch6 e q1 s = (Inr (None, q1), s\<lparr>s6_to_dhcp4 := s6_to_dhcp4 s @ [odata o1], s6_map4o6 := (s6_map4o6 s)(k \<mapsto> q1)\<rparr>)"
    using query_passed_on [OF assms(1,3,5), of s] by blast
  define s1 where "s1 = s\<lparr>s6_to_dhcp4 := s6_to_dhcp4 s @ [odata o1], s6_map4o6 := (s6_map4o6 s)(k \<mapsto> q1)\<rparr>"
  obtain o2 where b: "Pkt6_getOption OPTION_DHCPV4_MSG q2 = Some o2"
      "dispatch6 e q2 s1 = (Inr (None, q2), s1\<lparr>s6_to_dhcp4 := s6_to_dhcp4 s1 @ [odata o2], s6_map4o6 := (s6_map4o6 s1)(k \<mapsto> q2)\<rparr>)"
    using query_passed_on [OF assms(2,4,5), of s1] by blast
  define s2 where "s2 = s1\<lparr>s6_to_dhcp4 := s6_to_dhcp4 s1 @ [odata o2], s6_map4o6 := (s6_map4o6 s1)(k \<mapsto> q2)\<rparr>"
  have s2: "s6_map4o6 s2 k = Some q2" "s6_to_dhcp4 s2 = s6_to_dhcp4 s @ [odata o1, odata o2]"
    "wf_cfg (s6_cfg s2)" "s6_serverid s2 = Some srvid"
    using assms(8,9) by (simp_all add: s1_def s2_def)
  define t where "t = s2\<lparr>s6_map4o6 := (s6_map4o6 s2)(k := None)\<rparr>"
  obtain r where r: "dispatch6 e (receive4to6 d1) s2 = (Inr (Some r, q2), t)"
      "response_to q2 (take RCVBUFSIZE d1) (address_response6 q2 r)"
    using response_dispatched [OF s2(3,4) assms(6), of e] s2(1) assms(10) by (auto simp: t_def)
  have "run6 e (receive4to6 d1) s2 = (Inr (Some packed), t) \<and> response_to q2 (take RCVBUFSIZE d1) packed"
    if ok: "Pkt6_pack (address_response6 q2 r) = Inr (packed, True)" for packed
  proof
    show run: "run6 e (receive4to6 d1) s2 = (Inr (Some packed), t)"
      using r(1) ok by (simp add: run6_def receive4to6_def mk_Pkt6_def eff_simps bindS_def)
    show "response_to q2 (take RCVBUFSIZE d1) packed"
      using response6_step [OF run] assms(6) s2(1) by (auto simp: relayed_def)
  qed
  moreover have "s6_map4o6 t k = None" "wf_cfg (s6_cfg t)" "s6_serverid t = Some srvid"
    using s2 by (simp_all add: t_def)
  with response_dispatched [OF this(2,3) assms(7), of e] have "run6 e (receive4to6 d2) t = (Inr None, t)" by simp
  ultimately show ?thesis using a b r s2(2) unfolding s1_def [symmetric] s2_def [symmetric] by blast
qed

text \<open>A DHCPv4 query without a DHCPv4 message ends the DHCPv6 server: the handler dereferences the null pointer that
  stands for the missing option, which is no exception the loop could catch.\<close>

lemma missing_message_fatal:
  assumes "received6 p" "Pkt6_unpack p = Inr (q, True)" "p6_msg_type q = DHCPV4_QUERY" "Pkt6_getOption OPTION_DHCPV4_MSG q = None"
  shows "run6 e p s = (Inl NullPointer, s)"
  using assms by (simp add: run6_def received6_def dispatch6_4o6 processDHCPv4Query_def catchS_def eff_simps bindS_def)

section \<open>A concrete exchange\<close>

definition example_query :: "ioaddress \<Rightarrow> pkt6" where
  "example_query a = (mk_Pkt6 DHCPV4_QUERY 1)\<lparr>p6_remote_addr := a,
     p6_options := [(OPTION_DHCPV4_MSG, Opt UV6 OPTION_DHCPV4_MSG [1, 1, 6, 0, 0, 0, 0x12, 0x34] PGeneric [])]\<rparr>"

definition example_query_rx :: pkt6 where
  "example_query_rx = mk_Pkt6_rx 5 [245, 0, 0, 1, 0xd4, 0x31, 0, 8, 1, 1, 6, 0, 0, 0, 0x12, 0x34]"

lemma example_query_sel [simp]:
  "p6_msg_type (example_query a) = DHCPV4_QUERY" "query_xid (example_query a) = Some 0x1234"
  "p6_remote_addr (example_query a) = a"
  by (simp_all add: example_query_def query_xid_def Pkt6_getOption_def peek_xid_def readUint32_def mk_Pkt6_def)

lemma example_peek: "peek_xid [2, 1, 6, 0, 0, 0, 0x12, 0x34] = Inr 0x1234" "peek_xid [1, 1, 6, 0, 0, 0, 0x12, 0x34] = Inr 0x1234"
  by (simp_all add: peek_xid_def readUint32_def)

theorem response_relayed_witness:
  "\<exists>r. dispatch6 example_env6 (receive4to6 [2, 1, 6, 0, 0, 0, 0x12, 0x34])
       (example_srv6\<lparr>s6_map4o6 := [0x1234 \<mapsto> example_query (IPv6 7)]\<rparr>) =
       (Inr (Some r, example_query (IPv6 7)), example_srv6\<lparr>s6_map4o6 := [0x1234 \<mapsto> example_query (IPv6 7)](0x1234 := None)\<rparr>) \<and>
     p6_remote_addr (address_response6 (example_query (IPv6 7)) r) = IPv6 7"
proof -
  have "wf_cfg example_cfg6" using example_srv6_ok by (simp add: srv6_ok_def)
  with response_relayed [of "example_srv6\<lparr>s6_map4o6 := [0x1234 \<mapsto> example_query (IPv6 7)]\<rparr>" _ "[2, 1, 6, 0, 0, 0, 0x12, 0x34]"
      "0x1234" example_env6] example_peek
  show ?thesis by (auto simp: response_to_def)
qed

lemma example_response_packs:
  assumes "dispatch6 example_env6 (example_query (IPv6 7)) example_srv6 = (Inr (None, example_query (IPv6 7)), s1)"
    and "dispatch6 example_env6 (example_query (IPv6 8)) s1 = (Inr (None, example_query (IPv6 8)), s2)"
    and "dispatch6 example_env6 (receive4to6 [2, 1, 6, 0, 0, 0, 0x12, 0x34]) s2 = (Inr (Some r, q), t)"
  shows "\<exists>packed. Pkt6_pack (address_response6 q r) = Inr (packed, True)"
proof -
  have s2: "s6_map4o6 s2 0x1234 = Some (example_query (IPv6 8))" "s6_cfg s2 = example_cfg6"
    "s6_serverid s2 = Some (Opt UV6 2 [0, 2, 9] PGeneric [])"
    using assms(1,2) query_passed_on [of "example_query (IPv6 7)" "0x1234" example_env6 example_srv6]
      query_passed_on [of "example_query (IPv6 8)" "0x1234" example_env6 s1]
    by (auto simp: example_env6_def)
  obtain sub where sub: "selectSubnet6 (example_query (IPv6 8)) example_cfg6 = Inr sub"
    using selectSubnet6_total [of example_cfg6 "example_query (IPv6 8)"] example_srv6_ok by (auto simp: srv6_ok_def)
  have opts: "Pkt6_getOption n (example_query (IPv6 8)) = (if n = OPTION_DHCPV4_MSG then Some (Opt UV6 OPTION_DHCPV4_MSG [1, 1, 6, 0, 0, 0, 0x12, 0x34] PGeneric []) else None)" for n
    by (auto simp: Pkt6_getOption_def example_query_def)
  have "q = example_query (IPv6 8)" "p6_proto r = UDP" "p6_relay_info r = []"
      "p6_options r = [(2, Opt UV6 2 [0, 2, 9] PGeneric []), (OPTION_DHCPV4_MSG, Opt UV6 OPTION_DHCPV4_MSG [2, 1, 6, 0, 0, 0, 0x12, 0x34] PGeneric [])]"
    using assms(3) s2 sub opts
    by (auto simp: dispatch6_4o6 processDHCPv4Response_def catchS_def eff_simps receive4to6_def mk_Pkt6_def example_peek
      copyDefaultOptions_def appendDefaultOptions6_def appendRequestedOptions6_def mk_Option_def check_def Pkt6_addOption_def RCVBUFSIZE_def
      split: option.splits)
  then show ?thesis
    by (simp add: Pkt6_pack_def packUDP_def address_response6_def catch_isc_def pack_msg_def packHeader_def Let_def)
qed

theorem xid_collision_witness:
  "\<exists>s1 s2 t packed. dispatch6 example_env6 (example_query (IPv6 7)) example_srv6 = (Inr (None, example_query (IPv6 7)), s1) \<and>
     dispatch6 example_env6 (example_query (IPv6 8)) s1 = (Inr (None, example_query (IPv6 8)), s2) \<and>
     run6 example_env6 (receive4to6 [2, 1, 6, 0, 0, 0, 0x12, 0x34]) s2 = (Inr (Some packed), t) \<and> p6_remote_addr packed = IPv6 8"
proof -
  let ?q1 = "example_query (IPv6 7)" and ?q2 = "example_query (IPv6 8)" and ?d = "[2, 1, 6, 0, 0, 0, 0x12, 0x34]"
  have "e6_connects example_env6" "wf_cfg example_cfg6" using example_srv6_ok by (simp_all add: example_env6_def srv6_ok_def)
  then obtain s1 s2 t r where r: "dispatch6 example_env6 ?q1 example_srv6 = (Inr (None, ?q1), s1)"
      "dispatch6 example_env6 ?q2 s1 = (Inr (None, ?q2), s2)" "dispatch6 example_env6 (receive4to6 ?d) s2 = (Inr (Some r, ?q2), t)"
      "\<And>packed. Pkt6_pack (address_response6 ?q2 r) = Inr (packed, True) \<Longrightarrow>
         run6 example_env6 (receive4to6 ?d) s2 = (Inr (Some packed), t) \<and> response_to ?q2 (take RCVBUFSIZE ?d) packed"
    using xid_collision [of ?q1 ?q2 "0x1234" example_env6 ?d ?d example_srv6] example_peek by auto
  obtain packed where "Pkt6_pack (address_response6 ?q2 r) = Inr (packed, True)"
    using example_response_packs [OF r(1-3)] by blast
  with r show ?thesis by (auto simp: response_to_def)
qed

lemma example_rx:
  "received6 (mk_Pkt6_rx n bs)"
  "\<exists>q o1. Pkt6_unpack example_query_rx = Inr (q, True) \<and> p6_msg_type q = DHCPV4_QUERY \<and>
     Pkt6_getOption OPTION_DHCPV4_MSG q = Some o1 \<and> odata o1 = [1, 1, 6, 0, 0, 0, 0x12, 0x34]"
proof -
  show "received6 (mk_Pkt6_rx n bs)" by (simp add: received6_def mk_Pkt6_rx_def mk_Pkt6_def)
  have "(case Pkt6_unpack example_query_rx of Inr (q, True) \<Rightarrow> p6_msg_type q = DHCPV4_QUERY \<and>
     map_option odata (Pkt6_getOption OPTION_DHCPV4_MSG q) = Some [1, 1, 6, 0, 0, 0, 0x12, 0x34] | _ \<Rightarrow> False)"
    unfolding Pkt6_unpack_def unpackUDP_def unpackMsg_def by code_simp
  then show "\<exists>q o1. Pkt6_unpack example_query_rx = Inr (q, True) \<and> p6_msg_type q = DHCPV4_QUERY \<and>
     Pkt6_getOption OPTION_DHCPV4_MSG q = Some o1 \<and> odata o1 = [1, 1, 6, 0, 0, 0, 0x12, 0x34]"
    by (auto split: sum.splits prod.splits bool.splits)
qed

definition example_system :: System where
  "example_system = \<lparr>sys_srv4 = example_srv4, sys_srv6 = example_srv6, sys_chan46 = [], sys_asked = [], sys_sent = []\<rparr>"

theorem responses_matched_witness:
  "\<exists>s. reachable4o6 s \<and> s6_map4o6 (sys_srv6 s) 0x1234 \<noteq> None \<and>
     n_answered 0x1234 (sys_sent s) + 1 \<le> n_asked 0x1234 (sys_asked s)"
proof -
  obtain q o1 where q: "Pkt6_unpack example_query_rx = Inr (q, True)" "p6_msg_type q = DHCPV4_QUERY"
     "Pkt6_getOption OPTION_DHCPV4_MSG q = Some o1" "odata o1 = [1, 1, 6, 0, 0, 0, 0x12, 0x34]"
    using example_rx(2) by blast
  have rx: "received6 example_query_rx" by (simp add: example_query_rx_def example_rx(1))
  have "query_xid q = Some 0x1234" using q(3,4) example_peek by (simp add: query_xid_def)
  moreover have "e6_connects example_env6" by (simp add: example_env6_def)
  ultimately obtain t where t: "dispatch6 example_env6 q example_srv6 = (Inr (None, q), t)" "s6_map4o6 t 0x1234 = Some q"
    using query_passed_on [OF q(2), of "0x1234" example_env6 example_srv6] by auto
  then have run: "run6 example_env6 example_query_rx example_srv6 = (Inr None, t)"
    using q(1) rx by (simp add: run6_def received6_def eff_simps bindS_def)
  have "reachable4o6 example_system"
    using example_srv4_ok example_srv6_ok by (intro reachable4o6.start) (simp_all add: example_system_def example_srv6_def)
  moreover have "step4o6 example_system (example_system\<lparr>sys_srv6 := t,
      sys_asked := sys_asked example_system @ opt_list (query_in example_query_rx), sys_sent := sys_sent example_system @ opt_list None\<rparr>)"
    by (rule step4o6.network6 [OF rx, of example_env6]) (simp_all add: example_system_def run)
  ultimately have "reachable4o6 (example_system\<lparr>sys_srv6 := t,
      sys_asked := sys_asked example_system @ opt_list (query_in example_query_rx), sys_sent := sys_sent example_system @ opt_list None\<rparr>)"
    (is "reachable4o6 ?s")
    by (rule reachable4o6.step)
  moreover have "s6_map4o6 (sys_srv6 ?s) 0x1234 = Some q" using t(2) by simp
  moreover have "n_answered 0x1234 (sys_sent ?s) + 1 \<le> n_asked 0x1234 (sys_asked ?s)"
    using responses_matched [OF \<open>reachable4o6 ?s\<close>, THEN conjunct2, THEN conjunct1, THEN spec, of "0x1234"] t(2) by simp
  ultimately show ?thesis by (metis option.distinct(1))
qed

end
