(* ===== verification/Lease_Spec.thy ===== *)
theory Lease_Spec
  imports Memfile
begin

text \<open>
  What the lease database promises to the DHCPv4 server, as an abstract machine whose state is a map from
  addresses to leases, and the proof that the in-memory backend implements it over any sequence of
  operations. An operation is admissible when the client of the database keeps its side: a new lease has
  a client id and no key of a stored lease, and a stored lease is changed in its times only.
\<close>

section \<open>Operations on a lease database\<close>

datatype db_op =
    Get ioaddress
  | Lookup client4
  | Add Lease4
  | Renew Lease4
  | Delete ioaddress

datatype db_answer = Found "Lease4 option" | Done bool

text \<open>\<^verbatim>\<open>Renew\<close> is what the servers do with a lease they hold a pointer to: assign to it, then report the change.\<close>

fun perform :: "'s LeaseMgr \<Rightarrow> db_op \<Rightarrow> ('s, db_answer) eff" where
  "perform m (Get a) = bindS (askS (getLease4 m a)) (\<lambda>l. retS (Found l))"
| "perform m (Lookup k) = bindS (askS (lookup4 m k)) (\<lambda>l. retS (Found l))"
| "perform m (Add l) = bindS (addLease4 m l) (\<lambda>b. retS (Done b))"
| "perform m (Renew l) = thenS (modS (assign4 m l)) (thenS (updateLease4 m l) (retS (Done True)))"
| "perform m (Delete a) = bindS (deleteLease m a) (\<lambda>b. retS (Done b))"

fun perform_all :: "'s LeaseMgr \<Rightarrow> db_op list \<Rightarrow> ('s, db_answer list) eff" where
  "perform_all m [] = retS []"
| "perform_all m (op # ops) = bindS (perform m op) (\<lambda>a. bindS (perform_all m ops) (\<lambda>as. retS (a # as)))"

section \<open>The abstract machine\<close>

type_synonym leases = "ioaddress \<rightharpoonup> Lease4"

fun abs_next :: "db_op \<Rightarrow> leases \<Rightarrow> leases" where
  "abs_next (Add l) L = (if L (l_addr l) = None then L(l_addr l \<mapsto> l) else L)"
| "abs_next (Renew l) L = L(l_addr l \<mapsto> l)"
| "abs_next (Delete a) L = L(a := None)"
| "abs_next _ L = L"

fun abs_answer :: "db_op \<Rightarrow> leases \<Rightarrow> db_answer \<Rightarrow> bool" where
  "abs_answer (Get a) L x \<longleftrightarrow> x = Found (L a)"
| "abs_answer (Lookup k) L x \<longleftrightarrow>
     (\<exists>l\<in>ran L. holds4 k l \<and> x = Found (Some l)) \<or> (\<forall>l\<in>ran L. \<not> holds4 k l) \<and> x = Found None"
| "abs_answer (Add l) L x \<longleftrightarrow> x = Done (L (l_addr l) = None)"
| "abs_answer (Renew l) L x \<longleftrightarrow> x = Done True"
| "abs_answer (Delete a) L x \<longleftrightarrow> x = Done (L a \<noteq> None)"

definition same_keys :: "Lease4 \<Rightarrow> Lease4 \<Rightarrow> bool" where
  "same_keys l l' \<longleftrightarrow> l_addr l = l_addr l' \<and> l4_hwaddr l = l4_hwaddr l' \<and> l4_client_id l = l4_client_id l' \<and>
     l_subnet_id l = l_subnet_id l'"

fun admissible :: "db_op \<Rightarrow> leases \<Rightarrow> bool" where
  "admissible (Add l) L \<longleftrightarrow> l4_client_id l \<noteq> None \<and>
     (L (l_addr l) = None \<longrightarrow> (\<forall>l'\<in>ran L. \<forall>k. holds4 k l \<longrightarrow> \<not> holds4 k l'))"
| "admissible (Renew l) L \<longleftrightarrow> (\<exists>old. L (l_addr l) = Some old \<and> same_keys l old)"
| "admissible (Delete a) L \<longleftrightarrow> isV4 a"
| "admissible _ L \<longleftrightarrow> True"

fun admissible_all :: "db_op list \<Rightarrow> leases \<Rightarrow> bool" where
  "admissible_all [] L \<longleftrightarrow> True"
| "admissible_all (op # ops) L \<longleftrightarrow> admissible op L \<and> admissible_all ops (abs_next op L)"

fun abs_answers :: "db_op list \<Rightarrow> leases \<Rightarrow> db_answer list \<Rightarrow> bool" where
  "abs_answers [] L xs \<longleftrightarrow> xs = []"
| "abs_answers (op # ops) L xs \<longleftrightarrow> (\<exists>y ys. xs = y # ys \<and> abs_answer op L y \<and> abs_answers ops (abs_next op L) ys)"

section \<open>The in-memory database implements it\<close>

lemma index_check_erase: "index_check key xs = Inr () \<Longrightarrow> index_check key (index_erase a xs) = Inr ()"
proof -
  have "sorted_wrt (<) (map f xs) \<Longrightarrow> sorted_wrt (<) (map f (index_erase a xs))" for f
    by (induction xs) (auto simp: index_erase_def)
  moreover have "set (index_erase a xs) \<subseteq> set xs" by (auto simp: index_erase_def)
  ultimately show "index_check key xs = Inr () \<Longrightarrow> index_check key (index_erase a xs) = Inr ()"
    by (auto simp: index_check_def split: if_splits)
qed

lemma index_check_assign:
  assumes "\<And>x. x \<in> set xs \<Longrightarrow> l_addr x = l_addr l \<Longrightarrow> key x = key l"
  shows "index_check key (index_assign l xs) = index_check key xs"
proof -
  have "map key (index_assign l xs) = map key xs" using assms by (auto simp: index_assign_def)
  moreover have "index_check key ys =
      (if None \<in> set (map key ys) then Inl NullPointer
       else if \<not> sorted_wrt (<) (map the (map key ys)) then Inl AssertionFailed else Inr ())" for ys :: "'a Lease_scheme list"
    unfolding index_check_def by (auto simp: comp_def image_iff) metis+
  ultimately show ?thesis by metis
qed

lemma indexed4_erase: "indexed4 s \<Longrightarrow> indexed4 (storage4_erase a s)"
  by (auto simp: indexed4_def inv4_def storage4_erase_def addr_sorted_erase index_check_erase)
    (auto simp: index_erase_def)

lemma indexed4_assign:
  assumes "indexed4 s" "leases4 s (l_addr l) = Some old" "same_keys l old"
  shows "indexed4 (mem_assign4 l s)"
proof -
  have inv: "inv4 s" using assms(1) by (simp add: indexed4_def)
  have "x = old" if "x \<in> set (s4_addr (storage4 s))" "l_addr x = l_addr l" for x
    using that assms(2) leases4_Some [OF inv, of "l_addr l" x] by simp
  then have keys: "key4_hwaddr x = key4_hwaddr l \<and> key4_clientid x = key4_clientid l"
    if "x \<in> set (s4_addr (storage4 s))" "l_addr x = l_addr l" for x
    using that assms(3) by (auto simp: same_keys_def key4_hwaddr_def key4_clientid_def)
  have "index_check key4_hwaddr (index_assign l (s4_hwaddr (storage4 s))) = index_check key4_hwaddr (s4_hwaddr (storage4 s))"
    "index_check key4_clientid (index_assign l (s4_clientid (storage4 s))) = index_check key4_clientid (s4_clientid (storage4 s))"
    using inv keys by (auto simp: inv4_def intro!: index_check_assign)
  with assms(1) mem_assign_inv(1) [OF inv] show ?thesis by (simp add: indexed4_def mem_assign4_def)
qed

lemma lookup4_total:
  assumes "indexed4 s"
  shows "\<exists>x. lookup4 memfile k s = Inr x"
  using assms
  by (cases k) (auto simp: indexed4_def mem_getLease4_hwaddr_subnet_def mem_getLease4_clientid_subnet_def index_find_def)

lemma perform_refines:
  assumes s: "indexed4 s" and adm: "admissible op (leases4 s)"
  shows "\<exists>x t. perform memfile op s = (Inr x, t) \<and> indexed4 t \<and> leases4 t = abs_next op (leases4 s) \<and> abs_answer op (leases4 s) x"
proof (cases op)
  case (Get a)
  with s show ?thesis by (simp add: eff_simps mem_getLease4_eq indexed4_def)
next
  case (Lookup k)
  obtain x where x: "lookup4 memfile k s = Inr x" using lookup4_total [OF s] by blast
  have inv: "inv4 s" using s by (simp add: indexed4_def)
  show ?thesis
  proof (cases x)
    case None
    with x mem4.lookup_None [OF inv] have "\<forall>l\<in>ran (leases4 s). \<not> holds4 k l" by (auto simp: ran_def)
    with Lookup x None s show ?thesis by (simp add: eff_simps)
  next
    case (Some l)
    with x mem4.lookup_Some [OF inv] have "l \<in> ran (leases4 s)" "holds4 k l" by (auto simp: ran_def)
    with Lookup x Some s show ?thesis by (auto simp: eff_simps)
  qed
next
  case (Add l)
  have inv: "inv4 s" using s by (simp add: indexed4_def)
  show ?thesis
  proof (cases "leases4 s (l_addr l) = None")
    case True
    obtain c where c: "l4_client_id l = Some c" using adm Add by auto
    obtain t where "mem_addLease4 l s = (Inr True, t)" "indexed4 t" "leases4 t = (leases4 s)(l_addr l \<mapsto> l)"
      by (rule mem_addLease4_ok [OF s c True]) (use adm Add True in \<open>auto simp: ran_def\<close>)
    with Add True show ?thesis by (simp add: bindS_def eff_apply)
  next
    case False
    then have "mem_addLease4 l s = (Inr False, s)"
      using inv by (simp add: mem_addLease4_def eff_simps mem_getLease4_eq)
    with Add False s show ?thesis by (auto simp: bindS_def eff_apply)
  qed
next
  case (Renew l)
  then obtain old where old: "leases4 s (l_addr l) = Some old" "same_keys l old" using adm by auto
  with Renew indexed4_assign [OF s old] mem_assign_leases(1) [of s l] show ?thesis
    by (simp add: eff_simps mem_updateLease4_def)
next
  case (Delete a)
  have inv: "inv4 s" and v4: "isV4 a" using s adm Delete by (auto simp: indexed4_def)
  show ?thesis
  proof (cases "leases4 s a = None")
    case True
    then have "mem_deleteLease a s = (Inr False, s)" using inv v4 by (simp add: mem_deleteLease_def eff_simps mem_getLease4_eq)
    with Delete True s show ?thesis by (auto simp: bindS_def eff_apply)
  next
    case False
    with mem_delete4 [OF inv v4] indexed4_erase [OF s] Delete show ?thesis by (auto simp: bindS_def eff_apply)
  qed
qed

lemma perform_all_refines:
  assumes "indexed4 s" "admissible_all ops (leases4 s)"
  shows "\<exists>xs t. perform_all memfile ops s = (Inr xs, t) \<and> indexed4 t \<and> leases4 t = fold abs_next ops (leases4 s) \<and>
    abs_answers ops (leases4 s) xs"
  using assms
proof (induction ops arbitrary: s)
  case Nil
  then show ?case by (simp add: eff_apply)
next
  case (Cons op ops)
  obtain x u where u: "perform memfile op s = (Inr x, u)" "indexed4 u" "leases4 u = abs_next op (leases4 s)" "abs_answer op (leases4 s) x"
    using perform_refines [OF Cons.prems(1), of op] Cons.prems(2) by auto
  obtain xs t where "perform_all memfile ops u = (Inr xs, t)" "indexed4 t" "leases4 t = fold abs_next ops (leases4 u)" "abs_answers ops (leases4 u) xs"
    using Cons.IH [OF u(2)] Cons.prems(2) u(3) by auto
  with u show ?case by (auto simp: bindS_def eff_apply)
qed

text \<open>C6. The in-memory database implements the abstract one over every sequence of admissible operations: it never fails,
  gives the answers the map of leases gives, and ends with the leases of the map.\<close>

theorem memfile_refines:
  assumes "admissible_all ops Map.empty"
  shows "\<exists>xs t. perform_all memfile ops mk_Memfile = (Inr xs, t) \<and> leases4 t = fold abs_next ops Map.empty \<and>
    abs_answers ops Map.empty xs"
proof -
  have "leases4 mk_Memfile = Map.empty" by (simp add: fun_eq_iff)
  with perform_all_refines [OF indexed_mk_Memfile(1), of ops] assms show ?thesis by auto
qed

theorem memfile_refines_witness:
  "\<exists>t. perform_all memfile [Add example_lease4, Get (IPv4 0xc0000264), Delete (IPv4 0xc0000264), Get (IPv4 0xc0000264)] mk_Memfile =
     (Inr [Done True, Found (Some example_lease4), Done True, Found None], t)"
  using memfile_refines [of "[Add example_lease4, Get (IPv4 0xc0000264), Delete (IPv4 0xc0000264), Get (IPv4 0xc0000264)]"]
  by auto

end
