(* ===== verification/Iface_Sockets.thy ===== *)
theory Iface_Sockets
  imports Iface_Mgr
begin

text \<open>
  What the interface manager has open after \<^verbatim>\<open>openSockets4\<close>, whatever the system calls return,
  and that the socket for an answer is then found.
\<close>

text \<open>\<open>i'\<close> is the interface \<open>i\<close> with sockets for the addresses \<open>addrs\<close> added, in this order.\<close>

definition opened :: "u16 \<Rightarrow> ioaddress list \<Rightarrow> Iface \<Rightarrow> Iface \<Rightarrow> bool" where
  "opened port addrs i i' \<longleftrightarrow>
     (\<exists>new. i' = i\<lparr>if_sockets := if_sockets i @ new\<rparr> \<and> map si_addr new = addrs \<and>
        (\<forall>s\<in>set new. si_port s = port \<and> si_family s = getFamily (si_addr s)))"

definition listening4 :: "Iface \<Rightarrow> ioaddress list" where
  "listening4 i = (if listens i then filter isV4 (if_addrs i) else [])"

lemma opened_name: "opened port as i i' \<Longrightarrow> if_name i' = if_name i"
  by (auto simp: opened_def)

lemma opened_Nil [simp]: "opened port [] i i' \<longleftrightarrow> i' = i"
  by (auto simp: opened_def)

lemma opened_Cons:
  assumes "opened port as (addSocket (mk_SocketInfo sock a port) i) i'"
  shows "opened port (a # as) i i'"
proof -
  obtain new where "i' = (addSocket (mk_SocketInfo sock a port) i)\<lparr>if_sockets := if_sockets i @ [mk_SocketInfo sock a port] @ new\<rparr>"
    "map si_addr new = as" "\<forall>s\<in>set new. si_port s = port \<and> si_family s = getFamily (si_addr s)"
    using assms by (auto simp: opened_def addSocket_def)
  then show ?thesis
    unfolding opened_def
    by (intro exI [of _ "mk_SocketInfo sock a port # new"]) (auto simp: addSocket_def mk_SocketInfo_def)
qed

lemma change_first_at:
  "\<forall>x\<in>set pre. \<not> P x \<Longrightarrow> P i \<Longrightarrow> change_first P f (pre @ i # post) = pre @ f i # post"
  by (induction pre) auto

lemma open_addresses:
  assumes "forS (\<lambda>addr. if \<not> isV4 addr then retS 0
      else bindS (openSocket sys (if_name i0) addr port b b) (\<lambda>sock. if sock < 0 then throwS IOError else retS 1)) addrs m = (Inr n, m')"
    and "im_ifaces m = pre @ i # post" "if_name i = if_name i0" "\<forall>x\<in>set pre. if_name x \<noteq> if_name i0"
  shows "\<exists>i'. opened port (filter isV4 addrs) i i' \<and> m' = m\<lparr>im_ifaces := pre @ i' # post\<rparr> \<and> n = length (filter isV4 addrs)"
  using assms
proof (induction addrs arbitrary: m i n)
  case Nil
  then show ?case by (auto simp: eff_apply intro!: exI [of _ i])
next
  case (Cons a addrs)
  let ?f = "\<lambda>addr. if \<not> isV4 addr then retS 0
      else bindS (openSocket sys (if_name i0) addr port b b) (\<lambda>sock. if sock < 0 then throwS IOError else retS 1)"
  obtain x k m1 where x: "?f a m = (Inr x, m1)" "forS ?f addrs m1 = (Inr k, m')" "n = x + k"
    using Cons.prems(1) by (auto simp: bindS_Inr eff_apply simp del: if_split)
  show ?case
  proof (cases "isV4 a")
    case False
    then have "m1 = m" "x = 0" using x(1) by (simp_all add: eff_apply)
    with Cons.IH [OF x(2) [unfolded \<open>m1 = m\<close>] Cons.prems(2-4)] x(3) False show ?thesis by simp
  next
    case True
    then obtain sock where m1: "m1 = m\<lparr>im_ifaces := change_first (\<lambda>i. if_name i = if_name i0)
        (addSocket (mk_SocketInfo sock a port)) (im_ifaces m)\<rparr>" "x = 1"
      using x(1) by (auto simp: openSocket_def bindS_Inr eff_apply split: if_splits)
    let ?i = "addSocket (mk_SocketInfo sock a port) i"
    have "im_ifaces m1 = pre @ ?i # post"
      using m1(1) Cons.prems(2-4) by (simp add: change_first_at)
    from Cons.IH [OF x(2) this _ Cons.prems(4)] Cons.prems(3) obtain i' where
      "opened port (filter isV4 addrs) ?i i'" "m' = m1\<lparr>im_ifaces := pre @ i' # post\<rparr>" "k = length (filter isV4 addrs)"
      by (auto simp: addSocket_def)
    with m1 x(3) True show ?thesis by (auto intro: opened_Cons)
  qed
qed

lemma open_interfaces:
  assumes "forS (\<lambda>iface. if \<not> listens iface then retS 0
      else forS (\<lambda>addr. if \<not> isV4 addr then retS 0
        else bindS (let bcast = if_broadcast iface \<and> use_bcast in openSocket sys (if_name iface) addr port bcast bcast)
          (\<lambda>sock. if sock < 0 then throwS IOError else retS 1)) (if_addrs iface)) ifaces m = (Inr n, m')"
    and "im_ifaces m = pre @ ifaces" "distinct (map if_name (pre @ ifaces))"
  shows "\<exists>ifaces'. list_all2 (\<lambda>i i'. opened port (listening4 i) i i') ifaces ifaces' \<and> m' = m\<lparr>im_ifaces := pre @ ifaces'\<rparr> \<and>
    n = sum_list (map (\<lambda>i. length (listening4 i)) ifaces)"
  using assms
proof (induction ifaces arbitrary: m n pre)
  case Nil
  then show ?case by (auto simp: eff_apply)
next
  case (Cons i ifaces)
  let ?g = "\<lambda>iface. if \<not> listens iface then retS 0
      else forS (\<lambda>addr. if \<not> isV4 addr then retS 0
        else bindS (let bcast = if_broadcast iface \<and> use_bcast in openSocket sys (if_name iface) addr port bcast bcast)
          (\<lambda>sock. if sock < 0 then throwS IOError else retS 1)) (if_addrs iface)"
  obtain x k m1 where x: "?g i m = (Inr x, m1)" "forS ?g ifaces m1 = (Inr k, m')" "n = x + k"
    using Cons.prems(1) by (auto simp: bindS_Inr eff_apply simp del: if_split)
  obtain i' where i': "opened port (listening4 i) i i'" "m1 = m\<lparr>im_ifaces := pre @ i' # ifaces\<rparr>" "x = length (listening4 i)"
  proof (cases "listens i")
    case False
    with x(1) Cons.prems(2) show thesis by (intro that [of i]) (auto simp: eff_apply listening4_def)
  next
    case True
    have "\<forall>x\<in>set pre. if_name x \<noteq> if_name i" using Cons.prems(3) by (auto simp: image_iff)
    with open_addresses [OF _ Cons.prems(2) refl, of sys port "if_broadcast i \<and> use_bcast" "if_addrs i" x m1] x(1) [unfolded Let_def] True show thesis
      by (auto simp: listening4_def intro: that)
  qed
  have "im_ifaces m1 = (pre @ [i']) @ ifaces" "distinct (map if_name ((pre @ [i']) @ ifaces))"
    using i' Cons.prems(3) opened_name [OF i'(1)] by auto
  from Cons.IH [OF x(2) this] obtain ifaces' where
    "list_all2 (\<lambda>i i'. opened port (listening4 i) i i') ifaces ifaces'" "m' = m1\<lparr>im_ifaces := (pre @ [i']) @ ifaces'\<rparr>"
    "k = sum_list (map (\<lambda>i. length (listening4 i)) ifaces)" by blast
  with i' x(3) show ?case by (intro exI [of _ "i' # ifaces'"]) auto
qed

lemma sum_list_pos: "0 < sum_list (map f xs) \<longleftrightarrow> (\<exists>x\<in>set xs. 0 < f x)" for f :: "'a \<Rightarrow> nat"
  by (induction xs) auto

lemma find_all2:
  assumes "list_all2 R xs ys" "\<And>x y. R x y \<Longrightarrow> P x = P y" "find P xs = Some x"
  shows "\<exists>y. find P ys = Some y \<and> R x y"
  using assms by (induction rule: list_all2_induct) (auto split: if_splits)

text \<open>When \<^verbatim>\<open>openSockets4\<close> returns, every interface that is up, running and not a loopback has one new socket for each
  of its IPv4 addresses, in the order of the addresses, and nothing else has changed; the result says
  whether there is any. An answer that leaves through such an interface then finds its socket.\<close>

theorem sockets4_open:
  assumes "distinct (map if_name (im_ifaces m))" "openSockets4 sys unix_fd port use_bcast m = (Inr b, m')"
  shows "\<exists>ifaces'. m' = m\<lparr>im_fd_6to4 := unix_fd, im_ifaces := ifaces'\<rparr> \<and>
    list_all2 (\<lambda>i i'. opened port (listening4 i) i i') (im_ifaces m) ifaces' \<and>
    (b \<longleftrightarrow> (\<exists>i\<in>set (im_ifaces m). listening4 i \<noteq> [])) \<and>
    (\<forall>pkt i. getIface (p4_iface pkt) m = Some i \<and> listening4 i \<noteq> [] \<longrightarrow> (\<exists>fd. getSocket4 pkt m' = Inr fd))"
proof -
  let ?m = "m\<lparr>im_fd_6to4 := unix_fd\<rparr>"
  obtain n where n: "forS (\<lambda>iface. if \<not> listens iface then retS 0
      else forS (\<lambda>addr. if \<not> isV4 addr then retS 0
        else bindS (let bcast = if_broadcast iface \<and> use_bcast in openSocket sys (if_name iface) addr port bcast bcast)
          (\<lambda>sock. if sock < 0 then throwS IOError else retS 1)) (if_addrs iface)) (im_ifaces m) ?m = (Inr n, m')" "b = (n > 0)"
    using assms(2) by (auto simp: openSockets4_def eff_simps bindS_Inr)
  obtain ifaces' where o1: "list_all2 (\<lambda>i i'. opened port (listening4 i) i i') (im_ifaces m) ifaces'"
    "m' = ?m\<lparr>im_ifaces := ifaces'\<rparr>" "n = sum_list (map (\<lambda>i. length (listening4 i)) (im_ifaces m))"
    using open_interfaces [OF n(1), of "[]"] assms(1) by auto
  have "\<exists>fd. getSocket4 pkt m' = Inr fd" if i: "getIface (p4_iface pkt) m = Some i" "listening4 i \<noteq> []" for pkt i
  proof -
    obtain i' where i': "find (\<lambda>i. if_name i = p4_iface pkt) ifaces' = Some i'" "opened port (listening4 i) i i'"
      using find_all2 [OF o1(1), of "\<lambda>i. if_name i = p4_iface pkt" i] i(1) opened_name by (fastforce simp: getIface_def)
    then obtain new where new: "i' = i\<lparr>if_sockets := if_sockets i @ new\<rparr>" "map si_addr new = listening4 i"
      "\<forall>s\<in>set new. si_family s = getFamily (si_addr s)" by (auto simp: opened_def)
    then obtain s where s: "s \<in> set new" using i(2) by (cases new) auto
    then have "si_addr s \<in> set (listening4 i)" using new(2) by (metis image_eqI list.set_map)
    then have "isV4 (si_addr s)" by (auto simp: listening4_def split: if_splits)
    then have "si_family s = AF_INET" using new(3) s by (cases "si_addr s") auto
    then have "find (\<lambda>s. si_family s = AF_INET) (if_sockets i') \<noteq> None"
      using s new(1) by (auto simp: find_None_iff)
    with i' o1(2) show ?thesis by (auto simp: getSocket4_def getIface_def split: option.splits)
  qed
  moreover have "b \<longleftrightarrow> (\<exists>i\<in>set (im_ifaces m). listening4 i \<noteq> [])"
    using n(2) o1(3) sum_list_pos [of "\<lambda>i. length (listening4 i)" "im_ifaces m"] by simp
  ultimately show ?thesis using o1 by auto
qed

definition example_iface :: Iface where
  "example_iface = (mk_Iface ''eth0'' 2)\<lparr>if_addrs := [IPv4 0xc0000201], if_up := True, if_running := True\<rparr>"

theorem sockets4_open_witness:
  "\<exists>m'. openSockets4 (\<lambda>_ _ _ _ _ _. Inr 5) 7 67 True \<lparr>im_ifaces = [example_iface], im_fd_6to4 = 0, im_fd_4to6 = 0\<rparr> = (Inr True, m') \<and>
     (\<exists>fd. getSocket4 (Pkt4_blank\<lparr>p4_iface := ''eth0''\<rparr>) m' = Inr fd)"
proof -
  let ?m = "\<lparr>im_ifaces = [example_iface], im_fd_6to4 = 0, im_fd_4to6 = 0\<rparr>"
  have l: "listening4 example_iface \<noteq> []" "if_name example_iface = ''eth0''"
    by (simp_all add: listening4_def listens_def example_iface_def mk_Iface_def)
  have "\<exists>m'. openSockets4 (\<lambda>_ _ _ _ _ _. Inr 5) 7 67 True ?m = (Inr True, m')"
    by (simp add: openSockets4_def eff_simps example_iface_def mk_Iface_def listens_def openSocket_def getIface_def Let_def)
  then obtain m' where m': "openSockets4 (\<lambda>_ _ _ _ _ _. Inr 5) 7 67 True ?m = (Inr True, m')" ..
  have "getIface (p4_iface (Pkt4_blank\<lparr>p4_iface := ''eth0''\<rparr>)) ?m = Some example_iface" using l(2) by (simp add: getIface_def)
  with sockets4_open [OF _ m'] l m' show ?thesis by auto
qed

end
