(* ===== verification/Name_Text.thy ===== *)
theory Name_Text
  imports Dns_Name
begin

text \<open>
  Domain names from text (\<^verbatim>\<open>stringParse\<close> and the constructors that call it,
  \<^verbatim>\<open>src/lib/dns/name.cc\<close>) and the operations on names: concatenation, reversal, splitting,
  down-casing, and the comparison of label sequences (\<^verbatim>\<open>src/lib/dns/labelsequence.cc\<close>).
  The text parser is a state machine whose cases fall through into each other; each case is a
  definition that calls the next one. The text is a byte string.
\<close>

section \<open>The text parser\<close>

datatype ft_state = ft_init | ft_start | ft_ordinary | ft_initialescape | ft_escape | ft_escdecimal

record text_state =
  ts_state :: ft_state
  ts_offsets :: "nat list"
  ts_ndata :: bytes
  ts_count :: nat
  ts_digits :: nat
  ts_value :: int
  ts_done :: bool

definition isdigit :: "u8 \<Rightarrow> bool" where
  "isdigit c \<longleftrightarrow> 0x30 \<le> c \<and> c \<le> 0x39"

definition digitvalue :: "u8 \<Rightarrow> int" where
  "digitvalue c =
     (if 0x30 \<le> c \<and> c \<le> 0x39 then uint c - 0x30
      else if 0x41 \<le> c \<and> c \<le> 0x46 then uint c - 0x41 + 10
      else if 0x61 \<le> c \<and> c \<le> 0x66 then uint c - 0x61 + 10 else - 1)"

definition lower_if :: "bool \<Rightarrow> u8 \<Rightarrow> u8" where
  "lower_if downcase c = (if downcase then maptolower c else c)"

text \<open>\<^verbatim>\<open>ndata.at(offsets.back()) = count\<close>\<close>

definition set_label_len :: "text_state \<Rightarrow> text_state result" where
  "set_label_len s =
     (if last (ts_offsets s) < length (ts_ndata s)
      then Inr (s\<lparr>ts_ndata := (ts_ndata s)[last (ts_offsets s) := word_of_nat (ts_count s)]\<rparr>)
      else Inl OutOfBounds)"

definition push_char :: "bool \<Rightarrow> u8 \<Rightarrow> text_state \<Rightarrow> text_state result" where
  "push_char downcase c s =
     (let s = s\<lparr>ts_count := ts_count s + 1\<rparr>
      in if ts_count s > MAX_LABELLEN then Inl TooLongLabel
         else Inr (s\<lparr>ts_ndata := ts_ndata s @ [lower_if downcase c], ts_state := ft_ordinary\<rparr>))"

text \<open>\<open>at_end\<close> is \<^verbatim>\<open>s == send\<close>, after \<open>c\<close> has been read.\<close>

definition ft_ordinary_case :: "bool \<Rightarrow> bool \<Rightarrow> u8 \<Rightarrow> text_state \<Rightarrow> text_state result" where
  "ft_ordinary_case downcase at_end c s =
     (if c = 0x2E then
        if ts_count s = 0 then Inl EmptyLabel
        else bindE (set_label_len s) (\<lambda>s.
          let s = s\<lparr>ts_offsets := ts_offsets s @ [length (ts_ndata s)]\<rparr>;
              s = (if at_end then s\<lparr>ts_ndata := ts_ndata s @ [0], ts_done := True\<rparr> else s)
          in Inr (s\<lparr>ts_state := ft_start\<rparr>))
      else if c = 0x5C then Inr (s\<lparr>ts_state := ft_escape\<rparr>)
      else push_char downcase c s)"

definition ft_start_case :: "bool \<Rightarrow> bool \<Rightarrow> u8 \<Rightarrow> text_state \<Rightarrow> text_state result" where
  "ft_start_case downcase at_end c s =
     (let s = s\<lparr>ts_ndata := ts_ndata s @ [0], ts_count := 0\<rparr>
      in if c = 0x5C then Inr (s\<lparr>ts_state := ft_initialescape\<rparr>)
         else if \<not> length (ts_ndata s) < MAX_WIRE then Inl AssertionFailed
         else ft_ordinary_case downcase at_end c (s\<lparr>ts_state := ft_ordinary\<rparr>))"

definition ft_init_case :: "bool \<Rightarrow> bool \<Rightarrow> u8 \<Rightarrow> text_state \<Rightarrow> text_state result" where
  "ft_init_case downcase at_end c s =
     (if c = 0x2E \<and> \<not> at_end then Inl EmptyLabel
      else if c = 0x2E \<or> c = 0x40 \<and> at_end then
        Inr (s\<lparr>ts_ndata := ts_ndata s @ [0], ts_done := True\<rparr>)
      else ft_start_case downcase at_end c s)"

definition ft_escdecimal_case :: "bool \<Rightarrow> u8 \<Rightarrow> text_state \<Rightarrow> text_state result" where
  "ft_escdecimal_case downcase c s =
     (if \<not> isdigit c then Inl BadEscape
      else
        (let s = s\<lparr>ts_value := ts_value s * 10 + digitvalue c, ts_digits := ts_digits s + 1\<rparr>
         in if ts_digits s = 3 then
              if ts_value s > 255 then Inl BadEscape
              else push_char downcase (word_of_int (ts_value s)) s
            else Inr s))"

definition ft_escape_case :: "bool \<Rightarrow> u8 \<Rightarrow> text_state \<Rightarrow> text_state result" where
  "ft_escape_case downcase c s =
     (if \<not> isdigit c then push_char downcase c s
      else ft_escdecimal_case downcase c (s\<lparr>ts_digits := 0, ts_value := 0, ts_state := ft_escdecimal\<rparr>))"

definition ft_initialescape_case :: "bool \<Rightarrow> u8 \<Rightarrow> text_state \<Rightarrow> text_state result" where
  "ft_initialescape_case downcase c s =
     (if c = 0x5B then Inl BadLabelType else ft_escape_case downcase c s)"

definition ft_step :: "bool \<Rightarrow> bool \<Rightarrow> u8 \<Rightarrow> text_state \<Rightarrow> text_state result" where
  "ft_step downcase at_end c s =
     (case ts_state s of
        ft_init \<Rightarrow> ft_init_case downcase at_end c s
      | ft_start \<Rightarrow> ft_start_case downcase at_end c s
      | ft_ordinary \<Rightarrow> ft_ordinary_case downcase at_end c s
      | ft_initialescape \<Rightarrow> ft_initialescape_case downcase c s
      | ft_escape \<Rightarrow> ft_escape_case downcase c s
      | ft_escdecimal \<Rightarrow> ft_escdecimal_case downcase c s)"

text \<open>The loop; the result carries what was not read.\<close>

fun text_loop :: "bool \<Rightarrow> bytes \<Rightarrow> text_state \<Rightarrow> (bytes \<times> text_state) result" where
  "text_loop downcase [] s = Inr ([], s)"
| "text_loop downcase (c # cs) s =
     (if length (ts_ndata s) < MAX_WIRE \<and> \<not> ts_done s
      then bindE (ft_step downcase (cs = []) c s) (text_loop downcase cs)
      else Inr (c # cs, s))"

definition text_init :: text_state where
  "text_init = \<lparr>ts_state = ft_init, ts_offsets = [0], ts_ndata = [], ts_count = 0, ts_digits = 0,
     ts_value = 0, ts_done = False\<rparr>"

definition text_finish :: "bytes \<Rightarrow> text_state \<Rightarrow> text_state result" where
  "text_finish rest s =
     (if ts_done s then Inr s
      else if length (ts_ndata s) = MAX_WIRE then Inl TooLongName
      else if rest \<noteq> [] then Inl AssertionFailed
      else if ts_state s \<noteq> ft_ordinary then Inl IncompleteName
      else if ts_count s = 0 then Inl AssertionFailed
      else bindE (set_label_len s) (\<lambda>s.
        Inr (s\<lparr>ts_offsets := ts_offsets s @ [length (ts_ndata s)], ts_ndata := ts_ndata s @ [0]\<rparr>)))"

definition stringParse :: "bytes \<Rightarrow> bool \<Rightarrow> (nat list \<times> bytes) result" where
  "stringParse namestring downcase =
     bindE (text_loop downcase namestring text_init) (\<lambda>(rest, s).
     bindE (text_finish rest s) (\<lambda>s. Inr (ts_offsets s, ts_ndata s)))"

definition Name_from_text :: "bytes \<Rightarrow> bool \<Rightarrow> Name result" where
  "Name_from_text namestring downcase =
     bindE (stringParse namestring downcase) (\<lambda>(offs, nd).
       if \<not> (length offs > 0 \<and> length offs \<le> MAX_LABELS) then Inl AssertionFailed
       else Inr \<lparr>ndata = nd, offsets = offs, labelcount = length offs, name_length = length nd\<rparr>)"

text \<open>The constructor for master files: a null pointer, or a name relative to an origin.\<close>

definition append_origin :: "Name \<Rightarrow> Name \<Rightarrow> Name result" where
  "append_origin nm origin =
     (let nd = butlast (ndata nm) @ ndata origin;
          offset = last (offsets nm);
          offs = butlast (offsets nm) @ map (\<lambda>x. unat (word_of_nat (x + offset) :: u8)) (offsets origin)
      in if length offs > MAX_LABELS \<or> length nd > MAX_WIRE then Inl TooLongName
         else Inr \<lparr>ndata = nd, offsets = offs, labelcount = length offs, name_length = length nd\<rparr>)"

definition Name_from_data :: "bytes option \<Rightarrow> Name option \<Rightarrow> bool \<Rightarrow> Name result" where
  "Name_from_data namedata origin downcase =
     (case namedata of
        None \<Rightarrow> Inl InvalidParameter
      | Some d \<Rightarrow>
          if d = [] then Inl InvalidParameter
          else
            let absolute = (last d = 0x2E) in
            case (absolute, origin) of
              (False, None) \<Rightarrow> Inl MissingNameOrigin
            | (True, _) \<Rightarrow> Name_from_text d downcase
            | (False, Some org) \<Rightarrow> bindE (Name_from_text d downcase) (\<lambda>nm. append_origin nm org))"

section \<open>What the text parser accepts\<close>

definition at_label :: "bytes list \<Rightarrow> text_state \<Rightarrow> bool" where
  "at_label ls s \<longleftrightarrow> \<not> ts_done s \<and> ts_state s \<in> {ft_init, ft_start} \<and> (ts_state s = ft_init \<longrightarrow> ls = []) \<and>
     ts_ndata s = enc_labels ls \<and> ts_offsets s = label_offsets 0 ls @ [length (enc_labels ls)]"

definition in_text :: "bytes list \<Rightarrow> bytes \<Rightarrow> text_state \<Rightarrow> bool" where
  "in_text ls p s \<longleftrightarrow> \<not> ts_done s \<and> ts_state s \<notin> {ft_init, ft_start} \<and> (ts_state s = ft_ordinary \<longrightarrow> p \<noteq> []) \<and>
     ts_ndata s = enc_labels ls @ 0 # p \<and> ts_count s = length p \<and> length p \<le> MAX_LABELLEN \<and>
     ts_offsets s = label_offsets 0 ls @ [length (enc_labels ls)]"

definition text_done :: "bytes list \<Rightarrow> text_state \<Rightarrow> bool" where
  "text_done ls s \<longleftrightarrow> ts_done s \<and> ts_ndata s = enc_labels (ls @ [[]]) \<and> ts_offsets s = label_offsets 0 (ls @ [[]])"

definition text_inv :: "text_state \<Rightarrow> bool" where
  "text_inv s \<longleftrightarrow> length (ts_ndata s) \<le> MAX_WIRE \<and>
     (\<exists>ls. good_labels ls \<and> (at_label ls s \<or> (\<exists>p. in_text ls p s) \<or> text_done ls s))"

lemmas text_case_defs = ft_ordinary_case_def ft_start_case_def ft_init_case_def ft_escdecimal_case_def
  ft_escape_case_def ft_initialescape_case_def push_char_def

lemma in_text_len:
  assumes "in_text ls p s"
  shows "set_label_len s = Inr (s\<lparr>ts_ndata := enc_labels (ls @ [p])\<rparr>)"
  using assms by (simp add: in_text_def set_label_len_def)

lemma push_char_in_text:
  assumes "in_text ls p s" "push_char downcase c s = Inr t"
  shows "in_text ls (p @ [lower_if downcase c]) t" "length (ts_ndata t) = length (ts_ndata s) + 1"
  using assms by (auto simp: in_text_def push_char_def Let_def split: if_splits)

lemma ft_step_in_text:
  assumes "in_text ls p s" "good_labels ls" "length (ts_ndata s) < MAX_WIRE" "ft_step downcase at_end c s = Inr t"
  shows "text_inv t"
proof -
  consider (dot) "ts_state s = ft_ordinary" "c = 0x2E"
    | (push) s' c' where "push_char downcase c' s' = Inr t" "in_text ls p s'" "ts_ndata s' = ts_ndata s"
    | (mode) "in_text ls p t" "ts_ndata t = ts_ndata s"
    using assms(1,4)
    by (auto simp: ft_step_def ft_ordinary_case_def ft_escdecimal_case_def ft_escape_case_def ft_initialescape_case_def
        in_text_def Let_def split: ft_state.splits if_splits)
  then show ?thesis
  proof cases
    case dot
    then have p: "p \<noteq> []" "length p \<le> MAX_LABELLEN" using assms(1) by (auto simp: in_text_def)
    then have good: "good_labels (ls @ [p])" using assms(2) by (auto simp: good_labels_def)
    have "at_label (ls @ [p]) t \<or> text_done (ls @ [p]) t" "length (ts_ndata t) \<le> MAX_WIRE"
      using dot assms(1,3,4) p in_text_len [OF assms(1)]
      by (auto simp: ft_step_def ft_ordinary_case_def in_text_def at_label_def text_done_def label_offsets_append Let_def
          split: if_splits)
    with good show ?thesis unfolding text_inv_def by blast
  next
    case push
    then show ?thesis using push_char_in_text [OF push(2,1)] assms(2,3) unfolding text_inv_def by force
  next
    case mode
    then show ?thesis using assms(2,3) unfolding text_inv_def by force
  qed
qed

lemma ft_step_at_label:
  assumes "at_label ls s" "good_labels ls" "length (ts_ndata s) < MAX_WIRE" "ft_step downcase at_end c s = Inr t"
  shows "text_inv t"
proof -
  define u where "u = s\<lparr>ts_ndata := ts_ndata s @ [0], ts_count := 0\<rparr>"
  have root: "text_inv t" if "ts_state s = ft_init" "t = s\<lparr>ts_ndata := ts_ndata s @ [0], ts_done := True\<rparr>"
    using that assms(1,3) by (auto simp: text_inv_def at_label_def text_done_def good_labels_def MAX_WIRE_def intro!: exI [of _ "[]"])
  have u: "in_text ls [] (u\<lparr>ts_state := ft_initialescape\<rparr>)" "in_text ls [] (u\<lparr>ts_state := ft_escape\<rparr>)"
    using assms(1) by (auto simp: u_def at_label_def in_text_def)
  have start: "text_inv t" if "ft_start_case downcase at_end c s = Inr t"
  proof -
    have "t = u\<lparr>ts_state := ft_initialescape\<rparr> \<or>
        length (ts_ndata u) < MAX_WIRE \<and> push_char downcase c (u\<lparr>ts_state := ft_ordinary\<rparr>) = Inr t"
      using that by (auto simp: ft_start_case_def ft_ordinary_case_def u_def Let_def split: if_splits)
    moreover have "push_char downcase c (u\<lparr>ts_state := ft_ordinary\<rparr>) = push_char downcase c (u\<lparr>ts_state := ft_escape\<rparr>)"
      by (simp add: push_char_def Let_def)
    ultimately show ?thesis
    proof (elim disjE conjE, goal_cases)
      case 1
      then show ?case using u(1) assms(2,3) unfolding text_inv_def by (force simp: u_def)
    next
      case 2
      then have "push_char downcase c (u\<lparr>ts_state := ft_escape\<rparr>) = Inr t" by simp
      then have "in_text ls ([] @ [lower_if downcase c]) t" "length (ts_ndata t) = length (ts_ndata u) + 1"
        using push_char_in_text [OF u(2)] by simp_all
      with 2 assms(2) show ?case unfolding text_inv_def by force
    qed
  qed
  show ?thesis
  proof (cases "ts_state s")
    case ft_init
    then show ?thesis using assms(4) root start by (auto simp: ft_step_def ft_init_case_def split: if_splits)
  next
    case ft_start
    then show ?thesis using assms(4) start by (simp add: ft_step_def)
  qed (use assms(1) in \<open>auto simp: at_label_def\<close>)
qed

lemma text_inv_step:
  assumes "text_inv s" "\<not> ts_done s" "length (ts_ndata s) < MAX_WIRE" "ft_step downcase at_end c s = Inr t"
  shows "text_inv t"
  using assms ft_step_in_text [OF _ _ assms(3,4)] ft_step_at_label [OF _ _ assms(3,4)]
  unfolding text_inv_def [of s] text_done_def by blast

lemma text_inv_loop: "text_loop downcase cs s = Inr (rest, t) \<Longrightarrow> text_inv s \<Longrightarrow> text_inv t"
proof (induction downcase cs s rule: text_loop.induct)
  case (2 downcase c cs s)
  then show ?case using text_inv_step by (auto simp: result_simps split: if_splits)
qed auto

lemma text_inv_init: "text_inv text_init"
  by (auto simp: text_inv_def text_init_def at_label_def good_labels_def intro!: exI [of _ "[]"])

lemma enc_labels_count: "good_labels ls \<Longrightarrow> 2 * length ls \<le> length (enc_labels ls)"
proof (induction ls)
  case (Cons l ls)
  then have "1 \<le> length l" "2 * length ls \<le> length (enc_labels ls)" by (simp_all add: good_labels_def Suc_le_eq)
  then show ?case by simp
qed simp

lemma text_finish_inv:
  assumes "text_inv s" "text_finish rest s = Inr t"
  shows "\<exists>ls. good_labels ls \<and> ts_ndata t = enc_labels (ls @ [[]]) \<and> ts_offsets t = label_offsets 0 (ls @ [[]]) \<and>
    length (ts_ndata t) \<le> MAX_WIRE"
proof (cases "ts_done s")
  case True
  with assms show ?thesis by (auto simp: text_finish_def text_inv_def text_done_def at_label_def in_text_def)
next
  case False
  then have s: "length (ts_ndata s) \<noteq> MAX_WIRE" "ts_state s = ft_ordinary" "ts_count s \<noteq> 0"
    using assms(2) by (auto simp: text_finish_def split: if_splits)
  with False assms(1) obtain ls p where ls: "good_labels ls" "in_text ls p s" "length (ts_ndata s) \<le> MAX_WIRE"
    by (auto simp: text_inv_def at_label_def text_done_def)
  then have "p \<noteq> []" "length p \<le> MAX_LABELLEN" using s by (auto simp: in_text_def)
  then have "good_labels (ls @ [p])" using ls(1) by (auto simp: good_labels_def)
  moreover have "ts_ndata t = enc_labels (ls @ [p] @ [[]])" "ts_offsets t = label_offsets 0 (ls @ [p] @ [[]])"
    "length (ts_ndata t) = length (ts_ndata s) + 1"
    using assms(2) False s in_text_len [OF ls(2)] ls(2)
    by (auto simp: text_finish_def in_text_def label_offsets_append split: if_splits)
  ultimately show ?thesis using ls(3) s(1) by (intro exI [of _ "ls @ [p]"]) auto
qed

lemma stringParse_wf:
  assumes "stringParse txt downcase = Inr (offs, nd)"
  shows "\<exists>ls. wf_name ls \<lparr>ndata = nd, offsets = offs, labelcount = length offs, name_length = length nd\<rparr>
    \<and> length offs \<le> MAX_LABELS"
proof -
  obtain rest s t where s: "text_loop downcase txt text_init = Inr (rest, s)" "text_finish rest s = Inr t"
      "offs = ts_offsets t" "nd = ts_ndata t"
    using assms by (auto simp: stringParse_def result_simps)
  obtain ls where ls: "good_labels ls" "nd = enc_labels (ls @ [[]])" "offs = label_offsets 0 (ls @ [[]])"
      "length nd \<le> MAX_WIRE"
    using text_finish_inv [OF text_inv_loop [OF s(1) text_inv_init] s(2)] s(3,4) by auto
  moreover have "length offs \<le> MAX_LABELS"
    using enc_labels_count [OF ls(1)] ls by (simp add: MAX_LABELS_def MAX_WIRE_def)
  ultimately show ?thesis by (auto simp: wf_name_def)
qed

lemma Name_from_text_eq:
  "Name_from_text txt downcase = bindE (stringParse txt downcase) (\<lambda>(offs, nd).
     Inr \<lparr>ndata = nd, offsets = offs, labelcount = length offs, name_length = length nd\<rparr>)"
proof (cases "stringParse txt downcase")
  case (Inr a)
  obtain offs nd where a: "a = (offs, nd)" by (cases a)
  then obtain ls where "wf_name ls \<lparr>ndata = nd, offsets = offs, labelcount = length offs, name_length = length nd\<rparr>"
      "length offs \<le> MAX_LABELS"
    using stringParse_wf Inr by blast
  with a Inr show ?thesis by (auto simp: Name_from_text_def wf_name_def)
qed (simp add: Name_from_text_def)

lemma Name_from_text_wf: "Name_from_text txt downcase = Inr nm \<Longrightarrow> \<exists>ls. wf_name ls nm"
  using stringParse_wf by (fastforce simp: Name_from_text_eq result_simps)

section \<open>Reading what was printed\<close>

lemma text_loop_step:
  assumes "length (ts_ndata s) < MAX_WIRE" "\<not> ts_done s" "ft_step downcase (cs = []) c s = Inr t"
  shows "text_loop downcase (c # cs) s = text_loop downcase cs t"
  using assms by simp

lemma decimal_digits:
  fixes c :: u8
  shows "uint ((c div 100) mod 10) * 100 + uint ((c div 10) mod 10) * 10 + uint (c mod 10) = uint c"
proof -
  define n where "n = uint c"
  have n: "0 \<le> n" "n < 256" using uint_lt2p [of c] by (simp_all add: n_def)
  have "n div 100 = n div 10 div 10" by (simp add: zdiv_zmult2_eq)
  moreover have h: "n div 100 mod 10 = n div 100" using n by (intro mod_pos_pos_trivial) auto
  moreover have "a * 100 + b * 10 + r = n" if "q * 10 + r = n" "a * 10 + b = q" for a b q r :: int
    using that by linarith
  ultimately have "n div 100 mod 10 * 100 + n div 10 mod 10 * 10 + n mod 10 = n"
    using div_mult_mod_eq [of n 10] div_mult_mod_eq [of "n div 10" 10] by metis
  with h show ?thesis by (simp add: n_def uint_div uint_mod)
qed

lemma digit_byte:
  fixes d :: u8
  assumes "uint d < 10"
  shows "isdigit (0x30 + d)" "digitvalue (0x30 + d) = uint d" "0x30 + d \<noteq> 0x5B"
proof -
  have u: "uint (0x30 + d) = 0x30 + uint d"
    using assms uint_lt2p [of d] by (simp add: uint_word_ariths)
  then show "isdigit (0x30 + d)" "digitvalue (0x30 + d) = uint d"
    using assms by (simp_all add: isdigit_def digitvalue_def word_le_def)
  show "0x30 + d \<noteq> 0x5B" using u assms by auto
qed

lemma mod10_digit: "uint ((c::u8) mod 10) < 10"
  by (simp add: uint_mod)

lemma text_char:
  assumes "in_text ls p s" "ts_state s \<in> {ft_initialescape, ft_escape, ft_ordinary}"
    and "length p < MAX_LABELLEN" "length (enc_labels ls) + length p + 1 < MAX_WIRE"
    and "ts_state s = ft_ordinary \<Longrightarrow> w = escape_char c" "ts_state s \<noteq> ft_ordinary \<Longrightarrow> escape_char c = 0x5C # w"
  shows "\<exists>t. text_loop False (w @ cs) s = text_loop False cs t \<and> in_text ls (p @ [c]) t \<and> ts_state t = ft_ordinary"
proof -
  have run: "\<exists>t. text_loop False (w @ cs) s = text_loop False cs t \<and> in_text ls (p @ [c]) t \<and> ts_state t = ft_ordinary"
    if s: "in_text ls p s" "ts_state s \<in> {ft_initialescape, ft_escape}" and w: "escape_char c = 0x5C # w" for s w
  proof (cases "w = [c]")
    case True
    then have "\<not> isdigit c" "c \<noteq> 0x5B"
      using w by (auto simp: escape_char_def isdigit_def split: if_splits)
    then have "text_loop False (w @ cs) s = text_loop False cs
        (s\<lparr>ts_count := length p + 1, ts_ndata := ts_ndata s @ [c], ts_state := ft_ordinary\<rparr>)"
      using s True assms(3,4)
      by (auto simp: in_text_def ft_step_def ft_initialescape_case_def ft_escape_case_def push_char_def lower_if_def Let_def)
    then show ?thesis using s assms(3) by (auto simp: in_text_def)
  next
    case False
    define d1 d2 d3 where d: "d1 = (c div 100) mod 10" "d2 = (c div 10) mod 10" "d3 = c mod 10"
    have w': "w = [0x30 + d1, 0x30 + d2, 0x30 + d3]"
      using w False by (auto simp: escape_char_def d split: if_splits)
    note dig = digit_byte [OF mod10_digit [of "c div 100"], folded d] digit_byte [OF mod10_digit [of "c div 10"], folded d]
      digit_byte [OF mod10_digit [of c], folded d]
    have v: "(uint d1 * 10 + uint d2) * 10 + uint d3 = uint c" using decimal_digits [of c] by (simp add: d)
    have "uint c \<le> 255" using uint_lt2p [of c] by simp
    then have "text_loop False (w @ cs) s = text_loop False cs (s\<lparr>ts_value := uint c, ts_digits := Suc (Suc (Suc 0)),
        ts_count := length p + 1, ts_ndata := ts_ndata s @ [c], ts_state := ft_ordinary\<rparr>)"
      using s assms(3,4) dig v unfolding w'
      by (auto simp: in_text_def ft_step_def ft_initialescape_case_def ft_escape_case_def ft_escdecimal_case_def
          push_char_def lower_if_def Let_def)
    then show ?thesis using s assms(3) by (auto simp: in_text_def)
  qed
  show ?thesis
  proof (cases "ts_state s = ft_ordinary")
    case False
    then show ?thesis using run [OF assms(1)] assms(2,6) by auto
  next
    case True
    then consider "w = [c]" "c \<noteq> 0x5C" "c \<noteq> 0x2E" | w' where "w = 0x5C # w'"
      using assms(5) by (auto simp: escape_char_def split: if_splits)
    then show ?thesis
    proof cases
      case 1
      then have "text_loop False (w @ cs) s = text_loop False cs
          (s\<lparr>ts_count := length p + 1, ts_ndata := ts_ndata s @ [c], ts_state := ft_ordinary\<rparr>)"
        using True assms(1,3,4) by (auto simp: in_text_def ft_step_def ft_ordinary_case_def push_char_def lower_if_def Let_def)
      then show ?thesis using assms(1,3) by (auto simp: in_text_def)
    next
      case 2
      have "text_loop False (w @ cs) s = text_loop False (w' @ cs) (s\<lparr>ts_state := ft_escape\<rparr>)"
        using True 2 assms(1,4) by (auto simp: in_text_def ft_step_def ft_ordinary_case_def)
      moreover have "in_text ls p (s\<lparr>ts_state := ft_escape\<rparr>)" using assms(1) by (auto simp: in_text_def)
      ultimately show ?thesis using run [of "s\<lparr>ts_state := ft_escape\<rparr>" w'] 2 True assms(5) by auto
    qed
  qed
qed

lemma text_chars:
  assumes "in_text ls p s" "ts_state s = ft_ordinary"
    and "length p + length l \<le> MAX_LABELLEN" "length (enc_labels ls) + length p + length l + 1 \<le> MAX_WIRE"
  shows "\<exists>t. text_loop False (label_text l @ cs) s = text_loop False cs t \<and> in_text ls (p @ l) t \<and> ts_state t = ft_ordinary"
  using assms
proof (induction l arbitrary: p s)
  case (Cons c l)
  obtain t where t: "text_loop False (escape_char c @ label_text l @ cs) s = text_loop False (label_text l @ cs) t"
      "in_text ls (p @ [c]) t" "ts_state t = ft_ordinary"
    using text_char [of ls p s "escape_char c" c "label_text l @ cs"] Cons.prems by auto
  with Cons.IH [of "p @ [c]" t] Cons.prems show ?case by (auto simp: label_text_def)
qed (auto simp: label_text_def)

lemma text_first_char:
  assumes "at_label ls s" "length (enc_labels ls) + 1 < MAX_WIRE" "cs \<noteq> []"
  shows "\<exists>t. text_loop False (escape_char c @ cs) s = text_loop False cs t \<and> in_text ls [c] t \<and> ts_state t = ft_ordinary"
proof (cases "\<exists>w. escape_char c = 0x5C # w")
  case True
  then obtain w where w: "escape_char c = 0x5C # w" by blast
  define u where "u = s\<lparr>ts_ndata := ts_ndata s @ [0], ts_count := 0, ts_state := ft_initialescape\<rparr>"
  have u: "in_text ls [] u" "ts_state u = ft_initialescape"
    using assms(1) by (auto simp: u_def at_label_def in_text_def)
  have "text_loop False (escape_char c @ cs) s = text_loop False (w @ cs) u"
    using assms(1,2) w by (auto simp: at_label_def ft_step_def ft_init_case_def ft_start_case_def u_def Let_def)
  then show ?thesis using text_char [of ls "[]" u w c cs] u w assms(2) by (auto simp: MAX_LABELLEN_def)
next
  case False
  then have c: "escape_char c = [c]" "c \<noteq> 0x5C" "c \<noteq> 0x2E" by (auto simp: escape_char_def split: if_splits)
  then have "text_loop False (escape_char c @ cs) s = text_loop False cs
      (s\<lparr>ts_count := 1, ts_ndata := ts_ndata s @ [0] @ [c], ts_state := ft_ordinary\<rparr>)"
    using assms by (auto simp: at_label_def ft_step_def ft_init_case_def ft_start_case_def ft_ordinary_case_def push_char_def
        lower_if_def MAX_LABELLEN_def Let_def)
  then show ?thesis using assms(1) by (auto simp: at_label_def in_text_def MAX_LABELLEN_def)
qed

lemma text_label:
  assumes "at_label ls s" "l \<noteq> []" "length l \<le> MAX_LABELLEN" "length (enc_labels ls) + length l + 1 < MAX_WIRE"
  shows "\<exists>t. text_loop False (label_text l @ 0x2E # cs) s = text_loop False cs t \<and>
    (if cs = [] then text_done (ls @ [l]) t else at_label (ls @ [l]) t)"
proof -
  obtain c l' where l: "l = c # l'" using assms(2) by (cases l) auto
  obtain t where t: "text_loop False (escape_char c @ label_text l' @ 0x2E # cs) s = text_loop False (label_text l' @ 0x2E # cs) t"
      "in_text ls [c] t" "ts_state t = ft_ordinary"
    using text_first_char [of ls s "label_text l' @ 0x2E # cs" c] assms(1,4) l by auto
  obtain u where u: "text_loop False (label_text l' @ 0x2E # cs) t = text_loop False (0x2E # cs) u"
      "in_text ls l u" "ts_state u = ft_ordinary"
    using text_chars [OF t(2,3), of l' "0x2E # cs"] assms(3,4) l by auto
  have "text_loop False (0x2E # cs) u = text_loop False cs
      (let v = u\<lparr>ts_ndata := enc_labels (ls @ [l]), ts_offsets := ts_offsets u @ [length (enc_labels (ls @ [l]))]\<rparr>
       in if cs = [] then v\<lparr>ts_ndata := ts_ndata v @ [0], ts_done := True, ts_state := ft_start\<rparr> else v\<lparr>ts_state := ft_start\<rparr>)"
    using u(2,3) in_text_len [OF u(2)] assms(2,4)
    by (auto simp: ft_step_def ft_ordinary_case_def in_text_def Let_def)
  moreover have "label_text l = escape_char c @ label_text l'" by (simp add: l label_text_def)
  ultimately show ?thesis using t(1) u assms(1)
    by (auto simp: text_done_def at_label_def in_text_def label_offsets_append Let_def)
qed

definition dotted :: "bytes list \<Rightarrow> bytes" where
  "dotted ls = concat (map (\<lambda>l. label_text l @ [0x2E]) ls)"

lemma text_labels:
  assumes "at_label ls s" "good_labels ms" "length (enc_labels (ls @ ms)) < MAX_WIRE" "ms \<noteq> []"
  shows "\<exists>t. text_loop False (dotted ms @ cs) s = text_loop False cs t \<and>
    (if cs = [] then text_done (ls @ ms) t else at_label (ls @ ms) t)"
  using assms
proof (induction ms arbitrary: ls s)
  case (Cons l ms)
  have l: "l \<noteq> []" "length l \<le> MAX_LABELLEN" "good_labels ms" using Cons.prems(2) by (auto simp: good_labels_def)
  obtain t where t: "text_loop False (label_text l @ 0x2E # (dotted ms @ cs)) s = text_loop False (dotted ms @ cs) t"
      "if dotted ms @ cs = [] then text_done (ls @ [l]) t else at_label (ls @ [l]) t"
    using text_label [of ls s l "dotted ms @ cs"] Cons.prems l by auto
  have split: "dotted (l # ms) @ cs = label_text l @ 0x2E # (dotted ms @ cs)" by (simp add: dotted_def)
  show ?case
  proof (cases "ms = []")
    case True
    then show ?thesis using t unfolding split by (auto simp: dotted_def)
  next
    case False
    then have "dotted ms \<noteq> []" by (cases ms) (auto simp: dotted_def)
    with t(2) have "at_label (ls @ [l]) t" by simp
    then show ?thesis using Cons.IH [of "ls @ [l]" t] Cons.prems(3) l False t(1) unfolding split by auto
  qed
qed simp

lemma at_label_init: "at_label [] text_init"
  by (simp add: at_label_def text_init_def)

lemma wf_name_text:
  assumes "wf_name ls nm"
  shows "Name_from_text (name_text ls) False = Inr nm"
proof -
  have good: "good_labels ls" and len: "length (enc_labels (ls @ [])) < MAX_WIRE"
    and nm: "nm = \<lparr>ndata = enc_labels (ls @ [[]]), offsets = label_offsets 0 (ls @ [[]]), labelcount = length ls + 1,
       name_length = length (enc_labels (ls @ [[]]))\<rparr>"
    using assms by (auto simp: wf_name_def)
  have "\<exists>t. text_loop False (name_text ls) text_init = Inr ([], t) \<and> text_done ls t"
  proof (cases "ls = []")
    case True
    then show ?thesis
      by (auto simp: name_text_def text_init_def MAX_WIRE_def ft_step_def ft_init_case_def text_done_def)
  next
    case False
    then have "name_text ls = dotted ls @ []" by (simp add: name_text_def dotted_def)
    with False show ?thesis using text_labels [OF at_label_init good _ False, of "[]"] len by auto
  qed
  then show ?thesis
    by (auto simp: Name_from_text_eq stringParse_def text_finish_def text_done_def nm)
qed

section \<open>Properties of the text parser\<close>

text \<open>C36. Reading a name from text yields only well-formed names, and the text of every well-formed name
  (printed, with its escapes) reads back as the same name: names from the wire, from text or from a
  configuration all survive a round trip through their text.\<close>

theorem name_text_roundtrip:
  "(Name_from_text txt downcase = Inr nm \<longrightarrow> (\<exists>ls. wf_name ls nm)) \<and>
   (wf_name ls nm' \<longrightarrow> (\<exists>t. Name_toText nm' = Inr t \<and> Name_from_text t False = Inr nm'))"
  using Name_from_text_wf wf_name_toText wf_name_text by blast

theorem name_text_roundtrip_witness:
  "\<exists>t. Name_toText example_name = Inr t \<and> Name_from_text t False = Inr example_name"
proof -
  have "wf_name [[0x6e, 0x73, 0x31], [0x74, 0x65, 0x73, 0x74]] example_name"
    by (simp add: wf_name_def good_labels_def example_name_def example_wire_def MAX_LABELLEN_def MAX_WIRE_def)
  then show ?thesis using name_text_roundtrip by blast
qed

lemma dotted_abort:
  assumes "good_labels ls" "length (enc_labels ls) = 254" "c \<noteq> 0x5C"
  shows "stringParse (dotted ls @ c # rest) False = Inl AssertionFailed"
proof -
  have "ls \<noteq> []" using assms(2) by auto
  then obtain t where t: "text_loop False (dotted ls @ c # rest) text_init = text_loop False (c # rest) t" "at_label ls t"
    using text_labels [OF at_label_init assms(1), of "c # rest"] assms(2) by (auto simp: MAX_WIRE_def)
  then have "ft_step False (rest = []) c t = Inl AssertionFailed"
    using assms(2,3) \<open>ls \<noteq> []\<close> by (auto simp: at_label_def ft_step_def ft_start_case_def MAX_WIRE_def Let_def)
  moreover have "\<not> ts_done t" "length (ts_ndata t) = 254" using t(2) assms(2) by (auto simp: at_label_def)
  ultimately show ?thesis using t(1) by (simp add: stringParse_def MAX_WIRE_def)
qed

text \<open>The assertion in the text parser is not an invariant: after labels that fill exactly 254 bytes, one
  more character (any but a backslash) fails the assertion and ends the process, where a name that is
  too long is meant to raise \<^verbatim>\<open>TooLongName\<close>. No handler sees the error.\<close>

theorem long_name_aborts:
  assumes "good_labels ls" "length (enc_labels ls) = 254" "c \<noteq> 0x5C"
  shows "Name_from_text (concat (map (\<lambda>l. label_text l @ [0x2E]) ls) @ c # rest) False = Inl AssertionFailed"
  using dotted_abort [OF assms, of rest] by (simp add: Name_from_text_def dotted_def)

definition example_long :: "bytes list" where
  "example_long = replicate 3 (replicate 63 0x61) @ [replicate 61 0x61]"

theorem long_name_aborts_witness:
  "Name_from_text (concat (map (\<lambda>l. label_text l @ [0x2E]) example_long) @ [0x62]) False = Inl AssertionFailed"
  by (rule long_name_aborts) (auto simp: example_long_def good_labels_def MAX_LABELLEN_def numeral_3_eq_3)

section \<open>Reading the wire form back\<close>

text \<open>While the parser of an uncompressed name runs, its position is the number of bytes it has kept.\<close>

definition wire_ctx :: "bytes \<Rightarrow> wire_state \<Rightarrow> bool" where
  "wire_ctx D s \<longleftrightarrow> in_data (ws_buffer s) = D \<and> position (ws_buffer s) = length (ws_ndata s) \<and>
     ws_current s = length (ws_ndata s) \<and> ws_cused s = length (ws_ndata s) \<and> \<not> ws_seen_pointer s"

lemma wire_ctx_step:
  assumes "wire_ctx (ws_ndata s @ c # D) s" "\<not> ws_done s" "ws_state s \<noteq> fw_newcurrent"
    and "ws_state s = fw_start \<longrightarrow> unat c \<le> MAX_LABELLEN \<and> ws_nused s + unat c + 1 \<le> MAX_WIRE"
  shows "\<exists>s' t. wire_loop False s = wire_loop False t \<and> fw_step False c s' = Inr t \<and>
    s' = s\<lparr>ws_buffer := ws_buffer s', ws_current := ws_current s', ws_cused := ws_cused s'\<rparr> \<and>
    ws_ndata t = ws_ndata s @ [c] \<and> wire_ctx (ws_ndata s @ c # D) t"
proof -
  define k where "k = length (ws_ndata s)"
  define s' where "s' = s\<lparr>ws_buffer := (ws_buffer s)\<lparr>position := Suc k\<rparr>, ws_current := Suc k, ws_cused := Suc k\<rparr>"
  have r: "wire_read s = Inr (c, s')"
    using assms(1) by (auto simp: wire_read_def in_readUint8_def wire_ctx_def s'_def k_def nth_append)
  have "\<exists>t. fw_step False c s' = Inr t \<and> ws_ndata t = ws_ndata s @ [c] \<and> ws_buffer t = ws_buffer s' \<and>
      ws_current t = Suc k \<and> ws_cused t = Suc k \<and> ws_seen_pointer t = ws_seen_pointer s"
    using assms(3,4) by (cases "ws_state s") (auto simp: fw_step_def s'_def Let_def)
  then obtain t where t: "fw_step False c s' = Inr t" "ws_ndata t = ws_ndata s @ [c]" "ws_buffer t = ws_buffer s'"
      "ws_current t = Suc k" "ws_cused t = Suc k" "ws_seen_pointer t = ws_seen_pointer s"
    by blast
  then have "wire_loop False s = wire_loop False t"
    using assms(1,2) r by (simp add: wire_loop.simps [of False s] wire_ctx_def)
  moreover have "wire_ctx (ws_ndata s @ c # D) t" using assms(1) t by (simp add: wire_ctx_def s'_def k_def)
  ultimately show ?thesis using t(1,2) s'_def by (intro exI [of _ s'] exI [of _ t]) (simp add: s'_def)
qed

lemma wire_chars:
  assumes "in_label ls k p s" "wire_ctx (enc_labels ls @ word_of_nat k # p @ l @ D) s" "k = length p + length l" "l \<noteq> []"
  shows "\<exists>t. wire_loop False s = wire_loop False t \<and> in_labels (ls @ [p @ l]) t \<and> ws_state t = fw_start \<and>
    wire_ctx (enc_labels ls @ word_of_nat k # p @ l @ D) t"
  using assms
proof (induction l arbitrary: p s)
  case (Cons c l)
  have s: "\<not> ws_done s" "ws_state s = fw_ordinary" "ws_ndata s = enc_labels ls @ word_of_nat k # p"
    using Cons.prems(1) by (auto simp: in_label_def)
  obtain s' t where t: "wire_loop False s = wire_loop False t" "fw_step False c s' = Inr t"
      "s' = s\<lparr>ws_buffer := ws_buffer s', ws_current := ws_current s', ws_cused := ws_cused s'\<rparr>"
      "wire_ctx (enc_labels ls @ word_of_nat k # p @ (c # l) @ D) t"
    using wire_ctx_step [of s c "l @ D"] Cons.prems(2) s by auto
  have s': "in_label ls k p s'" using Cons.prems(1) by (subst t(3)) (auto simp: in_label_def)
  show ?case
  proof (cases "l = []")
    case True
    then have "in_labels (ls @ [p @ [c]]) t" "ws_state t = fw_start"
      using t(2) s' Cons.prems(3) by (auto simp: fw_step_def in_label_def in_labels_def Let_def label_offsets_append)
    with True t show ?thesis by auto
  next
    case False
    then have "in_label ls k (p @ [c]) t"
      using t(2) s' Cons.prems(3) by (auto simp: fw_step_def in_label_def Let_def split: if_splits)
    then show ?thesis using Cons.IH [of "p @ [c]" t] False Cons.prems(3) t by auto
  qed
qed simp

lemma wire_labels:
  assumes "in_labels ls s" "ws_state s = fw_start" "wire_ctx (enc_labels (ls @ ms) @ 0 # D) s" "good_labels ms"
    and "length (enc_labels (ls @ ms)) < MAX_WIRE"
  shows "\<exists>t. wire_loop False s = Inr t \<and> name_done (ls @ ms) t \<and> wire_ctx (enc_labels (ls @ ms) @ 0 # D) t"
  using assms
proof (induction ms arbitrary: ls s)
  case Nil
  have s: "\<not> ws_done s" "ws_ndata s = enc_labels ls" "ws_nused s = length (enc_labels ls)"
    using Nil.prems(1) by (auto simp: in_labels_def)
  obtain s' t where t: "wire_loop False s = wire_loop False t" "fw_step False 0 s' = Inr t"
      "s' = s\<lparr>ws_buffer := ws_buffer s', ws_current := ws_current s', ws_cused := ws_cused s'\<rparr>"
      "wire_ctx (enc_labels ls @ 0 # D) t"
    using wire_ctx_step [of s 0 D] Nil.prems s by auto
  have "in_labels ls s'" "ws_state s' = fw_start"
    using Nil.prems(1,2) by (subst t(3), simp add: in_labels_def)+
  from fw_step_start(2) [OF this _ t(2)] have d: "name_done ls t" by simp
  then have "wire_loop False t = Inr t" by (simp add: wire_loop.simps [of False t] name_done_def)
  with t d show ?case by auto
next
  case (Cons l ms)
  have l: "l \<noteq> []" "length l \<le> MAX_LABELLEN" "good_labels ms" using Cons.prems(4) by (auto simp: good_labels_def)
  define c :: u8 where "c = word_of_nat (length l)"
  have c: "unat c = length l" using l(2) by (simp add: c_def unat_of_nat MAX_LABELLEN_def)
  then have "c \<noteq> 0" using l(1) by auto
  note c = c this
  have s: "\<not> ws_done s" "ws_ndata s = enc_labels ls" "ws_nused s = length (enc_labels ls)"
    using Cons.prems(1) by (auto simp: in_labels_def)
  obtain s' t where t: "wire_loop False s = wire_loop False t" "fw_step False c s' = Inr t"
      "s' = s\<lparr>ws_buffer := ws_buffer s', ws_current := ws_current s', ws_cused := ws_cused s'\<rparr>"
      "wire_ctx (enc_labels ls @ c # l @ enc_labels ms @ 0 # D) t"
    using wire_ctx_step [of s c "l @ enc_labels ms @ 0 # D"] Cons.prems s c l by (auto simp: c_def)
  have "in_labels ls s'" "ws_state s' = fw_start"
    using Cons.prems(1,2) by (subst t(3), simp add: in_labels_def)+
  from fw_step_start(2) [OF this _ t(2)] have "in_label ls (length l) [] t" using c l by simp
  then obtain u where u: "wire_loop False t = wire_loop False u" "in_labels (ls @ [l]) u" "ws_state u = fw_start"
      "wire_ctx (enc_labels ls @ c # l @ enc_labels ms @ 0 # D) u"
    using wire_chars [of ls "length l" "[]" t l "enc_labels ms @ 0 # D"] t(4) l(1) by (auto simp: c_def)
  then show ?case using Cons.IH [of "ls @ [l]" u] Cons.prems(5) l t(1) by (auto simp: c_def)
qed

lemma wf_name_wire:
  assumes "wf_name ls nm"
  shows "Name_from_wire (mk_InputBuffer (ndata nm @ D)) False =
    Inr (nm, \<lparr>in_data = ndata nm @ D, position = length (ndata nm)\<rparr>)"
proof -
  have nm: "ndata nm = enc_labels ls @ [0]" "offsets nm = label_offsets 0 (ls @ [[]])" "labelcount nm = length ls + 1"
      "name_length nm = length (ndata nm)" "good_labels ls" "length (enc_labels ls) < MAX_WIRE"
    using assms by (auto simp: wf_name_def)
  let ?s = "wire_init (mk_InputBuffer (ndata nm @ D))"
  have "in_labels [] ?s" "ws_state ?s = fw_start" "wire_ctx (enc_labels ([] @ ls) @ 0 # D) ?s"
    by (auto simp: in_labels_def wire_init_def wire_ctx_def mk_InputBuffer_def nm(1))
  from wire_labels [OF this nm(5)] nm(6)
  obtain t where t: "wire_loop False ?s = Inr t" "name_done ls t" "wire_ctx (enc_labels ls @ 0 # D) t" by auto
  have "nm = \<lparr>ndata = ws_ndata t, offsets = ws_offsets t, labelcount = length (ws_offsets t), name_length = ws_nused t\<rparr>"
    using t(2) nm by (cases nm) (auto simp: name_done_def)
  then show ?thesis using t nm(1) by (auto simp: Name_from_wire_def setPosition_def mk_InputBuffer_def name_done_def wire_ctx_def)
qed

end
