(* ===== verification/Option_Text.thy ===== *)
theory Option_Text
  imports Options_Roundtrip4 Name_Text
begin

text \<open>
  Options from configuration strings: \<^verbatim>\<open>OptionDefinition::optionFactory\<close> with a vector of
  values, \<^verbatim>\<open>writeToBuffer\<close> and \<^verbatim>\<open>lexicalCastWithRangeCheck\<close>
  (\<^verbatim>\<open>src/lib/dhcp/option_definition.cc\<close>), the writers of a binary and of a domain name field
  (\<^verbatim>\<open>option_data_types.cc\<close>), and the helpers they use: \<^verbatim>\<open>src/lib/util/strutil.cc\<close>
  and the base 16 decoder of \<^verbatim>\<open>src/lib/util/encode/base_n.cc\<close>.

  The conversions of numbers and addresses belong to boost and asio: they are the fields of the record
  \<open>externals\<close>, where \<open>None\<close> is \<^verbatim>\<open>boost::bad_lexical_cast\<close> or an asio error code.
\<close>

section \<open>The conversions of other libraries\<close>

record externals =
  address_from_string :: "string \<Rightarrow> ioaddress option"
  lexical_cast_int64 :: "string \<Rightarrow> int option"
  lexical_cast_int :: "string \<Rightarrow> int option"
  lexical_cast_uint :: "string \<Rightarrow> nat option"

definition IOAddress_text :: "externals \<Rightarrow> string \<Rightarrow> ioaddress result" where
  "IOAddress_text ext address_str =
     (case address_from_string ext address_str of None \<Rightarrow> Inl IOError | Some a \<Rightarrow> Inr a)"

text \<open>The bytes of a \<^verbatim>\<open>std::string\<close>.\<close>

definition bytes_of :: "string \<Rightarrow> bytes" where
  "bytes_of s = map of_char s"

section \<open>String utilities\<close>

definition str_trim :: "string \<Rightarrow> string" where
  "str_trim instring =
     (let blanks = [CHR '' '', CHR 0x09, CHR 0x0A]
      in rev (dropWhile (\<lambda>c. c \<in> set blanks) (rev (dropWhile (\<lambda>c. c \<in> set blanks) instring))))"

function tokens :: "string \<Rightarrow> string \<Rightarrow> string list" where
  "tokens text delim =
     (let start = dropWhile (\<lambda>c. c \<in> set delim) text
      in if start = [] then []
         else takeWhile (\<lambda>c. c \<notin> set delim) start # tokens (dropWhile (\<lambda>c. c \<notin> set delim) start) delim)"
  by pat_completeness auto
termination
proof (relation "measure (\<lambda>(text, _). length text)")
  fix "text" :: string and delim start :: string
  assume s: "start = dropWhile (\<lambda>c. c \<in> set delim) text" "start \<noteq> []"
  then have "hd start \<notin> set delim" by (metis hd_dropWhile)
  then have "length (dropWhile (\<lambda>c. c \<notin> set delim) start) < length start"
    using s(2) by (cases start) (auto simp: le_imp_less_Suc length_dropWhile_le)
  moreover have "length start \<le> length text" by (simp add: s(1) length_dropWhile_le)
  ultimately show "((dropWhile (\<lambda>c. c \<notin> set delim) start, delim), text, delim) \<in> measure (\<lambda>(text, _). length text)"
    by simp
qed simp

declare tokens.simps [simp del]

section \<open>The base 16 decoder\<close>

definition isspace :: "u8 \<Rightarrow> bool" where
  "isspace c \<longleftrightarrow> c = 0x20 \<or> 0x09 \<le> c \<and> c \<le> 0x0D"

definition to_4_bit :: "u8 \<Rightarrow> u8 result" where
  "to_4_bit t =
     (if 0x30 \<le> t \<and> t \<le> 0x39 then Inr (t - 0x30)
      else if 0x41 \<le> t \<and> t \<le> 0x46 then Inr (t - 0x41 + 10)
      else if 0x61 \<le> t \<and> t \<le> 0x66 then Inr (t - 0x61 + 10)
      else Inl BadValue)"

text \<open>The decoding iterator: spaces are skipped, two digits make a byte, and an input that ends within a
  byte is incomplete. Base 16 allows no padding.\<close>

function decode16 :: "bytes \<Rightarrow> bytes result" where
  "decode16 input =
     (case dropWhile isspace input of
        [] \<Rightarrow> Inr []
      | c # rest \<Rightarrow>
          bindE (to_4_bit c) (\<lambda>h.
            case dropWhile isspace rest of
              [] \<Rightarrow> Inl BadValue
            | d # rest' \<Rightarrow>
                bindE (to_4_bit d) (\<lambda>l. bindE (decode16 rest') (\<lambda>bs. Inr ((h * 16 + l) # bs)))))"
  by pat_completeness auto
termination
proof (relation "measure length")
  fix input rest rest' :: bytes and c d h l
  assume "dropWhile isspace input = c # rest" "dropWhile isspace rest = d # rest'"
  then have "length (c # rest) \<le> length input" "length (d # rest') \<le> length rest"
    by (metis length_dropWhile_le)+
  then show "(rest', input) \<in> measure length" by simp
qed simp

declare decode16.simps [simp del]

definition decodeHex :: "bytes \<Rightarrow> bytes result" where
  "decodeHex input =
     (case dropWhile isspace (rev input) of
        c # _ \<Rightarrow> if c = 0x3D then Inl BadValue else decode16 input
      | [] \<Rightarrow> decode16 input)"

section \<open>Writing a field from its text\<close>

definition writeBinary :: "bytes \<Rightarrow> bytes \<Rightarrow> bytes result" where
  "writeBinary hex_str buf =
     bindE (catch_isc (decodeHex hex_str) (\<lambda>_. Inl BadDataTypeCast)) (\<lambda>binary. Inr (buf @ binary))"

definition writeFqdn :: "bytes \<Rightarrow> bytes \<Rightarrow> bytes result" where
  "writeFqdn fqdn buf =
     catch_isc
       (bindE (Name_from_text fqdn False) (\<lambda>name.
          if getDataLength name > 0
          then Inr (buf @ take (getDataLength name) (drop (hd (offsets name)) (ndata name)))
          else Inr buf))
       (\<lambda>_. Inl BadDataTypeCast)"

text \<open>\<open>bounds\<close> is \<open>None\<close> for \<^verbatim>\<open>bool\<close>, which is not checked.\<close>

definition lexicalCastWithRangeCheck :: "externals \<Rightarrow> (int \<times> int) option \<Rightarrow> string \<Rightarrow> int result" where
  "lexicalCastWithRangeCheck ext bounds value_str =
     (case lexical_cast_int64 ext value_str of
        None \<Rightarrow> Inl BadDataTypeCast
      | Some result \<Rightarrow>
          (case bounds of
             None \<Rightarrow> Inr result
           | Some (mn, mx) \<Rightarrow> if result > mx \<or> result < mn then Inl BadDataTypeCast else Inr result))"

definition write_cast :: "externals \<Rightarrow> nat \<Rightarrow> int \<times> int \<Rightarrow> string \<Rightarrow> bytes \<Rightarrow> bytes result" where
  "write_cast ext w bounds value buf =
     bindE (lexicalCastWithRangeCheck ext (Some bounds) value) (\<lambda>v.
       Inr (writeInt w (nat (v mod 2 ^ (8 * w))) buf))"

definition writeToBuffer :: "externals \<Rightarrow> string \<Rightarrow> OptionDataType \<Rightarrow> bytes \<Rightarrow> bytes result" where
  "writeToBuffer ext value type buf =
     (case type of
        OPT_BINARY_TYPE \<Rightarrow> writeBinary (bytes_of value) buf
      | OPT_BOOLEAN_TYPE \<Rightarrow>
          bindE (lexicalCastWithRangeCheck ext None value) (\<lambda>v. Inr (writeBool (v \<noteq> 0) buf))
      | OPT_INT8_TYPE \<Rightarrow> write_cast ext 1 (- 128, 127) value buf
      | OPT_INT16_TYPE \<Rightarrow> write_cast ext 2 (- 32768, 32767) value buf
      | OPT_INT32_TYPE \<Rightarrow> write_cast ext 4 (- 2147483648, 2147483647) value buf
      | OPT_UINT8_TYPE \<Rightarrow> write_cast ext 1 (0, 255) value buf
      | OPT_UINT16_TYPE \<Rightarrow> write_cast ext 2 (0, 65535) value buf
      | OPT_UINT32_TYPE \<Rightarrow> write_cast ext 4 (0, 4294967295) value buf
      | OPT_IPV4_ADDRESS_TYPE \<Rightarrow>
          bindE (IOAddress_text ext value) (\<lambda>address.
            if \<not> isV4 address \<and> \<not> isV6 address then Inl BadDataTypeCast
            else Inr (dt_writeAddress address buf))
      | OPT_IPV6_ADDRESS_TYPE \<Rightarrow>
          bindE (IOAddress_text ext value) (\<lambda>address.
            if \<not> isV4 address \<and> \<not> isV6 address then Inl BadDataTypeCast
            else Inr (dt_writeAddress address buf))
      | OPT_STRING_TYPE \<Rightarrow> Inr (writeString (bytes_of value) buf)
      | OPT_FQDN_TYPE \<Rightarrow> writeFqdn (bytes_of value) buf
      | _ \<Rightarrow> Inl BadValue)"

text \<open>The two loops of the factory, over the values of an array and over the fields of a record.\<close>

definition write_values :: "externals \<Rightarrow> (string \<times> OptionDataType) list \<Rightarrow> bytes \<Rightarrow> bytes result" where
  "write_values ext vs buf = foldE (\<lambda>(value, type) buf. writeToBuffer ext (str_trim value) type buf) vs buf"

definition optionFactory_values ::
  "externals \<Rightarrow> OptionDefinition list \<Rightarrow> OptionDefinition \<Rightarrow> Universe \<Rightarrow> u16 \<Rightarrow> string list \<Rightarrow> opt result" where
  "optionFactory_values ext defs d u type values =
     bindE
       (if \<not> array_type d \<and> def_type d \<noteq> OPT_RECORD_TYPE then
          (case values of
             [] \<Rightarrow> Inl InvalidOptionValue
           | value # _ \<Rightarrow> write_values ext [(value, def_type d)] [])
        else if array_type d \<and> def_type d \<noteq> OPT_RECORD_TYPE then
          write_values ext (map (\<lambda>v. (v, def_type d)) values) []
        else
          (if length (record_fields d) > length values then Inl InvalidOptionValue
           else write_values ext (zip values (record_fields d)) []))
       (optionFactory defs d u type)"

section \<open>What a field's text means\<close>

lemma of_char_bytes [simp]: "bytes_of [] = []" "length (bytes_of s) = length s"
  by (simp_all add: bytes_of_def)

text \<open>The value that the readers of the option classes find in the bytes of a field.\<close>

definition reads_int :: "externals \<Rightarrow> string \<Rightarrow> nat \<Rightarrow> int \<Rightarrow> int \<Rightarrow> bytes \<Rightarrow> bool" where
  "reads_int ext value w mn mx bs \<longleftrightarrow>
     (\<exists>r. lexical_cast_int64 ext value = Some r \<and> mn \<le> r \<and> r \<le> mx \<and> length bs = w \<and>
        readInt w bs = Inr (nat (r mod 2 ^ (8 * w))))"

text \<open>Bytes as hexadecimal digits, two per byte, in capitals.\<close>

definition capital_digit :: "u8 \<Rightarrow> u8" where
  "capital_digit n = (if n < 10 then n + 0x30 else n - 10 + 0x41)"

definition hex_capitals :: "bytes \<Rightarrow> bytes" where
  "hex_capitals bs = concat (map (\<lambda>b. [capital_digit (b div 16), capital_digit (b mod 16)]) bs)"

definition capital :: "u8 \<Rightarrow> u8" where
  "capital c = (if 0x61 \<le> c \<and> c \<le> 0x7A then c - 0x20 else c)"

text \<open>An address is read with the family of the option's type, which is the address of the text only if that is
  of the same family.\<close>

definition reads_address :: "externals \<Rightarrow> string \<Rightarrow> int \<Rightarrow> bytes \<Rightarrow> bool" where
  "reads_address ext value family bs \<longleftrightarrow>
     (\<exists>a. address_from_string ext value = Some a \<and> bs = toBytes a \<and>
        (dt_readAddress bs family = Inr a \<longleftrightarrow> getFamily a = family))"

fun field_value :: "externals \<Rightarrow> string \<Rightarrow> OptionDataType \<Rightarrow> bytes \<Rightarrow> bool" where
  "field_value ext value OPT_BINARY_TYPE bs \<longleftrightarrow> hex_capitals bs = map capital (filter (\<lambda>c. \<not> isspace c) (bytes_of value))"
| "field_value ext value OPT_BOOLEAN_TYPE bs \<longleftrightarrow>
     (\<exists>r. lexical_cast_int64 ext value = Some r \<and> readBool bs = Inr (r \<noteq> 0))"
| "field_value ext value OPT_INT8_TYPE bs \<longleftrightarrow> reads_int ext value 1 (- 128) 127 bs"
| "field_value ext value OPT_INT16_TYPE bs \<longleftrightarrow> reads_int ext value 2 (- 32768) 32767 bs"
| "field_value ext value OPT_INT32_TYPE bs \<longleftrightarrow> reads_int ext value 4 (- 2147483648) 2147483647 bs"
| "field_value ext value OPT_UINT8_TYPE bs \<longleftrightarrow> reads_int ext value 1 0 255 bs"
| "field_value ext value OPT_UINT16_TYPE bs \<longleftrightarrow> reads_int ext value 2 0 65535 bs"
| "field_value ext value OPT_UINT32_TYPE bs \<longleftrightarrow> reads_int ext value 4 0 4294967295 bs"
| "field_value ext value OPT_STRING_TYPE bs \<longleftrightarrow> readString bs = bytes_of value"
| "field_value ext value OPT_FQDN_TYPE bs \<longleftrightarrow>
     (\<exists>nm t. Name_from_text (bytes_of value) False = Inr nm \<and> Name_toText nm = Inr t \<and> readFqdn bs = Inr t)"
| "field_value ext value OPT_IPV4_ADDRESS_TYPE bs \<longleftrightarrow> reads_address ext value AF_INET bs"
| "field_value ext value OPT_IPV6_ADDRESS_TYPE bs \<longleftrightarrow> reads_address ext value AF_INET6 bs"
| "field_value ext value _ bs \<longleftrightarrow> False"

lemma to_4_bit_digit:
  assumes "to_4_bit c = Inr h"
  shows "h < 16" "capital_digit h = capital c"
proof -
  have "\<forall>c\<in>set (map word_of_nat [0..<256]). case to_4_bit c of Inl _ \<Rightarrow> True | Inr h \<Rightarrow> h < 16 \<and> capital_digit h = capital c"
    by code_simp
  moreover have "c \<in> set (map word_of_nat [0..<256])"
  proof -
    have "unat c < 256" using unsigned_less [of c] by simp
    then show ?thesis by (auto intro!: image_eqI [of _ _ "unat c"])
  qed
  ultimately show "h < 16" "capital_digit h = capital c" using assms by force+
qed

lemma two_digits:
  fixes h l :: u8
  assumes "h < 16" "l < 16"
  shows "(h * 16 + l) div 16 = h" "(h * 16 + l) mod 16 = l"
proof -
  have n: "unat h < 16" "unat l < 16" using assms by (simp_all add: word_less_nat_alt)
  then have u: "unat (h * 16 + l) = unat h * 16 + unat l"
    by (simp add: unat_word_ariths)
  have "unat ((h * 16 + l) div 16) = unat h" "unat ((h * 16 + l) mod 16) = unat l"
    using n by (simp_all add: unat_div unat_mod u)
  then show "(h * 16 + l) div 16 = h" "(h * 16 + l) mod 16 = l" by (simp_all add: word_unat_eq_iff)
qed

lemma filter_spaces: "filter (\<lambda>c. \<not> isspace c) (dropWhile isspace xs) = filter (\<lambda>c. \<not> isspace c) xs"
  by (induction xs) auto

lemma decode16_text: "decode16 input = Inr bs \<Longrightarrow> hex_capitals bs = map capital (filter (\<lambda>c. \<not> isspace c) input)"
proof (induction input arbitrary: bs rule: decode16.induct)
  case (1 input)
  show ?case
  proof (cases "dropWhile isspace input")
    case Nil
    then have "bs = []" using "1.prems" by (simp add: decode16.simps [of input] del: dropWhile_eq_Nil_conv)
    then show ?thesis using Nil filter_spaces [of input] by (simp add: hex_capitals_def del: dropWhile_eq_Nil_conv)
  next
    case (Cons c rest)
    from "1.prems" Cons obtain h d rest' l bs' where r: "to_4_bit c = Inr h" "dropWhile isspace rest = d # rest'" "to_4_bit d = Inr l"
        "decode16 rest' = Inr bs'" "bs = (h * 16 + l) # bs'"
      by (cases "dropWhile isspace rest") (auto simp: decode16.simps [of input] bindE_Inr_iff)
    have tail: "hex_capitals bs' = map capital (filter (\<lambda>c. \<not> isspace c) rest')" using "1.IH" [OF Cons r(1,2,3,4)] .
    have no: "\<not> isspace c" "\<not> isspace d" using Cons r(2) by (metis dropWhile_eq_Cons_conv)+
    have "filter (\<lambda>c. \<not> isspace c) input = c # d # filter (\<lambda>c. \<not> isspace c) rest'"
      using filter_spaces [of input] filter_spaces [of rest] no by (simp add: Cons r(2))
    then show ?thesis
      using tail two_digits [OF to_4_bit_digit(1) [OF r(1)] to_4_bit_digit(1) [OF r(3)]] to_4_bit_digit(2) [OF r(1)] to_4_bit_digit(2) [OF r(3)]
      by (simp add: hex_capitals_def r(5))
  qed
qed

lemma decodeHex_text: "decodeHex input = Inr bs \<Longrightarrow> hex_capitals bs = map capital (filter (\<lambda>c. \<not> isspace c) input)"
  by (rule decode16_text) (simp add: decodeHex_def split: list.splits if_splits)

lemma write_cast_value:
  assumes "write_cast ext w (mn, mx) value buf = Inr b" "w = 1 \<or> w = 2 \<or> w = 4"
  shows "\<exists>bs. b = buf @ bs \<and> reads_int ext value w mn mx bs"
proof -
  obtain r where r: "lexical_cast_int64 ext value = Some r" "mn \<le> r" "r \<le> mx"
      "b = writeInt w (nat (r mod 2 ^ (8 * w))) buf"
    using assms(1) by (auto simp: write_cast_def lexicalCastWithRangeCheck_def result_simps split: option.splits if_splits)
  define v where "v = nat (r mod 2 ^ (8 * w))"
  have v: "v < 2 ^ (8 * w)" unfolding v_def by (simp add: nat_less_iff)
  have w16: "readUint16 (writeUint16 x) = Inr x" and w32: "readUint32 (writeUint32 y) = Inr y" for x y
    using readUint16_writeUint16 [of x "[]"] readUint32_writeUint32 [of y "[]"] by simp_all
  have "\<exists>bs. writeInt w v buf = buf @ bs \<and> length bs = w \<and> readInt w bs = Inr v"
    using assms(2) v w16 w32
    by (elim disjE) (simp_all add: writeInt_def readInt_def unat_of_nat)
  with r show ?thesis unfolding reads_int_def v_def by blast
qed

lemma wf_name_data:
  assumes "wf_name ls nm"
  shows "take (getDataLength nm) (drop (hd (offsets nm)) (ndata nm)) = ndata nm" "getDataLength nm > 0"
  using assms by (cases ls; auto simp: getDataLength_def wf_name_def label_offsets_append)+

lemma writeFqdn_value:
  assumes "writeFqdn fqdn buf = Inr b"
  shows "\<exists>nm t bs. b = buf @ bs \<and> Name_from_text fqdn False = Inr nm \<and> Name_toText nm = Inr t \<and> readFqdn bs = Inr t"
proof -
  obtain nm where nm: "Name_from_text fqdn False = Inr nm"
    using assms by (cases "Name_from_text fqdn False") (auto simp: writeFqdn_def catch_isc_def split: if_splits)
  then obtain ls where ls: "wf_name ls nm" using Name_from_text_wf by blast
  then have b: "b = buf @ ndata nm" using assms nm wf_name_data [OF ls] by (simp add: writeFqdn_def)
  have "readFqdn (ndata nm) = Inr (name_text ls)"
    using wf_name_wire [OF ls, of "[]"] wf_name_toText [OF ls] ls by (auto simp: readFqdn_def wf_name_def)
  with b nm wf_name_toText [OF ls] show ?thesis by blast
qed

lemma readAddress_writeAddress: "dt_readAddress (toBytes a) (getFamily a) = Inr a"
  using fromBytes_toBytes [of a "[]"]
  by (cases a) (simp_all add: dt_readAddress_def AF_INET_def AF_INET6_def V4ADDRESS_LEN_def V6ADDRESS_LEN_def length_toBytes
      del: toBytes.simps)

lemma written_address: "address_from_string ext value = Some a \<Longrightarrow> family \<in> {AF_INET, AF_INET6} \<Longrightarrow> reads_address ext value family (toBytes a)"
proof -
  have "getFamily a = family" if "dt_readAddress bs family = Inr a" for bs
    using that by (auto simp: dt_readAddress_def fromBytes_def split: if_splits)
  then show "address_from_string ext value = Some a \<Longrightarrow> family \<in> {AF_INET, AF_INET6} \<Longrightarrow> reads_address ext value family (toBytes a)"
    using readAddress_writeAddress [of a] by (auto simp: reads_address_def simp del: toBytes.simps)
qed

lemma readBool_value: "readBool [if b then 1 else 0] = Inr b"
  by (simp add: readBool_def)

lemma writeToBuffer_value:
  assumes "writeToBuffer ext value type buf = Inr b"
  shows "\<exists>bs. b = buf @ bs \<and> field_value ext value type bs"
proof -
  note wr = assms [unfolded writeToBuffer_def]
  show ?thesis
  proof (cases type)
    case OPT_BINARY_TYPE
    then show ?thesis
      using wr by (auto simp: writeBinary_def catch_isc_def result_simps dest: decodeHex_text split: sum.splits if_splits)
  next
    case OPT_BOOLEAN_TYPE
    then show ?thesis
      using wr by (auto simp: lexicalCastWithRangeCheck_def writeBool_def result_simps readBool_def split: option.splits)
  next
    case OPT_STRING_TYPE
    then show ?thesis using wr by (auto simp: writeString_def readString_def bytes_of_def split: if_splits)
  next
    case OPT_FQDN_TYPE
    then show ?thesis using wr writeFqdn_value by fastforce
  next
    case OPT_IPV4_ADDRESS_TYPE
    then show ?thesis
      using wr written_address
      by (auto simp: IOAddress_text_def dt_writeAddress_def result_simps split: option.splits if_splits)
  next
    case OPT_IPV6_ADDRESS_TYPE
    then show ?thesis
      using wr written_address
      by (auto simp: IOAddress_text_def dt_writeAddress_def result_simps split: option.splits if_splits)
  qed (use wr in \<open>auto dest!: write_cast_value\<close>)
qed

text \<open>C30. A configuration value that is accepted is written behind what the buffer holds, as bytes that the reader of the
  option's type takes for what the text says: an integer within the range of its type (negative ones in two's
  complement), a truth value, a string, a domain name that prints as the parsed name does; for binary data, bytes whose hexadecimal
  digits are those of the text. An address is read back with the family of the option's type, and is the address of the text exactly if
  the text is of that family: the other family is accepted too, and then read as something else or not at all.\<close>

theorem config_field_roundtrip:
  assumes "writeToBuffer ext value type buf = Inr b"
  shows "\<exists>bs. b = buf @ bs \<and> field_value ext value type bs"
  using assms by (rule writeToBuffer_value)

text \<open>Any sequence of whole addresses is read as IPv4 addresses.\<close>

lemma writeUint32_bytes:
  "writeUint32 (push_bit 24 (ucast (b0::u8)) OR push_bit 16 (ucast (b1::u8)) OR push_bit 8 (ucast (b2::u8)) OR ucast (b3::u8)) =
     [b0, b1, b2, b3]"
  unfolding writeUint32_def byte_masks
  by (intro arg_cong2 [where f = Cons] refl; rule bit_word_eqI) (auto simp: bit_simps dest: bit_imp_le_length)

lemma read_addrs4_any:
  "length data mod 4 = 0 \<Longrightarrow> \<exists>ws. read_addrs4 data acc = Inr (acc @ map IPv4 ws) \<and> concat (map writeUint32 ws) = data"
proof (induction data acc rule: read_addrs4.induct)
  case (1 data acc)
  show ?case
  proof (cases "data = []")
    case True
    then show ?thesis by (intro exI [of _ "[]"]) (simp add: read_addrs4.simps)
  next
    case False
    with "1.prems" have len: "4 \<le> length data" by (metis length_0_conv mod_less not_le)
    then obtain b0 b1 b2 b3 d where d: "data = b0 # b1 # b2 # b3 # d" by (auto simp: numeral_eq_Suc Suc_le_length_iff)
    define w :: u32 where "w = push_bit 24 (ucast b0) OR push_bit 16 (ucast b1) OR push_bit 8 (ucast b2) OR ucast b3"
    have r: "readUint32 data = Inr w" "writeUint32 w = [b0, b1, b2, b3]"
      by (simp_all add: readUint32_def d w_def writeUint32_bytes)
    have a: "addAddress4 (IPv4 w) acc = Inr (acc @ [IPv4 w])" by (simp add: addAddress4_def)
    have "length (drop V4ADDRESS_LEN data) mod 4 = 0" using "1.prems" len by (simp add: V4ADDRESS_LEN_def le_mod_geq)
    then obtain ws where "read_addrs4 (drop V4ADDRESS_LEN data) (acc @ [IPv4 w]) = Inr (acc @ [IPv4 w] @ map IPv4 ws)"
        "concat (map writeUint32 ws) = drop V4ADDRESS_LEN data"
      using "1.IH" [OF False r(1) a] by auto
    with False r a show ?thesis
      by (intro exI [of _ "w # ws"]) (simp add: read_addrs4.simps [of "b0 # b1 # b2 # b3 # d"] d V4ADDRESS_LEN_def)
  qed
qed

text \<open>The family of a configured address is not compared with the type of the option: an IPv6 address given for
  an option that holds a list of IPv4 addresses is accepted, and the option then carries four IPv4
  addresses made of its sixteen bytes.\<close>

theorem wrong_family_accepted:
  assumes "def_type d = OPT_IPV4_ADDRESS_TYPE" "array_type d" "0 < type" "type < 255"
    and "address_from_string ext (str_trim value) = Some (IPv6 w)"
  shows "\<exists>ws. optionFactory_values ext defs d UV4 type [value] = Inr (Opt UV4 type [] (PAddrLst4 (map IPv4 ws)) []) \<and>
    length ws = 4 \<and> concat (map writeUint32 ws) = toBytes (IPv6 w)"
proof -
  let ?b = "toBytes (IPv6 w)"
  have len: "length ?b = 16" by (simp add: length_toBytes del: toBytes.simps)
  then obtain ws where ws: "read_addrs4 ?b [] = Inr (map IPv4 ws)" "concat (map writeUint32 ws) = ?b"
    using read_addrs4_any [of ?b "[]"] by (auto simp del: toBytes.simps)
  have "length (concat (map writeUint32 ws)) = length ws * 4" by (induction ws) auto
  then have four: "length ws = 4" using ws(2) len by simp
  have t: "ucast (ucast type :: u8) = type" "\<not> type > 254" "type \<noteq> 0"
    using assms(3,4) by (auto simp: word_less_nat_alt)
  have "write_values ext [(value, OPT_IPV4_ADDRESS_TYPE)] [] = Inr ?b"
    using assms(5) by (simp add: write_values_def writeToBuffer_def IOAddress_text_def dt_writeAddress_def)
  then show ?thesis
    using assms(1,2) ws four t len
    by (auto simp: optionFactory_values_def optionFactory.simps Option4AddrLst_unpack_def mk_Option_empty_def
        V4ADDRESS_LEN_def simp del: toBytes.simps intro!: exI [of _ ws])
qed

text \<open>Conversions for the examples: decimal numbers, dotted quads and one IPv6 address.\<close>

definition example_decimal :: "string \<Rightarrow> nat option" where
  "example_decimal s =
     (if s \<noteq> [] \<and> list_all (\<lambda>c. 48 \<le> (of_char c :: nat) \<and> of_char c \<le> (57 :: nat)) s
      then Some (foldl (\<lambda>n c. n * 10 + (of_char c - 48)) 0 s) else None)"

definition example_address :: "string \<Rightarrow> ioaddress option" where
  "example_address s =
     (if s = ''2001:db8::1'' then Some (IPv6 0x20010db8000000000000000000000001)
      else case map example_decimal (tokens s ''.'') of
        [Some a, Some b, Some c, Some d] \<Rightarrow> Some (IPv4 (word_of_int (((int a * 256 + int b) * 256 + int c) * 256 + int d)))
      | _ \<Rightarrow> None)"

definition example_ext :: externals where
  "example_ext = \<lparr>address_from_string = example_address,
     lexical_cast_int64 = (\<lambda>s. map_option int (example_decimal s)),
     lexical_cast_int = (\<lambda>s. map_option int (example_decimal s)),
     lexical_cast_uint = example_decimal\<rparr>"

definition routers_def :: OptionDefinition where
  "routers_def = mk_OptionDefinition ''routers'' 3 OPT_IPV4_ADDRESS_TYPE True"

theorem config_field_roundtrip_witness:
  "(\<exists>bs. [1, 0x14, 0x4d] = [1] @ bs \<and> field_value example_ext ''5197'' OPT_UINT16_TYPE bs) \<and>
   (\<exists>bs. [0xab, 0x01] = [] @ bs \<and> field_value example_ext ''aB 01'' OPT_BINARY_TYPE bs)"
proof -
  have "writeToBuffer example_ext ''5197'' OPT_UINT16_TYPE [1] = Inr [1, 0x14, 0x4d]"
    "writeToBuffer example_ext ''aB 01'' OPT_BINARY_TYPE [] = Inr [0xab, 0x01]" by code_simp+
  from config_field_roundtrip [OF this(1)] config_field_roundtrip [OF this(2)] show ?thesis by blast
qed

theorem wrong_family_accepted_witness:
  "\<exists>ws. optionFactory_values example_ext [] routers_def UV4 3 ['' 2001:db8::1''] = Inr (Opt UV4 3 [] (PAddrLst4 (map IPv4 ws)) []) \<and>
    length ws = 4 \<and> concat (map writeUint32 ws) = toBytes (IPv6 0x20010db8000000000000000000000001)"
proof -
  have "address_from_string example_ext (str_trim '' 2001:db8::1'') = Some (IPv6 0x20010db8000000000000000000000001)"
    by code_simp
  then show ?thesis
    by (intro wrong_family_accepted) (simp_all add: routers_def_def mk_OptionDefinition_def)
qed

end
