(* ===== verification/Config_Data.thy ===== *)
theory Config_Data
  imports Effects Cfg_Mgr Memfile Option_Text
begin

text \<open>
  The data the configuration parsers work on: the configuration elements and their text
  (\<^verbatim>\<open>src/lib/cc/data.{h,cc}\<close>), the value storages (\<^verbatim>\<open>dhcp_config_parser.h\<close>),
  the containers by option space (\<^verbatim>\<open>option_space_container.h\<close>), the option objects the
  containers share, and the factory of lease databases (\<^verbatim>\<open>lease_mgr_factory.cc\<close>,
  \<^verbatim>\<open>dbaccess_parser.cc\<close>).

  A map element is its list of entries in key order, as \<^verbatim>\<open>std::map\<close> iterates over it; its values
  are never null pointers. How a floating point number is printed (six significant digits, no point
  for an integral value) is not modelled: \<open>EReal\<close>
  carries its text.
\<close>

section \<open>Configuration elements\<close>

datatype Element =
    EInt int
  | EReal string
  | EBool bool
  | ENull
  | EString string
  | EList "Element list"
  | EMap "(string \<times> Element) list"

fun stringValue :: "Element \<Rightarrow> string result" where
  "stringValue (EString s) = Inr s"
| "stringValue _ = Inl TypeError"

fun listValue :: "Element \<Rightarrow> Element list result" where
  "listValue (EList l) = Inr l"
| "listValue _ = Inl TypeError"

fun mapValue :: "Element \<Rightarrow> (string \<times> Element) list result" where
  "mapValue (EMap m) = Inr m"
| "mapValue _ = Inl TypeError"

fun nat_text :: "nat \<Rightarrow> string" where
  "nat_text n = (if n < 10 then [char_of (48 + n)] else nat_text (n div 10) @ [char_of (48 + n mod 10)])"

declare nat_text.simps [simp del]

definition int_text :: "int \<Rightarrow> string" where
  "int_text i = (if i < 0 then CHR ''-'' # nat_text (nat (- i)) else nat_text (nat i))"

definition json_char :: "char \<Rightarrow> string" where
  "json_char c =
     (if c = CHR 0x22 then [CHR 0x5C, c]
      else if c = CHR 0x5C then [CHR 0x5C, c]
      else if c = CHR 0x08 then [CHR 0x5C, CHR ''b'']
      else if c = CHR 0x0C then [CHR 0x5C, CHR ''f'']
      else if c = CHR 0x0A then [CHR 0x5C, CHR ''n'']
      else if c = CHR 0x0D then [CHR 0x5C, CHR ''r'']
      else if c = CHR 0x09 then [CHR 0x5C, CHR ''t'']
      else [c])"

fun str :: "Element \<Rightarrow> string"
  and str_list :: "Element list \<Rightarrow> string"
  and str_map :: "(string \<times> Element) list \<Rightarrow> string" where
  "str (EInt i) = int_text i"
| "str (EReal t) = t"
| "str (EBool b) = (if b then ''true'' else ''false'')"
| "str ENull = ''null''"
| "str (EString s) = [CHR 0x22] @ concat (map json_char s) @ [CHR 0x22]"
| "str (EList l) = ''[ '' @ str_list l @ '' ]''"
| "str (EMap m) = ''{ '' @ str_map m @ '' }''"
| "str_list [] = []"
| "str_list (e # es) = str e @ (if es = [] then [] else '', '' @ str_list es)"
| "str_map [] = []"
| "str_map ((k, e) # m) =
     [CHR 0x22] @ k @ [CHR 0x22] @ '': '' @ str e @ (if m = [] then [] else '', '' @ str_map m)"

section \<open>Storages\<close>

type_synonym 'a ValueStorage = "string \<rightharpoonup> 'a"

definition setParam :: "string \<Rightarrow> 'a \<Rightarrow> 'a ValueStorage \<Rightarrow> 'a ValueStorage" where
  "setParam name value s = s(name \<mapsto> value)"

definition getParam :: "string \<Rightarrow> 'a ValueStorage \<Rightarrow> 'a result" where
  "getParam name s = (case s name of None \<Rightarrow> Inl DhcpConfigError | Some v \<Rightarrow> Inr v)"

text \<open>A container by option space that is iterated over: the entries in the order of their names.\<close>

type_synonym 'a spaces = "(string \<times> 'a list) list"

definition sp_getItems :: "string \<Rightarrow> 'a spaces \<Rightarrow> 'a list" where
  "sp_getItems option_space m = (case map_of m option_space of None \<Rightarrow> [] | Some items \<Rightarrow> items)"

fun char_codes_less :: "string \<Rightarrow> string \<Rightarrow> bool" where
  "char_codes_less _ [] \<longleftrightarrow> False"
| "char_codes_less [] (_ # _) \<longleftrightarrow> True"
| "char_codes_less (a # as) (b # bs) \<longleftrightarrow>
     (of_char a :: nat) < of_char b \<or> a = b \<and> char_codes_less as bs"

fun sp_set :: "string \<Rightarrow> 'b \<Rightarrow> (string \<times> 'b) list \<Rightarrow> (string \<times> 'b) list" where
  "sp_set k v [] = [(k, v)]"
| "sp_set k v ((k', v') # m) =
     (if k = k' then (k, v) # m
      else if char_codes_less k k' then (k, v) # (k', v') # m
      else (k', v') # sp_set k v m)"

definition sp_addItem :: "'a \<Rightarrow> string \<Rightarrow> 'a spaces \<Rightarrow> 'a spaces" where
  "sp_addItem item option_space m = sp_set option_space (sp_getItems option_space m @ [item]) m"

definition getOptionSpaceNames :: "'a spaces \<Rightarrow> string list" where
  "getOptionSpaceNames m = map fst m"

section \<open>Option objects\<close>

text \<open>
  The containers hold shared pointers, and an option gets sub-options after it was stored. An object is an
  option, with the sub-options it was parsed with, and the pointers to the objects that were added to
  it; a pointer is a position in the list of all objects.
\<close>

datatype child = Own opt | Shared nat

record obj =
  ob_option :: opt
  ob_children :: "(u16 \<times> child) list"

type_synonym heap = "obj list"

definition new_obj :: "opt \<Rightarrow> heap \<Rightarrow> nat \<times> heap" where
  "new_obj o1 h =
     (length h, h @ [\<lparr>ob_option = Opt (universe o1) (otype o1) (odata o1) (opayload o1) [],
                      ob_children = map (\<lambda>(t, x). (t, Own x)) (suboptions o1)\<rparr>])"

abbreviation obj_type :: "heap \<Rightarrow> nat \<Rightarrow> u16" where
  "obj_type h r \<equiv> otype (ob_option (h ! r))"

text \<open>\<^verbatim>\<open>Option::addOption\<close> on an object.\<close>

definition obj_addOption :: "nat \<Rightarrow> nat \<Rightarrow> heap \<Rightarrow> heap result" where
  "obj_addOption r sub h =
     (let t = obj_type h sub in
      if universe (ob_option (h ! r)) = UV4 \<and> map_of (ob_children (h ! r)) t \<noteq> None then Inl BadValue
      else Inr (h[r := (h ! r)\<lparr>ob_children := mm_insert t (Shared sub) (ob_children (h ! r))\<rparr>]))"

text \<open>The option tree that an object stands for, by the pointers to its sub-options; \<open>None\<close> when there is none of
  at most \<open>fuel\<close> levels. No function of the code does this: it links the objects of the configuration to the
  options that \<^verbatim>\<open>pack\<close> and \<^verbatim>\<open>len\<close> recurse over.\<close>

fun load_opt :: "nat \<Rightarrow> heap \<Rightarrow> nat \<Rightarrow> opt option" where
  "load_opt 0 h r = None"
| "load_opt (Suc fuel) h r =
     (let ob = h ! r;
          subs = map (\<lambda>(t, c). case c of Own x \<Rightarrow> Some (t, x)
                                | Shared r' \<Rightarrow> map_option (Pair t) (load_opt fuel h r')) (ob_children ob)
      in if None \<in> set subs then None
         else Some (Opt (universe (ob_option ob)) (otype (ob_option ob)) (odata (ob_option ob)) (opayload (ob_option ob))
                      (map the subs)))"

section \<open>The lease database factory\<close>

text \<open>\<^verbatim>\<open>boost::split\<close> with \<^verbatim>\<open>is_any_of\<close>: adjacent separators make empty tokens.\<close>

fun split_any :: "string \<Rightarrow> string \<Rightarrow> string list" where
  "split_any seps [] = [[]]"
| "split_any seps (c # cs) =
     (if c \<in> set seps then [] # split_any seps cs
      else case split_any seps cs of t # ts \<Rightarrow> (c # t) # ts | [] \<Rightarrow> [[c]])"

definition parse_token :: "string \<Rightarrow> (string \<times> string) result" where
  "parse_token token =
     (if CHR ''='' \<in> set token
      then Inr (takeWhile (\<lambda>c. c \<noteq> CHR ''='') token, tl (dropWhile (\<lambda>c. c \<noteq> CHR ''='') token))
      else Inl InvalidParameter)"

text \<open>\<^verbatim>\<open>std::map::insert\<close> keeps the first value of a name.\<close>

definition LeaseMgrFactory_parse :: "string \<Rightarrow> (string \<rightharpoonup> string) result" where
  "LeaseMgrFactory_parse dbaccess =
     (if dbaccess = [] then Inr Map.empty
      else foldE (\<lambda>token m. bindE (parse_token token) (\<lambda>(name, value).
             Inr (if m name = None then m(name \<mapsto> value) else m)))
           (split_any [CHR 0x09, CHR '' ''] dbaccess) Map.empty)"

text \<open>A build without MySQL: the in-memory database is the only one.\<close>

definition LeaseMgrFactory_create :: "string \<Rightarrow> (Memfile_LeaseMgr option, unit) eff" where
  "LeaseMgrFactory_create dbaccess =
     bindS (liftS (LeaseMgrFactory_parse dbaccess)) (\<lambda>parameters.
       case parameters ''type'' of
         None \<Rightarrow> throwS InvalidParameter
       | Some t \<Rightarrow>
           if t = ''memfile'' then modS (\<lambda>_. Some mk_Memfile)
           else throwS InvalidType)"

definition LeaseMgrFactory_destroy :: "(Memfile_LeaseMgr option, unit) eff" where
  "LeaseMgrFactory_destroy = modS (\<lambda>_. None)"

definition LeaseMgrFactory_instance :: "(Memfile_LeaseMgr option, Memfile_LeaseMgr) eff" where
  "LeaseMgrFactory_instance = askS (\<lambda>p. case p of None \<Rightarrow> Inl NoLeaseManager | Some m \<Rightarrow> Inr m)"

text \<open>A parser object lives for one configuration, so \<^verbatim>\<open>values_\<close> is empty before \<^verbatim>\<open>build\<close>.\<close>

definition DbAccessParser_build :: "Element \<Rightarrow> (string \<times> string) list result" where
  "DbAccessParser_build config_value =
     bindE (mapValue config_value) (\<lambda>m.
     bindE (mapE (\<lambda>(k, e). bindE (stringValue e) (\<lambda>v. Inr (k, v))) m) (\<lambda>values.
       case map_of values ''type'' of
         None \<Rightarrow> Inl TypeKeywordMissing
       | Some dbtype \<Rightarrow>
           if dbtype \<noteq> ''memfile'' \<and> dbtype \<noteq> ''mysql'' then Inl BadValue else Inr values))"

definition getDbAccessString :: "(string \<times> string) list \<Rightarrow> string" where
  "getDbAccessString values =
     foldl (\<lambda>dbaccess (k, v).
       if v = [] then dbaccess
       else (if dbaccess = [] then [] else dbaccess @ '' '') @ k @ ''='' @ v) [] values"

definition DbAccessParser_commit :: "(string \<times> string) list \<Rightarrow> (Memfile_LeaseMgr option, unit) eff" where
  "DbAccessParser_commit values =
     thenS LeaseMgrFactory_destroy (LeaseMgrFactory_create (getDbAccessString values))"

end
