(* ===== verification/Json.thy ===== *)
theory Json
  imports Config_Data
begin

text \<open>
  The JSON parser and the operations on configuration elements of \<^verbatim>\<open>src/lib/cc/data.{h,cc}\<close>. The stream is
  the list of characters still to be read; line and column, which only appear in error messages, are not
  kept. \<open>strtod\<close> is a parameter: the text of the double that the C library reads from a number, or
  \<open>None\<close> when it does not read all of it or overflows. A character is put back on the stream also when its
  end was seen, as since C++11.
\<close>

section \<open>Characters\<close>

definition WHITESPACE :: string where
  "WHITESPACE = [CHR '' '', CHR 0x08, CHR 0x0C, CHR 0x0A, CHR 0x0D, CHR 0x09]"

definition skipChars :: "string \<Rightarrow> string \<Rightarrow> string" where
  "skipChars inp chars = dropWhile (\<lambda>c. c \<in> set chars) inp"

fun skipTo :: "string \<Rightarrow> string \<Rightarrow> string \<Rightarrow> string result" where
  "skipTo [] chars may_skip = Inl JSONError"
| "skipTo (c # inp) chars may_skip =
     (if c \<in> set may_skip then skipTo inp chars may_skip
      else if c \<in> set chars then Inr (c # dropWhile (\<lambda>x. x \<in> set may_skip) inp)
      else Inl JSONError)"

definition unescape :: "char \<Rightarrow> char option" where
  "unescape c =
     (if c = CHR 0x22 then Some (CHR 0x22)
      else if c = CHR ''/'' then Some (CHR ''/'')
      else if c = CHR 0x5C then Some (CHR 0x5C)
      else if c = CHR ''b'' then Some (CHR 0x08)
      else if c = CHR ''f'' then Some (CHR 0x0C)
      else if c = CHR ''n'' then Some (CHR 0x0A)
      else if c = CHR ''r'' then Some (CHR 0x0D)
      else if c = CHR ''t'' then Some (CHR 0x09)
      else None)"

fun string_chars :: "string \<Rightarrow> (string \<times> string) result" where
  "string_chars [] = Inl JSONError"
| "string_chars (c # inp) =
     (if c = CHR 0x22 then Inr ([], inp)
      else if c = CHR 0x5C then
        (case inp of
           [] \<Rightarrow> Inl JSONError
         | e # rest \<Rightarrow>
             (case unescape e of
                None \<Rightarrow> Inl JSONError
              | Some d \<Rightarrow> bindE (string_chars rest) (\<lambda>(s, r). Inr (d # s, r))))
      else bindE (string_chars inp) (\<lambda>(s, r). Inr (c # s, r)))"

definition strFromStringstream :: "string \<Rightarrow> (string \<times> string) result" where
  "strFromStringstream inp =
     (case inp of
        [] \<Rightarrow> Inl JSONError
      | c # rest \<Rightarrow> if c = CHR 0x22 then string_chars rest else Inl JSONError)"

section \<open>Words and numbers\<close>

definition is_digit :: "char \<Rightarrow> bool" where
  "is_digit c \<longleftrightarrow> c \<in> set ''0123456789''"

definition isalpha :: "char \<Rightarrow> bool" where
  "isalpha c \<longleftrightarrow> c \<in> set ''abcdefghijklmnopqrstuvwxyzABCDEFGHIJKLMNOPQRSTUVWXYZ''"

definition wordFromStringstream :: "string \<Rightarrow> string \<times> string" where
  "wordFromStringstream inp = (takeWhile isalpha inp, dropWhile isalpha inp)"

definition number_char :: "char \<Rightarrow> bool" where
  "number_char c \<longleftrightarrow> is_digit c \<or> c \<in> set ''+-.eE''"

definition numberFromStringstream :: "string \<Rightarrow> string \<times> string" where
  "numberFromStringstream inp = (takeWhile number_char inp, dropWhile number_char inp)"

definition LONG_MAX :: int where "LONG_MAX = 9223372036854775807"
definition LONG_MIN :: int where "LONG_MIN = - 9223372036854775808"

text \<open>\<^verbatim>\<open>strtol\<close> in base 10 on a text without spaces: the value and what is left at \<^verbatim>\<open>endptr\<close>.\<close>

definition digits_value :: "string \<Rightarrow> int" where
  "digits_value ds = foldl (\<lambda>n c. n * 10 + (of_char c - 48)) 0 ds"

definition strtol :: "string \<Rightarrow> int \<times> string" where
  "strtol s =
     (let unsigned = (case s of c # r \<Rightarrow> if c = CHR ''-'' \<or> c = CHR ''+'' then r else s | [] \<Rightarrow> []);
          ds = takeWhile is_digit unsigned
      in if ds = [] then (0, s)
         else let v = (if hd s = CHR ''-'' then - digits_value ds else digits_value ds)
              in (max LONG_MIN (min LONG_MAX v), dropWhile is_digit unsigned))"

definition fromStringstreamNumber :: "(string \<Rightarrow> string option) \<Rightarrow> string \<Rightarrow> (Element \<times> string) result" where
  "fromStringstreamNumber strtod inp =
     (case numberFromStringstream inp of (number, rest) \<Rightarrow>
        case strtol number of (i, endptr) \<Rightarrow>
          if endptr \<noteq> [] then
            (case strtod number of None \<Rightarrow> Inl JSONError | Some d \<Rightarrow> Inr (EReal d, rest))
          else if i = LONG_MAX \<or> i = LONG_MIN then Inl JSONError
          else Inr (EInt i, rest))"

definition to_lower :: "char \<Rightarrow> char" where
  "to_lower c = (if of_char c \<in> {65..90 :: nat} then char_of (of_char c + 32 :: nat) else c)"

definition iequals :: "string \<Rightarrow> string \<Rightarrow> bool" where
  "iequals a b \<longleftrightarrow> map to_lower a = map to_lower b"

definition fromStringstreamBool :: "string \<Rightarrow> (Element \<times> string) result" where
  "fromStringstreamBool inp =
     (case wordFromStringstream inp of (word, rest) \<Rightarrow>
        if iequals word ''True'' then Inr (EBool True, rest)
        else if iequals word ''False'' then Inr (EBool False, rest)
        else Inl JSONError)"

definition fromStringstreamNull :: "string \<Rightarrow> (Element \<times> string) result" where
  "fromStringstreamNull inp =
     (case wordFromStringstream inp of (word, rest) \<Rightarrow>
        if iequals word ''null'' then Inr (ENull, rest) else Inl JSONError)"

section \<open>Elements\<close>

definition MapElement_set :: "string \<Rightarrow> 'v \<Rightarrow> (string \<times> 'v) list \<Rightarrow> (string \<times> 'v) list" where
  "MapElement_set key value m = sp_set key value m"

text \<open>The three functions call each other; \<open>fuel\<close> bounds the depth and the length of what is read.\<close>

fun fromJSON :: "(string \<Rightarrow> string option) \<Rightarrow> nat \<Rightarrow> string \<Rightarrow> (Element \<times> string) result"
  and list_elements :: "(string \<Rightarrow> string option) \<Rightarrow> nat \<Rightarrow> string \<Rightarrow> (Element list \<times> string) result"
  and map_entries :: "(string \<Rightarrow> string option) \<Rightarrow> nat \<Rightarrow> string \<Rightarrow> (string \<times> Element) list \<Rightarrow>
    ((string \<times> Element) list \<times> string) result" where
  "fromJSON strtod 0 inp = Inl OutOfFuel"
| "fromJSON strtod (Suc fuel) inp =
     (case skipChars inp WHITESPACE of
        [] \<Rightarrow> Inl JSONError
      | c # rest \<Rightarrow>
          if c \<in> set ''1234567890-+.'' then fromStringstreamNumber strtod (c # rest)
          else if c \<in> set ''tTfF'' then fromStringstreamBool (c # rest)
          else if c \<in> set ''nN'' then fromStringstreamNull (c # rest)
          else if c = CHR 0x22 then
            bindE (strFromStringstream (c # rest)) (\<lambda>(s, r). Inr (EString s, r))
          else if c = CHR ''['' then
            bindE (list_elements strtod fuel (skipChars rest WHITESPACE)) (\<lambda>(l, r). Inr (EList l, r))
          else if c = CHR ''{'' then
            (case skipChars rest WHITESPACE of
               [] \<Rightarrow> Inl JSONError
             | d # r \<Rightarrow>
                 if d = CHR ''}'' then Inr (EMap [], r)
                 else bindE (map_entries strtod fuel (d # r) []) (\<lambda>(m, r). Inr (EMap m, r)))
          else Inl JSONError)"
| "list_elements strtod 0 inp = Inl OutOfFuel"
| "list_elements strtod (Suc fuel) inp =
     (if inp \<noteq> [] \<and> hd inp = CHR '']'' then Inr ([], tl inp)
      else bindE (fromJSON strtod fuel inp) (\<lambda>(e, r).
           bindE (skipTo r '',]'' WHITESPACE) (\<lambda>r.
             if hd r = CHR '']'' then Inr ([e], tl r)
             else bindE (list_elements strtod fuel (tl r)) (\<lambda>(l, r). Inr (e # l, r)))))"
| "map_entries strtod 0 inp m = Inl OutOfFuel"
| "map_entries strtod (Suc fuel) inp m =
     bindE (strFromStringstream inp) (\<lambda>(key, r).
     bindE (skipTo r '':'' WHITESPACE) (\<lambda>r.
     bindE (fromJSON strtod fuel (tl r)) (\<lambda>(value, r).
     bindE (skipTo r '',}'' WHITESPACE) (\<lambda>r.
       let m = MapElement_set key value m in
       if hd r = CHR ''}'' then Inr (m, tl r) else map_entries strtod fuel (tl r) m))))"

definition fromJSON_text :: "(string \<Rightarrow> string option) \<Rightarrow> string \<Rightarrow> Element result" where
  "fromJSON_text strtod inp =
     bindE (fromJSON strtod (2 * length inp + 1) inp) (\<lambda>(result, r).
       if skipChars r WHITESPACE \<noteq> [] then Inl JSONError else Inr result)"

section \<open>Operations\<close>

definition contains :: "string \<Rightarrow> Element \<Rightarrow> bool result" where
  "contains s e = bindE (mapValue e) (\<lambda>m. Inr (map_of m s \<noteq> None))"

text \<open>
  Comparison, difference and merge. Two doubles are compared by the text that stands for them. The second of the
  functions named \<^verbatim>\<open>removeIdentical\<close> changes its argument, here \<open>removeIdentical_in\<close>.
\<close>

text \<open>\<^verbatim>\<open>get\<close> and \<^verbatim>\<open>find\<close> return a null pointer, here \<open>None\<close>, for a missing key.\<close>

lemma shorter_path:
  assumes "CHR ''/'' \<in> set path"
  shows "length (tl (dropWhile (\<lambda>c. c \<noteq> CHR ''/'') path)) < length path"
proof -
  have "dropWhile (\<lambda>c. c \<noteq> CHR ''/'') path \<noteq> []" using assms by (auto simp: dropWhile_eq_Nil_conv)
  then have "length (tl (dropWhile (\<lambda>c. c \<noteq> CHR ''/'') path)) < length (dropWhile (\<lambda>c. c \<noteq> CHR ''/'') path)"
    by (cases "dropWhile (\<lambda>c. c \<noteq> CHR ''/'') path") auto
  then show ?thesis using length_dropWhile_le [of "\<lambda>c. c \<noteq> CHR ''/''" path] by linarith
qed

function find_path :: "Element \<Rightarrow> string \<Rightarrow> Element option result" where
  "find_path e path =
     bindE (mapValue e) (\<lambda>m.
       if CHR ''/'' \<notin> set path then Inr (map_of m path)
       else case map_of m (takeWhile (\<lambda>c. c \<noteq> CHR ''/'') path) of
         None \<Rightarrow> Inr None
       | Some ce \<Rightarrow>
           if tl (dropWhile (\<lambda>c. c \<noteq> CHR ''/'') path) \<noteq> [] then find_path ce (tl (dropWhile (\<lambda>c. c \<noteq> CHR ''/'') path))
           else Inr (Some ce))"
  by pat_completeness auto
termination
  by (relation "measure (\<lambda>(_, path). length path)") (simp_all add: shorter_path del: length_tl)

fun el_equals :: "Element \<Rightarrow> Element \<Rightarrow> bool" where
  "el_equals (EInt i) e \<longleftrightarrow> (case e of EInt j \<Rightarrow> i = j | _ \<Rightarrow> False)"
| "el_equals (EReal d) e \<longleftrightarrow> (case e of EReal d' \<Rightarrow> d = d' | _ \<Rightarrow> False)"
| "el_equals (EBool b) e \<longleftrightarrow> (case e of EBool b' \<Rightarrow> b = b' | _ \<Rightarrow> False)"
| "el_equals ENull e \<longleftrightarrow> (case e of ENull \<Rightarrow> True | _ \<Rightarrow> False)"
| "el_equals (EString s) e \<longleftrightarrow> (case e of EString s' \<Rightarrow> s = s' | _ \<Rightarrow> False)"
| "el_equals (EList l) e \<longleftrightarrow>
     (case e of EList l' \<Rightarrow> list_all2 (\<lambda>x y. el_equals x y) l l' | _ \<Rightarrow> False)"
| "el_equals (EMap m) e \<longleftrightarrow>
     (case e of
        EMap m' \<Rightarrow>
          list_all (\<lambda>(k, v). case map_of m' k of None \<Rightarrow> False | Some w \<Rightarrow> el_equals v w) m \<and>
          list_all (\<lambda>(k, _). map_of m k \<noteq> None) m'
      | _ \<Rightarrow> False)"

definition remove_key :: "string \<Rightarrow> (string \<times> 'v) list \<Rightarrow> (string \<times> 'v) list" where
  "remove_key s m = filter (\<lambda>(k, _). k \<noteq> s) m"

definition removeIdentical :: "Element \<Rightarrow> Element option \<Rightarrow> Element result" where
  "removeIdentical a b =
     (case b of
        None \<Rightarrow> Inr (EMap [])
      | Some b \<Rightarrow>
          bindE (mapValue a) (\<lambda>m. bindE (mapValue b) (\<lambda>m'.
            Inr (EMap (fold (\<lambda>(k, v) result.
              case map_of m' k of
                None \<Rightarrow> MapElement_set k v result
              | Some w \<Rightarrow> if \<not> el_equals v w then MapElement_set k v result else result) m [])))))"

definition removeIdentical_in :: "Element \<Rightarrow> Element option \<Rightarrow> Element result" where
  "removeIdentical_in a b =
     (case b of
        None \<Rightarrow> Inr a
      | Some b \<Rightarrow>
          bindE (mapValue a) (\<lambda>m. bindE (mapValue b) (\<lambda>m'.
            Inr (EMap (fold (\<lambda>(k, w) a.
              case map_of a k of
                None \<Rightarrow> a
              | Some v \<Rightarrow> if el_equals v w then remove_key k a else a) m' m)))))"

text \<open>The map that is merged into may hold null pointers: \<open>ptr\<close> is how it holds an element.\<close>

definition merge_entry :: "(Element \<Rightarrow> 'v) \<Rightarrow> string \<times> Element \<Rightarrow> (string \<times> 'v) list \<Rightarrow> (string \<times> 'v) list" where
  "merge_entry ptr p element =
     (case p of (k, v) \<Rightarrow>
        if v \<noteq> ENull then MapElement_set k (ptr v) element
        else if map_of element k \<noteq> None then remove_key k element
        else element)"

definition el_merge :: "Element \<Rightarrow> Element \<Rightarrow> Element result" where
  "el_merge element other =
     bindE (mapValue element) (\<lambda>m. bindE (mapValue other) (\<lambda>m'. Inr (EMap (fold (merge_entry id) m' m))))"

end
