(* ===== verification/Json_Roundtrip.thy ===== *)
theory Json_Roundtrip
  imports Json
begin

text \<open>
  The JSON parser ends on every text, and reads back what the elements print, unless a key of a map has
  to be escaped, which the printer does not do.
\<close>

section \<open>The parser ends\<close>

declare fromJSON.simps [simp del] list_elements.simps [simp del] map_entries.simps [simp del]

lemma skipTo_Inr:
  "skipTo inp chars ms = Inr r \<Longrightarrow> \<exists>c r'. r = c # r' \<and> c \<in> set chars \<and> length r' < length inp"
proof (induction inp chars ms rule: skipTo.induct)
  case (2 c inp chars ms)
  then show ?case
    by (auto split: if_splits intro: le_imp_less_Suc length_dropWhile_le)
qed simp

lemma skipTo_error: "skipTo inp chars ms = Inl e \<Longrightarrow> e = JSONError"
  by (induction inp chars ms rule: skipTo.induct) (auto split: if_splits)

lemma string_chars_shorter: "string_chars inp = Inr (s, r) \<Longrightarrow> length r < length inp"
proof (induction inp arbitrary: s r rule: string_chars.induct)
  case (2 c inp)
  then show ?case
    by (auto simp: result_simps split: if_splits list.splits option.splits; fastforce)
qed simp

lemma string_chars_error: "string_chars inp = Inl e \<Longrightarrow> e = JSONError"
  by (induction inp arbitrary: e rule: string_chars.induct)
    (auto simp: result_simps split: if_splits list.splits option.splits)

lemma strFrom_shorter: "strFromStringstream inp = Inr (s, r) \<Longrightarrow> length r < length inp"
  by (auto simp: strFromStringstream_def dest: string_chars_shorter split: list.splits if_splits)

lemma strFrom_error: "strFromStringstream inp = Inl e \<Longrightarrow> e = JSONError"
  by (auto simp: strFromStringstream_def dest: string_chars_error split: list.splits if_splits)

lemma skipChars_le: "length (skipChars inp cs) \<le> length inp"
  by (simp add: skipChars_def length_dropWhile_le)

lemma number_shorter:
  assumes "fromStringstreamNumber strtod (c # inp) = Inr (e, r)" "number_char c"
  shows "length r < length (c # inp)"
  using assms length_dropWhile_le [of number_char inp]
  by (auto simp: fromStringstreamNumber_def numberFromStringstream_def split: prod.splits if_splits option.splits)

lemma word_shorter:
  assumes "isalpha c"
  shows "fromStringstreamBool (c # inp) = Inr (e, r) \<Longrightarrow> length r < length (c # inp)"
    "fromStringstreamNull (c # inp) = Inr (e, r) \<Longrightarrow> length r < length (c # inp)"
  using assms length_dropWhile_le [of isalpha inp]
  by (auto simp: fromStringstreamBool_def fromStringstreamNull_def wordFromStringstream_def split: if_splits)

lemma leaf_error:
  "fromStringstreamNumber strtod inp = Inl e \<Longrightarrow> e = JSONError"
  "fromStringstreamBool inp = Inl e \<Longrightarrow> e = JSONError"
  "fromStringstreamNull inp = Inl e \<Longrightarrow> e = JSONError"
  by (auto simp: fromStringstreamNumber_def fromStringstreamBool_def fromStringstreamNull_def
      split: prod.splits if_splits option.splits)

lemma first_chars: "c \<in> set ''1234567890-+.'' \<Longrightarrow> number_char c" "c \<in> set ''tTfF'' \<Longrightarrow> isalpha c" "c \<in> set ''nN'' \<Longrightarrow> isalpha c"
  by (auto simp: number_char_def is_digit_def isalpha_def)

text \<open>The value read, by its first character.\<close>

lemma fromJSON_cases [case_names number boolean null string list map other]:
  assumes "skipChars inp WHITESPACE = c # rest"
  obtains "c \<in> set ''1234567890-+.''" "fromJSON strtod (Suc n) inp = fromStringstreamNumber strtod (c # rest)"
  | "c \<in> set ''tTfF''" "fromJSON strtod (Suc n) inp = fromStringstreamBool (c # rest)"
  | "c \<in> set ''nN''" "fromJSON strtod (Suc n) inp = fromStringstreamNull (c # rest)"
  | "c = CHR 0x22" "fromJSON strtod (Suc n) inp = bindE (strFromStringstream (c # rest)) (\<lambda>(s, r). Inr (EString s, r))"
  | "c = CHR ''[''" "fromJSON strtod (Suc n) inp =
       bindE (list_elements strtod n (skipChars rest WHITESPACE)) (\<lambda>(l, r). Inr (EList l, r))"
  | "c = CHR ''{''" "fromJSON strtod (Suc n) inp =
       (case skipChars rest WHITESPACE of
          [] \<Rightarrow> Inl JSONError
        | d # r \<Rightarrow>
            if d = CHR ''}'' then Inr (EMap [], r)
            else bindE (map_entries strtod n (d # r) []) (\<lambda>(m, r). Inr (EMap m, r)))"
  | "fromJSON strtod (Suc n) inp = Inl JSONError"
proof -
  note eq = fromJSON.simps(2) [of strtod n inp, unfolded assms list.case]
  consider "c \<in> set ''1234567890-+.''" | "c \<notin> set ''1234567890-+.''" "c \<in> set ''tTfF''"
    | "c \<notin> set ''1234567890-+.''" "c \<notin> set ''tTfF''" "c \<in> set ''nN''"
    | "c = CHR 0x22" | "c = CHR ''[''" | "c = CHR ''{''"
    | "c \<notin> set ''1234567890-+.''" "c \<notin> set ''tTfF''" "c \<notin> set ''nN''" "c \<noteq> CHR 0x22" "c \<noteq> CHR ''[''" "c \<noteq> CHR ''{''"
    by blast
  then show ?thesis
  proof cases
    case 1
    then show ?thesis using that(1) eq by (simp only: if_True)
  next
    case 2
    then show ?thesis using that(2) eq by (simp only: if_True if_False)
  next
    case 3
    then show ?thesis using that(3) eq by (simp only: if_True if_False)
  next
    case 4
    then show ?thesis using that(4) eq by simp
  next
    case 5
    then show ?thesis using that(5) eq by simp
  next
    case 6
    then show ?thesis using that(6) eq by simp
  next
    case 7
    then show ?thesis using that(7) eq by (simp only: if_False)
  qed
qed

text \<open>What is read is a proper part of the stream.\<close>

lemma read_shorter:
  "fromJSON strtod n inp = Inr (e, r) \<Longrightarrow> length r < length inp"
  "list_elements strtod n inp = Inr (l, r) \<Longrightarrow> length r < length inp"
  "map_entries strtod n inp m = Inr (m', r) \<Longrightarrow> length r < length inp"
proof (induction strtod n inp and strtod n inp and strtod n inp m arbitrary: e r and l r and m' r
    rule: fromJSON_list_elements_map_entries.induct)
  case (2 strtod n inp)
  then obtain c rest where c: "skipChars inp WHITESPACE = c # rest"
    by (cases "skipChars inp WHITESPACE") (auto simp: fromJSON.simps)
  have le: "length (c # rest) \<le> length inp" using skipChars_le [of inp WHITESPACE] c by simp
  have "length r < length (c # rest)"
    using c
  proof (cases rule: fromJSON_cases [where strtod = strtod and n = n])
    case list
    obtain l where "list_elements strtod n (skipChars rest WHITESPACE) = Inr (l, r)"
      using 2(3) unfolding list(2) by (auto simp: result_simps)
    then have "length r < length (skipChars rest WHITESPACE)" using 2(1) [OF c] list(1) by simp
    then show ?thesis using skipChars_le [of rest WHITESPACE] by simp
  next
    case map
    obtain d r' where d: "skipChars rest WHITESPACE = d # r'"
      "(if d = CHR ''}'' then Inr (EMap [], r') else bindE (map_entries strtod n (d # r') []) (\<lambda>(m, r). Inr (EMap m, r))) = Inr (e, r)"
      using 2(3) unfolding map(2) by (auto split: list.splits)
    then have "length r < length (d # r')"
      using 2(2) [OF c] map(1) by (auto simp: result_simps split: if_splits)
    then show ?thesis using skipChars_le [of rest WHITESPACE] d(1) by simp
  next
    case number
    then show ?thesis using 2(3) number_shorter [OF _ first_chars(1)] by metis
  next
    case boolean
    then show ?thesis using 2(3) word_shorter(1) [OF first_chars(2)] by metis
  next
    case null
    then show ?thesis using 2(3) word_shorter(2) [OF first_chars(3)] by metis
  next
    case string
    then obtain s where "strFromStringstream (c # rest) = Inr (s, r)"
      using 2(3) unfolding string(2) by (auto simp: result_simps)
    then show ?thesis by (rule strFrom_shorter)
  next
    case other
    then show ?thesis using 2(3) by simp
  qed
  with le show ?case by simp
next
  case (4 strtod n inp)
  show ?case
  proof (cases "inp \<noteq> [] \<and> hd inp = CHR '']''")
    case True
    then show ?thesis using 4(3) by (cases inp) (auto simp: list_elements.simps)
  next
    case False
    with 4(3) obtain x r1 r2 where x: "fromJSON strtod n inp = Inr (x, r1)" "skipTo r1 '',]'' WHITESPACE = Inr r2"
      and l: "(if hd r2 = CHR '']'' then Inr ([x], tl r2)
             else bindE (list_elements strtod n (tl r2)) (\<lambda>(l, r). Inr (x # l, r))) = Inr (l, r)"
      by (auto simp: list_elements.simps result_simps)
    have "length (tl r2) < length r1" using skipTo_Inr [OF x(2)] by auto
    moreover have "length r1 < length inp" using 4(1) [OF False x(1)] .
    moreover have "length r \<le> length (tl r2)"
      using l 4(2) [OF False x(1) refl x(2)] by (auto simp: result_simps split: if_splits dest: less_imp_le)
    ultimately show ?thesis by simp
  qed
next
  case (6 strtod n inp m)
  from 6(3) obtain key r1 r2 v r3 r4 where k: "strFromStringstream inp = Inr (key, r1)"
    "skipTo r1 '':'' WHITESPACE = Inr r2" "fromJSON strtod n (tl r2) = Inr (v, r3)" "skipTo r3 '',}'' WHITESPACE = Inr r4"
    and l: "(let m = MapElement_set key v m in if hd r4 = CHR ''}'' then Inr (m, tl r4) else map_entries strtod n (tl r4) m) = Inr (m', r)"
    by (auto simp: map_entries.simps result_simps)
  have "length r \<le> length (tl r4)"
    using l 6(2) [OF k(1) refl k(2) k(3) refl k(4) refl] by (auto simp: Let_def split: if_splits dest: less_imp_le)
  moreover have "length (tl r4) < length r3" "length (tl r2) < length r1" using skipTo_Inr [OF k(4)] skipTo_Inr [OF k(2)] by auto
  moreover have "length r3 < length (tl r2)" using 6(1) [OF k(1) refl k(2) k(3)] .
  moreover have "length r1 < length inp" using strFrom_shorter [OF k(1)] .
  ultimately show ?case by simp
qed (simp_all add: fromJSON.simps list_elements.simps map_entries.simps)

text \<open>Two units of fuel for every character are enough; the only error is then \<open>JSONError\<close>.\<close>

lemma read_ends:
  "2 * length inp < n \<Longrightarrow> fromJSON strtod n inp = Inl e \<Longrightarrow> e = JSONError"
  "2 * length inp + 1 < n \<Longrightarrow> list_elements strtod n inp = Inl e \<Longrightarrow> e = JSONError"
  "2 * length inp < n \<Longrightarrow> map_entries strtod n inp m = Inl e \<Longrightarrow> e = JSONError"
proof (induction strtod n inp and strtod n inp and strtod n inp m arbitrary: e and e and e
    rule: fromJSON_list_elements_map_entries.induct)
  case (2 strtod n inp)
  show ?case
  proof (cases "skipChars inp WHITESPACE")
    case Nil
    then show ?thesis using 2(4) by (simp add: fromJSON.simps)
  next
    case c: (Cons c rest)
    have le: "length (c # rest) \<le> length inp" "length (skipChars rest WHITESPACE) \<le> length rest"
      using skipChars_le [of inp WHITESPACE] skipChars_le [of rest WHITESPACE] c by simp_all
    show ?thesis
      using c
    proof (cases rule: fromJSON_cases [where strtod = strtod and n = n])
      case list
      have "2 * length (skipChars rest WHITESPACE) + 1 < n" using le 2(3) by simp
      then show ?thesis using 2(1) [OF c] list(1) 2(4) unfolding list(2) by (auto simp: result_simps)
    next
      case map
      have "skipChars rest WHITESPACE = d # r' \<Longrightarrow> d \<noteq> CHR ''}'' \<Longrightarrow> map_entries strtod n (d # r') [] = Inl e \<Longrightarrow> e = JSONError" for d r'
        using 2(2) [OF c] le 2(3) map(1) by simp
      then show ?thesis using 2(4) unfolding map(2) by (auto simp: result_simps split: list.splits if_splits)
    next
      case string
      then show ?thesis using 2(4) unfolding string(2) by (auto simp: result_simps dest: strFrom_error)
    qed (use 2(4) leaf_error in \<open>metis Inl_inject\<close>)+
  qed
next
  case (4 strtod n inp)
  show ?case
  proof (cases "inp \<noteq> [] \<and> hd inp = CHR '']''")
    case True
    then show ?thesis using 4(4) by (simp add: list_elements.simps)
  next
    case False
    have fuel: "2 * length inp < n" using 4(3) by simp
    have "e = JSONError"
      if x: "fromJSON strtod n inp = Inr (x, r1)" "skipTo r1 '',]'' WHITESPACE = Inr r2" "hd r2 \<noteq> CHR '']''"
        "list_elements strtod n (tl r2) = Inl e" for x r1 r2
    proof (rule 4(2) [OF False x(1) refl x(2,3) _ x(4)])
      show "2 * length (tl r2) + 1 < n" using skipTo_Inr [OF x(2)] read_shorter(1) [OF x(1)] fuel by auto
    qed
    then show ?thesis
      using False 4(1) [OF False fuel] 4(4)
      by (auto simp: list_elements.simps result_simps dest: skipTo_error split: if_splits)
  qed
next
  case (6 strtod n inp m)
  have A: "e = JSONError"
    if k: "strFromStringstream inp = Inr (key, r1)" "skipTo r1 '':'' WHITESPACE = Inr r2" "fromJSON strtod n (tl r2) = Inl e" for key r1 r2
  proof (rule 6(1) [OF k(1) refl k(2) _ k(3)])
    show "2 * length (tl r2) < n" using skipTo_Inr [OF k(2)] strFrom_shorter [OF k(1)] 6(3) by auto
  qed
  have B: "e = JSONError"
    if k: "strFromStringstream inp = Inr (key, r1)" "skipTo r1 '':'' WHITESPACE = Inr r2"
      "fromJSON strtod n (tl r2) = Inr (v, r3)" "skipTo r3 '',}'' WHITESPACE = Inr r4" "hd r4 \<noteq> CHR ''}''"
      "map_entries strtod n (tl r4) (MapElement_set key v m) = Inl e" for key r1 r2 v r3 r4
  proof (rule 6(2) [OF k(1) refl k(2) k(3) refl k(4) refl k(5) _ k(6)])
    show "2 * length (tl r4) < n"
      using skipTo_Inr [OF k(2)] strFrom_shorter [OF k(1)] skipTo_Inr [OF k(4)] read_shorter(1) [OF k(3)] 6(3) by auto
  qed
  show ?case
    using A B 6(4) by (auto simp: map_entries.simps result_simps Let_def dest: skipTo_error strFrom_error split: if_splits)
qed simp_all

text \<open>C32. The JSON parser ends on every text, however deeply it nests: it returns an element or raises \<^verbatim>\<open>JSONError\<close>.
  Twice the length of the text is enough fuel for the three functions that call each other.\<close>

theorem fromJSON_text_ends: "(\<exists>e. fromJSON_text strtod s = Inr e) \<or> fromJSON_text strtod s = Inl JSONError"
proof (cases "fromJSON strtod (2 * length s + 1) s")
  case (Inl e)
  then show ?thesis using read_ends(1) [OF _ Inl] by (simp add: fromJSON_text_def)
next
  case (Inr p)
  then show ?thesis by (auto simp: fromJSON_text_def split: prod.splits)
qed

section \<open>Printing and reading\<close>

subsection \<open>Strings\<close>

lemma string_chars_printed: "string_chars (concat (map json_char s) @ CHR 0x22 # rest) = Inr (s, rest)"
  by (induction s) (auto simp: json_char_def unescape_def)

definition plain_key :: "string \<Rightarrow> bool" where
  "plain_key k \<longleftrightarrow> CHR 0x22 \<notin> set k \<and> CHR 0x5C \<notin> set k"

lemma string_chars_plain: "plain_key k \<Longrightarrow> string_chars (k @ CHR 0x22 # rest) = Inr (k, rest)"
  by (induction k) (auto simp: plain_key_def)

subsection \<open>Numbers\<close>

lemma digit_char:
  assumes "d < 10"
  shows "is_digit (char_of (48 + d :: nat))" "(of_char (char_of (48 + d :: nat)) :: int) = 48 + int d"
proof -
  have "d = 0 \<or> d = 1 \<or> d = 2 \<or> d = 3 \<or> d = 4 \<or> d = 5 \<or> d = 6 \<or> d = 7 \<or> d = 8 \<or> d = 9" using assms by presburger
  then show "is_digit (char_of (48 + d :: nat))"
    by (elim disjE; simp only:; code_simp)
  have "int (of_char (char_of (48 + d :: nat))) = 48 + int d" using assms by simp
  then show "(of_char (char_of (48 + d :: nat)) :: int) = 48 + int d"
    by (simp only: of_nat_of_char)
qed

lemma nat_text_digits: "nat_text n \<noteq> [] \<and> list_all is_digit (nat_text n) \<and> digits_value (nat_text n) = int n"
proof (induction n rule: nat_text.induct)
  case (1 n)
  show ?case
  proof (cases "n < 10")
    case True
    then show ?thesis using digit_char [OF True] by (subst (1 2 3) nat_text.simps) (simp add: digits_value_def)
  next
    case False
    have "nat_text n = nat_text (n div 10) @ [char_of (48 + n mod 10)]" using False by (subst nat_text.simps) simp
    then show ?thesis
      using 1 [OF False] digit_char [of "n mod 10"] by (simp add: digits_value_def zdiv_int zmod_int)
  qed
qed

lemma numbers_read:
  assumes "list_all is_digit ds" "ds \<noteq> []"
  shows "takeWhile is_digit ds = ds" "dropWhile is_digit ds = []" "hd ds \<noteq> CHR ''-''" "hd ds \<noteq> CHR ''+''" "list_all number_char ds"
proof -
  have "is_digit (hd ds)" using assms by (cases ds) auto
  then show "hd ds \<noteq> CHR ''-''" "hd ds \<noteq> CHR ''+''" by (auto simp: is_digit_def)
  show "list_all number_char ds" using assms(1) by (rule list.pred_mono_strong) (simp add: number_char_def)
qed (use assms in \<open>simp_all add: list_all_iff\<close>)

lemma strtol_int_text:
  assumes "LONG_MIN \<le> i" "i \<le> LONG_MAX"
  shows "strtol (int_text i) = (i, [])"
proof -
  have t: "takeWhile is_digit (nat_text m) = nat_text m" "dropWhile is_digit (nat_text m) = []" "digits_value (nat_text m) = int m"
    "nat_text m \<noteq> []" "hd (nat_text m) \<noteq> CHR ''-''" "hd (nat_text m) \<noteq> CHR ''+''" for m
    using numbers_read [of "nat_text m"] nat_text_digits [of m] by blast+
  show ?thesis
  proof (cases "i < 0")
    case True
    then show ?thesis using assms by (simp add: strtol_def int_text_def Let_def t)
  next
    case False
    then have i: "int_text i = nat_text (nat i)" by (simp add: int_text_def)
    have "(case nat_text (nat i) of c # r \<Rightarrow> if c = CHR ''-'' \<or> c = CHR ''+'' then r else nat_text (nat i) | [] \<Rightarrow> []) = nat_text (nat i)"
      using t(4-6) [of "nat i"] by (cases "nat_text (nat i)") auto
    then show ?thesis using False assms by (simp add: strtol_def i Let_def t)
  qed
qed

lemma int_text_chars: "int_text i \<noteq> []" "list_all number_char (int_text i)" "hd (int_text i) \<in> set ''1234567890-+.''"
proof -
  have "is_digit (hd (nat_text m))" for m using nat_text_digits [of m] by (cases "nat_text m") auto
  then show "hd (int_text i) \<in> set ''1234567890-+.''" by (auto simp: int_text_def is_digit_def)
  show "int_text i \<noteq> []" using nat_text_digits by (simp add: int_text_def)
  show "list_all number_char (int_text i)"
    using nat_text_digits [of "nat i"] nat_text_digits [of "nat (- i)"] numbers_read(5) [of "nat_text (nat i)"]
      numbers_read(5) [of "nat_text (nat (- i))"]
    by (simp add: int_text_def number_char_def)
qed


subsection \<open>Keys\<close>

lemma less_not_same: "char_codes_less a b \<Longrightarrow> a \<noteq> b \<and> \<not> char_codes_less b a"
  by (induction a b rule: char_codes_less.induct) auto

lemma sp_set_last:
  "(\<And>k'. k' \<in> fst ` set m \<Longrightarrow> char_codes_less k' k) \<Longrightarrow> sp_set k v m = m @ [(k, v)]"
proof (induction m)
  case (Cons p m)
  obtain k' v' where p: "p = (k', v')" by (cases p)
  have "k \<noteq> k' \<and> \<not> char_codes_less k k'" using Cons.prems [of k'] less_not_same [of k' k] by (auto simp: p)
  then show ?case using Cons by (simp add: p)
qed simp

definition sorted_keys :: "(string \<times> 'a) list \<Rightarrow> bool" where
  "sorted_keys m \<longleftrightarrow> sorted_wrt char_codes_less (map fst m)"

text \<open>The elements that are printed faithfully: the order of a map is that of \<^verbatim>\<open>std::map\<close>.\<close>

definition real_text :: "(string \<Rightarrow> string option) \<Rightarrow> string \<Rightarrow> bool" where
  "real_text strtod t \<longleftrightarrow> t \<noteq> [] \<and> list_all number_char t \<and> hd t \<in> set ''1234567890-+.'' \<and> snd (strtol t) \<noteq> [] \<and> strtod t = Some t"

fun printable :: "(string \<Rightarrow> string option) \<Rightarrow> Element \<Rightarrow> bool" where
  "printable strtod (EInt i) \<longleftrightarrow> LONG_MIN < i \<and> i < LONG_MAX"
| "printable strtod (EReal t) \<longleftrightarrow> real_text strtod t"
| "printable strtod (EList l) \<longleftrightarrow> list_all (printable strtod) l"
| "printable strtod (EMap m) \<longleftrightarrow> sorted_keys m \<and> list_all (\<lambda>(k, e). plain_key k \<and> printable strtod e) m"
| "printable strtod _ \<longleftrightarrow> True"

subsection \<open>Tokens\<close>

lemma skipTo_skip: "skipTo (skipChars inp ms) chars ms = skipTo inp chars ms"
  by (induction inp) (auto simp: skipChars_def)

lemma skipTo_found: "c \<in> set chars \<Longrightarrow> c \<notin> set ms \<Longrightarrow> skipTo (c # inp) chars ms = Inr (c # skipChars inp ms)"
  by (simp add: skipChars_def)

lemma str_first:
  "\<exists>c r. str e = c # r \<and> c \<notin> set WHITESPACE \<and> c \<noteq> CHR '']''" if "printable strtod e"
proof -
  have num: "c \<notin> set WHITESPACE \<and> c \<noteq> CHR '']''" if "c \<in> set ''1234567890-+.''" for c
    using that by (auto simp: WHITESPACE_def)
  have first: "\<exists>c r. t = c # r \<and> c \<notin> set WHITESPACE \<and> c \<noteq> CHR '']''" if "t \<noteq> []" "hd t \<in> set ''1234567890-+.''" for t
    using num [OF that(2)] that(1) by (cases t) auto
  show ?thesis
  proof (cases e)
    case (EInt i)
    then show ?thesis using first [OF int_text_chars(1,3)] by simp
  next
    case (EReal t)
    then show ?thesis using that first [of t] by (simp add: real_text_def)
  qed (auto simp: WHITESPACE_def)
qed

definition token_end :: "string \<Rightarrow> bool" where
  "token_end rest \<longleftrightarrow> (case rest of [] \<Rightarrow> True | c # _ \<Rightarrow> \<not> number_char c \<and> \<not> isalpha c)"

lemma span_token:
  assumes "list_all P t" "\<And>c r. rest = c # r \<Longrightarrow> \<not> P c"
  shows "takeWhile P (t @ rest) = t" "dropWhile P (t @ rest) = rest"
  using assms by (induction t) (auto, (cases rest; auto)+)

lemma number_read:
  assumes "token_end rest" "list_all number_char t"
  shows "numberFromStringstream (t @ rest) = (t, rest)"
  using span_token [OF assms(2), of rest] assms(1) by (cases rest) (auto simp: numberFromStringstream_def token_end_def)

lemma word_read:
  assumes "token_end rest" "list_all isalpha t"
  shows "wordFromStringstream (t @ rest) = (t, rest)"
  using span_token [OF assms(2), of rest] assms(1) by (cases rest) (auto simp: wordFromStringstream_def token_end_def)


subsection \<open>Elements\<close>

definition reads :: "(string \<Rightarrow> string option) \<Rightarrow> Element \<Rightarrow> bool" where
  "reads strtod e \<longleftrightarrow>
     (\<forall>n rest. token_end rest \<longrightarrow> 2 * length (str e) < n \<longrightarrow>
        (\<exists>r. fromJSON strtod n (str e @ rest) = Inr (e, r) \<and> skipChars r WHITESPACE = skipChars rest WHITESPACE))"

lemma readsD:
  assumes "reads strtod e" "token_end rest" "2 * length (str e) < n"
  obtains r where "fromJSON strtod n (str e @ rest) = Inr (e, r)" "skipTo r chars WHITESPACE = skipTo rest chars WHITESPACE"
  using assms unfolding reads_def by (metis skipTo_skip)

lemma fromJSON_number:
  assumes "token_end rest" "list_all number_char t" "t \<noteq> []" "hd t \<in> set ''1234567890-+.''"
  shows "fromJSON strtod (Suc n) (t @ rest) = fromStringstreamNumber strtod (t @ rest)"
proof -
  obtain c t' where t: "t = c # t'" using assms(3) by (cases t) auto
  have c: "c \<notin> set WHITESPACE" using assms(4) unfolding t by (auto simp: WHITESPACE_def)
  have "skipChars (t @ rest) WHITESPACE = c # t' @ rest" using c by (simp add: t skipChars_def)
  then show ?thesis using assms(4) unfolding t list.sel by (simp only: fromJSON.simps list.case if_True append_Cons)
qed

lemma readsI:
  assumes "\<And>n rest. token_end rest \<Longrightarrow> fromJSON strtod (Suc n) (str e @ rest) = Inr (e, rest)"
  shows "reads strtod e"
  unfolding reads_def
proof (intro allI impI)
  fix n rest
  assume r: "token_end rest" "2 * length (str e) < n"
  then obtain n' where "n = Suc n'" by (cases n) auto
  with assms [OF r(1)]
  show "\<exists>r. fromJSON strtod n (str e @ rest) = Inr (e, r) \<and> skipChars r WHITESPACE = skipChars rest WHITESPACE" by simp
qed

lemma number_reads:
  "printable strtod (EInt i) \<Longrightarrow> reads strtod (EInt i)"
  "printable strtod (EReal t) \<Longrightarrow> reads strtod (EReal t)"
proof -
  show "reads strtod (EInt i)" if "printable strtod (EInt i)"
    using that fromJSON_number [OF _ int_text_chars(2,1,3)] strtol_int_text [of i] number_read [OF _ int_text_chars(2)]
    by (intro readsI) (simp add: fromStringstreamNumber_def)
  show "reads strtod (EReal t)" if "printable strtod (EReal t)"
    using that fromJSON_number [of _ t] number_read [of _ t]
    by (intro readsI) (cases "strtol t", auto simp: fromStringstreamNumber_def real_text_def)
qed

lemma word_reads: "reads strtod (EBool b)" "reads strtod ENull" "reads strtod (EString s)"
proof -
  note first = fromJSON.simps skipChars_def WHITESPACE_def
  have eqs: "iequals ''true'' ''True''" "\<not> iequals ''false'' ''True''" "iequals ''false'' ''False''" "iequals ''null'' ''null''" by code_simp+
  show "reads strtod (EBool b)"
    using word_read [of _ "''true''"] word_read [of _ "''false''"]
    by (intro readsI) (cases b; simp add: first fromStringstreamBool_def eqs isalpha_def)
  show "reads strtod ENull"
    using word_read [of _ "str ENull"] by (intro readsI) (simp add: first fromStringstreamNull_def eqs isalpha_def)
  show "reads strtod (EString s)"
    using string_chars_printed [of s] by (intro readsI) (simp add: first strFromStringstream_def)
qed

lemma str_list_first:
  assumes "es \<noteq> []" "list_all (printable strtod) es"
  shows "\<exists>c r. str_list es = c # r \<and> c \<notin> set WHITESPACE \<and> c \<noteq> CHR '']''"
  using assms str_first [of strtod "hd es"] by (cases es) auto

lemma token_ends: "token_end []" "token_end (CHR '' '' # r)" "token_end (CHR '','' # r)"
  by (simp_all add: token_end_def number_char_def is_digit_def isalpha_def)

lemma skip_space: "skipChars (CHR '' '' # r) WHITESPACE = skipChars r WHITESPACE"
  by (simp add: skipChars_def WHITESPACE_def)

lemma skip_twice: "skipChars (skipChars r WHITESPACE) WHITESPACE = skipChars r WHITESPACE"
  by (simp add: skipChars_def dropWhile_idem)

lemma skip_none: "c \<notin> set WHITESPACE \<Longrightarrow> skipChars (c # r) WHITESPACE = c # r"
  by (simp add: skipChars_def)

lemma colon_not_space:
  "CHR '':'' \<notin> set WHITESPACE" "CHR '','' \<notin> set WHITESPACE" "CHR ''}'' \<notin> set WHITESPACE" "CHR 0x22 \<notin> set WHITESPACE"
  "CHR '']'' \<notin> set WHITESPACE" "CHR ''['' \<notin> set WHITESPACE" "CHR ''{'' \<notin> set WHITESPACE" "CHR '' '' \<in> set WHITESPACE"
  by (simp_all add: WHITESPACE_def)

lemma close_found:
  "c \<in> set chars \<Longrightarrow> c \<notin> set WHITESPACE \<Longrightarrow> skipTo (CHR '' '' # c # r) chars WHITESPACE = Inr (c # skipChars r WHITESPACE)"
  by (simp add: skipTo_found) (simp add: WHITESPACE_def skipChars_def)

lemma list_reads:
  assumes "l \<noteq> []" "list_all (printable strtod) l" "list_all (reads strtod) l" "2 * length (str_list l) + 2 < n"
  shows "list_elements strtod n (str_list l @ '' ]'' @ rest) = Inr (l, skipChars rest WHITESPACE)"
  using assms
proof (induction l arbitrary: n)
  case (Cons e es)
  from Cons.prems(4) obtain n' where n: "n = Suc n'" by (cases n) auto
  have e: "reads strtod e" "printable strtod e" using Cons.prems by auto
  obtain c t where c: "str e = c # t" "c \<noteq> CHR '']''" using str_first [OF e(2)] by auto
  show ?case
  proof (cases "es = []")
    case True
    obtain r where "fromJSON strtod n' (str e @ '' ]'' @ rest) = Inr (e, r)"
      "skipTo r '',]'' WHITESPACE = skipTo ('' ]'' @ rest) '',]'' WHITESPACE"
      using readsD [OF e(1), of "'' ]'' @ rest" n' "'',]''"] Cons.prems(4) token_ends by (auto simp: n)
    then show ?thesis
      using c close_found [of "CHR '']''" "'',]''" rest] True by (simp add: n list_elements.simps WHITESPACE_def)
  next
    case False
    let ?rest = "str_list es @ '' ]'' @ rest"
    obtain r where r: "fromJSON strtod n' (str e @ '', '' @ ?rest) = Inr (e, r)"
      "skipTo r '',]'' WHITESPACE = skipTo ('', '' @ ?rest) '',]'' WHITESPACE"
      using readsD [OF e(1), of "'', '' @ ?rest" n' "'',]''"] Cons.prems(4) token_ends by (auto simp: n)
    have "list_elements strtod n' ?rest = Inr (es, skipChars rest WHITESPACE)"
      using Cons.IH [of n'] Cons.prems False by (simp add: n)
    moreover have "skipTo ('', '' @ ?rest) '',]'' WHITESPACE = Inr (CHR '','' # ?rest)"
      using str_list_first [OF False, of strtod] Cons.prems(2)
      by (auto simp: skipTo_found skip_space skip_none)  (auto simp: WHITESPACE_def skipChars_def)
    ultimately show ?thesis using c r False by (simp add: n list_elements.simps)
  qed
qed simp


lemma map_reads:
  assumes "m \<noteq> []" "list_all (\<lambda>(k, e). plain_key k \<and> printable strtod e \<and> reads strtod e) m" "sorted_keys (acc @ m)"
    "2 * length (str_map m) < n"
  shows "map_entries strtod n (str_map m @ '' }'' @ rest) acc = Inr (acc @ m, skipChars rest WHITESPACE)"
  using assms
proof (induction m arbitrary: n acc)
  case (Cons p es)
  obtain k e where p: "p = (k, e)" by (cases p)
  from Cons.prems(4) obtain n' where n: "n = Suc n'" by (cases n) auto
  have e: "reads strtod e" "plain_key k" "printable strtod e" using Cons.prems by (auto simp: p)
  define tail where "tail = (if es = [] then '' }'' @ rest else '', '' @ str_map es @ '' }'' @ rest)"
  have inp: "str_map (p # es) @ '' }'' @ rest = CHR 0x22 # k @ CHR 0x22 # CHR '':'' # CHR '' '' # str e @ tail"
    by (simp add: p tail_def)
  have "token_end tail" using token_ends by (simp add: tail_def)
  then obtain r where r: "fromJSON strtod n' (str e @ tail) = Inr (e, r)" "skipTo r '',}'' WHITESPACE = skipTo tail '',}'' WHITESPACE"
    using readsD [OF e(1), of tail n' "'',}''"] Cons.prems(4) by (auto simp: n p)
  have set: "MapElement_set k e acc = acc @ [p]"
    using Cons.prems(3) by (auto simp: MapElement_set_def p sorted_keys_def sorted_wrt_append intro!: sp_set_last)
  have colon: "skipTo (CHR '':'' # CHR '' '' # str e @ tail) '':'' WHITESPACE = Inr (CHR '':'' # str e @ tail)"
    using str_first [OF e(3)] skipTo_found [of "CHR '':''" "'':''" WHITESPACE] by (auto simp: skip_space skip_none colon_not_space)
  have step: "map_entries strtod n (str_map (p # es) @ '' }'' @ rest) acc =
      bindE (skipTo tail '',}'' WHITESPACE) (\<lambda>r. if hd r = CHR ''}'' then Inr (acc @ [p], tl r) else map_entries strtod n' (tl r) (acc @ [p]))"
    unfolding inp n map_entries.simps strFromStringstream_def
    using string_chars_plain [OF e(2)] colon r by (simp add: Let_def) (unfold set, rule refl)
  show ?case
  proof (cases "es = []")
    case True
    then show ?thesis unfolding step using close_found [of "CHR ''}''" "'',}''" rest] by (simp add: tail_def colon_not_space)
  next
    case False
    obtain t where "str_map es @ '' }'' @ rest = CHR 0x22 # t" using False by (cases es) auto
    then have "skipTo tail '',}'' WHITESPACE = Inr (CHR '','' # str_map es @ '' }'' @ rest)"
      using False skipTo_found [of "CHR '',''" "'',}''" WHITESPACE] by (simp add: tail_def skip_space skip_none colon_not_space)
    moreover have "map_entries strtod n' (str_map es @ '' }'' @ rest) (acc @ [p]) = Inr ((acc @ [p]) @ es, skipChars rest WHITESPACE)"
      using Cons.prems False by (intro Cons.IH) (auto simp: n p)
    ultimately show ?thesis unfolding step by simp
  qed
qed simp

lemma element_reads: "printable strtod e \<Longrightarrow> reads strtod e"
proof (induction e)
  case (EList l)
  show ?case
    unfolding reads_def
  proof (intro allI impI)
    fix n rest
    assume r: "token_end rest" "2 * length (str (EList l)) < n"
    then obtain n' where n: "n = Suc n'" by (cases n) auto
    show "\<exists>r. fromJSON strtod n (str (EList l) @ rest) = Inr (EList l, r) \<and> skipChars r WHITESPACE = skipChars rest WHITESPACE"
    proof (cases "l = []")
      case True
      then show ?thesis using r(2) by (cases n') (simp_all add: n fromJSON.simps list_elements.simps skipChars_def WHITESPACE_def)
    next
      case False
      have l: "list_all (printable strtod) l" "list_all (reads strtod) l" using EList by (auto simp: list_all_iff)
      have "skipChars (CHR '' '' # str_list l @ '' ]'' @ rest) WHITESPACE = str_list l @ '' ]'' @ rest"
        using str_list_first [OF False l(1)] by (auto simp: skip_space skip_none)
      moreover have "list_elements strtod n' (str_list l @ '' ]'' @ rest) = Inr (l, skipChars rest WHITESPACE)"
        using list_reads [OF False l, of n' rest] r(2) by (simp add: n)
      ultimately show ?thesis by (simp add: n fromJSON.simps skip_none colon_not_space skip_twice)
    qed
  qed
next
  case (EMap m)
  show ?case
    unfolding reads_def
  proof (intro allI impI)
    fix n rest
    assume r: "token_end rest" "2 * length (str (EMap m)) < n"
    then obtain n' where n: "n = Suc n'" by (cases n) auto
    show "\<exists>r. fromJSON strtod n (str (EMap m) @ rest) = Inr (EMap m, r) \<and> skipChars r WHITESPACE = skipChars rest WHITESPACE"
    proof (cases "m = []")
      case True
      then show ?thesis by (simp add: n fromJSON.simps skip_space skip_none colon_not_space)
    next
      case False
      have m: "list_all (\<lambda>(k, e). plain_key k \<and> printable strtod e \<and> reads strtod e) m" "sorted_keys m"
        using EMap by (fastforce simp: list_all_iff)+
      obtain t where t: "str_map m @ '' }'' @ rest = CHR 0x22 # t" using False by (cases m) auto
      have "map_entries strtod n' (CHR 0x22 # t) [] = Inr (m, skipChars rest WHITESPACE)"
        using map_reads [OF False m(1), of "[]" n' rest] m(2) r(2) unfolding t by (simp add: n)
      then show ?thesis using t by (simp add: n fromJSON.simps skip_space skip_none colon_not_space skip_twice)
    qed
  qed
qed (use number_reads word_reads in auto)

text \<open>C26. A configuration element that is printed as JSON and parsed again is the same element: numbers, words,
  strings with their escapes, lists and maps, nested in any way, under three conditions. The keys of the maps must not
  contain a quote or a backslash, which the printer does not escape. Integers lie strictly inside the bounds of a \<^verbatim>\<open>long\<close>. A
  floating point number, which the model knows only by the text it is printed as, must be printed in a form that the
  parser does not take for an integer and that \<^verbatim>\<open>strtod\<close> reads as the number printed so: 0.5, but not 1.0, which is printed
  as 1.\<close>

theorem json_roundtrip: "printable strtod e \<Longrightarrow> fromJSON_text strtod (str e) = Inr e"
proof -
  assume "printable strtod e"
  then obtain r where "fromJSON strtod (2 * length (str e) + 1) (str e) = Inr (e, r)" "skipChars r WHITESPACE = []"
    using element_reads [of strtod e] token_ends(1) unfolding reads_def
    by (metis append_Nil2 less_add_one skipChars_def dropWhile.simps(1))
  then show ?thesis by (simp add: fromJSON_text_def)
qed


definition example_element :: Element where
  "example_element = EMap [(''code'', EInt (-1)), (''data'', EList [EString [CHR 0x22, CHR 0x0A], EBool True, ENull]),
     (''name'', EMap []), (''share'', EReal ''0.5'')]"

theorem json_roundtrip_witness: "fromJSON_text Some (str example_element) = Inr example_element"
proof (rule json_roundtrip)
  show "printable Some example_element" by code_simp
qed

text \<open>A key with a quote is printed as it is: the text reads as another map.\<close>

lemma key_not_escaped:
  "fromJSON_text (\<lambda>_. None) (str (EMap [(''a'' @ [CHR 0x22] @ '': 1, '' @ [CHR 0x22] @ ''b'', EInt 2)])) =
     Inr (EMap [(''a'', EInt 1), (''b'', EInt 2)])"
  by code_simp

text \<open>A floating point number with an integral value is printed without a point, and comes back as an integer.\<close>

lemma integral_real_lost: "fromJSON_text strtod (str (EReal ''1'')) = Inr (EInt 1)"
  by code_simp

end
