(* ===== verification/Json_Merge.thy ===== *)
theory Json_Merge
  imports Json_Roundtrip
begin

text \<open>
  Comparing, subtracting and merging configuration maps. The entries of a map are kept in the order of their
  keys, so that two maps with the same entries are the same list.
\<close>

section \<open>Maps in the order of their keys\<close>

lemma codes_trans: "char_codes_less a b \<Longrightarrow> char_codes_less b c \<Longrightarrow> char_codes_less a c"
proof (induction a b arbitrary: c rule: char_codes_less.induct)
  case (3 a as b bs)
  then show ?case by (cases c) auto
next
  case (2 b bs)
  then show ?case by (cases c) auto
qed simp

lemma codes_total: "a \<noteq> b \<Longrightarrow> char_codes_less a b \<or> char_codes_less b a"
proof (induction a b rule: char_codes_less.induct)
  case (1 a)
  then show ?case by (cases a) auto
next
  case (3 a as b bs)
  then show ?case by (metis char_codes_less.simps(3) linorder_neqE_nat of_char_eq_iff)
qed simp

lemma sorted_keys_simps [simp]:
  "sorted_keys []" "sorted_keys (p # m) \<longleftrightarrow> (\<forall>k\<in>fst ` set m. char_codes_less (fst p) k) \<and> sorted_keys m"
  by (auto simp: sorted_keys_def)

lemma sorted_keys_distinct: "sorted_keys m \<Longrightarrow> distinct (map fst m)"
  by (induction m) (auto dest: less_not_same)

lemma map_of_sp_set [simp]: "map_of (sp_set k v m) = (map_of m)(k \<mapsto> v)"
  by (induction k v m rule: sp_set.induct) auto

lemma keys_sp_set: "fst ` set (sp_set k v m) = insert k (fst ` set m)"
  by (induction k v m rule: sp_set.induct) auto

lemma sorted_keys_sp_set: "sorted_keys m \<Longrightarrow> sorted_keys (sp_set k v m)"
proof (induction k v m rule: sp_set.induct)
  case (2 k v k' v' m)
  then show ?case using codes_total [of k k'] by (auto simp: keys_sp_set dest: codes_trans)
qed simp

lemma sorted_keys_filter: "sorted_keys m \<Longrightarrow> sorted_keys (filter P m)"
  by (induction m) auto

lemma sorted_keys_fresh: "sorted_keys (p # m) \<Longrightarrow> map_of m (fst p) = None"
  by (auto simp: map_of_eq_None_iff dest: less_not_same)

lemma first_key:
  assumes "sorted_keys (p # m)" "sorted_keys (q # m')" "map_of (p # m) = map_of (q # m')"
  shows "fst p = fst q"
proof (rule ccontr)
  assume ne: "fst p \<noteq> fst q"
  have "fst p \<in> dom (map_of (q # m'))" "fst q \<in> dom (map_of (p # m))"
    using assms(3) by (metis dom_map_of_conv_image_fst image_insert insertI1 list.simps(15))+
  then have "fst p \<in> fst ` set m'" "fst q \<in> fst ` set m" using ne by (auto simp: dom_map_of_conv_image_fst)
  then have "char_codes_less (fst p) (fst q)" "char_codes_less (fst q) (fst p)" using assms(1,2) by auto
  then show False using less_not_same by blast
qed

lemma sorted_keys_ext:
  assumes "sorted_keys m" "sorted_keys m'" "map_of m = map_of m'"
  shows "m = m'"
  using assms
proof (induction m arbitrary: m')
  case Nil
  then show ?case by (metis map_of_eq_empty_iff)
next
  case (Cons p m)
  obtain q m1 where m': "m' = q # m1" using Cons.prems(3) by (cases m') (auto simp: fun_eq_iff split: if_splits)
  have k: "fst p = fst q" using first_key [of p m q m1] Cons.prems unfolding m' by blast
  have v: "snd p = snd q" using fun_cong [OF Cons.prems(3), of "fst p"] k by (simp add: m')
  have "map_of m x = map_of m1 x" for x
    using fun_cong [OF Cons.prems(3), of x] sorted_keys_fresh [of p m] sorted_keys_fresh [of q m1] Cons.prems k
    by (cases "x = fst p") (auto simp: m')
  then have "m = m1" using Cons unfolding m' by (auto intro: Cons.IH)
  then show ?case using k v by (simp add: m' prod_eq_iff)
qed

section \<open>Comparison\<close>

text \<open>The elements the code can build: the entries of every map are in the order of their keys.\<close>

fun ordered :: "Element \<Rightarrow> bool" where
  "ordered (EList l) \<longleftrightarrow> list_all ordered l"
| "ordered (EMap m) \<longleftrightarrow> sorted_keys m \<and> list_all (\<lambda>(k, e). ordered e) m"
| "ordered _ \<longleftrightarrow> True"

text \<open>What the parser returns is ordered.\<close>

lemma leaf_ordered:
  "fromStringstreamNumber strtod inp = Inr (e, r) \<Longrightarrow> ordered e"
  "fromStringstreamBool inp = Inr (e, r) \<Longrightarrow> ordered e"
  "fromStringstreamNull inp = Inr (e, r) \<Longrightarrow> ordered e"
  by (auto simp: fromStringstreamNumber_def fromStringstreamBool_def fromStringstreamNull_def split: prod.splits if_splits option.splits)

lemma values_sp_set: "p \<in> set (sp_set k v m) \<Longrightarrow> p = (k, v) \<or> p \<in> set m"
  by (induction k v m rule: sp_set.induct) (auto split: if_splits)

lemma ordered_set: "ordered (EMap m) \<Longrightarrow> ordered v \<Longrightarrow> ordered (EMap (MapElement_set k v m))"
  using values_sp_set [of _ k v m] by (fastforce simp: MapElement_set_def list_all_iff sorted_keys_sp_set)

lemma read_ordered:
  "fromJSON strtod n inp = Inr (e, r) \<Longrightarrow> ordered e"
  "list_elements strtod n inp = Inr (l, r) \<Longrightarrow> ordered (EList l)"
  "map_entries strtod n inp m = Inr (m', r) \<Longrightarrow> ordered (EMap m) \<Longrightarrow> ordered (EMap m')"
proof (induction strtod n inp and strtod n inp and strtod n inp m arbitrary: e r and l r and m' r
    rule: fromJSON_list_elements_map_entries.induct)
  case (2 strtod n inp)
  then obtain c rest where c: "skipChars inp WHITESPACE = c # rest"
    by (cases "skipChars inp WHITESPACE") (auto simp: fromJSON.simps)
  show ?case
    using c
  proof (cases rule: fromJSON_cases [where strtod = strtod and n = n])
    case list
    then show ?thesis using 2(1) [OF c] 2(3) unfolding list(2) by (auto simp: result_simps)
  next
    case map
    then show ?thesis using 2(2) [OF c] 2(3) unfolding map(2) by (auto simp: result_simps split: list.splits if_splits)
  next
    case string
    then show ?thesis using 2(3) unfolding string(2) by (auto simp: result_simps)
  qed (use 2(3) leaf_ordered in \<open>metis Inr_not_Inl\<close>)+
next
  case (4 strtod n inp)
  show ?case
  proof (cases "inp \<noteq> [] \<and> hd inp = CHR '']''")
    case True
    then show ?thesis using 4(3) by (auto simp: list_elements.simps)
  next
    case False
    with 4(3) obtain x r1 r2 where x: "fromJSON strtod n inp = Inr (x, r1)" "skipTo r1 '',]'' WHITESPACE = Inr r2"
      and l: "(if hd r2 = CHR '']'' then Inr ([x], tl r2)
             else bindE (list_elements strtod n (tl r2)) (\<lambda>(l, r). Inr (x # l, r))) = Inr (l, r)"
      by (auto simp: list_elements.simps result_simps)
    show ?thesis using l 4(1) [OF False x(1)] 4(2) [OF False x(1) refl x(2)] by (auto simp: result_simps split: if_splits)
  qed
next
  case (6 strtod n inp m)
  from 6(3) obtain key r1 r2 v r3 r4 where k: "strFromStringstream inp = Inr (key, r1)"
    "skipTo r1 '':'' WHITESPACE = Inr r2" "fromJSON strtod n (tl r2) = Inr (v, r3)" "skipTo r3 '',}'' WHITESPACE = Inr r4"
    and l: "(let m = MapElement_set key v m in if hd r4 = CHR ''}'' then Inr (m, tl r4) else map_entries strtod n (tl r4) m) = Inr (m', r)"
    by (auto simp: map_entries.simps result_simps)
  have "ordered (EMap (MapElement_set key v m))" using ordered_set [OF 6(4) 6(1) [OF k(1) refl k(2) k(3)]] .
  then show ?case
    using l 6(2) [OF k(1) refl k(2) k(3) refl k(4) refl] by (auto simp: Let_def split: if_splits)
qed (simp_all add: fromJSON.simps list_elements.simps map_entries.simps)

lemma list_equals_eq:
  assumes "\<And>x y. x \<in> set l \<Longrightarrow> y \<in> set l' \<Longrightarrow> el_equals x y \<longleftrightarrow> x = y"
  shows "el_equals (EList l) (EList l') \<longleftrightarrow> l = l'"
proof -
  have "list_all2 el_equals l l' \<longleftrightarrow> list_all2 (=) l l'"
    using assms by (auto elim!: list.rel_mono_strong)
  then show ?thesis by (simp add: list.rel_eq)
qed

lemma map_equals_eq:
  assumes "\<And>k v w. (k, v) \<in> set m \<Longrightarrow> map_of m' k = Some w \<Longrightarrow> el_equals v w \<longleftrightarrow> v = w" "sorted_keys m" "sorted_keys m'"
  shows "el_equals (EMap m) (EMap m') \<longleftrightarrow> m = m'"
proof
  assume eq: "el_equals (EMap m) (EMap m')"
  have "map_of m k = map_of m' k" for k
  proof (cases "map_of m k")
    case None
    then show ?thesis using eq by (cases "map_of m' k") (fastforce simp: list_all_iff dest: map_of_SomeD)+
  next
    case (Some v)
    then have kv: "(k, v) \<in> set m" by (rule map_of_SomeD)
    then obtain w where w: "map_of m' k = Some w" "el_equals v w" using eq by (fastforce simp: list_all_iff split: option.splits)
    then show ?thesis using Some assms(1) [OF kv w(1)] by simp
  qed
  then show "m = m'" using assms(2,3) by (intro sorted_keys_ext) auto
next
  assume "m = m'"
  then show "el_equals (EMap m) (EMap m')"
    using assms(1) map_of_is_SomeI [OF sorted_keys_distinct [OF assms(2)]]
    by (fastforce simp: list_all_iff split: option.splits)
qed

lemma equals_eq: "ordered a \<Longrightarrow> ordered b \<Longrightarrow> el_equals a b \<longleftrightarrow> a = b"
proof (induction a arbitrary: b)
  case (EList l)
  show ?case
  proof (cases b)
    case l': (EList l')
    have "el_equals (EList l) (EList l') \<longleftrightarrow> l = l'"
      using EList l' by (intro list_equals_eq) (auto simp: list_all_iff)
    then show ?thesis by (simp only: l' Element.inject)
  qed simp_all
next
  case (EMap m)
  show ?case
  proof (cases b)
    case m': (EMap m')
    have "el_equals v w \<longleftrightarrow> v = w" if "(k, v) \<in> set m" "map_of m' k = Some w" for k v w
      using EMap.prems m' that by (intro EMap.IH [OF that(1)]) (auto simp: list_all_iff dest!: map_of_SomeD)
    then have "el_equals (EMap m) (EMap m') \<longleftrightarrow> m = m'"
      using EMap.prems m' by (intro map_equals_eq) auto
    then show ?thesis by (simp only: m' Element.inject)
  qed simp_all
qed (auto split: Element.splits)

section \<open>Merging\<close>

lemma map_of_remove_key: "map_of (remove_key k m) = (map_of m)(k := None)"
  by (induction m) (auto simp: remove_key_def)

lemma sorted_remove_key: "sorted_keys m \<Longrightarrow> sorted_keys (remove_key k m)"
  by (simp add: remove_key_def sorted_keys_filter)

lemma merge_entry_map: "map_of (merge_entry f (k, v) m) = (map_of m)(k := if v = ENull then None else Some (f v))"
  by (auto simp: merge_entry_def MapElement_set_def map_of_remove_key)

lemma merge_entry_sorted: "sorted_keys m \<Longrightarrow> sorted_keys (merge_entry f p m)"
  by (auto simp: merge_entry_def MapElement_set_def remove_key_def sorted_keys_sp_set sorted_keys_filter split: prod.splits)

definition merged :: "(Element \<Rightarrow> 'v) \<Rightarrow> (string \<rightharpoonup> 'v) \<Rightarrow> (string \<rightharpoonup> Element) \<Rightarrow> string \<rightharpoonup> 'v" where
  "merged f old new k = (case new k of None \<Rightarrow> old k | Some v \<Rightarrow> if v = ENull then None else Some (f v))"

lemma merge_entries:
  "distinct (map fst m') \<Longrightarrow> map_of (fold (merge_entry f) m' m) = merged f (map_of m) (map_of m')"
proof (induction m' arbitrary: m)
  case Nil
  then show ?case by (simp add: merged_def fun_eq_iff)
next
  case (Cons p m')
  obtain k v where p: "p = (k, v)" by (cases p)
  have "map_of m' k = None" using Cons.prems by (simp add: p map_of_eq_None_iff)
  then show ?case using Cons by (auto simp: p merged_def merge_entry_map fun_eq_iff split: option.splits)
qed

lemma merge_sorted: "sorted_keys m \<Longrightarrow> sorted_keys (fold (merge_entry f) m' m)"
  by (induction m' arbitrary: m) (auto simp: merge_entry_sorted)

section \<open>Difference\<close>

definition difference :: "(string \<rightharpoonup> Element) \<Rightarrow> (string \<rightharpoonup> Element) \<Rightarrow> string \<rightharpoonup> Element" where
  "difference a b k = (if a k = b k then None else a k)"

lemma fold_entries:
  assumes "distinct (map fst n)" "sorted_keys acc"
  shows "map_of (fold (\<lambda>(k, v) r. if Q k v then r else sp_set k v r) n acc) =
      (\<lambda>k. case map_of n k of None \<Rightarrow> map_of acc k | Some v \<Rightarrow> if Q k v then map_of acc k else Some v)" (is ?map)
    "sorted_keys (fold (\<lambda>(k, v) r. if Q k v then r else sp_set k v r) n acc)" (is ?sorted)
proof -
  have "?map \<and> ?sorted"
    using assms
  proof (induction n arbitrary: acc)
    case (Cons p n)
    obtain x v where p: "p = (x, v)" by (cases p)
    have "map_of n x = None" using Cons.prems by (simp add: p map_of_eq_None_iff)
    then show ?case
      using Cons.IH [of acc] Cons.IH [of "sp_set x v acc"] Cons.prems
      by (auto simp: p fun_eq_iff sorted_keys_sp_set split: option.splits)
  qed simp
  then show ?map ?sorted by auto
qed

lemma removeIdentical_map:
  assumes "ordered (EMap m)" "ordered (EMap m')"
  obtains d where "removeIdentical (EMap m) (Some (EMap m')) = Inr (EMap d)" "sorted_keys d" "map_of d = difference (map_of m) (map_of m')"
proof -
  let ?f = "\<lambda>(k, v) result. case map_of m' k of None \<Rightarrow> MapElement_set k v result
     | Some w \<Rightarrow> if \<not> el_equals v w then MapElement_set k v result else result"
  let ?g = "\<lambda>(k, v) r. if map_of m' k = Some v then r else sp_set k v r"
  have "el_equals v w \<longleftrightarrow> v = w" if "(k, v) \<in> set m" "map_of m' k = Some w" for k v w
    using assms that by (intro equals_eq) (auto simp: list_all_iff dest!: map_of_SomeD)
  then have "fold ?f m [] = fold ?g m []"
    by (intro fold_cong) (auto simp: MapElement_set_def fun_eq_iff split: option.splits)
  then have "removeIdentical (EMap m) (Some (EMap m')) = Inr (EMap (fold ?g m []))" by (simp add: removeIdentical_def)
  moreover have "distinct (map fst m)" using assms sorted_keys_distinct by auto
  moreover have "map_of (fold ?g m []) = difference (map_of m) (map_of m')"
    using fold_entries(1) [OF \<open>distinct (map fst m)\<close>, of "[]" "\<lambda>k v. map_of m' k = Some v"]
    by (auto simp: difference_def fun_eq_iff split: option.splits)
  ultimately show thesis using that fold_entries(2) [of m "[]" "\<lambda>k v. map_of m' k = Some v"] by simp
qed


lemma removeIdentical_in_map:
  assumes "ordered (EMap m)" "ordered (EMap m')"
  obtains d where "removeIdentical_in (EMap m) (Some (EMap m')) = Inr (EMap d)" "sorted_keys d" "map_of d = difference (map_of m) (map_of m')"
proof -
  define f where "f = (\<lambda>(k, w) a. case map_of a k of None \<Rightarrow> a | Some v \<Rightarrow> if el_equals v w then remove_key k a else a)"
  have ord: "ordered e" if "(k, e) \<in> set m \<or> (k, e) \<in> set m'" for k e
    using assms that by (auto simp: list_all_iff)
  have "sorted_keys (fold f n a) \<and> map_of (fold f n a) = (\<lambda>k. if map_of a k = map_of n k then None else map_of a k)"
    if "set n \<subseteq> set m'" "distinct (map fst n)" "sorted_keys a" "map_of a \<subseteq>\<^sub>m map_of m" for n a
    using that
  proof (induction n arbitrary: a)
    case Nil
    then show ?case by (auto simp: fun_eq_iff)
  next
    case (Cons p n)
    obtain k w where p: "p = (k, w)" by (cases p)
    have fresh: "map_of n k = None" using Cons.prems by (simp add: p map_of_eq_None_iff)
    have "el_equals v w \<longleftrightarrow> v = w" if "map_of a k = Some v" for v
    proof (rule equals_eq)
      have "map_of m k = Some v" using that Cons.prems(4) unfolding map_le_def by (metis domI)
      then show "ordered v" using ord map_of_SomeD by metis
      show "ordered w" using ord Cons.prems(1) by (auto simp: p)
    qed
    then have step: "f p a = (if map_of a k = Some w then remove_key k a else a)"
      by (auto simp: p f_def split: option.splits)
    have "map_of (f p a) \<subseteq>\<^sub>m map_of m" "sorted_keys (f p a)"
      using Cons.prems step by (auto simp: map_of_remove_key map_le_def sorted_remove_key split: if_splits)
    moreover have "set n \<subseteq> set m'" "distinct (map fst n)" using Cons.prems by auto
    ultimately show ?case using Cons.IH [of "f p a"] fresh unfolding step
      by (auto simp: p step [unfolded p] fun_eq_iff map_of_remove_key)
  qed
  from this [of m' m] show thesis
    using that assms sorted_keys_distinct [of m'] by (auto simp: removeIdentical_in_def f_def [symmetric] difference_def fun_eq_iff)
qed

text \<open>The two functions named removeIdentical compute the same difference of two maps.\<close>

lemma removeIdentical_agree:
  assumes "ordered (EMap m)" "ordered (EMap m')"
  shows "removeIdentical (EMap m) (Some (EMap m')) = removeIdentical_in (EMap m) (Some (EMap m'))"
proof -
  obtain d d' where "removeIdentical (EMap m) (Some (EMap m')) = Inr (EMap d)" "removeIdentical_in (EMap m) (Some (EMap m')) = Inr (EMap d')"
    "sorted_keys d" "sorted_keys d'" "map_of d = map_of d'"
    using removeIdentical_map [OF assms] removeIdentical_in_map [OF assms] by metis
  then show ?thesis using sorted_keys_ext by auto
qed

text \<open>Merging only what differs gives the same as merging the new values.\<close>

lemma merge_difference:
  assumes "ordered (EMap old)" "ordered (EMap new)" "\<forall>(k, v) \<in> set new. v \<noteq> ENull"
  shows "\<exists>d r. removeIdentical (EMap new) (Some (EMap old)) = Inr (EMap d) \<and>
    el_merge (EMap old) (EMap d) = Inr (EMap r) \<and> el_merge (EMap old) (EMap new) = Inr (EMap r) \<and>
    sorted_keys r \<and> map_of r = map_of old ++ map_of new"
proof -
  obtain d where d: "removeIdentical (EMap new) (Some (EMap old)) = Inr (EMap d)" "sorted_keys d"
    "map_of d = difference (map_of new) (map_of old)"
    using removeIdentical_map [OF assms(2,1)] by blast
  have sorted: "sorted_keys old" "sorted_keys new" using assms by auto
  have "v \<noteq> ENull" if "map_of new k = Some v" for k v using assms(3) map_of_SomeD [OF that] by auto
  then have "merged id (map_of old) (map_of d) = map_of old ++ map_of new" "merged id (map_of old) (map_of new) = map_of old ++ map_of new"
    by (auto simp: merged_def d(3) difference_def fun_eq_iff map_add_def split: option.splits)
  then have r: "map_of (fold (merge_entry id) d old) = map_of old ++ map_of new" "map_of (fold (merge_entry id) new old) = map_of old ++ map_of new"
    using merge_entries [OF sorted_keys_distinct [OF d(2)], of id old] merge_entries [OF sorted_keys_distinct [OF sorted(2)], of id old]
    by simp_all
  then have "fold (merge_entry id) d old = fold (merge_entry id) new old"
    using sorted by (intro sorted_keys_ext merge_sorted) auto
  then show ?thesis using d r merge_sorted [OF sorted(1)] by (auto simp: el_merge_def)
qed

text \<open>Without a map to compare with, one version of the function returns nothing and the other everything.\<close>

lemma removeIdentical_null: "removeIdentical a None = Inr (EMap []) \<and> removeIdentical_in a None = Inr a"
  by (simp add: removeIdentical_def removeIdentical_in_def)

end
