(* ===== verification/Module_Spec.thy ===== *)
theory Module_Spec
  imports Json_Merge
begin

text \<open>
  Module specifications, \<^verbatim>\<open>src/lib/config/module_spec.cc\<close>: the check that a specification is well formed and
  the validation of configurations and command arguments against it. A specification is an element read from
  a \<^verbatim>\<open>.spec\<close> file. \<^verbatim>\<open>get\<close> of a key that is not there is a null pointer; to use it ends the program
  (\<open>NullPointer\<close>). \<open>time_format\<close> stands for \<^verbatim>\<open>strptime\<close> and \<^verbatim>\<open>strftime\<close>: whether a text is in the given
  format. A file is its text, or \<open>None\<close> when it cannot be opened.
\<close>

section \<open>Access\<close>

datatype types = integer | real | boolean | null | string_type | list_type | map_type | any

fun getType :: "Element \<Rightarrow> types" where
  "getType (EInt _) = integer"
| "getType (EReal _) = real"
| "getType (EBool _) = boolean"
| "getType ENull = null"
| "getType (EString _) = string_type"
| "getType (EList _) = list_type"
| "getType (EMap _) = map_type"

definition nameToType :: "string \<Rightarrow> types result" where
  "nameToType type_name =
     (if type_name = ''integer'' then Inr integer
      else if type_name = ''real'' then Inr real
      else if type_name = ''boolean'' then Inr boolean
      else if type_name = ''string'' then Inr string_type
      else if type_name = ''list'' then Inr list_type
      else if type_name = ''map'' then Inr map_type
      else if type_name = ''named_set'' then Inr map_type
      else if type_name = ''null'' then Inr null
      else if type_name = ''any'' then Inr any
      else Inl TypeError)"

fun boolValue :: "Element \<Rightarrow> bool result" where
  "boolValue (EBool b) = Inr b"
| "boolValue _ = Inl TypeError"

fun intValue :: "Element \<Rightarrow> int result" where
  "intValue (EInt i) = Inr i"
| "intValue _ = Inl TypeError"

definition el_get :: "string \<Rightarrow> Element \<Rightarrow> Element option result" where
  "el_get s e = bindE (mapValue e) (\<lambda>m. Inr (map_of m s))"

definition deref :: "'a option \<Rightarrow> 'a result" where
  "deref p = (case p of None \<Rightarrow> Inl NullPointer | Some x \<Rightarrow> Inr x)"

definition get_string :: "string \<Rightarrow> Element \<Rightarrow> string result" where
  "get_string s e = bindE (el_get s e) (\<lambda>p. bindE (deref p) stringValue)"

definition get_bool :: "string \<Rightarrow> Element \<Rightarrow> bool result" where
  "get_bool s e = bindE (el_get s e) (\<lambda>p. bindE (deref p) boolValue)"

section \<open>Checking a specification\<close>

definition check_leaf_item :: "Element \<Rightarrow> string \<Rightarrow> types \<Rightarrow> bool \<Rightarrow> unit result" where
  "check_leaf_item spec name type mandatory =
     bindE (contains name spec) (\<lambda>c.
       if c then
         bindE (el_get name spec) (\<lambda>p. bindE (deref p) (\<lambda>e.
           if type = any \<or> getType e = type then Inr () else Inl ModuleSpecError))
       else if mandatory then Inl ModuleSpecError
       else Inr ())"

lemma map_of_size: "map_of m k = Some v \<Longrightarrow> size v < size (EMap m)"
  by (induction m) (auto split: if_splits)

lemma el_get_size [termination_simp]: "el_get k e = Inr (Some v) \<Longrightarrow> size v < size e"
  by (cases e) (auto simp: el_get_def dest: map_of_size)

lemma deref_Inr [simp]: "deref p = Inr x \<longleftrightarrow> p = Some x"
  by (cases p) (auto simp: deref_def)

lemma listValue_Inr [simp]: "listValue e = Inr l \<longleftrightarrow> e = EList l"
  by (cases e) auto

lemma mapValue_Inr [simp]: "mapValue e = Inr l \<longleftrightarrow> e = EMap l"
  by (cases e) auto

function check_config_item :: "Element \<Rightarrow> unit result"
  and check_config_items :: "Element list \<Rightarrow> unit result" where
  "check_config_item spec =
     bindE (check_leaf_item spec ''item_name'' string_type True) (\<lambda>_.
     bindE (check_leaf_item spec ''item_type'' string_type True) (\<lambda>_.
     bindE (check_leaf_item spec ''item_optional'' boolean True) (\<lambda>_.
     bindE (get_string ''item_type'' spec) (\<lambda>type.
     bindE (nameToType type) (\<lambda>t.
     bindE (get_bool ''item_optional'' spec) (\<lambda>optional.
     bindE (check_leaf_item spec ''item_default'' t (\<not> optional)) (\<lambda>_.
     bindE
       (if t = list_type then
          bindE (check_leaf_item spec ''list_item_spec'' map_type True) (\<lambda>_.
          bindE (bindE (el_get ''list_item_spec'' spec) deref) (\<lambda>s. check_config_item s))
        else Inr ()) (\<lambda>_.
     if type = ''map'' then
       bindE (check_leaf_item spec ''map_item_spec'' list_type True) (\<lambda>_.
       bindE (bindE (el_get ''map_item_spec'' spec) deref) (\<lambda>s.
         case s of EList items \<Rightarrow> check_config_items items | _ \<Rightarrow> Inl ModuleSpecError))
     else if type = ''named_set'' then
       bindE (check_leaf_item spec ''named_set_item_spec'' map_type True) (\<lambda>_.
       bindE (bindE (el_get ''named_set_item_spec'' spec) deref) (\<lambda>s. check_config_item s))
     else Inr ()))))))))"
| "check_config_items [] = Inr ()"
| "check_config_items (item # items) =
     bindE (check_config_item item) (\<lambda>_. check_config_items items)"
  by pat_completeness auto
termination
  by (relation "measure (\<lambda>x. case x of Inl e \<Rightarrow> size e | Inr l \<Rightarrow> size_list size l)")
    (auto simp: result_simps dest!: el_get_size)

declare check_config_item.simps [simp del]

definition check_config_item_list :: "Element \<Rightarrow> unit result" where
  "check_config_item_list spec = (case spec of EList items \<Rightarrow> check_config_items items | _ \<Rightarrow> Inl ModuleSpecError)"


section \<open>Formats, statistics and commands\<close>

text \<open>The formats in the order of the \<^verbatim>\<open>std::map\<close>.\<close>

definition time_formats :: "(string \<times> string) list" where
  "time_formats = [(''date'', ''%Y-%m-%d''), (''date-time'', ''%Y-%m-%dT%H:%M:%SZ''), (''time'', ''%H:%M:%S'')]"

definition check_format :: "(string \<Rightarrow> string \<Rightarrow> bool) \<Rightarrow> Element \<Rightarrow> Element \<Rightarrow> bool result" where
  "check_format time_format value format_name =
     bindE (stringValue format_name) (\<lambda>name.
       case map_of time_formats name of
         None \<Rightarrow> Inr False
       | Some f \<Rightarrow> bindE (stringValue value) (\<lambda>v. Inr (time_format f v)))"

definition check_statistics_item :: "(string \<Rightarrow> string \<Rightarrow> bool) \<Rightarrow> Element \<Rightarrow> unit result" where
  "check_statistics_item time_format item =
     bindE (check_config_item item) (\<lambda>_.
     bindE (check_leaf_item item ''item_title'' string_type True) (\<lambda>_.
     bindE (check_leaf_item item ''item_description'' string_type True) (\<lambda>_.
     bindE (check_leaf_item item ''item_format'' string_type False) (\<lambda>_.
     bindE (contains ''item_format'' item) (\<lambda>has_format.
     bindE (contains ''item_default'' item) (\<lambda>has_default.
       if has_format \<and> has_default then
         bindE (bindE (el_get ''item_default'' item) deref) (\<lambda>d.
         bindE (bindE (el_get ''item_format'' item) deref) (\<lambda>f.
         bindE (check_format time_format d f) (\<lambda>ok.
           if ok then Inr () else Inl ModuleSpecError)))
       else Inr ()))))))"

definition check_statistics_item_list :: "(string \<Rightarrow> string \<Rightarrow> bool) \<Rightarrow> Element \<Rightarrow> unit result" where
  "check_statistics_item_list time_format spec =
     (case spec of
        EList items \<Rightarrow> foldE (\<lambda>item _. check_statistics_item time_format item) items ()
      | _ \<Rightarrow> Inl ModuleSpecError)"

definition check_command :: "Element \<Rightarrow> unit result" where
  "check_command spec =
     bindE (check_leaf_item spec ''command_name'' string_type True) (\<lambda>_.
     bindE (check_leaf_item spec ''command_args'' list_type True) (\<lambda>_.
     bindE (bindE (el_get ''command_args'' spec) deref) check_config_item_list))"

definition check_command_list :: "Element \<Rightarrow> unit result" where
  "check_command_list spec =
     (case spec of EList items \<Rightarrow> foldE (\<lambda>item _. check_command item) items () | _ \<Rightarrow> Inl ModuleSpecError)"

definition if_contains :: "string \<Rightarrow> Element \<Rightarrow> (Element \<Rightarrow> unit result) \<Rightarrow> unit result" where
  "if_contains name spec chk =
     bindE (contains name spec) (\<lambda>c. if c then bindE (bindE (el_get name spec) deref) chk else Inr ())"

definition check_data_specification :: "(string \<Rightarrow> string \<Rightarrow> bool) \<Rightarrow> Element \<Rightarrow> unit result" where
  "check_data_specification time_format spec =
     bindE (check_leaf_item spec ''module_name'' string_type True) (\<lambda>_.
     bindE (check_leaf_item spec ''module_description'' string_type False) (\<lambda>_.
     bindE (if_contains ''config_data'' spec check_config_item_list) (\<lambda>_.
     bindE (if_contains ''commands'' spec check_command_list) (\<lambda>_.
       if_contains ''statistics'' spec (check_statistics_item_list time_format)))))"

definition check_module_specification :: "(string \<Rightarrow> string \<Rightarrow> bool) \<Rightarrow> Element \<Rightarrow> unit result" where
  "check_module_specification time_format def =
     (case check_data_specification time_format def of
        Inl e \<Rightarrow> Inl (if e = TypeError then ModuleSpecError else e)
      | Inr u \<Rightarrow> Inr u)"

text \<open>A \<^verbatim>\<open>ModuleSpec\<close> is the element it was made from.\<close>

definition mk_ModuleSpec :: "(string \<Rightarrow> string \<Rightarrow> bool) \<Rightarrow> Element \<Rightarrow> bool \<Rightarrow> Element result" where
  "mk_ModuleSpec time_format e checked =
     bindE (if checked then check_module_specification time_format e else Inr ()) (\<lambda>_. Inr e)"

definition spec_part :: "string \<Rightarrow> Element \<Rightarrow> Element option result" where
  "spec_part name spec = bindE (contains name spec) (\<lambda>c. if c then el_get name spec else Inr None)"

definition getCommandsSpec :: "Element \<Rightarrow> Element option result" where
  "getCommandsSpec spec = spec_part ''commands'' spec"

definition getConfigSpec :: "Element \<Rightarrow> Element option result" where
  "getConfigSpec spec = spec_part ''config_data'' spec"

definition getStatisticsSpec :: "Element \<Rightarrow> Element option result" where
  "getStatisticsSpec spec = spec_part ''statistics'' spec"

definition getModuleName :: "Element \<Rightarrow> string result" where
  "getModuleName spec = get_string ''module_name'' spec"

definition getModuleDescription :: "Element \<Rightarrow> string result" where
  "getModuleDescription spec =
     bindE (contains ''module_description'' spec) (\<lambda>c. if c then get_string ''module_description'' spec else Inr [])"

definition moduleSpecFromStream ::
  "(string \<Rightarrow> string option) \<Rightarrow> (string \<Rightarrow> string \<Rightarrow> bool) \<Rightarrow> string \<Rightarrow> bool \<Rightarrow> Element result" where
  "moduleSpecFromStream strtod time_format inp checked =
     bindE (fromJSON strtod (2 * length inp + 1) inp) (\<lambda>(e, _).
     bindE (contains ''module_spec'' e) (\<lambda>c.
       if c then bindE (bindE (el_get ''module_spec'' e) deref) (\<lambda>s. mk_ModuleSpec time_format s checked)
       else Inl ModuleSpecError))"

definition moduleSpecFromFile ::
  "(string \<Rightarrow> string option) \<Rightarrow> (string \<Rightarrow> string \<Rightarrow> bool) \<Rightarrow> string option \<Rightarrow> bool \<Rightarrow> Element result" where
  "moduleSpecFromFile strtod time_format file checked =
     (case file of
        None \<Rightarrow> Inl ModuleSpecError
      | Some text \<Rightarrow> moduleSpecFromStream strtod time_format text checked)"

section \<open>Validation\<close>

definition check_type :: "Element \<Rightarrow> Element \<Rightarrow> bool result" where
  "check_type spec element =
     bindE (get_string ''item_type'' spec) (\<lambda>cur_item_type.
       Inr (cur_item_type = ''any'' \<or>
         (case getType element of
            integer \<Rightarrow> cur_item_type = ''integer''
          | real \<Rightarrow> cur_item_type = ''real''
          | boolean \<Rightarrow> cur_item_type = ''boolean''
          | string_type \<Rightarrow> cur_item_type = ''string''
          | list_type \<Rightarrow> cur_item_type = ''list''
          | map_type \<Rightarrow> cur_item_type = ''map'' \<or> cur_item_type = ''named_set''
          | _ \<Rightarrow> False)))"

text \<open>The verdict, and the errors that were added to the list.\<close>

type_synonym verdict = "(bool \<times> string list) result"

definition valid :: verdict where
  "valid = Inr (True, [])"

definition invalid :: "string \<Rightarrow> verdict" where
  "invalid msg = Inr (False, [msg])"

text \<open>\<open>andV\<close> goes on after a success and returns after a failure; \<open>alsoV\<close> goes on in both cases.\<close>

definition andV :: "verdict \<Rightarrow> verdict \<Rightarrow> verdict" where
  "andV v w = bindE v (\<lambda>(b, es). if b then bindE w (\<lambda>(c, es'). Inr (c, es @ es')) else Inr (False, es))"

definition alsoV :: "verdict \<Rightarrow> verdict \<Rightarrow> verdict" where
  "alsoV v w = bindE v (\<lambda>(b, es). bindE w (\<lambda>(c, es'). Inr (b \<and> c, es @ es')))"

lemma andV_cong [fundef_cong]: "v = v' \<Longrightarrow> (\<And>es. v' = Inr (True, es) \<Longrightarrow> w = w') \<Longrightarrow> andV v w = andV v' w'"
  by (cases v') (auto simp: andV_def)

lemma alsoV_cong [fundef_cong]: "v = v' \<Longrightarrow> (\<And>r. v' = Inr r \<Longrightarrow> w = w') \<Longrightarrow> alsoV v w = alsoV v' w'"
  by (cases v') (auto simp: alsoV_def)

definition unknown_items :: "Element list \<Rightarrow> (string \<times> Element) list \<Rightarrow> verdict" where
  "unknown_items specs data =
     foldr (\<lambda>(name, _) v.
       if name = ''version'' then v
       else bindE (mapE (get_string ''item_name'') specs) (\<lambda>names.
         if name \<in> set names then v else alsoV (invalid (''Unknown item '' @ name)) v)) data valid"

function validateItem :: "(string \<Rightarrow> string \<Rightarrow> bool) \<Rightarrow> bool \<Rightarrow> Element \<Rightarrow> Element \<Rightarrow> verdict"
  and validate_elements :: "(string \<Rightarrow> string \<Rightarrow> bool) \<Rightarrow> bool \<Rightarrow> Element \<Rightarrow> Element list \<Rightarrow> verdict"
  and validate_entries :: "(string \<Rightarrow> string \<Rightarrow> bool) \<Rightarrow> bool \<Rightarrow> Element \<Rightarrow> (string \<times> Element) list \<Rightarrow> verdict"
  and validateSpec :: "(string \<Rightarrow> string \<Rightarrow> bool) \<Rightarrow> bool \<Rightarrow> Element \<Rightarrow> Element \<Rightarrow> verdict"
  and validate_specs :: "(string \<Rightarrow> string \<Rightarrow> bool) \<Rightarrow> bool \<Rightarrow> Element list \<Rightarrow> Element \<Rightarrow> verdict" where
  "validateItem fmt full spec data =
     bindE (check_type spec data) (\<lambda>ok.
       if \<not> ok then invalid ''Type mismatch''
       else
         andV (case data of
                 EList els \<Rightarrow>
                   bindE (el_get ''list_item_spec'' spec) (\<lambda>p.
                     if els = [] then valid else bindE (deref p) (\<lambda>list_spec. validate_elements fmt full list_spec els))
               | EMap entries \<Rightarrow>
                   bindE (el_get ''map_item_spec'' spec) (\<lambda>p.
                     case p of
                       Some s \<Rightarrow>
                         bindE (listValue s) (\<lambda>specs.
                           alsoV (validate_specs fmt full specs data) (unknown_items specs entries))
                     | None \<Rightarrow>
                         bindE (el_get ''named_set_item_spec'' spec) (\<lambda>q.
                           if entries = [] then valid else bindE (deref q) (\<lambda>item_spec. validate_entries fmt full item_spec entries)))
               | _ \<Rightarrow> valid)
           (bindE (el_get ''item_format'' spec) (\<lambda>f.
              case f of
                None \<Rightarrow> valid
              | Some format \<Rightarrow> bindE (check_format fmt data format) (\<lambda>ok. if ok then valid else invalid ''Format mismatch''))))"
| "validate_elements fmt full list_spec [] = valid"
| "validate_elements fmt full list_spec (el # els) =
     bindE (check_type list_spec el) (\<lambda>ok.
       if \<not> ok then invalid ''Type mismatch''
       else bindE (get_string ''item_type'' list_spec) (\<lambda>type.
         andV (if type = ''map'' then validateItem fmt full list_spec el else valid)
           (validate_elements fmt full list_spec els)))"
| "validate_entries fmt full item_spec [] = valid"
| "validate_entries fmt full item_spec (entry # entries) =
     andV (validateItem fmt full item_spec (snd entry)) (validate_entries fmt full item_spec entries)"
| "validateSpec fmt full spec data =
     bindE (get_string ''item_name'' spec) (\<lambda>item_name.
     bindE (get_bool ''item_optional'' spec) (\<lambda>optional.
     bindE (el_get item_name data) (\<lambda>data_el.
       case data_el of
         Some el \<Rightarrow> validateItem fmt full spec el
       | None \<Rightarrow> if \<not> optional \<and> full then invalid ''Non-optional value missing'' else valid)))"
| "validate_specs fmt full [] data = valid"
| "validate_specs fmt full (spec # specs) data =
     alsoV (validateSpec fmt full spec data) (validate_specs fmt full specs data)"
  by pat_completeness auto
termination
  by (relation "measures
      [\<lambda>x. case x of
          Inl (Inl (_, _, s, _)) \<Rightarrow> size s
        | Inl (Inr (_, _, s, _)) \<Rightarrow> size s
        | Inr (Inl (_, _, s, _)) \<Rightarrow> size s
        | Inr (Inr (Inl (_, _, s, _))) \<Rightarrow> size s
        | Inr (Inr (Inr (_, _, ss, _))) \<Rightarrow> size_list size ss,
       \<lambda>x. case x of
          Inl (Inl _) \<Rightarrow> 0
        | Inl (Inr (_, _, _, els)) \<Rightarrow> length els
        | Inr (Inl (_, _, _, entries)) \<Rightarrow> length entries
        | Inr (Inr (Inl _)) \<Rightarrow> 1
        | Inr (Inr (Inr _)) \<Rightarrow> 0]")
    (auto dest!: el_get_size)

declare validateItem.simps [simp del] validateSpec.simps [simp del]

definition validateSpecList :: "(string \<Rightarrow> string \<Rightarrow> bool) \<Rightarrow> Element option \<Rightarrow> Element \<Rightarrow> bool \<Rightarrow> verdict" where
  "validateSpecList fmt spec data full =
     bindE (bindE (deref spec) listValue) (\<lambda>specs.
       alsoV (validate_specs fmt full specs data)
         (bindE (mapValue data) (\<lambda>entries. unknown_items specs entries)))"

definition validateConfig :: "(string \<Rightarrow> string \<Rightarrow> bool) \<Rightarrow> Element \<Rightarrow> Element \<Rightarrow> bool \<Rightarrow> verdict" where
  "validateConfig fmt module_spec data full =
     bindE (find_path module_spec ''config_data'') (\<lambda>spec. validateSpecList fmt spec data full)"

definition validateStatistics :: "(string \<Rightarrow> string \<Rightarrow> bool) \<Rightarrow> Element \<Rightarrow> Element \<Rightarrow> bool \<Rightarrow> verdict" where
  "validateStatistics fmt module_spec data full =
     bindE (find_path module_spec ''statistics'') (\<lambda>spec. validateSpecList fmt spec data full)"

fun find_command :: "string \<Rightarrow> Element list \<Rightarrow> Element option result" where
  "find_command command [] = Inr None"
| "find_command command (c # cs) =
     bindE (get_string ''command_name'' c) (\<lambda>name. if name = command then Inr (Some c) else find_command command cs)"

definition validateCommand :: "(string \<Rightarrow> string \<Rightarrow> bool) \<Rightarrow> Element \<Rightarrow> string \<Rightarrow> Element \<Rightarrow> verdict" where
  "validateCommand fmt module_spec command args =
     (if getType args \<noteq> map_type then invalid (''args for command '' @ command @ '' is not a map'')
      else bindE (find_path module_spec ''commands'') (\<lambda>p.
        case p of
          None \<Rightarrow> invalid ''The given module has no commands''
        | Some commands_spec \<Rightarrow>
            bindE (listValue commands_spec) (\<lambda>commands.
            bindE (find_command command commands) (\<lambda>c.
              case c of
                None \<Rightarrow> invalid (''Unknown command '' @ command)
              | Some cur_command \<Rightarrow>
                  bindE (el_get ''command_args'' cur_command) (\<lambda>spec. validateSpecList fmt spec args True)))))"

end
