(* ===== verification/Config_Parser.thy ===== *)
theory Config_Parser
  imports Config_Data Iface_Mgr
begin

text \<open>
  The configuration parsers of the two servers, \<^verbatim>\<open>src/bin/dhcp4/config_parser.cc\<close> and
  \<^verbatim>\<open>src/bin/dhcp6/config_parser.cc\<close>. The two files carry the same classes; where their texts only
  differ in the protocol the universe \<open>u\<close> is an argument, and \<^theory_text>\<open>Config_Parser6\<close> holds the
  instances of the second file and what is different in it. The global storages, the static counters
  of pools and subnets, the option objects, the configuration manager and the lease database are the
  fields of one state. A parser's \<^verbatim>\<open>build\<close> returns what the object keeps for
  \<^verbatim>\<open>commit\<close>.
\<close>

section \<open>The state\<close>

record cfg_state =
  uint32_defaults :: "u32 ValueStorage"
  string_defaults :: "string ValueStorage"
  option_defaults :: "nat spaces"
  option_def_intermediate :: "OptionDefinition spaces"
  cs_heap :: heap
  cs_pool_id :: u32
  cs_subnet_id :: u32
  cs_cfg :: CfgMgr
  cs_options4 :: "nat spaces list"
  cs_options6 :: "nat spaces list"
  cs_lmgr :: "Memfile_LeaseMgr option"

type_synonym 'a cfg = "(cfg_state, 'a) eff"

abbreviation on_pool_id :: "(u32, 'a) eff \<Rightarrow> 'a cfg" where
  "on_pool_id \<equiv> zoomS cs_pool_id (\<lambda>i s. s\<lparr>cs_pool_id := i\<rparr>)"

abbreviation on_subnet_id :: "(u32, 'a) eff \<Rightarrow> 'a cfg" where
  "on_subnet_id \<equiv> zoomS cs_subnet_id (\<lambda>i s. s\<lparr>cs_subnet_id := i\<rparr>)"

abbreviation on_lmgr :: "(Memfile_LeaseMgr option, 'a) eff \<Rightarrow> 'a cfg" where
  "on_lmgr \<equiv> zoomS cs_lmgr (\<lambda>p s. s\<lparr>cs_lmgr := p\<rparr>)"

section \<open>Parsers of single values\<close>

definition BooleanParser_build :: "Element \<Rightarrow> bool" where
  "BooleanParser_build value \<longleftrightarrow> str value = ''true''"

definition Uint32Parser_build :: "externals \<Rightarrow> Element \<Rightarrow> u32 result" where
  "Uint32Parser_build ext value =
     (case lexical_cast_int64 ext (str value) of
        None \<Rightarrow> Inl BadValue
      | Some chk \<Rightarrow>
          if chk > 4294967295 then Inl BadValue
          else if chk < 0 then Inl BadValue
          else Inr (word_of_int chk))"

definition Uint32Parser_build6 :: "externals \<Rightarrow> Element \<Rightarrow> u32 result" where
  "Uint32Parser_build6 ext value =
     (case lexical_cast_int64 ext (str value) of
        None \<Rightarrow> Inl DhcpConfigError
      | Some int64value \<Rightarrow>
          if int64value < 0 \<or> int64value > 4294967295 then Inl DhcpConfigError
          else Inr (word_of_int int64value))"

definition uint32_build :: "Universe \<Rightarrow> externals \<Rightarrow> Element \<Rightarrow> u32 result" where
  "uint32_build u = (if u = UV4 then Uint32Parser_build else Uint32Parser_build6)"

definition erase_all :: "string \<Rightarrow> char \<Rightarrow> string" where
  "erase_all s c = filter (\<lambda>x. x \<noteq> c) s"

definition StringParser_build :: "Element \<Rightarrow> string" where
  "StringParser_build value = erase_all (str value) (CHR 0x22)"

definition InterfaceListConfigParser_build :: "Element \<Rightarrow> string list result" where
  "InterfaceListConfigParser_build value = bindE (listValue value) (\<lambda>l. Inr (map str l))"

section \<open>Pools\<close>

text \<open>The part of a text before and after the first occurrence of a character.\<close>

definition before :: "char \<Rightarrow> string \<Rightarrow> string" where
  "before c s = takeWhile (\<lambda>x. x \<noteq> c) s"

definition after :: "char \<Rightarrow> string \<Rightarrow> string" where
  "after c s = tl (dropWhile (\<lambda>x. x \<noteq> c) s)"

definition new_pool_prefix :: "Universe \<Rightarrow> ioaddress \<Rightarrow> u8 \<Rightarrow> Pool cfg" where
  "new_pool_prefix u addr len =
     on_pool_id (if u = UV4 then Pool4_prefix addr len else Pool6_prefix TYPE_IA addr len)"

definition new_pool_range :: "Universe \<Rightarrow> ioaddress \<Rightarrow> ioaddress \<Rightarrow> Pool cfg" where
  "new_pool_range u mn mx =
     on_pool_id (if u = UV4 then Pool4_range mn mx else Pool6_range TYPE_IA mn mx)"

text \<open>One round of the loop. The length is cast to \<^verbatim>\<open>int\<close> and cut to eight bits.\<close>

definition PoolParser_entry :: "Universe \<Rightarrow> externals \<Rightarrow> Element \<Rightarrow> Pool cfg" where
  "PoolParser_entry u ext text_pool =
     bindS (liftS (stringValue text_pool)) (\<lambda>t.
       let t = erase_all (erase_all t (CHR '' '')) (CHR 0x09) in
       if CHR ''/'' \<in> set t then
         bindS (liftS (catch_all
           (bindE (IOAddress_text ext (before (CHR ''/'') t)) (\<lambda>addr.
              case lexical_cast_int ext (after (CHR ''/'') t) of
                None \<Rightarrow> Inl BadLexicalCast
              | Some prefix_len \<Rightarrow> Inr (addr, word_of_int prefix_len)))
           (\<lambda>_. Inl DhcpConfigError)))
           (\<lambda>(addr, len). new_pool_prefix u addr len)
       else if CHR ''-'' \<in> set t then
         bindS (liftS (IOAddress_text ext (before (CHR ''-'') t))) (\<lambda>mn.
         bindS (liftS (IOAddress_text ext (after (CHR ''-'') t))) (\<lambda>mx. new_pool_range u mn mx))
       else throwS DhcpConfigError)"

definition PoolParser_build :: "Universe \<Rightarrow> externals \<Rightarrow> Element \<Rightarrow> Pool list cfg" where
  "PoolParser_build u ext pools_list =
     bindS (liftS (listValue pools_list)) (mapS (PoolParser_entry u ext))"

section \<open>Option values\<close>

record param_values =
  pv_uint32 :: "u32 ValueStorage"
  pv_string :: "string ValueStorage"
  pv_boolean :: "bool ValueStorage"

definition no_values :: param_values where
  "no_values = \<lparr>pv_uint32 = Map.empty, pv_string = Map.empty, pv_boolean = Map.empty\<rparr>"

definition put_string :: "string \<Rightarrow> Element \<Rightarrow> param_values \<Rightarrow> param_values" where
  "put_string name e v = v\<lparr>pv_string := setParam name (StringParser_build e) (pv_string v)\<rparr>"

definition put_boolean :: "string \<Rightarrow> Element \<Rightarrow> param_values \<Rightarrow> param_values" where
  "put_boolean name e v = v\<lparr>pv_boolean := setParam name (BooleanParser_build e) (pv_boolean v)\<rparr>"

definition put_uint32 :: "Universe \<Rightarrow> externals \<Rightarrow> string \<Rightarrow> Element \<Rightarrow> param_values \<Rightarrow> param_values result" where
  "put_uint32 u ext name e v =
     bindE (uint32_build u ext e) (\<lambda>n. Inr (v\<lparr>pv_uint32 := setParam name n (pv_uint32 v)\<rparr>))"

definition option_data_param :: "Universe \<Rightarrow> externals \<Rightarrow> string \<times> Element \<Rightarrow> param_values \<Rightarrow> param_values result" where
  "option_data_param u ext param v =
     (case param of (name, e) \<Rightarrow>
        if name = ''name'' \<or> name = ''data'' \<or> name = ''space'' then Inr (put_string name e v)
        else if name = ''code'' then put_uint32 u ext name e v
        else if name = ''csv-format'' then Inr (put_boolean name e v)
        else Inl DhcpConfigError)"

definition own_space :: "Universe \<Rightarrow> string" where
  "own_space u = (if u = UV4 then ''dhcp4'' else ''dhcp6'')"

definition other_space :: "Universe \<Rightarrow> string" where
  "other_space u = (if u = UV4 then ''dhcp6'' else ''dhcp4'')"

definition max_code :: "Universe \<Rightarrow> u32" where
  "max_code u = (if u = UV4 then 255 else 65535)"

text \<open>The definition of the option: a standard one, which may be missing, or a configured one.\<close>

definition find_option_def ::
  "Universe \<Rightarrow> OptionDefinition spaces \<Rightarrow> string \<Rightarrow> u32 \<Rightarrow> OptionDefinition option result" where
  "find_option_def u defs option_space option_code =
     (if option_space = own_space u \<and> isStandardOption u (ucast option_code) then getOptionDef u (ucast option_code)
      else if option_space = other_space u then Inl DhcpConfigError
      else case filter (\<lambda>d. ucast (def_code d) = option_code) (sp_getItems option_space defs) of
        d # _ \<Rightarrow> Inr (Some d)
      | [] \<Rightarrow> Inl DhcpConfigError)"

text \<open>The option from its value, in the CSV format or as hexadecimal digits.\<close>

definition option_from_data ::
  "Universe \<Rightarrow> externals \<Rightarrow> OptionDefinition option \<Rightarrow> string \<Rightarrow> u32 \<Rightarrow> string \<Rightarrow> bool \<Rightarrow> opt result" where
  "option_from_data u ext def option_name option_code option_data csv_format =
     bindE (if csv_format then Inr [] else
              catch_all (decodeHex (bytes_of option_data)) (\<lambda>_. Inl DhcpConfigError)) (\<lambda>binary.
       case def of
         None \<Rightarrow> if csv_format then Inl DhcpConfigError else mk_Option u (ucast option_code) binary
       | Some d \<Rightarrow>
           if def_name d \<noteq> option_name then Inl DhcpConfigError
           else catch_isc
             (bindE (getOptionDefs u) (\<lambda>defs.
                if csv_format then optionFactory_values ext defs d u (ucast option_code) (tokens option_data '','')
                else optionFactory defs d u (ucast option_code) binary))
             (\<lambda>_. Inl DhcpConfigError))"

definition createOption ::
  "Universe \<Rightarrow> externals \<Rightarrow> OptionDefinition spaces \<Rightarrow> param_values \<Rightarrow> (string \<times> opt) result" where
  "createOption u ext defs v =
     bindE (getParam ''code'' (pv_uint32 v)) (\<lambda>option_code.
       if option_code = 0 then Inl DhcpConfigError
       else if option_code > max_code u then Inl DhcpConfigError
       else bindE (getParam ''name'' (pv_string v)) (\<lambda>option_name.
         if option_name = [] then Inl DhcpConfigError
         else if CHR '' '' \<in> set option_name then Inl DhcpConfigError
         else bindE (getParam ''space'' (pv_string v)) (\<lambda>option_space.
           if \<not> validateName option_space then Inl DhcpConfigError
           else bindE (find_option_def u defs option_space option_code) (\<lambda>def.
             bindE (getParam ''data'' (pv_string v)) (\<lambda>option_data.
             bindE (getParam ''csv-format'' (pv_boolean v)) (\<lambda>csv_format.
             bindE (option_from_data u ext def option_name option_code option_data csv_format) (\<lambda>option.
               Inr (option_space, option))))))))"

definition OptionDataParser_build :: "Universe \<Rightarrow> externals \<Rightarrow> Element \<Rightarrow> (string \<times> nat) cfg" where
  "OptionDataParser_build u ext option_data_entries =
     bindS (askS (\<lambda>s.
       bindE (mapValue option_data_entries) (\<lambda>m.
       bindE (foldE (option_data_param u ext) m no_values) (createOption u ext (option_def_intermediate s)))))
     (\<lambda>(option_space, option) s.
        case new_obj option (cs_heap s) of (r, h) \<Rightarrow> (Inr (option_space, r), s\<lparr>cs_heap := h\<rparr>))"

definition OptionDataParser_commit :: "heap \<Rightarrow> string \<times> nat \<Rightarrow> nat spaces \<Rightarrow> nat spaces" where
  "OptionDataParser_commit h desc options =
     (case desc of (option_space, r) \<Rightarrow>
        let items = sp_getItems option_space options;
            others = filter (\<lambda>x. obj_type h x \<noteq> obj_type h r) items;
            options = (if items = [] then options else sp_set option_space others options)
        in sp_addItem r option_space options)"

definition OptionDataListParser_build :: "Universe \<Rightarrow> externals \<Rightarrow> Element \<Rightarrow> (string \<times> nat) list cfg" where
  "OptionDataListParser_build u ext option_data_list =
     bindS (liftS (listValue option_data_list)) (mapS (OptionDataParser_build u ext))"

text \<open>The storage that takes the place of \<^verbatim>\<open>*options_\<close>.\<close>

definition OptionDataListParser_commit :: "heap \<Rightarrow> (string \<times> nat) list \<Rightarrow> nat spaces" where
  "OptionDataListParser_commit h parsers = fold (OptionDataParser_commit h) parsers []"

section \<open>Option definitions\<close>

definition option_def_param :: "Universe \<Rightarrow> externals \<Rightarrow> string \<times> Element \<Rightarrow> param_values \<Rightarrow> param_values result" where
  "option_def_param u ext param v =
     (case param of (entry, e) \<Rightarrow>
        if entry = ''name'' \<or> entry = ''type'' \<or> entry = ''record-types'' \<or> entry = ''space'' \<or>
           entry = ''encapsulate'' then Inr (put_string entry e v)
        else if entry = ''code'' then put_uint32 u ext entry e v
        else if entry = ''array'' then Inr (put_boolean entry e v)
        else Inl DhcpConfigError)"

text \<open>\<^verbatim>\<open>boost::trim\<close>\<close>

definition boost_trim :: "string \<Rightarrow> string" where
  "boost_trim s =
     (let sp = (\<lambda>c. isspace (of_char c)) in rev (dropWhile sp (rev (dropWhile sp s))))"

definition add_record_type :: "string \<Rightarrow> OptionDefinition \<Rightarrow> OptionDefinition result" where
  "add_record_type record_type def =
     catch_isc
       (let record_type = boost_trim record_type in
        if record_type \<noteq> [] then addRecordField (getDataType record_type) def else Inr def)
       (\<lambda>_. Inl DhcpConfigError)"

text \<open>The constructors of a definition take a 16-bit code.\<close>

definition createOptionDef :: "param_values \<Rightarrow> (string \<times> OptionDefinition) result" where
  "createOptionDef v =
     bindE (getParam ''space'' (pv_string v)) (\<lambda>space.
       if \<not> validateName space then Inl DhcpConfigError
       else
         bindE (getParam ''name'' (pv_string v)) (\<lambda>name.
         bindE (getParam ''code'' (pv_uint32 v)) (\<lambda>code.
         bindE (getParam ''type'' (pv_string v)) (\<lambda>type.
         bindE (getParam ''array'' (pv_boolean v)) (\<lambda>array_type.
         bindE (getParam ''encapsulate'' (pv_string v)) (\<lambda>encapsulates.
         bindE
           (if encapsulates \<noteq> [] then
              (if array_type then Inl DhcpConfigError
               else if encapsulates = space then Inl DhcpConfigError
               else Inr (mk_OptionDefinition_encap name (ucast code) (getDataType type) encapsulates))
            else Inr (mk_OptionDefinition name (ucast code) (getDataType type) array_type)) (\<lambda>def.
         bindE (getParam ''record-types'' (pv_string v)) (\<lambda>record_types.
         bindE (foldE add_record_type (tokens record_types '','') def) (\<lambda>def.
         bindE (catch_isc (validate def) (\<lambda>_. Inl DhcpConfigError)) (\<lambda>_.
           Inr (space, def)))))))))))"

definition OptionDefParser_build ::
  "Universe \<Rightarrow> externals \<Rightarrow> OptionDefinition spaces \<Rightarrow> Element \<Rightarrow> (string \<times> OptionDefinition) result" where
  "OptionDefParser_build u ext storage option_def =
     bindE (mapValue option_def) (\<lambda>m.
     bindE (foldE (option_def_param u ext) m no_values) (\<lambda>v.
     bindE (createOptionDef v) (\<lambda>(space, def).
       if defs_with_code (sp_getItems space storage) (def_code def) \<noteq> [] then Inl DhcpConfigError
       else Inr (space, def))))"

definition OptionDefParser_commit :: "string \<times> OptionDefinition \<Rightarrow> OptionDefinition spaces \<Rightarrow> OptionDefinition spaces" where
  "OptionDefParser_commit p storage =
     (case p of (space, def) \<Rightarrow> if validateName space then sp_addItem def space storage else storage)"

definition OptionDefListParser_entry :: "Universe \<Rightarrow> externals \<Rightarrow> Element \<Rightarrow> unit cfg" where
  "OptionDefListParser_entry u ext option_def =
     bindS (askS (\<lambda>s. OptionDefParser_build u ext (option_def_intermediate s) option_def)) (\<lambda>p.
       modS (\<lambda>s. s\<lparr>option_def_intermediate := OptionDefParser_commit p (option_def_intermediate s)\<rparr>))"

definition OptionDefListParser_build :: "Universe \<Rightarrow> externals \<Rightarrow> Element \<Rightarrow> unit cfg" where
  "OptionDefListParser_build u ext option_def_list =
     thenS (modS (\<lambda>s. s\<lparr>option_def_intermediate := []\<rparr>))
       (bindS (liftS (listValue option_def_list)) (\<lambda>l.
          thenS (mapS (OptionDefListParser_entry u ext) l) (retS ())))"

definition OptionDefListParser_commit :: "unit cfg" where
  "OptionDefListParser_commit =
     bindS (askS (\<lambda>s. Inr (option_def_intermediate s))) (\<lambda>defs.
     thenS (modS (\<lambda>s. s\<lparr>cs_cfg := deleteOptionDefs (cs_cfg s)\<rparr>))
       (foldS (\<lambda>(space_name, items) _.
          foldS (\<lambda>def _ s.
            case addOptionDef (Some def) space_name (cs_cfg s) of
              Inl e \<Rightarrow> (Inl e, s)
            | Inr c \<Rightarrow> (Inr (), s\<lparr>cs_cfg := c\<rparr>)) items ()) defs ()))"

section \<open>Subnets\<close>

datatype parser_kind = KUint32 | KString | KPool | KOptionData

datatype parsed =
    PUint32 string u32
  | PString string string
  | PPools "Pool list"
  | POptions "(string \<times> nat) list"

record subnet_values =
  sv_uint32 :: "u32 ValueStorage"
  sv_string :: "string ValueStorage"
  sv_pools :: "Pool list"
  sv_options :: "nat spaces"

definition no_subnet_values :: subnet_values where
  "no_subnet_values = \<lparr>sv_uint32 = Map.empty, sv_string = Map.empty, sv_pools = [], sv_options = []\<rparr>"

definition createSubnet4ConfigParser :: "string \<Rightarrow> parser_kind result" where
  "createSubnet4ConfigParser config_id =
     (if config_id \<in> {''valid-lifetime'', ''renew-timer'', ''rebind-timer''} then Inr KUint32
      else if config_id = ''subnet'' then Inr KString
      else if config_id = ''pool'' then Inr KPool
      else if config_id = ''option-data'' then Inr KOptionData
      else Inl NotImplemented)"

text \<open>The four \<^verbatim>\<open>buildParser\<close> casts; one of them fits every parser of the factory.\<close>

definition subnet_param ::
  "Universe \<Rightarrow> externals \<Rightarrow> (string \<Rightarrow> parser_kind result) \<Rightarrow> string \<times> Element \<Rightarrow> parsed cfg" where
  "subnet_param u ext factory param =
     (case param of (name, e) \<Rightarrow>
        bindS (liftS (factory name)) (\<lambda>kind.
          case kind of
            KUint32 \<Rightarrow> bindS (liftS (uint32_build u ext e)) (\<lambda>v. retS (PUint32 name v))
          | KString \<Rightarrow> retS (PString name (StringParser_build e))
          | KPool \<Rightarrow> bindS (PoolParser_build u ext e) (\<lambda>ps. retS (PPools ps))
          | KOptionData \<Rightarrow> bindS (OptionDataListParser_build u ext e) (\<lambda>os. retS (POptions os))))"

fun commit_parsed :: "heap \<Rightarrow> parsed \<Rightarrow> subnet_values \<Rightarrow> subnet_values" where
  "commit_parsed h (PUint32 name v) sv = sv\<lparr>sv_uint32 := setParam name v (sv_uint32 sv)\<rparr>"
| "commit_parsed h (PString name v) sv = sv\<lparr>sv_string := setParam name v (sv_string sv)\<rparr>"
| "commit_parsed h (PPools ps) sv = sv\<lparr>sv_pools := sv_pools sv @ ps\<rparr>"
| "commit_parsed h (POptions os) sv = sv\<lparr>sv_options := OptionDataListParser_commit h os\<rparr>"

text \<open>\<^verbatim>\<open>Subnet::addOption\<close> on the objects.\<close>

definition subnet_addOption :: "Universe \<Rightarrow> heap \<Rightarrow> nat \<Rightarrow> string \<Rightarrow> nat spaces \<Rightarrow> nat spaces result" where
  "subnet_addOption u h r option_space opts =
     (if \<not> validateName option_space then Inl BadValue
      else if universe (ob_option (h ! r)) \<noteq> u then Inl BadValue
      else Inr (sp_addItem r option_space opts))"

definition encapsulated_by :: "Universe \<Rightarrow> OptionDefinition spaces \<Rightarrow> string \<Rightarrow> u16 \<Rightarrow> string result" where
  "encapsulated_by u defs option_space code =
     bindE (if option_space = own_space u \<and> isStandardOption u code then getOptionDef u code
            else Inr (case defs_with_code (sp_getItems option_space defs) code of [] \<Rightarrow> None | d # _ \<Rightarrow> Some d)) (\<lambda>def.
       Inr (case def of None \<Rightarrow> [] | Some d \<Rightarrow> encapsulated_space d))"

definition add_suboption :: "nat \<Rightarrow> nat \<Rightarrow> unit \<Rightarrow> unit cfg" where
  "add_suboption r sub _ s =
     (case obj_addOption r sub (cs_heap s) of
        Inl e \<Rightarrow> (Inl e, s)
      | Inr h \<Rightarrow> (Inr (), s\<lparr>cs_heap := h\<rparr>))"

definition appendSubOptions :: "Universe \<Rightarrow> string \<Rightarrow> nat \<Rightarrow> unit cfg" where
  "appendSubOptions u option_space option =
     bindS (askS (\<lambda>s. encapsulated_by u (option_def_intermediate s) option_space (obj_type (cs_heap s) option)))
       (\<lambda>encapsulated_space.
          if encapsulated_space = [] then retS ()
          else bindS (askS (\<lambda>s. Inr (sp_getItems encapsulated_space (option_defaults s)))) (\<lambda>sub_opts.
            foldS (add_suboption option) sub_opts ()))"

definition add_own_option :: "Universe \<Rightarrow> string \<Rightarrow> nat \<Rightarrow> nat spaces \<Rightarrow> nat spaces cfg" where
  "add_own_option u option_space option opts =
     thenS (appendSubOptions u option_space option)
       (askS (\<lambda>s. subnet_addOption u (cs_heap s) option option_space opts))"

definition add_global_option :: "Universe \<Rightarrow> string \<Rightarrow> nat \<Rightarrow> nat spaces \<Rightarrow> nat spaces cfg" where
  "add_global_option u option_space option opts =
     bindS (askS (\<lambda>s. Inr (list_ex (\<lambda>x. obj_type (cs_heap s) x = obj_type (cs_heap s) option)
                             (sp_getItems option_space opts)))) (\<lambda>existing.
       if existing then retS opts else add_own_option u option_space option opts)"

definition over_spaces :: "(string \<Rightarrow> nat \<Rightarrow> nat spaces \<Rightarrow> nat spaces cfg) \<Rightarrow> nat spaces \<Rightarrow> nat spaces \<Rightarrow> nat spaces cfg" where
  "over_spaces f container = foldS (\<lambda>(option_space, items) opts. foldS (f option_space) items opts) container"

definition subnet_options :: "Universe \<Rightarrow> nat spaces \<Rightarrow> nat spaces cfg" where
  "subnet_options u own =
     bindS (over_spaces (add_own_option u) own []) (\<lambda>opts.
     bindS (askS (\<lambda>s. Inr (option_defaults s))) (\<lambda>globals.
       over_spaces (add_global_option u) globals opts))"

text \<open>A parameter of the subnet, or else the global one.\<close>

definition inherited_param :: "string \<Rightarrow> u32 ValueStorage \<Rightarrow> Triplet cfg" where
  "inherited_param name values =
     askS (\<lambda>s. bindE
       (case getParam name values of
          Inr v \<Rightarrow> Inr v
        | Inl _ \<Rightarrow> getParam name (uint32_defaults s)) (\<lambda>v. Inr (Triplet_fixed v)))"

text \<open>The prefix of the subnet; the length is cast to \<^verbatim>\<open>unsigned int\<close> and cut to eight bits.\<close>

definition subnet_prefix :: "externals \<Rightarrow> string \<Rightarrow> (ioaddress \<times> u8) result" where
  "subnet_prefix ext subnet_txt =
     (let t = erase_all (erase_all subnet_txt (CHR '' '')) (CHR 0x09) in
      if CHR ''/'' \<notin> set t then Inl DhcpConfigError
      else bindE (IOAddress_text ext (before (CHR ''/'') t)) (\<lambda>addr.
        case lexical_cast_uint ext (after (CHR ''/'') t) of
          None \<Rightarrow> Inl BadLexicalCast
        | Some n \<Rightarrow> Inr (addr, word_of_nat n)))"

definition createSubnet4 :: "externals \<Rightarrow> subnet_values \<Rightarrow> (Subnet \<times> nat spaces) cfg" where
  "createSubnet4 ext sv =
     bindS (liftS (bindE (getParam ''subnet'' (sv_string sv)) (subnet_prefix ext))) (\<lambda>(addr, len).
     bindS (inherited_param ''renew-timer'' (sv_uint32 sv)) (\<lambda>t1.
     bindS (inherited_param ''rebind-timer'' (sv_uint32 sv)) (\<lambda>t2.
     bindS (inherited_param ''valid-lifetime'' (sv_uint32 sv)) (\<lambda>valid.
     bindS (on_subnet_id (mk_Subnet4 addr len t1 t2 valid)) (\<lambda>subnet.
     bindS (liftS (foldE Subnet_addPool (sv_pools sv) subnet)) (\<lambda>subnet.
     bindS (subnet_options UV4 (sv_options sv)) (\<lambda>opts.
       retS (subnet, opts))))))))"

definition build_subnet_values ::
  "Universe \<Rightarrow> externals \<Rightarrow> (string \<Rightarrow> parser_kind result) \<Rightarrow> Element \<Rightarrow> subnet_values cfg" where
  "build_subnet_values u ext factory subnet =
     bindS (liftS (mapValue subnet)) (\<lambda>m.
     bindS (mapS (subnet_param u ext factory) m) (\<lambda>parsers.
       askS (\<lambda>s. Inr (fold (commit_parsed (cs_heap s)) parsers no_subnet_values))))"

definition Subnet4ConfigParser_build :: "externals \<Rightarrow> Element \<Rightarrow> (Subnet \<times> nat spaces) cfg" where
  "Subnet4ConfigParser_build ext subnet =
     bindS (build_subnet_values UV4 ext createSubnet4ConfigParser subnet) (createSubnet4 ext)"

definition Subnet4ConfigParser_commit :: "Subnet \<times> nat spaces \<Rightarrow> unit cfg" where
  "Subnet4ConfigParser_commit p =
     modS (\<lambda>s. s\<lparr>cs_cfg := addSubnet4 (fst p) (cs_cfg s), cs_options4 := cs_options4 s @ [snd p]\<rparr>)"

definition Subnets4ListConfigParser_build :: "externals \<Rightarrow> Element \<Rightarrow> (Subnet \<times> nat spaces) list cfg" where
  "Subnets4ListConfigParser_build ext subnets_list =
     bindS (liftS (listValue subnets_list)) (mapS (Subnet4ConfigParser_build ext))"

definition Subnets4ListConfigParser_commit :: "(Subnet \<times> nat spaces) list \<Rightarrow> unit cfg" where
  "Subnets4ListConfigParser_commit subnets =
     thenS (modS (\<lambda>s. s\<lparr>cs_cfg := deleteSubnets4 (cs_cfg s), cs_options4 := []\<rparr>))
       (thenS (mapS Subnet4ConfigParser_commit subnets) (retS ()))"

section \<open>The configuration of the server\<close>

datatype global_kind = GUint32 | GInterface | GSubnets | GOptionData | GOptionDef | GString | GLeaseDatabase

definition createGlobalDhcp4ConfigParser :: "string \<Rightarrow> global_kind result" where
  "createGlobalDhcp4ConfigParser config_id =
     (if config_id \<in> {''valid-lifetime'', ''renew-timer'', ''rebind-timer''} then Inr GUint32
      else if config_id = ''interface'' then Inr GInterface
      else if config_id = ''subnet4'' then Inr GSubnets
      else if config_id = ''option-data'' then Inr GOptionData
      else if config_id = ''option-def'' then Inr GOptionDef
      else if config_id = ''version'' then Inr GString
      else if config_id = ''lease-database'' then Inr GLeaseDatabase
      else Inl NotImplemented)"

text \<open>\<^verbatim>\<open>build\<close> and \<^verbatim>\<open>commit\<close> of a parser that the others depend on.\<close>

definition independent_param :: "Universe \<Rightarrow> externals \<Rightarrow> global_kind \<Rightarrow> string \<Rightarrow> Element \<Rightarrow> unit cfg" where
  "independent_param u ext kind name e =
     (case kind of
        GUint32 \<Rightarrow>
          bindS (liftS (uint32_build u ext e)) (\<lambda>v.
            modS (\<lambda>s. s\<lparr>uint32_defaults := setParam name v (uint32_defaults s)\<rparr>))
      | GString \<Rightarrow>
          modS (\<lambda>s. s\<lparr>string_defaults := setParam name (StringParser_build e) (string_defaults s)\<rparr>)
      | GInterface \<Rightarrow> thenS (liftS (InterfaceListConfigParser_build e)) (retS ())
      | GOptionDef \<Rightarrow> thenS (OptionDefListParser_build u ext e) OptionDefListParser_commit
      | GLeaseDatabase \<Rightarrow> bindS (liftS (DbAccessParser_build e)) (\<lambda>values. on_lmgr (DbAccessParser_commit values))
      | _ \<Rightarrow> retS ())"

definition group_param ::
  "Universe \<Rightarrow> externals \<Rightarrow> (string \<Rightarrow> global_kind result) \<Rightarrow> string \<Rightarrow> string \<times> Element \<Rightarrow> unit cfg" where
  "group_param u ext factory subnet_key config_pair =
     (case config_pair of (name, e) \<Rightarrow>
        bindS (liftS (factory name)) (\<lambda>kind.
          if name = subnet_key \<or> name = ''option-data'' then retS ()
          else independent_param u ext kind name e))"

definition global_options :: "Universe \<Rightarrow> externals \<Rightarrow> Element \<Rightarrow> unit cfg" where
  "global_options u ext e =
     bindS (OptionDataListParser_build u ext e) (\<lambda>parsers.
       modS (\<lambda>s. s\<lparr>option_defaults := OptionDataListParser_commit (cs_heap s) parsers\<rparr>))"

text \<open>The first \<^verbatim>\<open>try\<close> block: everything but the commit of the subnets.\<close>

definition parse_config ::
  "Universe \<Rightarrow> externals \<Rightarrow> (string \<Rightarrow> global_kind result) \<Rightarrow> string \<Rightarrow> (Element \<Rightarrow> 'x list cfg) \<Rightarrow>
     Element \<Rightarrow> 'x list option cfg" where
  "parse_config u ext factory subnet_key build_subnets config_set =
     bindS (liftS (mapValue config_set)) (\<lambda>values_map.
     thenS (mapS (group_param u ext factory subnet_key) values_map)
       (thenS (case map_of values_map ''option-data'' of
                 None \<Rightarrow> retS ()
               | Some e \<Rightarrow> global_options u ext e)
          (case map_of values_map subnet_key of
             None \<Rightarrow> retS None
           | Some e \<Rightarrow> bindS (build_subnets e) (\<lambda>subnets. retS (Some subnets)))))"

definition rollback :: "cfg_state \<Rightarrow> cfg_state \<Rightarrow> cfg_state" where
  "rollback saved s =
     s\<lparr>uint32_defaults := uint32_defaults saved, string_defaults := string_defaults saved,
       option_defaults := option_defaults saved, option_def_intermediate := option_def_intermediate saved\<rparr>"

text \<open>Both \<^verbatim>\<open>try\<close> blocks and the rollback; the value is the code of the answer.\<close>

definition run_config :: "'x list option cfg \<Rightarrow> ('x list \<Rightarrow> unit cfg) \<Rightarrow> nat cfg" where
  "run_config parse commit s =
     (case parse s of
        (Inl e, s') \<Rightarrow> if is_exception e then (Inr 1, rollback s s') else (Inl e, s')
      | (Inr subnets, s') \<Rightarrow>
          (case (case subnets of None \<Rightarrow> retS () | Some l \<Rightarrow> commit l) s' of
             (Inl e, t) \<Rightarrow> if is_exception e then (Inr 2, rollback s t) else (Inl e, t)
           | (Inr _, t) \<Rightarrow> (Inr 0, t)))"

definition configureDhcp4Server :: "externals \<Rightarrow> Element option \<Rightarrow> nat cfg" where
  "configureDhcp4Server ext config_set =
     (case config_set of
        None \<Rightarrow> retS 1
      | Some c \<Rightarrow>
          run_config
            (parse_config UV4 ext createGlobalDhcp4ConfigParser ''subnet4'' (Subnets4ListConfigParser_build ext) c)
            Subnets4ListConfigParser_commit)"

section \<open>What the server sees\<close>

text \<open>The configuration with the option objects unfolded; the sub-options nest at most as deep as there are
  objects, unless a chain of them closes.\<close>

definition load_spaces :: "heap \<Rightarrow> nat spaces \<Rightarrow> OptionSpaceCollection option" where
  "load_spaces h sp =
     (if list_all (\<lambda>(_, rs). list_all (\<lambda>r. load_opt (Suc (length h)) h r \<noteq> None) rs) sp
      then Some (map_of (map (\<lambda>(k, rs). (k, map (\<lambda>r. \<lparr>od_option = load_opt (Suc (length h)) h r, od_persistent = False\<rparr>) rs)) sp))
      else None)"

definition server_view :: "cfg_state \<Rightarrow> CfgMgr option" where
  "server_view s =
     (let o4 = map (load_spaces (cs_heap s)) (cs_options4 s); o6 = map (load_spaces (cs_heap s)) (cs_options6 s) in
      if list_ex Option.is_none o4 \<or> list_ex Option.is_none o6 then None
      else Some ((cs_cfg s)\<lparr>
        cfg_subnets4 := map2 (\<lambda>sn o1. sn\<lparr>sn_option_spaces := the o1\<rparr>) (cfg_subnets4 (cs_cfg s)) o4,
        cfg_subnets6 := map2 (\<lambda>sn o1. sn\<lparr>sn_option_spaces := the o1\<rparr>) (cfg_subnets6 (cs_cfg s)) o6\<rparr>))"

definition initial_state :: cfg_state where
  "initial_state = \<lparr>uint32_defaults = Map.empty, string_defaults = Map.empty, option_defaults = [],
     option_def_intermediate = [], cs_heap = [], cs_pool_id = 0, cs_subnet_id = 0, cs_cfg = mk_CfgMgr,
     cs_options4 = [], cs_options6 = [], cs_lmgr = None\<rparr>"

end
