(* ===== verification/Config_Parser6.thy ===== *)
theory Config_Parser6
  imports Config_Parser
begin

text \<open>
  The parsers of \<^verbatim>\<open>src/bin/dhcp6/config_parser.cc\<close> that differ from those of the DHCPv4 server: a
  subnet has a preferred lifetime and may name the interface its clients are attached to, which must be an
  interface of the system, and an unknown parameter of a subnet is another error.
\<close>

section \<open>Subnets\<close>

definition createSubnet6ConfigParser :: "string \<Rightarrow> parser_kind result" where
  "createSubnet6ConfigParser config_id =
     (if config_id \<in> {''preferred-lifetime'', ''valid-lifetime'', ''renew-timer'', ''rebind-timer''} then Inr KUint32
      else if config_id = ''subnet'' then Inr KString
      else if config_id = ''pool'' then Inr KPool
      else if config_id = ''option-data'' then Inr KOptionData
      else if config_id = ''interface'' then Inr KString
      else Inl DhcpConfigError)"

text \<open>The interface is optional: an empty name is the same as none.\<close>

definition subnet_iface :: "string ValueStorage \<Rightarrow> string" where
  "subnet_iface values = (case getParam ''interface'' values of Inl _ \<Rightarrow> [] | Inr iface \<Rightarrow> iface)"

definition configure_iface :: "IfaceMgr \<Rightarrow> string \<Rightarrow> Subnet6 \<Rightarrow> Subnet6 result" where
  "configure_iface ifaces iface subnet =
     (if iface = [] then Inr subnet
      else if getIface iface ifaces = None then Inl DhcpConfigError
      else Inr (setIface iface subnet))"

definition createSubnet6 :: "externals \<Rightarrow> IfaceMgr \<Rightarrow> subnet_values \<Rightarrow> (Subnet6 \<times> nat spaces) cfg" where
  "createSubnet6 ext ifaces sv =
     bindS (liftS (bindE (getParam ''subnet'' (sv_string sv)) (subnet_prefix ext))) (\<lambda>(addr, len).
     bindS (inherited_param ''renew-timer'' (sv_uint32 sv)) (\<lambda>t1.
     bindS (inherited_param ''rebind-timer'' (sv_uint32 sv)) (\<lambda>t2.
     bindS (inherited_param ''preferred-lifetime'' (sv_uint32 sv)) (\<lambda>pref.
     bindS (inherited_param ''valid-lifetime'' (sv_uint32 sv)) (\<lambda>valid.
     bindS (on_subnet_id (mk_Subnet6 addr len t1 t2 pref valid)) (\<lambda>subnet.
     bindS (liftS (foldE Subnet_addPool (sv_pools sv) subnet)) (\<lambda>subnet.
     bindS (liftS (configure_iface ifaces (subnet_iface (sv_string sv)) subnet)) (\<lambda>subnet.
     bindS (subnet_options UV6 (sv_options sv)) (\<lambda>opts.
       retS (subnet, opts))))))))))"

definition Subnet6ConfigParser_build :: "externals \<Rightarrow> IfaceMgr \<Rightarrow> Element \<Rightarrow> (Subnet6 \<times> nat spaces) cfg" where
  "Subnet6ConfigParser_build ext ifaces subnet =
     bindS (build_subnet_values UV6 ext createSubnet6ConfigParser subnet) (createSubnet6 ext ifaces)"

definition Subnet6ConfigParser_commit :: "Subnet6 \<times> nat spaces \<Rightarrow> unit cfg" where
  "Subnet6ConfigParser_commit p =
     modS (\<lambda>s. s\<lparr>cs_cfg := addSubnet6 (fst p) (cs_cfg s), cs_options6 := cs_options6 s @ [snd p]\<rparr>)"

definition Subnets6ListConfigParser_build :: "externals \<Rightarrow> IfaceMgr \<Rightarrow> Element \<Rightarrow> (Subnet6 \<times> nat spaces) list cfg" where
  "Subnets6ListConfigParser_build ext ifaces subnets_list =
     bindS (liftS (listValue subnets_list)) (mapS (Subnet6ConfigParser_build ext ifaces))"

definition Subnets6ListConfigParser_commit :: "(Subnet6 \<times> nat spaces) list \<Rightarrow> unit cfg" where
  "Subnets6ListConfigParser_commit subnets =
     thenS (modS (\<lambda>s. s\<lparr>cs_cfg := deleteSubnets6 (cs_cfg s), cs_options6 := []\<rparr>))
       (thenS (mapS Subnet6ConfigParser_commit subnets) (retS ()))"

section \<open>The configuration of the server\<close>

definition createGlobalDhcpConfigParser :: "string \<Rightarrow> global_kind result" where
  "createGlobalDhcpConfigParser config_id =
     (if config_id \<in> {''preferred-lifetime'', ''valid-lifetime'', ''renew-timer'', ''rebind-timer''} then Inr GUint32
      else if config_id = ''interface'' then Inr GInterface
      else if config_id = ''subnet6'' then Inr GSubnets
      else if config_id = ''option-data'' then Inr GOptionData
      else if config_id = ''option-def'' then Inr GOptionDef
      else if config_id = ''version'' then Inr GString
      else if config_id = ''lease-database'' then Inr GLeaseDatabase
      else Inl NotImplemented)"

definition configureDhcp6Server :: "externals \<Rightarrow> IfaceMgr \<Rightarrow> Element option \<Rightarrow> nat cfg" where
  "configureDhcp6Server ext ifaces config_set =
     (case config_set of
        None \<Rightarrow> retS 1
      | Some c \<Rightarrow>
          run_config
            (parse_config UV6 ext createGlobalDhcpConfigParser ''subnet6'' (Subnets6ListConfigParser_build ext ifaces) c)
            Subnets6ListConfigParser_commit)"

end
