(* ===== verification/Cc_Session.thy ===== *)
theory Cc_Session
  imports Module_Spec Config_Parser6
begin

text \<open>
  The configuration session of a module, \<^verbatim>\<open>src/lib/config/config_data.cc\<close> and \<^verbatim>\<open>ccsession.cc\<close>, and the handlers
  that the controlled DHCP servers install in it, \<^verbatim>\<open>src/bin/dhcp4/ctrl_dhcp4_srv.cc\<close> and
  \<^verbatim>\<open>src/bin/dhcp6/ctrl_dhcp6_srv.cc\<close>. The transport of the messages is not modelled: a message is the pair of
  its routing header and its payload, and what the configuration manager answers is an argument. \<open>remote\<close> is the
  handler of the other modules' configurations and \<open>describe\<close> the text of an answer, by its code.
\<close>

section \<open>Configuration data\<close>

function findListOrMapSubSpec :: "Element \<Rightarrow> Element" where
  "findListOrMapSubSpec part =
     (case part of
        EMap m \<Rightarrow>
          (case map_of m ''list_item_spec'' of
             Some s \<Rightarrow> findListOrMapSubSpec s
           | None \<Rightarrow>
               (case map_of m ''map_item_spec'' of
                  Some s \<Rightarrow> findListOrMapSubSpec s
                | None \<Rightarrow> part))
      | _ \<Rightarrow> part)"
  by pat_completeness auto
termination
  by (relation "measure size") (auto dest: map_of_size)

declare findListOrMapSubSpec.simps [simp del]

definition is_item_named :: "string \<Rightarrow> Element \<Rightarrow> bool result" where
  "is_item_named id_part list_el =
     (case list_el of
        EMap m \<Rightarrow>
          (case map_of m ''item_name'' of
             None \<Rightarrow> Inr False
           | Some n \<Rightarrow> bindE (stringValue n) (\<lambda>name. Inr (name = id_part)))
      | _ \<Rightarrow> Inr False)"

text \<open>The last item of that name is taken.\<close>

definition findItemInSpecList :: "Element \<Rightarrow> string \<Rightarrow> Element result" where
  "findItemInSpecList part id_part =
     bindE (listValue part) (\<lambda>items.
     bindE (foldE (\<lambda>list_el found.
         bindE (is_item_named id_part list_el) (\<lambda>b. Inr (if b then Some list_el else found))) items None) (\<lambda>found.
       case found of None \<Rightarrow> Inl DataNotFoundError | Some e \<Rightarrow> Inr e))"

definition find_spec_last :: "Element \<Rightarrow> string \<Rightarrow> Element result" where
  "find_spec_last part ident =
     (if ident = [] \<or> ident = ''/'' then Inr part
      else case part of
          EList _ \<Rightarrow> findItemInSpecList part ident
        | EMap m \<Rightarrow>
            (case map_of m ''map_item_spec'' of
               Some s \<Rightarrow> findItemInSpecList s ident
             | None \<Rightarrow>
                 bindE (is_item_named ident part) (\<lambda>b. if b then Inr part else Inl DataNotFoundError))
        | _ \<Rightarrow> Inr part)"

function find_spec_loop :: "Element \<Rightarrow> string \<Rightarrow> Element result" where
  "find_spec_loop part ident =
     (if CHR ''/'' \<in> set ident then
        (case part of
           EList _ \<Rightarrow>
             bindE (findItemInSpecList part (takeWhile (\<lambda>c. c \<noteq> CHR ''/'') ident)) (\<lambda>item.
               find_spec_loop
                 (if tl (dropWhile (\<lambda>c. c \<noteq> CHR ''/'') ident) \<noteq> [] \<and> tl (dropWhile (\<lambda>c. c \<noteq> CHR ''/'') ident) \<noteq> ''/''
                  then findListOrMapSubSpec item else item)
                 (tl (dropWhile (\<lambda>c. c \<noteq> CHR ''/'') ident)))
         | _ \<Rightarrow> Inl DataNotFoundError)
      else find_spec_last part ident)"
  by pat_completeness auto
termination
proof (relation "measure (\<lambda>(_, ident). length ident)")
  fix part ident l item
  assume "CHR ''/'' \<in> set ident"
  then show "((if tl (dropWhile (\<lambda>c. c \<noteq> CHR ''/'') ident) \<noteq> [] \<and> tl (dropWhile (\<lambda>c. c \<noteq> CHR ''/'') ident) \<noteq> ''/''
      then findListOrMapSubSpec item else item, tl (dropWhile (\<lambda>c. c \<noteq> CHR ''/'') ident)), part, ident)
      \<in> measure (\<lambda>(_, ident). length ident)"
    using shorter_path [of ident] by simp
qed simp

declare find_spec_loop.simps [simp del]

definition find_spec_part :: "Element option \<Rightarrow> string \<Rightarrow> Element result" where
  "find_spec_part spec identifier =
     (case spec of
        None \<Rightarrow> Inl DataNotFoundError
      | Some part \<Rightarrow> if identifier = [] then Inl DataNotFoundError else find_spec_loop part identifier)"

function spec_name_list :: "bool \<Rightarrow> Element \<Rightarrow> string \<Rightarrow> string list result"
  and spec_names :: "bool \<Rightarrow> Element list \<Rightarrow> string \<Rightarrow> string list result" where
  "spec_name_list recurse part prefix =
     (case part of
        EList items \<Rightarrow> spec_names recurse items prefix
      | EMap m \<Rightarrow>
          (case map_of m ''map_item_spec'' of
             Some s \<Rightarrow> spec_name_list recurse s prefix
           | None \<Rightarrow> Inr [])
      | _ \<Rightarrow> Inr [])"
| "spec_names recurse [] prefix = Inr []"
| "spec_names recurse (list_el # items) prefix =
     bindE
       (bindE (if getType list_el = map_type then contains ''item_name'' list_el else Inr False) (\<lambda>named.
          if \<not> named then Inr []
          else
            bindE (get_string ''item_name'' list_el) (\<lambda>name.
            bindE (if recurse then bindE (get_string ''item_type'' list_el) (\<lambda>t. Inr (t = ''map'')) else Inr False) (\<lambda>inner.
              if inner then
                bindE (el_get ''map_item_spec'' list_el) (\<lambda>p.
                bindE (deref p) (\<lambda>s. spec_name_list recurse s (if prefix = [] then name else prefix @ ''/'' @ name)))
              else Inr [if prefix = [] then name else prefix @ ''/'' @ name]))))
       (\<lambda>names. bindE (spec_names recurse items prefix) (\<lambda>more. Inr (names @ more)))"
  by pat_completeness auto
termination
  by (relation "measure (\<lambda>x. case x of Inl (_, e, _) \<Rightarrow> size e | Inr (_, l, _) \<Rightarrow> size_list size l)")
    (auto dest: map_of_size el_get_size)

declare spec_name_list.simps [simp del]

text \<open>A \<^verbatim>\<open>ConfigData\<close>: the specification of the module and the values that were set. \<^verbatim>\<open>getValue\<close> also says
  whether the value is the default.\<close>

record ConfigData =
  cd_spec :: Element
  cd_config :: Element

definition getValue :: "string \<Rightarrow> ConfigData \<Rightarrow> (Element option \<times> bool) result" where
  "getValue identifier cd =
     bindE (find_path (cd_config cd) identifier) (\<lambda>value.
       case value of
         Some v \<Rightarrow> Inr (Some v, False)
       | None \<Rightarrow>
           bindE (getConfigSpec (cd_spec cd)) (\<lambda>spec.
           bindE (find_spec_part spec identifier) (\<lambda>part.
           bindE (contains ''item_default'' part) (\<lambda>c.
             if c then bindE (el_get ''item_default'' part) (\<lambda>d. Inr (d, True)) else Inr (None, False)))))"

definition getDefaultValue :: "string \<Rightarrow> ConfigData \<Rightarrow> Element option result" where
  "getDefaultValue identifier cd =
     bindE (getConfigSpec (cd_spec cd)) (\<lambda>spec.
     bindE (find_spec_part spec identifier) (\<lambda>part.
     bindE (contains ''item_default'' part) (\<lambda>c.
       if c then el_get ''item_default'' part else Inl DataNotFoundError)))"

definition getItemList :: "string \<Rightarrow> bool \<Rightarrow> ConfigData \<Rightarrow> string list result" where
  "getItemList identifier recurse cd =
     bindE (getConfigSpec (cd_spec cd)) (\<lambda>spec.
     bindE (if identifier \<noteq> [] \<and> identifier \<noteq> ''/'' then find_spec_part spec identifier else deref spec) (\<lambda>part.
       spec_name_list recurse part identifier))"

text \<open>The full configuration may hold null pointers: an item with neither value nor default.\<close>

definition getFullConfig :: "ConfigData \<Rightarrow> (string \<times> Element option) list result" where
  "getFullConfig cd =
     bindE (getItemList [] False cd) (\<lambda>items.
       foldE (\<lambda>item result. bindE (getValue item cd) (\<lambda>(v, _). Inr (MapElement_set item v result))) items [])"

section \<open>Messages\<close>

definition createAnswer_success :: Element where
  "createAnswer_success = EMap [(''result'', EList [EInt 0])]"

definition createAnswer :: "int \<Rightarrow> string \<Rightarrow> Element" where
  "createAnswer rcode arg = EMap [(''result'', EList [EInt rcode, EString arg])]"

text \<open>The code is read into an \<^verbatim>\<open>int\<close>.\<close>

definition to_int :: "int \<Rightarrow> int" where
  "to_int i = sint (word_of_int i :: 32 word)"

definition parseAnswer :: "Element option \<Rightarrow> (int \<times> Element option) result" where
  "parseAnswer msg =
     (case msg of
        Some (EMap m) \<Rightarrow>
          (case map_of m ''result'' of
             None \<Rightarrow> Inl CCSessionError
           | Some (EList []) \<Rightarrow> Inl StdOutOfRange
           | Some (EList (first # others)) \<Rightarrow>
               (case first of
                  EInt i \<Rightarrow>
                    (case others of
                       [] \<Rightarrow> if to_int i = 0 then Inr (0, None) else Inl CCSessionError
                     | arg # _ \<Rightarrow>
                         if to_int i = 0 \<or> getType arg = string_type then Inr (to_int i, Some arg) else Inl CCSessionError)
                | _ \<Rightarrow> Inl CCSessionError)
           | Some _ \<Rightarrow> Inl CCSessionError)
      | _ \<Rightarrow> Inl CCSessionError)"

definition createCommand :: "string \<Rightarrow> Element option \<Rightarrow> Element" where
  "createCommand command arg =
     EMap [(''command'', EList (EString command # (case arg of None \<Rightarrow> [] | Some a \<Rightarrow> [a])))]"

definition parseCommand :: "Element option \<Rightarrow> (string \<times> Element) result" where
  "parseCommand command =
     (case command of
        Some (EMap m) \<Rightarrow>
          (case map_of m ''command'' of
             Some (EList (EString s # others)) \<Rightarrow> Inr (s, case others of [] \<Rightarrow> EMap [] | arg # _ \<Rightarrow> arg)
           | _ \<Rightarrow> Inl CCSessionError)
      | _ \<Rightarrow> Inl CCSessionError)"


section \<open>The session\<close>

text \<open>
  The state of the session and of the server behind it. \<open>ss_running\<close>: the static pointer to the server and its pointer to the
  session are set; \<open>ss_shutdown\<close>: the server was told to stop. The configurations of other modules that the session
  follows are \<open>ss_remote\<close>, the requests for messages that wait for one \<open>ss_async\<close>; their callbacks are not modelled.
\<close>

record AsyncRecvRequest =
  ar_recipient :: string
  ar_seq :: int
  ar_is_reply :: bool

record session =
  ss_data :: ConfigData
  ss_name :: string
  ss_remote :: "(string \<times> ConfigData) list"
  ss_async :: "AsyncRecvRequest list"
  ss_running :: bool
  ss_shutdown :: bool
  ss_server :: cfg_state

type_synonym 'a sess = "(session, 'a) eff"
type_synonym config_handler = "Element \<Rightarrow> Element sess"
type_synonym command_handler = "string \<Rightarrow> Element \<Rightarrow> Element sess"

definition setLocalConfig :: "Element \<Rightarrow> session \<Rightarrow> session" where
  "setLocalConfig config s = s\<lparr>ss_data := (ss_data s)\<lparr>cd_config := config\<rparr>\<rparr>"

definition handleConfigUpdate ::
  "(string \<Rightarrow> string \<Rightarrow> bool) \<Rightarrow> config_handler option \<Rightarrow> Element \<Rightarrow> Element sess" where
  "handleConfigUpdate fmt handler new_config =
     (case handler of
        None \<Rightarrow> askS (\<lambda>s. Inr (createAnswer 1 (ss_name s @ '' does not have a config handler'')))
      | Some config_handler \<Rightarrow>
          bindS (askS (\<lambda>s. validateConfig fmt (cd_spec (ss_data s)) new_config False)) (\<lambda>(validated, errors).
            if \<not> validated then retS (createAnswer 2 (''Error in config validation: '' @ concat errors))
            else
              bindS (askS (\<lambda>s. removeIdentical new_config (Some (cd_config (ss_data s))))) (\<lambda>diff.
              bindS (config_handler diff) (\<lambda>answer.
              bindS (liftS (parseAnswer (Some answer))) (\<lambda>(rcode, _).
                if rcode = 0 then
                  bindS (askS (\<lambda>s. el_merge (cd_config (ss_data s)) diff)) (\<lambda>local_config.
                    thenS (modS (setLocalConfig local_config)) (retS answer))
                else retS answer)))))"

definition updateRemoteConfig :: "(string \<Rightarrow> Element \<Rightarrow> unit result) \<Rightarrow> string \<Rightarrow> Element \<Rightarrow> unit sess" where
  "updateRemoteConfig remote module_name new_config =
     bindS (askS (\<lambda>s. Inr (map_of (ss_remote s) module_name))) (\<lambda>it.
       case it of
         None \<Rightarrow> retS ()
       | Some cd \<Rightarrow>
           bindS (liftS (el_merge (cd_config cd) new_config)) (\<lambda>rconf.
           thenS (modS (\<lambda>s. s\<lparr>ss_remote := sp_set module_name (cd\<lparr>cd_config := rconf\<rparr>) (ss_remote s)\<rparr>))
             (liftS (remote module_name new_config))))"

definition removeRemoteConfig :: "string \<Rightarrow> session \<Rightarrow> session" where
  "removeRemoteConfig module_name s = s\<lparr>ss_remote := remove_key module_name (ss_remote s)\<rparr>"

definition getRemoteConfigValue :: "string \<Rightarrow> string \<Rightarrow> session \<Rightarrow> Element option result" where
  "getRemoteConfigValue module_name identifier s =
     (case map_of (ss_remote s) module_name of
        Some cd \<Rightarrow> bindE (getValue identifier cd) (\<lambda>(v, _). Inr v)
      | None \<Rightarrow> Inl CCSessionError)"

text \<open>The specification of another module comes from a file or is what the configuration manager answers.\<close>

definition readModuleSpecification ::
  "(string \<Rightarrow> string option) \<Rightarrow> (string \<Rightarrow> string \<Rightarrow> bool) \<Rightarrow> string option \<Rightarrow> Element result" where
  "readModuleSpecification strtod fmt file =
     (case file of
        None \<Rightarrow> Inl CCSessionInitError
      | Some text \<Rightarrow>
          (case moduleSpecFromStream strtod fmt text True of
             Inl e \<Rightarrow> Inl (if e = JSONError \<or> e = ModuleSpecError then CCSessionInitError else e)
           | Inr spec \<Rightarrow> Inr spec))"

datatype spec_source = SpecFile "string option" | SpecAnswer string Element

definition fetchRemoteSpec :: "(string \<Rightarrow> string option) \<Rightarrow> (string \<Rightarrow> string \<Rightarrow> bool) \<Rightarrow> spec_source \<Rightarrow> Element result" where
  "fetchRemoteSpec strtod fmt source =
     (case source of
        SpecFile file \<Rightarrow> readModuleSpecification strtod fmt file
      | SpecAnswer module_name answer \<Rightarrow>
          bindE (parseAnswer (Some answer)) (\<lambda>(rcode, spec_data).
            case spec_data of
              Some e \<Rightarrow>
                if rcode = 0 then
                  bindE (mk_ModuleSpec fmt e True) (\<lambda>spec.
                  bindE (getModuleName spec) (\<lambda>name. if module_name \<noteq> name then Inl CCSessionError else Inr spec))
                else Inl CCSessionError
            | None \<Rightarrow> Inl CCSessionError))"

definition addRemoteConfig ::
  "(string \<Rightarrow> string option) \<Rightarrow> (string \<Rightarrow> string \<Rightarrow> bool) \<Rightarrow> (string \<Rightarrow> Element \<Rightarrow> unit result) \<Rightarrow> spec_source \<Rightarrow> Element \<Rightarrow> string sess" where
  "addRemoteConfig strtod fmt remote source answer =
     bindS (liftS (fetchRemoteSpec strtod fmt source)) (\<lambda>spec.
     bindS (liftS (getModuleName spec)) (\<lambda>module_name.
     bindS (liftS (parseAnswer (Some answer))) (\<lambda>(rcode, new_config).
       case new_config of
         Some c \<Rightarrow>
           if rcode = 0 then
             bindS (liftS (el_merge (EMap []) c)) (\<lambda>local_config.
             thenS (modS (\<lambda>s. s\<lparr>ss_remote := sp_set module_name \<lparr>cd_spec = spec, cd_config = local_config\<rparr> (ss_remote s)\<rparr>))
               (thenS (liftS (remote module_name local_config)) (retS module_name)))
           else throwS CCSessionError
       | None \<Rightarrow> throwS CCSessionError)))"

definition requestMatch :: "AsyncRecvRequest \<Rightarrow> Element \<Rightarrow> bool result" where
  "requestMatch request envelope =
     bindE (contains ''reply'' envelope) (\<lambda>is_reply.
       if ar_is_reply request \<noteq> is_reply then Inr False
       else if ar_is_reply request then
         if ar_seq request = -1 then Inr True
         else bindE (el_get ''reply'' envelope) (\<lambda>p. bindE (deref p) (\<lambda>e. bindE (intValue e) (\<lambda>i. Inr (ar_seq request = i))))
       else if ar_recipient request = [] then Inr True
       else bindE (get_string ''group'' envelope) (\<lambda>g. Inr (ar_recipient request = g)))"

fun take_request :: "Element \<Rightarrow> AsyncRecvRequest list \<Rightarrow> AsyncRecvRequest list option result" where
  "take_request envelope [] = Inr None"
| "take_request envelope (request # requests) =
     bindE (requestMatch request envelope) (\<lambda>b.
       if b then Inr (Some requests)
       else bindE (take_request envelope requests) (\<lambda>r. Inr (map_option ((#) request) r)))"

text \<open>Whether a waiting request took the message; it is then removed.\<close>

definition checkAsyncRecv :: "Element \<Rightarrow> bool sess" where
  "checkAsyncRecv envelope =
     bindS (askS (\<lambda>s. take_request envelope (ss_async s))) (\<lambda>r.
       case r of
         None \<Rightarrow> retS False
       | Some requests \<Rightarrow> thenS (modS (\<lambda>s. s\<lparr>ss_async := requests\<rparr>)) (retS True))"

definition groupRecvMsgAsync :: "bool \<Rightarrow> int \<Rightarrow> string \<Rightarrow> session \<Rightarrow> session" where
  "groupRecvMsgAsync is_reply seq recipient s =
     s\<lparr>ss_async := ss_async s @ [\<lparr>ar_recipient = recipient, ar_seq = seq, ar_is_reply = is_reply\<rparr>]\<rparr>"

definition checkConfigUpdateCommand ::
  "(string \<Rightarrow> string \<Rightarrow> bool) \<Rightarrow> config_handler option \<Rightarrow> (string \<Rightarrow> Element \<Rightarrow> unit result) \<Rightarrow> string \<Rightarrow> Element \<Rightarrow>
     Element option sess" where
  "checkConfigUpdateCommand fmt handler remote target_module arg =
     bindS (askS (\<lambda>s. Inr (ss_name s))) (\<lambda>module_name.
       if target_module = module_name then bindS (handleConfigUpdate fmt handler arg) (\<lambda>answer. retS (Some answer))
       else thenS (updateRemoteConfig remote target_module arg) (retS None))"

definition checkModuleCommand ::
  "(string \<Rightarrow> string \<Rightarrow> bool) \<Rightarrow> command_handler option \<Rightarrow> string \<Rightarrow> string \<Rightarrow> Element \<Rightarrow> Element option sess" where
  "checkModuleCommand fmt handler cmd_str target_module arg =
     bindS (askS (\<lambda>s. Inr (ss_name s))) (\<lambda>module_name.
       if target_module \<noteq> module_name then retS None
       else case handler of
           None \<Rightarrow> retS (Some (createAnswer 1 ''Command given but no command handler for module''))
         | Some command_handler \<Rightarrow>
             bindS (askS (\<lambda>s. validateCommand fmt (cd_spec (ss_data s)) cmd_str arg)) (\<lambda>(ok, errors).
               if ok then bindS (command_handler cmd_str arg) (\<lambda>answer. retS (Some answer))
               else retS (Some (createAnswer 3 (''Error in command validation: '' @ concat errors)))))"

text \<open>\<^verbatim>\<open>catch (const std::exception&)\<close>: the exception is logged and there is no answer.\<close>

definition catch_std :: "'a option sess \<Rightarrow> 'a option sess" where
  "catch_std m s = (case m s of (Inl e, t) \<Rightarrow> if is_exception e then (Inr None, t) else (Inl e, t) | r \<Rightarrow> r)"

text \<open>One message; the value is the reply, if one is sent.\<close>

definition checkCommand ::
  "(string \<Rightarrow> string \<Rightarrow> bool) \<Rightarrow> config_handler option \<Rightarrow> command_handler option \<Rightarrow> (string \<Rightarrow> Element \<Rightarrow> unit result) \<Rightarrow>
     Element \<Rightarrow> Element \<Rightarrow> Element option sess" where
  "checkCommand fmt config_handler command_handler remote routing data =
     bindS (checkAsyncRecv routing) (\<lambda>taken.
     bindS (if getType data = map_type then liftS (contains ''result'' data) else retS True) (\<lambda>ignored.
       if taken \<or> ignored then retS None
       else catch_std
         (bindS (liftS (parseCommand (Some data))) (\<lambda>(cmd_str, arg).
          bindS (liftS (get_string ''group'' routing)) (\<lambda>target_module.
            if cmd_str = ''config_update'' then checkConfigUpdateCommand fmt config_handler remote target_module arg
            else checkModuleCommand fmt command_handler cmd_str target_module arg)))))"

section \<open>The controlled servers\<close>

text \<open>A null pointer that is left among the values is used when its parser is built.\<close>

definition config_values :: "(string \<times> Element option) list \<Rightarrow> (string \<times> Element) list result" where
  "config_values m = mapE (\<lambda>(k, p). bindE (deref p) (\<lambda>e. Inr (k, e))) m"

definition on_server :: "'a cfg \<Rightarrow> 'a sess" where
  "on_server m = zoomS ss_server (\<lambda>t s. s\<lparr>ss_server := t\<rparr>) m"

definition stubConfigHandler :: config_handler where
  "stubConfigHandler new_config = retS (createAnswer 0 ''Configuration accepted.'')"

definition configHandler :: "(Element option \<Rightarrow> nat cfg) \<Rightarrow> (nat \<Rightarrow> string) \<Rightarrow> config_handler" where
  "configHandler configure describe new_config =
     bindS (askS (\<lambda>s. Inr (ss_running s))) (\<lambda>running.
       if \<not> running then retS (createAnswer 1 ''Configuration rejected, server is during startup/shutdown phase.'')
       else
         bindS (askS (\<lambda>s. getFullConfig (ss_data s))) (\<lambda>full_config.
         bindS (liftS (mapValue new_config)) (\<lambda>new_values.
         bindS (liftS (config_values (fold (merge_entry Some) new_values full_config))) (\<lambda>merged_config.
         bindS (on_server (configure (Some (EMap merged_config)))) (\<lambda>code.
           retS (createAnswer (int code) (describe code)))))))"

definition dhcp4ConfigHandler :: "externals \<Rightarrow> (nat \<Rightarrow> string) \<Rightarrow> config_handler" where
  "dhcp4ConfigHandler ext describe = configHandler (configureDhcp4Server ext) describe"

definition dhcp6ConfigHandler :: "externals \<Rightarrow> IfaceMgr \<Rightarrow> (nat \<Rightarrow> string) \<Rightarrow> config_handler" where
  "dhcp6ConfigHandler ext ifaces describe = configHandler (configureDhcp6Server ext ifaces) describe"

definition commandHandler :: command_handler where
  "commandHandler command args =
     (if command = ''shutdown'' then
        bindS (askS (\<lambda>s. Inr (ss_running s))) (\<lambda>running.
          if running then
            thenS (modS (\<lambda>s. s\<lparr>ss_shutdown := True\<rparr>)) (retS (createAnswer 0 ''Shutting down.''))
          else retS (createAnswer 1 ''Shutdown failure.''))
      else retS (createAnswer 1 ''Unrecognized command.''))"

definition execServerCommand :: "(exn \<Rightarrow> string) \<Rightarrow> command_handler" where
  "execServerCommand what command args =
     catchS (commandHandler command args) (\<lambda>e. retS (createAnswer 1 (what e)))"

text \<open>
  The constructor of the session and \<^verbatim>\<open>establishSession\<close>: the specification is announced (\<open>announced\<close> is the answer
  of the configuration manager), the stored configuration (\<open>stored_config\<close>, the answer to \<^verbatim>\<open>get_config\<close>) goes through the
  handler that accepts everything, and the server is configured with the full configuration. The answer of that first
  configuration is not looked at. The configuration of the module \<^verbatim>\<open>Logging\<close> is not followed here.
\<close>

definition mk_session :: "Element \<Rightarrow> string \<Rightarrow> cfg_state \<Rightarrow> session" where
  "mk_session spec name server =
     \<lparr>ss_data = \<lparr>cd_spec = spec, cd_config = EMap []\<rparr>, ss_name = name, ss_remote = [], ss_async = [], ss_running = True, ss_shutdown = False,
      ss_server = server\<rparr>"

definition init_session ::
  "(string \<Rightarrow> string option) \<Rightarrow> (string \<Rightarrow> string \<Rightarrow> bool) \<Rightarrow> string option \<Rightarrow> Element \<Rightarrow> Element \<Rightarrow> cfg_state \<Rightarrow> session result" where
  "init_session strtod fmt file announced stored_config server =
     bindE (readModuleSpecification strtod fmt file) (\<lambda>spec.
     bindE (getModuleName spec) (\<lambda>name.
     bindE (parseAnswer (Some announced)) (\<lambda>(rcode, _).
       if rcode \<noteq> 0 then Inl CCSessionInitError
       else bindE (parseAnswer (Some stored_config)) (\<lambda>(rcode, new_config).
         if rcode \<noteq> 0 then Inl CCSessionInitError
         else bindE (deref new_config) (\<lambda>new_config.
           case handleConfigUpdate fmt (Some stubConfigHandler) new_config (mk_session spec name server) of
             (Inl e, _) \<Rightarrow> Inl e
           | (Inr _, s) \<Rightarrow> Inr s)))))"

definition establishSession ::
  "(Element option \<Rightarrow> nat cfg) \<Rightarrow> (string \<Rightarrow> string option) \<Rightarrow> (string \<Rightarrow> string \<Rightarrow> bool) \<Rightarrow> string option \<Rightarrow> Element \<Rightarrow> Element \<Rightarrow>
     cfg_state \<Rightarrow> session result" where
  "establishSession configure strtod fmt file announced stored_config server =
     bindE (init_session strtod fmt file announced stored_config server) (\<lambda>s.
     bindE (getFullConfig (ss_data s)) (\<lambda>full_config.
     bindE (config_values full_config) (\<lambda>config.
       case on_server (configure (Some (EMap config))) s of
         (Inl e, t) \<Rightarrow> if e = DhcpConfigError then Inr t else Inl e
       | (Inr _, t) \<Rightarrow> Inr t)))"

definition disconnectSession :: "session \<Rightarrow> session" where
  "disconnectSession s = s\<lparr>ss_running := False\<rparr>"

end
