(* ===== verification/Module_Safety.thy ===== *)
theory Module_Safety
  imports Module_Spec
begin

text \<open>
  What a checked specification promises: the validation of a map against it never uses a null pointer and never
  throws, unless the specification has items of any type, formats on configuration items, or a named set that
  also has the specification of a map; and an item that is accepted has the type its specification names.
\<close>

section \<open>Checked items\<close>

lemma check_leaf_item_Inr:
  "check_leaf_item (EMap m) name type mandatory = Inr u \<longleftrightarrow>
     (case map_of m name of None \<Rightarrow> \<not> mandatory | Some e \<Rightarrow> type = any \<or> getType e = type)"
  by (auto simp: check_leaf_item_def contains_def el_get_def result_simps deref_def split: option.splits)

lemma getType_shapes:
  "getType e = string_type \<longleftrightarrow> (\<exists>s. e = EString s)" "getType e = boolean \<longleftrightarrow> (\<exists>b. e = EBool b)"
  "getType e = list_type \<longleftrightarrow> (\<exists>l. e = EList l)" "getType e = map_type \<longleftrightarrow> (\<exists>m. e = EMap m)"
  by (cases e; simp)+

lemma check_item_map: "check_config_item e = Inr u \<Longrightarrow> \<exists>m. e = EMap m"
  by (cases e) (auto simp: check_config_item.simps check_leaf_item_def contains_def)

definition type_names :: "string set" where
  "type_names = {''integer'', ''real'', ''boolean'', ''string'', ''list'', ''map'', ''named_set'', ''null'', ''any''}"

lemma check_item_Inr:
  assumes "check_config_item (EMap m) = Inr u"
  obtains name type opt where
    "map_of m ''item_name'' = Some (EString name)" "map_of m ''item_type'' = Some (EString type)"
    "map_of m ''item_optional'' = Some (EBool opt)" "\<not> opt \<Longrightarrow> map_of m ''item_default'' \<noteq> None" "type \<in> type_names"
    "type = ''list'' \<Longrightarrow> \<exists>s. map_of m ''list_item_spec'' = Some s \<and> check_config_item s = Inr ()"
    "type = ''map'' \<Longrightarrow> \<exists>l. map_of m ''map_item_spec'' = Some (EList l) \<and> check_config_items l = Inr ()"
    "type = ''named_set'' \<Longrightarrow> \<exists>s. map_of m ''named_set_item_spec'' = Some s \<and> check_config_item s = Inr ()"
proof -
  obtain name type opt t where f: "map_of m ''item_name'' = Some (EString name)" "map_of m ''item_type'' = Some (EString type)"
    "map_of m ''item_optional'' = Some (EBool opt)" and t: "nameToType type = Inr t"
    using assms
    by (auto simp: check_config_item.simps result_simps check_leaf_item_Inr getType_shapes get_string_def el_get_def split: option.splits)
  have known: "type \<in> type_names" "type = ''list'' \<Longrightarrow> t = list_type" "type = ''map'' \<Longrightarrow> t = map_type" "type = ''named_set'' \<Longrightarrow> t = map_type"
    using t by (auto simp: nameToType_def type_names_def split: if_splits)
  have g: "get_string ''item_type'' (EMap m) = Inr type" "get_bool ''item_optional'' (EMap m) = Inr opt"
    using f by (simp_all add: get_string_def get_bool_def el_get_def deref_def)
  note rest = assms [unfolded check_config_item.simps [of "EMap m"] g t bindE.simps]
  show thesis
  proof (rule that [OF f])
    show "map_of m ''item_default'' \<noteq> None" if "\<not> opt"
      using rest that by (auto simp: result_simps check_leaf_item_Inr split: option.splits)
    show "\<exists>s. map_of m ''list_item_spec'' = Some s \<and> check_config_item s = Inr ()" if "type = ''list''"
      using rest that known(2) by (auto simp: result_simps check_leaf_item_Inr el_get_def split: option.splits)
    show "\<exists>l. map_of m ''map_item_spec'' = Some (EList l) \<and> check_config_items l = Inr ()" if "type = ''map''"
      using rest that known(3)
      by (auto simp: result_simps check_leaf_item_Inr el_get_def getType_shapes split: option.splits)
    show "\<exists>s. map_of m ''named_set_item_spec'' = Some s \<and> check_config_item s = Inr ()" if "type = ''named_set''"
      using rest that known(4) by (auto simp: result_simps check_leaf_item_Inr el_get_def split: option.splits)
  qed (fact known(1))
qed

section \<open>Validation does not fail\<close>

text \<open>What the check lets pass but the validation does not expect is absent.\<close>

fun plain :: "Element \<Rightarrow> bool" where
  "plain (EMap m) \<longleftrightarrow> map_of m ''item_format'' = None \<and> map_of m ''item_type'' \<noteq> Some (EString ''any'') \<and>
     (map_of m ''item_type'' = Some (EString ''named_set'') \<longrightarrow> map_of m ''map_item_spec'' = None) \<and> list_all (\<lambda>(k, e). plain e) m"
| "plain (EList l) \<longleftrightarrow> list_all plain l"
| "plain _ \<longleftrightarrow> True"

lemma plain_entry: "plain (EMap m) \<Longrightarrow> map_of m k = Some e \<Longrightarrow> plain e"
  by (auto simp: list_all_iff dest!: map_of_SomeD)

definition decided :: "verdict \<Rightarrow> bool" where
  "decided v \<longleftrightarrow> (\<exists>r. v = Inr r)"

lemma decided_intros:
  "decided valid" "decided (invalid msg)" 
  "decided v \<Longrightarrow> (\<And>es. v = Inr (True, es) \<Longrightarrow> decided w) \<Longrightarrow> decided (andV v w)"
  "decided v \<Longrightarrow> (\<And>r. v = Inr r \<Longrightarrow> decided w) \<Longrightarrow> decided (alsoV v w)"
  by (fastforce simp: decided_def valid_def invalid_def andV_def alsoV_def)+

definition item_ok :: "Element \<Rightarrow> bool" where
  "item_ok spec \<longleftrightarrow> check_config_item spec = Inr () \<and> plain spec"

lemma items_ok: "check_config_items specs = Inr () \<and> list_all plain specs \<longleftrightarrow> list_all item_ok specs"
  by (induction specs) (auto simp: item_ok_def result_simps)

text \<open>The fields of an item that passed the check.\<close>

lemma item_okE:
  assumes "item_ok spec"
  obtains m name type opt where "spec = EMap m"
    "get_string ''item_name'' spec = Inr name" "get_string ''item_type'' spec = Inr type" "get_bool ''item_optional'' spec = Inr opt"
    "\<not> opt \<Longrightarrow> map_of m ''item_default'' \<noteq> None" "type \<in> type_names" "type \<noteq> ''any''" "map_of m ''item_format'' = None"
    "type = ''list'' \<Longrightarrow> \<exists>s. map_of m ''list_item_spec'' = Some s \<and> item_ok s"
    "type = ''map'' \<Longrightarrow> \<exists>l. map_of m ''map_item_spec'' = Some (EList l) \<and> list_all item_ok l"
    "type = ''named_set'' \<Longrightarrow> map_of m ''map_item_spec'' = None \<and> (\<exists>s. map_of m ''named_set_item_spec'' = Some s \<and> item_ok s)"
proof -
  obtain m where m: "spec = EMap m" using assms check_item_map unfolding item_ok_def by blast
  have "check_config_item (EMap m) = Inr ()" and plain: "plain (EMap m)" using assms by (auto simp: item_ok_def m)
  from this(1) show thesis
  proof (rule check_item_Inr)
    fix name type opt
    assume a: "map_of m ''item_name'' = Some (EString name)" "map_of m ''item_type'' = Some (EString type)"
      "map_of m ''item_optional'' = Some (EBool opt)" "\<not> opt \<Longrightarrow> map_of m ''item_default'' \<noteq> None" "type \<in> type_names"
      "type = ''list'' \<Longrightarrow> \<exists>s. map_of m ''list_item_spec'' = Some s \<and> check_config_item s = Inr ()"
      "type = ''map'' \<Longrightarrow> \<exists>l. map_of m ''map_item_spec'' = Some (EList l) \<and> check_config_items l = Inr ()"
      "type = ''named_set'' \<Longrightarrow> \<exists>s. map_of m ''named_set_item_spec'' = Some s \<and> check_config_item s = Inr ()"
    show thesis
    proof (rule that [OF m])
      show "get_string ''item_name'' spec = Inr name" "get_string ''item_type'' spec = Inr type" "get_bool ''item_optional'' spec = Inr opt"
        using a(1-3) by (simp_all add: m get_string_def get_bool_def el_get_def deref_def)
      show "\<exists>s. map_of m ''list_item_spec'' = Some s \<and> item_ok s" if "type = ''list''"
        using a(6) [OF that] plain_entry [OF plain] by (auto simp: item_ok_def)
      show "\<exists>l. map_of m ''map_item_spec'' = Some (EList l) \<and> list_all item_ok l" if "type = ''map''"
        using a(7) [OF that] plain_entry [OF plain] items_ok by fastforce
      show "map_of m ''map_item_spec'' = None \<and> (\<exists>s. map_of m ''named_set_item_spec'' = Some s \<and> item_ok s)" if "type = ''named_set''"
        using a(8) [OF that] a(2) that plain plain_entry [OF plain] by (auto simp: item_ok_def)
    qed (use a plain in auto)
  qed
qed

lemma names_read: "list_all item_ok specs \<Longrightarrow> \<exists>names. mapE (get_string ''item_name'') specs = Inr names"
proof (induction specs)
  case (Cons s specs)
  then have "item_ok s" by simp
  then obtain name where "get_string ''item_name'' s = Inr name" by (rule item_okE) blast
  with Cons show ?case by auto
qed simp

lemma decided_unknown_items:
  assumes "list_all item_ok specs"
  shows "decided (unknown_items specs entries)"
proof (induction entries)
  case Nil
  then show ?case by (simp add: unknown_items_def decided_intros)
next
  case (Cons p entries)
  obtain names where "mapE (get_string ''item_name'') specs = Inr names" using names_read [OF assms] by blast
  with Cons show ?case by (cases p) (simp add: unknown_items_def decided_intros)
qed

lemma validation_decided:
  "item_ok spec \<Longrightarrow> decided (validateItem fmt full spec data)"
  "item_ok list_spec \<Longrightarrow> decided (validate_elements fmt full list_spec els)"
  "item_ok item_spec \<Longrightarrow> decided (validate_entries fmt full item_spec entries)"
  "item_ok spec \<Longrightarrow> getType data = map_type \<Longrightarrow> decided (validateSpec fmt full spec data)"
  "list_all item_ok specs \<Longrightarrow> getType data = map_type \<Longrightarrow> decided (validate_specs fmt full specs data)"
proof (induction fmt full spec data and fmt full list_spec els and fmt full item_spec entries and fmt full spec data and fmt full specs data
    rule: validateItem_validate_elements_validate_entries_validateSpec_validate_specs.induct)
  case (1 fmt full spec data)
  obtain m type where m: "spec = EMap m" "get_string ''item_type'' spec = Inr type" "type \<noteq> ''any''" "map_of m ''item_format'' = None"
    and sub: "type = ''list'' \<Longrightarrow> \<exists>s. map_of m ''list_item_spec'' = Some s \<and> item_ok s"
      "type = ''map'' \<Longrightarrow> \<exists>l. map_of m ''map_item_spec'' = Some (EList l) \<and> list_all item_ok l"
      "type = ''named_set'' \<Longrightarrow> map_of m ''map_item_spec'' = None \<and> (\<exists>s. map_of m ''named_set_item_spec'' = Some s \<and> item_ok s)"
    using 1(4) by (rule item_okE) blast
  show ?case
  proof (cases "check_type spec data = Inr True")
    case True
    have get: "el_get k spec = Inr (map_of m k)" for k by (simp add: m(1) el_get_def)
    note IH = 1(1-3) [OF True, unfolded get]
    have "data = EList els \<Longrightarrow> type = ''list''" "data = EMap entries \<Longrightarrow> type = ''map'' \<or> type = ''named_set''" for els entries
      using True m(2,3) by (auto simp: check_type_def)
    then show ?thesis
      using sub IH True m(4)
      by (cases data) (auto simp: validateItem.simps get deref_def intro!: decided_intros decided_unknown_items split: option.splits)
  next
    case False
    then have "check_type spec data = Inr False" using m(2) by (auto simp: check_type_def)
    then show ?thesis by (simp add: validateItem.simps decided_intros)
  qed
next
  case (3 fmt full list_spec el els)
  obtain type where t: "get_string ''item_type'' list_spec = Inr type" using 3(3) by (rule item_okE) blast
  show ?case
  proof (cases "check_type list_spec el = Inr True")
    case True
    have "decided (andV (if type = ''map'' then validateItem fmt full list_spec el else valid) (validate_elements fmt full list_spec els))"
      using 3(1) [OF True _ t] 3(2) [OF True _ t] 3(3) by (intro decided_intros) (auto intro: decided_intros)
    then show ?thesis using True t by simp
  next
    case False
    then have "check_type list_spec el = Inr False" using t by (auto simp: check_type_def)
    then show ?thesis by (simp add: decided_intros)
  qed
next
  case (5 fmt full item_spec entry entries)
  then show ?case by (auto intro!: decided_intros)
next
  case (6 fmt full spec data)
  obtain m where d: "data = EMap m" using 6(3) by (auto simp: getType_shapes)
  obtain name opt where "get_string ''item_name'' spec = Inr name" "get_bool ''item_optional'' spec = Inr opt" using 6(2) by (rule item_okE) blast
  then show ?case
    using 6(1) [OF _ _ _ _ 6(2)] by (auto simp: validateSpec.simps d el_get_def intro!: decided_intros split: option.splits)
qed (simp_all add: decided_intros)


section \<open>What is accepted\<close>

lemma alsoV_True: "alsoV v w = Inr (True, es) \<longleftrightarrow> (\<exists>es1 es2. v = Inr (True, es1) \<and> w = Inr (True, es2) \<and> es = es1 @ es2)"
  by (auto simp: alsoV_def result_simps)

lemma unknown_items_known:
  assumes "unknown_items specs entries = Inr (True, es)" "(k, v) \<in> set entries" "k \<noteq> ''version''"
  shows "\<exists>s\<in>set specs. get_string ''item_name'' s = Inr k"
  using assms
proof (induction entries arbitrary: es)
  case (Cons p entries)
  show ?case
  proof (cases "p = (k, v)")
    case True
    then obtain names where "mapE (get_string ''item_name'') specs = Inr names" "k \<in> set names"
      using Cons.prems by (auto simp: unknown_items_def result_simps alsoV_True invalid_def split: if_splits)
    then show ?thesis by (induction specs arbitrary: names) (auto simp: result_simps)
  next
    case False
    obtain es' where "unknown_items specs entries = Inr (True, es')"
      using Cons.prems(1) by (cases p) (auto simp: unknown_items_def result_simps alsoV_True split: if_splits)
    then show ?thesis using Cons False by auto
  qed
qed simp

lemma validateItem_type: "validateItem fmt full spec data = Inr (True, es) \<Longrightarrow> check_type spec data = Inr True"
  by (auto simp: validateItem.simps result_simps invalid_def split: if_splits)

lemma validate_specs_each:
  "validate_specs fmt full specs data = Inr (True, es) \<Longrightarrow> s \<in> set specs \<Longrightarrow> \<exists>es'. validateSpec fmt full s data = Inr (True, es')"
  by (induction specs arbitrary: es) (auto simp: alsoV_True)

lemma accepted_items:
  assumes "validateSpecList fmt (Some (EList specs)) (EMap m) full = Inr (True, es)" "map_of m k = Some v" "k \<noteq> ''version''"
  shows "\<exists>s\<in>set specs. get_string ''item_name'' s = Inr k \<and> check_type s v = Inr True"
proof -
  obtain es1 es2 where v: "validate_specs fmt full specs (EMap m) = Inr (True, es1)" "unknown_items specs m = Inr (True, es2)"
    using assms(1) by (auto simp: validateSpecList_def deref_def alsoV_True)
  obtain s where s: "s \<in> set specs" "get_string ''item_name'' s = Inr k"
    using unknown_items_known [OF v(2) map_of_SomeD [OF assms(2)] assms(3)] by blast
  obtain es' where "validateSpec fmt full s (EMap m) = Inr (True, es')" using validate_specs_each [OF v(1) s(1)] by blast
  then have "check_type s v = Inr True"
    using s(2) assms(2) by (auto simp: validateSpec.simps result_simps el_get_def dest: validateItem_type)
  then show ?thesis using s by blast
qed

lemma config_spec_items:
  assumes "check_module_specification fmt spec = Inr u" "el_get ''config_data'' spec = Inr (Some cfg)"
  shows "\<exists>specs. cfg = EList specs \<and> check_config_items specs = Inr ()"
proof -
  obtain m where m: "spec = EMap m" "map_of m ''config_data'' = Some cfg" using assms(2) by (cases spec) (auto simp: el_get_def)
  then have "check_config_item_list cfg = Inr ()"
    using assms(1)
    by (auto simp: check_module_specification_def check_data_specification_def if_contains_def contains_def el_get_def result_simps
        split: sum.splits)
  then show ?thesis by (cases cfg) (auto simp: check_config_item_list_def)
qed

lemma find_key: "CHR ''/'' \<notin> set k \<Longrightarrow> find_path e k = el_get k e"
  by (simp add: el_get_def)

text \<open>C27. Validating a map against the configuration part of a checked specification always ends with a verdict, whatever the
  map: no null pointer is used and nothing is thrown. A map is accepted only if every item, but \<^verbatim>\<open>version\<close>, is specified
  and has the type its specification names. The specification must be \<^const>\<open>plain\<close>: no item of the type \<^verbatim>\<open>any\<close>, no
  \<^verbatim>\<open>item_format\<close>, and no \<^verbatim>\<open>named_set\<close> with a \<^verbatim>\<open>map_item_spec\<close> besides, all of which pass the check; without this the validation
  may use a null pointer (below). The specifications of the DHCPv4 and the DHCPv6 server are plain.\<close>

theorem checked_spec_validates:
  assumes "check_module_specification fmt spec = Inr ()" "el_get ''config_data'' spec = Inr (Some cfg)" "plain cfg"
  shows "\<exists>b es. validateConfig fmt spec (EMap m) full = Inr (b, es) \<and>
    (b \<longrightarrow> (\<forall>k v. map_of m k = Some v \<longrightarrow> k \<noteq> ''version'' \<longrightarrow>
      (\<exists>items item. cfg = EList items \<and> item \<in> set items \<and> get_string ''item_name'' item = Inr k \<and> check_type item v = Inr True)))"
proof -
  obtain specs where specs: "cfg = EList specs" "check_config_items specs = Inr ()" using config_spec_items [OF assms(1,2)] by blast
  then have ok: "list_all item_ok specs" using assms(3) items_ok by auto
  have eq: "validateConfig fmt spec (EMap m) full = validateSpecList fmt (Some (EList specs)) (EMap m) full"
    using assms(2) by (simp add: validateConfig_def find_key specs del: find_path.simps)
  have "decided (validateSpecList fmt (Some (EList specs)) (EMap m) full)"
    using validation_decided(5) [OF ok] decided_unknown_items [OF ok] by (simp add: validateSpecList_def deref_def decided_intros)
  then obtain b es where v: "validateSpecList fmt (Some (EList specs)) (EMap m) full = Inr (b, es)" by (auto simp: decided_def)
  have "\<exists>items item. cfg = EList items \<and> item \<in> set items \<and> get_string ''item_name'' item = Inr k \<and> check_type item w = Inr True"
    if "b" "map_of m k = Some w" "k \<noteq> ''version''" for k w
    using accepted_items [of fmt specs m full es k w] v that specs(1) by auto
  with v show ?thesis unfolding eq by blast
qed

section \<open>Items of any type\<close>

definition example_item :: "string \<Rightarrow> string \<Rightarrow> Element \<Rightarrow> (string \<times> Element) list \<Rightarrow> Element" where
  "example_item name type default_value extra =
     EMap ([(''item_default'', default_value), (''item_name'', EString name), (''item_optional'', EBool False),
            (''item_type'', EString type)] @ extra)"

definition example_module :: "Element list \<Rightarrow> Element" where
  "example_module items = EMap [(''config_data'', EList items), (''module_name'', EString ''Dhcp4'')]"

definition example_items :: "Element list" where
  "example_items =
     [example_item ''renew-timer'' ''integer'' (EInt 1000) [],
      example_item ''subnet4'' ''list'' (EList [])
        [(''list_item_spec'', example_item ''single-subnet4'' ''map'' (EMap [])
           [(''map_item_spec'', EList [example_item ''subnet'' ''string'' (EString []) []])])]]"

theorem checked_spec_validates_witness:
  "\<exists>b es. validateConfig (\<lambda>_ _. True) (example_module example_items)
     (EMap [(''renew-timer'', EInt 5), (''subnet4'', EList [EMap [(''subnet'', EString ''192.0.2.0/24'')]])]) False = Inr (b, es) \<and>
    (b \<longrightarrow> (\<forall>k v. map_of [(''renew-timer'', EInt 5), (''subnet4'', EList [EMap [(''subnet'', EString ''192.0.2.0/24'')]])] k = Some v \<longrightarrow>
      k \<noteq> ''version'' \<longrightarrow>
      (\<exists>items item. EList example_items = EList items \<and> item \<in> set items \<and> get_string ''item_name'' item = Inr k \<and> check_type item v = Inr True)))"
proof (rule checked_spec_validates)
  show "check_module_specification (\<lambda>_ _. True) (example_module example_items) = Inr ()" by code_simp
  show "el_get ''config_data'' (example_module example_items) = Inr (Some (EList example_items))" by code_simp
  show "plain (EList example_items)" by code_simp
qed

text \<open>A specification with an item of type \<^verbatim>\<open>any\<close> passes the check, but to validate a list for that item uses
  a null pointer: the specification of the list's elements.\<close>

lemma any_list_aborts:
  "check_module_specification fmt (example_module [example_item ''hooks'' ''any'' (EList []) []]) = Inr () \<and>
   validateConfig fmt (example_module [example_item ''hooks'' ''any'' (EList []) []]) (EMap [(''hooks'', EList [EInt 1])]) full =
     Inl NullPointer"
proof
  show "check_module_specification fmt (example_module [example_item ''hooks'' ''any'' (EList []) []]) = Inr ()"
    by (simp add: example_module_def example_item_def check_module_specification_def check_data_specification_def if_contains_def contains_def
        el_get_def check_leaf_item_def deref_def check_config_item_list_def check_config_item.simps nameToType_def get_string_def get_bool_def)
  show "validateConfig fmt (example_module [example_item ''hooks'' ''any'' (EList []) []]) (EMap [(''hooks'', EList [EInt 1])]) full =
      Inl NullPointer"
    by (simp add: example_module_def example_item_def validateConfig_def validateSpecList_def deref_def alsoV_def validateSpec.simps
        get_string_def get_bool_def el_get_def validateItem.simps check_type_def andV_def)
qed

end
