(* ===== verification/Config_Safety.thy ===== *)
theory Config_Safety
  imports Config_Parser "HOL-Library.Multiset"
begin

text \<open>
  What a configuration does to a server, for both protocols. While it is parsed the option objects only grow and
  the subnets in use stay as they are; an accepted configuration replaces the subnets by well-formed ones, one
  per entry; a refused one leaves them and the global defaults alone, though it may have given further sub-options
  to option objects in use. The locale \<open>server_config\<close> states
  what the parsers of a server have to provide for this.
\<close>

section \<open>What parsing may change\<close>

text \<open>No object loses its identity (its option, apart from the sub-options) or a sub-option, though it may be given more
  of them; and the subnets that the server uses are untouched.\<close>

definition heap_grows :: "heap \<Rightarrow> heap \<Rightarrow> bool" where
  "heap_grows h h' \<longleftrightarrow> length h \<le> length h' \<and>
     (\<forall>r < length h. ob_option (h' ! r) = ob_option (h ! r) \<and> mset (ob_children (h ! r)) \<subseteq># mset (ob_children (h' ! r)))"

definition grows :: "cfg_state \<Rightarrow> cfg_state \<Rightarrow> bool" where
  "grows s t \<longleftrightarrow> heap_grows (cs_heap s) (cs_heap t) \<and>
     cfg_subnets4 (cs_cfg t) = cfg_subnets4 (cs_cfg s) \<and> cfg_subnets6 (cs_cfg t) = cfg_subnets6 (cs_cfg s) \<and>
     cs_options4 t = cs_options4 s \<and> cs_options6 t = cs_options6 s"

definition growing :: "'a cfg \<Rightarrow> bool" where
  "growing m \<longleftrightarrow> (\<forall>s r t. m s = (r, t) \<longrightarrow> grows s t)"

named_theorems grow_intros \<open>rules for \<^const>\<open>growing\<close>\<close>

lemma heap_grows_refl [simp]: "heap_grows h h"
  by (simp add: heap_grows_def)

lemma heap_growsD:
  "heap_grows h h' \<Longrightarrow> length h \<le> length h'"
  "heap_grows h h' \<Longrightarrow> r < length h \<Longrightarrow> ob_option (h' ! r) = ob_option (h ! r)"
  "heap_grows h h' \<Longrightarrow> r < length h \<Longrightarrow> mset (ob_children (h ! r)) \<subseteq># mset (ob_children (h' ! r))"
  unfolding heap_grows_def by blast+

lemma heap_grows_trans:
  assumes "heap_grows a b" "heap_grows b c"
  shows "heap_grows a c"
  unfolding heap_grows_def
proof (intro conjI allI impI)
  show "length a \<le> length c" using heap_growsD(1) [OF assms(1)] heap_growsD(1) [OF assms(2)] by simp
next
  fix r
  assume r: "r < length a"
  then have r': "r < length b" using heap_growsD(1) [OF assms(1)] by simp
  show "ob_option (c ! r) = ob_option (a ! r)"
    using heap_growsD(2) [OF assms(1) r] heap_growsD(2) [OF assms(2) r'] by simp
  show "mset (ob_children (a ! r)) \<subseteq># mset (ob_children (c ! r))"
    using heap_growsD(3) [OF assms(1) r] heap_growsD(3) [OF assms(2) r'] by (rule subset_mset.order_trans)
qed

lemma grows_refl [simp]: "grows s s"
  by (simp add: grows_def)

lemma grows_trans: "grows s t \<Longrightarrow> grows t u \<Longrightarrow> grows s u"
  by (auto simp: grows_def intro: heap_grows_trans)

lemma growI: "(\<And>s r t. m s = (r, t) \<Longrightarrow> grows s t) \<Longrightarrow> growing m"
  by (auto simp: growing_def)

lemma growD: "growing m \<Longrightarrow> m s = (r, t) \<Longrightarrow> grows s t"
  by (auto simp: growing_def)

lemma grow_pure [grow_intros]: "growing (retS x)" "growing (throwS e)" "growing (askS f)"
  by (auto simp: growing_def eff_apply)

lemma grow_bindS [grow_intros]: "growing m \<Longrightarrow> (\<And>x. growing (f x)) \<Longrightarrow> growing (bindS m f)"
  by (rule growI, erule bindS_cases) (blast dest: growD intro: grows_trans)+

lemma grow_if [grow_intros]: "(b \<Longrightarrow> growing m) \<Longrightarrow> (\<not> b \<Longrightarrow> growing n) \<Longrightarrow> growing (if b then m else n)"
  by simp

lemma grow_option [grow_intros]:
  "(x = None \<Longrightarrow> growing m) \<Longrightarrow> (\<And>y. x = Some y \<Longrightarrow> growing (f y)) \<Longrightarrow> growing (case x of None \<Rightarrow> m | Some y \<Rightarrow> f y)"
  by (cases x) auto

lemma grow_prod [grow_intros]: "(\<And>a b. p = (a, b) \<Longrightarrow> growing (f a b)) \<Longrightarrow> growing (case p of (a, b) \<Rightarrow> f a b)"
  by (cases p) simp

lemma grow_prod_app [grow_intros]:
  "(\<And>a b. p = (a, b) \<Longrightarrow> growing (f a b acc)) \<Longrightarrow> growing ((case p of (a, b) \<Rightarrow> f a b) acc)"
  by (cases p) simp

lemma grow_mapS [grow_intros]: "(\<And>x. x \<in> set xs \<Longrightarrow> growing (f x)) \<Longrightarrow> growing (mapS f xs)"
  by (induction xs) (auto intro!: grow_intros)

lemma grow_foldS [grow_intros]: "(\<And>x a. x \<in> set xs \<Longrightarrow> growing (f x a)) \<Longrightarrow> growing (foldS f xs acc)"
  by (induction xs arbitrary: acc) (auto intro!: grow_intros)

lemma grow_modS [grow_intros]: "(\<And>s. grows s (g s)) \<Longrightarrow> growing (modS g)"
  by (auto simp: growing_def eff_apply)

lemma grow_ids [grow_intros]: "growing (on_pool_id m)" "growing (on_subnet_id m')" "growing (on_lmgr m'')"
  by (auto simp: growing_def zoomS_def grows_def split: prod.splits)

lemma grow_case_parser [grow_intros]:
  "growing a \<Longrightarrow> growing b \<Longrightarrow> growing c \<Longrightarrow> growing d \<Longrightarrow>
   growing (case k of KUint32 \<Rightarrow> a | KString \<Rightarrow> b | KPool \<Rightarrow> c | KOptionData \<Rightarrow> d)"
  by (cases k) auto

lemma grow_PoolParser_entry [grow_intros]: "growing (PoolParser_entry u ext e)"
  unfolding PoolParser_entry_def new_pool_prefix_def new_pool_range_def Let_def by (intro grow_intros)

lemma grow_PoolParser [grow_intros]: "growing (PoolParser_build u ext e)"
  unfolding PoolParser_build_def by (intro grow_intros)

lemma new_obj_grows: "new_obj o1 h = (r, h') \<Longrightarrow> heap_grows h h' \<and> r < length h' \<and> ob_option (h' ! r) = Opt (universe o1) (otype o1) (odata o1) (opayload o1) []"
  by (auto simp: new_obj_def heap_grows_def nth_append)

lemma OptionDataParser_build_Inr:
  assumes "OptionDataParser_build u ext e s = (r, t)"
  shows "grows s t" "option_defaults t = option_defaults s" "uint32_defaults t = uint32_defaults s"
    "r = Inr (space, p) \<Longrightarrow> p < length (cs_heap t)"
  using assms new_obj_grows
  by (auto simp: OptionDataParser_build_def bindS_askS grows_def split: sum.splits prod.splits)

lemma grow_OptionDataList [grow_intros]: "growing (OptionDataListParser_build u ext e)"
  unfolding OptionDataListParser_build_def
  by (intro grow_intros growI) (rule OptionDataParser_build_Inr(1))

lemma grow_OptionDefList [grow_intros]: "growing (OptionDefListParser_build u ext e)"
  unfolding OptionDefListParser_build_def OptionDefListParser_entry_def
  by (intro grow_intros) (simp_all add: grows_def)

lemma grow_OptionDefList_commit [grow_intros]: "growing OptionDefListParser_commit"
proof -
  have "growing (\<lambda>s. case addOptionDef (Some def) space (cs_cfg s) of Inl e \<Rightarrow> (Inl e, s) | Inr c \<Rightarrow> (Inr (), s\<lparr>cs_cfg := c\<rparr>))"
    for def space
    by (rule growI) (auto simp: grows_def elim!: addOptionDef_Inr split: sum.splits)
  then show ?thesis
    unfolding OptionDefListParser_commit_def
    by (intro grow_intros) (simp_all add: grows_def deleteOptionDefs_def)
qed

lemma grow_subnet_param [grow_intros]: "growing (subnet_param u ext factory p)"
  unfolding subnet_param_def by (intro grow_intros)

lemma mset_mm_insert: "mset (mm_insert k v xs) = add_mset (k, v) (mset xs)"
  by (induction xs) auto

lemma obj_addOption_grows:
  assumes "obj_addOption r sub h = Inr h'"
  shows "heap_grows h h'"
proof -
  have "h' = h[r := (h ! r)\<lparr>ob_children := mm_insert (obj_type h sub) (Shared sub) (ob_children (h ! r))\<rparr>]"
    using assms by (auto simp: obj_addOption_def Let_def split: if_splits)
  then have "ob_option (h' ! i) = ob_option (h ! i) \<and> mset (ob_children (h ! i)) \<subseteq># mset (ob_children (h' ! i))" if "i < length h" for i
    using that by (cases "i = r") (auto simp: mset_mm_insert)
  then show ?thesis using assms by (auto simp: obj_addOption_def heap_grows_def Let_def split: if_splits)
qed

lemma grow_add_suboption [grow_intros]: "growing (add_suboption r sub u)"
  by (rule growI) (auto simp: add_suboption_def grows_def dest: obj_addOption_grows split: sum.splits)

lemma grow_subnet_options [grow_intros]: "growing (subnet_options u own)"
  unfolding subnet_options_def over_spaces_def add_global_option_def add_own_option_def appendSubOptions_def
  by (intro grow_intros)

lemma grow_independent [grow_intros]: "growing (independent_param u ext kind name e)"
  unfolding independent_param_def by (cases kind) (auto intro!: grow_intros simp: grows_def)

lemma grow_parse_config:
  assumes "\<And>e. growing (build_subnets e)"
  shows "growing (parse_config u ext factory subnet_key build_subnets c)"
  unfolding parse_config_def group_param_def global_options_def
  by (intro grow_intros assms) (simp add: grows_def)

section \<open>Results of loops\<close>

text \<open>Every result of a loop was made by its round, between the states before and after the loop.\<close>

lemma mapS_rel:
  assumes "mapS f xs s = (Inr ys, t)" "reflp R" "transp R" "\<And>x s r t. x \<in> set xs \<Longrightarrow> f x s = (r, t) \<Longrightarrow> R s t"
  shows "R s t \<and> list_all2 (\<lambda>x y. \<exists>s' t'. R s s' \<and> f x s' = (Inr y, t') \<and> R t' t) xs ys"
  using assms(1,4)
proof (induction xs arbitrary: s ys)
  case Nil
  then show ?case using assms(2) by (auto simp: retS_def reflpD)
next
  case (Cons x xs)
  from Cons.prems(1) obtain y s1 zs where y: "f x s = (Inr y, s1)" "mapS f xs s1 = (Inr zs, t)" "ys = y # zs"
    by (auto simp: bindS_Inr retS_def)
  have g: "R s s1" using Cons.prems(2) [of x, OF _ y(1)] by simp
  have IH: "R s1 t" "list_all2 (\<lambda>x y. \<exists>s' t'. R s1 s' \<and> f x s' = (Inr y, t') \<and> R t' t) xs zs"
    using Cons.IH [OF y(2)] Cons.prems(2) by auto
  have "list_all2 (\<lambda>x y. \<exists>s' t'. R s s' \<and> f x s' = (Inr y, t') \<and> R t' t) xs zs"
    using IH(2) by (rule list_all2_mono) (use g assms(3) transpD in metis)
  moreover have "\<exists>s' t'. R s s' \<and> f x s' = (Inr y, t') \<and> R t' t" using y(1) IH(1) assms(2) reflpD by metis
  ultimately show ?case using y(3) g IH(1) transpD [OF assms(3)] by auto
qed

lemma mapS_each:
  assumes "mapS f xs s = (Inr ys, t)" "\<And>x. x \<in> set xs \<Longrightarrow> growing (f x)"
  shows "list_all2 (\<lambda>x y. \<exists>s' t'. grows s s' \<and> f x s' = (Inr y, t') \<and> grows t' t) xs ys"
proof -
  have "reflp grows" "transp grows" by (auto simp: reflp_def transp_def intro: grows_trans)
  moreover have "grows s t" if "x \<in> set xs" "f x s = (r, t)" for x s r t
    using assms(2) that by (auto simp: growing_def)
  ultimately show ?thesis using mapS_rel [OF assms(1)] by blast
qed

lemma mapS_result:
  assumes "mapS f xs s = (Inr ys, t)" "\<And>x. growing (f x)" "y \<in> set ys"
  obtains x s' t' where "x \<in> set xs" "grows s s'" "f x s' = (Inr y, t')" "grows t' t"
proof -
  have *: "list_all2 (\<lambda>x y. \<exists>s' t'. grows s s' \<and> f x s' = (Inr y, t') \<and> grows t' t) xs ys"
    using assms(1,2) by (rule mapS_each)
  obtain i where "i < length ys" "ys ! i = y" using assms(3) by (auto simp: in_set_conv_nth)
  then have "xs ! i \<in> set xs" "\<exists>s' t'. grows s s' \<and> f (xs ! i) s' = (Inr y, t') \<and> grows t' t"
    using list_all2_nthD2 [OF *, of i] list_all2_lengthD [OF *] by auto
  then show ?thesis using that by blast
qed

section \<open>Pools, options and subnets that parsing makes\<close>

lemma new_pool_built:
  "new_pool_prefix u a len s = (Inr p, t) \<Longrightarrow> built_pool u p"
  "new_pool_range u mn mx s = (Inr p, t) \<Longrightarrow> built_pool u p"
  unfolding new_pool_prefix_def new_pool_range_def zoomS_def built_pool_def
  by (cases u; clarsimp split: prod.splits; blast)+

lemma PoolParser_entry_built:
  assumes "PoolParser_entry u ext e s = (Inr p, t)"
  shows "built_pool u p"
  using assms
  by (auto simp: PoolParser_entry_def Let_def bindS_Inr eff_apply dest: new_pool_built split: if_splits)

lemma PoolParser_build_built:
  assumes "PoolParser_build u ext e s = (Inr ps, t)"
  shows "list_all (built_pool u) ps"
proof -
  obtain l where "mapS (PoolParser_entry u ext) l s = (Inr ps, t)"
    using assms by (auto simp: PoolParser_build_def bindS_Inr eff_apply)
  then have "built_pool u y" if "y \<in> set ps" for y
    using grow_PoolParser_entry that by (rule mapS_result) (rule PoolParser_entry_built)
  then show ?thesis by (simp add: list_all_iff)
qed

text \<open>The addresses that the text of a pool names.\<close>

definition pool_of_text :: "externals \<Rightarrow> Element \<Rightarrow> Pool \<Rightarrow> bool" where
  "pool_of_text ext e p \<longleftrightarrow>
     (\<exists>x. e = EString x \<and>
        (let t = erase_all (erase_all x (CHR '' '')) (CHR 0x09) in
         if CHR ''/'' \<in> set t then
           IOAddress_text ext (before (CHR ''/'') t) = Inr (pool_first p) \<and>
           (\<exists>len. lexical_cast_int ext (after (CHR ''/'') t) = Some len \<and>
                  lastAddrInPrefix (pool_first p) (word_of_int len) = Inr (pool_last p))
         else IOAddress_text ext (before (CHR ''-'') t) = Inr (pool_first p) \<and>
              IOAddress_text ext (after (CHR ''-'') t) = Inr (pool_last p)))"

lemma new_pool_ends:
  "new_pool_prefix u a len s = (Inr p, t) \<Longrightarrow> pool_first p = a \<and> lastAddrInPrefix a len = Inr (pool_last p)"
  "new_pool_range u mn mx s = (Inr p, t) \<Longrightarrow> pool_first p = mn \<and> pool_last p = mx"
  by (auto simp: new_pool_prefix_def new_pool_range_def zoomS_def Pool4_prefix_def Pool6_prefix_def Pool4_range_def
      Pool6_range_def getNextID_def mk_Pool_def result_simps split: if_splits)

lemma PoolParser_entry_text:
  assumes "PoolParser_entry u ext e s = (Inr p, t)"
  shows "pool_of_text ext e p"
proof -
  obtain x where "e = EString x" using assms by (cases e) (auto simp: PoolParser_entry_def bindS_Inr eff_apply)
  then show ?thesis using assms
    by (auto simp: PoolParser_entry_def pool_of_text_def Let_def bindS_Inr eff_apply catch_all_def result_simps
        dest!: new_pool_ends split: if_splits sum.splits option.splits)
qed

lemma PoolParser_build_texts:
  assumes "PoolParser_build u ext e s = (Inr ps, t)"
  shows "\<exists>l. e = EList l \<and> list_all2 (pool_of_text ext) l ps"
proof -
  obtain l where l: "e = EList l" "mapS (PoolParser_entry u ext) l s = (Inr ps, t)"
    using assms by (cases e) (auto simp: PoolParser_build_def bindS_Inr eff_apply)
  have "list_all2 (pool_of_text ext) l ps"
    by (rule list_all2_mono [OF mapS_each [OF l(2) grow_PoolParser_entry]]) (blast intro: PoolParser_entry_text)
  with l(1) show ?thesis by blast
qed

text \<open>All pointers in a container point at objects.\<close>

definition refs_ok :: "heap \<Rightarrow> nat spaces \<Rightarrow> bool" where
  "refs_ok h sp \<longleftrightarrow> (\<forall>(k, rs) \<in> set sp. \<forall>r \<in> set rs. r < length h)"

definition refs_of :: "Universe \<Rightarrow> heap \<Rightarrow> nat spaces \<Rightarrow> bool" where
  "refs_of u h sp \<longleftrightarrow> (\<forall>(k, rs) \<in> set sp. \<forall>r \<in> set rs. r < length h \<and> universe (ob_option (h ! r)) = u)"

lemma refs_ok_empty [simp]: "refs_ok h []" "refs_of u h []"
  by (simp_all add: refs_ok_def refs_of_def)

lemma refs_grow:
  "refs_ok h sp \<Longrightarrow> heap_grows h h' \<Longrightarrow> refs_ok h' sp"
  "refs_of u h sp \<Longrightarrow> heap_grows h h' \<Longrightarrow> refs_of u h' sp"
  by (fastforce simp: refs_ok_def refs_of_def heap_grows_def)+

lemma sp_set_entries: "(k', v') \<in> set (sp_set k v m) \<Longrightarrow> (k', v') = (k, v) \<or> (k', v') \<in> set m"
  by (induction m) (auto split: if_splits)

lemma sp_getItems_entries: "x \<in> set (sp_getItems k m) \<Longrightarrow> \<exists>rs. (k, rs) \<in> set m \<and> x \<in> set rs"
  by (cases "map_of m k") (auto simp: sp_getItems_def dest: map_of_SomeD)

lemma refs_ok_items: "refs_ok h m \<Longrightarrow> r \<in> set (sp_getItems k m) \<Longrightarrow> r < length h"
  using sp_getItems_entries by (fastforce simp: refs_ok_def)

lemma refs_ok_set:
  assumes "refs_ok h m" "\<forall>r \<in> set rs. r < length h"
  shows "refs_ok h (sp_set k rs m)"
  using assms sp_set_entries [of _ _ k rs m] by (fastforce simp: refs_ok_def)

lemma refs_ok_add: "refs_ok h m \<Longrightarrow> r < length h \<Longrightarrow> refs_ok h (sp_addItem r k m)"
  unfolding sp_addItem_def by (rule refs_ok_set) (auto dest: refs_ok_items)

lemma refs_of_add:
  assumes "refs_of u h m" "r < length h" "universe (ob_option (h ! r)) = u"
  shows "refs_of u h (sp_addItem r k m)"
proof -
  have "r' < length h \<and> universe (ob_option (h ! r')) = u" if "r' \<in> set (sp_getItems k m)" for r'
    using that assms(1) sp_getItems_entries [OF that] by (fastforce simp: refs_of_def)
  then show ?thesis
    using assms sp_set_entries [of _ _ k "sp_getItems k m @ [r]" m] by (fastforce simp: refs_of_def sp_addItem_def)
qed

lemma OptionDataParser_commit_refs:
  assumes "refs_ok h m" "r < length h"
  shows "refs_ok h (OptionDataParser_commit h (k, r) m)"
  using assms refs_ok_items [OF assms(1)]
  by (auto simp: OptionDataParser_commit_def Let_def intro!: refs_ok_add refs_ok_set)

lemma OptionDataListParser_commit_refs:
  assumes "list_all (\<lambda>(k, r). r < length h) ps"
  shows "refs_ok h (OptionDataListParser_commit h ps)"
proof -
  have "refs_ok h (fold (OptionDataParser_commit h) ps m)" if "refs_ok h m" for m
    using assms that by (induction ps arbitrary: m) (auto intro: OptionDataParser_commit_refs)
  then show ?thesis by (simp add: OptionDataListParser_commit_def)
qed

lemma OptionDataListParser_build_refs:
  assumes "OptionDataListParser_build u ext e s = (Inr ps, t)"
  shows "list_all (\<lambda>(k, r). r < length (cs_heap t)) ps"
proof -
  obtain l where "mapS (OptionDataParser_build u ext) l s = (Inr ps, t)"
    using assms by (auto simp: OptionDataListParser_build_def bindS_Inr eff_apply)
  moreover have "growing (OptionDataParser_build u ext x)" for x
    by (rule growI) (rule OptionDataParser_build_Inr(1))
  ultimately have "r < length (cs_heap t)" if "(k, r) \<in> set ps" for k r
    using that
  proof (rule mapS_result)
    fix x s' t' assume "OptionDataParser_build u ext x s' = (Inr (k, r), t')" "grows t' t"
    then show ?thesis using OptionDataParser_build_Inr(4) by (fastforce simp: grows_def heap_grows_def)
  qed
  then show ?thesis by (auto simp: list_all_iff)
qed

lemma foldS_inv:
  assumes "foldS f xs acc s = (Inr y, t)" "Q acc s" "\<And>x a. growing (f x a)"
    and "\<And>x a s' b t'. x \<in> set xs \<Longrightarrow> grows s s' \<Longrightarrow> Q a s' \<Longrightarrow> f x a s' = (Inr b, t') \<Longrightarrow> Q b t'"
  shows "Q y t"
  using assms
proof (induction xs arbitrary: acc s)
  case (Cons x xs)
  from Cons.prems(1) obtain b s1 where b: "f x acc s = (Inr b, s1)" "foldS f xs b s1 = (Inr y, t)"
    by (auto simp: bindS_Inr)
  have g: "grows s s1" using growD [OF Cons.prems(3) b(1)] .
  show ?case
  proof (rule Cons.IH [OF b(2) _ Cons.prems(3)])
    show "Q b s1" using Cons.prems(4) [OF _ grows_refl Cons.prems(2) b(1)] by simp
  next
    fix x' a s' b t' assume "x' \<in> set xs" "grows s1 s'" "Q a s'" "f x' a s' = (Inr b, t')"
    then show "Q b t'" using Cons.prems(4) [of x' s' a b t'] grows_trans [OF g] by simp
  qed
qed (auto simp: retS_def)

lemma grow_add_option [grow_intros]: "growing (add_own_option u k r opts)" "growing (add_global_option u k r opts)"
  unfolding add_global_option_def add_own_option_def appendSubOptions_def by (intro grow_intros)+

lemma add_own_option_refs:
  assumes "add_own_option u k r opts s = (Inr opts', t)" "r < length (cs_heap s)" "refs_of u (cs_heap s) opts"
  shows "refs_of u (cs_heap t) opts'"
proof -
  have "growing (appendSubOptions u k r)" unfolding appendSubOptions_def by (intro grow_intros)
  moreover obtain x where "appendSubOptions u k r s = (Inr x, t)" "subnet_addOption u (cs_heap t) r k opts = Inr opts'"
    using assms(1) by (auto simp: add_own_option_def bindS_Inr eff_apply)
  ultimately have "heap_grows (cs_heap s) (cs_heap t)" "subnet_addOption u (cs_heap t) r k opts = Inr opts'"
    using growD by (auto simp: grows_def)
  moreover from this have "r < length (cs_heap t)" "refs_of u (cs_heap t) opts"
    using assms(2,3) refs_grow(2) by (auto simp: heap_grows_def)
  ultimately show ?thesis by (auto simp: subnet_addOption_def intro: refs_of_add split: if_splits)
qed

lemma add_global_option_refs:
  assumes "add_global_option u k r opts s = (Inr opts', t)" "r < length (cs_heap s)" "refs_of u (cs_heap s) opts"
  shows "refs_of u (cs_heap t) opts'"
  using assms add_own_option_refs
  by (auto simp: add_global_option_def bindS_askS eff_apply split: if_splits)

lemma over_spaces_refs:
  assumes run: "over_spaces f sp acc s = (Inr opts, t)" and ok: "refs_ok (cs_heap s) sp" "refs_of u (cs_heap s) acc"
    and gr: "\<And>k r opts. growing (f k r opts)"
    and step: "\<And>k r opts s opts' t. f k r opts s = (Inr opts', t) \<Longrightarrow> r < length (cs_heap s) \<Longrightarrow>
      refs_of u (cs_heap s) opts \<Longrightarrow> refs_of u (cs_heap t) opts'"
  shows "refs_of u (cs_heap t) opts"
proof -
  let ?Q = "\<lambda>opts s. refs_of u (cs_heap s) opts"
  have inner: "?Q b t'" if "(k, items) \<in> set sp" "grows s s'" "?Q a s'" "foldS (f k) items a s' = (Inr b, t')" for k items a b s' t'
  proof (rule foldS_inv [where Q = ?Q, OF that(4,3) gr])
    fix r a s'' b t'' assume r: "r \<in> set items" "grows s' s''" "?Q a s''" "f k r a s'' = (Inr b, t'')"
    have "r < length (cs_heap s)" using ok(1) that(1) r(1) by (fastforce simp: refs_ok_def)
    then have "r < length (cs_heap s'')" using that(2) r(2) by (auto simp: grows_def heap_grows_def)
    then show "?Q b t''" using step r by blast
  qed
  show ?thesis
    using run unfolding over_spaces_def
  proof (rule foldS_inv [where Q = ?Q])
    show "growing ((case x of (option_space, items) \<Rightarrow> foldS (f option_space) items) a)" for x a
      by (cases x) (auto intro!: grow_intros gr)
  next
    fix x a s' b t' assume "x \<in> set sp" "grows s s'" "?Q a s'" "(case x of (k, items) \<Rightarrow> foldS (f k) items) a s' = (Inr b, t')"
    moreover obtain k items where "x = (k, items)" by (metis surj_pair)
    ultimately show "?Q b t'" using inner by simp
  qed (use ok(2) in simp)
qed

text \<open>Building subnets leaves the global defaults alone.\<close>

abbreviation same_defaults :: "cfg_state \<Rightarrow> cfg_state \<Rightarrow> bool" where
  "same_defaults s t \<equiv> uint32_defaults t = uint32_defaults s \<and> option_defaults t = option_defaults s"

lemma keeps_prod_app [keeps_intros]:
  "(\<And>a b. p = (a, b) \<Longrightarrow> keeps P (f a b acc)) \<Longrightarrow> keeps P ((case p of (a, b) \<Rightarrow> f a b) acc)"
  by (cases p) simp

lemma keeps_add_suboption [keeps_intros]: "keeps (same_defaults s) (add_suboption r sub u)"
  by (rule keepsI) (auto simp: add_suboption_def split: sum.splits)

lemma keeps_over_spaces [keeps_intros]:
  "keeps (same_defaults s) (over_spaces (add_own_option u) own acc)"
  "keeps (same_defaults s) (over_spaces (add_global_option u) own acc)"
  unfolding over_spaces_def add_global_option_def add_own_option_def appendSubOptions_def by (intro keeps_intros)+

lemma subnet_options_refs:
  assumes "subnet_options u own s = (Inr opts, t)" "refs_ok (cs_heap s) own" "refs_ok (cs_heap s) (option_defaults s)"
  shows "refs_of u (cs_heap t) opts"
proof -
  obtain acc s1 where a: "over_spaces (add_own_option u) own [] s = (Inr acc, s1)"
      "over_spaces (add_global_option u) (option_defaults s1) acc s1 = (Inr opts, t)"
    using assms(1) by (auto simp: subnet_options_def bindS_Inr eff_apply)
  have d: "option_defaults s1 = option_defaults s"
    using keepsD [OF keeps_over_spaces(1) _ a(1), of s] by simp
  have "growing (over_spaces (add_own_option u) own [])" unfolding over_spaces_def by (intro grow_intros)
  then have "heap_grows (cs_heap s) (cs_heap s1)" using growD a(1) by (auto simp: grows_def)
  then have ok: "refs_ok (cs_heap s1) (option_defaults s1)" using assms(3) refs_grow(1) d by simp
  have acc: "refs_of u (cs_heap s1) acc"
    using a(1) assms(2) refs_ok_empty(2) grow_add_option(1) add_own_option_refs by (rule over_spaces_refs)
  show ?thesis
    using a(2) ok acc grow_add_option(2) add_global_option_refs by (rule over_spaces_refs)
qed

section \<open>A subnet from its entry\<close>

text \<open>What the parser of one parameter of a subnet has made of its element.\<close>

definition parsed_from ::
  "Universe \<Rightarrow> externals \<Rightarrow> (string \<Rightarrow> parser_kind result) \<Rightarrow> heap \<Rightarrow> string \<times> Element \<Rightarrow> parsed \<Rightarrow> bool" where
  "parsed_from u ext factory h param p \<longleftrightarrow>
     (case factory (fst param) of
        Inr KUint32 \<Rightarrow> (\<exists>v. uint32_build u ext (snd param) = Inr v \<and> p = PUint32 (fst param) v)
      | Inr KString \<Rightarrow> p = PString (fst param) (StringParser_build (snd param))
      | Inr KPool \<Rightarrow> (\<exists>l ps. snd param = EList l \<and> p = PPools ps \<and> list_all2 (pool_of_text ext) l ps \<and> list_all (built_pool u) ps)
      | Inr KOptionData \<Rightarrow> (\<exists>os. p = POptions os \<and> list_all (\<lambda>(k, r). r < length h) os)
      | Inl _ \<Rightarrow> False)"

lemma subnet_param_parsed:
  assumes "subnet_param u ext factory param s = (Inr p, t)"
  shows "parsed_from u ext factory (cs_heap t) param p"
proof -
  obtain n e where param: "param = (n, e)" by (cases param)
  obtain kind where k: "factory n = Inr kind"
    using assms param by (auto simp: subnet_param_def bindS_Inr eff_apply)
  show ?thesis
  proof (cases kind)
    case KPool
    then obtain ps where "PoolParser_build u ext e s = (Inr ps, t)" "p = PPools ps"
      using assms param k by (auto simp: subnet_param_def bindS_Inr eff_apply)
    then show ?thesis
      using KPool k param PoolParser_build_built PoolParser_build_texts by (fastforce simp: parsed_from_def)
  next
    case KOptionData
    then obtain os where "OptionDataListParser_build u ext e s = (Inr os, t)" "p = POptions os"
      using assms param k by (auto simp: subnet_param_def bindS_Inr eff_apply)
    then show ?thesis using KOptionData k param OptionDataListParser_build_refs by (fastforce simp: parsed_from_def)
  qed (use assms param k in \<open>auto simp: subnet_param_def parsed_from_def bindS_Inr eff_apply\<close>)
qed

lemma parsed_from_grow:
  "parsed_from u ext factory h param p \<Longrightarrow> heap_grows h h' \<Longrightarrow> parsed_from u ext factory h' param p"
  by (fastforce simp: parsed_from_def heap_grows_def list_all_iff split: sum.splits parser_kind.splits)

lemma subnet_params_parsed:
  assumes "mapS (subnet_param u ext factory) m s = (Inr ps, t)"
  shows "list_all2 (parsed_from u ext factory (cs_heap t)) m ps"
  by (rule list_all2_mono [OF mapS_each [OF assms grow_subnet_param]])
    (auto dest!: subnet_param_parsed intro: parsed_from_grow simp: grows_def)

text \<open>The storages after the commits hold what the entry says.\<close>

definition stored_values ::
  "Universe \<Rightarrow> externals \<Rightarrow> (string \<Rightarrow> parser_kind result) \<Rightarrow> (string \<times> Element) list \<Rightarrow> subnet_values \<Rightarrow> subnet_values \<Rightarrow> bool" where
  "stored_values u ext factory m sv sv' \<longleftrightarrow>
     (\<forall>n. factory n = Inr KUint32 \<longrightarrow>
        (case map_of m n of None \<Rightarrow> sv_uint32 sv' n = sv_uint32 sv n
         | Some e \<Rightarrow> \<exists>v. uint32_build u ext e = Inr v \<and> sv_uint32 sv' n = Some v)) \<and>
     (\<forall>n. factory n = Inr KString \<longrightarrow>
        sv_string sv' n = (case map_of m n of None \<Rightarrow> sv_string sv n | Some e \<Rightarrow> Some (StringParser_build e))) \<and>
     (\<exists>ps. sv_pools sv' = sv_pools sv @ ps \<and> list_all (built_pool u) ps \<and>
        (case map_of m ''pool'' of None \<Rightarrow> ps = [] | Some e \<Rightarrow> \<exists>l. e = EList l \<and> list_all2 (pool_of_text ext) l ps))"

lemma stored_step:
  assumes "parsed_from u ext factory h (n, e) p" "n \<notin> fst ` set m" "stored_values u ext factory m (commit_parsed h p sv) sv'"
    and pool: "\<And>n. factory n = Inr KPool \<longleftrightarrow> n = ''pool''"
  shows "stored_values u ext factory ((n, e) # m) sv sv'"
proof -
  have none: "map_of m n = None" using assms(2) by (simp add: map_of_eq_None_iff)
  consider (u32) v where "factory n = Inr KUint32" "uint32_build u ext e = Inr v" "p = PUint32 n v"
    | (str) "factory n = Inr KString" "p = PString n (StringParser_build e)"
    | (pools) l ps where "factory n = Inr KPool" "n = ''pool''" "e = EList l" "p = PPools ps" "list_all2 (pool_of_text ext) l ps"
        "list_all (built_pool u) ps"
    | (opts) os where "factory n = Inr KOptionData" "p = POptions os"
    using assms(1) pool [of n] by (auto simp: parsed_from_def split: sum.splits parser_kind.splits)
  then show ?thesis
    using assms(3) none pool [of n]
    by cases (auto simp: stored_values_def setParam_def split: option.splits if_splits)
qed

lemma fold_commit_stored:
  assumes "list_all2 (parsed_from u ext factory h) m ps" "distinct (map fst m)" "\<And>n. factory n = Inr KPool \<longleftrightarrow> n = ''pool''"
  shows "stored_values u ext factory m sv (fold (commit_parsed h) ps sv)"
  using assms(1,2)
proof (induction arbitrary: sv rule: list_all2_induct)
  case Nil
  then show ?case by (auto simp: stored_values_def)
next
  case (Cons param m p ps)
  obtain n e where "param = (n, e)" by (cases param)
  with Cons show ?case using assms(3) by (auto intro!: stored_step [where h = h])
qed

lemma fold_commit_refs:
  assumes "list_all2 (parsed_from u ext factory h) m ps" "refs_ok h (sv_options sv)" "list_all (built_pool u) (sv_pools sv)"
  shows "refs_ok h (sv_options (fold (commit_parsed h) ps sv)) \<and> list_all (built_pool u) (sv_pools (fold (commit_parsed h) ps sv))"
  using assms
proof (induction arbitrary: sv rule: list_all2_induct)
  case (Cons param m p ps)
  then have "refs_ok h (sv_options (commit_parsed h p sv))" "list_all (built_pool u) (sv_pools (commit_parsed h p sv))"
    by (auto simp: parsed_from_def intro: OptionDataListParser_commit_refs split: sum.splits parser_kind.splits)
  with Cons show ?case by simp
qed simp

lemma build_subnet_values_Inr:
  assumes "build_subnet_values u ext factory (EMap m) s = (Inr sv, t)" "\<And>n. factory n = Inr KPool \<longleftrightarrow> n = ''pool''"
  shows "distinct (map fst m) \<Longrightarrow> stored_values u ext factory m no_subnet_values sv" "refs_ok (cs_heap t) (sv_options sv)" "list_all (built_pool u) (sv_pools sv)"
proof -
  obtain ps where ps: "mapS (subnet_param u ext factory) m s = (Inr ps, t)"
      "sv = fold (commit_parsed (cs_heap t)) ps no_subnet_values"
    using assms(1) by (auto simp: build_subnet_values_def bindS_Inr eff_apply)
  note p = subnet_params_parsed [OF ps(1)]
  show "distinct (map fst m) \<Longrightarrow> stored_values u ext factory m no_subnet_values sv"
    unfolding ps(2) using p _ assms(2) by (rule fold_commit_stored)
  show "refs_ok (cs_heap t) (sv_options sv)" "list_all (built_pool u) (sv_pools sv)"
    using fold_commit_refs [OF p, of no_subnet_values] unfolding ps(2) by (auto simp: no_subnet_values_def)
qed

lemma keeps_subnet_values [keeps_intros]: "keeps (same_defaults s) (build_subnet_values u ext factory e)"
proof -
  have "keeps (same_defaults s) (OptionDataParser_build u ext x)" for x
    by (rule keepsI) (simp add: OptionDataParser_build_Inr(2,3))
  moreover have "keeps (same_defaults s) (PoolParser_entry u ext x)" for x
    unfolding PoolParser_entry_def new_pool_prefix_def new_pool_range_def Let_def
    by (intro keeps_intros keeps_zoom [where Q = "\<lambda>_. True"]) (auto simp: keeps_def)
  ultimately have "keeps (same_defaults s) (subnet_param u ext factory x)" for x
    unfolding subnet_param_def PoolParser_build_def OptionDataListParser_build_def
    by (auto intro!: keeps_intros split: prod.splits parser_kind.splits)
  then show ?thesis unfolding build_subnet_values_def by (intro keeps_intros)
qed

text \<open>A parameter comes from the entry of the subnet or else from the global values.\<close>

definition entry_param ::
  "Universe \<Rightarrow> externals \<Rightarrow> u32 ValueStorage \<Rightarrow> (string \<times> Element) list \<Rightarrow> string \<Rightarrow> Triplet \<Rightarrow> bool" where
  "entry_param u ext globals m n tr \<longleftrightarrow>
     (\<exists>v. (case map_of m n of Some e \<Rightarrow> uint32_build u ext e | None \<Rightarrow> getParam n globals) = Inr v \<and> tr = Triplet_fixed v)"

definition entry_pools :: "externals \<Rightarrow> (string \<times> Element) list \<Rightarrow> Pool list \<Rightarrow> bool" where
  "entry_pools ext m ps \<longleftrightarrow>
     (case map_of m ''pool'' of None \<Rightarrow> ps = [] | Some e \<Rightarrow> \<exists>l. e = EList l \<and> list_all2 (pool_of_text ext) l ps)"

definition entry_prefix :: "externals \<Rightarrow> (string \<times> Element) list \<Rightarrow> ioaddress \<Rightarrow> u8 \<Rightarrow> bool" where
  "entry_prefix ext m prefix len \<longleftrightarrow>
     (\<exists>e. map_of m ''subnet'' = Some e \<and> subnet_prefix ext (StringParser_build e) = Inr (prefix, len))"

lemma inherited_param_entry:
  assumes "inherited_param n (sv_uint32 sv) s = (Inr tr, t)" "stored_values u ext factory m no_subnet_values sv" "factory n = Inr KUint32"
  shows "entry_param u ext (uint32_defaults s) m n tr" "t = s"
  using assms by (auto simp: inherited_param_def eff_apply stored_values_def entry_param_def result_simps getParam_def no_subnet_values_def
      split: option.splits sum.splits)

lemma addPools_fields:
  assumes "foldE Subnet_addPool ps sn = Inr sn'" "list_all (built_pool u) ps" "wf_subnet u sn"
  shows "wf_subnet u sn' \<and> sn' = sn\<lparr>sn_pools := sn_pools sn @ ps\<rparr>"
  using assms
proof (induction ps arbitrary: sn)
  case (Cons p ps)
  then obtain sn1 where sn1: "Subnet_addPool p sn = Inr sn1" "foldE Subnet_addPool ps sn1 = Inr sn'" by (auto simp: result_simps)
  then have "sn1 = sn\<lparr>sn_pools := sn_pools sn @ [p]\<rparr>" by (auto simp: Subnet_addPool_def result_simps split: if_splits)
  moreover have "wf_subnet u sn1" using Cons.prems sn1(1) by (auto intro: addPool_wf)
  ultimately show ?case using Cons.IH [OF sn1(2)] Cons.prems(2) by auto
qed simp

lemma on_subnet_id_Inr: "on_subnet_id m s = (Inr x, t) \<Longrightarrow> \<exists>c. m (cs_subnet_id s) = (Inr x, c) \<and> t = s\<lparr>cs_subnet_id := c\<rparr>"
  by (auto simp: zoomS_def split: prod.splits)

text \<open>Reading the prefix of the subnet from the stored text.\<close>

lemma stored_prefix:
  assumes "stored_values u ext factory m no_subnet_values sv" "factory ''subnet'' = Inr KString"
    and "bindE (getParam ''subnet'' (sv_string sv)) (subnet_prefix ext) = Inr (addr, len)"
  shows "entry_prefix ext m addr len"
  using assms by (auto simp: stored_values_def entry_prefix_def getParam_def result_simps no_subnet_values_def split: option.splits)

lemma stored_pools: "stored_values u ext factory m no_subnet_values sv \<Longrightarrow> entry_pools ext m (sv_pools sv)"
  by (auto simp: stored_values_def entry_pools_def no_subnet_values_def split: option.splits)

section \<open>The whole configuration\<close>

text \<open>The invariant of the configuration state: well-formed subnets, each with its container of options, whose
  pointers are valid and of the right protocol.\<close>

definition cfg_inv :: "cfg_state \<Rightarrow> bool" where
  "cfg_inv s \<longleftrightarrow> wf_cfg (cs_cfg s) \<and> refs_ok (cs_heap s) (option_defaults s) \<and>
     length (cs_options4 s) = length (cfg_subnets4 (cs_cfg s)) \<and> length (cs_options6 s) = length (cfg_subnets6 (cs_cfg s)) \<and>
     list_all (refs_of UV4 (cs_heap s)) (cs_options4 s) \<and> list_all (refs_of UV6 (cs_heap s)) (cs_options6 s)"

lemma cfg_inv_initial: "cfg_inv initial_state"
  by (simp add: cfg_inv_def initial_state_def wf_cfg_def mk_CfgMgr_def)

lemma cfg_inv_grows:
  assumes "cfg_inv s" "grows s t" "refs_ok (cs_heap t) (option_defaults t)"
  shows "cfg_inv t"
  using assms refs_grow(2) by (auto simp: cfg_inv_def grows_def wf_cfg_def list_all_iff)

abbreviation defaults_ok :: "cfg_state \<Rightarrow> bool" where
  "defaults_ok s \<equiv> refs_ok (cs_heap s) (option_defaults s)"

lemma keeps_defaults_ok:
  assumes "growing m" "\<And>s r t. m s = (r, t) \<Longrightarrow> option_defaults t = option_defaults s"
  shows "keeps defaults_ok m"
  by (rule keepsI) (use growD [OF assms(1)] assms(2) refs_grow(1) in \<open>fastforce simp: grows_def\<close>)

lemma same_options_keeps:
  assumes "\<And>D. keeps (\<lambda>s. option_defaults s = D) m" "m s = (r, t)"
  shows "option_defaults t = option_defaults s"
  using keepsD [OF assms(1) refl assms(2)] by simp

lemma keeps_independent: "keeps (\<lambda>s. option_defaults s = D) (independent_param u ext kind name e)"
proof -
  have z: "keeps (\<lambda>s. option_defaults s = D) (on_lmgr m)" for m :: "(Memfile_LeaseMgr option, unit) eff"
    by (rule keeps_zoom [where Q = "\<lambda>_. True"]) (auto simp: keeps_def)
  have a: "keeps (\<lambda>s. option_defaults s = D)
      (\<lambda>s. case addOptionDef (Some def) space (cs_cfg s) of Inl e \<Rightarrow> (Inl e, s) | Inr c \<Rightarrow> (Inr (), s\<lparr>cs_cfg := c\<rparr>))" for def space
    by (rule keepsI) (auto split: sum.splits)
  show ?thesis
    unfolding independent_param_def OptionDefListParser_build_def OptionDefListParser_entry_def OptionDefListParser_commit_def
    by (cases kind) (auto intro!: keeps_intros z a)
qed

lemma keeps_group: "keeps defaults_ok (mapS (group_param u ext factory k) m)"
proof (intro keeps_mapS keeps_defaults_ok)
  fix x
  show "growing (group_param u ext factory k x)" unfolding group_param_def by (intro grow_intros)
  have "keeps (\<lambda>s. option_defaults s = D) (group_param u ext factory k x)" for D
    unfolding group_param_def by (auto intro!: keeps_intros keeps_independent split: prod.splits)
  then show "group_param u ext factory k x s = (r, t) \<Longrightarrow> option_defaults t = option_defaults s" for s r t
    by (rule same_options_keeps)
qed

lemma keeps_global_options: "keeps defaults_ok (global_options u ext e)"
proof (rule keepsI)
  fix s r t assume s: "defaults_ok s" "global_options u ext e s = (r, t)"
  from s(2) show "defaults_ok t"
    unfolding global_options_def
  proof (cases rule: bindS_cases)
    case (throws e')
    have "keeps defaults_ok (OptionDataListParser_build u ext e)"
    proof (rule keeps_defaults_ok [OF grow_OptionDataList])
      have "keeps (\<lambda>s. option_defaults s = D) (OptionDataListParser_build u ext e)" for D
        unfolding OptionDataListParser_build_def
        by (intro keeps_intros keepsI) (simp add: OptionDataParser_build_Inr(2))
      then show "OptionDataListParser_build u ext e s = (r, t) \<Longrightarrow> option_defaults t = option_defaults s" for s r t
        by (rule same_options_keeps)
    qed
    from keepsD [OF this s(1) throws(1)] show ?thesis .
  next
    case (returns ps s')
    then show ?thesis
      using OptionDataListParser_build_refs [OF returns(1)] OptionDataListParser_commit_refs by (auto simp: eff_apply)
  qed
qed

lemma keeps_parse_config:
  assumes "\<And>e. keeps defaults_ok (build_subnets e)"
  shows "keeps defaults_ok (parse_config u ext factory k build_subnets c)"
  unfolding parse_config_def by (intro keeps_intros keeps_group keeps_global_options assms)

text \<open>What a refused configuration leaves as it was.\<close>

definition unchanged :: "cfg_state \<Rightarrow> cfg_state \<Rightarrow> bool" where
  "unchanged s t \<longleftrightarrow>
     uint32_defaults t = uint32_defaults s \<and> string_defaults t = string_defaults s \<and>
     option_defaults t = option_defaults s \<and> option_def_intermediate t = option_def_intermediate s \<and>
     cfg_subnets4 (cs_cfg t) = cfg_subnets4 (cs_cfg s) \<and> cfg_subnets6 (cs_cfg t) = cfg_subnets6 (cs_cfg s) \<and>
     cs_options4 t = cs_options4 s \<and> cs_options6 t = cs_options6 s \<and> heap_grows (cs_heap s) (cs_heap t)"

lemma run_config_cases:
  assumes "run_config parse commit s = (Inr n, t)"
  obtains (refused) e s' where "parse s = (Inl e, s')" "n = 1" "t = rollback s s'"
  | (accepted) subnets s' where "parse s = (Inr subnets, s')" "n = 0"
      "(case subnets of None \<Rightarrow> retS () | Some l \<Rightarrow> commit l) s' = (Inr (), t)"
  | (failed) subnets s' e t' where "parse s = (Inr subnets, s')"
      "(case subnets of None \<Rightarrow> retS () | Some l \<Rightarrow> commit l) s' = (Inl e, t')" "n = 2" "t = rollback s t'"
  using assms by (auto simp: run_config_def split: prod.splits sum.splits if_splits)

lemma rollback_inv:
  assumes "cfg_inv t" "refs_ok (cs_heap t) (option_defaults s)"
  shows "cfg_inv (rollback s t)"
  using assms by (simp add: cfg_inv_def rollback_def)

section \<open>The contract of a server\<close>

text \<open>A pair of a subnet and its options, made from an element of the configuration.\<close>

definition made ::
  "Universe \<Rightarrow> ('sn \<Rightarrow> bool) \<Rightarrow> (u32 ValueStorage \<Rightarrow> (string \<times> Element) list \<Rightarrow> 'sn \<Rightarrow> bool) \<Rightarrow> u32 ValueStorage \<Rightarrow> heap \<Rightarrow>
     Element \<Rightarrow> 'sn \<times> nat spaces \<Rightarrow> bool" where
  "made u good of_entry globals h e p \<longleftrightarrow> good (fst p) \<and> refs_of u h (snd p) \<and>
     (\<exists>m. e = EMap m \<and> (distinct (map fst m) \<longrightarrow> of_entry globals m (fst p)))"

text \<open>
  The two servers run the same scheme over their own parser of a subnet. What the scheme needs of it: it only
  adds objects, leaves the global values alone, and returns a well-formed subnet that its entry describes;
  and the commit installs the subnets and cannot fail.
\<close>

locale server_config =
  fixes u :: Universe and ext :: externals
    and global_factory :: "string \<Rightarrow> global_kind result" and subnet_key :: string
    and build :: "Element \<Rightarrow> ('sn \<times> nat spaces) cfg"
    and build_list :: "Element \<Rightarrow> ('sn \<times> nat spaces) list cfg"
    and commit_list :: "('sn \<times> nat spaces) list \<Rightarrow> unit cfg"
    and configure :: "Element option \<Rightarrow> nat cfg"
    and subnets :: "cfg_state \<Rightarrow> 'sn list"
    and install :: "('sn \<times> nat spaces) list \<Rightarrow> cfg_state \<Rightarrow> cfg_state"
    and good :: "'sn \<Rightarrow> bool"
    and of_entry :: "u32 ValueStorage \<Rightarrow> (string \<times> Element) list \<Rightarrow> 'sn \<Rightarrow> bool"
  assumes configure_eq: "configure c =
      (case c of None \<Rightarrow> retS 1
       | Some e \<Rightarrow> run_config (parse_config u ext global_factory subnet_key build_list e) commit_list)"
    and build_list_eq: "build_list e = bindS (liftS (listValue e)) (mapS build)"
    and grow_build: "growing (build e)"
    and keeps_build: "keeps (same_defaults s) (build e)"
    and build_made: "build e s = (Inr p, t) \<Longrightarrow> defaults_ok s \<Longrightarrow> made u good of_entry (uint32_defaults s) (cs_heap t) e p"
    and commit_list_eq: "commit_list l s = (Inr (), install l s)"
    and install_inv: "cfg_inv s \<Longrightarrow> list_all (\<lambda>p. good (fst p) \<and> refs_of u (cs_heap s) (snd p)) l \<Longrightarrow> cfg_inv (install l s)"
    and install_subnets: "subnets (install l s) = map fst l"
    and install_defaults: "uint32_defaults (install l s) = uint32_defaults s"
begin

lemma grow_build_list: "growing (build_list e)"
  unfolding build_list_eq by (intro grow_intros grow_build)

lemma keeps_build_list: "keeps defaults_ok (build_list e)"
proof (rule keeps_defaults_ok [OF grow_build_list])
  fix s r t assume run: "build_list e s = (r, t)"
  have "keeps (same_defaults s) (build_list e)" unfolding build_list_eq by (intro keeps_intros keeps_build)
  from keepsD [OF this _ run] show "option_defaults t = option_defaults s" by simp
qed

lemma build_list_made:
  assumes "build_list e s = (Inr l, t)" "defaults_ok s"
  shows "same_defaults s t" "\<exists>es. e = EList es \<and> list_all2 (made u good of_entry (uint32_defaults s) (cs_heap t)) es l"
proof -
  obtain es where es: "e = EList es" "mapS build es s = (Inr l, t)"
    using assms(1) by (cases e) (auto simp: build_list_eq bindS_Inr eff_apply)
  let ?R = "\<lambda>s t. grows s t \<and> same_defaults s t"
  have R: "reflp ?R" "transp ?R" by (auto simp: reflp_def transp_def intro: grows_trans)
  have step: "?R s t" if "x \<in> set es" "build x s = (r, t)" for x s r t
    using growD [OF grow_build that(2)] keepsD [OF keeps_build _ that(2), of s] by simp
  have run: "?R s t \<and> list_all2 (\<lambda>x y. \<exists>s' t'. ?R s s' \<and> build x s' = (Inr y, t') \<and> ?R t' t) es l"
    using es(2) R by (rule mapS_rel) (rule step)
  then show "same_defaults s t" by blast
  have "list_all2 (made u good of_entry (uint32_defaults s) (cs_heap t)) es l"
  proof (rule list_all2_mono)
    show "list_all2 (\<lambda>x y. \<exists>s' t'. ?R s s' \<and> build x s' = (Inr y, t') \<and> ?R t' t) es l"
      using run by blast
    fix x y assume "\<exists>s' t'. ?R s s' \<and> build x s' = (Inr y, t') \<and> ?R t' t"
    then obtain s' t' where y: "?R s s'" "build x s' = (Inr y, t')" "?R t' t" by blast
    have "defaults_ok s'" using y(1) assms(2) refs_grow(1) by (auto simp: grows_def)
    from build_made [OF y(2) this] show "made u good of_entry (uint32_defaults s) (cs_heap t) x y"
      using y(1,3) refs_grow(2) by (auto simp: made_def grows_def)
  qed
  with es(1) show "\<exists>es. e = EList es \<and> list_all2 (made u good of_entry (uint32_defaults s) (cs_heap t)) es l" by blast
qed

lemma parse_inv:
  assumes "parse_config u ext global_factory subnet_key build_list c s = (r, t)" "cfg_inv s"
  shows "cfg_inv t" "grows s t" "refs_ok (cs_heap t) (option_defaults s)"
proof -
  show g: "grows s t" using growD [OF grow_parse_config [OF grow_build_list] assms(1)] .
  have ok: "defaults_ok s" using assms(2) by (simp add: cfg_inv_def)
  then have "defaults_ok t" using keepsD [OF keeps_parse_config [OF keeps_build_list] _ assms(1)] by simp
  with assms(2) g show "cfg_inv t" by (rule cfg_inv_grows)
  show "refs_ok (cs_heap t) (option_defaults s)" using ok g refs_grow(1) by (auto simp: grows_def)
qed

text \<open>When the subnets were parsed, they were the last thing that was.\<close>

lemma parse_subnets:
  assumes "parse_config u ext global_factory subnet_key build_list (EMap m) s = (Inr ls, t)" "cfg_inv s"
  shows "case map_of m subnet_key of None \<Rightarrow> ls = None
    | Some e \<Rightarrow> \<exists>l es. ls = Some l \<and> e = EList es \<and> list_all2 (made u good of_entry (uint32_defaults t) (cs_heap t)) es l"
proof (cases "map_of m subnet_key")
  case None
  then show ?thesis using assms(1) by (auto simp: parse_config_def bindS_Inr eff_apply)
next
  case (Some e)
  let ?pre = "thenS (mapS (group_param u ext global_factory subnet_key) m)
       (case map_of m ''option-data'' of None \<Rightarrow> retS () | Some e \<Rightarrow> global_options u ext e)"
  have "bindS ?pre (\<lambda>_. bindS (build_list e) (\<lambda>l. retS (Some l))) s = (Inr ls, t)"
    using assms(1) by (simp add: parse_config_def Some eff_simps)
  then obtain x s1 l where l: "?pre s = (Inr x, s1)" "build_list e s1 = (Inr l, t)" "ls = Some l"
    by (auto simp: bindS_Inr eff_apply)
  have "keeps defaults_ok ?pre" by (intro keeps_intros keeps_group keeps_global_options)
  from keepsD [OF this _ l(1)] have "defaults_ok s1" using assms(2) by (simp add: cfg_inv_def)
  from build_list_made [OF l(2) this] show ?thesis using l(3) Some by auto
qed

lemma made_wf: "list_all2 (made u good of_entry g h) es l \<Longrightarrow> list_all (\<lambda>p. good (fst p) \<and> refs_of u h (snd p)) l"
  by (auto simp: list_all_length list_all2_conv_all_nth made_def)

lemma commit_inv:
  assumes "parse_config u ext global_factory subnet_key build_list e s = (Inr ls, s')" "cfg_inv s"
    and "(case ls of None \<Rightarrow> retS () | Some l \<Rightarrow> commit_list l) s' = (r, t)"
  shows "r = Inr () \<and> cfg_inv t"
proof -
  note p = parse_inv [OF assms(1,2)]
  obtain m where m: "e = EMap m"
    using assms(1) by (cases e) (auto simp: parse_config_def bindS_Inr eff_apply)
  show ?thesis
  proof (cases ls)
    case None
    then show ?thesis using assms(3) p by (simp add: eff_apply)
  next
    case (Some l)
    from parse_subnets [OF assms(1) [unfolded m] assms(2)] Some
    obtain es where "list_all2 (made u good of_entry (uint32_defaults s') (cs_heap s')) es l" by (auto split: option.splits)
    from install_inv [OF p(1) made_wf [OF this]] show ?thesis using assms(3) Some by (auto simp: commit_list_eq)
  qed
qed

lemma configure_inv:
  assumes "configure c s = (Inr n, t)" "cfg_inv s"
  shows "cfg_inv t"
proof (cases c)
  case None
  then show ?thesis using assms by (simp add: configure_eq eff_apply)
next
  case (Some e)
  from assms(1) show ?thesis unfolding configure_eq Some option.case
  proof (cases rule: run_config_cases)
    case (refused e' s')
    then show ?thesis using parse_inv [OF refused(1) assms(2)] rollback_inv by simp
  next
    case (accepted ls s')
    then show ?thesis using commit_inv [OF accepted(1) assms(2) accepted(3)] by simp
  next
    case (failed ls s' e' t')
    then show ?thesis using commit_inv [OF failed(1) assms(2) failed(2)] by simp
  qed
qed

lemma accepted:
  assumes "cfg_inv s" "configure (Some (EMap m)) s = (Inr 0, t)"
    and "map_of m subnet_key = Some (EList es)" "\<forall>em. EMap em \<in> set es \<longrightarrow> distinct (map fst em)"
  shows "list_all2 (\<lambda>e sn. \<exists>em. e = EMap em \<and> of_entry (uint32_defaults t) em sn) es (subnets t)"
proof -
  obtain ls s' where s': "parse_config u ext global_factory subnet_key build_list (EMap m) s = (Inr ls, s')"
      "(case ls of None \<Rightarrow> retS () | Some l \<Rightarrow> commit_list l) s' = (Inr (), t)"
    using assms(2) unfolding configure_eq option.case by (cases rule: run_config_cases) auto
  obtain l where l: "ls = Some l" "list_all2 (made u good of_entry (uint32_defaults s') (cs_heap s')) es l"
    using parse_subnets [OF s'(1) assms(1)] assms(3) by auto
  have t: "subnets t = map fst l" "uint32_defaults t = uint32_defaults s'"
    using s'(2) l(1) by (auto simp: commit_list_eq install_subnets install_defaults)
  show ?thesis
    unfolding t list_all2_map2
    using l(2) by (rule list.rel_mono_strong) (use assms(4) in \<open>auto simp: made_def\<close>)
qed

lemma refused:
  assumes "cfg_inv s" "configure c s = (Inr n, t)"
  shows "n \<in> {0, 1} \<and> (n \<noteq> 0 \<longrightarrow> unchanged s t)"
proof (cases c)
  case None
  then show ?thesis using assms by (auto simp: configure_eq eff_apply unchanged_def)
next
  case (Some e)
  from assms(2) show ?thesis unfolding configure_eq Some option.case
  proof (cases rule: run_config_cases)
    case (refused e' s')
    then show ?thesis using parse_inv(2) [OF refused(1) assms(1)] by (simp add: rollback_def grows_def unchanged_def)
  next
    case (failed ls s' e' t')
    then show ?thesis using commit_inv [OF failed(1) assms(1) failed(2)] by simp
  qed simp
qed

end

section \<open>What the server gets\<close>

lemma load_opt_universe: "load_opt n h r = Some o1 \<Longrightarrow> universe o1 = universe (ob_option (h ! r))"
  by (cases n) (auto simp: Let_def split: if_splits)

lemma load_spaces_universe:
  assumes "load_spaces h sp = Some oc" "refs_of u h sp" "d \<in> set (getItems k oc)"
  shows "\<exists>o1. od_option d = Some o1 \<and> universe o1 = u"
proof -
  let ?f = "\<lambda>r. \<lparr>od_option = load_opt (Suc (length h)) h r, od_persistent = False\<rparr>"
  from assms(1) have oc: "oc = map_of (map (\<lambda>(k, rs). (k, map ?f rs)) sp)"
    and some: "\<And>k rs r. (k, rs) \<in> set sp \<Longrightarrow> r \<in> set rs \<Longrightarrow> load_opt (Suc (length h)) h r \<noteq> None"
    by (auto simp: load_spaces_def list_all_iff simp del: load_opt.simps split: if_splits)
  obtain ds where "oc k = Some ds" "d \<in> set ds"
    using assms(3) by (cases "oc k") (auto simp: getItems_def)
  then obtain rs r where rs: "(k, rs) \<in> set sp" "r \<in> set rs" "d = ?f r"
    unfolding oc by (auto dest!: map_of_SomeD simp del: load_opt.simps)
  then obtain o1 where "load_opt (Suc (length h)) h r = Some o1" using some by blast
  moreover have "universe (ob_option (h ! r)) = u" using assms(2) rs(1,2) by (fastforce simp: refs_of_def)
  ultimately show ?thesis using rs(3) load_opt_universe by fastforce
qed

lemma with_options_wf:
  assumes "wf_subnet u sn" "load_spaces h sp = Some oc" "refs_of u h sp"
  shows "wf_subnet u (sn\<lparr>sn_option_spaces := oc\<rparr>)"
  using assms(1) load_spaces_universe [OF assms(2,3)] by (auto simp: wf_subnet_def)

lemma view_subnets_wf:
  assumes "list_all (wf_subnet u) sns" "list_all (refs_of u h) sps" "\<not> list_ex Option.is_none (map (load_spaces h) sps)"
    and "length sps = length sns"
  shows "list_all (wf_subnet u) (map2 (\<lambda>sn o1. sn\<lparr>sn_option_spaces := the o1\<rparr>) sns (map (load_spaces h) sps))"
  using assms(4,1-3)
proof (induction sps sns rule: list_induct2)
  case (Cons sp sps sn sns)
  then obtain oc where "load_spaces h sp = Some oc" by (cases "load_spaces h sp") auto
  with Cons with_options_wf [of u sn h sp oc] show ?case by simp
qed simp

lemma server_view_wf:
  assumes "cfg_inv s" "server_view s = Some c"
  shows "wf_cfg c" "length (cfg_subnets4 c) = length (cfg_subnets4 (cs_cfg s))"
    "length (cfg_subnets6 c) = length (cfg_subnets6 (cs_cfg s))"
proof -
  from assms(2) have no: "\<not> list_ex Option.is_none (map (load_spaces (cs_heap s)) (cs_options4 s))"
      "\<not> list_ex Option.is_none (map (load_spaces (cs_heap s)) (cs_options6 s))"
    and c: "c = (cs_cfg s)\<lparr>
        cfg_subnets4 := map2 (\<lambda>sn o1. sn\<lparr>sn_option_spaces := the o1\<rparr>) (cfg_subnets4 (cs_cfg s)) (map (load_spaces (cs_heap s)) (cs_options4 s)),
        cfg_subnets6 := map2 (\<lambda>sn o1. sn\<lparr>sn_option_spaces := the o1\<rparr>) (cfg_subnets6 (cs_cfg s)) (map (load_spaces (cs_heap s)) (cs_options6 s))\<rparr>"
    by (auto simp: server_view_def Let_def split: if_splits)
  show "length (cfg_subnets4 c) = length (cfg_subnets4 (cs_cfg s))"
    "length (cfg_subnets6 c) = length (cfg_subnets6 (cs_cfg s))"
    using assms(1) by (simp_all add: c cfg_inv_def)
  show "wf_cfg c"
    using assms(1) view_subnets_wf [OF _ _ no(1), of UV4 "cfg_subnets4 (cs_cfg s)"]
      view_subnets_wf [OF _ _ no(2), of UV6 "cfg_subnets6 (cs_cfg s)"]
    by (simp add: c wf_cfg_def cfg_inv_def del: map_map)
qed


end
