(* ===== verification/Config_Safety4.thy ===== *)
theory Config_Safety4
  imports Config_Safety
begin

text \<open>
  The DHCPv4 server as an instance of \<open>server_config\<close>: what \<^verbatim>\<open>Subnet4ConfigParser\<close> makes of an
  entry, and the properties of \<^verbatim>\<open>configureDhcp4Server\<close>.
\<close>

section \<open>A subnet from its entry\<close>

definition subnet4_of_entry :: "externals \<Rightarrow> u32 ValueStorage \<Rightarrow> (string \<times> Element) list \<Rightarrow> Subnet \<Rightarrow> bool" where
  "subnet4_of_entry ext globals m sn \<longleftrightarrow>
     wf_subnet UV4 sn \<and> entry_prefix ext m (sn_prefix sn) (sn_prefix_len sn) \<and> entry_pools ext m (sn_pools sn) \<and>
     entry_param UV4 ext globals m ''renew-timer'' (sn_t1 sn) \<and>
     entry_param UV4 ext globals m ''rebind-timer'' (sn_t2 sn) \<and>
     entry_param UV4 ext globals m ''valid-lifetime'' (sn_valid sn)"

lemma grow_createSubnet4 [grow_intros]: "growing (createSubnet4 ext sv)"
  unfolding createSubnet4_def inherited_param_def by (intro grow_intros)

lemma grow_Subnet4ConfigParser [grow_intros]: "growing (Subnet4ConfigParser_build ext e)"
  unfolding Subnet4ConfigParser_build_def build_subnet_values_def by (intro grow_intros)

lemma mk_Subnet4_fields:
  assumes "mk_Subnet4 prefix len t1 t2 valid ctr = (Inr sn, ctr')"
  shows "sn_prefix sn = prefix" "sn_prefix_len sn = len" "sn_t1 sn = t1" "sn_t2 sn = t2" "sn_valid sn = valid"
    "sn_pools sn = []" "sn_option_spaces sn = Map.empty"
  using assms by (auto simp: mk_Subnet4_def mk_Subnet_def getNextID_def Let_def result_simps split: if_splits)

lemma factory4:
  "createSubnet4ConfigParser n = Inr KPool \<longleftrightarrow> n = ''pool''" "createSubnet4ConfigParser ''subnet'' = Inr KString"
  "createSubnet4ConfigParser ''renew-timer'' = Inr KUint32" "createSubnet4ConfigParser ''rebind-timer'' = Inr KUint32"
  "createSubnet4ConfigParser ''valid-lifetime'' = Inr KUint32"
  by (auto simp: createSubnet4ConfigParser_def)

lemma createSubnet4_cases:
  assumes run: "createSubnet4 ext sv s = (Inr (sn, opts), t)" and pools: "list_all (built_pool UV4) (sv_pools sv)"
  obtains addr len c s' where
    "bindE (getParam ''subnet'' (sv_string sv)) (subnet_prefix ext) = Inr (addr, len)"
    "inherited_param ''renew-timer'' (sv_uint32 sv) s = (Inr (sn_t1 sn), s)"
    "inherited_param ''rebind-timer'' (sv_uint32 sv) s = (Inr (sn_t2 sn), s)"
    "inherited_param ''valid-lifetime'' (sv_uint32 sv) s = (Inr (sn_valid sn), s)"
    "wf_subnet UV4 sn" "sn_prefix sn = addr" "sn_prefix_len sn = len" "sn_pools sn = sv_pools sv"
    "sn_option_spaces sn = Map.empty"
    "subnet_options UV4 (sv_options sv) (s\<lparr>cs_subnet_id := c\<rparr>) = (Inr opts, t)"
proof -
  obtain addr len t1 t2 valid sn0 c where
    p: "bindE (getParam ''subnet'' (sv_string sv)) (subnet_prefix ext) = Inr (addr, len)"
    and tr: "inherited_param ''renew-timer'' (sv_uint32 sv) s = (Inr t1, s)"
      "inherited_param ''rebind-timer'' (sv_uint32 sv) s = (Inr t2, s)"
      "inherited_param ''valid-lifetime'' (sv_uint32 sv) s = (Inr valid, s)"
    and mk: "mk_Subnet4 addr len t1 t2 valid (cs_subnet_id s) = (Inr sn0, c)"
    and po: "foldE Subnet_addPool (sv_pools sv) sn0 = Inr sn"
    and op: "subnet_options UV4 (sv_options sv) (s\<lparr>cs_subnet_id := c\<rparr>) = (Inr opts, t)"
    using run
    by (auto simp: createSubnet4_def bindS_Inr eff_apply inherited_param_def dest!: on_subnet_id_Inr)
  have wf: "wf_subnet UV4 sn" "sn = sn0\<lparr>sn_pools := sv_pools sv\<rparr>"
    using addPools_fields [OF po pools mk_Subnet4_wf [OF mk]] mk_Subnet4_fields(6) [OF mk] by auto
  show ?thesis
    by (rule that [of addr len c]) (use p tr op wf mk_Subnet4_fields [OF mk] in simp_all)
qed

text \<open>What is made of an entry, whether or not the keys of its map are distinct.\<close>

lemma Subnet4ConfigParser_wf:
  assumes "Subnet4ConfigParser_build ext e s = (Inr (sn, opts), t)" "refs_ok (cs_heap s) (option_defaults s)"
  shows "wf_subnet UV4 sn \<and> refs_of UV4 (cs_heap t) opts \<and>
    (\<exists>m. e = EMap m \<and> (distinct (map fst m) \<longrightarrow> subnet4_of_entry ext (uint32_defaults s) m sn))"
proof -
  obtain sv s1 where s1: "build_subnet_values UV4 ext createSubnet4ConfigParser e s = (Inr sv, s1)"
      "createSubnet4 ext sv s1 = (Inr (sn, opts), t)"
    using assms(1) by (auto simp: Subnet4ConfigParser_build_def bindS_Inr)
  then obtain m where m: "e = EMap m" by (cases e) (auto simp: build_subnet_values_def bindS_Inr eff_apply)
  have d: "same_defaults s s1" using keepsD [OF keeps_subnet_values _ s1(1), of s] by simp
  have "growing (build_subnet_values UV4 ext createSubnet4ConfigParser e)"
    unfolding build_subnet_values_def by (intro grow_intros)
  from growD [OF this s1(1)] have r: "refs_ok (cs_heap s1) (option_defaults s1)"
    using refs_grow(1) [OF assms(2)] d by (simp add: grows_def)
  note b = build_subnet_values_Inr [OF s1(1) [unfolded m], OF factory4(1)]
  from s1(2) b(3) show ?thesis
  proof (rule createSubnet4_cases)
    fix addr len c
    assume p: "bindE (getParam ''subnet'' (sv_string sv)) (subnet_prefix ext) = Inr (addr, len)"
      and tr: "inherited_param ''renew-timer'' (sv_uint32 sv) s1 = (Inr (sn_t1 sn), s1)"
        "inherited_param ''rebind-timer'' (sv_uint32 sv) s1 = (Inr (sn_t2 sn), s1)"
        "inherited_param ''valid-lifetime'' (sv_uint32 sv) s1 = (Inr (sn_valid sn), s1)"
      and sn: "wf_subnet UV4 sn" "sn_prefix sn = addr" "sn_prefix_len sn = len" "sn_pools sn = sv_pools sv"
      and op: "subnet_options UV4 (sv_options sv) (s1\<lparr>cs_subnet_id := c\<rparr>) = (Inr opts, t)"
    have refs: "refs_of UV4 (cs_heap t) opts" using subnet_options_refs [OF op] r b(2) by simp
    have "subnet4_of_entry ext (uint32_defaults s1) m sn" if "distinct (map fst m)"
      unfolding subnet4_of_entry_def
      using sn stored_prefix [OF b(1) [OF that] factory4(2) p] stored_pools [OF b(1) [OF that]]
        inherited_param_entry(1) [OF tr(1) b(1) [OF that] factory4(3)] inherited_param_entry(1) [OF tr(2) b(1) [OF that] factory4(4)]
        inherited_param_entry(1) [OF tr(3) b(1) [OF that] factory4(5)] by simp
    with refs sn(1) m d show ?thesis by auto
  qed
qed

lemma keeps_Subnet4ConfigParser: "keeps (same_defaults s) (Subnet4ConfigParser_build ext e)"
  unfolding Subnet4ConfigParser_build_def createSubnet4_def inherited_param_def subnet_options_def
  by (intro keeps_intros keeps_zoom [where Q = "\<lambda>_. True"]) (auto simp: keeps_def)

section \<open>The server\<close>

lemma Subnets4_commit:
  "Subnets4ListConfigParser_commit l s =
     (Inr (), s\<lparr>cs_cfg := (cs_cfg s)\<lparr>cfg_subnets4 := map fst l\<rparr>, cs_options4 := map snd l\<rparr>)"
proof -
  have "mapS Subnet4ConfigParser_commit l s =
      (Inr (map (\<lambda>_. ()) l), s\<lparr>cs_cfg := (cs_cfg s)\<lparr>cfg_subnets4 := cfg_subnets4 (cs_cfg s) @ map fst l\<rparr>,
        cs_options4 := cs_options4 s @ map snd l\<rparr>)" for s
    by (induction l arbitrary: s) (simp_all add: eff_simps Subnet4ConfigParser_commit_def addSubnet4_def bindS_def)
  then show ?thesis
    by (simp add: Subnets4ListConfigParser_commit_def eff_simps bindS_def deleteSubnets4_def)
qed

definition install4 :: "(Subnet \<times> nat spaces) list \<Rightarrow> cfg_state \<Rightarrow> cfg_state" where
  "install4 l s = s\<lparr>cs_cfg := (cs_cfg s)\<lparr>cfg_subnets4 := map fst l\<rparr>, cs_options4 := map snd l\<rparr>"

interpretation srv4: server_config UV4 ext createGlobalDhcp4ConfigParser "''subnet4''" "Subnet4ConfigParser_build ext"
  "Subnets4ListConfigParser_build ext" Subnets4ListConfigParser_commit "configureDhcp4Server ext"
  "\<lambda>s. cfg_subnets4 (cs_cfg s)" install4 "wf_subnet UV4" "subnet4_of_entry ext" for ext
proof (unfold_locales, goal_cases)
  case (5 e s p t)
  then show ?case using Subnet4ConfigParser_wf [of ext e s "fst p" "snd p" t] by (simp add: made_def)
next
  case (7 s l)
  then show ?case by (auto simp: install4_def cfg_inv_def wf_cfg_def list_all_iff)
qed (simp_all add: configureDhcp4Server_def Subnets4ListConfigParser_build_def Subnets4_commit install4_def
    grow_Subnet4ConfigParser keeps_Subnet4ConfigParser)

section \<open>Properties\<close>

text \<open>C8. An accepted DHCPv4 configuration leaves one subnet per entry, in order: well formed, with the prefix its
  text names, one pool per pool text with the addresses the text names, inside the prefix, and with every timer
  taken from its own entry or else from the global value. The state can be configured again. Unless the option objects
  point at each other in a cycle (an accepted configuration can do that), the subnets with their options are a configuration
  that satisfies the assumption the invariant of the server starts from.\<close>

theorem accepted_config:
  assumes "cfg_inv s" "configureDhcp4Server ext (Some (EMap m)) s = (Inr 0, t)"
    and "map_of m ''subnet4'' = Some (EList es)" "\<forall>em. EMap em \<in> set es \<longrightarrow> distinct (map fst em)"
  shows "cfg_inv t \<and>
    list_all2 (\<lambda>e sn. \<exists>em. e = EMap em \<and> subnet4_of_entry ext (uint32_defaults t) em sn) es (cfg_subnets4 (cs_cfg t)) \<and>
    (\<forall>c. server_view t = Some c \<longrightarrow> wf_cfg c \<and> length (cfg_subnets4 c) = length es)"
proof -
  have inv: "cfg_inv t" using assms(2,1) by (rule srv4.configure_inv)
  note l = srv4.accepted [OF assms]
  then have "length (cfg_subnets4 (cs_cfg t)) = length es" by (simp add: list_all2_lengthD)
  then show ?thesis using inv l server_view_wf [OF inv] by auto
qed

text \<open>C14. A refused DHCPv4 configuration leaves the subnets the server uses as they were, pointing at the same option
  objects, and restores the global parameters and the options and definitions that the parsers keep. Each of these option
  objects keeps its code, its data and its sub-options, but may have been given further sub-options: a subnet of the new
  configuration that takes over a global option appends the sub-options of today to the shared object, and nothing takes
  them back. The lease database and the option definitions of the configuration manager are not restored either. The
  answer is 0, or 1 for a configuration that could not be parsed: the commit cannot fail.\<close>

theorem refused_config:
  assumes "cfg_inv s" "configureDhcp4Server ext c s = (Inr n, t)"
  shows "cfg_inv t \<and> n \<in> {0, 1} \<and> (n \<noteq> 0 \<longrightarrow> unchanged s t)"
  using srv4.configure_inv [OF assms(2,1)] srv4.refused [OF assms] by simp

end
