(* ===== verification/Config_Safety6.thy ===== *)
theory Config_Safety6
  imports Config_Safety Config_Parser6
begin

text \<open>
  The DHCPv6 server as an instance of \<open>server_config\<close>: what \<^verbatim>\<open>Subnet6ConfigParser\<close> makes of an
  entry, and the properties of \<^verbatim>\<open>configureDhcp6Server\<close>.
\<close>

section \<open>A subnet from its entry\<close>

text \<open>The interface the entry names, if any, is one the system has.\<close>

definition entry_iface :: "IfaceMgr \<Rightarrow> (string \<times> Element) list \<Rightarrow> string \<Rightarrow> bool" where
  "entry_iface ifaces m iface \<longleftrightarrow>
     iface = (case map_of m ''interface'' of None \<Rightarrow> [] | Some e \<Rightarrow> StringParser_build e) \<and>
     (iface \<noteq> [] \<longrightarrow> getIface iface ifaces \<noteq> None)"

definition subnet6_of_entry ::
  "externals \<Rightarrow> IfaceMgr \<Rightarrow> u32 ValueStorage \<Rightarrow> (string \<times> Element) list \<Rightarrow> Subnet6 \<Rightarrow> bool" where
  "subnet6_of_entry ext ifaces globals m sn \<longleftrightarrow>
     wf_subnet UV6 sn \<and> entry_prefix ext m (sn_prefix sn) (sn_prefix_len sn) \<and> entry_pools ext m (sn_pools sn) \<and>
     entry_param UV6 ext globals m ''renew-timer'' (sn_t1 sn) \<and>
     entry_param UV6 ext globals m ''rebind-timer'' (sn_t2 sn) \<and>
     entry_param UV6 ext globals m ''preferred-lifetime'' (sn_preferred sn) \<and>
     entry_param UV6 ext globals m ''valid-lifetime'' (sn_valid sn) \<and>
     entry_iface ifaces m (sn_iface sn)"

lemma grow_Subnet6ConfigParser [grow_intros]: "growing (Subnet6ConfigParser_build ext ifaces e)"
  unfolding Subnet6ConfigParser_build_def build_subnet_values_def createSubnet6_def inherited_param_def
  by (intro grow_intros)

lemma keeps_Subnet6ConfigParser: "keeps (same_defaults s) (Subnet6ConfigParser_build ext ifaces e)"
  unfolding Subnet6ConfigParser_build_def createSubnet6_def inherited_param_def subnet_options_def
  by (intro keeps_intros keeps_zoom [where Q = "\<lambda>_. True"]) (auto simp: keeps_def)

lemma mk_Subnet6_fields:
  assumes "mk_Subnet6 prefix len t1 t2 pref valid ctr = (Inr sn, ctr')"
  shows "sn_prefix sn = prefix" "sn_prefix_len sn = len" "sn_t1 sn = t1" "sn_t2 sn = t2" "sn_preferred sn = pref"
    "sn_valid sn = valid" "sn_pools sn = []" "sn_iface sn = []"
  using assms by (auto simp: mk_Subnet6_def mk_Subnet_def getNextID_def Let_def result_simps Subnet.defs Subnet6.defs
      split: if_splits)

lemma factory6:
  "createSubnet6ConfigParser n = Inr KPool \<longleftrightarrow> n = ''pool''" "createSubnet6ConfigParser ''subnet'' = Inr KString"
  "createSubnet6ConfigParser ''interface'' = Inr KString"
  "createSubnet6ConfigParser ''renew-timer'' = Inr KUint32" "createSubnet6ConfigParser ''rebind-timer'' = Inr KUint32"
  "createSubnet6ConfigParser ''preferred-lifetime'' = Inr KUint32" "createSubnet6ConfigParser ''valid-lifetime'' = Inr KUint32"
  by (auto simp: createSubnet6ConfigParser_def)

lemma configure_iface_Inr:
  assumes "configure_iface ifaces iface sn = Inr sn'"
  shows "sn' = sn\<lparr>sn_iface := if iface = [] then sn_iface sn else iface\<rparr>" "iface \<noteq> [] \<Longrightarrow> getIface iface ifaces \<noteq> None"
  using assms by (auto simp: configure_iface_def setIface_def split: if_splits)

lemma stored_iface:
  assumes "stored_values u ext factory m no_subnet_values sv" "factory ''interface'' = Inr KString"
  shows "subnet_iface (sv_string sv) = (case map_of m ''interface'' of None \<Rightarrow> [] | Some e \<Rightarrow> StringParser_build e)"
  using assms by (auto simp: stored_values_def subnet_iface_def getParam_def no_subnet_values_def split: option.splits)

lemma createSubnet6_cases:
  assumes run: "createSubnet6 ext ifaces sv s = (Inr (sn, opts), t)" and pools: "list_all (built_pool UV6) (sv_pools sv)"
  obtains c where
    "bindE (getParam ''subnet'' (sv_string sv)) (subnet_prefix ext) = Inr (sn_prefix sn, sn_prefix_len sn)"
    "inherited_param ''renew-timer'' (sv_uint32 sv) s = (Inr (sn_t1 sn), s)"
    "inherited_param ''rebind-timer'' (sv_uint32 sv) s = (Inr (sn_t2 sn), s)"
    "inherited_param ''preferred-lifetime'' (sv_uint32 sv) s = (Inr (sn_preferred sn), s)"
    "inherited_param ''valid-lifetime'' (sv_uint32 sv) s = (Inr (sn_valid sn), s)"
    "wf_subnet UV6 sn" "sn_pools sn = sv_pools sv" "sn_iface sn = subnet_iface (sv_string sv)"
    "sn_iface sn \<noteq> [] \<Longrightarrow> getIface (sn_iface sn) ifaces \<noteq> None"
    "subnet_options UV6 (sv_options sv) (s\<lparr>cs_subnet_id := c\<rparr>) = (Inr opts, t)"
proof -
  obtain addr len t1 t2 pref valid sn0 sn1 c where
    p: "bindE (getParam ''subnet'' (sv_string sv)) (subnet_prefix ext) = Inr (addr, len)"
    and tr: "inherited_param ''renew-timer'' (sv_uint32 sv) s = (Inr t1, s)"
      "inherited_param ''rebind-timer'' (sv_uint32 sv) s = (Inr t2, s)"
      "inherited_param ''preferred-lifetime'' (sv_uint32 sv) s = (Inr pref, s)"
      "inherited_param ''valid-lifetime'' (sv_uint32 sv) s = (Inr valid, s)"
    and mk: "mk_Subnet6 addr len t1 t2 pref valid (cs_subnet_id s) = (Inr sn0, c)"
    and po: "foldE Subnet_addPool (sv_pools sv) sn0 = Inr sn1"
    and ifc: "configure_iface ifaces (subnet_iface (sv_string sv)) sn1 = Inr sn"
    and op: "subnet_options UV6 (sv_options sv) (s\<lparr>cs_subnet_id := c\<rparr>) = (Inr opts, t)"
    using run
    by (auto simp: createSubnet6_def bindS_Inr eff_apply inherited_param_def dest!: on_subnet_id_Inr)
  have "wf_subnet UV6 sn1" "sn1 = sn0\<lparr>sn_pools := sv_pools sv\<rparr>"
    using addPools_fields [OF po pools mk_Subnet6_wf [OF mk]] mk_Subnet6_fields(7) [OF mk] by auto
  moreover from this have "wf_subnet UV6 sn" using configure_iface_Inr(1) [OF ifc] by (simp add: wf_subnet_def)
  ultimately show ?thesis
    using that [of c] p tr op mk_Subnet6_fields [OF mk] configure_iface_Inr [OF ifc] by simp
qed

lemma Subnet6ConfigParser_made:
  assumes "Subnet6ConfigParser_build ext ifaces e s = (Inr (sn, opts), t)" "refs_ok (cs_heap s) (option_defaults s)"
  shows "wf_subnet UV6 sn \<and> refs_of UV6 (cs_heap t) opts \<and>
    (\<exists>m. e = EMap m \<and> (distinct (map fst m) \<longrightarrow> subnet6_of_entry ext ifaces (uint32_defaults s) m sn))"
proof -
  obtain sv s1 where s1: "build_subnet_values UV6 ext createSubnet6ConfigParser e s = (Inr sv, s1)"
      "createSubnet6 ext ifaces sv s1 = (Inr (sn, opts), t)"
    using assms(1) by (auto simp: Subnet6ConfigParser_build_def bindS_Inr)
  then obtain m where m: "e = EMap m" by (cases e) (auto simp: build_subnet_values_def bindS_Inr eff_apply)
  have d: "same_defaults s s1" using keepsD [OF keeps_subnet_values _ s1(1), of s] by simp
  have "growing (build_subnet_values UV6 ext createSubnet6ConfigParser e)"
    unfolding build_subnet_values_def by (intro grow_intros)
  from growD [OF this s1(1)] have r: "refs_ok (cs_heap s1) (option_defaults s1)"
    using refs_grow(1) [OF assms(2)] d by (simp add: grows_def)
  note b = build_subnet_values_Inr [OF s1(1) [unfolded m], OF factory6(1)]
  from s1(2) b(3) show ?thesis
  proof (rule createSubnet6_cases)
    fix c
    assume p: "bindE (getParam ''subnet'' (sv_string sv)) (subnet_prefix ext) = Inr (sn_prefix sn, sn_prefix_len sn)"
      and tr: "inherited_param ''renew-timer'' (sv_uint32 sv) s1 = (Inr (sn_t1 sn), s1)"
        "inherited_param ''rebind-timer'' (sv_uint32 sv) s1 = (Inr (sn_t2 sn), s1)"
        "inherited_param ''preferred-lifetime'' (sv_uint32 sv) s1 = (Inr (sn_preferred sn), s1)"
        "inherited_param ''valid-lifetime'' (sv_uint32 sv) s1 = (Inr (sn_valid sn), s1)"
      and sn: "wf_subnet UV6 sn" "sn_pools sn = sv_pools sv" "sn_iface sn = subnet_iface (sv_string sv)"
        "sn_iface sn \<noteq> [] \<Longrightarrow> getIface (sn_iface sn) ifaces \<noteq> None"
      and op: "subnet_options UV6 (sv_options sv) (s1\<lparr>cs_subnet_id := c\<rparr>) = (Inr opts, t)"
    have refs: "refs_of UV6 (cs_heap t) opts" using subnet_options_refs [OF op] r b(2) by simp
    have "subnet6_of_entry ext ifaces (uint32_defaults s1) m sn" if "distinct (map fst m)"
    proof -
      note st = b(1) [OF that]
      have "entry_iface ifaces m (sn_iface sn)"
        unfolding entry_iface_def using sn(3,4) stored_iface [OF st factory6(3)] by simp
      then show ?thesis
        unfolding subnet6_of_entry_def
        using sn(1,2) stored_prefix [OF st factory6(2) p] stored_pools [OF st]
          inherited_param_entry(1) [OF tr(1) st factory6(4)] inherited_param_entry(1) [OF tr(2) st factory6(5)]
          inherited_param_entry(1) [OF tr(3) st factory6(6)] inherited_param_entry(1) [OF tr(4) st factory6(7)] by simp
    qed
    with refs sn(1) m d show ?thesis by auto
  qed
qed

section \<open>The server\<close>

definition install6 :: "(Subnet6 \<times> nat spaces) list \<Rightarrow> cfg_state \<Rightarrow> cfg_state" where
  "install6 l s = s\<lparr>cs_cfg := (cs_cfg s)\<lparr>cfg_subnets6 := map fst l\<rparr>, cs_options6 := map snd l\<rparr>"

lemma Subnets6_commit: "Subnets6ListConfigParser_commit l s = (Inr (), install6 l s)"
proof -
  have "mapS Subnet6ConfigParser_commit l s =
      (Inr (map (\<lambda>_. ()) l), s\<lparr>cs_cfg := (cs_cfg s)\<lparr>cfg_subnets6 := cfg_subnets6 (cs_cfg s) @ map fst l\<rparr>,
        cs_options6 := cs_options6 s @ map snd l\<rparr>)" for s
    by (induction l arbitrary: s) (simp_all add: eff_simps Subnet6ConfigParser_commit_def addSubnet6_def bindS_def)
  then show ?thesis
    by (simp add: Subnets6ListConfigParser_commit_def eff_simps bindS_def deleteSubnets6_def install6_def)
qed

interpretation srv6: server_config UV6 ext createGlobalDhcpConfigParser "''subnet6''" "Subnet6ConfigParser_build ext ifaces"
  "Subnets6ListConfigParser_build ext ifaces" Subnets6ListConfigParser_commit "configureDhcp6Server ext ifaces"
  "\<lambda>s. cfg_subnets6 (cs_cfg s)" install6 "wf_subnet UV6" "subnet6_of_entry ext ifaces" for ext ifaces
proof (unfold_locales, goal_cases)
  case (5 e s p t)
  then show ?case using Subnet6ConfigParser_made [of ext ifaces e s "fst p" "snd p" t] by (simp add: made_def)
next
  case (7 s l)
  then show ?case by (auto simp: install6_def cfg_inv_def wf_cfg_def list_all_iff)
qed (simp_all add: configureDhcp6Server_def Subnets6ListConfigParser_build_def Subnets6_commit, simp_all add: install6_def
    grow_Subnet6ConfigParser keeps_Subnet6ConfigParser)

section \<open>Properties\<close>

text \<open>C19. An accepted DHCPv6 configuration leaves one subnet per entry, in order: well formed, with the prefix its
  text names, one pool per pool text with the addresses the text names, inside the prefix, and with every timer
  and lifetime taken from its own entry or else from the global value; and a subnet that names an interface
  names one of the system. What the server then works on satisfies the assumption its own invariant starts from.\<close>

theorem accepted_config6:
  assumes "cfg_inv s" "configureDhcp6Server ext ifaces (Some (EMap m)) s = (Inr 0, t)"
    and "map_of m ''subnet6'' = Some (EList es)" "\<forall>em. EMap em \<in> set es \<longrightarrow> distinct (map fst em)"
  shows "cfg_inv t \<and>
    list_all2 (\<lambda>e sn. \<exists>em. e = EMap em \<and> subnet6_of_entry ext ifaces (uint32_defaults t) em sn) es (cfg_subnets6 (cs_cfg t)) \<and>
    (\<forall>c. server_view t = Some c \<longrightarrow> wf_cfg c \<and> length (cfg_subnets6 c) = length es)"
proof -
  have inv: "cfg_inv t" using assms(2,1) by (rule srv6.configure_inv)
  note l = srv6.accepted [OF assms]
  then have "length (cfg_subnets6 (cs_cfg t)) = length es" by (simp add: list_all2_lengthD)
  then show ?thesis using inv l server_view_wf [OF inv] by auto
qed

text \<open>A refused DHCPv6 configuration.\<close>

theorem refused_config6:
  assumes "cfg_inv s" "configureDhcp6Server ext ifaces c s = (Inr n, t)"
  shows "cfg_inv t \<and> n \<in> {0, 1} \<and> (n \<noteq> 0 \<longrightarrow> unchanged s t)"
  using srv6.configure_inv [OF assms(2,1)] srv6.refused [OF assms] by simp

end
