(* ===== verification/Cc_Safety.thy ===== *)
theory Cc_Safety
  imports Cc_Session Module_Safety Config_Safety4 Config_Safety6
begin

text \<open>
  The session and the server behind it stay in step. The server is handed the changes merged into the full
  configuration of before, the session stores the changes merged into the values of before: both are the full
  configuration of after, apart from a version entry.
\<close>

section \<open>The full configuration\<close>

definition item_name :: "Element \<Rightarrow> string" where
  "item_name item = (case get_string ''item_name'' item of Inr n \<Rightarrow> n | Inl _ \<Rightarrow> [])"

definition item_default :: "Element \<Rightarrow> Element option" where
  "item_default item = (case el_get ''item_default'' item of Inr d \<Rightarrow> d | Inl _ \<Rightarrow> None)"

text \<open>A module as the DHCP servers specify it: plain items, of different names, with defaults.\<close>

definition module_ok :: "Element \<Rightarrow> Element list \<Rightarrow> bool" where
  "module_ok spec items \<longleftrightarrow> el_get ''config_data'' spec = Inr (Some (EList items)) \<and> list_all item_ok items \<and>
     distinct (map item_name items) \<and>
     list_all (\<lambda>i. item_name i \<noteq> [] \<and> CHR ''/'' \<notin> set (item_name i) \<and> item_name i \<noteq> ''version'' \<and> item_default i \<noteq> None) items"

lemma item_fields:
  assumes "item_ok item"
  shows "\<exists>m. item = EMap m \<and> map_of m ''item_name'' = Some (EString (item_name item)) \<and> item_default item = map_of m ''item_default'' \<and>
    (\<forall>v. check_type item v = Inr True \<longrightarrow> v \<noteq> ENull)"
  using assms
proof (rule item_okE)
  fix m name type opt
  assume a: "item = EMap m" "get_string ''item_name'' item = Inr name" "get_string ''item_type'' item = Inr type" "type \<noteq> ''any''"
  then have "map_of m ''item_name'' = Some (EString name)"
    by (auto simp: get_string_def el_get_def result_simps elim: stringValue.elims)
  moreover have "check_type item v = Inr True \<longrightarrow> v \<noteq> ENull" for v using a by (auto simp: check_type_def)
  ultimately show ?thesis using a by (simp add: item_name_def item_default_def el_get_def)
qed

lemma item_list: "list_all item_ok items \<Longrightarrow> spec_names False items [] = Inr (map item_name items)"
proof (induction items)
  case (Cons item items)
  obtain m where "item = EMap m" "map_of m ''item_name'' = Some (EString (item_name item))" using item_fields [of item] Cons.prems by auto
  then show ?case using Cons by (simp add: contains_def get_string_def el_get_def deref_def)
qed simp

lemma last_found:
  assumes "list_all item_ok items"
  shows "foldE (\<lambda>e found. bindE (is_item_named n e) (\<lambda>b. Inr (if b then Some e else found))) items acc =
    Inr (case filter (\<lambda>i. item_name i = n) items of [] \<Rightarrow> acc | is \<Rightarrow> Some (last is))"
  using assms
proof (induction items arbitrary: acc)
  case (Cons item items)
  obtain m where "item = EMap m" "map_of m ''item_name'' = Some (EString (item_name item))" using item_fields [of item] Cons.prems by auto
  then have "is_item_named n item = Inr (item_name item = n)" by (simp add: is_item_named_def)
  then show ?case using Cons by (auto split: list.splits)
qed simp

lemma item_found:
  assumes "list_all item_ok items" "distinct (map item_name items)" "item \<in> set items"
  shows "findItemInSpecList (EList items) (item_name item) = Inr item"
proof -
  have "filter (\<lambda>i. item_name i = item_name item) items = [item]"
    using assms(2,3) by (induction items) (auto simp: filter_empty_conv dest: image_eqI [OF sym])
  then show ?thesis using last_found [OF assms(1), of "item_name item" None] by (simp add: findItemInSpecList_def)
qed

text \<open>The value of an item: what was set, or the default.\<close>

definition effective :: "Element list \<Rightarrow> (string \<rightharpoonup> Element) \<Rightarrow> string \<rightharpoonup> Element" where
  "effective items m k =
     (case map_of (map (\<lambda>i. (item_name i, i)) items) k of
        None \<Rightarrow> None
      | Some item \<Rightarrow> (case m k of Some v \<Rightarrow> Some v | None \<Rightarrow> item_default item))"

lemma getValue_item:
  assumes "module_ok (cd_spec cd) items" "cd_config cd = EMap m" "item \<in> set items"
  shows "\<exists>b. getValue (item_name item) cd = Inr (effective items (map_of m) (item_name item), b)"
proof -
  have ok: "list_all item_ok items" "distinct (map item_name items)" "el_get ''config_data'' (cd_spec cd) = Inr (Some (EList items))"
    and name: "item_name item \<noteq> []" "CHR ''/'' \<notin> set (item_name item)" "item_default item \<noteq> None"
    using assms by (auto simp: module_ok_def list_all_iff)
  obtain im where im: "item = EMap im" "item_default item = map_of im ''item_default''"
    using item_fields [of item] ok(1) assms(3) by (auto simp: list_all_iff)
  have lookup: "map_of (map (\<lambda>i. (item_name i, i)) items) (item_name item) = Some item"
    using ok(2) assms(3) by (intro map_of_is_SomeI) (auto simp: comp_def)
  have cfg: "getConfigSpec (cd_spec cd) = Inr (Some (EList items))"
    using ok(3) by (cases "cd_spec cd") (auto simp: getConfigSpec_def spec_part_def contains_def el_get_def)
  have part: "find_spec_part (Some (EList items)) (item_name item) = Inr item"
    using name item_found [OF ok(1,2) assms(3)] by (auto simp: find_spec_part_def find_spec_loop.simps find_spec_last_def)
  show ?thesis
    using name im part cfg lookup
    by (cases "map_of m (item_name item)")
      (auto simp: getValue_def find_key assms(2) el_get_def effective_def contains_def simp del: find_path.simps)
qed

lemma foldE_set:
  assumes "\<forall>n\<in>set ns. \<exists>b. getValue n cd = Inr (v n, b)"
  shows "foldE (\<lambda>n r. bindE (getValue n cd) (\<lambda>(v, _). Inr (MapElement_set n v r))) ns acc = Inr (fold (\<lambda>n r. sp_set n (v n) r) ns acc)"
  using assms by (induction ns arbitrary: acc) (auto simp: MapElement_set_def)

lemma fold_sp_set:
  assumes "sorted_keys acc"
  shows "sorted_keys (fold (\<lambda>n r. sp_set n (v n) r) ns acc) \<and>
    map_of (fold (\<lambda>n r. sp_set n (v n) r) ns acc) = (\<lambda>k. if k \<in> set ns then Some (v k) else map_of acc k)"
  using assms by (induction ns arbitrary: acc) (auto simp: sorted_keys_sp_set fun_eq_iff)

lemma effective_dom: "k \<notin> item_name ` set items \<Longrightarrow> effective items m k = None"
  by (auto simp: effective_def dest!: map_of_SomeD split: option.splits)

lemma effective_Some:
  assumes "module_ok spec items" "k \<in> item_name ` set items"
  shows "effective items m k \<noteq> None"
  using assms by (auto simp: effective_def module_ok_def list_all_iff map_of_eq_None_iff image_image dest!: map_of_SomeD split: option.splits)

lemma getFullConfig_eq:
  assumes "module_ok (cd_spec cd) items" "cd_config cd = EMap m"
  shows "\<exists>f. getFullConfig cd = Inr f \<and> sorted_keys f \<and> map_of f = (\<lambda>k. map_option Some (effective items (map_of m) k))"
proof -
  have ok: "list_all item_ok items" "el_get ''config_data'' (cd_spec cd) = Inr (Some (EList items))"
    using assms by (auto simp: module_ok_def)
  have "getConfigSpec (cd_spec cd) = Inr (Some (EList items))"
    using ok(2) by (cases "cd_spec cd") (auto simp: getConfigSpec_def spec_part_def contains_def el_get_def)
  then have names: "getItemList [] False cd = Inr (map item_name items)"
    using item_list [OF ok(1)] by (simp add: getItemList_def deref_def spec_name_list.simps)
  let ?f = "fold (\<lambda>n r. sp_set n (effective items (map_of m) n) r) (map item_name items) []"
  have "getFullConfig cd = Inr ?f"
    using foldE_set [of "map item_name items" cd "effective items (map_of m)"] getValue_item [OF assms]
    by (auto simp: getFullConfig_def names)
  moreover have eq: "(\<lambda>k. if k \<in> set (map item_name items) then Some (effective items (map_of m) k) else map_of [] k) =
      (\<lambda>k. map_option Some (effective items (map_of m) k))"
  proof
    fix k
    show "(if k \<in> set (map item_name items) then Some (effective items (map_of m) k) else map_of [] k) =
        map_option Some (effective items (map_of m) k)"
      using effective_dom [of k items "map_of m"] effective_Some [OF assms(1), of k "map_of m"]
      by (cases "effective items (map_of m) k"; fastforce)
  qed
  ultimately show ?thesis
    using fold_sp_set [of "[]" "effective items (map_of m)" "map item_name items"] unfolding eq by simp
qed

lemma config_values_eq:
  assumes "sorted_keys f" "map_of f = (\<lambda>k. map_option Some (e k))"
  shows "\<exists>c. config_values f = Inr c \<and> sorted_keys c \<and> map_of c = e"
proof -
  have "\<exists>x. p = Some x" if "(k, p) \<in> set f" for k p
    using map_of_is_SomeI [OF sorted_keys_distinct [OF assms(1)] that] fun_cong [OF assms(2), of k] by (cases "e k") auto
  then have "config_values f = Inr (map (\<lambda>(k, p). (k, the p)) f)"
    by (induction f) (fastforce simp: config_values_def deref_def)+
  moreover have "sorted_keys (map (\<lambda>(k, p). (k, the p)) f)"
    using assms(1) by (induction f) (auto simp: image_image split_beta)
  moreover have "map_of (map (\<lambda>(k, p). (k, the p)) f) = e"
    using assms(2) by (auto simp: map_of_map fun_eq_iff option.map_comp comp_def option.map_ident)
  ultimately show ?thesis by blast
qed


definition full_config :: "ConfigData \<Rightarrow> (string \<times> Element) list result" where
  "full_config cd = bindE (getFullConfig cd) config_values"

lemma full_config_eq:
  assumes "module_ok (cd_spec cd) items" "cd_config cd = EMap m"
  shows "\<exists>c. full_config cd = Inr c \<and> sorted_keys c \<and> map_of c = effective items (map_of m)"
  using getFullConfig_eq [OF assms] config_values_eq by (fastforce simp: full_config_def)

lemma effective_cong: "(\<And>k. k \<in> item_name ` set items \<Longrightarrow> f k = g k) \<Longrightarrow> effective items f = effective items g"
  by (auto simp: effective_def fun_eq_iff dest!: map_of_SomeD split: option.splits)

text \<open>Merging the changes into the full configuration is the full configuration with the changes, apart from the entry
  \<^verbatim>\<open>version\<close>, which is no item and passes the validation unseen.\<close>

lemma merged_effective:
  assumes "\<And>k v. d k = Some v \<Longrightarrow> k \<noteq> ''version'' \<Longrightarrow> k \<in> item_name ` set items \<and> v \<noteq> ENull"
    and "''version'' \<notin> item_name ` set items"
  shows "merged id (effective items m) d = (effective items (m ++ d))(''version'' := merged id Map.empty d ''version'')"
proof
  fix k
  show "merged id (effective items m) d k = ((effective items (m ++ d))(''version'' := merged id Map.empty d ''version'')) k"
  proof (cases "k = ''version''")
    case True
    then show ?thesis using effective_dom [OF assms(2)] by (simp add: merged_def split: option.splits)
  next
    case other: False
    show ?thesis
    proof (cases "d k")
      case None
      then show ?thesis using other by (simp add: merged_def effective_def map_add_def split: option.splits)
    next
      case (Some v)
      then obtain i where "i \<in> set items" "k = item_name i" using assms(1) other by blast
      then have "map_of (map (\<lambda>i. (item_name i, i)) items) k \<noteq> None" by (auto simp: map_of_eq_None_iff image_image)
      then show ?thesis using Some other assms(1) [OF Some other] by (auto simp: merged_def effective_def split: option.splits)
    qed
  qed
qed

lemma merged_values:
  assumes "sorted_keys f" "map_of f = (\<lambda>k. map_option Some (e k))" "sorted_keys d"
  shows "\<exists>c. config_values (fold (merge_entry Some) d f) = Inr c \<and> sorted_keys c \<and> map_of c = merged id e (map_of d)"
proof (rule config_values_eq)
  show "sorted_keys (fold (merge_entry Some) d f)" using assms(1) by (rule merge_sorted)
  have "map_of (fold (merge_entry Some) d f) = merged Some (map_of f) (map_of d)"
    using merge_entries [OF sorted_keys_distinct [OF assms(3)]] .
  then show "map_of (fold (merge_entry Some) d f) = (\<lambda>k. map_option Some (merged id e (map_of d) k))"
    by (auto simp: assms(2) merged_def fun_eq_iff split: option.splits)
qed

section \<open>Updates\<close>

lemma parse_created: "0 \<le> n \<Longrightarrow> n < 3 \<Longrightarrow> parseAnswer (Some (createAnswer n text)) = Inr (n, Some (EString text))"
proof -
  assume "0 \<le> n" "n < 3"
  then have "n = 0 \<or> n = 1 \<or> n = 2" by linarith
  then have "to_int n = n" by (auto simp: to_int_def)
  then show ?thesis by (simp add: parseAnswer_def createAnswer_def)
qed

definition session_ok :: "Element list \<Rightarrow> session \<Rightarrow> bool" where
  "session_ok items s \<longleftrightarrow> module_ok (cd_spec (ss_data s)) items \<and> ordered (cd_config (ss_data s)) \<and>
     getType (cd_config (ss_data s)) = map_type \<and> cfg_inv (ss_server s)"

lemma ordered_mapI:
  assumes "sorted_keys m" "\<And>k v. map_of m k = Some v \<Longrightarrow> ordered v"
  shows "ordered (EMap m)"
  using assms map_of_is_SomeI [OF sorted_keys_distinct [OF assms(1)]] by (auto simp: list_all_iff)

lemma ordered_entry: "ordered (EMap m) \<Longrightarrow> map_of m k = Some v \<Longrightarrow> ordered v"
  by (auto simp: list_all_iff dest!: map_of_SomeD)

lemma difference_add: "m ++ difference new m = m ++ new"
  by (auto simp: difference_def fun_eq_iff map_add_def split: option.splits)

text \<open>The changes of an update that was validated name items, and none of them is null.\<close>

lemma validated_items:
  assumes "module_ok spec items" "validateConfig fmt spec (EMap new) False = Inr (True, errors)"
    and "k \<noteq> ''version''" "map_of new k = Some v"
  shows "k \<in> item_name ` set items \<and> v \<noteq> ENull"
proof -
  have "validateSpecList fmt (Some (EList items)) (EMap new) False = Inr (True, errors)"
    using assms(1,2) by (simp add: validateConfig_def find_key module_ok_def del: find_path.simps)
  from accepted_items [OF this assms(4)] assms(3,4) obtain i where
    i: "i \<in> set items" "get_string ''item_name'' i = Inr k" "check_type i v = Inr True" by fastforce
  then have "item_ok i" using assms(1) by (auto simp: module_ok_def list_all_iff)
  from item_fields [OF this] show ?thesis using i by (force simp: item_name_def)
qed

lemma merge_ordered:
  assumes "ordered (EMap m)" "ordered (EMap d)"
  shows "ordered (EMap (fold (merge_entry id) d m))"
proof (rule ordered_mapI)
  show "sorted_keys (fold (merge_entry id) d m)" using assms(1) by (intro merge_sorted) simp
  fix k v
  assume "map_of (fold (merge_entry id) d m) k = Some v"
  then have "map_of d k = Some v \<or> map_of m k = Some v"
    using merge_entries [of d id m] assms(2) sorted_keys_distinct [of d] by (auto simp: merged_def split: option.splits if_splits)
  then show "ordered v" using ordered_entry [OF assms(1)] ordered_entry [OF assms(2)] by blast
qed

text \<open>The stored configuration goes through the handler that accepts everything.\<close>

lemma stub_update:
  assumes "session_ok items s" "ordered new" "handleConfigUpdate fmt (Some stubConfigHandler) new s = (Inr answer, t)"
  shows "session_ok items t \<and> ss_server t = ss_server s \<and> ss_running t = ss_running s"
proof -
  from assms(1) obtain m where m: "cd_config (ss_data s) = EMap m" "ordered (EMap m)" by (auto simp: session_ok_def getType_shapes)
  have "t = s \<or> (\<exists>diff l. removeIdentical new (Some (EMap m)) = Inr diff \<and> el_merge (EMap m) diff = Inr l \<and> t = setLocalConfig l s)"
    using assms(3) m(1) by (auto simp: handleConfigUpdate_def stubConfigHandler_def bindS_Inr eff_apply split: if_splits)
  then show ?thesis
  proof
    assume "t = s"
    then show ?thesis using assms(1) by simp
  next
    assume "\<exists>diff l. removeIdentical new (Some (EMap m)) = Inr diff \<and> el_merge (EMap m) diff = Inr l \<and> t = setLocalConfig l s"
    then obtain diff l where l: "removeIdentical new (Some (EMap m)) = Inr diff" "el_merge (EMap m) diff = Inr l" "t = setLocalConfig l s" by blast
    obtain n where n: "new = EMap n" using l(1) by (auto simp: removeIdentical_def result_simps)
    from removeIdentical_map [OF assms(2) [unfolded n] m(2)] obtain d where
      d: "removeIdentical (EMap n) (Some (EMap m)) = Inr (EMap d)" "sorted_keys d" "map_of d = difference (map_of n) (map_of m)" .
    have "ordered (EMap d)"
      using ordered_entry [OF assms(2) [unfolded n]] by (intro ordered_mapI d(2)) (auto simp: d(3) difference_def split: if_splits)
    then have "ordered l \<and> getType l = map_type" using l(1,2) d(1) merge_ordered [OF m(2)] by (auto simp: n el_merge_def)
    then show ?thesis using assms(1) l(3) by (auto simp: session_ok_def setLocalConfig_def)
  qed
qed

lemma init_session_ok:
  assumes "init_session strtod fmt file announced stored_config server = Inr s" "readModuleSpecification strtod fmt file = Inr spec"
    and "module_ok spec items" "ordered stored_config" "cfg_inv server"
  shows "session_ok items s \<and> ss_server s = server \<and> ss_running s"
proof -
  obtain name rcode new where p: "parseAnswer (Some stored_config) = Inr (rcode, Some new)"
    and "(case handleConfigUpdate fmt (Some stubConfigHandler) new (mk_session spec name server) of (Inl e, _) \<Rightarrow> Inl e | (Inr _, s) \<Rightarrow> Inr s) = Inr s"
    using assms(1,2) by (auto simp: init_session_def result_simps split: if_splits)
  then obtain answer where n: "parseAnswer (Some stored_config) = Inr (rcode, Some new)"
      "handleConfigUpdate fmt (Some stubConfigHandler) new (mk_session spec name server) = (Inr answer, s)"
    by (cases "handleConfigUpdate fmt (Some stubConfigHandler) new (mk_session spec name server)") (auto split: sum.splits)
  have "ordered new"
    using n(1) assms(4)
    by (auto simp: parseAnswer_def list_all_iff split: Element.splits list.splits option.splits if_splits dest!: map_of_SomeD)
  moreover have "session_ok items (mk_session spec name server)" using assms(3,5) by (simp add: session_ok_def mk_session_def)
  ultimately show ?thesis using stub_update n(2) by (fastforce simp: mk_session_def)
qed

text \<open>The full configuration with a \<^verbatim>\<open>version\<close> entry, when the update had one.\<close>

definition with_version :: "Element option \<Rightarrow> (string \<times> Element) list \<Rightarrow> (string \<times> Element) list" where
  "with_version v c = (case v of None \<Rightarrow> c | Some x \<Rightarrow> sp_set ''version'' x c)"

text \<open>The server has what the session holds: it was configured with the full configuration (and possibly a version), and
  since then its subnets, the options they point at and the global parameters have stayed, in the sense of
  \<^const>\<open>unchanged\<close>. The lease database and the option definitions of the configuration manager are no part of this.\<close>

definition in_sync :: "(Element option \<Rightarrow> nat cfg) \<Rightarrow> session \<Rightarrow> bool" where
  "in_sync configure s \<longleftrightarrow>
     (\<exists>c v s0 t. cfg_inv s0 \<and> full_config (ss_data s) = Inr c \<and> configure (Some (EMap (with_version v c))) s0 = (Inr 0, t) \<and>
        unchanged t (ss_server s))"

text \<open>What a message does: the server is in step afterwards, or nothing has happened.\<close>

definition follows :: "(Element option \<Rightarrow> nat cfg) \<Rightarrow> session \<Rightarrow> session \<Rightarrow> bool" where
  "follows configure s t \<longleftrightarrow> in_sync configure t \<or> ss_data t = ss_data s \<and> unchanged (ss_server s) (ss_server t)"

text \<open>What is read from the wire is ordered by keys.\<close>

inductive session_run ::
  "(string \<Rightarrow> string \<Rightarrow> bool) \<Rightarrow> config_handler \<Rightarrow> (string \<Rightarrow> Element \<Rightarrow> unit result) \<Rightarrow> session \<Rightarrow> session \<Rightarrow> bool"
  for fmt handler remote s where
  start: "session_run fmt handler remote s s"
| message: "session_run fmt handler remote s t \<Longrightarrow> ordered data \<Longrightarrow>
    checkCommand fmt (Some handler) (Some commandHandler) remote routing data t = (Inr reply, u) \<Longrightarrow>
    session_run fmt handler remote s u"

definition same_core :: "session \<Rightarrow> session \<Rightarrow> bool" where
  "same_core s t \<longleftrightarrow> ss_data t = ss_data s \<and> ss_server t = ss_server s"

lemma core_remote: "updateRemoteConfig remote name e s = (r, t) \<Longrightarrow> same_core s t"
  by (auto simp: updateRemoteConfig_def bindS_def eff_apply same_core_def split: prod.splits sum.splits option.splits)

lemma core_async: "checkAsyncRecv e s = (r, t) \<Longrightarrow> same_core s t"
  by (auto simp: checkAsyncRecv_def bindS_def eff_apply same_core_def split: prod.splits sum.splits option.splits)

lemma core_command: "checkModuleCommand fmt (Some commandHandler) cmd target arg s = (r, t) \<Longrightarrow> same_core s t"
  by (auto simp: checkModuleCommand_def commandHandler_def bindS_def eff_apply same_core_def split: prod.splits sum.splits option.splits if_splits)

lemma unchanged_trans: "unchanged a b \<Longrightarrow> unchanged b c \<Longrightarrow> unchanged a c"
  by (auto simp: unchanged_def intro: heap_grows_trans)

lemma unchanged_refl: "unchanged a a"
  by (simp add: unchanged_def)

lemma follows_refl [simp]: "follows configure s s"
  by (simp add: follows_def unchanged_refl)

lemma follows_trans: "follows configure s t \<Longrightarrow> follows configure t u \<Longrightarrow> follows configure s u"
  unfolding follows_def in_sync_def by (metis unchanged_trans)

lemma same_core_keeps: "same_core s t \<Longrightarrow> session_ok items t = session_ok items s \<and> follows configure s t"
  by (simp add: same_core_def session_ok_def follows_def unchanged_refl)

lemma parsed_ordered: "ordered data \<Longrightarrow> parseCommand (Some data) = Inr (cmd, arg) \<Longrightarrow> ordered arg"
  by (auto simp: parseCommand_def list_all_iff dest!: map_of_SomeD split: Element.splits list.splits option.splits)

text \<open>What a session relies on: how a server takes a configuration.\<close>

locale configurable =
  fixes configure :: "Element option \<Rightarrow> nat cfg"
  assumes configure_inv: "configure c s = (Inr n, t) \<Longrightarrow> cfg_inv s \<Longrightarrow> cfg_inv t"
    and configure_refused: "cfg_inv s \<Longrightarrow> configure c s = (Inr n, t) \<Longrightarrow> n \<in> {0, 1} \<and> (n \<noteq> 0 \<longrightarrow> unchanged s t)"
    and configure_throws: "configure c s = (Inl e, t) \<Longrightarrow> \<not> is_exception e"
begin

lemma handler_returns:
  assumes "session_ok items s" "cd_config (ss_data s) = EMap m" "ss_running s" "sorted_keys d"
    and "configHandler configure describe (EMap d) s = (Inr answer, t)"
  shows "\<exists>c n u. sorted_keys c \<and> map_of c = merged id (effective items (map_of m)) (map_of d) \<and>
    configure (Some (EMap c)) (ss_server s) = (Inr n, u) \<and> answer = createAnswer (int n) (describe n) \<and> t = s\<lparr>ss_server := u\<rparr>"
proof -
  have "module_ok (cd_spec (ss_data s)) items" using assms(1) by (simp add: session_ok_def)
  from getFullConfig_eq [OF this assms(2)] obtain f where
    f: "getFullConfig (ss_data s) = Inr f" "sorted_keys f" "map_of f = (\<lambda>k. map_option Some (effective items (map_of m) k))" by blast
  from merged_values [OF f(2,3) assms(4)] obtain c where
    c: "config_values (fold (merge_entry Some) d f) = Inr c" "sorted_keys c" "map_of c = merged id (effective items (map_of m)) (map_of d)" by blast
  obtain n u where "configure (Some (EMap c)) (ss_server s) = (Inr n, u)" "answer = createAnswer (int n) (describe n)" "t = s\<lparr>ss_server := u\<rparr>"
    using assms(3,5) c(1) f(1)
    by (auto simp: configHandler_def bindS_Inr eff_apply on_server_def zoomS_def split: prod.splits)
  with c(2,3) show ?thesis by blast
qed

text \<open>An update for the module: either it is stored and the server was configured with exactly the full
  configuration of after, with the version of the update if that is new; or the session has not changed, nor have the
  subnets of the server.\<close>

lemma update_cases:
  assumes ok: "session_ok items s" "ss_running s" and m: "cd_config (ss_data s) = EMap m"
    and new: "ordered (EMap new)"
    and run: "handleConfigUpdate fmt (Some (configHandler configure describe)) (EMap new) s = (Inr answer, t)"
  shows "session_ok items t \<and>
    ((\<exists>m' c v. cd_config (ss_data t) = EMap m' \<and> (\<forall>k. k \<noteq> ''version'' \<longrightarrow> map_of m' k = (map_of m ++ map_of new) k) \<and>
        answer = createAnswer 0 (describe 0) \<and> full_config (ss_data t) = Inr c \<and> v \<in> {None, map_of new ''version''} \<and>
        configure (Some (EMap (with_version v c))) (ss_server s) = (Inr 0, ss_server t)) \<or>
     (\<exists>n text. answer = createAnswer n text \<and> n \<in> {1, 2} \<and> ss_data t = ss_data s \<and> unchanged (ss_server s) (ss_server t)))"
proof -
  have mod: "module_ok (cd_spec (ss_data s)) items" and inv: "cfg_inv (ss_server s)" and ord: "ordered (EMap m)"
    using ok(1) m by (simp_all add: session_ok_def)
  obtain validated errors where v: "validateConfig fmt (cd_spec (ss_data s)) (EMap new) False = Inr (validated, errors)"
    using run by (auto simp: handleConfigUpdate_def bindS_Inr eff_apply)
  show ?thesis
  proof (cases validated)
    case False
    then have "answer = createAnswer 2 (''Error in config validation: '' @ concat errors)" "t = s"
      using run v by (auto simp: handleConfigUpdate_def bindS_Inr eff_apply)
    then show ?thesis using ok(1) by (auto simp: unchanged_def)
  next
    case True
    from removeIdentical_map [OF new ord] obtain d where
      d: "removeIdentical (EMap new) (Some (EMap m)) = Inr (EMap d)" "sorted_keys d" "map_of d = difference (map_of new) (map_of m)" .
    obtain u where h: "configHandler configure describe (EMap d) s = (Inr answer, u)"
      using run v True d(1) m by (auto simp: handleConfigUpdate_def bindS_Inr eff_apply split: if_splits)
    from handler_returns [OF ok(1) m ok(2) d(2) h] obtain c n w where
      c: "sorted_keys c" "map_of c = merged id (effective items (map_of m)) (map_of d)"
      and w: "configure (Some (EMap c)) (ss_server s) = (Inr n, w)" "answer = createAnswer (int n) (describe n)" "u = s\<lparr>ss_server := w\<rparr>"
      by blast
    have n: "n \<in> {0, 1}" "n \<noteq> 0 \<Longrightarrow> unchanged (ss_server s) w" "cfg_inv w"
      using configure_refused [OF inv w(1)] configure_inv [OF w(1) inv] by auto
    then have answer: "parseAnswer (Some answer) = Inr (int n, Some (EString (describe n)))"
      unfolding w(2) by (intro parse_created) auto
    have items: "k \<in> item_name ` set items \<and> x \<noteq> ENull" if "map_of new k = Some x" "k \<noteq> ''version''" for k x
      using validated_items [OF mod _ that(2,1)] v True by simp
    have no_item: "''version'' \<notin> item_name ` set items" using mod by (auto simp: module_ok_def list_all_iff)
    have d_new: "map_of new k = Some x" if "map_of d k = Some x" for k x
      using that by (auto simp: d(3) difference_def split: if_splits)
    show ?thesis
    proof (cases "n = 0")
      case False
      then have "t = u" using run v True d(1) m h answer by (auto simp: handleConfigUpdate_def bindS_Inr eff_apply)
      then show ?thesis using n False ok(1) w(2,3) by (fastforce simp: session_ok_def)
    next
      case True
      define r where "r = fold (merge_entry id) d m"
      have t: "t = setLocalConfig (EMap r) u"
        using run v \<open>validated\<close> d(1) m h answer True w(3)
        by (auto simp: handleConfigUpdate_def bindS_Inr eff_apply el_merge_def r_def)
      have merged_r: "map_of r = merged id (map_of m) (map_of d)"
        unfolding r_def using d(2) by (intro merge_entries sorted_keys_distinct)
      have r: "map_of r k = (map_of m ++ map_of new) k" if "k \<noteq> ''version''" for k
        unfolding merged_r difference_add [of "map_of m" "map_of new", symmetric] d(3) [symmetric]
        using items d_new that by (auto simp: merged_def map_add_def split: option.splits)
      have "ordered (EMap d)"
        using ordered_entry [OF new] d_new by (intro ordered_mapI d(2)) blast
      from merge_ordered [OF ord this] have ordered: "ordered (EMap r)" by (simp add: r_def)
      define v where "v = merged id Map.empty (map_of d) ''version''"
      have v_new: "v \<in> {None, map_of new ''version''}"
        using d_new [of "''version''"] by (auto simp: v_def merged_def split: option.splits)
      have "map_of c = (effective items (map_of m ++ map_of d))(''version'' := v)"
        unfolding c(2) v_def using items d_new no_item by (intro merged_effective) blast+
      also have "effective items (map_of m ++ map_of d) = effective items (map_of r)"
        unfolding d(3) difference_add using no_item r by (intro effective_cong) (metis image_eqI)
      finally have c_eq: "map_of c = (effective items (map_of r))(''version'' := v)" .
      obtain c' where c': "full_config (ss_data t) = Inr c'" "sorted_keys c'" "map_of c' = effective items (map_of r)"
        using full_config_eq [of "ss_data t" items r] mod t w(3) by (auto simp: setLocalConfig_def)
      have "map_of c = map_of (with_version v c')" "sorted_keys (with_version v c')"
        using effective_dom [OF no_item] c' by (auto simp: c_eq with_version_def sorted_keys_sp_set split: option.splits)
      then have "c = with_version v c'" using sorted_keys_ext [OF c(1)] by blast
      then show ?thesis
        using True r ordered w n(3) mod c'(1) v_new unfolding t by (fastforce simp: setLocalConfig_def session_ok_def)
    qed
  qed
qed

text \<open>An exception that the session catches comes before anything was changed.\<close>

lemma handler_throws:
  assumes "configHandler configure describe d s = (Inl e, t)" "is_exception e"
  shows "t = s"
  using assms configure_throws
  by (auto simp: configHandler_def bindS_def eff_apply on_server_def zoomS_def split: prod.splits sum.splits if_splits)

lemma update_throws:
  assumes ok: "session_ok items s" and new: "ordered new"
    and run: "handleConfigUpdate fmt (Some (configHandler configure describe)) new s = (Inl e, t)" "is_exception e"
  shows "t = s"
proof (rule ccontr)
  assume ne: "t \<noteq> s"
  from ok obtain m where m: "cd_config (ss_data s) = EMap m" "ordered (EMap m)" by (auto simp: session_ok_def getType_shapes)
  obtain diff answer u where diff: "removeIdentical new (Some (EMap m)) = Inr diff" "configHandler configure describe diff s = (Inr answer, u)"
    and after: "parseAnswer (Some answer) = Inl e \<or> (\<exists>rcode x. parseAnswer (Some answer) = Inr (rcode, x) \<and> el_merge (cd_config (ss_data u)) diff = Inl e)"
    using run ne handler_throws [of describe _ s e t] m(1)
    by (auto simp: handleConfigUpdate_def bindS_def eff_apply split: prod.splits sum.splits if_splits)
  obtain new' where new': "new = EMap new'" using diff(1) by (auto simp: removeIdentical_def result_simps)
  from removeIdentical_map [OF new [unfolded new'] m(2)] obtain d where d: "diff = EMap d" "sorted_keys d"
    using diff(1) by (auto simp: new')
  show False
  proof (cases "ss_running s")
    case True
    from handler_returns [OF ok m(1) True d(2)] diff(2) d(1) obtain c n w where
      w: "configure (Some (EMap c)) (ss_server s) = (Inr n, w)" "answer = createAnswer (int n) (describe n)" "u = s\<lparr>ss_server := w\<rparr>" by blast
    have "n \<in> {0, 1}" using configure_refused [OF _ w(1)] ok by (auto simp: session_ok_def)
    then show False using after m d(1) w parse_created [of "int n" "describe n"] by (auto simp: el_merge_def)
  next
    case False
    then have "u = s" "answer = createAnswer 1 ''Configuration rejected, server is during startup/shutdown phase.''"
      using diff(2) by (auto simp: configHandler_def bindS_Inr eff_apply)
    then show False using after m d(1) parse_created [of 1] by (auto simp: el_merge_def)
  qed
qed

lemma update_keeps:
  assumes "session_ok items s" "ordered arg"
    and "handleConfigUpdate fmt (Some (configHandler configure describe)) arg s = (r, t)" "\<And>e. r = Inl e \<Longrightarrow> is_exception e"
  shows "session_ok items t \<and> follows configure s t"
proof (cases r)
  case (Inl e)
  then have "t = s" using update_throws [OF assms(1,2)] assms(3,4) by blast
  then show ?thesis using assms(1) by simp
next
  case (Inr answer)
  show ?thesis
  proof (cases "ss_running s")
    case False
    then have "t = s"
      using assms(3) Inr parse_created [of 1]
      by (auto simp: handleConfigUpdate_def configHandler_def bindS_def eff_apply split: prod.splits sum.splits if_splits)
    then show ?thesis using assms(1) by simp
  next
    case True
    obtain m where m: "cd_config (ss_data s) = EMap m" using assms(1) by (auto simp: session_ok_def getType_shapes)
    obtain new where new: "arg = EMap new"
      using assms(3) Inr by (auto simp: handleConfigUpdate_def bindS_Inr eff_apply validateConfig_def validateSpecList_def alsoV_def result_simps)
    have inv: "cfg_inv (ss_server s)" using assms(1) by (simp add: session_ok_def)
    from update_cases [OF assms(1) True m, of new fmt describe answer t] assms(2,3) new Inr
    show ?thesis
      using inv unchanged_refl by (fastforce simp: in_sync_def follows_def)
  qed
qed

lemma message_keeps:
  assumes "session_ok items s" "ordered data"
    and "checkCommand fmt (Some (configHandler configure describe)) (Some commandHandler) remote routing data s = (Inr reply, t)"
  shows "session_ok items t \<and> follows configure s t"
proof -
  let ?body = "bindS (liftS (parseCommand (Some data))) (\<lambda>(cmd_str, arg).
      bindS (liftS (get_string ''group'' routing)) (\<lambda>target_module.
        if cmd_str = ''config_update'' then checkConfigUpdateCommand fmt (Some (configHandler configure describe)) remote target_module arg
        else checkModuleCommand fmt (Some commandHandler) cmd_str target_module arg))"
  have body: "session_ok items t \<and> follows configure u t"
    if ok: "session_ok items u" and r: "?body u = (r, t)" "\<And>e. r = Inl e \<Longrightarrow> is_exception e" for r u
  proof (cases "parseCommand (Some data)")
    case (Inl e)
    then show ?thesis using r(1) ok by (auto simp: bindS_def eff_apply)
  next
    case (Inr p)
    then obtain cmd arg where parsed: "parseCommand (Some data) = Inr (cmd, arg)" by (cases p) auto
    have arg: "ordered arg" using assms(2) parsed by (rule parsed_ordered)
    consider "t = u" | q target where "updateRemoteConfig remote target arg u = (q, t)"
      | target where "checkModuleCommand fmt (Some commandHandler) cmd target arg u = (r, t)"
      | q where "handleConfigUpdate fmt (Some (configHandler configure describe)) arg u = (q, t)" "\<And>e. q = Inl e \<Longrightarrow> r = Inl e"
      using r(1) parsed
      by (auto simp: bindS_def eff_apply checkConfigUpdateCommand_def split: prod.splits sum.splits if_splits)
    then show ?thesis
    proof cases
      case 1
      then show ?thesis using ok by simp
    next
      case 2
      then show ?thesis using same_core_keeps [OF core_remote [OF 2]] ok by simp
    next
      case 3
      then show ?thesis using same_core_keeps [OF core_command [OF 3]] ok by simp
    next
      case 4
      then show ?thesis using update_keeps [OF ok arg, of fmt describe q t] r(2) by blast
    qed
  qed
  obtain taken u where u: "checkAsyncRecv routing s = (Inr taken, u)"
    and rest: "t = u \<or> catch_std ?body u = (Inr reply, t)"
    using assms(3) by (auto simp: checkCommand_def bindS_Inr eff_apply split: if_splits)
  have core: "session_ok items u = session_ok items s" "follows configure s u"
    using same_core_keeps [OF core_async [OF u]] by auto
  from rest show ?thesis
  proof
    assume "catch_std ?body u = (Inr reply, t)"
    then obtain r where "?body u = (r, t)" "\<And>e. r = Inl e \<Longrightarrow> is_exception e"
      by (auto simp: catch_std_def split: prod.splits sum.splits if_splits)
    then show ?thesis using body [of u r] core assms(1) follows_trans by blast
  qed (use core assms(1) in simp)
qed

lemma run_keeps:
  assumes "session_run fmt (configHandler configure describe) remote s t" "session_ok items s"
  shows "session_ok items t \<and> follows configure s t"
  using assms
proof induction
  case (message t data routing reply u)
  then have "session_ok items t" "follows configure s t" by simp_all
  with message_keeps [OF this(1) message(2,3)] follows_trans show ?case by blast
qed simp

text \<open>When the session is established the server is in step, if it accepted the stored configuration.\<close>

lemma established:
  assumes "establishSession configure strtod fmt file announced stored_config server = Inr t" "readModuleSpecification strtod fmt file = Inr spec"
    and "module_ok spec items" "ordered stored_config" "cfg_inv server"
  shows "\<exists>c n. full_config (ss_data t) = Inr c \<and> configure (Some (EMap c)) server = (Inr n, ss_server t) \<and>
    session_ok items t \<and> ss_running t \<and> (n = 0 \<longrightarrow> in_sync configure t) \<and> (n \<noteq> 0 \<longrightarrow> unchanged server (ss_server t))"
proof -
  obtain s where s: "init_session strtod fmt file announced stored_config server = Inr s"
    using assms(1) by (auto simp: establishSession_def result_simps)
  from init_session_ok [OF s assms(2-5)] have ok: "session_ok items s" "ss_server s = server" "ss_running s" by auto
  obtain m where "module_ok (cd_spec (ss_data s)) items" "cd_config (ss_data s) = EMap m"
    using ok(1) by (auto simp: session_ok_def getType_shapes)
  from full_config_eq [OF this] obtain c where c: "full_config (ss_data s) = Inr c" by blast
  obtain r w where r: "configure (Some (EMap c)) server = (r, w)" by fastforce
  then have "on_server (configure (Some (EMap c))) s = (r, s\<lparr>ss_server := w\<rparr>)" using ok(2) by (simp add: on_server_def zoomS_def)
  then have "(case r of Inl e \<Rightarrow> e = DhcpConfigError | Inr _ \<Rightarrow> True) \<and> t = s\<lparr>ss_server := w\<rparr>"
    using assms(1) s c by (auto simp: establishSession_def full_config_def result_simps split: sum.splits if_splits)
  then obtain n where w: "configure (Some (EMap c)) server = (Inr n, w)" "t = s\<lparr>ss_server := w\<rparr>"
    using r configure_throws [of "Some (EMap c)" server _ w] by (cases r) (auto simp: is_exception_def)
  have "cfg_inv w" using configure_inv [OF w(1) assms(5)] .
  then have "session_ok items t" using ok(1) w(2) by (simp add: session_ok_def)
  moreover have "in_sync configure t" if "n = 0"
    unfolding in_sync_def using c w assms(5) that unchanged_refl by (intro exI [of _ c] exI [of _ None] exI [of _ server] exI [of _ w]) (simp add: with_version_def)
  ultimately show ?thesis using c w ok(3) configure_refused [OF assms(5) w(1)] by auto
qed

text \<open>From the start of the session on the server is in step, or it has refused the stored configuration and nothing
  was accepted since.\<close>

lemma session_in_sync:
  assumes "establishSession configure strtod fmt file announced stored_config server = Inr s" "readModuleSpecification strtod fmt file = Inr spec"
    and "module_ok spec items" "ordered stored_config" "cfg_inv server"
    and "session_run fmt (configHandler configure describe) remote s t"
  shows "session_ok items t \<and>
    (in_sync configure t \<or>
     ss_data t = ss_data s \<and> unchanged server (ss_server t) \<and>
     (\<exists>c w. full_config (ss_data t) = Inr c \<and> configure (Some (EMap c)) server = (Inr 1, w)))"
proof -
  from established [OF assms(1-5)] obtain c n where
    c: "full_config (ss_data s) = Inr c" "configure (Some (EMap c)) server = (Inr n, ss_server s)" "session_ok items s"
       "n = 0 \<longrightarrow> in_sync configure s" "n \<noteq> 0 \<longrightarrow> unchanged server (ss_server s)" by blast
  from run_keeps [OF assms(6) c(3)] have t: "session_ok items t" "follows configure s t" by blast+
  show ?thesis
  proof (cases "n = 0")
    case True
    with c t show ?thesis by (auto simp: follows_def in_sync_def dest: unchanged_trans)
  next
    case False
    then have "n = 1" using configure_refused [OF assms(5) c(2)] by auto
    with c t show ?thesis by (auto simp: follows_def intro: unchanged_trans)
  qed
qed

end

section \<open>The two servers\<close>

lemma run_config_throws: "run_config parse commit s = (Inl e, t) \<Longrightarrow> \<not> is_exception e"
  by (auto simp: run_config_def split: prod.splits sum.splits if_splits)

interpretation ctl4: configurable "configureDhcp4Server ext" for ext
proof (unfold_locales, goal_cases)
  case (1 c s n t)
  then show ?case by (rule srv4.configure_inv)
next
  case (2 s c n t)
  then show ?case by (rule srv4.refused)
next
  case (3 c s e t)
  then show ?case by (auto simp: configureDhcp4Server_def eff_apply dest: run_config_throws split: option.splits)
qed

interpretation ctl6: configurable "configureDhcp6Server ext ifaces" for ext ifaces
proof (unfold_locales, goal_cases)
  case (1 c s n t)
  then show ?case by (rule srv6.configure_inv)
next
  case (2 s c n t)
  then show ?case by (rule srv6.refused)
next
  case (3 c s e t)
  then show ?case by (auto simp: configureDhcp6Server_def eff_apply dest: run_config_throws split: option.splits)
qed

text \<open>C10. A configuration update that the DHCPv4 server accepts is stored over the values of before, and the server was
  configured with exactly the full configuration, defaults included, that the session has afterwards; if the update
  has an entry \<^verbatim>\<open>version\<close>, which is no item of the specification and is not validated, it may be handed to the server
  besides. After an update that is refused, by the validation or by the server, the session has the configuration of
  before, and the server has its subnets, pointing at the same options, and its global parameters; these options keep
  their content and their sub-options, but may have been given further sub-options. Nothing is said of the lease database and of the
  option definitions of the configuration manager, which a refused configuration may already have replaced.\<close>

theorem config_update4:
  assumes "session_ok items s" "ss_running s" "cd_config (ss_data s) = EMap m" "ordered (EMap new)"
    and "handleConfigUpdate fmt (Some (dhcp4ConfigHandler ext describe)) (EMap new) s = (Inr answer, t)"
  shows "session_ok items t \<and>
    ((\<exists>m' c v. cd_config (ss_data t) = EMap m' \<and> (\<forall>k. k \<noteq> ''version'' \<longrightarrow> map_of m' k = (map_of m ++ map_of new) k) \<and>
        answer = createAnswer 0 (describe 0) \<and> bindE (getFullConfig (ss_data t)) config_values = Inr c \<and>
        v \<in> {None, map_of new ''version''} \<and>
        configureDhcp4Server ext (Some (EMap (with_version v c))) (ss_server s) = (Inr 0, ss_server t)) \<or>
     (\<exists>n text. answer = createAnswer n text \<and> n \<in> {1, 2} \<and> ss_data t = ss_data s \<and> unchanged (ss_server s) (ss_server t)))"
  using ctl4.update_cases [OF assms(1-4)] assms(5) unfolding dhcp4ConfigHandler_def full_config_def .

lemma config_update6:
  assumes "session_ok items s" "ss_running s" "cd_config (ss_data s) = EMap m" "ordered (EMap new)"
    and "handleConfigUpdate fmt (Some (dhcp6ConfigHandler ext ifaces describe)) (EMap new) s = (Inr answer, t)"
  shows "session_ok items t \<and>
    ((\<exists>m' c v. cd_config (ss_data t) = EMap m' \<and> (\<forall>k. k \<noteq> ''version'' \<longrightarrow> map_of m' k = (map_of m ++ map_of new) k) \<and>
        answer = createAnswer 0 (describe 0) \<and> full_config (ss_data t) = Inr c \<and> v \<in> {None, map_of new ''version''} \<and>
        configureDhcp6Server ext ifaces (Some (EMap (with_version v c))) (ss_server s) = (Inr 0, ss_server t)) \<or>
     (\<exists>n text. answer = createAnswer n text \<and> n \<in> {1, 2} \<and> ss_data t = ss_data s \<and> unchanged (ss_server s) (ss_server t)))"
  using ctl6.update_cases [OF assms(1-4)] assms(5) unfolding dhcp6ConfigHandler_def .

text \<open>C9. From the establishment of its session on, and over every sequence of messages that it handles, whether
  configuration updates for this or another module, commands or replies, accepted, refused or malformed, the DHCPv4
  server stays in step with its session: it was configured with the full configuration of the session (and possibly a
  version entry), and the subnets, the options they point at and the global parameters are those it got then, up to
  sub-options added to these options since. The one exception is a server that refused the stored configuration
  at the start: until an update is accepted, the session keeps that configuration and the server what it had before. The
  lease database and the option definitions of the configuration manager are not part of what is kept in step.\<close>

theorem session4_in_sync:
  assumes "establishSession (configureDhcp4Server ext) strtod fmt file announced stored_config server = Inr s"
    and "readModuleSpecification strtod fmt file = Inr spec" "module_ok spec items" "ordered stored_config" "cfg_inv server"
    and "session_run fmt (dhcp4ConfigHandler ext describe) remote s t"
  shows "session_ok items t \<and>
    (in_sync (configureDhcp4Server ext) t \<or>
     ss_data t = ss_data s \<and> unchanged server (ss_server t) \<and>
     (\<exists>c w. full_config (ss_data t) = Inr c \<and> configureDhcp4Server ext (Some (EMap c)) server = (Inr 1, w)))"
  using ctl4.session_in_sync [OF assms(1-5)] assms(6) unfolding dhcp4ConfigHandler_def .

lemma session6_in_sync:
  assumes "establishSession (configureDhcp6Server ext ifaces) strtod fmt file announced stored_config server = Inr s"
    and "readModuleSpecification strtod fmt file = Inr spec" "module_ok spec items" "ordered stored_config" "cfg_inv server"
    and "session_run fmt (dhcp6ConfigHandler ext ifaces describe) remote s t"
  shows "session_ok items t \<and>
    (in_sync (configureDhcp6Server ext ifaces) t \<or>
     ss_data t = ss_data s \<and> unchanged server (ss_server t) \<and>
     (\<exists>c w. full_config (ss_data t) = Inr c \<and> configureDhcp6Server ext ifaces (Some (EMap c)) server = (Inr 1, w)))"
  using ctl6.session_in_sync [OF assms(1-5)] assms(6) unfolding dhcp6ConfigHandler_def .

end
