(* ===== verification/Dhcp_Specs.thy ===== *)
theory Dhcp_Specs
  imports Cc_Safety
begin

text \<open>
  The specifications of the two servers, \<^verbatim>\<open>src/bin/dhcp4/dhcp4.spec\<close> and \<^verbatim>\<open>src/bin/dhcp6/dhcp6.spec\<close>, as the elements they
  are read to: they pass the check, and what is proved of sessions applies to them.
\<close>

section \<open>The specifications\<close>

definition spec_item :: "string \<Rightarrow> string \<Rightarrow> bool \<Rightarrow> Element \<Rightarrow> (string \<times> Element) list \<Rightarrow> Element" where
  "spec_item name type optional default_value extra =
     EMap ([(''item_default'', default_value), (''item_name'', EString name), (''item_optional'', EBool optional),
            (''item_type'', EString type)] @ extra)"

definition dhcp4_items :: "Element list" where
  "dhcp4_items = [
    spec_item ''interface'' ''list'' False (EList [EString ''all''])
      [(''list_item_spec'', spec_item ''interface_name'' ''string'' False (EString ''all'') [])],
    spec_item ''renew-timer'' ''integer'' False (EInt 1000) [],
    spec_item ''rebind-timer'' ''integer'' False (EInt 2000) [],
    spec_item ''valid-lifetime'' ''integer'' False (EInt 4000) [],
    spec_item ''option-def'' ''list'' False (EList [])
      [(''list_item_spec'', spec_item ''single-option-def'' ''map'' False (EMap [])
          [(''map_item_spec'', EList [
              spec_item ''name'' ''string'' False (EString []) [],
              spec_item ''code'' ''integer'' False (EInt 0) [],
              spec_item ''type'' ''string'' False (EString []) [],
              spec_item ''array'' ''boolean'' False (EBool False) [],
              spec_item ''record-types'' ''string'' False (EString []) [],
              spec_item ''space'' ''string'' False (EString []) [],
              spec_item ''encapsulate'' ''string'' False (EString []) []])])],
    spec_item ''option-data'' ''list'' False (EList [])
      [(''list_item_spec'', spec_item ''single-option-data'' ''map'' False (EMap [])
          [(''map_item_spec'', EList [
              spec_item ''name'' ''string'' False (EString []) [],
              spec_item ''code'' ''integer'' False (EInt 0) [],
              spec_item ''data'' ''string'' False (EString []) [],
              spec_item ''csv-format'' ''boolean'' False (EBool False) [],
              spec_item ''space'' ''string'' False (EString ''dhcp4'') []])])],
    spec_item ''lease-database'' ''map'' False (EMap [(''type'', EString ''memfile'')])
      [(''map_item_spec'', EList [
          spec_item ''type'' ''string'' False (EString []) [],
          spec_item ''name'' ''string'' True (EString []) [],
          spec_item ''user'' ''string'' True (EString []) [],
          spec_item ''host'' ''string'' True (EString []) [],
          spec_item ''password'' ''string'' True (EString []) []])],
    spec_item ''subnet4'' ''list'' False (EList [])
      [(''list_item_spec'', spec_item ''single-subnet4'' ''map'' False (EMap [])
          [(''map_item_spec'', EList [
              spec_item ''subnet'' ''string'' False (EString []) [],
              spec_item ''renew-timer'' ''integer'' False (EInt 1000) [],
              spec_item ''rebind-timer'' ''integer'' False (EInt 2000) [],
              spec_item ''valid-lifetime'' ''integer'' False (EInt 7200) [],
              spec_item ''pool'' ''list'' False (EList [])
                [(''list_item_spec'', spec_item ''type'' ''string'' False (EString []) [])],
              spec_item ''option-data'' ''list'' False (EList [])
                [(''list_item_spec'', spec_item ''single-option-data'' ''map'' False (EMap [])
                    [(''map_item_spec'', EList [
                        spec_item ''name'' ''string'' False (EString []) [],
                        spec_item ''code'' ''integer'' False (EInt 0) [],
                        spec_item ''data'' ''string'' False (EString []) [],
                        spec_item ''csv-format'' ''boolean'' False (EBool False) [],
                        spec_item ''space'' ''string'' False (EString ''dhcp4'') []])])]])])]]"

definition dhcp4_commands :: Element where
  "dhcp4_commands = EList [
      EMap [(''command_args'', EList [
          EMap [(''item_name'', EString ''pid''), (''item_optional'', EBool True), (''item_type'', EString ''integer'')]]), (''command_description'', EString ''Shuts down DHCPv4 server.''), (''command_name'', EString ''shutdown'')]]"

definition dhcp4_spec :: Element where
  "dhcp4_spec = EMap [(''commands'', dhcp4_commands), (''config_data'', EList dhcp4_items), (''module_description'', EString ''DHCPv4 server daemon''), (''module_name'', EString ''Dhcp4'')]"

definition dhcp6_items :: "Element list" where
  "dhcp6_items = [
    spec_item ''interface'' ''list'' False (EList [EString ''all''])
      [(''list_item_spec'', spec_item ''interface_name'' ''string'' False (EString ''all'') [])],
    spec_item ''renew-timer'' ''integer'' False (EInt 1000) [],
    spec_item ''rebind-timer'' ''integer'' False (EInt 2000) [],
    spec_item ''preferred-lifetime'' ''integer'' False (EInt 3000) [],
    spec_item ''valid-lifetime'' ''integer'' False (EInt 4000) [],
    spec_item ''option-def'' ''list'' False (EList [])
      [(''list_item_spec'', spec_item ''single-option-def'' ''map'' False (EMap [])
          [(''map_item_spec'', EList [
              spec_item ''name'' ''string'' False (EString []) [],
              spec_item ''code'' ''integer'' False (EInt 0) [],
              spec_item ''type'' ''string'' False (EString []) [],
              spec_item ''array'' ''boolean'' False (EBool False) [],
              spec_item ''record-types'' ''string'' False (EString []) [],
              spec_item ''space'' ''string'' False (EString []) [],
              spec_item ''encapsulate'' ''string'' False (EString []) []])])],
    spec_item ''option-data'' ''list'' False (EList [])
      [(''list_item_spec'', spec_item ''single-option-data'' ''map'' False (EMap [])
          [(''map_item_spec'', EList [
              spec_item ''name'' ''string'' False (EString []) [],
              spec_item ''code'' ''integer'' False (EInt 0) [],
              spec_item ''data'' ''string'' False (EString []) [],
              spec_item ''csv-format'' ''boolean'' False (EBool False) [],
              spec_item ''space'' ''string'' False (EString ''dhcp6'') []])])],
    spec_item ''lease-database'' ''map'' False (EMap [(''type'', EString ''memfile'')])
      [(''map_item_spec'', EList [
          spec_item ''type'' ''string'' False (EString []) [],
          spec_item ''name'' ''string'' True (EString []) [],
          spec_item ''user'' ''string'' True (EString []) [],
          spec_item ''host'' ''string'' True (EString []) [],
          spec_item ''password'' ''string'' True (EString []) []])],
    spec_item ''subnet6'' ''list'' False (EList [])
      [(''list_item_spec'', spec_item ''single-subnet6'' ''map'' False (EMap [])
          [(''map_item_spec'', EList [
              spec_item ''subnet'' ''string'' False (EString []) [],
              spec_item ''interface'' ''string'' False (EString []) [],
              spec_item ''renew-timer'' ''integer'' False (EInt 1000) [],
              spec_item ''rebind-timer'' ''integer'' False (EInt 2000) [],
              spec_item ''preferred-lifetime'' ''integer'' False (EInt 3000) [],
              spec_item ''valid-lifetime'' ''integer'' False (EInt 7200) [],
              spec_item ''pool'' ''list'' False (EList [])
                [(''list_item_spec'', spec_item ''type'' ''string'' False (EString []) [])],
              spec_item ''option-data'' ''list'' False (EList [])
                [(''list_item_spec'', spec_item ''single-option-data'' ''map'' False (EMap [])
                    [(''map_item_spec'', EList [
                        spec_item ''name'' ''string'' False (EString []) [],
                        spec_item ''code'' ''integer'' False (EInt 0) [],
                        spec_item ''data'' ''string'' False (EString []) [],
                        spec_item ''csv-format'' ''boolean'' False (EBool False) [],
                        spec_item ''space'' ''string'' False (EString ''dhcp6'') []])])]])])]]"

definition dhcp6_commands :: Element where
  "dhcp6_commands = EList [
      EMap [(''command_args'', EList [
          EMap [(''item_name'', EString ''pid''), (''item_optional'', EBool True), (''item_type'', EString ''integer'')]]), (''command_description'', EString ''Shuts down DHCPv6 server.''), (''command_name'', EString ''shutdown'')]]"

definition dhcp6_spec :: Element where
  "dhcp6_spec = EMap [(''commands'', dhcp6_commands), (''config_data'', EList dhcp6_items), (''module_description'', EString ''DHCPv6 server daemon''), (''module_name'', EString ''Dhcp6'')]"

section \<open>They are accepted\<close>

lemma specs_checked:
  "check_module_specification (\<lambda>_ _. False) dhcp4_spec = Inr ()" "check_module_specification (\<lambda>_ _. False) dhcp6_spec = Inr ()"
  by code_simp+

lemma dhcp4_module: "module_ok dhcp4_spec dhcp4_items"
  by code_simp

lemma dhcp6_module: "module_ok dhcp6_spec dhcp6_items"
  by code_simp

end
