(* ===== verification/Config_Examples.thy ===== *)
theory Config_Examples
  imports Config_Safety4 Config_Safety6
begin

text \<open>
  Configurations run through the parsers: the one that witnesses the general properties, and what a
  configuration does beyond them. Reloading empties the in-memory lease database, definitions that were
  registered and sub-options that were added are not taken back, a global option that encapsulates an option space cannot be used by two
  subnets, and option spaces that encapsulate each other are accepted.
\<close>

section \<open>Configurations\<close>

definition subnet_entry :: "string \<Rightarrow> string \<Rightarrow> Element" where
  "subnet_entry pool subnet = EMap [(''pool'', EList [EString pool]), (''subnet'', EString subnet)]"

definition option_entry :: "int \<Rightarrow> string \<Rightarrow> string \<Rightarrow> string \<Rightarrow> Element" where
  "option_entry code name space data =
     EMap [(''code'', EInt code), (''csv-format'', EBool False), (''data'', EString data),
           (''name'', EString name), (''space'', EString space)]"

definition option_def_entry :: "int \<Rightarrow> string \<Rightarrow> string \<Rightarrow> string \<Rightarrow> string \<Rightarrow> Element" where
  "option_def_entry code name space type encapsulate =
     EMap [(''array'', EBool False), (''code'', EInt code), (''encapsulate'', EString encapsulate),
           (''name'', EString name), (''record-types'', EString []), (''space'', EString space),
           (''type'', EString type)]"

definition memfile_entry :: Element where
  "memfile_entry = EMap [(''type'', EString ''memfile'')]"

definition config4 :: "Element list \<Rightarrow> Element list \<Rightarrow> Element list \<Rightarrow> (string \<times> Element) list" where
  "config4 options defs subnets =
     [(''lease-database'', memfile_entry), (''option-data'', EList options), (''option-def'', EList defs),
      (''rebind-timer'', EInt 2000), (''renew-timer'', EInt 1000), (''subnet4'', EList subnets),
      (''valid-lifetime'', EInt 4000)]"

definition entry_a :: Element where
  "entry_a = subnet_entry ''192.0.2.100 - 192.0.2.102'' ''192.0.2.0/24''"

definition entry_b :: Element where
  "entry_b = EMap [(''subnet'', EString ''192.0.3.0/24'')]"

text \<open>The conversions of texts that the configurations use.\<close>

definition config_ext :: externals where
  "config_ext = \<lparr>address_from_string =
       map_of [(''192.0.2.100'', IPv4 0xc0000264), (''192.0.2.102'', IPv4 0xc0000266), (''192.0.2.0'', IPv4 0xc0000200),
               (''192.0.3.0'', IPv4 0xc0000300), (''2001:db8::'', IPv6 0x20010db8000000000000000000000000)],
     lexical_cast_int64 = map_of [(''1'', 1), (''2'', 2), (''222'', 222), (''1000'', 1000), (''2000'', 2000), (''4000'', 4000)],
     lexical_cast_int = map_of [(''80'', 80)],
     lexical_cast_uint = map_of [(''24'', 24), (''64'', 64)]\<rparr>"

section \<open>Evaluation\<close>

text \<open>Single values are computed; the parsers are unfolded over them.\<close>

lemma eval_numbers: "int_text 222 = ''222''" "int_text 1 = ''1''" "int_text 2 = ''2''" "int_text 2000 = ''2000''" "int_text 1000 = ''1000''" "int_text 4000 = ''4000''"
  by (simp_all add: int_text_def nat_text.simps char_of_def bit_iff_odd)

lemma eval_uint32:
  "uint32_build u config_ext (EInt 2000) = Inr 2000" "uint32_build u config_ext (EInt 1000) = Inr 1000"
  "uint32_build u config_ext (EInt 4000) = Inr 4000" "uint32_build u config_ext (EInt 1) = Inr 1" "uint32_build u config_ext (EInt 2) = Inr 2"
  "uint32_build u config_ext (EInt 222) = Inr 222"
  by (simp_all add: uint32_build_def Uint32Parser_build_def Uint32Parser_build6_def config_ext_def eval_numbers)

lemma eval_leases:
  "DbAccessParser_build memfile_entry = Inr [(''type'', ''memfile'')]"
  "DbAccessParser_commit [(''type'', ''memfile'')] lm = (Inr (), Some mk_Memfile)"
  "LeaseMgrFactory_parse (getDbAccessString [(''type'', ''memfile'')]) = Inr [''type'' \<mapsto> ''memfile'']"
proof -
  show "DbAccessParser_build memfile_entry = Inr [(''type'', ''memfile'')]"
    by (simp add: DbAccessParser_build_def memfile_entry_def result_simps)
  have "getDbAccessString [(''type'', ''memfile'')] = ''type=memfile''" by (simp add: getDbAccessString_def)
  then show parse: "LeaseMgrFactory_parse (getDbAccessString [(''type'', ''memfile'')]) = Inr [''type'' \<mapsto> ''memfile'']"
    by (simp add: LeaseMgrFactory_parse_def parse_token_def)
  then show "DbAccessParser_commit [(''type'', ''memfile'')] lm = (Inr (), Some mk_Memfile)"
    by (simp add: DbAccessParser_commit_def LeaseMgrFactory_destroy_def LeaseMgrFactory_create_def eff_simps)
qed

lemma eval_pool:
  "PoolParser_entry UV4 config_ext (EString ''192.0.2.100 - 192.0.2.102'') s =
     (Inr (mk_Pool (cs_pool_id s) (IPv4 0xc0000264) (IPv4 0xc0000266)), s\<lparr>cs_pool_id := cs_pool_id s + 1\<rparr>)"
  by (simp add: PoolParser_entry_def eff_simps eff_apply bindS_def erase_all_def before_def after_def IOAddress_text_def
      new_pool_range_def zoomS_def Pool4_range_def getNextID_def config_ext_def)

lemma eval_prefix:
  "StringParser_build (EString ''192.0.2.0/24'') = ''192.0.2.0/24''" "StringParser_build (EString ''192.0.3.0/24'') = ''192.0.3.0/24''"
  "subnet_prefix config_ext ''192.0.2.0/24'' = Inr (IPv4 0xc0000200, 24)"
  "subnet_prefix config_ext ''192.0.3.0/24'' = Inr (IPv4 0xc0000300, 24)"
  by (simp_all add: StringParser_build_def erase_all_def json_char_def subnet_prefix_def before_def after_def IOAddress_text_def
      config_ext_def result_simps)

lemma example_prefix_b: "lastAddrInPrefix (IPv4 0xc0000300) 24 = Inr (IPv4 0xc00003ff)"
  by (simp add: firstAddrInPrefix_def firstAddrInPrefix4_def lastAddrInPrefix_def lastAddrInPrefix4_def bitMask4_def)

lemmas eval_basic = eff_simps eff_apply bindS_def zoomS_def setParam_def getParam_def

text \<open>A subnet is built from its entry when the timers are known; the options are left to evaluate.\<close>

definition subnet_a :: "u32 \<Rightarrow> u32 \<Rightarrow> Subnet" where
  "subnet_a i p = \<lparr>sn_id = i, sn_pools = [mk_Pool p (IPv4 0xc0000264) (IPv4 0xc0000266)], sn_prefix = IPv4 0xc0000200,
     sn_prefix_len = 24, sn_t1 = Triplet_fixed 1000, sn_t2 = Triplet_fixed 2000, sn_valid = Triplet_fixed 4000,
     sn_last_allocated = IPv4 0xc00002ff, sn_iface = [], sn_option_spaces = Map.empty\<rparr>"

definition subnet_b :: "u32 \<Rightarrow> Subnet" where
  "subnet_b i = \<lparr>sn_id = i, sn_pools = [], sn_prefix = IPv4 0xc0000300,
     sn_prefix_len = 24, sn_t1 = Triplet_fixed 1000, sn_t2 = Triplet_fixed 2000, sn_valid = Triplet_fixed 4000,
     sn_last_allocated = IPv4 0xc00003ff, sn_iface = [], sn_option_spaces = Map.empty\<rparr>"

definition timers_set :: "cfg_state \<Rightarrow> bool" where
  "timers_set s \<longleftrightarrow> uint32_defaults s ''renew-timer'' = Some 1000 \<and> uint32_defaults s ''rebind-timer'' = Some 2000 \<and>
     uint32_defaults s ''valid-lifetime'' = Some 4000"

lemma eval_subnet_a:
  assumes "timers_set s"
  shows "Subnet4ConfigParser_build config_ext entry_a s =
    bindS (subnet_options UV4 []) (\<lambda>opts. retS (subnet_a (cs_subnet_id s) (cs_pool_id s), opts))
      (s\<lparr>cs_pool_id := cs_pool_id s + 1, cs_subnet_id := cs_subnet_id s + 1\<rparr>)"
proof -
  have add: "Subnet_addPool (mk_Pool p (IPv4 0xc0000264) (IPv4 0xc0000266)) (subnet_a i p\<lparr>sn_pools := []\<rparr>) = Inr (subnet_a i p)" for i p
    by (simp add: Subnet_addPool_def Subnet_inRange_def example_prefix subnet_a_def mk_Pool_def smallerEqual_def equals_def)
  have mk: "mk_Subnet4 (IPv4 0xc0000200) 24 (Triplet_fixed 1000) (Triplet_fixed 2000) (Triplet_fixed 4000) i =
      (Inr (subnet_a i p\<lparr>sn_pools := []\<rparr>), i + 1)" for i p
    by (simp add: mk_Subnet4_def mk_Subnet_def getNextID_def example_prefix subnet_a_def)
  show ?thesis
    using assms
    by (simp add: entry_a_def subnet_entry_def Subnet4ConfigParser_build_def build_subnet_values_def subnet_param_def
        createSubnet4ConfigParser_def PoolParser_build_def eval_pool eval_prefix createSubnet4_def inherited_param_def timers_set_def
        no_subnet_values_def eval_basic mk [where p = "cs_pool_id s"] add)
qed

lemma eval_subnet_b:
  assumes "timers_set s"
  shows "Subnet4ConfigParser_build config_ext entry_b s =
    bindS (subnet_options UV4 []) (\<lambda>opts. retS (subnet_b (cs_subnet_id s), opts)) (s\<lparr>cs_subnet_id := cs_subnet_id s + 1\<rparr>)"
  using assms
  by (simp add: entry_b_def Subnet4ConfigParser_build_def build_subnet_values_def subnet_param_def
      createSubnet4ConfigParser_def eval_prefix createSubnet4_def inherited_param_def timers_set_def
      no_subnet_values_def eval_basic mk_Subnet4_def mk_Subnet_def getNextID_def example_prefix_b subnet_b_def)

lemmas eval_config = run_config_def parse_config_def group_param_def
  independent_param_def eval_uint32 eval_leases OptionDefListParser_build_def
  OptionDefListParser_commit_def global_options_def OptionDataListParser_build_def OptionDataListParser_commit_def
  deleteOptionDefs_def subnet_options_def over_spaces_def initial_state_def mk_CfgMgr_def eval_basic

section \<open>The general properties apply\<close>

definition state_a :: cfg_state where
  "state_a = initial_state\<lparr>uint32_defaults := [''renew-timer'' \<mapsto> 1000, ''rebind-timer'' \<mapsto> 2000, ''valid-lifetime'' \<mapsto> 4000],
     cs_pool_id := 1, cs_subnet_id := 1, cs_cfg := (cs_cfg initial_state)\<lparr>cfg_subnets4 := [subnet_a 0 0]\<rparr>,
     cs_options4 := [[]], cs_lmgr := Some mk_Memfile\<rparr>"

lemma eval_config_a:
  "configureDhcp4Server config_ext (Some (EMap (config4 [] [] [entry_a]))) initial_state = (Inr 0, state_a)"
  by (simp add: eval_config configureDhcp4Server_def createGlobalDhcp4ConfigParser_def config4_def
      Subnets4ListConfigParser_build_def eval_subnet_a timers_set_def Subnets4_commit state_a_def fun_upd_twist)

theorem accepted_config_witness:
  "cfg_inv initial_state \<and> cfg_inv state_a \<and>
   configureDhcp4Server config_ext (Some (EMap (config4 [] [] [entry_a]))) initial_state = (Inr 0, state_a) \<and>
   (\<exists>em. entry_a = EMap em \<and> subnet4_of_entry config_ext (uint32_defaults state_a) em (subnet_a 0 0))"
  using accepted_config [OF cfg_inv_initial eval_config_a, of "[entry_a]"] cfg_inv_initial eval_config_a
  by (simp add: config4_def entry_a_def subnet_entry_def state_a_def)

theorem refused_config_witness:
  "cfg_inv state_a \<and> configureDhcp4Server config_ext (Some (EMap [(''subnet4'', ENull)])) state_a = (Inr 1, state_a) \<and>
   unchanged state_a state_a"
proof -
  have run: "configureDhcp4Server config_ext (Some (EMap [(''subnet4'', ENull)])) state_a = (Inr 1, state_a)"
    by (simp add: configureDhcp4Server_def createGlobalDhcp4ConfigParser_def eval_config Subnets4ListConfigParser_build_def
        state_a_def rollback_def)
  have "cfg_inv state_a" using srv4.configure_inv [OF eval_config_a cfg_inv_initial] .
  with run refused_config [OF this run] show ?thesis by simp
qed

definition config6 :: "(string \<times> Element) list" where
  "config6 =
     [(''lease-database'', memfile_entry), (''preferred-lifetime'', EInt 2000), (''rebind-timer'', EInt 2000),
      (''renew-timer'', EInt 1000),
      (''subnet6'', EList [EMap [(''interface'', EString ''eth0''), (''subnet'', EString ''2001:db8::/64'')]]),
      (''valid-lifetime'', EInt 4000)]"

definition config_ifaces :: IfaceMgr where
  "config_ifaces = \<lparr>im_ifaces = [mk_Iface ''eth0'' 2], im_fd_6to4 = 0, im_fd_4to6 = 0\<rparr>"

lemma eval_prefix6:
  "StringParser_build (EString ''2001:db8::/64'') = ''2001:db8::/64''" "StringParser_build (EString ''eth0'') = ''eth0''"
  "subnet_prefix config_ext ''2001:db8::/64'' = Inr (IPv6 0x20010db8000000000000000000000000, 64)"
  by (simp_all add: StringParser_build_def erase_all_def json_char_def subnet_prefix_def before_def after_def IOAddress_text_def
      config_ext_def result_simps)

theorem accepted_config6_witness:
  "\<exists>t sn. configureDhcp6Server config_ext config_ifaces (Some (EMap config6)) initial_state = (Inr 0, t) \<and>
     cfg_inv t \<and> cfg_subnets6 (cs_cfg t) = [sn] \<and> sn_iface sn = ''eth0'' \<and> sn_prefix_len sn = 64"
proof -
  obtain l where "lastAddrInPrefix6 (IPv6 0x20010db8000000000000000000000000) 64 = Inr (IPv6 l)"
    using lastAddrInPrefix6_val [of 64] by auto
  then have "\<exists>t. configureDhcp6Server config_ext config_ifaces (Some (EMap config6)) initial_state = (Inr 0, t)"
    by (simp add: eval_config configureDhcp6Server_def createGlobalDhcpConfigParser_def config6_def
      Subnets6ListConfigParser_build_def Subnet6ConfigParser_build_def build_subnet_values_def subnet_param_def
      createSubnet6ConfigParser_def eval_prefix6 createSubnet6_def inherited_param_def no_subnet_values_def
      mk_Subnet6_def mk_Subnet_def getNextID_def lastAddrInPrefix_def Subnet.defs Subnet6.defs
      subnet_iface_def configure_iface_def getIface_def config_ifaces_def mk_Iface_def setIface_def Subnets6_commit)
  then obtain t where t: "configureDhcp6Server config_ext config_ifaces (Some (EMap config6)) initial_state = (Inr 0, t)" ..
  let ?e = "EMap [(''interface'', EString ''eth0''), (''subnet'', EString ''2001:db8::/64'')]"
  have *: "list_all2 (\<lambda>e sn. \<exists>em. e = EMap em \<and> subnet6_of_entry config_ext config_ifaces (uint32_defaults t) em sn)
      [?e] (cfg_subnets6 (cs_cfg t))" "cfg_inv t"
    using accepted_config6 [OF cfg_inv_initial t, of "[?e]"] by (simp_all add: config6_def)
  then obtain sn where "cfg_subnets6 (cs_cfg t) = [sn]"
    "subnet6_of_entry config_ext config_ifaces (uint32_defaults t) [(''interface'', EString ''eth0''), (''subnet'', EString ''2001:db8::/64'')] sn"
    by (auto simp: list_all2_Cons1)
  then show ?thesis using t *(2) by (auto simp: subnet6_of_entry_def entry_iface_def entry_prefix_def eval_prefix6)
qed

section \<open>Leases and reconfiguration\<close>

abbreviation leases_are :: "Memfile_LeaseMgr option \<Rightarrow> cfg_state \<Rightarrow> bool" where
  "leases_are L s \<equiv> cs_lmgr s = L"

lemma keeps_leases_options [keeps_intros]:
  "keeps (leases_are L) (OptionDataParser_build u ext e)" "keeps (leases_are L) (add_suboption r sub acc)"
  by (rule keepsI, auto simp: OptionDataParser_build_def add_suboption_def bindS_askS split: sum.splits prod.splits)+

lemma keeps_leases_ids [keeps_intros]: "keeps (leases_are L) (on_pool_id m)" "keeps (leases_are L) (on_subnet_id m')"
  by (rule keeps_zoom [where Q = "\<lambda>_. True"]; auto simp: keeps_def)+

lemma keeps_leases_lists [keeps_intros]:
  "keeps (leases_are L) (OptionDataListParser_build u ext e)" "keeps (leases_are L) (PoolParser_build u ext e)"
  unfolding OptionDataListParser_build_def PoolParser_build_def PoolParser_entry_def new_pool_prefix_def new_pool_range_def Let_def
  by (intro keeps_intros)+

lemma keeps_leases_subnets: "keeps (leases_are L) (Subnets4ListConfigParser_build ext e)"
proof -
  have "keeps (leases_are L) (subnet_param u ext factory x)" for u factory x
    unfolding subnet_param_def by (auto intro!: keeps_intros split: prod.splits parser_kind.splits)
  then show ?thesis
    unfolding Subnets4ListConfigParser_build_def Subnet4ConfigParser_build_def build_subnet_values_def createSubnet4_def
      inherited_param_def subnet_options_def over_spaces_def add_global_option_def add_own_option_def appendSubOptions_def
    by (intro keeps_intros)
qed

lemma keeps_leases_defs [keeps_intros]: "keeps (leases_are L) (OptionDefListParser_build u ext e)" "keeps (leases_are L) OptionDefListParser_commit"
proof -
  have "keeps (leases_are L) (\<lambda>s. case addOptionDef (Some def) space (cs_cfg s) of Inl e \<Rightarrow> (Inl e, s) | Inr c \<Rightarrow> (Inr (), s\<lparr>cs_cfg := c\<rparr>))"
    for def space by (rule keepsI) (auto split: sum.splits)
  then show "keeps (leases_are L) (OptionDefListParser_build u ext e)" "keeps (leases_are L) OptionDefListParser_commit"
    unfolding OptionDefListParser_build_def OptionDefListParser_entry_def OptionDefListParser_commit_def
    by (auto intro!: keeps_intros)
qed

lemma keeps_leases_group:
  assumes "fst x \<noteq> ''lease-database''"
  shows "keeps (leases_are L) (group_param u ext createGlobalDhcp4ConfigParser k x)"
proof -
  have "keeps (leases_are L) (independent_param u ext kind (fst x) e)"
    if "createGlobalDhcp4ConfigParser (fst x) = Inr kind" for kind e
  proof -
    have "kind \<noteq> GLeaseDatabase" using that assms by (auto simp: createGlobalDhcp4ConfigParser_def split: if_splits)
    then show ?thesis unfolding independent_param_def by (cases kind) (auto intro!: keeps_intros)
  qed
  then show ?thesis
    unfolding group_param_def
    by (auto simp: keeps_def bindS_askS eff_apply split: prod.splits sum.splits if_splits)
qed

lemma lease_entry:
  "snd (group_param UV4 ext createGlobalDhcp4ConfigParser ''subnet4'' (''lease-database'', e) s) =
     s\<lparr>cs_lmgr := (case DbAccessParser_build e of Inl _ \<Rightarrow> cs_lmgr s | Inr values \<Rightarrow> snd (DbAccessParser_commit values (cs_lmgr s)))\<rparr>"
  by (auto simp: group_param_def independent_param_def createGlobalDhcp4ConfigParser_def eval_basic split: sum.splits prod.splits)

lemma leases_after_entries:
  assumes "''lease-database'' \<notin> fst ` set (front @ rest)"
    and "mapS (group_param UV4 ext createGlobalDhcp4ConfigParser ''subnet4'') (front @ (''lease-database'', e) # rest) s = (r, t)"
  shows "cs_lmgr t = (case fst (mapS (group_param UV4 ext createGlobalDhcp4ConfigParser ''subnet4'') front s) of Inl _ \<Rightarrow> cs_lmgr s
    | Inr _ \<Rightarrow> (case DbAccessParser_build e of Inl _ \<Rightarrow> cs_lmgr s | Inr values \<Rightarrow> snd (DbAccessParser_commit values (cs_lmgr s))))"
  using assms
proof (induction front arbitrary: s r)
  case Nil
  let ?g = "group_param UV4 ext createGlobalDhcp4ConfigParser ''subnet4''"
  obtain x u where u: "?g (''lease-database'', e) s = (x, u)" by fastforce
  have kept: "keeps (leases_are L) (mapS ?g rest)" for L
    using Nil.prems(1) by (intro keeps_intros keeps_leases_group) (simp, metis image_eqI)
  have "leases_are (cs_lmgr u) w" if "mapS ?g rest u = (z, w)" for z w
    by (rule keepsD [OF kept _ that]) simp
  then have "cs_lmgr t = cs_lmgr u"
    using Nil.prems(2) u by (auto simp: bindS_def eff_apply split: prod.splits sum.splits)
  then show ?case using lease_entry [of ext e s] u by (simp add: eff_apply split: sum.splits)
next
  case (Cons p front)
  let ?g = "group_param UV4 ext createGlobalDhcp4ConfigParser ''subnet4''"
  obtain x u where u: "?g p s = (x, u)" by fastforce
  have same: "cs_lmgr u = cs_lmgr s"
    using keepsD [OF keeps_leases_group [of p "cs_lmgr s" UV4 ext "''subnet4''"] _ u] Cons.prems(1) by auto
  show ?case
  proof (cases x)
    case (Inl err)
    then show ?thesis using Cons.prems(2) u same by (auto simp: bindS_def)
  next
    case (Inr y)
    then obtain r' where "mapS ?g (front @ (''lease-database'', e) # rest) u = (r', t)"
      using Cons.prems(2) u by (auto simp: bindS_def eff_apply split: prod.splits sum.splits)
    from Cons.IH [OF _ this] Cons.prems(1) show ?thesis
      using u Inr same by (auto simp: bindS_def eff_apply split: prod.splits sum.splits)
  qed
qed

lemma lease_db_after_run:
  assumes "run_config parse Subnets4ListConfigParser_commit s = (r, t)" "\<And>r s'. parse s = (r, s') \<Longrightarrow> cs_lmgr s' = L"
  shows "cs_lmgr t = L"
  using assms by (auto simp: run_config_def rollback_def Subnets4_commit eff_apply split: prod.splits sum.splits if_splits option.splits)

lemma leases_after_parsing:
  assumes "mapS (group_param UV4 ext createGlobalDhcp4ConfigParser ''subnet4'') c s = (q, u)" "leases_are L u"
    and "parse_config UV4 ext createGlobalDhcp4ConfigParser ''subnet4'' (Subnets4ListConfigParser_build ext) (EMap c) s = (r, t)"
  shows "cs_lmgr t = L"
proof -
  let ?tail = "thenS (case map_of c ''option-data'' of None \<Rightarrow> retS () | Some e \<Rightarrow> global_options UV4 ext e)
     (case map_of c ''subnet4'' of None \<Rightarrow> retS None
      | Some e \<Rightarrow> bindS (Subnets4ListConfigParser_build ext e) (\<lambda>subnets. retS (Some subnets)))"
  have "keeps (leases_are L) (global_options UV4 ext e)" for e
    unfolding global_options_def by (intro keeps_intros) simp
  then have tail: "keeps (leases_are L) ?tail" by (intro keeps_intros keeps_leases_subnets)
  have "thenS (mapS (group_param UV4 ext createGlobalDhcp4ConfigParser ''subnet4'') c) ?tail s = (r, t)"
    using assms(3) by (simp add: parse_config_def bindS_def eff_apply)
  then show ?thesis
  proof (cases rule: bindS_cases)
    case (throws e)
    then show ?thesis using assms(1,2) by simp
  next
    case (returns x s')
    then show ?thesis using assms(1,2) keepsD [OF tail _ returns(2)] by simp
  qed
qed

text \<open>C37. What a run of a DHCPv4 configuration with an entry \<^verbatim>\<open>lease-database\<close> does to the leases, exactly. If the entries
  that sort before it can be parsed and it has itself a known type, the database is closed and the leases
  the server has given out are gone, whether or not the rest of the configuration is accepted: with the type \<open>memfile\<close> there is an
  empty database afterwards and otherwise none (this build has no MySQL). The rollback does not bring the old one back. Only
  an error in an entry before it, or in its own fields, leaves the leases alone.\<close>

theorem leases_dropped:
  assumes "''lease-database'' \<notin> fst ` set (front @ rest)"
    and "configureDhcp4Server ext (Some (EMap (front @ (''lease-database'', e) # rest))) s = (r, t)"
  shows "cs_lmgr t =
    (case (fst (mapS (group_param UV4 ext createGlobalDhcp4ConfigParser ''subnet4'') front s), DbAccessParser_build e) of
       (Inr _, Inr values) \<Rightarrow>
         (case LeaseMgrFactory_parse (getDbAccessString values) of
            Inl _ \<Rightarrow> None
          | Inr parameters \<Rightarrow> if parameters ''type'' = Some ''memfile'' then Some mk_Memfile else None)
     | _ \<Rightarrow> cs_lmgr s)" (is "_ = ?new")
proof -
  let ?c = "front @ (''lease-database'', e) # rest"
  let ?g = "group_param UV4 ext createGlobalDhcp4ConfigParser ''subnet4''"
  obtain q u where u: "mapS ?g ?c s = (q, u)" by fastforce
  have commit: "snd (DbAccessParser_commit vs lm) = (case LeaseMgrFactory_parse (getDbAccessString vs) of Inl _ \<Rightarrow> None
      | Inr parameters \<Rightarrow> if parameters ''type'' = Some ''memfile'' then Some mk_Memfile else None)" for vs lm
    by (auto simp: DbAccessParser_commit_def LeaseMgrFactory_destroy_def LeaseMgrFactory_create_def bindS_def eff_apply split: sum.splits option.splits)
  have new: "leases_are ?new u"
    using leases_after_entries [OF assms(1) u] by (simp add: commit split: sum.splits)
  from assms(2) show ?thesis
    unfolding configureDhcp4Server_def option.case
    by (rule lease_db_after_run) (rule leases_after_parsing [OF u new])
qed

theorem leases_dropped_witness:
  "\<exists>db t. mem_addLease4 example_lease4 mk_Memfile = (Inr True, db) \<and> leases4 db (l_addr example_lease4) = Some example_lease4 \<and>
     configureDhcp4Server config_ext (Some (EMap [(''interface'', EList [EString ''all'']), (''lease-database'', memfile_entry), (''subnet4'', ENull)]))
       (state_a\<lparr>cs_lmgr := Some db\<rparr>) = (Inr 1, t) \<and> cs_lmgr t = Some mk_Memfile"
proof -
  let ?all = "(''interface'', EList [EString ''all''])"
  obtain db where db: "mem_addLease4 example_lease4 mk_Memfile = (Inr True, db)"
    "leases4 db = (leases4 mk_Memfile)(l_addr example_lease4 \<mapsto> example_lease4)"
    using mem_addLease4_ok [of mk_Memfile example_lease4 "ClientId [1, 2, 3]"] indexed_mk_Memfile(1) by auto
  let ?s = "state_a\<lparr>cs_lmgr := Some db\<rparr>"
  have "\<exists>t. configureDhcp4Server config_ext (Some (EMap ([?all] @ (''lease-database'', memfile_entry) # [(''subnet4'', ENull)]))) ?s = (Inr 1, t)"
    by (simp add: configureDhcp4Server_def createGlobalDhcp4ConfigParser_def eval_config Subnets4ListConfigParser_build_def
        InterfaceListConfigParser_build_def state_a_def)
  then obtain t where t: "configureDhcp4Server config_ext (Some (EMap ([?all] @ (''lease-database'', memfile_entry) # [(''subnet4'', ENull)]))) ?s = (Inr 1, t)" ..
  have "fst (mapS (group_param UV4 config_ext createGlobalDhcp4ConfigParser ''subnet4'') [?all] ?s) = Inr [()]"
    by (simp add: createGlobalDhcp4ConfigParser_def eval_config InterfaceListConfigParser_build_def)
  with leases_dropped [OF _ t] have "cs_lmgr t = Some mk_Memfile" by (simp add: eval_leases)
  with db t show ?thesis by auto
qed

section \<open>Options that encapsulate options\<close>

text \<open>An option \<open>outer\<close> that encapsulates the space of the option \<open>inner\<close>, both without data.\<close>

definition outer_def :: "u16 \<Rightarrow> OptionDefinition" where
  "outer_def code = mk_OptionDefinition_encap ''outer'' code OPT_EMPTY_TYPE ''sub''"

definition inner_def :: "string \<Rightarrow> OptionDefinition" where
  "inner_def encapsulates = mk_OptionDefinition_encap ''inner'' 2 OPT_EMPTY_TYPE encapsulates"

abbreviation empty_object :: "u16 \<Rightarrow> obj" where
  "empty_object t \<equiv> \<lparr>ob_option = Opt UV4 t [] PGeneric [], ob_children = []\<rparr>"

lemma eval_texts:
  "StringParser_build (EString ''outer'') = ''outer''" "StringParser_build (EString ''inner'') = ''inner''"
  "StringParser_build (EString ''isc'') = ''isc''" "StringParser_build (EString ''sub'') = ''sub''"
  "StringParser_build (EString ''dhcp4'') = ''dhcp4''" "StringParser_build (EString ''empty'') = ''empty''"
  "StringParser_build (EString []) = []"
  by (simp_all add: StringParser_build_def erase_all_def json_char_def)

lemma eval_names: "validateName ''isc''" "validateName ''sub''" "validateName ''dhcp4''" "isStandardOption UV4 222 = False"
  by (simp_all add: validateName_def is_name_char_def in_char_range_def isStandardOption_def)

lemmas eval_params = put_string_def put_uint32_def put_boolean_def eval_texts eval_names eval_uint32 BooleanParser_build_def
  no_values_def setParam_def getParam_def result_simps outer_def_def inner_def_def mk_OptionDefinition_encap_def
  mk_OptionDefinition_def

lemmas eval_def_entry = OptionDefParser_build_def option_def_entry_def option_def_param_def createOptionDef_def getDataType_def
  data_types_def tokens.simps validate_def is_name_char_def in_char_range_def

lemma eval_outer_def:
  "OptionDefParser_build UV4 config_ext storage (option_def_entry 1 ''outer'' ''isc'' ''empty'' ''sub'') =
     (if defs_with_code (sp_getItems ''isc'' storage) 1 \<noteq> [] then Inl DhcpConfigError else Inr (''isc'', outer_def 1))"
  "OptionDefParser_build UV4 config_ext storage (option_def_entry 222 ''outer'' ''dhcp4'' ''empty'' ''sub'') =
     (if defs_with_code (sp_getItems ''dhcp4'' storage) 222 \<noteq> [] then Inl DhcpConfigError else Inr (''dhcp4'', outer_def 222))"
  by (simp_all add: eval_def_entry eval_params)

lemma eval_inner_def:
  "OptionDefParser_build UV4 config_ext storage (option_def_entry 2 ''inner'' ''sub'' ''empty'' []) =
     (if defs_with_code (sp_getItems ''sub'' storage) 2 \<noteq> [] then Inl DhcpConfigError else Inr (''sub'', inner_def []))"
  "OptionDefParser_build UV4 config_ext storage (option_def_entry 2 ''inner'' ''sub'' ''empty'' ''dhcp4'') =
     (if defs_with_code (sp_getItems ''sub'' storage) 2 \<noteq> [] then Inl DhcpConfigError else Inr (''sub'', inner_def ''dhcp4''))"
  by (simp_all add: eval_def_entry eval_params)

lemma eval_spaces:
  "sp_getItems k [] = []" "sp_addItem x k [] = [(k, [x])]" "sp_getItems k ((k, xs) # sp) = xs"
  "k' \<noteq> k \<Longrightarrow> sp_getItems k ((k', xs) # sp) = sp_getItems k sp"
  "sp_addItem x ''sub'' [(''isc'', xs)] = [(''isc'', xs), (''sub'', [x])]"
  "sp_addItem x ''sub'' [(''dhcp4'', xs)] = [(''dhcp4'', xs), (''sub'', [x])]"
  by (simp_all add: sp_getItems_def sp_addItem_def)

lemmas eval_option_entry = OptionDataParser_build_def option_entry_def option_data_param_def createOption_def max_code_def
  find_option_def_def own_space_def other_space_def option_from_data_def decodeHex_def bytes_of_def getOptionDefs_def
  initStdOptionDefs4_eq optionFactory.simps mk_Option_empty_def new_obj_def catch_all_def decode16.simps

lemma eval_outer_option:
  "option_def_intermediate s = (''isc'', [outer_def 1]) # sp \<Longrightarrow>
   OptionDataParser_build UV4 config_ext (option_entry 1 ''outer'' ''isc'' []) s =
     (Inr (''isc'', length (cs_heap s)), s\<lparr>cs_heap := cs_heap s @ [empty_object 1]\<rparr>)"
  "option_def_intermediate s = (''dhcp4'', [outer_def 222]) # sp \<Longrightarrow>
   OptionDataParser_build UV4 config_ext (option_entry 222 ''outer'' ''dhcp4'' []) s =
     (Inr (''dhcp4'', length (cs_heap s)), s\<lparr>cs_heap := cs_heap s @ [empty_object 222]\<rparr>)"
  by (simp_all add: eval_option_entry eval_params eval_spaces eval_basic)

lemma eval_inner_option:
  "option_def_intermediate s = [(k, ds), (''sub'', [inner_def encapsulates])] \<Longrightarrow> k \<noteq> ''sub'' \<Longrightarrow>
   OptionDataParser_build UV4 config_ext (option_entry 2 ''inner'' ''sub'' []) s =
     (Inr (''sub'', length (cs_heap s)), s\<lparr>cs_heap := cs_heap s @ [empty_object 2]\<rparr>)"
  by (simp add: eval_option_entry eval_params eval_spaces eval_basic)

definition nested_config :: "Element list \<Rightarrow> (string \<times> Element) list" where
  "nested_config = config4 [option_entry 1 ''outer'' ''isc'' [], option_entry 2 ''inner'' ''sub'' []]
     [option_def_entry 1 ''outer'' ''isc'' ''empty'' ''sub'', option_def_entry 2 ''inner'' ''sub'' ''empty'' []]"

definition loop_config :: "Element list \<Rightarrow> (string \<times> Element) list" where
  "loop_config = config4 [option_entry 222 ''outer'' ''dhcp4'' [], option_entry 2 ''inner'' ''sub'' []]
     [option_def_entry 222 ''outer'' ''dhcp4'' ''empty'' ''sub'', option_def_entry 2 ''inner'' ''sub'' ''empty'' ''dhcp4'']"

lemmas eval_run = configureDhcp4Server_def createGlobalDhcp4ConfigParser_def eval_config config4_def
  OptionDefListParser_entry_def eval_outer_def eval_inner_def eval_spaces defs_with_code_def OptionDefParser_commit_def eval_names
  addOptionDef_def cfg_getOptionDef_def cfg_getOptionDefs_def getItems_def addItem_def eval_outer_option eval_inner_option
  OptionDataParser_commit_def Subnets4ListConfigParser_build_def eval_subnet_a eval_subnet_b timers_set_def Subnets4_commit
  rollback_def

lemmas eval_nesting = add_own_option_def add_global_option_def appendSubOptions_def encapsulated_by_def own_space_def
  add_suboption_def obj_addOption_def subnet_addOption_def outer_def_def inner_def_def mk_OptionDefinition_encap_def
  mk_OptionDefinition_def

text \<open>Option definitions survive the refusal of the configuration they came with: the second entry makes the
  configuration fail, the parsers' own storage is rolled back, but the configuration manager keeps the
  definition, although it had none before.\<close>

theorem definitions_kept:
  "\<exists>t. configureDhcp4Server config_ext (Some (EMap
         [(''option-def'', EList [option_def_entry 1 ''outer'' ''isc'' ''empty'' ''sub'']), (''subnet4'', ENull)]))
         initial_state = (Inr 1, t) \<and>
     option_def_intermediate t = [] \<and> cfg_getOptionDefs ''isc'' (cs_cfg initial_state) = [] \<and>
     cfg_getOptionDefs ''isc'' (cs_cfg t) = [outer_def 1]"
  by (simp add: eval_run)

text \<open>A global option that encapsulates a space with an option in it can be used by one DHCPv4 subnet only. Either
  subnet alone is accepted; with both, the sub-option is added to the same option object a second time, which
  \<^verbatim>\<open>Option::addOption\<close> refuses, and the whole configuration is rejected.\<close>

theorem shared_options_refused:
  "fst (configureDhcp4Server config_ext (Some (EMap (nested_config [entry_a]))) initial_state) = Inr 0 \<and>
   fst (configureDhcp4Server config_ext (Some (EMap (nested_config [entry_b]))) initial_state) = Inr 0 \<and>
   fst (configureDhcp4Server config_ext (Some (EMap (nested_config [entry_a, entry_b]))) initial_state) = Inr 1"
  by (intro conjI) (simp_all add: nested_config_def eval_run eval_nesting)

text \<open>A refused configuration may add sub-options to an option that the server uses. The first configuration gives the
  subnet the global option \<open>outer\<close>, which encapsulates nothing; the second defines \<open>outer\<close> as encapsulating the
  space of the global option \<open>inner\<close>, builds a subnet with it and then fails. The option of the first subnet has a sub-option
  afterwards.\<close>

definition flat_config :: "(string \<times> Element) list" where
  "flat_config = config4 [option_entry 1 ''outer'' ''isc'' [], option_entry 2 ''inner'' ''sub'' []]
     [option_def_entry 1 ''outer'' ''isc'' ''empty'' [], option_def_entry 2 ''inner'' ''sub'' ''empty'' []] [entry_a]"

definition spoiled_config :: "(string \<times> Element) list" where
  "spoiled_config =
     [(''option-def'', EList [option_def_entry 1 ''outer'' ''isc'' ''empty'' ''sub'', option_def_entry 2 ''inner'' ''sub'' ''empty'' []]),
      (''subnet4'', EList [entry_b, ENull])]"

lemma eval_flat_def:
  "OptionDefParser_build UV4 config_ext storage (option_def_entry 1 ''outer'' ''isc'' ''empty'' []) =
     (if defs_with_code (sp_getItems ''isc'' storage) 1 \<noteq> [] then Inl DhcpConfigError
      else Inr (''isc'', mk_OptionDefinition_encap ''outer'' 1 OPT_EMPTY_TYPE []))"
  by (simp add: eval_def_entry eval_params)

lemma eval_flat_option:
  "option_def_intermediate s = (''isc'', [mk_OptionDefinition_encap ''outer'' 1 OPT_EMPTY_TYPE []]) # sp \<Longrightarrow>
   OptionDataParser_build UV4 config_ext (option_entry 1 ''outer'' ''isc'' []) s =
     (Inr (''isc'', length (cs_heap s)), s\<lparr>cs_heap := cs_heap s @ [empty_object 1]\<rparr>)"
  by (simp add: eval_option_entry eval_params eval_spaces eval_basic)

lemma eval_null_entry: "Subnet4ConfigParser_build ext ENull s = (Inl TypeError, s)"
  by (simp add: Subnet4ConfigParser_build_def build_subnet_values_def eval_basic)

lemma refused_adds_suboption:
  "\<exists>s t. configureDhcp4Server config_ext (Some (EMap flat_config)) initial_state = (Inr 0, s) \<and>
     configureDhcp4Server config_ext (Some (EMap spoiled_config)) s = (Inr 1, t) \<and>
     cs_options4 s = [[(''isc'', [0]), (''sub'', [1])]] \<and> cs_options4 t = cs_options4 s \<and>
     ob_children (cs_heap s ! 0) = [] \<and> ob_children (cs_heap t ! 0) = [(2, Shared 1)]"
  by (simp add: flat_config_def spoiled_config_def eval_flat_def eval_flat_option eval_run eval_nesting eval_null_entry)

lemma load_opt_loop:
  assumes "ob_children (h ! r) = [(t, Shared r')]" "ob_children (h ! r') = [(t', Shared r)]"
  shows "load_opt n h r = None \<and> load_opt n h r' = None"
  by (induction n) (simp_all add: assms Let_def)

text \<open>Spaces that encapsulate each other are accepted, although a definition may not encapsulate its own space: in this
  configuration the two option objects hold each other. There is no finite option tree for the DHCPv4 option 222 of the
  subnet, at whatever depth the pointers are followed.\<close>

theorem cyclic_options_accepted:
  "\<exists>t. configureDhcp4Server config_ext (Some (EMap (loop_config [entry_a]))) initial_state = (Inr 0, t) \<and>
     cs_options4 t = [[(''dhcp4'', [0]), (''sub'', [1])]] \<and> obj_type (cs_heap t) 0 = 222 \<and>
     (\<forall>fuel. load_opt fuel (cs_heap t) 0 = None)"
  using load_opt_loop [of _ 0 2 1 222] by (simp add: loop_config_def eval_run eval_nesting)

end
