(* ===== verification/Cc_Examples.thy ===== *)
theory Cc_Examples
  imports Dhcp_Specs Config_Examples
begin

text \<open>Sessions of the DHCPv4 server with its own specification: an update that is accepted, one that is refused, and a
  session from its establishment on.\<close>

section \<open>An accepted update\<close>

definition full4 :: "Element list \<Rightarrow> (string \<times> Element) list" where
  "full4 subnets = (''interface'', EList [EString ''all'']) # config4 [] [] subnets"

lemma eval_full4: "configureDhcp4Server config_ext (Some (EMap (full4 [entry_a]))) initial_state = (Inr 0, state_a)"
  by (simp add: eval_config configureDhcp4Server_def createGlobalDhcp4ConfigParser_def full4_def config4_def InterfaceListConfigParser_build_def
      Subnets4ListConfigParser_build_def eval_subnet_a timers_set_def Subnets4_commit state_a_def fun_upd_twist)

definition subnet_update :: "(string \<times> Element) list" where
  "subnet_update = [(''subnet4'', EList [entry_a])]"

definition fresh4 :: session where
  "fresh4 = mk_session dhcp4_spec ''Dhcp4'' initial_state"

definition updated4 :: session where
  "updated4 = (setLocalConfig (EMap subnet_update) fresh4)\<lparr>ss_server := state_a\<rparr>"

lemma eval_update:
  "validateConfig (\<lambda>_ _. False) dhcp4_spec (EMap subnet_update) False = Inr (True, [])"
  "removeIdentical (EMap subnet_update) (Some (EMap [])) = Inr (EMap subnet_update)"
  "bindE (getFullConfig \<lparr>cd_spec = dhcp4_spec, cd_config = EMap []\<rparr>)
     (\<lambda>full. config_values (fold (merge_entry Some) subnet_update full)) = Inr (full4 [entry_a])"
  "el_merge (EMap []) (EMap subnet_update) = Inr (EMap subnet_update)"
  "full_config \<lparr>cd_spec = dhcp4_spec, cd_config = EMap subnet_update\<rparr> = Inr (full4 [entry_a])"
  by code_simp+

lemma fresh4_ok: "session_ok dhcp4_items fresh4"
  using dhcp4_module cfg_inv_initial by (simp add: session_ok_def fresh4_def mk_session_def)

definition describe4 :: "nat \<Rightarrow> string" where
  "describe4 n = (if n = 0 then ''Configuration committed.'' else ''Configuration parsing failed'')"

lemma update_accepted:
  "handleConfigUpdate (\<lambda>_ _. False) (Some (dhcp4ConfigHandler config_ext describe4)) (EMap subnet_update) fresh4 =
     (Inr (createAnswer 0 (describe4 0)), updated4)"
proof -
  obtain full where full: "getFullConfig \<lparr>cd_spec = dhcp4_spec, cd_config = EMap []\<rparr> = Inr full"
    "config_values (fold (merge_entry Some) subnet_update full) = Inr (full4 [entry_a])"
    using eval_update(3) by (auto simp: bindE_Inr_iff)
  have "configHandler (configureDhcp4Server config_ext) describe4 (EMap subnet_update) fresh4 =
      (Inr (createAnswer 0 (describe4 0)), fresh4\<lparr>ss_server := state_a\<rparr>)"
    using full eval_full4
    by (simp add: configHandler_def bindS_def eff_apply on_server_def zoomS_def fresh4_def mk_session_def)
  then show ?thesis
    using eval_update(1,2,4) parse_created [of 0 "describe4 0"]
    by (simp add: handleConfigUpdate_def dhcp4ConfigHandler_def bindS_def eff_apply updated4_def setLocalConfig_def fresh4_def mk_session_def)
qed

theorem config_update4_witness:
  "\<exists>m' c. cd_config (ss_data updated4) = EMap m' \<and> map_of m' ''subnet4'' = Some (EList [entry_a]) \<and>
     bindE (getFullConfig (ss_data updated4)) config_values = Inr c \<and>
     configureDhcp4Server config_ext (Some (EMap c)) (ss_server fresh4) = (Inr 0, ss_server updated4)"
proof -
  have "ordered (EMap subnet_update)" "map_of subnet_update ''version'' = None" by code_simp+
  with config_update4 [OF fresh4_ok _ _ _ update_accepted, of "[]"]
  show ?thesis by (auto simp: fresh4_def mk_session_def createAnswer_def with_version_def subnet_update_def)
qed

section \<open>A refused update\<close>

definition bad_update :: Element where
  "bad_update = createCommand ''config_update'' (Some (EMap [(''renew-timer'', EString ''soon'')]))"

definition routing4 :: Element where
  "routing4 = EMap [(''group'', EString ''Dhcp4'')]"

lemma bad_update_refused:
  "checkCommand (\<lambda>_ _. False) (Some (dhcp4ConfigHandler config_ext describe4)) (Some commandHandler) (\<lambda>_ _. Inr ()) routing4 bad_update updated4 =
     (Inr (Some (createAnswer 2 ''Error in config validation: Type mismatch'')), updated4)"
proof -
  have "validateConfig (\<lambda>_ _. False) dhcp4_spec (EMap [(''renew-timer'', EString ''soon'')]) False = Inr (False, [''Type mismatch''])"
    by code_simp
  then show ?thesis
    by (simp add: checkCommand_def checkAsyncRecv_def catch_std_def checkConfigUpdateCommand_def handleConfigUpdate_def bindS_def eff_apply bad_update_def
        createCommand_def parseCommand_def contains_def routing4_def get_string_def el_get_def deref_def updated4_def setLocalConfig_def
        fresh4_def mk_session_def)
qed

section \<open>A session from the start\<close>

definition spec_file4 :: string where
  "spec_file4 = str (EMap [(''module_spec'', dhcp4_spec)])"

definition stored4 :: Element where
  "stored4 = EMap [(''result'', EList [EInt 0, EMap subnet_update])]"

lemma spec_file4_read: "readModuleSpecification (\<lambda>_. None) (\<lambda>_ _. False) (Some spec_file4) = Inr dhcp4_spec"
proof -
  let ?e = "EMap [(''module_spec'', dhcp4_spec)]"
  have "printable (\<lambda>_. None) ?e" by code_simp
  from element_reads [OF this] obtain r where "fromJSON (\<lambda>_. None) (2 * length spec_file4 + 1) spec_file4 = Inr (?e, r)"
    using token_ends(1) unfolding reads_def spec_file4_def by (metis append_Nil2 less_add_one)
  then show ?thesis
    using specs_checked(1)
    by (simp add: readModuleSpecification_def moduleSpecFromStream_def mk_ModuleSpec_def contains_def el_get_def deref_def)
qed

lemma established4:
  "establishSession (configureDhcp4Server config_ext) (\<lambda>_. None) (\<lambda>_ _. False) (Some spec_file4) (createAnswer 0 []) stored4 initial_state =
     Inr updated4"
proof -
  have name: "getModuleName dhcp4_spec = Inr ''Dhcp4''" by code_simp
  have stored: "parseAnswer (Some stored4) = Inr (0, Some (EMap subnet_update))" by code_simp
  let ?s = "setLocalConfig (EMap subnet_update) fresh4"
  have "handleConfigUpdate (\<lambda>_ _. False) (Some stubConfigHandler) (EMap subnet_update) fresh4 =
      (Inr (createAnswer 0 ''Configuration accepted.''), ?s)"
    using eval_update(1,2,4) parse_created [of 0 "''Configuration accepted.''"]
    by (simp add: handleConfigUpdate_def stubConfigHandler_def bindS_def eff_apply setLocalConfig_def fresh4_def mk_session_def)
  then have init: "init_session (\<lambda>_. None) (\<lambda>_ _. False) (Some spec_file4) (createAnswer 0 []) stored4 initial_state = Inr ?s"
    using parse_created [of 0 "[]"] by (simp add: init_session_def spec_file4_read name stored deref_def fresh4_def)
  have data: "ss_data ?s = \<lparr>cd_spec = dhcp4_spec, cd_config = EMap subnet_update\<rparr>" "ss_server ?s = initial_state"
    by (simp_all add: setLocalConfig_def fresh4_def mk_session_def)
  obtain full where "getFullConfig (ss_data ?s) = Inr full" "config_values full = Inr (full4 [entry_a])"
    using eval_update(5) by (auto simp: full_config_def data bindE_Inr_iff)
  then show ?thesis
    by (simp add: establishSession_def init on_server_def zoomS_def data(2) eval_full4 updated4_def)
qed

theorem session4_in_sync_witness:
  "session_run (\<lambda>_ _. False) (dhcp4ConfigHandler config_ext describe4) (\<lambda>_ _. Inr ()) updated4 updated4 \<and>
   session_ok dhcp4_items updated4 \<and> in_sync (configureDhcp4Server config_ext) updated4"
proof -
  have "ordered bad_update" by code_simp
  from session_run.message [OF session_run.start this bad_update_refused]
  have run: "session_run (\<lambda>_ _. False) (dhcp4ConfigHandler config_ext describe4) (\<lambda>_ _. Inr ()) updated4 updated4" .
  have "ordered stored4" by code_simp
  from session4_in_sync [OF established4 spec_file4_read dhcp4_module this cfg_inv_initial run]
  have "session_ok dhcp4_items updated4 \<and> (in_sync (configureDhcp4Server config_ext) updated4 \<or>
      (\<exists>c w. full_config (ss_data updated4) = Inr c \<and> configureDhcp4Server config_ext (Some (EMap c)) initial_state = (Inr 1, w)))"
    by blast
  moreover have "full_config (ss_data updated4) = Inr (full4 [entry_a])"
    using eval_update(5) by (simp add: updated4_def setLocalConfig_def fresh4_def mk_session_def)
  ultimately show ?thesis using run eval_full4 by auto
qed

end
