(* ===== verification/Mysql_Api.thy ===== *)
theory Mysql_Api
  imports Effects "HOL-Library.Multiset"
begin

text \<open>
  What the MySQL lease database is written on: the schema of \<^verbatim>\<open>src/lib/dhcpsrv/dhcpdb_create.mysql\<close>,
  the SQL statements of \<^verbatim>\<open>src/lib/dhcpsrv/mysql_lease_mgr.cc\<close> with their meaning on tables, and the
  interface of the MySQL client library. The library and the server are not part of the program: the functions
  the program calls are the fields of a \<open>MYSQL\<close> record over a state \<open>'d\<close> of the connection, and the locale
  \<open>mysql_client\<close> states what their documentation promises.
\<close>

section \<open>Values\<close>

record MYSQL_TIME =
  mt_year :: u32
  mt_month :: u32
  mt_day :: u32
  mt_hour :: u32
  mt_minute :: u32
  mt_second :: u32
  mt_second_part :: u32
  mt_neg :: bool

text \<open>What a \<^verbatim>\<open>MYSQL_BIND\<close> sends to a statement, or what the library writes through one that receives a column.\<close>

datatype cell = LONG u32 | TINY u8 | BLOB bytes | STRING string | TIMESTAMP MYSQL_TIME | NULL

text \<open>A \<^verbatim>\<open>MYSQL_BIND\<close> that receives a column: its type and, for variable data, the length of its buffer.\<close>

datatype bind_out = OUT_LONG | OUT_TINY | OUT_BLOB nat | OUT_STRING nat | OUT_TIMESTAMP

fun fits_out :: "bind_out \<Rightarrow> cell \<Rightarrow> bool" where
  "fits_out OUT_LONG (LONG _) = True"
| "fits_out OUT_TINY (TINY _) = True"
| "fits_out (OUT_BLOB n) (BLOB b) = (length b \<le> n)"
| "fits_out (OUT_STRING n) (STRING s) = (length s \<le> n)"
| "fits_out OUT_TIMESTAMP (TIMESTAMP _) = True"
| "fits_out _ NULL = True"
| "fits_out _ _ = False"

section \<open>The schema\<close>

datatype col_type = INT_COL | INT_UNSIGNED | TINYINT | TINYINT_UNSIGNED | VARBINARY nat | VARCHAR nat | TIMESTAMP_COL

definition schema_lease4 :: "(string \<times> col_type) list" where
  "schema_lease4 =
     [(''address'', INT_UNSIGNED), (''hwaddr'', VARBINARY 20), (''client_id'', VARBINARY 128),
      (''valid_lifetime'', INT_UNSIGNED), (''expire'', TIMESTAMP_COL), (''subnet_id'', INT_UNSIGNED)]"

definition schema_lease6 :: "(string \<times> col_type) list" where
  "schema_lease6 =
     [(''address'', VARCHAR 39), (''duid'', VARBINARY 128), (''valid_lifetime'', INT_UNSIGNED),
      (''expire'', TIMESTAMP_COL), (''subnet_id'', INT_UNSIGNED), (''pref_lifetime'', INT_UNSIGNED),
      (''lease_type'', TINYINT), (''iaid'', INT_UNSIGNED), (''prefix_len'', TINYINT_UNSIGNED)]"

definition schema_version :: "(string \<times> col_type) list" where
  "schema_version = [(''version'', INT_COL), (''minor'', INT_COL)]"

definition column_type :: "string \<Rightarrow> string \<Rightarrow> col_type option" where
  "column_type table column =
     (if table = ''lease4'' then map_of schema_lease4 column
      else if table = ''lease6'' then map_of schema_lease6 column
      else if table = ''schema_version'' then map_of schema_version column
      else None)"

definition primary_key :: "string \<Rightarrow> string" where
  "primary_key table = (if table = ''schema_version'' then ''version'' else ''address'')"

text \<open>
  A value has the type of a column, and it is in the range of the column. In the mode
  \<^verbatim>\<open>STRICT_ALL_TABLES\<close> a value out of range is refused. Which times a \<^verbatim>\<open>TIMESTAMP\<close> column can
  hold (1970 to January 2038 in UTC) depends on the time zone of the session: \<open>ts_ok\<close>.
\<close>

fun has_type :: "col_type \<Rightarrow> cell \<Rightarrow> bool" where
  "has_type INT_COL (LONG _) = True"
| "has_type INT_UNSIGNED (LONG _) = True"
| "has_type TINYINT (TINY _) = True"
| "has_type TINYINT_UNSIGNED (TINY _) = True"
| "has_type (VARBINARY _) (BLOB _) = True"
| "has_type (VARBINARY _) NULL = True"
| "has_type (VARCHAR _) (STRING _) = True"
| "has_type TIMESTAMP_COL (TIMESTAMP _) = True"
| "has_type _ _ = False"

fun in_range :: "(MYSQL_TIME \<Rightarrow> bool) \<Rightarrow> col_type \<Rightarrow> cell \<Rightarrow> bool" where
  "in_range ts_ok INT_COL (LONG v) = (uint v < 2 ^ 31)"
| "in_range ts_ok TINYINT (TINY v) = (uint v < 2 ^ 7)"
| "in_range ts_ok (VARBINARY n) (BLOB b) = (length b \<le> n)"
| "in_range ts_ok (VARCHAR n) (STRING s) = (length s \<le> n)"
| "in_range ts_ok TIMESTAMP_COL (TIMESTAMP t) = ts_ok t"
| "in_range ts_ok _ _ = True"

definition column_has_type :: "string \<Rightarrow> string \<Rightarrow> cell \<Rightarrow> bool" where
  "column_has_type table c v = (case column_type table c of None \<Rightarrow> False | Some ty \<Rightarrow> has_type ty v)"

definition column_in_range :: "(MYSQL_TIME \<Rightarrow> bool) \<Rightarrow> string \<Rightarrow> string \<Rightarrow> cell \<Rightarrow> bool" where
  "column_in_range ts_ok table c v = (case column_type table c of None \<Rightarrow> False | Some ty \<Rightarrow> in_range ts_ok ty v)"

section \<open>Statements\<close>

text \<open>\<^verbatim>\<open>DELETE\<close> (table, where), \<^verbatim>\<open>SELECT\<close> (columns, table, where), \<^verbatim>\<open>INSERT\<close> (table, columns) and
  \<^verbatim>\<open>UPDATE\<close> (table, columns, where), where every value is a placeholder.\<close>

datatype sql =
    SqlDelete string "string list"
  | SqlSelect "string list" string "string list"
  | SqlInsert string "string list"
  | SqlUpdate string "string list" "string list"

fun join :: "string \<Rightarrow> string list \<Rightarrow> string" where
  "join sep [] = []"
| "join sep [x] = x"
| "join sep (x # xs) = x @ sep @ join sep xs"

definition where_text :: "string list \<Rightarrow> string" where
  "where_text cs = (if cs = [] then [] else '' WHERE '' @ join '' AND '' (map (\<lambda>c. c @ '' = ?'') cs))"

fun sql_text :: "sql \<Rightarrow> string" where
  "sql_text (SqlDelete t w) = ''DELETE FROM '' @ t @ where_text w"
| "sql_text (SqlSelect cs t w) = ''SELECT '' @ join '', '' cs @ '' FROM '' @ t @ where_text w"
| "sql_text (SqlInsert t cs) =
     ''INSERT INTO '' @ t @ ''('' @ join '', '' cs @ '') VALUES ('' @ join '', '' (map (\<lambda>_. ''?'') cs) @ '')''"
| "sql_text (SqlUpdate t cs w) =
     ''UPDATE '' @ t @ '' SET '' @ join '', '' (map (\<lambda>c. c @ '' = ?'') cs) @ where_text w"

datatype StatementIndex =
    DELETE_LEASE4 | DELETE_LEASE6 | GET_LEASE4_ADDR | GET_LEASE4_CLIENTID | GET_LEASE4_CLIENTID_SUBID
  | GET_LEASE4_HWADDR | GET_LEASE4_HWADDR_SUBID | GET_LEASE6_ADDR | GET_LEASE6_DUID_IAID
  | GET_LEASE6_DUID_IAID_SUBID | GET_VERSION | INSERT_LEASE4 | INSERT_LEASE6 | UPDATE_LEASE4 | UPDATE_LEASE6

fun statement_number :: "StatementIndex \<Rightarrow> nat" where
  "statement_number DELETE_LEASE4 = 0"
| "statement_number DELETE_LEASE6 = 1"
| "statement_number GET_LEASE4_ADDR = 2"
| "statement_number GET_LEASE4_CLIENTID = 3"
| "statement_number GET_LEASE4_CLIENTID_SUBID = 4"
| "statement_number GET_LEASE4_HWADDR = 5"
| "statement_number GET_LEASE4_HWADDR_SUBID = 6"
| "statement_number GET_LEASE6_ADDR = 7"
| "statement_number GET_LEASE6_DUID_IAID = 8"
| "statement_number GET_LEASE6_DUID_IAID_SUBID = 9"
| "statement_number GET_VERSION = 10"
| "statement_number INSERT_LEASE4 = 11"
| "statement_number INSERT_LEASE6 = 12"
| "statement_number UPDATE_LEASE4 = 13"
| "statement_number UPDATE_LEASE6 = 14"

definition NUM_STATEMENTS :: nat where "NUM_STATEMENTS = 15"

definition tagged_statements :: "(StatementIndex \<times> string) list" where
  "tagged_statements =
     [(DELETE_LEASE4, ''DELETE FROM lease4 WHERE address = ?''),
      (DELETE_LEASE6, ''DELETE FROM lease6 WHERE address = ?''),
      (GET_LEASE4_ADDR, ''SELECT address, hwaddr, client_id, valid_lifetime, expire, subnet_id FROM lease4 WHERE address = ?''),
      (GET_LEASE4_CLIENTID, ''SELECT address, hwaddr, client_id, valid_lifetime, expire, subnet_id FROM lease4 WHERE client_id = ?''),
      (GET_LEASE4_CLIENTID_SUBID, ''SELECT address, hwaddr, client_id, valid_lifetime, expire, subnet_id FROM lease4 WHERE client_id = ? AND subnet_id = ?''),
      (GET_LEASE4_HWADDR, ''SELECT address, hwaddr, client_id, valid_lifetime, expire, subnet_id FROM lease4 WHERE hwaddr = ?''),
      (GET_LEASE4_HWADDR_SUBID, ''SELECT address, hwaddr, client_id, valid_lifetime, expire, subnet_id FROM lease4 WHERE hwaddr = ? AND subnet_id = ?''),
      (GET_LEASE6_ADDR, ''SELECT address, duid, valid_lifetime, expire, subnet_id, pref_lifetime, lease_type, iaid, prefix_len FROM lease6 WHERE address = ?''),
      (GET_LEASE6_DUID_IAID, ''SELECT address, duid, valid_lifetime, expire, subnet_id, pref_lifetime, lease_type, iaid, prefix_len FROM lease6 WHERE duid = ? AND iaid = ?''),
      (GET_LEASE6_DUID_IAID_SUBID, ''SELECT address, duid, valid_lifetime, expire, subnet_id, pref_lifetime, lease_type, iaid, prefix_len FROM lease6 WHERE duid = ? AND iaid = ? AND subnet_id = ?''),
      (GET_VERSION, ''SELECT version, minor FROM schema_version''),
      (INSERT_LEASE4, ''INSERT INTO lease4(address, hwaddr, client_id, valid_lifetime, expire, subnet_id) VALUES (?, ?, ?, ?, ?, ?)''),
      (INSERT_LEASE6, ''INSERT INTO lease6(address, duid, valid_lifetime, expire, subnet_id, pref_lifetime, lease_type, iaid, prefix_len) VALUES (?, ?, ?, ?, ?, ?, ?, ?, ?)''),
      (UPDATE_LEASE4, ''UPDATE lease4 SET address = ?, hwaddr = ?, client_id = ?, valid_lifetime = ?, expire = ?, subnet_id = ? WHERE address = ?''),
      (UPDATE_LEASE6, ''UPDATE lease6 SET address = ?, duid = ?, valid_lifetime = ?, expire = ?, subnet_id = ?, pref_lifetime = ?, lease_type = ?, iaid = ?, prefix_len = ? WHERE address = ?'')]"

definition columns4 :: "string list" where
  "columns4 = [''address'', ''hwaddr'', ''client_id'', ''valid_lifetime'', ''expire'', ''subnet_id'']"

definition columns6 :: "string list" where
  "columns6 = [''address'', ''duid'', ''valid_lifetime'', ''expire'', ''subnet_id'', ''pref_lifetime'',
     ''lease_type'', ''iaid'', ''prefix_len'']"

text \<open>The statement that each text is.\<close>

fun sql_of :: "StatementIndex \<Rightarrow> sql" where
  "sql_of DELETE_LEASE4 = SqlDelete ''lease4'' [''address'']"
| "sql_of DELETE_LEASE6 = SqlDelete ''lease6'' [''address'']"
| "sql_of GET_LEASE4_ADDR = SqlSelect columns4 ''lease4'' [''address'']"
| "sql_of GET_LEASE4_CLIENTID = SqlSelect columns4 ''lease4'' [''client_id'']"
| "sql_of GET_LEASE4_CLIENTID_SUBID = SqlSelect columns4 ''lease4'' [''client_id'', ''subnet_id'']"
| "sql_of GET_LEASE4_HWADDR = SqlSelect columns4 ''lease4'' [''hwaddr'']"
| "sql_of GET_LEASE4_HWADDR_SUBID = SqlSelect columns4 ''lease4'' [''hwaddr'', ''subnet_id'']"
| "sql_of GET_LEASE6_ADDR = SqlSelect columns6 ''lease6'' [''address'']"
| "sql_of GET_LEASE6_DUID_IAID = SqlSelect columns6 ''lease6'' [''duid'', ''iaid'']"
| "sql_of GET_LEASE6_DUID_IAID_SUBID = SqlSelect columns6 ''lease6'' [''duid'', ''iaid'', ''subnet_id'']"
| "sql_of GET_VERSION = SqlSelect [''version'', ''minor''] ''schema_version'' []"
| "sql_of INSERT_LEASE4 = SqlInsert ''lease4'' columns4"
| "sql_of INSERT_LEASE6 = SqlInsert ''lease6'' columns6"
| "sql_of UPDATE_LEASE4 = SqlUpdate ''lease4'' columns4 [''address'']"
| "sql_of UPDATE_LEASE6 = SqlUpdate ''lease6'' columns6 [''address'']"

abbreviation all_statements :: "StatementIndex list" where
  "all_statements \<equiv>
     [DELETE_LEASE4, DELETE_LEASE6, GET_LEASE4_ADDR, GET_LEASE4_CLIENTID, GET_LEASE4_CLIENTID_SUBID,
      GET_LEASE4_HWADDR, GET_LEASE4_HWADDR_SUBID, GET_LEASE6_ADDR, GET_LEASE6_DUID_IAID,
      GET_LEASE6_DUID_IAID_SUBID, GET_VERSION, INSERT_LEASE4, INSERT_LEASE6, UPDATE_LEASE4, UPDATE_LEASE6]"

section \<open>The meaning of a statement\<close>

type_synonym row = "string \<Rightarrow> cell"
type_synonym db = "string \<Rightarrow> row list"

text \<open>A comparison with \<^verbatim>\<open>NULL\<close> is never true. The texts compared here are canonical addresses, for which
  the collation of the column is equality.\<close>

definition row_matches :: "string list \<Rightarrow> cell list \<Rightarrow> row \<Rightarrow> bool" where
  "row_matches w ps r \<longleftrightarrow> list_all2 (\<lambda>c p. r c = p \<and> p \<noteq> NULL) w ps"

definition set_columns :: "string list \<Rightarrow> cell list \<Rightarrow> row \<Rightarrow> row" where
  "set_columns cs vs r = (\<lambda>c. case map_of (zip cs vs) c of Some v \<Rightarrow> v | None \<Rightarrow> r c)"

datatype sql_result = Refused | DupEntry | Executed "cell list list" nat db

fun run :: "(MYSQL_TIME \<Rightarrow> bool) \<Rightarrow> sql \<Rightarrow> cell list \<Rightarrow> db \<Rightarrow> sql_result" where
  "run ts_ok (SqlDelete t w) ps T =
     Executed [] (length (filter (row_matches w ps) (T t))) (T(t := filter (\<lambda>r. \<not> row_matches w ps r) (T t)))"
| "run ts_ok (SqlSelect cs t w) ps T =
     (let rows = filter (row_matches w ps) (T t) in Executed (map (\<lambda>r. map r cs) rows) (length rows) T)"
| "run ts_ok (SqlInsert t cs) ps T =
     (if \<not> list_all2 (column_in_range ts_ok t) cs ps then Refused
      else
        let r = set_columns cs ps (\<lambda>_. NULL); key = primary_key t
        in if r key \<in> (\<lambda>r. r key) ` set (T t) then DupEntry else Executed [] 1 (T(t := T t @ [r])))"
| "run ts_ok (SqlUpdate t cs w) ps T =
     (let vs = take (length cs) ps; ws = drop (length cs) ps; found = filter (row_matches w ws) (T t) in
      if found = [] then Executed [] 0 T
      else if \<not> list_all2 (column_in_range ts_ok t) cs vs then Refused
      else
        let rows = map (\<lambda>r. if row_matches w ws r then set_columns cs vs r else r) (T t); key = primary_key t
        in if distinct (map (\<lambda>r. r key) rows) then Executed [] (length found) (T(t := rows)) else DupEntry)"

text \<open>The values bound to a statement have the types of its columns.\<close>

fun well_typed :: "sql \<Rightarrow> cell list \<Rightarrow> bool" where
  "well_typed (SqlDelete t w) ps = list_all2 (column_has_type t) w ps"
| "well_typed (SqlSelect cs t w) ps = list_all2 (column_has_type t) w ps"
| "well_typed (SqlInsert t cs) ps = list_all2 (column_has_type t) cs ps"
| "well_typed (SqlUpdate t cs w) ps = list_all2 (column_has_type t) (cs @ w) ps"

lemma tagged_statements_eq: "tagged_statements = map (\<lambda>i. (i, sql_text (sql_of i))) all_statements"
  by (simp add: tagged_statements_def where_text_def columns4_def columns6_def)

lemma all_statements: "i \<in> set all_statements"
  by (cases i) simp_all

lemma statement_number_less: "statement_number i < NUM_STATEMENTS"
  by (cases i) (simp_all add: NUM_STATEMENTS_def)

lemma statement_number_inj: "statement_number i = statement_number j \<longleftrightarrow> i = j"
  by (cases i; cases j) simp_all

section \<open>The client library\<close>

datatype mysql_option = MYSQL_OPT_RECONNECT bool | MYSQL_INIT_COMMAND string

definition ER_DUP_ENTRY :: int where "ER_DUP_ENTRY = 1062"
definition MYSQL_NO_DATA :: int where "MYSQL_NO_DATA = 100"
definition MYSQL_DATA_TRUNCATED :: int where "MYSQL_DATA_TRUNCATED = 101"
definition CLIENT_FOUND_ROWS :: u32 where "CLIENT_FOUND_ROWS = 2"

text \<open>
  The functions of the library that the program calls. A statement handle is a number, \<open>None\<close> the null pointer.
  \<open>mysql_real_connect\<close> says whether it returned the handle it was given; \<open>mysql_stmt_fetch\<close> gives, with its
  status, the columns of the row it wrote to the bound buffers.
\<close>

record 'd MYSQL =
  mysql_init :: "'d \<Rightarrow> bool \<times> 'd"
  mysql_options :: "mysql_option \<Rightarrow> 'd \<Rightarrow> int \<times> 'd"
  mysql_real_connect :: "string \<Rightarrow> string option \<Rightarrow> string option \<Rightarrow> string \<Rightarrow> u32 \<Rightarrow> 'd \<Rightarrow> bool \<times> 'd"
  mysql_autocommit :: "bool \<Rightarrow> 'd \<Rightarrow> int \<times> 'd"
  mysql_commit :: "'d \<Rightarrow> int \<times> 'd"
  mysql_rollback :: "'d \<Rightarrow> int \<times> 'd"
  mysql_errno :: "'d \<Rightarrow> int"
  mysql_stmt_init :: "'d \<Rightarrow> nat option \<times> 'd"
  mysql_stmt_prepare :: "nat \<Rightarrow> string \<Rightarrow> 'd \<Rightarrow> int \<times> 'd"
  mysql_stmt_close :: "nat \<Rightarrow> 'd \<Rightarrow> 'd"
  mysql_stmt_bind_param :: "nat \<Rightarrow> cell list \<Rightarrow> 'd \<Rightarrow> int \<times> 'd"
  mysql_stmt_bind_result :: "nat \<Rightarrow> bind_out list \<Rightarrow> 'd \<Rightarrow> int \<times> 'd"
  mysql_stmt_execute :: "nat \<Rightarrow> 'd \<Rightarrow> int \<times> 'd"
  mysql_stmt_store_result :: "nat \<Rightarrow> 'd \<Rightarrow> int \<times> 'd"
  mysql_stmt_fetch :: "nat \<Rightarrow> 'd \<Rightarrow> (int \<times> cell list) \<times> 'd"
  mysql_stmt_affected_rows :: "nat \<Rightarrow> 'd \<Rightarrow> int"
  mysql_stmt_free_result :: "nat \<Rightarrow> 'd \<Rightarrow> 'd"

text \<open>What can be said of a connection: the tables, for each statement its text, its bound values and buffers, the rows of
  its result not fetched yet and the number of affected rows, and the options of the session.\<close>

record session =
  v_tables :: db
  v_prepared :: "nat \<rightharpoonup> string"
  v_bound :: "nat \<Rightarrow> cell list"
  v_outs :: "nat \<Rightarrow> bind_out list"
  v_pending :: "nat \<Rightarrow> cell list list"
  v_affected :: "nat \<Rightarrow> int"
  v_options :: "mysql_option set"
  v_strict :: bool
  v_found_rows :: bool

definition strict_mode :: string where
  "strict_mode = ''SET SESSION sql_mode ='' @ [CHR 0x27] @ ''STRICT_ALL_TABLES'' @ [CHR 0x27]"

text \<open>
  What the documentation promises of calls that succeed. A call that fails promises nothing, except that
  \<^verbatim>\<open>ER_DUP_ENTRY\<close> means a duplicate key and nothing done. The rows of a result come in any order, and
  a fetch ends with \<^verbatim>\<open>MYSQL_NO_DATA\<close> only when none is left.
\<close>

locale mysql_client =
  fixes api :: "'d MYSQL"
    and view :: "'d \<Rightarrow> session"
    and ts_ok :: "MYSQL_TIME \<Rightarrow> bool"
  assumes options_view: "mysql_options api opt d = (0, d') \<Longrightarrow>
      view d' = (view d)\<lparr>v_options := insert opt (v_options (view d))\<rparr>"
    and connect_view: "mysql_real_connect api host user password name flags d = (True, d') \<Longrightarrow>
      view d' = (view d)\<lparr>v_strict := (MYSQL_INIT_COMMAND strict_mode \<in> v_options (view d)), v_found_rows := bit flags 1\<rparr>"
    and autocommit_view: "mysql_autocommit api b d = (0, d') \<Longrightarrow> view d' = view d"
    and init_view: "mysql_stmt_init api d = (Some h, d') \<Longrightarrow> v_prepared (view d) h = None \<and> view d' = view d"
    and prepare_view: "mysql_stmt_prepare api h text d = (0, d') \<Longrightarrow>
      view d' = (view d)\<lparr>v_prepared := (v_prepared (view d))(h \<mapsto> text)\<rparr>"
    and bind_param_view: "mysql_stmt_bind_param api h ps d = (0, d') \<Longrightarrow>
      view d' = (view d)\<lparr>v_bound := (v_bound (view d))(h := ps)\<rparr>"
    and bind_result_view: "mysql_stmt_bind_result api h outs d = (0, d') \<Longrightarrow>
      view d' = (view d)\<lparr>v_outs := (v_outs (view d))(h := outs)\<rparr>"
    and execute_view: "v_strict (view d) \<Longrightarrow> v_found_rows (view d) \<Longrightarrow>
      v_prepared (view d) h = Some (sql_text (sql_of i)) \<Longrightarrow> well_typed (sql_of i) (v_bound (view d) h) \<Longrightarrow>
      mysql_stmt_execute api h d = (0, d') \<Longrightarrow>
      \<exists>rows n T rows'. run ts_ok (sql_of i) (v_bound (view d) h) (v_tables (view d)) = Executed rows n T \<and> mset rows' = mset rows \<and>
        view d' = (view d)\<lparr>v_tables := T, v_pending := (v_pending (view d))(h := rows'), v_affected := (v_affected (view d))(h := int n)\<rparr>"
    and execute_dup: "v_strict (view d) \<Longrightarrow> v_found_rows (view d) \<Longrightarrow>
      v_prepared (view d) h = Some (sql_text (sql_of i)) \<Longrightarrow> well_typed (sql_of i) (v_bound (view d) h) \<Longrightarrow>
      mysql_stmt_execute api h d = (status, d') \<Longrightarrow> status \<noteq> 0 \<Longrightarrow> mysql_errno api d' = ER_DUP_ENTRY \<Longrightarrow>
      run ts_ok (sql_of i) (v_bound (view d) h) (v_tables (view d)) = DupEntry \<and> view d' = view d"
    and store_view: "mysql_stmt_store_result api h d = (0, d') \<Longrightarrow> view d' = view d"
    and affected_view: "mysql_stmt_affected_rows api h d = v_affected (view d) h"
    and fetch_row: "v_pending (view d) h = r # rs \<Longrightarrow> mysql_stmt_fetch api h d = ((status, cells), d') \<Longrightarrow>
      (status = 0 \<and> cells = r \<and> view d' = (view d)\<lparr>v_pending := (v_pending (view d))(h := rs)\<rparr>) \<or>
      status = 1 \<or> status = MYSQL_DATA_TRUNCATED"
    and fetch_none: "v_pending (view d) h = [] \<Longrightarrow> mysql_stmt_fetch api h d = ((status, cells), d') \<Longrightarrow>
      status = 1 \<or> status = MYSQL_NO_DATA \<and> view d' = view d"
    and free_view: "view (mysql_stmt_free_result api h d) = (view d)\<lparr>v_pending := (v_pending (view d))(h := [])\<rparr>"

text \<open>A connection on which nothing fails that the statement itself does not make fail.\<close>

locale reliable_client = mysql_client +
  assumes bind_param_ok: "v_prepared (view d) h \<noteq> None \<Longrightarrow> fst (mysql_stmt_bind_param api h ps d) = 0"
    and bind_result_ok: "v_prepared (view d) h \<noteq> None \<Longrightarrow> fst (mysql_stmt_bind_result api h outs d) = 0"
    and execute_ok: "v_prepared (view d) h = Some (sql_text (sql_of i)) \<Longrightarrow>
      run ts_ok (sql_of i) (v_bound (view d) h) (v_tables (view d)) = Executed rows n T \<Longrightarrow> fst (mysql_stmt_execute api h d) = 0"
    and execute_refused: "v_prepared (view d) h = Some (sql_text (sql_of i)) \<Longrightarrow>
      run ts_ok (sql_of i) (v_bound (view d) h) (v_tables (view d)) = DupEntry \<Longrightarrow>
      mysql_stmt_execute api h d = (status, d') \<Longrightarrow> status \<noteq> 0 \<and> mysql_errno api d' = ER_DUP_ENTRY"
    and store_ok: "fst (mysql_stmt_store_result api h d) = 0"
    and fetch_ok: "v_pending (view d) h = r # rs \<Longrightarrow> list_all2 fits_out (v_outs (view d) h) r \<Longrightarrow>
      fst (fst (mysql_stmt_fetch api h d)) = 0"
    and fetch_end: "v_pending (view d) h = [] \<Longrightarrow> fst (fst (mysql_stmt_fetch api h d)) = MYSQL_NO_DATA"

end
