(* ===== verification/Mysql_Lease_Mgr.thy ===== *)
theory Mysql_Lease_Mgr
  imports Mysql_Api Lease_Mgr
begin

text \<open>
  The MySQL lease database, \<^verbatim>\<open>src/lib/dhcpsrv/mysql_lease_mgr.{h,cc}\<close>, over the client library of
  \<open>Mysql_Api\<close>. The time conversions of the C library and the text form of IPv6 addresses
  (\<^verbatim>\<open>inet_ntop\<close>, \<^verbatim>\<open>inet_pton\<close>) are the parameter \<open>os\<close>. Log messages and the texts
  of the exceptions are left out.
\<close>

section \<open>Times\<close>

record tm =
  tm_year :: int
  tm_mon :: int
  tm_mday :: int
  tm_hour :: int
  tm_min :: int
  tm_sec :: int
  tm_isdst :: int

record os =
  localtime_r :: "int \<Rightarrow> tm"
  mktime :: "tm \<Rightarrow> int"
  time_now :: int
  addr_text :: "ioaddress \<Rightarrow> string"
  addr_parse :: "string \<Rightarrow> ioaddress result"

definition convertToDatabaseTime :: "os \<Rightarrow> int \<Rightarrow> u32 \<Rightarrow> MYSQL_TIME" where
  "convertToDatabaseTime os cltt valid_lifetime =
     (let expire_tm = localtime_r os (cltt + uint valid_lifetime) in
      \<lparr>mt_year = word_of_int (tm_year expire_tm + 1900), mt_month = word_of_int (tm_mon expire_tm + 1),
       mt_day = word_of_int (tm_mday expire_tm), mt_hour = word_of_int (tm_hour expire_tm),
       mt_minute = word_of_int (tm_min expire_tm), mt_second = word_of_int (tm_sec expire_tm),
       mt_second_part = 0, mt_neg = False\<rparr>)"

text \<open>The fields of \<^verbatim>\<open>MYSQL_TIME\<close> are unsigned, those of \<^verbatim>\<open>struct tm\<close> signed.\<close>

definition convertFromDatabaseTime :: "os \<Rightarrow> MYSQL_TIME \<Rightarrow> u32 \<Rightarrow> int" where
  "convertFromDatabaseTime os expire valid_lifetime =
     mktime os \<lparr>tm_year = sint (mt_year expire - 1900), tm_mon = sint (mt_month expire - 1),
       tm_mday = sint (mt_day expire), tm_hour = sint (mt_hour expire), tm_min = sint (mt_minute expire),
       tm_sec = sint (mt_second expire), tm_isdst = -1\<rparr> - uint valid_lifetime"

section \<open>Exchange of IPv4 leases\<close>

record MySqlLease4Exchange =
  x4_addr4 :: u32
  x4_hwaddr_buffer :: bytes
  x4_hwaddr_length :: nat
  x4_client_id_buffer :: bytes
  x4_client_id_length :: nat
  x4_client_id_null :: bool
  x4_expire :: MYSQL_TIME
  x4_subnet_id :: u32
  x4_valid_lifetime :: u32

text \<open>The members that the constructor does not initialize keep what was in memory.\<close>

definition mk_MySqlLease4Exchange :: "MySqlLease4Exchange \<Rightarrow> MySqlLease4Exchange" where
  "mk_MySqlLease4Exchange memory =
     memory\<lparr>x4_addr4 := 0, x4_hwaddr_length := 0, x4_client_id_length := 0,
       x4_hwaddr_buffer := replicate MAX_HWADDR_LEN 0, x4_client_id_buffer := replicate MAX_DUID_LEN 0\<rparr>"

definition createBindForSend4 :: "os \<Rightarrow> Lease4 \<Rightarrow> MySqlLease4Exchange \<Rightarrow> (cell list \<times> MySqlLease4Exchange) result" where
  "createBindForSend4 os lease x =
     bindE (to_uint32 (l_addr lease)) (\<lambda>addr4.
       let expire = convertToDatabaseTime os (l_cltt lease) (l_valid_lft lease);
           x1 = x\<lparr>x4_addr4 := addr4, x4_hwaddr_length := length (l4_hwaddr lease), x4_expire := expire\<rparr>;
           (client_id, x2) =
             (case l4_client_id lease of
                Some c \<Rightarrow> (BLOB (clientid_bytes c), x1\<lparr>x4_client_id_length := length (clientid_bytes c)\<rparr>)
              | None \<Rightarrow> (NULL, x1\<lparr>x4_client_id_null := True\<rparr>))
       in Inr ([LONG addr4, BLOB (l4_hwaddr lease), client_id, LONG (l_valid_lft lease), TIMESTAMP expire,
                LONG (l_subnet_id lease)], x2))"

definition createBindForReceive4 :: "MySqlLease4Exchange \<Rightarrow> bind_out list \<times> MySqlLease4Exchange" where
  "createBindForReceive4 x =
     ([OUT_LONG, OUT_BLOB MAX_HWADDR_LEN, OUT_BLOB MAX_DUID_LEN, OUT_LONG, OUT_TIMESTAMP, OUT_LONG],
      x\<lparr>x4_hwaddr_length := MAX_HWADDR_LEN, x4_client_id_length := MAX_DUID_LEN\<rparr>)"

text \<open>
  What a fetch writes through the pointers of the receiving array: a value replaces the variable, data goes to the start of the buffer
  and sets the length, and \<^verbatim>\<open>NULL\<close> changes nothing but the null indicator, where there is one.
\<close>

fun put_long :: "cell \<Rightarrow> u32 \<Rightarrow> u32" where
  "put_long (LONG v) old = v"
| "put_long _ old = old"

fun put_tiny :: "cell \<Rightarrow> u8 \<Rightarrow> u8" where
  "put_tiny (TINY v) old = v"
| "put_tiny _ old = old"

fun put_time :: "cell \<Rightarrow> MYSQL_TIME \<Rightarrow> MYSQL_TIME" where
  "put_time (TIMESTAMP t) old = t"
| "put_time _ old = old"

fun put_blob :: "cell \<Rightarrow> bytes \<Rightarrow> bytes" where
  "put_blob (BLOB b) old = b @ drop (length b) old"
| "put_blob _ old = old"

fun put_text :: "cell \<Rightarrow> string \<Rightarrow> string" where
  "put_text (STRING s) old = s @ drop (length s) old"
| "put_text _ old = old"

fun put_length :: "cell \<Rightarrow> nat \<Rightarrow> nat" where
  "put_length (BLOB b) old = length b"
| "put_length (STRING s) old = length s"
| "put_length _ old = old"

fun receive4 :: "cell list \<Rightarrow> MySqlLease4Exchange \<Rightarrow> MySqlLease4Exchange" where
  "receive4 [address, hwaddr, client_id, valid_lifetime, expire, subnet_id] x =
     x\<lparr>x4_addr4 := put_long address (x4_addr4 x),
       x4_hwaddr_buffer := put_blob hwaddr (x4_hwaddr_buffer x),
       x4_hwaddr_length := put_length hwaddr (x4_hwaddr_length x),
       x4_client_id_buffer := put_blob client_id (x4_client_id_buffer x),
       x4_client_id_length := put_length client_id (x4_client_id_length x),
       x4_client_id_null := (client_id = NULL),
       x4_valid_lifetime := put_long valid_lifetime (x4_valid_lifetime x),
       x4_expire := put_time expire (x4_expire x),
       x4_subnet_id := put_long subnet_id (x4_subnet_id x)\<rparr>"
| "receive4 _ x = x"

definition getLeaseData4 :: "os \<Rightarrow> MySqlLease4Exchange \<Rightarrow> Lease4 result \<times> MySqlLease4Exchange" where
  "getLeaseData4 os x =
     (let cltt = convertFromDatabaseTime os (x4_expire x) (x4_valid_lifetime x);
          x' = (if x4_client_id_null x then x\<lparr>x4_client_id_length := 0\<rparr> else x)
      in (mk_Lease4 (IPv4 (x4_addr4 x')) (take (x4_hwaddr_length x') (x4_hwaddr_buffer x'))
            (take (x4_client_id_length x') (x4_client_id_buffer x')) (x4_valid_lifetime x') 0 0 cltt (x4_subnet_id x'), x'))"

section \<open>Exchange of IPv6 leases\<close>

definition ADDRESS6_TEXT_MAX_LEN :: nat where "ADDRESS6_TEXT_MAX_LEN = 39"

record MySqlLease6Exchange =
  x6_addr6_buffer :: string
  x6_addr6_length :: nat
  x6_duid_buffer :: bytes
  x6_duid_length :: nat
  x6_expire :: MYSQL_TIME
  x6_iaid :: u32
  x6_lease_type :: u8
  x6_prefixlen :: u8
  x6_pref_lifetime :: u32
  x6_subnet_id :: u32
  x6_valid_lifetime :: u32

definition mk_MySqlLease6Exchange :: "MySqlLease6Exchange \<Rightarrow> MySqlLease6Exchange" where
  "mk_MySqlLease6Exchange memory =
     memory\<lparr>x6_addr6_length := 0, x6_duid_length := 0,
       x6_addr6_buffer := replicate (ADDRESS6_TEXT_MAX_LEN + 1) (CHR 0x00), x6_duid_buffer := replicate MAX_DUID_LEN 0\<rparr>"

fun lease_type_code :: "LeaseType \<Rightarrow> u8" where
  "lease_type_code LEASE_IA_NA = 0"
| "lease_type_code LEASE_IA_TA = 1"
| "lease_type_code LEASE_IA_PD = 2"

definition createBindForSend6 :: "os \<Rightarrow> Lease6 \<Rightarrow> MySqlLease6Exchange \<Rightarrow> (cell list \<times> MySqlLease6Exchange) result" where
  "createBindForSend6 os lease x =
     (case l6_duid lease of
        None \<Rightarrow> Inl NullPointer
      | Some duid \<Rightarrow>
          let addr6 = addr_text os (l_addr lease);
              expire = convertToDatabaseTime os (l_cltt lease) (l_valid_lft lease);
              lease_type = lease_type_code (l6_type lease)
          in Inr ([STRING addr6, BLOB (duid_bytes duid), LONG (l_valid_lft lease), TIMESTAMP expire,
                   LONG (l_subnet_id lease), LONG (l6_preferred_lft lease), TINY lease_type, LONG (l6_iaid lease),
                   TINY (l6_prefixlen lease)],
                  x\<lparr>x6_addr6_length := length addr6, x6_duid_length := length (duid_bytes duid), x6_expire := expire,
                    x6_lease_type := lease_type\<rparr>))"

definition createBindForReceive6 :: "MySqlLease6Exchange \<Rightarrow> bind_out list \<times> MySqlLease6Exchange" where
  "createBindForReceive6 x =
     ([OUT_STRING ADDRESS6_TEXT_MAX_LEN, OUT_BLOB MAX_DUID_LEN, OUT_LONG, OUT_TIMESTAMP, OUT_LONG, OUT_LONG, OUT_TINY,
       OUT_LONG, OUT_TINY],
      x\<lparr>x6_addr6_length := ADDRESS6_TEXT_MAX_LEN, x6_duid_length := MAX_DUID_LEN\<rparr>)"

fun receive6 :: "cell list \<Rightarrow> MySqlLease6Exchange \<Rightarrow> MySqlLease6Exchange" where
  "receive6 [address, duid, valid_lifetime, expire, subnet_id, pref_lifetime, lease_type, iaid, prefix_len] x =
     x\<lparr>x6_addr6_buffer := put_text address (x6_addr6_buffer x),
       x6_addr6_length := put_length address (x6_addr6_length x),
       x6_duid_buffer := put_blob duid (x6_duid_buffer x),
       x6_duid_length := put_length duid (x6_duid_length x),
       x6_valid_lifetime := put_long valid_lifetime (x6_valid_lifetime x),
       x6_expire := put_time expire (x6_expire x),
       x6_subnet_id := put_long subnet_id (x6_subnet_id x),
       x6_pref_lifetime := put_long pref_lifetime (x6_pref_lifetime x),
       x6_lease_type := put_tiny lease_type (x6_lease_type x),
       x6_iaid := put_long iaid (x6_iaid x),
       x6_prefixlen := put_tiny prefix_len (x6_prefixlen x)\<rparr>"
| "receive6 _ x = x"

abbreviation c_string :: "string \<Rightarrow> string" where
  "c_string s \<equiv> takeWhile (\<lambda>c. c \<noteq> CHR 0x00) s"

definition getLeaseData6 :: "os \<Rightarrow> MySqlLease6Exchange \<Rightarrow> Lease6 result \<times> MySqlLease6Exchange" where
  "getLeaseData6 os x =
     (let x' = x\<lparr>x6_addr6_buffer := (x6_addr6_buffer x)[x6_addr6_length x := CHR 0x00]\<rparr> in
      (bindE (addr_parse os (c_string (x6_addr6_buffer x'))) (\<lambda>addr.
       bindE (if x6_lease_type x' = lease_type_code LEASE_IA_NA then Inr LEASE_IA_NA
              else if x6_lease_type x' = lease_type_code LEASE_IA_TA then Inr LEASE_IA_TA
              else if x6_lease_type x' = lease_type_code LEASE_IA_PD then Inr LEASE_IA_PD
              else Inl BadValue) (\<lambda>type.
       bindE (mk_DUID (take (x6_duid_length x') (x6_duid_buffer x'))) (\<lambda>duid.
       bindE (mk_Lease6 type addr (Some duid) (x6_iaid x') (x6_pref_lifetime x') (x6_valid_lifetime x') 0 0
                (x6_subnet_id x') (x6_prefixlen x') (time_now os)) (\<lambda>result.
       let cltt = convertFromDatabaseTime os (x6_expire x') (x6_valid_lifetime x')
       in Inr (result\<lparr>l_cltt := cltt\<rparr>))))), x'))"

section \<open>The manager\<close>

record 'd MySqlLeaseMgr =
  m_parameters :: "string \<rightharpoonup> string"
  m_exchange4 :: MySqlLease4Exchange
  m_exchange6 :: MySqlLease6Exchange
  m_mysql :: 'd
  m_statements :: "nat option list"
  m_text_statements :: "string list"

text \<open>A call of a function of the library.\<close>

definition callS :: "('d \<Rightarrow> 'a \<times> 'd) \<Rightarrow> ('d MySqlLeaseMgr, 'a) eff" where
  "callS f m = (case f (m_mysql m) of (x, d) \<Rightarrow> (Inr x, m\<lparr>m_mysql := d\<rparr>))"

abbreviation freeS :: "('d \<Rightarrow> 'd) \<Rightarrow> ('d MySqlLeaseMgr, unit) eff" where
  "freeS f \<equiv> modS (\<lambda>m. m\<lparr>m_mysql := f (m_mysql m)\<rparr>)"

definition statement :: "StatementIndex \<Rightarrow> ('d MySqlLeaseMgr, nat) eff" where
  "statement i = askS (\<lambda>m.
     if statement_number i < length (m_statements m) then
       (case m_statements m ! statement_number i of None \<Rightarrow> Inl NullPointer | Some h \<Rightarrow> Inr h)
     else Inl OutOfBounds)"

definition checkError :: "int \<Rightarrow> ('d MySqlLeaseMgr, unit) eff" where
  "checkError status = liftS (if status \<noteq> 0 then Inl DbOperationError else Inr ())"

definition openDatabase :: "'d MYSQL \<Rightarrow> ('d MySqlLeaseMgr, unit) eff" where
  "openDatabase api m =
     (let param = (\<lambda>name. getParameter name (m_parameters m));
          host = (case param ''host'' of Inr s \<Rightarrow> c_string s | Inl _ \<Rightarrow> ''localhost'');
          user = (case param ''user'' of Inr s \<Rightarrow> Some (c_string s) | Inl _ \<Rightarrow> None);
          password = (case param ''password'' of Inr s \<Rightarrow> Some (c_string s) | Inl _ \<Rightarrow> None)
      in case param ''name'' of
        Inl _ \<Rightarrow> (Inl NoDatabaseName, m)
      | Inr s \<Rightarrow>
          bindS (callS (mysql_options api (MYSQL_OPT_RECONNECT True))) (\<lambda>result.
            if result \<noteq> 0 then throwS DbOpenError
            else bindS (callS (mysql_options api (MYSQL_INIT_COMMAND strict_mode))) (\<lambda>result.
              if result \<noteq> 0 then throwS DbOpenError
              else bindS (callS (mysql_real_connect api host user password (c_string s) CLIENT_FOUND_ROWS)) (\<lambda>same.
                if \<not> same then throwS DbOpenError else retS ()))) m)"

definition prepareStatement :: "'d MYSQL \<Rightarrow> StatementIndex \<times> string \<Rightarrow> ('d MySqlLeaseMgr, unit) eff" where
  "prepareStatement api st =
     (case st of (index, text) \<Rightarrow>
        let i = statement_number index in
        thenS (askS (\<lambda>m. if i \<ge> length (m_statements m) \<or> m_statements m ! i \<noteq> None then Inl InvalidParameter else Inr ()))
         (thenS (modS (\<lambda>m. m\<lparr>m_text_statements := (m_text_statements m)[i := text]\<rparr>))
           (bindS (callS (mysql_stmt_init api)) (\<lambda>stmt.
              thenS (modS (\<lambda>m. m\<lparr>m_statements := (m_statements m)[i := stmt]\<rparr>))
               (case stmt of
                  None \<Rightarrow> throwS DbOperationError
                | Some h \<Rightarrow> bindS (callS (mysql_stmt_prepare api h text)) (\<lambda>status.
                    if status \<noteq> 0 then throwS DbOperationError else retS ()))))))"

definition prepareStatements :: "'d MYSQL \<Rightarrow> ('d MySqlLeaseMgr, unit) eff" where
  "prepareStatements api =
     thenS (modS (\<lambda>m. m\<lparr>m_statements := replicate NUM_STATEMENTS None, m_text_statements := replicate NUM_STATEMENTS []\<rparr>))
       (foldS (\<lambda>st _. prepareStatement api st) tagged_statements ())"

text \<open>When the constructor throws, the destructor of \<^verbatim>\<open>MySqlHolder\<close> closes the connection.\<close>

definition mk_MySqlLeaseMgr ::
  "'d MYSQL \<Rightarrow> MySqlLease4Exchange \<Rightarrow> MySqlLease6Exchange \<Rightarrow> (string \<rightharpoonup> string) \<Rightarrow> 'd \<Rightarrow> 'd MySqlLeaseMgr result" where
  "mk_MySqlLeaseMgr api memory4 memory6 parameters d =
     (case mysql_init api d of
        (False, _) \<Rightarrow> Inl DbOpenError
      | (True, d) \<Rightarrow>
          fst (bindS (openDatabase api) (\<lambda>_.
            bindS (callS (mysql_autocommit api True)) (\<lambda>result.
              if result \<noteq> 0 then throwS DbOperationError
              else thenS (prepareStatements api)
                (thenS (modS (\<lambda>m. m\<lparr>m_exchange4 := mk_MySqlLease4Exchange memory4, m_exchange6 := mk_MySqlLease6Exchange memory6\<rparr>))
                  (askS Inr))))
            \<lparr>m_parameters = parameters, m_exchange4 = memory4, m_exchange6 = memory6, m_mysql = d, m_statements = [],
             m_text_statements = []\<rparr>))"

definition delete_MySqlLeaseMgr :: "'d MYSQL \<Rightarrow> 'd MySqlLeaseMgr \<Rightarrow> 'd MySqlLeaseMgr" where
  "delete_MySqlLeaseMgr api m =
     m\<lparr>m_mysql := fold (\<lambda>stmt d. case stmt of None \<Rightarrow> d | Some h \<Rightarrow> mysql_stmt_close api h d) (m_statements m) (m_mysql m),
       m_statements := map (\<lambda>_. None) (m_statements m)\<rparr>"

section \<open>Adding leases\<close>

definition addLeaseCommon :: "'d MYSQL \<Rightarrow> StatementIndex \<Rightarrow> cell list \<Rightarrow> ('d MySqlLeaseMgr, bool) eff" where
  "addLeaseCommon api stindex bind =
     bindS (statement stindex) (\<lambda>h.
     bindS (callS (mysql_stmt_bind_param api h bind)) (\<lambda>status.
     thenS (checkError status) (
     bindS (callS (mysql_stmt_execute api h)) (\<lambda>status.
       if status \<noteq> 0 then
         bindS (askS (\<lambda>m. Inr (mysql_errno api (m_mysql m)))) (\<lambda>errno.
           if errno = ER_DUP_ENTRY then retS False else thenS (checkError status) (retS True))
       else retS True))))"

text \<open>Filling the array of bindings changes the exchange object.\<close>

definition send4 :: "os \<Rightarrow> Lease4 \<Rightarrow> ('d MySqlLeaseMgr, cell list) eff" where
  "send4 os lease m = (case createBindForSend4 os lease (m_exchange4 m) of
     Inl e \<Rightarrow> (Inl e, m) | Inr (bind, x) \<Rightarrow> (Inr bind, m\<lparr>m_exchange4 := x\<rparr>))"

definition send6 :: "os \<Rightarrow> Lease6 \<Rightarrow> ('d MySqlLeaseMgr, cell list) eff" where
  "send6 os lease m = (case createBindForSend6 os lease (m_exchange6 m) of
     Inl e \<Rightarrow> (Inl e, m) | Inr (bind, x) \<Rightarrow> (Inr bind, m\<lparr>m_exchange6 := x\<rparr>))"

definition my_addLease4 :: "'d MYSQL \<Rightarrow> os \<Rightarrow> Lease4 \<Rightarrow> ('d MySqlLeaseMgr, bool) eff" where
  "my_addLease4 api os lease = bindS (send4 os lease) (addLeaseCommon api INSERT_LEASE4)"

definition my_addLease6 :: "'d MYSQL \<Rightarrow> os \<Rightarrow> Lease6 \<Rightarrow> ('d MySqlLeaseMgr, bool) eff" where
  "my_addLease6 api os lease = bindS (send6 os lease) (addLeaseCommon api INSERT_LEASE6)"

section \<open>Reading leases\<close>

text \<open>
  An exchange object as the template uses it: the receiving array, and the lease that the columns of a fetched row make.
\<close>

record ('d, 'l) exchange =
  ex_receive :: "('d MySqlLeaseMgr, bind_out list) eff"
  ex_getLeaseData :: "cell list \<Rightarrow> 'd MySqlLeaseMgr \<Rightarrow> 'l result \<times> 'd MySqlLeaseMgr"

definition exchange4 :: "os \<Rightarrow> ('d, Lease4) exchange" where
  "exchange4 os =
     \<lparr>ex_receive = (\<lambda>m. case createBindForReceive4 (m_exchange4 m) of (outs, x) \<Rightarrow> (Inr outs, m\<lparr>m_exchange4 := x\<rparr>)),
      ex_getLeaseData = (\<lambda>cells m. case getLeaseData4 os (receive4 cells (m_exchange4 m)) of
        (l, x) \<Rightarrow> (l, m\<lparr>m_exchange4 := x\<rparr>))\<rparr>"

definition exchange6 :: "os \<Rightarrow> ('d, Lease6) exchange" where
  "exchange6 os =
     \<lparr>ex_receive = (\<lambda>m. case createBindForReceive6 (m_exchange6 m) of (outs, x) \<Rightarrow> (Inr outs, m\<lparr>m_exchange6 := x\<rparr>)),
      ex_getLeaseData = (\<lambda>cells m. case getLeaseData6 os (receive6 cells (m_exchange6 m)) of
        (l, x) \<Rightarrow> (l, m\<lparr>m_exchange6 := x\<rparr>))\<rparr>"

text \<open>
  The loop that fetches the rows: the leases read and the status of the last fetch. It goes on as long as the library
  gives rows, so it is partial. A \<^verbatim>\<open>BadValue\<close> is thrown again as such.
\<close>

partial_function (option) fetch_loop ::
  "'d MYSQL \<Rightarrow> nat \<Rightarrow> ('d, 'l) exchange \<Rightarrow> bool \<Rightarrow> int \<Rightarrow> 'l list \<Rightarrow> 'd MySqlLeaseMgr \<Rightarrow>
    (('l list \<times> int) result \<times> 'd MySqlLeaseMgr) option" where
  "fetch_loop api h exchange single n result m =
     (case mysql_stmt_fetch api h (m_mysql m) of ((status, cells), d) \<Rightarrow>
        if status \<noteq> 0 then Some (Inr (result, status), m\<lparr>m_mysql := d\<rparr>)
        else
          case ex_getLeaseData exchange cells (m\<lparr>m_mysql := d\<rparr>) of
            (Inl e, m') \<Rightarrow> Some (Inl e, m')
          | (Inr l, m') \<Rightarrow>
              if single \<and> n + 1 > 1 then Some (Inl MultipleRecords, m')
              else fetch_loop api h exchange single (if single then n + 1 else n) (result @ [l]) m')"

definition fetch_rows :: "'d MYSQL \<Rightarrow> nat \<Rightarrow> ('d, 'l) exchange \<Rightarrow> bool \<Rightarrow> ('d MySqlLeaseMgr, 'l list \<times> int) eff" where
  "fetch_rows api h exchange single m =
     (case fetch_loop api h exchange single 0 [] m of None \<Rightarrow> (Inl OutOfFuel, m) | Some r \<Rightarrow> r)"

text \<open>The destructor of \<^verbatim>\<open>MySqlFreeResult\<close> runs when the function is left, by an exception as well.\<close>

definition finallyS :: "('s, 'a) eff \<Rightarrow> ('s, unit) eff \<Rightarrow> ('s, 'a) eff" where
  "finallyS m f s = (case m s of (r, t) \<Rightarrow> (r, snd (f t)))"

definition getLeaseCollection ::
  "'d MYSQL \<Rightarrow> StatementIndex \<Rightarrow> cell list \<Rightarrow> ('d, 'l) exchange \<Rightarrow> bool \<Rightarrow> ('d MySqlLeaseMgr, 'l list) eff" where
  "getLeaseCollection api stindex bind exchange single =
     bindS (statement stindex) (\<lambda>h.
     bindS (callS (mysql_stmt_bind_param api h bind)) (\<lambda>status.
     thenS (checkError status) (
     bindS (ex_receive exchange) (\<lambda>outbind.
     bindS (callS (mysql_stmt_bind_result api h outbind)) (\<lambda>status.
     thenS (checkError status) (
     bindS (callS (mysql_stmt_execute api h)) (\<lambda>status.
     thenS (checkError status) (
     bindS (callS (mysql_stmt_store_result api h)) (\<lambda>status.
     thenS (checkError status) (
     finallyS
       (bindS (fetch_rows api h exchange single) (\<lambda>(result, status).
          if status = 1 then thenS (checkError status) (retS result)
          else if status = MYSQL_DATA_TRUNCATED then throwS DataTruncated
          else retS result))
       (freeS (mysql_stmt_free_result api h))))))))))))"

definition getLease :: "'d MYSQL \<Rightarrow> StatementIndex \<Rightarrow> cell list \<Rightarrow> ('d, 'l) exchange \<Rightarrow> ('d MySqlLeaseMgr, 'l option) eff" where
  "getLease api stindex bind exchange =
     bindS (getLeaseCollection api stindex bind exchange True) (\<lambda>collection.
       retS (case collection of [] \<Rightarrow> None | l # _ \<Rightarrow> Some l))"

definition my_getLease4 :: "'d MYSQL \<Rightarrow> os \<Rightarrow> ioaddress \<Rightarrow> ('d MySqlLeaseMgr, Lease4 option) eff" where
  "my_getLease4 api os addr =
     bindS (liftS (to_uint32 addr)) (\<lambda>addr4. getLease api GET_LEASE4_ADDR [LONG addr4] (exchange4 os))"

definition my_getLease4_hwaddr :: "'d MYSQL \<Rightarrow> os \<Rightarrow> HWAddr \<Rightarrow> ('d MySqlLeaseMgr, Lease4 list) eff" where
  "my_getLease4_hwaddr api os hwaddr =
     getLeaseCollection api GET_LEASE4_HWADDR [BLOB (hwaddr_bytes hwaddr)] (exchange4 os) False"

definition my_getLease4_hwaddr_subnet :: "'d MYSQL \<Rightarrow> os \<Rightarrow> HWAddr \<Rightarrow> u32 \<Rightarrow> ('d MySqlLeaseMgr, Lease4 option) eff" where
  "my_getLease4_hwaddr_subnet api os hwaddr subnet_id =
     getLease api GET_LEASE4_HWADDR_SUBID [BLOB (hwaddr_bytes hwaddr), LONG subnet_id] (exchange4 os)"

definition my_getLease4_clientid :: "'d MYSQL \<Rightarrow> os \<Rightarrow> ClientId \<Rightarrow> ('d MySqlLeaseMgr, Lease4 list) eff" where
  "my_getLease4_clientid api os clientid =
     getLeaseCollection api GET_LEASE4_CLIENTID [BLOB (clientid_bytes clientid)] (exchange4 os) False"

definition my_getLease4_clientid_subnet :: "'d MYSQL \<Rightarrow> os \<Rightarrow> ClientId \<Rightarrow> u32 \<Rightarrow> ('d MySqlLeaseMgr, Lease4 option) eff" where
  "my_getLease4_clientid_subnet api os clientid subnet_id =
     getLease api GET_LEASE4_CLIENTID_SUBID [BLOB (clientid_bytes clientid), LONG subnet_id] (exchange4 os)"

definition my_getLease6 :: "'d MYSQL \<Rightarrow> os \<Rightarrow> ioaddress \<Rightarrow> ('d MySqlLeaseMgr, Lease6 option) eff" where
  "my_getLease6 api os addr = getLease api GET_LEASE6_ADDR [STRING (addr_text os addr)] (exchange6 os)"

definition my_getLease6_duid_iaid :: "'d MYSQL \<Rightarrow> os \<Rightarrow> DUID \<Rightarrow> u32 \<Rightarrow> ('d MySqlLeaseMgr, Lease6 list) eff" where
  "my_getLease6_duid_iaid api os duid iaid =
     getLeaseCollection api GET_LEASE6_DUID_IAID [BLOB (duid_bytes duid), LONG iaid] (exchange6 os) False"

definition my_getLease6_duid_iaid_subnet ::
  "'d MYSQL \<Rightarrow> os \<Rightarrow> DUID \<Rightarrow> u32 \<Rightarrow> u32 \<Rightarrow> ('d MySqlLeaseMgr, Lease6 option) eff" where
  "my_getLease6_duid_iaid_subnet api os duid iaid subnet_id =
     getLease api GET_LEASE6_DUID_IAID_SUBID [BLOB (duid_bytes duid), LONG iaid, LONG subnet_id] (exchange6 os)"

section \<open>Updating and deleting leases\<close>

definition updateLeaseCommon :: "'d MYSQL \<Rightarrow> StatementIndex \<Rightarrow> cell list \<Rightarrow> ('d MySqlLeaseMgr, unit) eff" where
  "updateLeaseCommon api stindex bind =
     bindS (statement stindex) (\<lambda>h.
     bindS (callS (mysql_stmt_bind_param api h bind)) (\<lambda>status.
     thenS (checkError status) (
     bindS (callS (mysql_stmt_execute api h)) (\<lambda>status.
     thenS (checkError status) (
     bindS (askS (\<lambda>m. Inr (mysql_stmt_affected_rows api h (m_mysql m)))) (\<lambda>affected_rows.
       if affected_rows = 0 then throwS NoSuchLease
       else if affected_rows > 1 then throwS DbOperationError
       else retS ()))))))"

definition my_updateLease4 :: "'d MYSQL \<Rightarrow> os \<Rightarrow> Lease4 \<Rightarrow> ('d MySqlLeaseMgr, unit) eff" where
  "my_updateLease4 api os lease =
     bindS (send4 os lease) (\<lambda>bind.
     bindS (liftS (to_uint32 (l_addr lease))) (\<lambda>addr4.
       updateLeaseCommon api UPDATE_LEASE4 (bind @ [LONG addr4])))"

definition my_updateLease6 :: "'d MYSQL \<Rightarrow> os \<Rightarrow> Lease6 \<Rightarrow> ('d MySqlLeaseMgr, unit) eff" where
  "my_updateLease6 api os lease =
     bindS (send6 os lease) (\<lambda>bind. updateLeaseCommon api UPDATE_LEASE6 (bind @ [STRING (addr_text os (l_addr lease))]))"

definition deleteLeaseCommon :: "'d MYSQL \<Rightarrow> StatementIndex \<Rightarrow> cell list \<Rightarrow> ('d MySqlLeaseMgr, bool) eff" where
  "deleteLeaseCommon api stindex bind =
     bindS (statement stindex) (\<lambda>h.
     bindS (callS (mysql_stmt_bind_param api h bind)) (\<lambda>status.
     thenS (checkError status) (
     bindS (callS (mysql_stmt_execute api h)) (\<lambda>status.
     thenS (checkError status) (
     askS (\<lambda>m. Inr (mysql_stmt_affected_rows api h (m_mysql m) > 0)))))))"

definition my_deleteLease :: "'d MYSQL \<Rightarrow> os \<Rightarrow> ioaddress \<Rightarrow> ('d MySqlLeaseMgr, bool) eff" where
  "my_deleteLease api os addr =
     (case addr of
        IPv4 a \<Rightarrow> deleteLeaseCommon api DELETE_LEASE4 [LONG a]
      | IPv6 _ \<Rightarrow> deleteLeaseCommon api DELETE_LEASE6 [STRING (addr_text os addr)])"

section \<open>Other operations\<close>

definition my_getName :: "'d MySqlLeaseMgr \<Rightarrow> string" where
  "my_getName m = (case getParameter ''name'' (m_parameters m) of Inl _ \<Rightarrow> [] | Inr name \<Rightarrow> name)"

definition my_getDescription :: string where
  "my_getDescription = ''MySQL Database''"

text \<open>\<open>memory\<close> is what the two variables hold before the fetch.\<close>

definition my_getVersion :: "'d MYSQL \<Rightarrow> u32 \<times> u32 \<Rightarrow> ('d MySqlLeaseMgr, u32 \<times> u32) eff" where
  "my_getVersion api memory =
     bindS (statement GET_VERSION) (\<lambda>h.
     bindS (callS (mysql_stmt_execute api h)) (\<lambda>status.
     thenS (checkError status) (
     bindS (callS (mysql_stmt_bind_result api h [OUT_LONG, OUT_LONG])) (\<lambda>status.
     thenS (checkError status) (
     finallyS
       (bindS (callS (mysql_stmt_fetch api h)) (\<lambda>(status, cells).
          thenS (checkError status)
            (retS (case cells of [major, minor] \<Rightarrow> (put_long major (fst memory), put_long minor (snd memory)) | _ \<Rightarrow> memory))))
       (freeS (mysql_stmt_free_result api h)))))))"

definition my_commit :: "'d MYSQL \<Rightarrow> ('d MySqlLeaseMgr, unit) eff" where
  "my_commit api = bindS (callS (mysql_commit api)) (\<lambda>status. if status \<noteq> 0 then throwS DbOperationError else retS ())"

definition my_rollback :: "'d MYSQL \<Rightarrow> ('d MySqlLeaseMgr, unit) eff" where
  "my_rollback api = bindS (callS (mysql_rollback api)) (\<lambda>status. if status \<noteq> 0 then throwS DbOperationError else retS ())"

end
