(* ===== verification/Mysql_Rows.thy ===== *)
theory Mysql_Rows
  imports Mysql_Lease_Mgr
begin

text \<open>
  Leases and rows: what of a lease the MySQL database stores, and that a lease written to a row and read back
  is that part of it, whatever the buffers of the exchange object held before.
\<close>

section \<open>Times\<close>

text \<open>
  The C library gives a time back from its local form when the daylight saving flag is left to it (\<open>tm_isdst = -1\<close>).
  This is so except for the hour that a clock set back repeats. The fields are \<^verbatim>\<open>int\<close>s.
\<close>

definition time_ok :: "os \<Rightarrow> int \<Rightarrow> bool" where
  "time_ok os t \<longleftrightarrow>
     (let b = localtime_r os t in
      mktime os (b\<lparr>tm_isdst := -1\<rparr>) = t \<and>
      list_all (\<lambda>f. - (2 ^ 31) \<le> f \<and> f < 2 ^ 31) [tm_year b, tm_mon b, tm_mday b, tm_hour b, tm_min b, tm_sec b])"

lemma sint_word_of_int: "- (2 ^ 31) \<le> f \<Longrightarrow> f < 2 ^ 31 \<Longrightarrow> sint (word_of_int f :: u32) = f"
  by (simp add: sint_sbintrunc' signed_take_bit_int_eq_self)

lemma convert_time:
  assumes "time_ok os (cltt + uint v)"
  shows "convertFromDatabaseTime os (convertToDatabaseTime os cltt v) v = cltt"
proof -
  let ?b = "localtime_r os (cltt + uint v)"
  have sub: "word_of_int (f + 1900) - 1900 = (word_of_int f :: u32)" "word_of_int (f + 1) - 1 = (word_of_int f :: u32)" for f
    by (simp_all add: of_int_add)
  have b: "\<lparr>tm_year = tm_year ?b, tm_mon = tm_mon ?b, tm_mday = tm_mday ?b, tm_hour = tm_hour ?b,
      tm_min = tm_min ?b, tm_sec = tm_sec ?b, tm_isdst = -1\<rparr> = ?b\<lparr>tm_isdst := -1\<rparr>"
    by simp
  from assms have f: "sint (word_of_int (tm_year ?b) :: u32) = tm_year ?b" "sint (word_of_int (tm_mon ?b) :: u32) = tm_mon ?b"
      "sint (word_of_int (tm_mday ?b) :: u32) = tm_mday ?b" "sint (word_of_int (tm_hour ?b) :: u32) = tm_hour ?b"
      "sint (word_of_int (tm_min ?b) :: u32) = tm_min ?b" "sint (word_of_int (tm_sec ?b) :: u32) = tm_sec ?b"
    by (simp_all add: time_ok_def Let_def sint_word_of_int)
  show ?thesis
    using assms by (simp add: convertFromDatabaseTime_def convertToDatabaseTime_def Let_def sub f b time_ok_def)
qed

section \<open>IPv4 leases\<close>

fun v4_word :: "ioaddress \<Rightarrow> u32" where
  "v4_word (IPv4 a) = a"
| "v4_word (IPv6 _) = 0"

definition clientid_cell :: "ClientId option \<Rightarrow> cell" where
  "clientid_cell c = (case c of None \<Rightarrow> NULL | Some c \<Rightarrow> BLOB (clientid_bytes c))"

definition cells4 :: "os \<Rightarrow> Lease4 \<Rightarrow> cell list" where
  "cells4 os l =
     [LONG (v4_word (l_addr l)), BLOB (l4_hwaddr l), clientid_cell (l4_client_id l), LONG (l_valid_lft l),
      TIMESTAMP (convertToDatabaseTime os (l_cltt l) (l_valid_lft l)), LONG (l_subnet_id l)]"

definition row4 :: "os \<Rightarrow> Lease4 \<Rightarrow> row" where
  "row4 os l = set_columns columns4 (cells4 os l) (\<lambda>_. NULL)"

text \<open>What is stored of a lease. A client id in a lease was built by its class, which checks the length.\<close>

definition stored4 :: "Lease4 \<Rightarrow> Lease4" where
  "stored4 l = l\<lparr>l_t1 := 0, l_t2 := 0, l_fixed := False, l_hostname := [], l_fqdn_fwd := False, l_fqdn_rev := False,
     l_comments := [], l4_ext := 0\<rparr>"

definition sendable4 :: "os \<Rightarrow> Lease4 \<Rightarrow> bool" where
  "sendable4 os l \<longleftrightarrow> isV4 (l_addr l) \<and> time_ok os (l_cltt l + uint (l_valid_lft l)) \<and>
     (case l4_client_id l of None \<Rightarrow> True | Some c \<Rightarrow> mk_ClientId (clientid_bytes c) = Inr c)"

lemma stored4_simps [simp]:
  "l_addr (stored4 l) = l_addr l" "l4_hwaddr (stored4 l) = l4_hwaddr l" "l4_client_id (stored4 l) = l4_client_id l"
  "l_valid_lft (stored4 l) = l_valid_lft l" "l_cltt (stored4 l) = l_cltt l" "l_subnet_id (stored4 l) = l_subnet_id l"
  "stored4 (stored4 l) = stored4 l"
  by (simp_all add: stored4_def)

lemma cells4_stored [simp]: "cells4 os (stored4 l) = cells4 os l" "row4 os (stored4 l) = row4 os l"
  "sendable4 os (stored4 l) = sendable4 os l" "holds4 k (stored4 l) = holds4 k l"
  by (simp_all add: cells4_def row4_def sendable4_def) (cases k; simp)

lemma v4_word_eq: "isV4 a \<Longrightarrow> IPv4 (v4_word a) = a"
  by (cases a) simp_all

lemma createBindForSend4_cells:
  assumes "isV4 (l_addr l)"
  shows "\<exists>x'. createBindForSend4 os l x = Inr (cells4 os l, x')"
  using assms
  by (cases "l_addr l"; cases "l4_client_id l") (simp_all add: createBindForSend4_def cells4_def clientid_cell_def Let_def)

lemma mk_Lease4_stored:
  "mk_ClientId (clientid_bytes c) = Inr c \<Longrightarrow> l4_client_id l = Some c \<Longrightarrow>
     mk_Lease4 (l_addr l) (l4_hwaddr l) (clientid_bytes c) (l_valid_lft l) 0 0 (l_cltt l) (l_subnet_id l) = Inr (stored4 l)"
  "l4_client_id l = None \<Longrightarrow>
     mk_Lease4 (l_addr l) (l4_hwaddr l) [] (l_valid_lft l) 0 0 (l_cltt l) (l_subnet_id l) = Inr (stored4 l)"
proof -
  have "clientid_bytes c \<noteq> []" if "mk_ClientId (clientid_bytes c) = Inr c"
    using mk_ClientId_len [OF that] by auto
  then show "mk_ClientId (clientid_bytes c) = Inr c \<Longrightarrow> l4_client_id l = Some c \<Longrightarrow>
      mk_Lease4 (l_addr l) (l4_hwaddr l) (clientid_bytes c) (l_valid_lft l) 0 0 (l_cltt l) (l_subnet_id l) = Inr (stored4 l)"
    by (cases l) (simp add: mk_Lease4_def mk_Lease_def stored4_def Lease.extend_def Lease4.fields_def)
  show "l4_client_id l = None \<Longrightarrow>
      mk_Lease4 (l_addr l) (l4_hwaddr l) [] (l_valid_lft l) 0 0 (l_cltt l) (l_subnet_id l) = Inr (stored4 l)"
    by (cases l) (simp add: mk_Lease4_def mk_Lease_def stored4_def Lease.extend_def Lease4.fields_def)
qed

lemma getLeaseData4_cells:
  assumes "sendable4 os l"
  shows "fst (getLeaseData4 os (receive4 (cells4 os l) x)) = Inr (stored4 l)"
proof (cases "l4_client_id l")
  case None
  with assms show ?thesis
    by (simp add: sendable4_def getLeaseData4_def cells4_def clientid_cell_def convert_time mk_Lease4_stored v4_word_eq)
next
  case (Some c)
  with assms show ?thesis
    by (simp add: sendable4_def getLeaseData4_def cells4_def clientid_cell_def convert_time mk_Lease4_stored v4_word_eq)
qed

lemma row4_columns: "map (row4 os l) columns4 = cells4 os l"
  by (simp add: row4_def set_columns_def columns4_def cells4_def)

lemma row4_column:
  "row4 os l ''address'' = LONG (v4_word (l_addr l))" "row4 os l ''hwaddr'' = BLOB (l4_hwaddr l)"
  "row4 os l ''client_id'' = clientid_cell (l4_client_id l)" "row4 os l ''subnet_id'' = LONG (l_subnet_id l)"
  by (simp_all add: row4_def set_columns_def columns4_def cells4_def)

lemma cells4_type: "list_all2 (column_has_type ''lease4'') columns4 (cells4 os l)"
  by (simp add: columns4_def cells4_def clientid_cell_def column_has_type_def column_type_def schema_lease4_def
      split: option.splits)

text \<open>Writing the columns of a lease over a row replaces the row.\<close>

lemma set_columns_row4: "set_columns columns4 (cells4 os l) (row4 os l') = row4 os l"
  by (auto simp: set_columns_def row4_def columns4_def cells4_def fun_eq_iff)

section \<open>IPv6 leases\<close>

definition cells6 :: "os \<Rightarrow> Lease6 \<Rightarrow> cell list" where
  "cells6 os l =
     [STRING (addr_text os (l_addr l)), BLOB (duid_bytes (the (l6_duid l))), LONG (l_valid_lft l),
      TIMESTAMP (convertToDatabaseTime os (l_cltt l) (l_valid_lft l)), LONG (l_subnet_id l), LONG (l6_preferred_lft l),
      TINY (lease_type_code (l6_type l)), LONG (l6_iaid l), TINY (l6_prefixlen l)]"

definition stored6 :: "Lease6 \<Rightarrow> Lease6" where
  "stored6 l = l\<lparr>l_t1 := 0, l_t2 := 0, l_fixed := False, l_hostname := [], l_fqdn_fwd := False, l_fqdn_rev := False,
     l_comments := []\<rparr>"

text \<open>The text of an address is at most 39 characters without a null, and parsing it gives the address.\<close>

definition text_ok :: "os \<Rightarrow> ioaddress \<Rightarrow> bool" where
  "text_ok os a \<longleftrightarrow> (let s = addr_text os a in
     addr_parse os s = Inr a \<and> length s \<le> ADDRESS6_TEXT_MAX_LEN \<and> CHR 0x00 \<notin> set s)"

definition sendable6 :: "os \<Rightarrow> Lease6 \<Rightarrow> bool" where
  "sendable6 os l \<longleftrightarrow> text_ok os (l_addr l) \<and> time_ok os (l_cltt l + uint (l_valid_lft l)) \<and>
     (case l6_duid l of None \<Rightarrow> False | Some d \<Rightarrow> mk_DUID (duid_bytes d) = Inr d)"

lemma c_string_terminated:
  assumes "CHR 0x00 \<notin> set s" "length s < length buf"
  shows "c_string ((s @ drop (length s) buf)[length s := CHR 0x00]) = s"
proof -
  obtain c rest where "drop (length s) buf = c # rest"
    using assms(2) by (metis Cons_nth_drop_Suc)
  then have "(s @ drop (length s) buf)[length s := CHR 0x00] = s @ CHR 0x00 # rest"
    by (simp add: list_update_append)
  moreover have "c_string (s @ CHR 0x00 # rest) = s"
    using assms(1) by (subst takeWhile_append2) auto
  ultimately show ?thesis by simp
qed

lemma createBindForSend6_cells:
  assumes "sendable6 os l"
  shows "\<exists>x'. createBindForSend6 os l x = Inr (cells6 os l, x')"
  using assms by (cases "l6_duid l") (simp_all add: createBindForSend6_def cells6_def Let_def sendable6_def)

lemma mk_Lease6_stored:
  "l6_duid l = Some d \<Longrightarrow>
     bindE (mk_Lease6 (l6_type l) (l_addr l) (Some d) (l6_iaid l) (l6_preferred_lft l) (l_valid_lft l) 0 0 (l_subnet_id l) (l6_prefixlen l) now)
       (\<lambda>result. Inr (result\<lparr>l_cltt := l_cltt l\<rparr>)) = Inr (stored6 l)"
  by (cases l) (simp add: mk_Lease6_def mk_Lease_def stored6_def Lease.extend_def Lease6.fields_def)

lemma getLeaseData6_cells:
  assumes "sendable6 os l" "length (x6_addr6_buffer x) = ADDRESS6_TEXT_MAX_LEN + 1"
  shows "fst (getLeaseData6 os (receive6 (cells6 os l) x)) = Inr (stored6 l)"
proof -
  let ?s = "addr_text os (l_addr l)"
  obtain d where d: "l6_duid l = Some d" "mk_DUID (duid_bytes d) = Inr d"
    using assms(1) by (auto simp: sendable6_def split: option.splits)
  have s: "c_string ((?s @ drop (length ?s) (x6_addr6_buffer x))[length ?s := CHR 0x00]) = ?s"
    using assms by (intro c_string_terminated) (auto simp: sendable6_def text_ok_def Let_def)
  have p: "addr_parse os ?s = Inr (l_addr l)" "time_ok os (l_cltt l + uint (l_valid_lft l))"
    using assms(1) by (auto simp: sendable6_def text_ok_def Let_def)
  show ?thesis
    unfolding getLeaseData6_def cells6_def receive6.simps Let_def
    using mk_Lease6_stored [OF d(1), of "time_now os"] by (cases "l6_type l") (simp_all add: s p d convert_time)
qed

text \<open>C25. A lease written to a row of the MySQL database and read back, by an exchange object with any content, is the lease
  without what the row has no column for: the timers T1 and T2, the host name, the DNS flags and the comments. The client
  transmission time survives although only the expiry is stored, provided the local time of the expiry is unambiguous.\<close>

theorem lease_rows_roundtrip:
  "(sendable4 os l4 \<longrightarrow> createBindForSend4 os l4 x4 = Inr (cells, x4') \<longrightarrow>
      fst (getLeaseData4 os (receive4 cells y4)) = Inr (stored4 l4)) \<and>
   (sendable6 os l6 \<longrightarrow> length (x6_addr6_buffer y6) = ADDRESS6_TEXT_MAX_LEN + 1 \<longrightarrow> createBindForSend6 os l6 x6 = Inr (cells, x6') \<longrightarrow>
      fst (getLeaseData6 os (receive6 cells y6)) = Inr (stored6 l6))"
proof -
  have "cells = cells4 os l4" if "sendable4 os l4" "createBindForSend4 os l4 x4 = Inr (cells, x4')"
    using createBindForSend4_cells [of l4 os x4] that by (auto simp: sendable4_def)
  moreover have "cells = cells6 os l6" if "sendable6 os l6" "createBindForSend6 os l6 x6 = Inr (cells, x6')"
    using createBindForSend6_cells [of os l6 x6] that by auto
  ultimately show ?thesis using getLeaseData4_cells getLeaseData6_cells by metis
qed

text \<open>The hardware address column may be null, for a row that another program wrote. Then the lease is given the
  whole buffer, that is the hardware address of a lease that was read before.\<close>

lemma null_hwaddr_stale:
  assumes "getLeaseData4 os (receive4 [LONG a, NULL, NULL, LONG v, TIMESTAMP t, LONG i] (snd (createBindForReceive4 x))) = (Inr l, x')"
    and "length (x4_hwaddr_buffer x) = MAX_HWADDR_LEN"
  shows "l4_hwaddr l = x4_hwaddr_buffer x"
  using assms by (auto simp: getLeaseData4_def createBindForReceive4_def Let_def mk_Lease4_def mk_Lease_def Lease.defs Lease4.defs)

end
