(* ===== verification/Mysql_Safety.thy ===== *)
theory Mysql_Safety
  imports Mysql_Rows Lease_Spec
begin

text \<open>
  The MySQL lease database over a client library that behaves as documented: what each operation does to the tables when it
  returns, and that it returns when the connection does not fail.
\<close>

section \<open>A manager whose statements are prepared\<close>

definition tables :: "('d \<Rightarrow> session) \<Rightarrow> 'd MySqlLeaseMgr \<Rightarrow> db" where
  "tables view m = v_tables (view (m_mysql m))"

definition ready :: "('d \<Rightarrow> session) \<Rightarrow> 'd MySqlLeaseMgr \<Rightarrow> bool" where
  "ready view m \<longleftrightarrow> v_strict (view (m_mysql m)) \<and> v_found_rows (view (m_mysql m)) \<and>
     length (m_statements m) = NUM_STATEMENTS \<and>
     (\<forall>i. \<exists>h. m_statements m ! statement_number i = Some h \<and>
        v_prepared (view (m_mysql m)) h = Some (sql_text (sql_of i)))"

lemma ready_cong:
  assumes "ready view m" "m_statements t = m_statements m"
    and "v_strict (view (m_mysql t)) = v_strict (view (m_mysql m))"
    and "v_found_rows (view (m_mysql t)) = v_found_rows (view (m_mysql m))"
    and "v_prepared (view (m_mysql t)) = v_prepared (view (m_mysql m))"
  shows "ready view t"
  using assms by (simp add: ready_def)

lemma ready_statement:
  assumes "ready view m"
  obtains h where "statement i m = (Inr h, m)" "v_prepared (view (m_mysql m)) h = Some (sql_text (sql_of i))"
proof -
  obtain h where "m_statements m ! statement_number i = Some h" "v_prepared (view (m_mysql m)) h = Some (sql_text (sql_of i))"
    using assms unfolding ready_def by blast
  moreover from this have "statement i m = (Inr h, m)"
    using assms statement_number_less [of i] by (simp add: statement_def eff_apply ready_def)
  ultimately show ?thesis using that by blast
qed

lemma bindS_statement: "statement i m = (Inr h, m) \<Longrightarrow> bindS (statement i) f m = f h m"
  by (simp add: bindS_def)

lemma callS_eq: "callS f m = (r, t) \<longleftrightarrow> r = Inr (fst (f (m_mysql m))) \<and> t = m\<lparr>m_mysql := snd (f (m_mysql m))\<rparr>"
  by (auto simp: callS_def split: prod.splits)

lemma checkError_eq: "checkError st m = (if st = 0 then (Inr (), m) else (Inl DbOperationError, m))"
  by (simp add: checkError_def eff_apply)

text \<open>Calls, their checks and what follows, step by step.\<close>

lemma bindS_callS [eff_simps]: "bindS (callS f) g m = g (fst (f (m_mysql m))) (m\<lparr>m_mysql := snd (f (m_mysql m))\<rparr>)"
  by (simp add: bindS_def callS_def split: prod.splits)

lemma bindS_checkError [eff_simps]: "bindS (checkError st) g m = (if st = 0 then g () m else (Inl DbOperationError, m))"
  by (simp add: bindS_def checkError_eq)

text \<open>An \<^verbatim>\<open>UPDATE\<close> or \<^verbatim>\<open>DELETE\<close>: the effect, and how many rows it found.\<close>

definition affect :: "'d MYSQL \<Rightarrow> StatementIndex \<Rightarrow> cell list \<Rightarrow> ('d MySqlLeaseMgr, int) eff" where
  "affect api i ps =
     bindS (statement i) (\<lambda>h.
     bindS (callS (mysql_stmt_bind_param api h ps)) (\<lambda>status.
     thenS (checkError status) (
     bindS (callS (mysql_stmt_execute api h)) (\<lambda>status.
     thenS (checkError status) (
     askS (\<lambda>m. Inr (mysql_stmt_affected_rows api h (m_mysql m))))))))"

lemma deleteLeaseCommon_affect: "deleteLeaseCommon api i ps m = bindS (affect api i ps) (\<lambda>a. retS (a > 0)) m"
  by (simp add: deleteLeaseCommon_def affect_def bindS_def eff_apply split: prod.splits sum.splits)

lemma updateLeaseCommon_affect:
  "updateLeaseCommon api i ps m =
     bindS (affect api i ps) (\<lambda>a. if a = 0 then throwS NoSuchLease else if a > 1 then throwS DbOperationError else retS ()) m"
  by (simp add: updateLeaseCommon_def affect_def bindS_def eff_apply split: prod.splits sum.splits)

text \<open>A row that the exchange object decodes to a lease, whatever it holds, and the receiving array.\<close>

definition decodes :: "('d, 'l) exchange \<Rightarrow> ('l \<Rightarrow> cell list) \<Rightarrow> 'l \<Rightarrow> bool" where
  "decodes ex enc l \<longleftrightarrow> (\<forall>m. \<exists>m'. ex_getLeaseData ex (enc l) m = (Inr l, m') \<and> m_mysql m' = m_mysql m \<and>
     m_statements m' = m_statements m)"

definition receives :: "('d, 'l) exchange \<Rightarrow> bind_out list \<Rightarrow> bool" where
  "receives ex outs \<longleftrightarrow> (\<forall>m. \<exists>m'. ex_receive ex m = (Inr outs, m') \<and> m_mysql m' = m_mysql m \<and>
     m_statements m' = m_statements m)"

text \<open>A \<^verbatim>\<open>SELECT\<close> up to the first fetch.\<close>

definition select :: "'d MYSQL \<Rightarrow> StatementIndex \<Rightarrow> cell list \<Rightarrow> ('d, 'l) exchange \<Rightarrow> ('d MySqlLeaseMgr, nat) eff" where
  "select api i ps ex =
     bindS (statement i) (\<lambda>h.
     bindS (callS (mysql_stmt_bind_param api h ps)) (\<lambda>status.
     thenS (checkError status) (
     bindS (ex_receive ex) (\<lambda>outs.
     bindS (callS (mysql_stmt_bind_result api h outs)) (\<lambda>status.
     thenS (checkError status) (
     bindS (callS (mysql_stmt_execute api h)) (\<lambda>status.
     thenS (checkError status) (
     bindS (callS (mysql_stmt_store_result api h)) (\<lambda>status.
     thenS (checkError status) (retS h))))))))))"

definition fetched :: "'l list \<times> int \<Rightarrow> ('d MySqlLeaseMgr, 'l list) eff" where
  "fetched = (\<lambda>(result, status).
     if status = 1 then thenS (checkError status) (retS result)
     else if status = MYSQL_DATA_TRUNCATED then throwS DataTruncated else retS result)"

lemma bindS_bindS: "bindS (bindS m f) g = bindS m (\<lambda>x. bindS (f x) g)"
  by (rule ext) (rule bindS_assoc)

lemma bindS_retS: "bindS (retS x) f = f x"
  by (rule ext) (simp add: eff_simps)

lemma getLeaseCollection_select:
  "getLeaseCollection api i ps ex single m =
     bindS (select api i ps ex) (\<lambda>h. finallyS (bindS (fetch_rows api h ex single) fetched) (freeS (mysql_stmt_free_result api h))) m"
  unfolding getLeaseCollection_def select_def by (simp add: bindS_bindS bindS_retS fetched_def)

definition same_tables :: "session \<Rightarrow> session \<Rightarrow> bool" where
  "same_tables s t \<longleftrightarrow> v_tables s = v_tables t \<and> v_prepared s = v_prepared t \<and> v_strict s = v_strict t \<and> v_found_rows s = v_found_rows t"

lemma mset_map_arrange:
  assumes "mset ys = mset (map f xs)"
  shows "\<exists>zs. ys = map f zs \<and> mset zs = mset xs"
  using assms
proof (induction ys arbitrary: xs)
  case Nil
  then show ?case by simp
next
  case (Cons y ys)
  have "y \<in> set (map f xs)" using Cons.prems by (metis list.set_intros(1) set_mset_mset)
  then obtain x as bs where xs: "y = f x" "xs = as @ x # bs" by (auto dest: split_list)
  with Cons.prems have "mset ys = mset (map f (as @ bs))" by simp
  with Cons.IH obtain zs where "ys = map f zs" "mset zs = mset (as @ bs)" by blast
  with xs show ?case by (intro exI [of _ "x # zs"]) simp
qed

section \<open>Statements that do not read\<close>

context mysql_client
begin

lemma bind_param:
  assumes "ready view m" "fst (mysql_stmt_bind_param api h ps (m_mysql m)) = 0"
  defines "m' \<equiv> m\<lparr>m_mysql := snd (mysql_stmt_bind_param api h ps (m_mysql m))\<rparr>"
  shows "view (m_mysql m') = (view (m_mysql m))\<lparr>v_bound := (v_bound (view (m_mysql m)))(h := ps)\<rparr>" "ready view m'"
proof -
  show v: "view (m_mysql m') = (view (m_mysql m))\<lparr>v_bound := (v_bound (view (m_mysql m)))(h := ps)\<rparr>"
    using bind_param_view [of h ps "m_mysql m"] assms(2) by (simp add: m'_def prod_eq_iff)
  show "ready view m'" by (rule ready_cong [OF assms(1)]) (simp_all only: v, simp_all add: m'_def)
qed

lemma execute:
  assumes "ready view m" "v_prepared (view (m_mysql m)) h = Some (sql_text (sql_of i))"
    and "v_bound (view (m_mysql m)) h = ps" "well_typed (sql_of i) ps" "fst (mysql_stmt_execute api h (m_mysql m)) = 0"
  defines "m' \<equiv> m\<lparr>m_mysql := snd (mysql_stmt_execute api h (m_mysql m))\<rparr>"
  shows "\<exists>rows n. run ts_ok (sql_of i) ps (tables view m) = Executed rows n (tables view m') \<and>
    mset (v_pending (view (m_mysql m')) h) = mset rows \<and> v_affected (view (m_mysql m')) h = int n \<and>
    v_outs (view (m_mysql m')) = v_outs (view (m_mysql m)) \<and>
    v_prepared (view (m_mysql m')) = v_prepared (view (m_mysql m)) \<and> ready view m'"
proof -
  obtain rows n T rows' where *: "run ts_ok (sql_of i) ps (tables view m) = Executed rows n T" "mset rows' = mset rows"
    "view (m_mysql m') = (view (m_mysql m))\<lparr>v_tables := T, v_pending := (v_pending (view (m_mysql m)))(h := rows'),
       v_affected := (v_affected (view (m_mysql m)))(h := int n)\<rparr>"
    using execute_view [of "m_mysql m" h i "snd (mysql_stmt_execute api h (m_mysql m))"] assms(1-5)
    by (auto simp: m'_def prod_eq_iff ready_def tables_def)
  have "ready view m'" by (rule ready_cong [OF assms(1)]) (simp_all only: *(3), simp_all add: m'_def)
  with * show ?thesis unfolding tables_def by (simp add: *(3))
qed

lemma addLeaseCommon_safe:
  assumes "ready view m" "well_typed (sql_of i) ps" "addLeaseCommon api i ps m = (Inr b, t)"
  shows "ready view t \<and> (if b then \<exists>rows n. run ts_ok (sql_of i) ps (tables view m) = Executed rows n (tables view t)
    else run ts_ok (sql_of i) ps (tables view m) = DupEntry \<and> tables view t = tables view m)"
proof -
  obtain h where h: "statement i m = (Inr h, m)" "v_prepared (view (m_mysql m)) h = Some (sql_text (sql_of i))"
    using ready_statement [OF assms(1)] by blast
  let ?m1 = "m\<lparr>m_mysql := snd (mysql_stmt_bind_param api h ps (m_mysql m))\<rparr>"
  let ?x = "mysql_stmt_execute api h (m_mysql ?m1)"
  have ok: "fst (mysql_stmt_bind_param api h ps (m_mysql m)) = 0"
    using assms(3) by (simp add: addLeaseCommon_def bindS_statement [OF h(1)] eff_simps split: if_splits)
  note b = bind_param [OF assms(1) ok]
  have p: "v_prepared (view (m_mysql ?m1)) h = Some (sql_text (sql_of i))" "v_bound (view (m_mysql ?m1)) h = ps"
    "tables view ?m1 = tables view m"
    using b(1) h(2) by (simp_all add: tables_def)
  show ?thesis
  proof (cases "fst ?x = 0")
    case True
    then have "b" "t = ?m1\<lparr>m_mysql := snd ?x\<rparr>"
      using assms(3) ok by (simp_all add: addLeaseCommon_def bindS_statement [OF h(1)] eff_simps)
    then show ?thesis using execute [OF b(2) p(1,2) assms(2) True] p(3) by auto
  next
    case False
    then have t: "\<not> b" "t = ?m1\<lparr>m_mysql := snd ?x\<rparr>" "mysql_errno api (snd ?x) = ER_DUP_ENTRY"
      using assms(3) ok by (auto simp: addLeaseCommon_def bindS_statement [OF h(1)] eff_simps split: if_splits)
    moreover have "run ts_ok (sql_of i) ps (tables view ?m1) = DupEntry \<and> view (snd ?x) = view (m_mysql ?m1)"
      using execute_dup [of "m_mysql ?m1" h i "fst ?x" "snd ?x"] b(2) p(1,2) assms(2) False t(3)
      by (simp add: ready_def tables_def)
    moreover from this have "ready view (?m1\<lparr>m_mysql := snd ?x\<rparr>)" by (intro ready_cong [OF b(2)]) simp_all
    ultimately show ?thesis using p(3) by (simp add: tables_def)
  qed
qed

lemma affect_safe:
  assumes "ready view m" "well_typed (sql_of i) ps" "affect api i ps m = (Inr a, t)"
  shows "ready view t \<and> (\<exists>rows n. run ts_ok (sql_of i) ps (tables view m) = Executed rows n (tables view t) \<and> a = int n)"
proof -
  obtain h where h: "statement i m = (Inr h, m)" "v_prepared (view (m_mysql m)) h = Some (sql_text (sql_of i))"
    using ready_statement [OF assms(1)] by blast
  let ?m1 = "m\<lparr>m_mysql := snd (mysql_stmt_bind_param api h ps (m_mysql m))\<rparr>"
  let ?x = "mysql_stmt_execute api h (m_mysql ?m1)"
  have ok: "fst (mysql_stmt_bind_param api h ps (m_mysql m)) = 0" "fst ?x = 0"
    and t: "t = ?m1\<lparr>m_mysql := snd ?x\<rparr>" "a = v_affected (view (snd ?x)) h"
    using assms(3) by (simp_all add: affect_def bindS_statement [OF h(1)] eff_simps affected_view split: if_splits)
  note b = bind_param [OF assms(1) ok(1)]
  have p: "v_prepared (view (m_mysql ?m1)) h = Some (sql_text (sql_of i))" "v_bound (view (m_mysql ?m1)) h = ps"
    "tables view ?m1 = tables view m"
    using b(1) h(2) by (simp_all add: tables_def)
  with t execute [OF b(2) p(1,2) assms(2) ok(2)] show ?thesis by auto
qed

section \<open>Reading\<close>

lemma fetch_loop_safe:
  assumes "\<forall>l\<in>set ls. decodes ex enc l" "v_pending (view (m_mysql m)) h = map enc ls"
  shows "\<exists>r t. fetch_loop api h ex single n acc m = Some (r, t) \<and>
    (\<forall>res st. r = Inr (res, st) \<and> st \<noteq> 1 \<and> st \<noteq> MYSQL_DATA_TRUNCATED \<longrightarrow>
       res = acc @ ls \<and> (single \<longrightarrow> ls = [] \<or> n + int (length ls) \<le> 1) \<and> m_statements t = m_statements m \<and>
       same_tables (view (m_mysql t)) (view (m_mysql m)))"
  using assms
proof (induction ls arbitrary: m n acc)
  case Nil
  obtain st cells d where f: "mysql_stmt_fetch api h (m_mysql m) = ((st, cells), d)" by (metis surj_pair)
  have "st \<noteq> 0" "st \<noteq> 1 \<Longrightarrow> view d = view (m_mysql m)"
    using fetch_none [of "m_mysql m" h st cells d] Nil f by (auto simp: MYSQL_NO_DATA_def)
  then show ?case by (subst fetch_loop.simps) (auto simp: f same_tables_def)
next
  case (Cons l ls)
  obtain st cells d where f: "mysql_stmt_fetch api h (m_mysql m) = ((st, cells), d)" by (metis surj_pair)
  show ?case
  proof (cases "st = 0")
    case False
    with fetch_row [of "m_mysql m" h "enc l" "map enc ls" st cells d] f Cons.prems(2) show ?thesis
      by (subst fetch_loop.simps) (auto simp: f)
  next
    case True
    then have c: "cells = enc l" "view d = (view (m_mysql m))\<lparr>v_pending := (v_pending (view (m_mysql m)))(h := map enc ls)\<rparr>"
      using fetch_row [of "m_mysql m" h "enc l" "map enc ls" st cells d] f Cons.prems(2) by (auto simp: MYSQL_DATA_TRUNCATED_def)
    obtain m' where m': "ex_getLeaseData ex (enc l) (m\<lparr>m_mysql := d\<rparr>) = (Inr l, m')" "m_mysql m' = d" "m_statements m' = m_statements m"
      using Cons.prems(1) unfolding decodes_def by (metis MySqlLeaseMgr.select_convs(4,5) MySqlLeaseMgr.surjective MySqlLeaseMgr.update_convs(4) list.set_intros(1))
    show ?thesis
    proof (cases "single \<and> n + 1 > 1")
      case True
      then show ?thesis using \<open>st = 0\<close> by (subst fetch_loop.simps) (simp add: f c(1) m'(1))
    next
      case False
      let ?n = "if single then n + 1 else n"
      have pend: "v_pending (view (m_mysql m')) h = map enc ls" using c(2) m'(2) by simp
      have "\<forall>l\<in>set ls. decodes ex enc l" using Cons.prems(1) by simp
      from Cons.IH [OF this pend] obtain r t where rt: "fetch_loop api h ex single ?n (acc @ [l]) m' = Some (r, t)"
        "\<forall>res st. r = Inr (res, st) \<and> st \<noteq> 1 \<and> st \<noteq> MYSQL_DATA_TRUNCATED \<longrightarrow>
           res = (acc @ [l]) @ ls \<and> (single \<longrightarrow> ls = [] \<or> ?n + int (length ls) \<le> 1) \<and> m_statements t = m_statements m' \<and>
           same_tables (view (m_mysql t)) (view (m_mysql m'))"
        by blast
      have eq: "fetch_loop api h ex single n acc m = fetch_loop api h ex single ?n (acc @ [l]) m'"
        using False \<open>st = 0\<close> by (subst fetch_loop.simps) (auto simp: f c(1) m'(1))
      have "same_tables (view (m_mysql m')) (view (m_mysql m))" using c(2) m'(2) by (simp add: same_tables_def)
      with rt m'(3) False show ?thesis unfolding eq by (intro exI [of _ r] exI [of _ t]) (auto simp: same_tables_def)
    qed
  qed
qed

lemma select_safe:
  assumes "ready view m" "well_typed (sql_of i) ps" "receives ex outs" "select api i ps ex m = (Inr h, t)"
  shows "ready view t \<and> v_prepared (view (m_mysql t)) h = Some (sql_text (sql_of i)) \<and> v_outs (view (m_mysql t)) h = outs \<and>
    (\<exists>rows n. run ts_ok (sql_of i) ps (tables view m) = Executed rows n (tables view t) \<and> mset (v_pending (view (m_mysql t)) h) = mset rows)"
proof -
  obtain h' where h': "statement i m = (Inr h', m)" "v_prepared (view (m_mysql m)) h' = Some (sql_text (sql_of i))"
    using ready_statement [OF assms(1)] by blast
  let ?m1 = "m\<lparr>m_mysql := snd (mysql_stmt_bind_param api h' ps (m_mysql m))\<rparr>"
  obtain m2 where m2: "ex_receive ex ?m1 = (Inr outs, m2)" "m_mysql m2 = m_mysql ?m1" "m_statements m2 = m_statements ?m1"
    using assms(3) unfolding receives_def by blast
  let ?m3 = "m2\<lparr>m_mysql := snd (mysql_stmt_bind_result api h' outs (m_mysql m2))\<rparr>"
  let ?m4 = "?m3\<lparr>m_mysql := snd (mysql_stmt_execute api h' (m_mysql ?m3))\<rparr>"
  let ?m5 = "?m4\<lparr>m_mysql := snd (mysql_stmt_store_result api h' (m_mysql ?m4))\<rparr>"
  note steps = select_def bindS_statement [OF h'(1)] bindS_apply(1) [where m = "ex_receive ex", OF m2(1)]
  have ok: "fst (mysql_stmt_bind_param api h' ps (m_mysql m)) = 0" "fst (mysql_stmt_bind_result api h' outs (m_mysql m2)) = 0"
    "fst (mysql_stmt_execute api h' (m_mysql ?m3)) = 0" "fst (mysql_stmt_store_result api h' (m_mysql ?m4)) = 0"
    and t: "h = h'" "t = ?m5"
    using assms(4) by (auto simp: steps eff_simps split: if_splits)
  note b = bind_param [OF assms(1) ok(1)]
  have v3: "view (m_mysql ?m3) = (view (m_mysql ?m1))\<lparr>v_outs := (v_outs (view (m_mysql ?m1)))(h' := outs)\<rparr>"
    using bind_result_view [of h' outs "m_mysql m2"] ok(2) m2(2) by (simp add: prod_eq_iff)
  have r3: "ready view ?m3" by (rule ready_cong [OF b(2)]) (simp_all only: v3, simp_all add: m2(3))
  have p: "v_prepared (view (m_mysql ?m3)) h' = Some (sql_text (sql_of i))" "v_bound (view (m_mysql ?m3)) h' = ps"
    "tables view ?m3 = tables view m" "v_outs (view (m_mysql ?m3)) h' = outs"
    unfolding tables_def v3 using b(1) h'(2) by simp_all
  have v5: "view (m_mysql ?m5) = view (m_mysql ?m4)"
    using store_view [of h' "m_mysql ?m4"] ok(4) by (simp add: prod_eq_iff)
  have "ready view ?m5 = ready view ?m4" unfolding ready_def v5 by simp
  with execute [OF r3 p(1,2) assms(2) ok(3)] p show ?thesis unfolding t tables_def v5 by auto
qed

lemma getLeaseCollection_safe:
  assumes "ready view m" "well_typed (sql_of i) ps" "receives ex outs" "\<forall>l\<in>set ls. decodes ex enc l"
    and "run ts_ok (sql_of i) ps (tables view m) = Executed (map enc ls) k (tables view m)"
    and "getLeaseCollection api i ps ex single m = (Inr res, t)"
  shows "mset res = mset ls \<and> (single \<longrightarrow> length res \<le> 1) \<and> ready view t \<and> tables view t = tables view m"
proof -
  obtain h u where u: "select api i ps ex m = (Inr h, u)"
    "finallyS (bindS (fetch_rows api h ex single) fetched) (freeS (mysql_stmt_free_result api h)) u = (Inr res, t)"
    using assms(6) unfolding getLeaseCollection_select bindS_Inr by blast
  have s: "ready view u" "tables view u = tables view m" "mset (v_pending (view (m_mysql u)) h) = mset (map enc ls)"
    using select_safe [OF assms(1,2,3) u(1)] assms(5) by auto
  obtain ls' where ls': "v_pending (view (m_mysql u)) h = map enc ls'" "mset ls' = mset ls"
    using mset_map_arrange [OF s(3)] by blast
  have "\<forall>l\<in>set ls'. decodes ex enc l" using assms(4) mset_eq_setD [OF ls'(2)] by simp
  from fetch_loop_safe [OF this ls'(1)] obtain r w where w: "fetch_loop api h ex single 0 [] u = Some (r, w)"
    "\<forall>res st. r = Inr (res, st) \<and> st \<noteq> 1 \<and> st \<noteq> MYSQL_DATA_TRUNCATED \<longrightarrow>
       res = [] @ ls' \<and> (single \<longrightarrow> ls' = [] \<or> 0 + int (length ls') \<le> 1) \<and> m_statements w = m_statements u \<and>
       same_tables (view (m_mysql w)) (view (m_mysql u))"
    by blast
  have res: "res = ls'" "single \<longrightarrow> length ls' \<le> 1" "m_statements w = m_statements u" "same_tables (view (m_mysql w)) (view (m_mysql u))"
    and t: "t = w\<lparr>m_mysql := mysql_stmt_free_result api h (m_mysql w)\<rparr>"
    using u(2) w by (auto simp: finallyS_def fetch_rows_def fetched_def bindS_def eff_apply checkError_eq split: prod.splits sum.splits if_splits)
  have "ready view t" "tables view t = tables view m"
    using s(1,2) res(3,4) unfolding ready_def tables_def t same_tables_def by (simp_all add: free_view)
  with res ls'(2) show ?thesis by simp
qed

end

end
