(* ===== verification/Mysql_Spec.thy ===== *)
theory Mysql_Spec
  imports Mysql_Safety
begin

text \<open>
  The MySQL database as an implementation of the abstract lease database of \<open>Lease_Spec\<close>: the answers it gives are those of
  the map of stored leases whatever calls of the client library fail, and over a connection that does not fail it
  gives all of them.
\<close>

section \<open>Operations\<close>

fun my_lookup4 :: "'d MYSQL \<Rightarrow> os \<Rightarrow> client4 \<Rightarrow> ('d MySqlLeaseMgr, Lease4 option) eff" where
  "my_lookup4 api os (ByHwaddr hwaddr subnet_id) = my_getLease4_hwaddr_subnet api os hwaddr subnet_id"
| "my_lookup4 api os (ByClientId client_id subnet_id) = my_getLease4_clientid_subnet api os client_id subnet_id"

text \<open>A lease that was looked up is a copy: assigning to it does not reach the database before the update.\<close>

fun my_perform :: "'d MYSQL \<Rightarrow> os \<Rightarrow> db_op \<Rightarrow> ('d MySqlLeaseMgr, db_answer) eff" where
  "my_perform api os (Get a) = bindS (my_getLease4 api os a) (\<lambda>l. retS (Found l))"
| "my_perform api os (Lookup k) = bindS (my_lookup4 api os k) (\<lambda>l. retS (Found l))"
| "my_perform api os (Add l) = bindS (my_addLease4 api os l) (\<lambda>b. retS (Done b))"
| "my_perform api os (Renew l) = bindS (my_updateLease4 api os l) (\<lambda>_. retS (Done True))"
| "my_perform api os (Delete a) = bindS (my_deleteLease api os a) (\<lambda>b. retS (Done b))"

fun my_perform_all :: "'d MYSQL \<Rightarrow> os \<Rightarrow> db_op list \<Rightarrow> ('d MySqlLeaseMgr, db_answer list) eff" where
  "my_perform_all api os [] = retS []"
| "my_perform_all api os (op # ops) =
     bindS (my_perform api os op) (\<lambda>a. bindS (my_perform_all api os ops) (\<lambda>as. retS (a # as)))"

fun stored_op :: "db_op \<Rightarrow> db_op" where
  "stored_op (Add l) = Add (stored4 l)"
| "stored_op (Renew l) = Renew (stored4 l)"
| "stored_op op = op"

fun sendable_op :: "os \<Rightarrow> db_op \<Rightarrow> bool" where
  "sendable_op os (Add l) = sendable4 os l"
| "sendable_op os (Renew l) = sendable4 os l"
| "sendable_op os (Delete a) = isV4 a"
| "sendable_op os (Get a) = isV4 a"
| "sendable_op os _ = True"

section \<open>The leases in the table\<close>

definition table_leases :: "os \<Rightarrow> (MYSQL_TIME \<Rightarrow> bool) \<Rightarrow> db \<Rightarrow> Lease4 list \<Rightarrow> bool" where
  "table_leases os ts_ok T ls \<longleftrightarrow> T ''lease4'' = map (row4 os) ls \<and> distinct (map l_addr ls) \<and>
     (\<forall>l\<in>set ls. sendable4 os l \<and> stored4 l = l \<and> list_all2 (column_in_range ts_ok ''lease4'') columns4 (cells4 os l))"

definition holds_leases :: "os \<Rightarrow> (MYSQL_TIME \<Rightarrow> bool) \<Rightarrow> ('d \<Rightarrow> session) \<Rightarrow> 'd MySqlLeaseMgr \<Rightarrow> leases \<Rightarrow> bool" where
  "holds_leases os ts_ok view m L \<longleftrightarrow> ready view m \<and>
     (\<exists>ls. table_leases os ts_ok (tables view m) ls \<and> (\<forall>a l. L a = Some l \<longleftrightarrow> l \<in> set ls \<and> l_addr l = a))"

lemma outs4: "receives (exchange4 os) [OUT_LONG, OUT_BLOB 20, OUT_BLOB 128, OUT_LONG, OUT_TIMESTAMP, OUT_LONG]"
  by (simp add: receives_def exchange4_def createBindForReceive4_def MAX_HWADDR_LEN_def MAX_DUID_LEN_def)

lemma decodes4:
  assumes "sendable4 os l" "stored4 l = l"
  shows "decodes (exchange4 os) (cells4 os) l"
  unfolding decodes_def exchange4_def
  using getLeaseData4_cells [OF assms(1)] assms(2) by (auto split: prod.splits) (metis fst_conv)

lemma v4_word_inj: "isV4 a \<Longrightarrow> isV4 b \<Longrightarrow> v4_word a = v4_word b \<longleftrightarrow> a = b"
  by (cases a; cases b) simp_all

lemma matches_address:
  assumes "isV4 a" "sendable4 os l"
  shows "row_matches [''address''] [LONG (v4_word a)] (row4 os l) \<longleftrightarrow> l_addr l = a"
  using assms v4_word_inj [of "l_addr l" a] by (simp add: row_matches_def row4_column sendable4_def)

fun key_columns :: "client4 \<Rightarrow> string list" where
  "key_columns (ByHwaddr _ _) = [''hwaddr'', ''subnet_id'']"
| "key_columns (ByClientId _ _) = [''client_id'', ''subnet_id'']"

fun key_cells :: "client4 \<Rightarrow> cell list" where
  "key_cells (ByHwaddr h i) = [BLOB (hwaddr_bytes h), LONG i]"
| "key_cells (ByClientId c i) = [BLOB (clientid_bytes c), LONG i]"

lemma matches_key: "row_matches (key_columns k) (key_cells k) (row4 os l) \<longleftrightarrow> holds4 k l"
  by (cases k) (auto simp: row_matches_def row4_column clientid_cell_def ClientId.expand split: option.splits)

lemma types4:
  "column_has_type ''lease4'' ''address'' (LONG v)" "column_has_type ''lease4'' ''subnet_id'' (LONG v)"
  "column_has_type ''lease4'' ''hwaddr'' (BLOB b)" "column_has_type ''lease4'' ''client_id'' (BLOB b)"
  by (simp_all add: column_has_type_def column_type_def schema_lease4_def)

lemma key_types: "list_all2 (column_has_type ''lease4'') (key_columns k) (key_cells k)"
  by (cases k) (simp_all add: types4)

lemma filter_map_rows:
  assumes "\<And>x. x \<in> set xs \<Longrightarrow> P (f x) \<longleftrightarrow> Q x"
  shows "filter P (map f xs) = map f (filter Q xs)"
  using assms by (induction xs) auto

lemma filter_key_length:
  assumes "distinct (map f xs)" "y \<in> f ` set xs"
  shows "length (filter (\<lambda>x. f x = y) xs) = 1"
proof -
  have "filter (\<lambda>x. f x = y) xs = []" if "y \<notin> f ` set xs" for xs using that by (auto simp: filter_empty_conv)
  with assms show ?thesis by (induction xs) (auto simp: image_iff)
qed

lemma run_select4:
  assumes "table_leases os ts_ok T ls" "\<And>l. l \<in> set ls \<Longrightarrow> row_matches w ps (row4 os l) \<longleftrightarrow> P l"
  shows "run ts_ok (SqlSelect columns4 ''lease4'' w) ps T = Executed (map (cells4 os) (filter P ls)) (length (filter P ls)) T"
proof -
  have "filter (row_matches w ps) (T ''lease4'') = map (row4 os) (filter P ls)"
    using assms by (simp add: table_leases_def filter_map_rows)
  then show ?thesis by (simp add: comp_def row4_columns)
qed

lemma run_insert4:
  assumes "table_leases os ts_ok T ls" "sendable4 os l"
  shows "run ts_ok (SqlInsert ''lease4'' columns4) (cells4 os l) T =
    (if \<not> list_all2 (column_in_range ts_ok ''lease4'') columns4 (cells4 os l) then Refused
     else if l_addr l \<in> l_addr ` set ls then DupEntry
     else Executed [] 1 (T(''lease4'' := map (row4 os) (ls @ [stored4 l]))))"
proof -
  have "row4 os l ''address'' \<in> (\<lambda>r. r ''address'') ` set (map (row4 os) ls) \<longleftrightarrow> l_addr l \<in> l_addr ` set ls"
    using assms v4_word_inj by (fastforce simp: table_leases_def row4_column sendable4_def image_iff)
  then show ?thesis
    using assms(1) by (simp add: table_leases_def primary_key_def row4_def [symmetric])
qed

lemma run_delete4:
  assumes "table_leases os ts_ok T ls" "isV4 a"
  shows "run ts_ok (SqlDelete ''lease4'' [''address'']) [LONG (v4_word a)] T =
    Executed [] (length (filter (\<lambda>l. l_addr l = a) ls)) (T(''lease4'' := map (row4 os) (filter (\<lambda>l. l_addr l \<noteq> a) ls)))"
proof -
  have "filter (row_matches [''address''] [LONG (v4_word a)]) (T ''lease4'') = map (row4 os) (filter (\<lambda>l. l_addr l = a) ls)"
    "filter (\<lambda>r. \<not> row_matches [''address''] [LONG (v4_word a)] r) (T ''lease4'') = map (row4 os) (filter (\<lambda>l. l_addr l \<noteq> a) ls)"
    using assms matches_address [OF assms(2)] by (auto simp: table_leases_def intro!: filter_map_rows)
  then show ?thesis by simp
qed

definition renewed :: "Lease4 \<Rightarrow> Lease4 list \<Rightarrow> Lease4 list" where
  "renewed l ls = map (\<lambda>x. if l_addr x = l_addr l then stored4 l else x) ls"

lemma run_update4:
  assumes "table_leases os ts_ok T ls" "sendable4 os l"
  shows "run ts_ok (SqlUpdate ''lease4'' columns4 [''address'']) (cells4 os l @ [LONG (v4_word (l_addr l))]) T =
    (if l_addr l \<notin> l_addr ` set ls then Executed [] 0 T
     else if \<not> list_all2 (column_in_range ts_ok ''lease4'') columns4 (cells4 os l) then Refused
     else Executed [] 1 (T(''lease4'' := map (row4 os) (renewed l ls))))"
proof -
  have T: "T ''lease4'' = map (row4 os) ls" and d: "distinct (map l_addr ls)"
    and v4: "\<forall>x\<in>set ls. sendable4 os x" "isV4 (l_addr l)"
    using assms by (auto simp: table_leases_def sendable4_def)
  let ?match = "row_matches [''address''] [LONG (v4_word (l_addr l))]"
  have m: "?match (row4 os x) \<longleftrightarrow> l_addr x = l_addr l" if "x \<in> set ls" for x
    using that v4 matches_address by blast
  have found: "filter ?match (T ''lease4'') = map (row4 os) (filter (\<lambda>x. l_addr x = l_addr l) ls)"
    unfolding T by (rule filter_map_rows) (rule m)
  have rows: "map (\<lambda>r. if ?match r then set_columns columns4 (cells4 os l) r else r) (T ''lease4'') = map (row4 os) (renewed l ls)"
    using m by (auto simp: T renewed_def set_columns_row4)
  have addr: "map (\<lambda>r. r ''address'') (map (row4 os) (renewed l ls)) = map (\<lambda>x. LONG (v4_word x)) (map l_addr ls)"
    by (auto simp: renewed_def row4_column)
  have "inj_on (\<lambda>x. LONG (v4_word x)) (set (map l_addr ls))"
    using v4 v4_word_inj by (auto simp: inj_on_def sendable4_def)
  then have dist: "distinct (map (\<lambda>r. r ''address'') (map (row4 os) (renewed l ls)))"
    unfolding addr using d by (simp only: distinct_map)
  have len: "take (length columns4) (cells4 os l @ ps) = cells4 os l" "drop (length columns4) (cells4 os l @ ps) = ps" for ps
    by (simp_all add: columns4_def cells4_def)
  show ?thesis
  proof (cases "l_addr l \<in> l_addr ` set ls")
    case True
    then have "filter (\<lambda>x. l_addr x = l_addr l) ls \<noteq> []" by (auto simp: filter_empty_conv)
    with True filter_key_length [OF d True] dist show ?thesis
      unfolding run.simps Let_def len found rows by (simp add: primary_key_def del: map_map)
  next
    case False
    then have "filter (\<lambda>x. l_addr x = l_addr l) ls = []" unfolding filter_empty_conv by (metis imageI)
    with False show ?thesis unfolding run.simps Let_def len found by simp
  qed
qed

declare run.simps [simp del]

lemma table_insert:
  assumes "table_leases os ts_ok T ls" "sendable4 os l" "l_addr l \<notin> l_addr ` set ls"
    and "list_all2 (column_in_range ts_ok ''lease4'') columns4 (cells4 os l)"
  shows "table_leases os ts_ok (T(''lease4'' := map (row4 os) (ls @ [stored4 l]))) (ls @ [stored4 l])"
  using assms by (auto simp: table_leases_def)

lemma table_delete:
  assumes "table_leases os ts_ok T ls"
  shows "table_leases os ts_ok (T(''lease4'' := map (row4 os) (filter P ls))) (filter P ls)"
  using assms by (auto simp: table_leases_def distinct_map_filter)

lemma table_renew:
  assumes "table_leases os ts_ok T ls" "sendable4 os l"
    and "list_all2 (column_in_range ts_ok ''lease4'') columns4 (cells4 os l)"
  shows "table_leases os ts_ok (T(''lease4'' := map (row4 os) (renewed l ls))) (renewed l ls)"
proof -
  have "map l_addr (renewed l ls) = map l_addr ls" by (auto simp: renewed_def)
  then have "distinct (map l_addr (renewed l ls))" using assms(1) by (simp add: table_leases_def del: map_map)
  then show ?thesis using assms by (auto simp: table_leases_def renewed_def)
qed

lemma bindS_send4:
  assumes "sendable4 os l"
  obtains x where "\<And>f :: cell list \<Rightarrow> ('d MySqlLeaseMgr, 'b) eff. bindS (send4 os l) f m = f (cells4 os l) (m\<lparr>m_exchange4 := x\<rparr>)"
proof -
  obtain x where "createBindForSend4 os l (m_exchange4 m) = Inr (cells4 os l, x)"
    using createBindForSend4_cells assms unfolding sendable4_def by blast
  then have "bindS (send4 os l) f m = f (cells4 os l) (m\<lparr>m_exchange4 := x\<rparr>)" for f :: "cell list \<Rightarrow> ('d MySqlLeaseMgr, 'b) eff"
    by (simp add: bindS_def send4_def)
  then show ?thesis by (rule that)
qed

lemma exchange_frame [simp]:
  "ready view (m\<lparr>m_exchange4 := x\<rparr>) = ready view m" "tables view (m\<lparr>m_exchange4 := x\<rparr>) = tables view m"
  by (simp_all add: ready_def tables_def)

lemma holds_leasesE:
  assumes "holds_leases os ts_ok view m L"
  obtains ls where "ready view m" "table_leases os ts_ok (tables view m) ls" "\<And>a l. L a = Some l \<longleftrightarrow> l \<in> set ls \<and> l_addr l = a"
    "\<And>l. l \<in> set ls \<Longrightarrow> sendable4 os l" "\<And>a. L a = None \<longleftrightarrow> a \<notin> l_addr ` set ls"
proof -
  obtain ls where ls: "ready view m" "table_leases os ts_ok (tables view m) ls"
    and L: "\<And>a l. L a = Some l \<longleftrightarrow> l \<in> set ls \<and> l_addr l = a"
    using assms unfolding holds_leases_def by blast
  moreover have "L a = None \<longleftrightarrow> a \<notin> l_addr ` set ls" for a by (simp only: not_Some_eq [symmetric] L) (auto simp: image_iff)
  moreover have "\<And>l. l \<in> set ls \<Longrightarrow> sendable4 os l" using ls(2) by (auto simp: table_leases_def)
  ultimately show ?thesis using that by blast
qed

section \<open>Answers\<close>

context mysql_client
begin

lemma getLease_safe:
  assumes "ready view m" "table_leases os ts_ok (tables view m) ls" "sql_of i = SqlSelect columns4 ''lease4'' w"
    and "list_all2 (column_has_type ''lease4'') w ps" "\<And>l. l \<in> set ls \<Longrightarrow> row_matches w ps (row4 os l) \<longleftrightarrow> P l"
    and "getLease api i ps (exchange4 os) m = (Inr x, t)"
  shows "ready view t \<and> tables view t = tables view m \<and>
    (case x of None \<Rightarrow> \<forall>l\<in>set ls. \<not> P l | Some l \<Rightarrow> l \<in> set ls \<and> P l)"
proof -
  obtain res where res: "getLeaseCollection api i ps (exchange4 os) True m = (Inr res, t)"
    "x = (case res of [] \<Rightarrow> None | l # _ \<Rightarrow> Some l)"
    using assms(6) by (auto simp: getLease_def bindS_Inr eff_apply)
  have dec: "\<forall>l\<in>set (filter P ls). decodes (exchange4 os) (cells4 os) l"
    using assms(2) by (auto simp: table_leases_def intro: decodes4)
  have r: "run ts_ok (sql_of i) ps (tables view m) =
      Executed (map (cells4 os) (filter P ls)) (length (filter P ls)) (tables view m)"
    unfolding assms(3) by (rule run_select4 [OF assms(2,5)])
  have wt: "well_typed (sql_of i) ps" unfolding assms(3) using assms(4) by simp
  have s: "mset res = mset (filter P ls)" "ready view t" "tables view t = tables view m"
    using getLeaseCollection_safe [OF assms(1) wt outs4 dec r res(1)] by simp_all
  have "set res = set (filter P ls)" by (rule mset_eq_setD [OF s(1)])
  with s(2,3) res(2) show ?thesis by (cases res) (auto simp: filter_empty_conv)
qed

lemma my_perform_Get:
  assumes "holds_leases os ts_ok view m L" "sendable_op os (Get a)" "my_perform api os (Get a) m = (Inr x, t)"
  shows "holds_leases os ts_ok view t (abs_next (stored_op (Get a)) L) \<and> abs_answer (stored_op (Get a)) L x"
proof -
  obtain ls where ready: "ready view m" and ls: "table_leases os ts_ok (tables view m) ls"
    and L: "\<And>a l. L a = Some l \<longleftrightarrow> l \<in> set ls \<and> l_addr l = a"
    and sent: "\<And>l. l \<in> set ls \<Longrightarrow> sendable4 os l" and free: "\<And>a. L a = None \<longleftrightarrow> a \<notin> l_addr ` set ls"
    using assms(1) by (rule holds_leasesE) blast
  have v4: "isV4 a" using assms(2) by simp
  then obtain y where y: "getLease api GET_LEASE4_ADDR [LONG (v4_word a)] (exchange4 os) m = (Inr y, t)" "x = Found y"
    using assms(3) by (cases a) (auto simp: my_getLease4_def bindS_Inr eff_apply)
  have g: "ready view t \<and> tables view t = tables view m \<and>
      (case y of None \<Rightarrow> \<forall>l\<in>set ls. l_addr l \<noteq> a | Some l \<Rightarrow> l \<in> set ls \<and> l_addr l = a)"
    by (rule getLease_safe [OF ready ls _ _ _ y(1), where w = "[''address'']"]) (simp_all add: types4 matches_address [OF v4 sent])
  have "L a = y"
  proof (cases y)
    case None
    with g have "a \<notin> l_addr ` set ls" by auto
    with None free show ?thesis by simp
  qed (use g L in simp)
  with g y(2) ls L show ?thesis by (auto simp: holds_leases_def)
qed

lemma my_perform_Lookup:
  assumes "holds_leases os ts_ok view m L" "sendable_op os (Lookup k)" "my_perform api os (Lookup k) m = (Inr x, t)"
  shows "holds_leases os ts_ok view t (abs_next (stored_op (Lookup k)) L) \<and> abs_answer (stored_op (Lookup k)) L x"
proof -
  obtain ls where ready: "ready view m" and ls: "table_leases os ts_ok (tables view m) ls"
    and L: "\<And>a l. L a = Some l \<longleftrightarrow> l \<in> set ls \<and> l_addr l = a"
    and sent: "\<And>l. l \<in> set ls \<Longrightarrow> sendable4 os l" and free: "\<And>a. L a = None \<longleftrightarrow> a \<notin> l_addr ` set ls"
    using assms(1) by (rule holds_leasesE) blast
  obtain y where y: "my_lookup4 api os k m = (Inr y, t)" "x = Found y"
    using assms(3) by (auto simp: bindS_Inr eff_apply)
  obtain i where i: "sql_of i = SqlSelect columns4 ''lease4'' (key_columns k)" "getLease api i (key_cells k) (exchange4 os) m = (Inr y, t)"
    using y(1) by (cases k) (auto simp: my_getLease4_hwaddr_subnet_def my_getLease4_clientid_subnet_def intro: that [of GET_LEASE4_HWADDR_SUBID] that [of GET_LEASE4_CLIENTID_SUBID])
  have g: "ready view t \<and> tables view t = tables view m \<and>
      (case y of None \<Rightarrow> \<forall>l\<in>set ls. \<not> holds4 k l | Some l \<Rightarrow> l \<in> set ls \<and> holds4 k l)"
    by (rule getLease_safe [OF ready ls i(1) _ _ i(2)]) (simp_all add: key_types matches_key)
  have "ran L = set ls" using L by (auto simp: ran_def)
  with g y(2) ls L show ?thesis by (cases y) (auto simp: holds_leases_def)
qed

lemma my_perform_Add:
  assumes "holds_leases os ts_ok view m L" "sendable_op os (Add l)" "my_perform api os (Add l) m = (Inr x, t)"
  shows "holds_leases os ts_ok view t (abs_next (stored_op (Add l)) L) \<and> abs_answer (stored_op (Add l)) L x"
proof -
  obtain ls where ready: "ready view m" and ls: "table_leases os ts_ok (tables view m) ls"
    and L: "\<And>a l. L a = Some l \<longleftrightarrow> l \<in> set ls \<and> l_addr l = a"
    and sent: "\<And>l. l \<in> set ls \<Longrightarrow> sendable4 os l" and free: "\<And>a. L a = None \<longleftrightarrow> a \<notin> l_addr ` set ls"
    using assms(1) by (rule holds_leasesE) blast
  have l: "sendable4 os l" using assms(2) by simp
  obtain x0 where x0: "\<And>f :: cell list \<Rightarrow> ('d MySqlLeaseMgr, bool) eff. bindS (send4 os l) f m = f (cells4 os l) (m\<lparr>m_exchange4 := x0\<rparr>)"
    by (rule bindS_send4 [OF l]) blast
  obtain b where b: "addLeaseCommon api INSERT_LEASE4 (cells4 os l) (m\<lparr>m_exchange4 := x0\<rparr>) = (Inr b, t)" "x = Done b"
    using assms(3) by (auto simp: my_addLease4_def x0 bindS_Inr eff_apply)
  have s: "ready view t \<and> (if b then \<exists>rows n. run ts_ok (sql_of INSERT_LEASE4) (cells4 os l) (tables view m) = Executed rows n (tables view t)
      else run ts_ok (sql_of INSERT_LEASE4) (cells4 os l) (tables view m) = DupEntry \<and> tables view t = tables view m)"
    using addLeaseCommon_safe [OF _ _ b(1)] ready cells4_type [of os l] unfolding exchange_frame by (simp split: if_splits)
  show ?thesis
  proof (cases b)
    case True
    then have "l_addr l \<notin> l_addr ` set ls" "list_all2 (column_in_range ts_ok ''lease4'') columns4 (cells4 os l)"
      "tables view t = (tables view m)(''lease4'' := map (row4 os) (ls @ [stored4 l]))"
      using s run_insert4 [OF ls l] by (auto split: if_splits)
    moreover from this have "\<forall>x\<in>set ls. l_addr x \<noteq> l_addr l" by (metis imageI)
    ultimately show ?thesis using s True b(2) table_insert [OF ls l] L free [of "l_addr l"]
      by (auto simp: holds_leases_def intro!: exI [of _ "ls @ [stored4 l]"])
  next
    case False
    then have "l_addr l \<in> l_addr ` set ls" "tables view t = tables view m"
      using s run_insert4 [OF ls l] by (auto split: if_splits)
    then have "holds_leases os ts_ok view t L" "L (l_addr l) \<noteq> None"
      using s ls L free by (auto simp: holds_leases_def)
    then show ?thesis using False b(2) by auto
  qed
qed

lemma my_perform_Renew:
  assumes "holds_leases os ts_ok view m L" "sendable_op os (Renew l)" "my_perform api os (Renew l) m = (Inr x, t)"
  shows "holds_leases os ts_ok view t (abs_next (stored_op (Renew l)) L) \<and> abs_answer (stored_op (Renew l)) L x"
proof -
  obtain ls where ready: "ready view m" and ls: "table_leases os ts_ok (tables view m) ls"
    and L: "\<And>a l. L a = Some l \<longleftrightarrow> l \<in> set ls \<and> l_addr l = a"
    and sent: "\<And>l. l \<in> set ls \<Longrightarrow> sendable4 os l" and free: "\<And>a. L a = None \<longleftrightarrow> a \<notin> l_addr ` set ls"
    using assms(1) by (rule holds_leasesE) blast
  have l: "sendable4 os l" using assms(2) by simp
  have v4: "to_uint32 (l_addr l) = Inr (v4_word (l_addr l))" using l by (cases "l_addr l") (auto simp: sendable4_def)
  obtain x0 where x0: "\<And>f :: cell list \<Rightarrow> ('d MySqlLeaseMgr, unit) eff. bindS (send4 os l) f m = f (cells4 os l) (m\<lparr>m_exchange4 := x0\<rparr>)"
    by (rule bindS_send4 [OF l]) blast
  obtain a where a: "affect api UPDATE_LEASE4 (cells4 os l @ [LONG (v4_word (l_addr l))]) (m\<lparr>m_exchange4 := x0\<rparr>) = (Inr a, t)" "a \<noteq> 0" "x = Done True"
    using assms(3) by (auto simp: my_updateLease4_def x0 v4 updateLeaseCommon_affect bindS_Inr eff_apply split: if_splits)
  have "well_typed (sql_of UPDATE_LEASE4) (cells4 os l @ [LONG (v4_word (l_addr l))])"
    using cells4_type by (simp add: list_all2_appendI types4)
  with affect_safe [OF _ _ a(1)] ready obtain rows n where s: "ready view t"
    "run ts_ok (sql_of UPDATE_LEASE4) (cells4 os l @ [LONG (v4_word (l_addr l))]) (tables view m) = Executed rows n (tables view t)" "a = int n"
    by auto
  have "l_addr l \<in> l_addr ` set ls" "list_all2 (column_in_range ts_ok ''lease4'') columns4 (cells4 os l)"
    "tables view t = (tables view m)(''lease4'' := map (row4 os) (renewed l ls))"
    using s(2,3) a(2) run_update4 [OF ls l] by (auto split: if_splits)
  with s(1) a(3) table_renew [OF ls l] L show ?thesis
    by (auto simp: holds_leases_def renewed_def intro!: exI [of _ "renewed l ls"])
qed

lemma my_perform_Delete:
  assumes "holds_leases os ts_ok view m L" "sendable_op os (Delete a)" "my_perform api os (Delete a) m = (Inr x, t)"
  shows "holds_leases os ts_ok view t (abs_next (stored_op (Delete a)) L) \<and> abs_answer (stored_op (Delete a)) L x"
proof -
  obtain ls where ready: "ready view m" and ls: "table_leases os ts_ok (tables view m) ls"
    and L: "\<And>a l. L a = Some l \<longleftrightarrow> l \<in> set ls \<and> l_addr l = a"
    and sent: "\<And>l. l \<in> set ls \<Longrightarrow> sendable4 os l" and free: "\<And>a. L a = None \<longleftrightarrow> a \<notin> l_addr ` set ls"
    using assms(1) by (rule holds_leasesE) blast
  have v4: "isV4 a" using assms(2) by simp
  then obtain c where c: "affect api DELETE_LEASE4 [LONG (v4_word a)] m = (Inr c, t)" "x = Done (c > 0)"
    using assms(3) by (cases a) (auto simp: my_deleteLease_def deleteLeaseCommon_affect bindS_Inr eff_apply)
  obtain rows n where s: "ready view t" "run ts_ok (sql_of DELETE_LEASE4) [LONG (v4_word a)] (tables view m) = Executed rows n (tables view t)" "c = int n"
    using affect_safe [OF ready _ c(1)] by (auto simp: types4)
  then have "n = length (filter (\<lambda>l. l_addr l = a) ls)"
    "tables view t = (tables view m)(''lease4'' := map (row4 os) (filter (\<lambda>l. l_addr l \<noteq> a) ls))"
    using run_delete4 [OF ls v4] by auto
  moreover have "length (filter (\<lambda>l. l_addr l = a) ls) > 0 \<longleftrightarrow> L a \<noteq> None" using free [of a] by (auto simp: filter_empty_conv)
  ultimately show ?thesis
    using s(1,3) c(2) table_delete [OF ls] L
    by (auto simp: holds_leases_def intro!: exI [of _ "filter (\<lambda>l. l_addr l \<noteq> a) ls"])
qed

lemma my_perform_safe:
  assumes "holds_leases os ts_ok view m L" "sendable_op os op" "my_perform api os op m = (Inr x, t)"
  shows "holds_leases os ts_ok view t (abs_next (stored_op op) L) \<and> abs_answer (stored_op op) L x"
proof (cases op)
  case (Get y)
  show ?thesis using assms unfolding Get by (rule my_perform_Get)
next
  case (Lookup y)
  show ?thesis using assms unfolding Lookup by (rule my_perform_Lookup)
next
  case (Add y)
  show ?thesis using assms unfolding Add by (rule my_perform_Add)
next
  case (Renew y)
  show ?thesis using assms unfolding Renew by (rule my_perform_Renew)
next
  case (Delete y)
  show ?thesis using assms unfolding Delete by (rule my_perform_Delete)
qed

lemma my_perform_all_safe:
  assumes "holds_leases os ts_ok view m L" "list_all (sendable_op os) ops" "my_perform_all api os ops m = (Inr xs, t)"
  shows "holds_leases os ts_ok view t (fold abs_next (map stored_op ops) L) \<and> abs_answers (map stored_op ops) L xs"
  using assms
proof (induction ops arbitrary: m L xs)
  case Nil
  then show ?case by (simp add: eff_apply)
next
  case (Cons op ops)
  obtain y u ys where u: "my_perform api os op m = (Inr y, u)" "my_perform_all api os ops u = (Inr ys, t)" "xs = y # ys"
    using Cons.prems(3) by (auto simp: bindS_Inr eff_apply)
  have "holds_leases os ts_ok view u (abs_next (stored_op op) L)" "abs_answer (stored_op op) L y"
    using my_perform_safe [OF Cons.prems(1) _ u(1)] Cons.prems(2) by auto
  with Cons.IH [OF _ _ u(2)] Cons.prems(2) u(3) show ?case by simp
qed

end

section \<open>A connection that does not fail\<close>

context reliable_client
begin

lemma affect_ok:
  assumes "ready view m" "well_typed (sql_of i) ps" "run ts_ok (sql_of i) ps (tables view m) = Executed rows n T"
  shows "\<exists>t. affect api i ps m = (Inr (int n), t)"
proof -
  obtain h where h: "statement i m = (Inr h, m)" "v_prepared (view (m_mysql m)) h = Some (sql_text (sql_of i))"
    using ready_statement [OF assms(1)] by blast
  let ?m1 = "m\<lparr>m_mysql := snd (mysql_stmt_bind_param api h ps (m_mysql m))\<rparr>"
  have ok: "fst (mysql_stmt_bind_param api h ps (m_mysql m)) = 0" using bind_param_ok h(2) by simp
  note b = bind_param [OF assms(1) ok]
  have "fst (mysql_stmt_execute api h (m_mysql ?m1)) = 0"
    by (rule execute_ok [of _ h i rows n T]) (use b(1) h(2) assms(3) in \<open>simp_all add: tables_def\<close>)
  then have "\<exists>a t. affect api i ps m = (Inr a, t)"
    using ok by (simp add: affect_def bindS_statement [OF h(1)] eff_simps)
  then show ?thesis using affect_safe [OF assms(1,2)] assms(3) by fastforce
qed

lemma addLeaseCommon_ok:
  assumes "ready view m" "well_typed (sql_of i) ps" "run ts_ok (sql_of i) ps (tables view m) \<noteq> Refused"
  shows "\<exists>b t. addLeaseCommon api i ps m = (Inr b, t)"
proof -
  obtain h where h: "statement i m = (Inr h, m)" "v_prepared (view (m_mysql m)) h = Some (sql_text (sql_of i))"
    using ready_statement [OF assms(1)] by blast
  let ?m1 = "m\<lparr>m_mysql := snd (mysql_stmt_bind_param api h ps (m_mysql m))\<rparr>"
  have ok: "fst (mysql_stmt_bind_param api h ps (m_mysql m)) = 0" using bind_param_ok h(2) by simp
  note b = bind_param [OF assms(1) ok]
  have p: "v_prepared (view (m_mysql ?m1)) h = Some (sql_text (sql_of i))" "v_bound (view (m_mysql ?m1)) h = ps"
    "v_tables (view (m_mysql ?m1)) = tables view m"
    using b(1) h(2) by (simp_all add: tables_def)
  have "fst (mysql_stmt_execute api h (m_mysql ?m1)) = 0 \<or>
      mysql_errno api (snd (mysql_stmt_execute api h (m_mysql ?m1))) = ER_DUP_ENTRY"
  proof (cases "run ts_ok (sql_of i) ps (tables view m)")
    case DupEntry
    with p execute_refused [of "m_mysql ?m1" h i] show ?thesis by (metis prod.collapse)
  next
    case (Executed rows n T)
    with p execute_ok [of "m_mysql ?m1" h i] show ?thesis by simp
  qed (use assms(3) in simp)
  then show ?thesis using ok by (auto simp: addLeaseCommon_def bindS_statement [OF h(1)] eff_simps)
qed

lemma select_ok:
  assumes "ready view m" "well_typed (sql_of i) ps" "receives ex outs" "run ts_ok (sql_of i) ps (tables view m) = Executed rows n T"
  shows "\<exists>h t. select api i ps ex m = (Inr h, t)"
proof -
  obtain h where h: "statement i m = (Inr h, m)" "v_prepared (view (m_mysql m)) h = Some (sql_text (sql_of i))"
    using ready_statement [OF assms(1)] by blast
  let ?m1 = "m\<lparr>m_mysql := snd (mysql_stmt_bind_param api h ps (m_mysql m))\<rparr>"
  obtain m2 where m2: "ex_receive ex ?m1 = (Inr outs, m2)" "m_mysql m2 = m_mysql ?m1"
    using assms(3) unfolding receives_def by blast
  let ?m3 = "m2\<lparr>m_mysql := snd (mysql_stmt_bind_result api h outs (m_mysql m2))\<rparr>"
  have ok: "fst (mysql_stmt_bind_param api h ps (m_mysql m)) = 0" using bind_param_ok h(2) by simp
  note b = bind_param [OF assms(1) ok]
  have ok2: "fst (mysql_stmt_bind_result api h outs (m_mysql m2)) = 0"
    using bind_result_ok [of "m_mysql m2" h outs] b(1) h(2) m2(2) by simp
  have v3: "view (m_mysql ?m3) = (view (m_mysql ?m1))\<lparr>v_outs := (v_outs (view (m_mysql ?m1)))(h := outs)\<rparr>"
    using bind_result_view [of h outs "m_mysql m2"] ok2 m2(2) by (simp add: prod_eq_iff)
  have "fst (mysql_stmt_execute api h (m_mysql ?m3)) = 0"
    by (rule execute_ok [of _ h i rows n T]) (unfold v3, use b(1) h(2) assms(4) in \<open>simp_all add: tables_def\<close>)
  then show ?thesis
    using ok ok2 by (simp add: select_def bindS_statement [OF h(1)] bindS_apply(1) [where m = "ex_receive ex", OF m2(1)] eff_simps store_ok)
qed

lemma fetch_loop_ok:
  assumes "\<forall>l\<in>set ls. decodes ex enc l \<and> list_all2 fits_out (v_outs (view (m_mysql m)) h) (enc l)"
    and "v_pending (view (m_mysql m)) h = map enc ls" "single \<longrightarrow> ls = [] \<or> n + int (length ls) \<le> 1"
  shows "\<exists>t. fetch_loop api h ex single n acc m = Some (Inr (acc @ ls, MYSQL_NO_DATA), t)"
  using assms
proof (induction ls arbitrary: m n acc)
  case Nil
  obtain st cells d where f: "mysql_stmt_fetch api h (m_mysql m) = ((st, cells), d)" by (metis surj_pair)
  with fetch_end [of "m_mysql m" h] Nil show ?case by (subst fetch_loop.simps) (simp add: MYSQL_NO_DATA_def)
next
  case (Cons l ls)
  obtain st cells d where f: "mysql_stmt_fetch api h (m_mysql m) = ((st, cells), d)" by (metis surj_pair)
  have st: "st = 0" using fetch_ok [of "m_mysql m" h "enc l" "map enc ls"] Cons.prems(1,2) f by simp
  have c: "cells = enc l" "view d = (view (m_mysql m))\<lparr>v_pending := (v_pending (view (m_mysql m)))(h := map enc ls)\<rparr>"
    using fetch_row [of "m_mysql m" h "enc l" "map enc ls" st cells d] f st Cons.prems(2) by (auto simp: MYSQL_DATA_TRUNCATED_def)
  have "decodes ex enc l" using Cons.prems(1) by simp
  then obtain m' where m': "ex_getLeaseData ex (enc l) (m\<lparr>m_mysql := d\<rparr>) = (Inr l, m')" "m_mysql m' = m_mysql (m\<lparr>m_mysql := d\<rparr>)"
    unfolding decodes_def by blast
  let ?n = "if single then n + 1 else n"
  have "fetch_loop api h ex single n acc m = fetch_loop api h ex single ?n (acc @ [l]) m'"
    using Cons.prems(3) by (subst fetch_loop.simps) (auto simp: f st c(1) m'(1))
  moreover have "\<exists>t. fetch_loop api h ex single ?n (acc @ [l]) m' = Some (Inr ((acc @ [l]) @ ls, MYSQL_NO_DATA), t)"
    by (rule Cons.IH) (use Cons.prems c(2) m'(2) in auto)
  ultimately show ?case by simp
qed

lemma getLeaseCollection_ok:
  assumes "ready view m" "well_typed (sql_of i) ps" "receives ex outs"
    and "\<forall>l\<in>set ls. decodes ex enc l \<and> list_all2 fits_out outs (enc l)"
    and "run ts_ok (sql_of i) ps (tables view m) = Executed (map enc ls) k (tables view m)" "single \<longrightarrow> length ls \<le> 1"
  shows "\<exists>res t. getLeaseCollection api i ps ex single m = (Inr res, t)"
proof -
  obtain h u where u: "select api i ps ex m = (Inr h, u)" using select_ok [OF assms(1,2,3,5)] by blast
  have s: "v_outs (view (m_mysql u)) h = outs" "mset (v_pending (view (m_mysql u)) h) = mset (map enc ls)"
    using select_safe [OF assms(1,2,3) u] assms(5) by auto
  obtain ls' where ls': "v_pending (view (m_mysql u)) h = map enc ls'" "mset ls' = mset ls"
    using mset_map_arrange [OF s(2)] by blast
  have eq: "set ls' = set ls" "length ls' = length ls" using mset_eq_setD [OF ls'(2)] mset_eq_length [OF ls'(2)] by simp_all
  have "\<exists>t. fetch_loop api h ex single 0 [] u = Some (Inr ([] @ ls', MYSQL_NO_DATA), t)"
    by (rule fetch_loop_ok [OF _ ls'(1)]) (use assms(4,6) eq s(1) in auto)
  then show ?thesis
    using u by (auto simp: getLeaseCollection_select bindS_def finallyS_def fetch_rows_def fetched_def eff_apply
        MYSQL_NO_DATA_def MYSQL_DATA_TRUNCATED_def)
qed

end

end
