(* ===== verification/Mysql_Refines.thy ===== *)
theory Mysql_Refines
  imports Mysql_Spec
begin

text \<open>
  An opened MySQL lease database has its statements prepared, in a strict session that counts found rows; from there its
  answers are those of the abstract lease database.
\<close>

section \<open>Opening the database\<close>

definition prepared_for :: "('d \<Rightarrow> session) \<Rightarrow> StatementIndex set \<Rightarrow> 'd MySqlLeaseMgr \<Rightarrow> bool" where
  "prepared_for view I m \<longleftrightarrow> v_strict (view (m_mysql m)) \<and> v_found_rows (view (m_mysql m)) \<and>
     length (m_statements m) = NUM_STATEMENTS \<and>
     (\<forall>i\<in>I. \<exists>h. m_statements m ! statement_number i = Some h \<and>
        v_prepared (view (m_mysql m)) h = Some (sql_text (sql_of i)))"

lemma ready_prepared: "ready view m \<longleftrightarrow> prepared_for view (set all_statements) m"
  using all_statements unfolding ready_def prepared_for_def by blast

context mysql_client
begin

lemma prepareStatement_prepared:
  assumes "prepared_for view I m" "prepareStatement api (i, sql_text (sql_of i)) m = (Inr u, t)"
  shows "prepared_for view (insert i I) t"
proof -
  let ?m1 = "m\<lparr>m_text_statements := (m_text_statements m)[statement_number i := sql_text (sql_of i)]\<rparr>"
  obtain h d1 where init: "mysql_stmt_init api (m_mysql m) = (Some h, d1)"
    and free: "m_statements m ! statement_number i = None"
    and prep: "fst (mysql_stmt_prepare api h (sql_text (sql_of i)) d1) = 0"
    and t: "t = ?m1\<lparr>m_statements := (m_statements m)[statement_number i := Some h],
       m_mysql := snd (mysql_stmt_prepare api h (sql_text (sql_of i)) d1)\<rparr>"
    using assms(2) by (cases "mysql_stmt_init api (m_mysql m)")
      (auto simp: prepareStatement_def Let_def eff_simps split: if_splits option.splits sum.splits)
  have v: "v_prepared (view (m_mysql m)) h = None" "view d1 = view (m_mysql m)"
    using init_view [OF init] by simp_all
  have vt: "view (m_mysql t) = (view (m_mysql m))\<lparr>v_prepared := (v_prepared (view (m_mysql m)))(h \<mapsto> sql_text (sql_of i))\<rparr>"
    using prepare_view [of h "sql_text (sql_of i)" d1] prep v(2) by (simp add: t prod_eq_iff)
  have other: "\<exists>g. m_statements t ! statement_number j = Some g \<and> v_prepared (view (m_mysql t)) g = Some (sql_text (sql_of j))"
    if j: "j \<in> I" for j
  proof -
    obtain g where g: "m_statements m ! statement_number j = Some g" "v_prepared (view (m_mysql m)) g = Some (sql_text (sql_of j))"
      using assms(1) j unfolding prepared_for_def by blast
    then have "statement_number j \<noteq> statement_number i" "g \<noteq> h" using free v(1) by auto
    with g show ?thesis by (intro exI [of _ g]) (simp add: vt, simp add: t)
  qed
  have "statement_number i < length (m_statements m)"
    using assms(1) statement_number_less [of i] by (simp add: prepared_for_def)
  then have "\<exists>g. m_statements t ! statement_number i = Some g \<and> v_prepared (view (m_mysql t)) g = Some (sql_text (sql_of i))"
    by (intro exI [of _ h]) (simp add: vt, simp add: t)
  moreover have "v_strict (view (m_mysql t))" "v_found_rows (view (m_mysql t))" "length (m_statements t) = NUM_STATEMENTS"
    using assms(1) by (simp_all add: prepared_for_def vt) (simp add: t)
  ultimately show ?thesis using other unfolding prepared_for_def by blast
qed

lemma foldS_prepared:
  assumes "prepared_for view I m" "foldS (\<lambda>st _. prepareStatement api st) (map (\<lambda>i. (i, sql_text (sql_of i))) is) () m = (Inr u, t)"
  shows "prepared_for view (I \<union> set is) t"
  using assms
proof (induction "is" arbitrary: I m)
  case Nil
  then show ?case by (simp add: eff_apply)
next
  case (Cons i "is")
  obtain u' m' where m': "prepareStatement api (i, sql_text (sql_of i)) m = (Inr u', m')"
    "foldS (\<lambda>st _. prepareStatement api st) (map (\<lambda>i. (i, sql_text (sql_of i))) is) () m' = (Inr u, t)"
    using Cons.prems(2) by (auto simp: bindS_Inr)
  from Cons.IH [OF prepareStatement_prepared [OF Cons.prems(1) m'(1)] m'(2)] show ?case by simp
qed

lemma openDatabase_session:
  assumes "openDatabase api m = (Inr u, t)"
  shows "v_strict (view (m_mysql t)) \<and> v_found_rows (view (m_mysql t))"
proof -
  let ?d1 = "snd (mysql_options api (MYSQL_OPT_RECONNECT True) (m_mysql m))"
  let ?r2 = "mysql_options api (MYSQL_INIT_COMMAND strict_mode) ?d1"
  obtain host user password name where c: "fst ?r2 = 0"
    "fst (mysql_real_connect api host user password name CLIENT_FOUND_ROWS (snd ?r2))"
    "m_mysql t = snd (mysql_real_connect api host user password name CLIENT_FOUND_ROWS (snd ?r2))"
    using assms by (auto simp: openDatabase_def Let_def eff_simps split: sum.splits if_splits)
  have "MYSQL_INIT_COMMAND strict_mode \<in> v_options (view (snd ?r2))"
    using options_view [of "MYSQL_INIT_COMMAND strict_mode" ?d1 "snd ?r2"] c(1) by (simp add: prod_eq_iff)
  with connect_view [of host user password name CLIENT_FOUND_ROWS "snd ?r2" "m_mysql t"] c(2,3) show ?thesis
    by (simp add: prod_eq_iff CLIENT_FOUND_ROWS_def)
qed

lemma opened_ready:
  assumes "mk_MySqlLeaseMgr api memory4 memory6 parameters d = Inr m"
  shows "ready view m"
proof -
  let ?m0 = "\<lambda>d. \<lparr>m_parameters = parameters, m_exchange4 = memory4, m_exchange6 = memory6, m_mysql = d, m_statements = [],
       m_text_statements = []\<rparr>"
  obtain d0 m1 m3 where m: "openDatabase api (?m0 d0) = (Inr (), m1)" "fst (mysql_autocommit api True (m_mysql m1)) = 0"
    "prepareStatements api (m1\<lparr>m_mysql := snd (mysql_autocommit api True (m_mysql m1))\<rparr>) = (Inr (), m3)"
    "m_mysql m = m_mysql m3" "m_statements m = m_statements m3"
    using assms by (auto simp: mk_MySqlLeaseMgr_def bindS_def callS_def eff_apply split: prod.splits bool.splits sum.splits if_splits)
  let ?m2 = "m1\<lparr>m_mysql := snd (mysql_autocommit api True (m_mysql m1))\<rparr>"
  let ?m2' = "?m2\<lparr>m_statements := replicate NUM_STATEMENTS None, m_text_statements := replicate NUM_STATEMENTS []\<rparr>"
  have "view (m_mysql ?m2) = view (m_mysql m1)"
    using autocommit_view [of True "m_mysql m1"] m(2) by (simp add: prod_eq_iff)
  then have "prepared_for view {} ?m2'"
    using openDatabase_session [OF m(1)] by (simp add: prepared_for_def)
  moreover have "foldS (\<lambda>st _. prepareStatement api st) (map (\<lambda>i. (i, sql_text (sql_of i))) all_statements) () ?m2' = (Inr (), m3)"
    using m(3) unfolding prepareStatements_def tagged_statements_eq by (simp only: bindS_simps)
  ultimately have "prepared_for view ({} \<union> set all_statements) m3" by (rule foldS_prepared)
  then have "ready view m3" by (simp only: ready_prepared Un_empty_left)
  then show ?thesis using m(4,5) by (simp add: ready_def)
qed

end

section \<open>Leases the database refuses\<close>

context mysql_client
begin

lemma addLeaseCommon_refused:
  assumes "ready view m" "well_typed (sql_of i) ps" "run ts_ok (sql_of i) ps (tables view m) = Refused"
  shows "fst (addLeaseCommon api i ps m) = Inl DbOperationError"
proof (cases "addLeaseCommon api i ps m")
  case (Pair r t)
  show ?thesis
  proof (cases r)
    case (Inr b)
    then show ?thesis using addLeaseCommon_safe [OF assms(1,2)] Pair assms(3) by (auto split: if_splits)
  next
    case (Inl e)
    obtain h where h: "statement i m = (Inr h, m)" using ready_statement [OF assms(1)] by blast
    have "e = DbOperationError"
      using Pair Inl by (auto simp: addLeaseCommon_def bindS_statement [OF h] eff_simps split: if_splits)
    with Pair Inl show ?thesis by simp
  qed
qed

lemma addLease4_late:
  assumes "ready view m" "isV4 (l_addr l)" "\<not> ts_ok (convertToDatabaseTime os (l_cltt l) (l_valid_lft l))"
  shows "fst (my_addLease4 api os l m) = Inl DbOperationError"
proof -
  obtain x where x: "createBindForSend4 os l (m_exchange4 m) = Inr (cells4 os l, x)"
    using createBindForSend4_cells [OF assms(2)] by blast
  have "run ts_ok (sql_of INSERT_LEASE4) (cells4 os l) (tables view (m\<lparr>m_exchange4 := x\<rparr>)) = Refused"
    using assms(3) by (simp add: run.simps columns4_def cells4_def column_in_range_def column_type_def schema_lease4_def)
  then have "fst (addLeaseCommon api INSERT_LEASE4 (cells4 os l) (m\<lparr>m_exchange4 := x\<rparr>)) = Inl DbOperationError"
    by (intro addLeaseCommon_refused) (simp_all add: assms(1) cells4_type)
  then show ?thesis by (simp add: my_addLease4_def bindS_def send4_def x)
qed

end

section \<open>Every operation returns\<close>

text \<open>A lease that fits the columns of its table.\<close>

definition storable4 :: "os \<Rightarrow> (MYSQL_TIME \<Rightarrow> bool) \<Rightarrow> Lease4 \<Rightarrow> bool" where
  "storable4 os ts_ok l \<longleftrightarrow> sendable4 os l \<and> length (l4_hwaddr l) \<le> MAX_HWADDR_LEN \<and>
     ts_ok (convertToDatabaseTime os (l_cltt l) (l_valid_lft l))"

fun storable_op :: "os \<Rightarrow> (MYSQL_TIME \<Rightarrow> bool) \<Rightarrow> db_op \<Rightarrow> bool" where
  "storable_op os ts_ok (Add l) = storable4 os ts_ok l"
| "storable_op os ts_ok (Renew l) = storable4 os ts_ok l"
| "storable_op os ts_ok op = sendable_op os op"

definition single_keys :: "leases \<Rightarrow> bool" where
  "single_keys L \<longleftrightarrow> (\<forall>a b l l' k. L a = Some l \<longrightarrow> L b = Some l' \<longrightarrow> holds4 k l \<longrightarrow> holds4 k l' \<longrightarrow> a = b)"

lemma storable_sendable: "storable_op os ts_ok op \<Longrightarrow> sendable_op os op"
  by (cases op) (auto simp: storable4_def)

lemma storable_in_range:
  assumes "storable4 os ts_ok l"
  shows "list_all2 (column_in_range ts_ok ''lease4'') columns4 (cells4 os l)"
proof -
  have "in_range ts_ok (VARBINARY 128) (clientid_cell (l4_client_id l))"
    using assms by (auto simp: storable4_def sendable4_def clientid_cell_def MAX_DUID_LEN_def dest: mk_ClientId_len split: option.splits)
  with assms show ?thesis
    by (simp add: storable4_def columns4_def cells4_def column_in_range_def column_type_def schema_lease4_def MAX_HWADDR_LEN_def)
qed

lemma in_range_fits_out:
  assumes "list_all2 (column_in_range ts_ok ''lease4'') columns4 (cells4 os l)"
  shows "list_all2 fits_out [OUT_LONG, OUT_BLOB 20, OUT_BLOB 128, OUT_LONG, OUT_TIMESTAMP, OUT_LONG] (cells4 os l)"
  using assms
  by (auto simp: columns4_def cells4_def column_in_range_def column_type_def schema_lease4_def clientid_cell_def split: option.splits)

lemma single_keys_next:
  assumes "single_keys L" "admissible op L"
  shows "single_keys (abs_next op L)"
proof (cases op)
  case (Add l)
  with assms show ?thesis by (auto simp: single_keys_def ran_def)
next
  case (Renew l)
  then obtain old where old: "L (l_addr l) = Some old" "same_keys l old" using assms(2) by auto
  have "holds4 k l \<longleftrightarrow> holds4 k old" for k using old(2) by (cases k) (auto simp: same_keys_def)
  with old(1) assms(1) Renew show ?thesis by (auto simp: single_keys_def)
qed (use assms in \<open>auto simp: single_keys_def\<close>)

lemma same_key_length:
  assumes "distinct (map f xs)" "\<And>x y. x \<in> set xs \<Longrightarrow> y \<in> set xs \<Longrightarrow> f x = f y"
  shows "length xs \<le> 1"
proof (cases xs)
  case (Cons x ys)
  with assms(1) assms(2) [of x "hd ys"] show ?thesis by (cases ys) auto
qed simp

context reliable_client
begin

lemma getLease_ok:
  assumes "ready view m" "table_leases os ts_ok (tables view m) ls" "sql_of i = SqlSelect columns4 ''lease4'' w"
    and "list_all2 (column_has_type ''lease4'') w ps" "\<And>l. l \<in> set ls \<Longrightarrow> row_matches w ps (row4 os l) \<longleftrightarrow> P l"
    and "length (filter P ls) \<le> 1"
  shows "\<exists>x t. getLease api i ps (exchange4 os) m = (Inr x, t)"
proof -
  let ?outs = "[OUT_LONG, OUT_BLOB 20, OUT_BLOB 128, OUT_LONG, OUT_TIMESTAMP, OUT_LONG]"
  have dec: "\<forall>l\<in>set (filter P ls). decodes (exchange4 os) (cells4 os) l \<and> list_all2 fits_out ?outs (cells4 os l)"
    using assms(2) by (auto simp: table_leases_def intro: decodes4 in_range_fits_out)
  have r: "run ts_ok (sql_of i) ps (tables view m) =
      Executed (map (cells4 os) (filter P ls)) (length (filter P ls)) (tables view m)"
    unfolding assms(3) by (rule run_select4 [OF assms(2,5)])
  have wt: "well_typed (sql_of i) ps" unfolding assms(3) using assms(4) by simp
  have "\<exists>res t. getLeaseCollection api i ps (exchange4 os) True m = (Inr res, t)"
    by (rule getLeaseCollection_ok [OF assms(1) wt outs4 dec r]) (use assms(6) in simp)
  then show ?thesis by (auto simp: getLease_def bindS_def eff_apply)
qed

lemma my_perform_Get_ok:
  assumes "holds_leases os ts_ok view m L" "single_keys L" "storable_op os ts_ok (Get a)" "admissible (stored_op (Get a)) L"
  shows "\<exists>x t. my_perform api os (Get a) m = (Inr x, t)"
proof -
  obtain ls where ready: "ready view m" and ls: "table_leases os ts_ok (tables view m) ls"
    and L: "\<And>a l. L a = Some l \<longleftrightarrow> l \<in> set ls \<and> l_addr l = a" and sent: "\<And>l. l \<in> set ls \<Longrightarrow> sendable4 os l"
    using assms(1) by (rule holds_leasesE) blast
  have dist: "distinct (map l_addr ls)" using ls by (simp add: table_leases_def)
  have v4: "isV4 a" using assms(3) by simp
  have "length (filter (\<lambda>l. l_addr l = a) ls) \<le> 1"
    by (rule same_key_length [where f = l_addr]) (use dist in \<open>auto simp: distinct_map_filter\<close>)
  then have "\<exists>x t. getLease api GET_LEASE4_ADDR [LONG (v4_word a)] (exchange4 os) m = (Inr x, t)"
    by (intro getLease_ok [OF ready ls, where w = "[''address'']" and P = "\<lambda>l. l_addr l = a"])
      (simp_all add: types4 matches_address [OF v4 sent])
  with v4 show ?thesis by (cases a) (auto simp: my_getLease4_def bindS_def eff_apply)
qed

lemma my_perform_Lookup_ok:
  assumes "holds_leases os ts_ok view m L" "single_keys L" "storable_op os ts_ok (Lookup k)" "admissible (stored_op (Lookup k)) L"
  shows "\<exists>x t. my_perform api os (Lookup k) m = (Inr x, t)"
proof -
  obtain ls where ready: "ready view m" and ls: "table_leases os ts_ok (tables view m) ls"
    and L: "\<And>a l. L a = Some l \<longleftrightarrow> l \<in> set ls \<and> l_addr l = a" and sent: "\<And>l. l \<in> set ls \<Longrightarrow> sendable4 os l"
    using assms(1) by (rule holds_leasesE) blast
  have dist: "distinct (map l_addr ls)" using ls by (simp add: table_leases_def)
  have "length (filter (holds4 k) ls) \<le> 1"
    by (rule same_key_length [where f = l_addr])
      (use assms(2) dist L in \<open>auto simp: distinct_map_filter single_keys_def\<close>)
  then have "\<exists>x t. getLease api i (key_cells k) (exchange4 os) m = (Inr x, t)" if "sql_of i = SqlSelect columns4 ''lease4'' (key_columns k)" for i
    by (intro getLease_ok [OF ready ls that]) (simp_all add: key_types matches_key)
  then have "\<exists>x t. my_lookup4 api os k m = (Inr x, t)"
    by (cases k) (auto simp: my_getLease4_hwaddr_subnet_def my_getLease4_clientid_subnet_def)
  then show ?thesis by (auto simp: bindS_def eff_apply)
qed

lemma my_perform_Add_ok:
  assumes "holds_leases os ts_ok view m L" "single_keys L" "storable_op os ts_ok (Add l)" "admissible (stored_op (Add l)) L"
  shows "\<exists>x t. my_perform api os (Add l) m = (Inr x, t)"
proof -
  obtain ls where ready: "ready view m" and ls: "table_leases os ts_ok (tables view m) ls"
    and L: "\<And>a l. L a = Some l \<longleftrightarrow> l \<in> set ls \<and> l_addr l = a" and sent: "\<And>l. l \<in> set ls \<Longrightarrow> sendable4 os l"
    using assms(1) by (rule holds_leasesE) blast
  have dist: "distinct (map l_addr ls)" using ls by (simp add: table_leases_def)
  have l: "sendable4 os l" "list_all2 (column_in_range ts_ok ''lease4'') columns4 (cells4 os l)"
    using assms(3) storable_in_range by (auto simp: storable4_def)
  obtain x0 where x0: "\<And>f :: cell list \<Rightarrow> ('a MySqlLeaseMgr, bool) eff. bindS (send4 os l) f m = f (cells4 os l) (m\<lparr>m_exchange4 := x0\<rparr>)"
    by (rule bindS_send4 [OF l(1)]) blast
  have "run ts_ok (sql_of INSERT_LEASE4) (cells4 os l) (tables view (m\<lparr>m_exchange4 := x0\<rparr>)) \<noteq> Refused"
    using run_insert4 [OF ls l(1)] l(2) by simp
  then have "\<exists>b t. addLeaseCommon api INSERT_LEASE4 (cells4 os l) (m\<lparr>m_exchange4 := x0\<rparr>) = (Inr b, t)"
    by (intro addLeaseCommon_ok) (simp_all add: ready cells4_type)
  then have "\<exists>b t. my_addLease4 api os l m = (Inr b, t)" by (simp add: my_addLease4_def x0)
  then show ?thesis by (auto simp: bindS_def eff_apply)
qed

lemma my_perform_Renew_ok:
  assumes "holds_leases os ts_ok view m L" "single_keys L" "storable_op os ts_ok (Renew l)" "admissible (stored_op (Renew l)) L"
  shows "\<exists>x t. my_perform api os (Renew l) m = (Inr x, t)"
proof -
  obtain ls where ready: "ready view m" and ls: "table_leases os ts_ok (tables view m) ls"
    and L: "\<And>a l. L a = Some l \<longleftrightarrow> l \<in> set ls \<and> l_addr l = a" and sent: "\<And>l. l \<in> set ls \<Longrightarrow> sendable4 os l"
    using assms(1) by (rule holds_leasesE) blast
  have dist: "distinct (map l_addr ls)" using ls by (simp add: table_leases_def)
  have l: "sendable4 os l" "list_all2 (column_in_range ts_ok ''lease4'') columns4 (cells4 os l)"
    using assms(3) storable_in_range by (auto simp: storable4_def)
  have v4: "to_uint32 (l_addr l) = Inr (v4_word (l_addr l))" using l(1) by (cases "l_addr l") (auto simp: sendable4_def)
  obtain x0 where x0: "\<And>f :: cell list \<Rightarrow> ('a MySqlLeaseMgr, unit) eff. bindS (send4 os l) f m = f (cells4 os l) (m\<lparr>m_exchange4 := x0\<rparr>)"
    by (rule bindS_send4 [OF l(1)]) blast
  have "l_addr l \<in> l_addr ` set ls" using assms(4) L by (auto simp: image_iff) metis
  then have "run ts_ok (sql_of UPDATE_LEASE4) (cells4 os l @ [LONG (v4_word (l_addr l))]) (tables view (m\<lparr>m_exchange4 := x0\<rparr>)) =
      Executed [] 1 ((tables view m)(''lease4'' := map (row4 os) (renewed l ls)))"
    using run_update4 [OF ls l(1)] l(2) by simp
  then have "\<exists>t. affect api UPDATE_LEASE4 (cells4 os l @ [LONG (v4_word (l_addr l))]) (m\<lparr>m_exchange4 := x0\<rparr>) = (Inr (int 1), t)"
    by (intro affect_ok) (simp_all add: ready cells4_type list_all2_appendI types4)
  then have "\<exists>t. updateLeaseCommon api UPDATE_LEASE4 (cells4 os l @ [LONG (v4_word (l_addr l))]) (m\<lparr>m_exchange4 := x0\<rparr>) = (Inr (), t)"
    by (auto simp: updateLeaseCommon_affect bindS_def eff_apply)
  then have "\<exists>t. my_updateLease4 api os l m = (Inr (), t)" by (simp add: my_updateLease4_def x0 v4 eff_simps)
  then show ?thesis by (auto simp: bindS_def eff_apply)
qed

lemma my_perform_Delete_ok:
  assumes "holds_leases os ts_ok view m L" "single_keys L" "storable_op os ts_ok (Delete a)" "admissible (stored_op (Delete a)) L"
  shows "\<exists>x t. my_perform api os (Delete a) m = (Inr x, t)"
proof -
  obtain ls where ready: "ready view m" and ls: "table_leases os ts_ok (tables view m) ls"
    and L: "\<And>a l. L a = Some l \<longleftrightarrow> l \<in> set ls \<and> l_addr l = a" and sent: "\<And>l. l \<in> set ls \<Longrightarrow> sendable4 os l"
    using assms(1) by (rule holds_leasesE) blast
  have dist: "distinct (map l_addr ls)" using ls by (simp add: table_leases_def)
  have v4: "isV4 a" using assms(3) by simp
  have "\<exists>t. affect api DELETE_LEASE4 [LONG (v4_word a)] m = (Inr (int (length (filter (\<lambda>l. l_addr l = a) ls))), t)"
    by (rule affect_ok [OF ready]) (simp_all add: types4 run_delete4 [OF ls v4])
  with v4 show ?thesis by (cases a) (auto simp: my_deleteLease_def deleteLeaseCommon_affect bindS_def eff_apply)
qed

lemma my_perform_ok:
  assumes "holds_leases os ts_ok view m L" "single_keys L" "storable_op os ts_ok op" "admissible (stored_op op) L"
  shows "\<exists>x t. my_perform api os op m = (Inr x, t)"
proof (cases op)
  case (Get y)
  show ?thesis using assms unfolding Get by (rule my_perform_Get_ok)
next
  case (Lookup y)
  show ?thesis using assms unfolding Lookup by (rule my_perform_Lookup_ok)
next
  case (Add y)
  show ?thesis using assms unfolding Add by (rule my_perform_Add_ok)
next
  case (Renew y)
  show ?thesis using assms unfolding Renew by (rule my_perform_Renew_ok)
next
  case (Delete y)
  show ?thesis using assms unfolding Delete by (rule my_perform_Delete_ok)
qed

lemma my_perform_all_ok:
  assumes "holds_leases os ts_ok view m L" "single_keys L" "list_all (storable_op os ts_ok) ops" "admissible_all (map stored_op ops) L"
  shows "\<exists>xs t. my_perform_all api os ops m = (Inr xs, t)"
  using assms
proof (induction ops arbitrary: m L)
  case Nil
  then show ?case by (simp add: eff_apply)
next
  case (Cons op ops)
  have adm: "storable_op os ts_ok op" "admissible (stored_op op) L" using Cons.prems(3,4) by simp_all
  then obtain x u where u: "my_perform api os op m = (Inr x, u)" using my_perform_ok Cons.prems(1,2) by blast
  have "holds_leases os ts_ok view u (abs_next (stored_op op) L)"
    using my_perform_safe [OF Cons.prems(1) storable_sendable [OF adm(1)] u] by simp
  then have "\<exists>xs t. my_perform_all api os ops u = (Inr xs, t)"
    by (rule Cons.IH [OF _ single_keys_next [OF Cons.prems(2) adm(2)]]) (use Cons.prems(3,4) in simp_all)
  with u show ?case by (auto simp: bindS_def eff_apply)
qed

end

section \<open>The contract\<close>

lemma holds_empty:
  assumes "ready view m" "tables view m ''lease4'' = []"
  shows "holds_leases os ts_ok view m Map.empty"
  using assms by (auto simp: holds_leases_def table_leases_def)

text \<open>C16. Whatever calls of the client library fail: when a sequence of operations on an opened MySQL lease database
  returns, from an empty table, the answers are those of the map from addresses to stored leases, and the table holds exactly
  the leases of the map.\<close>

theorem mysql_answers:
  assumes "mysql_client api view ts_ok" "mk_MySqlLeaseMgr api memory4 memory6 parameters d = Inr m"
    and "tables view m ''lease4'' = []" "list_all (sendable_op os) ops" "my_perform_all api os ops m = (Inr xs, t)"
  shows "abs_answers (map stored_op ops) Map.empty xs \<and>
    holds_leases os ts_ok view t (fold abs_next (map stored_op ops) Map.empty)"
  using mysql_client.my_perform_all_safe [OF assms(1) holds_empty [OF mysql_client.opened_ready [OF assms(1,2)] assms(3)] assms(4,5)]
  by simp

text \<open>C15. Over a connection that does not fail, every sequence of operations that is admissible for the abstract lease
  database and whose leases fit the columns is carried out, with the answers of the abstract database on the stored leases.\<close>

theorem mysql_refines:
  assumes "reliable_client api view ts_ok" "mk_MySqlLeaseMgr api memory4 memory6 parameters d = Inr m"
    and "tables view m ''lease4'' = []" "list_all (storable_op os ts_ok) ops" "admissible_all (map stored_op ops) Map.empty"
  shows "\<exists>xs t. my_perform_all api os ops m = (Inr xs, t) \<and> abs_answers (map stored_op ops) Map.empty xs \<and>
    holds_leases os ts_ok view t (fold abs_next (map stored_op ops) Map.empty)"
proof -
  have c: "mysql_client api view ts_ok" using assms(1) by (simp add: reliable_client_def)
  have h: "holds_leases os ts_ok view m Map.empty"
    by (rule holds_empty [OF mysql_client.opened_ready [OF c assms(2)] assms(3)])
  obtain xs t where t: "my_perform_all api os ops m = (Inr xs, t)"
    using reliable_client.my_perform_all_ok [OF assms(1) h _ assms(4,5)] by (auto simp: single_keys_def)
  have "list_all (sendable_op os) ops" using assms(4) storable_sendable by (auto simp: list_all_iff)
  with mysql_client.my_perform_all_safe [OF c h _ t] t show ?thesis by blast
qed

text \<open>A lease whose expiry a \<^verbatim>\<open>TIMESTAMP\<close> column cannot hold, as with the infinite lifetime
  \<^verbatim>\<open>0xffffffff\<close>, is never added: the operation throws \<^verbatim>\<open>DbOperationError\<close>.\<close>

theorem late_expiry_refused:
  assumes "mysql_client api view ts_ok" "mk_MySqlLeaseMgr api memory4 memory6 parameters d = Inr m"
    and "isV4 (l_addr l)" "\<not> ts_ok (convertToDatabaseTime os (l_cltt l) (l_valid_lft l))"
  shows "fst (my_addLease4 api os l m) = Inl DbOperationError"
  by (rule mysql_client.addLease4_late [OF assms(1) mysql_client.opened_ready [OF assms(1,2)] assms(3,4)])

end
