(* ===== verification/Mysql_Examples.thy ===== *)
theory Mysql_Examples
  imports Mysql_Refines
begin

text \<open>
  A client library in memory, for which everything that is assumed of the library holds, and runs of the MySQL lease database on it.
\<close>

section \<open>A client library\<close>

text \<open>The state of the connection: the session, the number of the last error and the next statement handle.\<close>

type_synonym mem_conn = "session \<times> int \<times> nat"

definition statement_of :: "string \<Rightarrow> StatementIndex option" where
  "statement_of text = find (\<lambda>i. sql_text (sql_of i) = text) all_statements"

definition mem_execute :: "(MYSQL_TIME \<Rightarrow> bool) \<Rightarrow> nat \<Rightarrow> mem_conn \<Rightarrow> int \<times> mem_conn" where
  "mem_execute ts_ok h = (\<lambda>(s, e, n).
     case Option.bind (v_prepared s h) statement_of of
       None \<Rightarrow> (1, (s, 1243, n))
     | Some i \<Rightarrow>
         (case run ts_ok (sql_of i) (v_bound s h) (v_tables s) of
            Refused \<Rightarrow> (1, (s, 1264, n))
          | DupEntry \<Rightarrow> (1, (s, ER_DUP_ENTRY, n))
          | Executed rows k T \<Rightarrow>
              (0, (s\<lparr>v_tables := T, v_pending := (v_pending s)(h := rows), v_affected := (v_affected s)(h := int k)\<rparr>, 0, n))))"

definition mem_fetch :: "nat \<Rightarrow> mem_conn \<Rightarrow> (int \<times> cell list) \<times> mem_conn" where
  "mem_fetch h = (\<lambda>(s, e, n).
     case v_pending s h of
       [] \<Rightarrow> ((MYSQL_NO_DATA, []), (s, e, n))
     | r # rs \<Rightarrow>
         if list_all2 fits_out (v_outs s h) r then ((0, r), (s\<lparr>v_pending := (v_pending s)(h := rs)\<rparr>, e, n))
         else ((MYSQL_DATA_TRUNCATED, r), (s, e, n)))"

definition mem_api :: "(MYSQL_TIME \<Rightarrow> bool) \<Rightarrow> mem_conn MYSQL" where
  "mem_api ts_ok =
     \<lparr>mysql_init = (\<lambda>d. (True, d)),
      mysql_options = (\<lambda>opt (s, e, n). (0, (s\<lparr>v_options := insert opt (v_options s)\<rparr>, e, n))),
      mysql_real_connect = (\<lambda>host user password name flags (s, e, n). (True,
        (s\<lparr>v_strict := (MYSQL_INIT_COMMAND strict_mode \<in> v_options s), v_found_rows := bit flags 1\<rparr>, e, n))),
      mysql_autocommit = (\<lambda>b d. (0, d)),
      mysql_commit = (\<lambda>d. (0, d)),
      mysql_rollback = (\<lambda>d. (0, d)),
      mysql_errno = (\<lambda>(s, e, n). e),
      mysql_stmt_init = (\<lambda>(s, e, n). if v_prepared s n = None then (Some n, (s, e, n + 1)) else (None, (s, e, n))),
      mysql_stmt_prepare = (\<lambda>h text (s, e, n). (0, (s\<lparr>v_prepared := (v_prepared s)(h \<mapsto> text)\<rparr>, e, n))),
      mysql_stmt_close = (\<lambda>h (s, e, n). (s\<lparr>v_prepared := (v_prepared s)(h := None)\<rparr>, e, n)),
      mysql_stmt_bind_param = (\<lambda>h ps (s, e, n). (0, (s\<lparr>v_bound := (v_bound s)(h := ps)\<rparr>, e, n))),
      mysql_stmt_bind_result = (\<lambda>h outs (s, e, n). (0, (s\<lparr>v_outs := (v_outs s)(h := outs)\<rparr>, e, n))),
      mysql_stmt_execute = mem_execute ts_ok,
      mysql_stmt_store_result = (\<lambda>h d. (0, d)),
      mysql_stmt_fetch = mem_fetch,
      mysql_stmt_affected_rows = (\<lambda>h (s, e, n). v_affected s h),
      mysql_stmt_free_result = (\<lambda>h (s, e, n). (s\<lparr>v_pending := (v_pending s)(h := [])\<rparr>, e, n))\<rparr>"

lemma statement_of_text: "statement_of (sql_text (sql_of i)) = Some i"
  by (cases i) (simp_all add: statement_of_def where_text_def columns4_def columns6_def)

interpretation mem: reliable_client "mem_api ts_ok" fst ts_ok for ts_ok
  by unfold_locales
    (auto simp: mem_api_def mem_execute_def mem_fetch_def statement_of_text ER_DUP_ENTRY_def
      split: if_splits sql_result.splits list.splits option.splits)

section \<open>An example\<close>

text \<open>A calendar without leap years, in which every local time is unambiguous, and the text of one address.\<close>

definition example_localtime :: "int \<Rightarrow> tm" where
  "example_localtime t =
     \<lparr>tm_year = 70 + t div 86400 div 365, tm_mon = 0, tm_mday = t div 86400 mod 365 + 1, tm_hour = t div 3600 mod 24,
      tm_min = t div 60 mod 60, tm_sec = t mod 60, tm_isdst = 0\<rparr>"

definition example_mktime :: "tm \<Rightarrow> int" where
  "example_mktime b = (((tm_year b - 70) * 365 + (tm_mday b - 1)) * 24 + tm_hour b) * 3600 + tm_min b * 60 + tm_sec b"

definition example_os :: os where
  "example_os = \<lparr>localtime_r = example_localtime, mktime = example_mktime, time_now = 0,
     addr_text = (\<lambda>a. if a = IPv6 1 then ''::1'' else ''::''),
     addr_parse = (\<lambda>s. if s = ''::1'' then Inr (IPv6 1) else Inl IOError)\<rparr>"

definition before_2038 :: "MYSQL_TIME \<Rightarrow> bool" where
  "before_2038 t \<longleftrightarrow> 1970 \<le> mt_year t \<and> mt_year t < 2038"

definition example_session :: session where
  "example_session = \<lparr>v_tables = (\<lambda>_. []), v_prepared = Map.empty, v_bound = (\<lambda>_. []), v_outs = (\<lambda>_. []), v_pending = (\<lambda>_. []),
     v_affected = (\<lambda>_. 0), v_options = {}, v_strict = False, v_found_rows = False\<rparr>"

definition example_time :: MYSQL_TIME where
  "example_time = \<lparr>mt_year = 0, mt_month = 0, mt_day = 0, mt_hour = 0, mt_minute = 0, mt_second = 0, mt_second_part = 0, mt_neg = False\<rparr>"

definition example_memory4 :: MySqlLease4Exchange where
  "example_memory4 = \<lparr>x4_addr4 = 7, x4_hwaddr_buffer = replicate 20 7, x4_hwaddr_length = 7, x4_client_id_buffer = replicate 128 7,
     x4_client_id_length = 7, x4_client_id_null = True, x4_expire = example_time, x4_subnet_id = 7, x4_valid_lifetime = 7\<rparr>"

definition example_memory6 :: MySqlLease6Exchange where
  "example_memory6 = \<lparr>x6_addr6_buffer = replicate 40 (CHR ''x''), x6_addr6_length = 7, x6_duid_buffer = replicate 128 7, x6_duid_length = 7,
     x6_expire = example_time, x6_iaid = 7, x6_lease_type = 7, x6_prefixlen = 7, x6_pref_lifetime = 7, x6_subnet_id = 7,
     x6_valid_lifetime = 7\<rparr>"

abbreviation example_open :: "mem_conn MySqlLeaseMgr result" where
  "example_open \<equiv> mk_MySqlLeaseMgr (mem_api before_2038) example_memory4 example_memory6 [''name'' \<mapsto> ''leases''] (example_session, 0, 0)"

lemma example_opens: "\<exists>m. example_open = Inr m \<and> tables fst m ''lease4'' = []"
proof -
  have "case example_open of Inl _ \<Rightarrow> False | Inr m \<Rightarrow> length (tables fst m ''lease4'') = 0"
    by code_simp
  then show ?thesis by (auto split: sum.splits)
qed

definition example_ops :: "db_op list" where
  "example_ops = [Add example_lease4, Add example_lease4, Get (IPv4 0xc0000264), Delete (IPv4 0xc0000264), Get (IPv4 0xc0000264)]"

lemma example_ops_storable: "list_all (storable_op example_os before_2038) example_ops"
  by code_simp

lemma example_ops_admissible: "admissible_all (map stored_op example_ops) Map.empty"
  by (simp add: example_ops_def)

lemma example_ops_answers:
  "abs_answers (map stored_op example_ops) Map.empty xs \<longleftrightarrow>
     xs = [Done True, Done False, Found (Some (stored4 example_lease4)), Done True, Found None]"
  by (auto simp: example_ops_def)

theorem mysql_refines_witness:
  "\<exists>m t. example_open = Inr m \<and> my_perform_all (mem_api before_2038) example_os example_ops m =
     (Inr [Done True, Done False, Found (Some (stored4 example_lease4)), Done True, Found None], t)"
proof -
  obtain m where m: "example_open = Inr m" "tables fst m ''lease4'' = []" using example_opens by blast
  then show ?thesis
    using mysql_refines [OF mem.reliable_client_axioms m example_ops_storable example_ops_admissible] example_ops_answers by auto
qed

theorem mysql_answers_witness:
  "\<exists>m xs t. example_open = Inr m \<and> my_perform_all (mem_api before_2038) example_os example_ops m = (Inr xs, t) \<and>
     xs ! 2 = Found (Some (stored4 example_lease4))"
proof -
  obtain m where m: "example_open = Inr m" "tables fst m ''lease4'' = []" using example_opens by blast
  have "holds_leases example_os before_2038 fst m Map.empty" "single_keys Map.empty"
    by (rule holds_empty [OF mem.opened_ready [OF m(1)] m(2)]) (simp add: single_keys_def)
  then obtain xs t where t: "my_perform_all (mem_api before_2038) example_os example_ops m = (Inr xs, t)"
    using mem.my_perform_all_ok example_ops_storable example_ops_admissible by blast
  have "list_all (sendable_op example_os) example_ops"
    using example_ops_storable storable_sendable by (auto simp: list_all_iff)
  with mysql_answers [OF mem.mysql_client_axioms m _ t] example_ops_answers m(1) t show ?thesis by auto
qed

theorem late_expiry_refused_witness:
  "\<exists>m. example_open = Inr m \<and>
     fst (my_addLease4 (mem_api before_2038) example_os (example_lease4\<lparr>l_valid_lft := 0xffffffff\<rparr>) m) = Inl DbOperationError"
proof -
  obtain m where m: "example_open = Inr m" using example_opens by blast
  have "\<not> before_2038 (convertToDatabaseTime example_os (l_cltt (example_lease4\<lparr>l_valid_lft := 0xffffffff\<rparr>))
      (l_valid_lft (example_lease4\<lparr>l_valid_lft := 0xffffffff\<rparr>)))" "isV4 (l_addr (example_lease4\<lparr>l_valid_lft := 0xffffffff\<rparr>))"
    by code_simp+
  with late_expiry_refused [OF mem.mysql_client_axioms m] m show ?thesis by blast
qed

definition example_my_lease6 :: Lease6 where
  "example_my_lease6 = Lease.extend (mk_Lease (IPv6 1) 1000 2000 4000 1 500)
     (Lease6.fields LEASE_IA_PD 64 9 (Some (DUID [1, 2, 3])) 3000)"

theorem lease_rows_roundtrip_witness:
  "fst (getLeaseData4 example_os (receive4 (cells4 example_os example_lease4) example_memory4)) = Inr (stored4 example_lease4) \<and>
   fst (getLeaseData6 example_os (receive6 (cells6 example_os example_my_lease6) example_memory6)) = Inr (stored6 example_my_lease6)"
proof -
  have "sendable4 example_os example_lease4" "sendable6 example_os example_my_lease6"
    "length (x6_addr6_buffer example_memory6) = ADDRESS6_TEXT_MAX_LEN + 1"
    by code_simp+
  moreover from this obtain y4 y6 where "createBindForSend4 example_os example_lease4 example_memory4 = Inr (cells4 example_os example_lease4, y4)"
    "createBindForSend6 example_os example_my_lease6 example_memory6 = Inr (cells6 example_os example_my_lease6, y6)"
    using createBindForSend4_cells createBindForSend6_cells unfolding sendable4_def by blast
  ultimately show ?thesis using lease_rows_roundtrip by blast
qed

end
