(* ===== verification/Spec2Isabelle.thy ===== *)
theory Spec2Isabelle
  imports Dhcp4o6 Lease_Spec Iface_Sockets Cc_Examples Mysql_Examples
begin

text \<open>
  \<^bold>\<open>The DHCP servers of BIND 10 1.1.0 with DHCPv4 over DHCPv6.\<close>

  The repository extends the two DHCP servers of BIND 10 (\<^verbatim>\<open>src/bind10-1.1.0\<close>, below \<^verbatim>\<open>src/\<close>; all paths here are
  relative to that inner \<^verbatim>\<open>src\<close>) by the transport of DHCPv4 messages in DHCPv6 packets. This library models the
  path of a packet through both servers: the parsers and packers of \<^verbatim>\<open>lib/dhcp\<close>, the subnets, leases and allocation engine of
  \<^verbatim>\<open>lib/dhcpsrv\<close>, the handlers and loops of \<^verbatim>\<open>bin/dhcp4\<close> and \<^verbatim>\<open>bin/dhcp6\<close>, and the channels between the servers; and the
  path of a configuration from a message on the control channel, its JSON text and the module specification to the subnets,
  pools and options that the servers work on.

  \<^bold>\<open>Conventions.\<close> A function that throws returns \<open>exn + 'a\<close> (\<open>result\<close>, in \<open>Prelude\<close>); undefined behaviour of C++ (a null
  pointer, a read behind the end of a buffer, a violated precondition of a container) is a value of \<open>exn\<close> that is not an
  \<^verbatim>\<open>isc::Exception\<close> and that no handler of the code catches: the model ends there, while a build may go on with whatever it
  reads, so such a value says that the code left its defined behaviour and not what a particular build then does. A method that changes state is a computation of type
  \<open>('s, 'a) eff\<close> (\<open>Effects\<close>): it returns the state also when it throws, since what was written before an exception
  stays written. Machine integers are words of their width; containers are lists or maps with the order that the
  code depends on. Time, random bytes, system calls and what the kernel answers are parameters.

  \<^bold>\<open>The parts and their theories.\<close>
  \<^item> Bytes and addresses: \<open>IO_Address\<close> (\<^verbatim>\<open>io_utilities.h\<close>, \<^verbatim>\<open>io_address.cc\<close>), \<open>Buffer\<close> (\<^verbatim>\<open>util/buffer.h\<close>), \<open>Addr_Utilities\<close>
    (\<^verbatim>\<open>addr_utilities.cc\<close>): the first and last address of a prefix delimit exactly its block.
  \<^item> Domain names: \<open>Dns_Name\<close> (\<^verbatim>\<open>dns/name.cc\<close>, \<^verbatim>\<open>labelsequence.cc\<close>): what the wire parser accepts is well
    formed and prints; \<open>Name_Text\<close>: the text parser reads back what is printed.
  \<^item> Option definitions and options: \<open>Dhcp_Codes\<close>, \<open>Option_Def\<close>, \<open>Options\<close>, \<open>Option_Custom\<close> (\<^verbatim>\<open>option*.cc\<close>, \<^verbatim>\<open>libdhcp++.cc\<close>,
    \<^verbatim>\<open>std_option_defs.h\<close>); \<open>Options_Roundtrip\<close> and \<open>Options_Roundtrip4\<close> prove that packing and parsing invert each
    other and that the parsers stay inside their buffer. \<open>Option_Text\<close> builds options from the texts of a configuration,
    with \<^verbatim>\<open>util/strutil.cc\<close> and the base 16 decoder of \<^verbatim>\<open>util/encode\<close>: a field has the value its text names, if an address is of
    the family of the field.
  \<^item> Messages: \<open>Ids\<close>, \<open>Pkt4\<close>, \<open>Pkt6\<close> (\<^verbatim>\<open>duid.cc\<close>, \<^verbatim>\<open>hwaddr.cc\<close>, \<^verbatim>\<open>pkt4.cc\<close>, \<^verbatim>\<open>pkt6.cc\<close>), with round trips and the bound on relays.
  \<^item> Pools, subnets and configuration: \<open>Subnets\<close> (\<^verbatim>\<open>pool.cc\<close>, \<^verbatim>\<open>subnet.cc\<close>, \<^verbatim>\<open>triplet.h\<close>), \<open>Cfg_Mgr\<close> (\<^verbatim>\<open>cfgmgr.cc\<close>,
    \<^verbatim>\<open>option_space.cc\<close>): every configuration that can be built is well formed, and subnets and option
    definitions are found as they were added.
  \<^item> Configuration: \<open>Config_Data\<close> has the configuration elements (\<^verbatim>\<open>cc/data.cc\<close>), the storages, the shared option objects and the
    lease database factory; \<open>Config_Parser\<close> and \<open>Config_Parser6\<close> the parsers of \<^verbatim>\<open>bin/dhcp4/config_parser.cc\<close> and
    \<^verbatim>\<open>bin/dhcp6/config_parser.cc\<close> down to \<^verbatim>\<open>configureDhcp4Server\<close> and \<^verbatim>\<open>configureDhcp6Server\<close>. \<open>Config_Safety\<close> states in the locale
    \<open>server_config\<close> what the parser of a subnet has to provide and proves once what accepting and refusing a configuration
    does; \<open>Config_Safety4\<close> and \<open>Config_Safety6\<close> interpret it. A refused configuration keeps the subnets, their option objects
    up to further sub-options and the global parameters; it does not keep the lease database, the registered
    option definitions and the absence of those sub-options, which \<open>Config_Examples\<close> shows together with configurations
    that are wrongly refused or accepted.
  \<^item> JSON: \<open>Json\<close> has the parser and the operations on elements of \<^verbatim>\<open>cc/data.cc\<close>; \<open>Json_Roundtrip\<close> proves that the parser ends
    and reads back what is printed (but for keys that need escapes and floating point numbers that print as integers), \<open>Json_Merge\<close> that comparison is equality and what difference and merge of maps give.
  \<^item> The control channel: \<open>Module_Spec\<close> (\<^verbatim>\<open>config/module_spec.cc\<close>) checks specifications and validates against them, \<open>Module_Safety\<close>
    proves that a checked specification without items of any type, formats and doubly specified sets always gives a verdict; \<open>Cc_Session\<close> (\<^verbatim>\<open>config/config_data.cc\<close>, \<^verbatim>\<open>config/ccsession.cc\<close>,
    \<^verbatim>\<open>bin/dhcp4/ctrl_dhcp4_srv.cc\<close>, \<^verbatim>\<open>bin/dhcp6/ctrl_dhcp6_srv.cc\<close>) has the session, its messages and the handlers of the servers.
    \<open>Cc_Safety\<close> states in the locale \<open>configurable\<close> what a session relies on, interprets it for both servers, and proves that
    from the establishment of the session on, over any messages, a server has what the full configuration of its session
    configures, unless it refused the stored configuration and accepted none since. \<open>Dhcp_Specs\<close> has the
    specifications \<^verbatim>\<open>dhcp4.spec\<close> and \<^verbatim>\<open>dhcp6.spec\<close>, \<open>Cc_Examples\<close> sessions that run on them.
  \<^item> Leases: \<open>Lease_Mgr\<close> has the records and the virtual interface \<^verbatim>\<open>LeaseMgr\<close> as a record of operations with its contract as
    the locale \<open>lease_store\<close>; \<open>Memfile\<close> models \<^verbatim>\<open>memfile_lease_mgr.cc\<close> with its container indexes explicit and interprets
    the locale; \<open>Lease_Spec\<close> is the abstract database and the refinement of it by the in-memory one.
  \<^item> Leases in MySQL: \<open>Mysql_Api\<close> has the tables of \<^verbatim>\<open>dhcpdb_create.mysql\<close>, the SQL statements as texts and with their
    meaning, and the functions of the client library as a record of parameters, with what their documentation promises as
    the locales \<open>mysql_client\<close> (any call may fail) and \<open>reliable_client\<close> (none does); \<open>Mysql_Lease_Mgr\<close> models
    \<^verbatim>\<open>mysql_lease_mgr.cc\<close>. \<open>Mysql_Rows\<close> proves that a row holds a lease but for what it has no column for, \<open>Mysql_Safety\<close>
    what each operation does to the tables, \<open>Mysql_Spec\<close> and \<open>Mysql_Refines\<close> that an opened database refines the
    abstract one of \<open>Lease_Spec\<close> on stored leases. \<open>Mysql_Examples\<close> is a client library in memory for which the
    assumptions hold. The database does not meet the contract \<open>lease_store\<close>: it forgets T1, T2 and the host name of a lease.
  \<^item> Allocation: \<open>Alloc_Engine\<close> (\<^verbatim>\<open>alloc_engine.cc\<close>); \<open>Allocator\<close> (the iterative allocator is the cyclic
    enumeration of the pools), \<open>Alloc_Safety\<close> and \<open>Alloc_Safety6\<close> (a granted lease was the client's, free or
    expired; proved in the locales \<open>lease_db4\<close> and \<open>lease_db6\<close> over the contract and interpreted on the
    in-memory database), \<open>Alloc_Live\<close> (an available address is found; an exhausted pool ends the search),
    \<open>Alloc_State\<close> (the database after every outcome, exceptions included).
  \<^item> Interfaces: \<open>Iface_Mgr\<close> (\<^verbatim>\<open>iface_mgr.cc\<close>) and \<open>Iface_Sockets\<close>: which sockets are open and found.
  \<^item> The DHCPv4 server: \<open>Dhcp4_Srv\<close> (\<^verbatim>\<open>dhcp4_srv.cc\<close>) and \<open>Dhcp4_Safety\<close>: the invariant over any datagram, the leases behind
    OFFER and ACK, who may release, which clients are refused.
  \<^item> The DHCPv6 server: \<open>Dhcp6_Srv\<close> (\<^verbatim>\<open>dhcp6_srv.cc\<close>) and \<open>Dhcp6_Safety\<close>: the invariant over any packet, the leases behind
    ADVERTISE and REPLY, RENEW and RELEASE on every branch, messages that violate the RFC.
  \<^item> Both together: \<open>Dhcp4o6\<close> has the channels (\<^verbatim>\<open>send4to6\<close>, \<^verbatim>\<open>receive6to4\<close>, \<^verbatim>\<open>receive4to6\<close>), the step relation of the two
    servers, and its invariant: a response goes only to a client that asked with its transaction id, and
    at most once per query; collisions of transaction ids send an answer to the wrong client.

  \<^bold>\<open>State.\<close> \<open>Dhcpv4Srv\<close> and \<open>Dhcpv6Srv\<close> are the state of a server: its configuration (the singleton \<^verbatim>\<open>CfgMgr\<close>), its lease
  database (the singleton behind \<^verbatim>\<open>LeaseMgrFactory\<close>), its server id and, for DHCPv6, the queries
  that wait (\<^verbatim>\<open>map4o6\<close>) and the channel. A subnet is named by its position in the configuration; the position of the
  iterative allocator is part of the subnet, as in the code. A lease that the code holds by a shared pointer
  into the in-memory database is assigned by \<open>assign4\<close> and \<open>assign6\<close>, which change the stored lease too.

  \<^bold>\<open>Bounds and fuel.\<close> All recursions end by a measure, but for the search of the allocation engine with zero attempts, which
  the code runs without bound: it takes the fuel \<open>ae_fuel\<close>, and running out of it is the value \<open>OutOfFuel\<close>. The theorems on a
  granted lease hold for every fuel; that the search succeeds or ends is proved for a positive number of attempts,
  where no fuel is used. The three functions of the JSON parser call each other on the rest of the stream and take fuel;
  twice the length of the text and one is enough for every text, which is proved.
  The loop that fetches rows from MySQL goes on as long as the library gives rows: it is a partial function, and proved to end
  for a library that behaves as documented.

  \<^bold>\<open>Not modelled.\<close> Timestamps, logging, \<^verbatim>\<open>toText\<close> and the statistics; the conversion of a text to an address (asio) and to a number
  (Boost), which are the record \<open>externals\<close> of parameters, and of an IPv6 address and a time in the MySQL database, which are the record
  \<open>os\<close>; the MySQL client library and server beyond what the locale says of them; the detection of
  interfaces and the packet filters, which are system calls; the daemon's main program and the file with the server id; the transport of
  the control messages (\<^verbatim>\<open>cc/session.cc\<close>) and the configuration of the loggers; the DNS servers
  and the other modules of BIND 10, which share no state with the DHCP servers. The model of a stream socket is a
  queue of whole messages, each cut to the size of the read buffer. A value in a
  configuration map is never a null pointer, but in the full configuration of a session, where an item may have neither value
  nor default.
\<close>

end
